(* ===== verification/Tdsp_Prelude.thy ===== *)
theory Tdsp_Prelude
  imports Main "HOL-Library.Word" "HOL-Library.Monad_Syntax"
begin

text \<open>
  Shared vocabulary of the development: the machine integers of the i386 build (the only
  build whose private libraries are shipped, see the \<^verbatim>\<open>-m32\<close> of the build logs under
  \<^verbatim>\<open>src/driver_src\<close>), the kernel's error numbers, the little-endian image of an
  \<^verbatim>\<open>unsigned long\<close>, the user-memory accessors \<^verbatim>\<open>copy_to_user\<close> and
  \<^verbatim>\<open>copy_from_user\<close>, and generic lemmas on them.

  A function of the drivers that can crash the kernel (a dereference of NULL or of freed
  memory, an overrun of a stack object) returns an \<open>option\<close>: \<open>None\<close> is the crash,
  \<open>Some (r, s)\<close> the return value and the new state.
\<close>

unbundle bit_operations_syntax

named_theorems umem_simps \<open>evaluation of the user-memory accessors\<close>

section \<open>Machine integers and error numbers\<close>

type_synonym u8 = "8 word"
type_synonym u16 = "16 word"
type_synonym u32 = "32 word"
type_synonym addr = nat

abbreviation (input) EPERM :: int where "EPERM \<equiv> 1"
abbreviation (input) EIO :: int where "EIO \<equiv> 5"
abbreviation (input) ENOMEM :: int where "ENOMEM \<equiv> 12"
abbreviation (input) EFAULT :: int where "EFAULT \<equiv> 14"
abbreviation (input) EBUSY :: int where "EBUSY \<equiv> 16"
abbreviation (input) EEXIST :: int where "EEXIST \<equiv> 17"
abbreviation (input) ENODEV :: int where "ENODEV \<equiv> 19"
abbreviation (input) EINVAL :: int where "EINVAL \<equiv> 22"
abbreviation (input) EOPNOTSUPP :: int where "EOPNOTSUPP \<equiv> 95"
abbreviation (input) ENOTSUPP :: int where "ENOTSUPP \<equiv> 524"
abbreviation (input) E2BIG :: int where "E2BIG \<equiv> 7"
abbreviation (input) ESHUTDOWN :: int where "ESHUTDOWN \<equiv> 108"

text \<open>C's \<open>/\<close> on \<^verbatim>\<open>int\<close> truncates towards zero.\<close>

definition cdiv :: "int \<Rightarrow> int \<Rightarrow> int" where
  "cdiv a b = sgn a * sgn b * (\<bar>a\<bar> div \<bar>b\<bar>)"

lemma cdiv_nonneg: "0 \<le> a \<Longrightarrow> 0 < b \<Longrightarrow> cdiv a b = a div b"
  by (cases "a = 0") (auto simp: cdiv_def)

lemma cdiv_neg_small: "- b < a \<Longrightarrow> a < 0 \<Longrightarrow> 0 < b \<Longrightarrow> cdiv a b = 0"
  by (simp add: cdiv_def)

lemma ucast_ucast_u8 [simp]: "(ucast (ucast (x :: u8) :: u32) :: u8) = x"
  by (rule bit_word_eqI) (simp add: bit_simps)

lemma ucast_u8_u32_eq [simp]: "(ucast (x :: u8) = (ucast y :: u32)) = (x = y)"
proof
  assume "(ucast x :: u32) = ucast y"
  then have "(ucast (ucast x :: u32) :: u8) = ucast (ucast y :: u32)" by simp
  then show "x = y" by (metis ucast_ucast_u8)
qed simp

lemma ucast_u8_u32_0 [simp]: "(ucast (x :: u8) = (0 :: u32)) = (x = 0)"
  using ucast_u8_u32_eq [of x 0] by simp

lemma ucast_u8_u32_consts [simp]:
  "(ucast (x :: u8) = (1 :: u32)) = (x = 1)" "(ucast x = (2 :: u32)) = (x = 2)"
  "(ucast x = (4 :: u32)) = (x = 4)"
  using ucast_u8_u32_eq [of x 1] ucast_u8_u32_eq [of x 2] ucast_u8_u32_eq [of x 4] by simp_all

text \<open>Writing a field of bits, as the drivers do with masks and shifts.\<close>

lemma ucast_and_u8: "(ucast ((a :: u32) AND b) :: u8) = ucast a AND ucast b"
  by (rule bit_word_eqI) (auto simp: bit_simps)

lemma bit0_push_bit:
  "0 < k \<Longrightarrow> ((P AND NOT (push_bit k M)) OR push_bit k a) AND 1 = (P :: 'a::len word) AND 1"
  by (rule bit_word_eqI) (auto simp: bit_simps)

lemma drop_bit_write:
  assumes "k + n \<le> LENGTH('a)" "a AND mask n = (a :: 'a::len word)"
  shows "drop_bit k ((P AND NOT (push_bit k (mask n))) OR push_bit k a) AND mask n = a"
proof (rule bit_word_eqI)
  fix i assume "i < LENGTH('a)"
  have "bit a i \<Longrightarrow> i < n" using assms(2) by (metis bit_and_iff bit_mask_iff)
  then show "bit (drop_bit k ((P AND NOT (push_bit k (mask n))) OR push_bit k a) AND mask n) i
      = bit a i"
    using assms(1) by (auto simp: bit_simps)
qed

lemma drop_bit_low:
  "0 < k \<Longrightarrow> drop_bit k ((P AND NOT 1) OR (h AND 1)) = drop_bit k (P :: 'a::len word)"
  by (rule bit_word_eqI) (auto simp: bit_simps dest: bit_imp_le_length)

section \<open>The bytes of an unsigned long\<close>

definition le32 :: "u32 \<Rightarrow> u8 list" where
  "le32 x = [ucast x, ucast (drop_bit 8 x), ucast (drop_bit 16 x), ucast (drop_bit 24 x)]"

fun rd32 :: "u8 list \<Rightarrow> u32" where
  "rd32 (a # b # c # d # _) =
     ucast a OR push_bit 8 (ucast b) OR push_bit 16 (ucast c) OR push_bit 24 (ucast d)"
| "rd32 _ = 0"

lemma length_le32 [simp]: "length (le32 x) = 4"
  by (simp add: le32_def)

lemma rd32_le32 [simp]: "rd32 (le32 x @ ys) = x"
proof (rule bit_word_eqI)
  fix n assume "n < LENGTH(32)"
  then show "bit (rd32 (le32 x @ ys)) n = bit x n"
    by (cases "24 \<le> n"; cases "16 \<le> n") (auto simp: le32_def bit_simps)
qed

lemma rd32_le32_only [simp]: "rd32 (le32 x) = x"
  using rd32_le32 [of x "[]"] by simp

section \<open>User memory\<close>

text \<open>
  An ioctl argument is a user address; what the kernel can reach there is a list of bytes
  (empty for an unmapped address such as NULL). The accessors copy what fits and return the
  number of bytes not copied, as \<^verbatim>\<open>asm/uaccess.h\<close> documents; a direct
  dereference of the user pointer crashes when the word is not mapped.
\<close>

type_synonym umem = "u8 list"

definition copy_to_user :: "u8 list \<Rightarrow> umem \<Rightarrow> nat \<times> umem" where
  "copy_to_user bs m =
     (let n = min (length bs) (length m) in (length bs - n, take n bs @ drop n m))"

definition copy_from_user :: "nat \<Rightarrow> umem \<Rightarrow> nat \<times> u8 list" where
  "copy_from_user n m = (n - length m, take n m)"

definition user_store32 :: "u32 \<Rightarrow> umem \<Rightarrow> umem option" where
  "user_store32 x m = (if length m < 4 then None else Some (le32 x @ drop 4 m))"

definition user_load32 :: "umem \<Rightarrow> u32 option" where
  "user_load32 m = (if length m < 4 then None else Some (rd32 m))"

lemma copy_to_user_fits [umem_simps]:
  "length bs \<le> length m \<Longrightarrow> copy_to_user bs m = (0, bs @ drop (length bs) m)"
  by (simp add: copy_to_user_def min_absorb1)

lemma copy_to_user_fst [umem_simps]: "fst (copy_to_user bs m) = length bs - length m"
  by (simp add: copy_to_user_def Let_def)

lemma copy_to_user_length [simp]: "length (snd (copy_to_user bs m)) = length m"
  by (simp add: copy_to_user_def Let_def)

lemma copy_from_user_fits [umem_simps]:
  "n \<le> length m \<Longrightarrow> copy_from_user n m = (0, take n m)"
  by (simp add: copy_from_user_def)

lemma rd32_take4 [simp]: "4 \<le> length m \<Longrightarrow> rd32 (take 4 m) = rd32 m"
  by (cases m rule: rd32.cases) (auto simp: numeral_eq_Suc)

lemma user_store32_Some [umem_simps]:
  "4 \<le> length m \<Longrightarrow> user_store32 x m = Some (le32 x @ drop 4 m)"
  by (simp add: user_store32_def)

lemma user_store32_length:
  "user_store32 x m = Some m' \<Longrightarrow> length m' = length m"
  by (auto simp: user_store32_def split: if_splits)

section \<open>Lists updated by index\<close>

lemma nth_list_update_cases:
  "j < length xs \<Longrightarrow> xs[i := x] ! j = (if i = j then x else xs ! j)"
  by simp

lemma set_update_subset_insert': "y \<in> set (xs[i := x]) \<Longrightarrow> y = x \<or> y \<in> set xs"
  using set_update_subset_insert [of xs i x] by auto

lemma ex_less_3: "(\<exists>i<3. P i) \<longleftrightarrow> P 0 \<or> P (Suc 0) \<or> P (2::nat)"
  by (auto simp: numeral_eq_Suc less_Suc_eq)

lemma all_less_3: "(\<forall>i<3. P i) \<longleftrightarrow> P 0 \<and> P (Suc 0) \<and> P (2::nat)"
  by (auto simp: numeral_eq_Suc less_Suc_eq)

end
