(* ===== verification/Bus_Inv.thy ===== *)
theory Bus_Inv
  imports Bus_Core
begin

text \<open>
  The invariant of the bus module's device table and the interface (locale \<open>bus_client\<close>)
  between the bus and the drivers registered in it.  Inside the locale every operation of
  \<open>Bus_Core\<close> is shown to return (no dereference of NULL or of a freed interface) and to
  keep the invariant; \<^verbatim>\<open>Tdsp_System\<close> interprets it on the two client drivers.
\<close>

section \<open>The device-table invariant\<close>

definition any_registered :: "fdo \<Rightarrow> bool" where
  "any_registered f \<longleftrightarrow> (\<exists>s \<in> set (DeviceData f). pDeviceInterface s \<noteq> None)"

text \<open>
  A slot agrees with its interface: the interface is live, has the slot's serial number, both
  callbacks, one of the three states the bus assigns, and flags that mirror the slot's: the
  hot-key bit always, the antenna bits for the WLAN device (the only one whose copy
  \<^verbatim>\<open>IOCTL_BUSENUM_SET_ANTENNA\<close> refreshes). The GPS slot is never occupied.
\<close>

definition iface_ok :: "dev_slot \<Rightarrow> iface \<Rightarrow> bool" where
  "iface_ok s x \<longleftrightarrow>
     iSerialNo x = sSerialNo s \<and> sSerialNo s \<noteq> 4 \<and> open_cb x \<noteq> None \<and> close_cb x \<noteq> None \<and>
     devstate x \<in> {NotStarted, Started, Stopped} \<and>
     ParaFlag x AND 1 = uHotKeyPressed s \<and>
     (sSerialNo s = 2 \<longrightarrow> drop_bit 1 (ParaFlag x) AND 3 = uAntennaFlag s)"

definition slot_ok :: "(addr \<Rightarrow> iface option) \<Rightarrow> dev_slot \<Rightarrow> bool" where
  "slot_ok h s \<longleftrightarrow>
     uHotKeyPressed s AND 1 = uHotKeyPressed s \<and> uAntennaFlag s AND 3 = uAntennaFlag s \<and>
     (\<forall>p. pDeviceInterface s = Some p \<longrightarrow> (\<exists>x. h p = Some x \<and> iface_ok s x))"

definition bus_inv :: "'c bus \<Rightarrow> bool" where
  "bus_inv w \<longleftrightarrow>
     ptdspbus_myself w \<noteq> None \<and> fdo_live w \<and>
     DevicePowerState (FdoData w) = PowerDeviceD0 \<and> RfType (FdoData w) = 1 \<and>
     map sSerialNo (DeviceData (FdoData w)) = [1, 2, 4] \<and>
     (\<forall>s \<in> set (DeviceData (FdoData w)). slot_ok (ifaces w) s) \<and>
     DevicePnPState (FdoData w) = (if any_registered (FdoData w) then Started else NotStarted) \<and>
     BusPowerState (FdoData w) =
       (if any_registered (FdoData w) then PowerWirlessOn else PowerWirlessOff)"

text \<open>What a callback on the interface \<open>a\<close> may change: its firmware versions and the client.\<close>

definition cb_frame :: "addr \<Rightarrow> 'c bus \<Rightarrow> 'c bus \<Rightarrow> bool" where
  "cb_frame a w w' \<longleftrightarrow>
     ptdspbus_myself w' = ptdspbus_myself w \<and> FdoData w' = FdoData w \<and>
     fdo_live w' = fdo_live w \<and> chrdev w' = chrdev w \<and>
     (\<forall>b. b \<noteq> a \<longrightarrow> ifaces w' b = ifaces w b) \<and>
     (\<exists>x v d. ifaces w a = Some x \<and>
        ifaces w' a = Some (x\<lparr>c8051_version := v, dsp_version := d\<rparr>))"

definition clients_ok :: "('c \<Rightarrow> addr \<Rightarrow> iface \<Rightarrow> bool) \<Rightarrow> 'c bus \<Rightarrow> bool" where
  "clients_ok ok w \<longleftrightarrow>
     (\<forall>s \<in> set (DeviceData (FdoData w)). \<forall>p x.
        pDeviceInterface s = Some p \<longrightarrow> ifaces w p = Some x \<longrightarrow> ok (client w) p x)"

lemma clients_okD:
  "clients_ok ok w \<Longrightarrow> i < length (DeviceData (FdoData w)) \<Longrightarrow>
   pDeviceInterface (DeviceData (FdoData w) ! i) = Some p \<Longrightarrow> ifaces w p = Some x \<Longrightarrow>
   ok (client w) p x"
  by (auto simp: clients_ok_def dest: nth_mem)

lemmas bus_state_defs = fdo_of_def slot_at_def set_slot_def set_iface_def set_devstate_def

section \<open>Three slots\<close>

lemma bus_inv_three:
  assumes "bus_inv w"
  obtains s0 s1 s2 where "DeviceData (FdoData w) = [s0, s1, s2]"
    and "sSerialNo s0 = 1" "sSerialNo s1 = 2" "sSerialNo s2 = 4"
    and "slot_ok (ifaces w) s0" "slot_ok (ifaces w) s1" "slot_ok (ifaces w) s2"
    and "pDeviceInterface s2 = None"
proof -
  from assms obtain s0 s1 s2 where ds: "DeviceData (FdoData w) = [s0, s1, s2]"
    and ser: "sSerialNo s0 = 1" "sSerialNo s1 = 2" "sSerialNo s2 = 4"
    by (auto simp: bus_inv_def map_eq_Cons_conv)
  with assms have "slot_ok (ifaces w) s0" "slot_ok (ifaces w) s1" "slot_ok (ifaces w) s2"
    by (auto simp: bus_inv_def)
  moreover from this(3) ser(3) have "pDeviceInterface s2 = None"
    by (cases "pDeviceInterface s2") (auto simp: slot_ok_def iface_ok_def)
  ultimately show ?thesis using ds ser that by blast
qed

lemma bus_inv_length [simp]: "bus_inv w \<Longrightarrow> length (DeviceData (FdoData w)) = 3"
  by (erule bus_inv_three) simp

lemma bus_inv_fdo [simp]: "bus_inv w \<Longrightarrow> fdo_of w = Some (FdoData w)"
  by (simp add: bus_inv_def fdo_of_def)

lemma slot_at_inv [simp]:
  "bus_inv w \<Longrightarrow> i < 3 \<Longrightarrow> slot_at (FdoData w) i = Some (DeviceData (FdoData w) ! i)"
  by (simp add: slot_at_def)

lemma bus_inv_slot_ok:
  "bus_inv w \<Longrightarrow> i < 3 \<Longrightarrow> slot_ok (ifaces w) (DeviceData (FdoData w) ! i)"
  by (auto simp: bus_inv_def intro!: nth_mem dest: bus_inv_length)

lemma bus_inv_serial:
  assumes "bus_inv w" "i < 3"
  shows "sSerialNo (DeviceData (FdoData w) ! i) = [1, 2, 4] ! i"
proof -
  have "sSerialNo (DeviceData (FdoData w) ! i) = map sSerialNo (DeviceData (FdoData w)) ! i"
    using assms by simp
  then show ?thesis using assms by (simp add: bus_inv_def)
qed

lemma bus_inv_serial_inj:
  assumes "bus_inv w" "i < 3" "j < 3"
    and "sSerialNo (DeviceData (FdoData w) ! i) = sSerialNo (DeviceData (FdoData w) ! j)"
  shows "i = j"
  using assms by (auto simp: bus_inv_serial less_Suc_eq numeral_3_eq_3)

text \<open>The interface of an occupied slot.\<close>

lemma bus_inv_iface:
  assumes "bus_inv w" "i < 3" "pDeviceInterface (DeviceData (FdoData w) ! i) = Some p"
  obtains x where "ifaces w p = Some x" "iface_ok (DeviceData (FdoData w) ! i) x"
  using bus_inv_slot_ok [OF assms(1,2)] assms(3) by (auto simp: slot_ok_def)

lemma bus_inv_owner_unique:
  assumes "bus_inv w" "i < 3" "j < 3"
    and "pDeviceInterface (DeviceData (FdoData w) ! i) = Some p"
    and "pDeviceInterface (DeviceData (FdoData w) ! j) = Some p"
  shows "i = j"
proof -
  obtain x where "ifaces w p = Some x" "iface_ok (DeviceData (FdoData w) ! i) x"
    using assms(1,2,4) by (rule bus_inv_iface)
  moreover obtain y where "ifaces w p = Some y" "iface_ok (DeviceData (FdoData w) ! j) y"
    using assms(1,3,5) by (rule bus_inv_iface)
  ultimately have "sSerialNo (DeviceData (FdoData w) ! i) = sSerialNo (DeviceData (FdoData w) ! j)"
    by (simp add: iface_ok_def)
  with assms show ?thesis by (blast intro: bus_inv_serial_inj)
qed

section \<open>Looking a device up\<close>

lemma find_slot_Some:
  "find_slot sn ss k = Some i \<Longrightarrow>
     k \<le> i \<and> i - k < length ss \<and> ucast (sSerialNo (ss ! (i - k))) = sn
     \<and> pDeviceInterface (ss ! (i - k)) \<noteq> None"
proof (induction ss arbitrary: k)
  case (Cons s ss)
  show ?case
  proof (cases "ucast (sSerialNo s) = sn")
    case True
    with Cons.prems show ?thesis by (auto split: if_splits)
  next
    case False
    with Cons have "Suc k \<le> i \<and> i - Suc k < length ss \<and>
        ucast (sSerialNo (ss ! (i - Suc k))) = sn \<and> pDeviceInterface (ss ! (i - Suc k)) \<noteq> None"
      by auto
    moreover from this have "i - k = Suc (i - Suc k)" by arith
    ultimately show ?thesis by auto
  qed
qed simp

lemma Bus_Find_Some:
  assumes "Bus_FindPdoBySerialNo f sn = Some i"
  shows "i < length (DeviceData f)" "ucast (sSerialNo (DeviceData f ! i)) = sn"
    "\<exists>p. pDeviceInterface (DeviceData f ! i) = Some p"
  using find_slot_Some [of sn "DeviceData f" 0 i] assms
  by (auto simp: Bus_FindPdoBySerialNo_def)

lemma find_serial_Some:
  "find_serial sn ss k = Some i \<Longrightarrow> k \<le> i \<and> i - k < length ss \<and> sSerialNo (ss ! (i - k)) = sn"
proof (induction ss arbitrary: k)
  case (Cons s ss)
  show ?case
  proof (cases "sSerialNo s = sn")
    case True
    with Cons.prems show ?thesis by auto
  next
    case False
    with Cons have "Suc k \<le> i \<and> i - Suc k < length ss \<and> sSerialNo (ss ! (i - Suc k)) = sn"
      by auto
    moreover from this have "i - k = Suc (i - Suc k)" by arith
    ultimately show ?thesis by auto
  qed
qed simp

text \<open>The lookup of a serial number below 256 finds the slot exactly when it is occupied.\<close>

lemma Bus_Find_inv:
  assumes "bus_inv w" "i < 3"
  shows "Bus_FindPdoBySerialNo (FdoData w) (ucast (sSerialNo (DeviceData (FdoData w) ! i))) =
         (if pDeviceInterface (DeviceData (FdoData w) ! i) = None then None else Some i)"
proof -
  obtain s0 s1 s2 where "DeviceData (FdoData w) = [s0, s1, s2]"
    "sSerialNo s0 = 1" "sSerialNo s1 = 2" "sSerialNo s2 = 4"
    using assms(1) by (rule bus_inv_three)
  with assms(2) show ?thesis
    by (auto simp: Bus_FindPdoBySerialNo_def less_Suc_eq numeral_3_eq_3)
qed

section \<open>Elementary updates keep the invariant\<close>

definition iface_agrees :: "iface \<Rightarrow> iface \<Rightarrow> bool" where
  "iface_agrees x y \<longleftrightarrow>
     iSerialNo y = iSerialNo x \<and> open_cb y = open_cb x \<and> close_cb y = close_cb x \<and>
     pBtDev y = pBtDev x"

lemma slot_ok_heap_upd:
  assumes "slot_ok h s" "h p = Some x" "iface_agrees x y" "ParaFlag y = ParaFlag x"
    and "devstate y \<in> {NotStarted, Started, Stopped}"
  shows "slot_ok (h(p := Some y)) s"
  using assms by (auto simp: slot_ok_def iface_ok_def iface_agrees_def)

lemma set_iface_inv:
  assumes "bus_inv w" "ifaces w p = Some x" "iface_agrees x y" "ParaFlag y = ParaFlag x"
    and "devstate y \<in> {NotStarted, Started, Stopped}"
  shows "bus_inv (set_iface p y w)"
proof -
  have "\<forall>s \<in> set (DeviceData (FdoData w)). slot_ok ((ifaces w)(p := Some y)) s"
    using assms by (auto simp: bus_inv_def intro: slot_ok_heap_upd)
  with assms(1) show ?thesis by (simp add: bus_inv_def set_iface_def)
qed

text \<open>Writing a slot's bookkeeping fields, with its serial number, flags and pointer kept.\<close>

definition slot_agrees :: "dev_slot \<Rightarrow> dev_slot \<Rightarrow> bool" where
  "slot_agrees s t \<longleftrightarrow>
     sSerialNo t = sSerialNo s \<and> uHotKeyPressed t = uHotKeyPressed s \<and>
     uAntennaFlag t = uAntennaFlag s \<and> pDeviceInterface t = pDeviceInterface s"

lemma slot_ok_agrees: "slot_agrees s t \<Longrightarrow> slot_ok h s \<Longrightarrow> slot_ok h t"
  by (auto simp: slot_ok_def slot_agrees_def iface_ok_def)

lemma bex_set_nth: "(\<exists>s \<in> set xs. P s) \<longleftrightarrow> (\<exists>j < length xs. P (xs ! j))"
  by (metis in_set_conv_nth)

lemma any_registered_upd:
  assumes "i < length (DeviceData f)" "pDeviceInterface t = pDeviceInterface (DeviceData f ! i)"
  shows "any_registered (f\<lparr>DeviceData := (DeviceData f)[i := t]\<rparr>) = any_registered f"
  using assms by (auto simp: any_registered_def bex_set_nth nth_list_update split: if_splits)

lemma set_slot_inv:
  assumes "bus_inv w" "i < 3" "slot_agrees (DeviceData (FdoData w) ! i) t"
  shows "bus_inv (set_slot i t w)"
proof -
  let ?ds = "DeviceData (FdoData w)"
  have len: "i < length ?ds" using assms by simp
  have "slot_ok (ifaces w) t"
    using assms by (blast intro: slot_ok_agrees bus_inv_slot_ok)
  then have "\<forall>s \<in> set (?ds[i := t]). slot_ok (ifaces w) s"
    using assms(1) by (auto simp: bus_inv_def dest!: set_update_subset_insert')
  moreover have "map sSerialNo (?ds[i := t]) = map sSerialNo ?ds"
    using len assms(3) by (simp add: map_update slot_agrees_def list_update_same_conv)
  moreover have "any_registered (FdoData (set_slot i t w)) = any_registered (FdoData w)"
    using len assms(3) by (simp add: set_slot_def slot_agrees_def any_registered_upd)
  ultimately show ?thesis using assms(1) by (simp add: bus_inv_def set_slot_def)
qed

lemma cb_frame_inv:
  assumes "bus_inv w" "cb_frame a w w'"
  shows "bus_inv w'"
proof -
  from assms(2) obtain x v d where x: "ifaces w a = Some x"
    and h: "ifaces w' = (ifaces w)(a := Some (x\<lparr>c8051_version := v, dsp_version := d\<rparr>))"
    and rest: "ptdspbus_myself w' = ptdspbus_myself w" "FdoData w' = FdoData w"
      "fdo_live w' = fdo_live w"
    by (auto simp: cb_frame_def fun_eq_iff)
  have "slot_ok (ifaces w') s" if "slot_ok (ifaces w) s" for s
    using that x by (auto simp: h slot_ok_def iface_ok_def)
  with assms(1) rest show ?thesis by (simp add: bus_inv_def)
qed

lemma cb_frame_fields:
  assumes "cb_frame a w w'" "ifaces w p = Some x"
  obtains y where "ifaces w' p = Some y" "iface_agrees x y" "devstate y = devstate x"
    "ParaFlag y = ParaFlag x"
proof (cases "p = a")
  case True
  with assms that show ?thesis by (auto simp: cb_frame_def iface_agrees_def)
next
  case False
  with assms that [of x] show ?thesis by (simp add: cb_frame_def iface_agrees_def)
qed

section \<open>The contract between the bus and its clients\<close>

text \<open>
  A client driver promises, for an interface of which \<open>ok\<close> holds: its callbacks return,
  touch nothing of the bus but the firmware versions of that interface, and leave every
  interface of which \<open>ok\<close> holds callable.  The bus promises not to change what \<open>ok\<close>
  reads of an interface.
\<close>

locale bus_client =
  fixes call :: "'c caller" and ok :: "'c \<Rightarrow> addr \<Rightarrow> iface \<Rightarrow> bool"
  assumes call_law:
    "ifaces w a = Some x \<Longrightarrow> ok (client w) a x \<Longrightarrow> open_cb x = Some cb \<or> close_cb x = Some cb \<Longrightarrow>
     \<exists>r w'. call cb a w = Some (r, w') \<and> cb_frame a w w' \<and>
            (\<forall>b y. ok (client w) b y \<longrightarrow> ok (client w') b y)"
    and ok_agrees: "iface_agrees x y \<Longrightarrow> ok c a x \<Longrightarrow> ok c a y"

definition bus_ok :: "('c \<Rightarrow> addr \<Rightarrow> iface \<Rightarrow> bool) \<Rightarrow> 'c bus \<Rightarrow> bool" where
  "bus_ok ok w \<longleftrightarrow> bus_inv w \<and> clients_ok ok w"

context bus_client begin

lemma set_iface_ok:
  assumes "bus_ok ok w" "ifaces w p = Some x" "iface_agrees x y" "ParaFlag y = ParaFlag x"
    and "devstate y \<in> {NotStarted, Started, Stopped}"
  shows "bus_ok ok (set_iface p y w)"
proof -
  have "clients_ok ok (set_iface p y w)"
    using assms ok_agrees [OF assms(3)]
    by (auto simp: bus_ok_def clients_ok_def set_iface_def split: if_splits)
  moreover have "bus_inv (set_iface p y w)"
    using assms by (auto simp: bus_ok_def intro: set_iface_inv)
  ultimately show ?thesis by (simp add: bus_ok_def)
qed

lemma set_slot_ok:
  assumes "bus_ok ok w" "i < 3" "slot_agrees (DeviceData (FdoData w) ! i) t"
  shows "bus_ok ok (set_slot i t w)"
proof -
  have "ok (client w) p x"
    if s: "s \<in> set ((DeviceData (FdoData w))[i := t])" and p: "pDeviceInterface s = Some p"
      and x: "ifaces w p = Some x" for s p x
  proof (cases "s = t")
    case True
    with assms p x show ?thesis
      by (intro clients_okD [of ok w i p]) (auto simp: bus_ok_def slot_agrees_def)
  next
    case False
    with set_update_subset_insert' [OF s] p x assms(1) show ?thesis
      by (auto simp: bus_ok_def clients_ok_def)
  qed
  then have "clients_ok ok (set_slot i t w)"
    by (auto simp: clients_ok_def set_slot_def)
  with assms show ?thesis by (auto simp: bus_ok_def intro: set_slot_inv)
qed

text \<open>A callback of an interface the contract covers returns and keeps the invariant.\<close>

lemma call_ok:
  assumes "bus_ok ok w" "ifaces w p = Some x" "ok (client w) p x"
    and "open_cb x = Some cb \<or> close_cb x = Some cb"
  shows "\<exists>r w'. call cb p w = Some (r, w') \<and> cb_frame p w w' \<and> bus_ok ok w'"
proof -
  from call_law [OF assms(2-4)] obtain r w'
    where c: "call cb p w = Some (r, w')" and f: "cb_frame p w w'"
      and k: "\<And>b y. ok (client w) b y \<Longrightarrow> ok (client w') b y" by blast
  have "clients_ok ok w'"
    unfolding clients_ok_def
  proof (intro ballI allI impI)
    fix s q y
    assume s: "s \<in> set (DeviceData (FdoData w'))" "pDeviceInterface s = Some q"
      and y: "ifaces w' q = Some y"
    from f s have s': "s \<in> set (DeviceData (FdoData w))" by (simp add: cb_frame_def)
    with s(2) assms(1) obtain z where z: "ifaces w q = Some z"
      by (auto simp: bus_ok_def bus_inv_def slot_ok_def)
    with s s' assms(1) have "ok (client w) q z" by (auto simp: bus_ok_def clients_ok_def)
    moreover obtain y' where "ifaces w' q = Some y'" "iface_agrees z y'"
      using cb_frame_fields [OF f z] by metis
    ultimately show "ok (client w') q y" using y k ok_agrees by auto
  qed
  with assms(1) c f show ?thesis by (auto simp: bus_ok_def intro: cb_frame_inv)
qed

lemma callback_ok:
  assumes "bus_ok ok w" "i < 3" "pDeviceInterface (DeviceData (FdoData w) ! i) = Some p"
    and "ifaces w p = Some x" "open_cb x = Some cb \<or> close_cb x = Some cb"
  shows "\<exists>r w'. call cb p w = Some (r, w') \<and> cb_frame p w w' \<and> bus_ok ok w'"
  using assms by (intro call_ok) (auto simp: bus_ok_def intro: clients_okD)

text \<open>The device-state write after a callback, through the slot's pointer.\<close>

lemma set_devstate_ok:
  assumes "bus_ok ok w" "i < 3" "pDeviceInterface (DeviceData (FdoData w) ! i) = Some p"
    and "d \<in> {NotStarted, Started, Stopped}"
  shows "\<exists>w'. set_devstate p d w = Some w' \<and> bus_ok ok w' \<and> FdoData w' = FdoData w"
proof -
  obtain x where x: "ifaces w p = Some x"
    using assms(1-3) by (auto simp: bus_ok_def elim: bus_inv_iface)
  then have "bus_ok ok (set_iface p (x\<lparr>devstate := d\<rparr>) w)"
    using assms by (auto intro!: set_iface_ok simp: iface_agrees_def)
  with x show ?thesis by (auto simp: set_devstate_def set_iface_def)
qed

end

section \<open>Attaching and detaching an interface\<close>

lemma and_mask_unat:
  assumes "a AND m = (a :: u8)"
  shows "unat a \<le> unat m"
  using assms word_and_le1 [of a m] by (simp add: word_le_nat_alt)

lemma and_1_cases: "h AND 1 = h \<Longrightarrow> h = 0 \<or> h = (1 :: u8)"
  by (drule and_mask_unat) (auto simp: word_unat_eq_iff)

lemma and_3_cases: "a AND 3 = a \<Longrightarrow> a = 0 \<or> a = 1 \<or> a = 2 \<or> a = (3 :: u8)"
  by (drule and_mask_unat) (auto simp: word_unat_eq_iff)

lemma para_flag_hot: "h AND 1 = h \<Longrightarrow> a AND 3 = a \<Longrightarrow> para_flag h a AND 1 = h"
  by (drule and_1_cases, drule and_3_cases) (auto simp: para_flag_def)

lemma para_flag_antenna:
  "h AND 1 = h \<Longrightarrow> a AND 3 = a \<Longrightarrow> drop_bit 1 (para_flag h a) AND 3 = a"
  by (drule and_1_cases, drule and_3_cases) (auto simp: para_flag_def)

lemma any_registered_attach:
  "i < length (DeviceData f) \<Longrightarrow> pDeviceInterface t \<noteq> None \<Longrightarrow>
   any_registered (f\<lparr>DeviceData := (DeviceData f)[i := t]\<rparr>)"
  by (auto simp: any_registered_def intro!: bexI [of _ t] set_update_memI)

lemma attach_iface_inv:
  assumes inv: "bus_inv w" and i: "i < 3" and s: "s = DeviceData (FdoData w) ! i"
    and free: "pDeviceInterface s = None" and x: "ifaces w a = Some x"
    and sn: "iSerialNo x = sSerialNo s" "sSerialNo s \<noteq> 4"
    and cb: "open_cb x \<noteq> None" "close_cb x \<noteq> None"
  shows "bus_inv (attach_iface a x i s w)"
proof -
  let ?ds = "DeviceData (FdoData w)"
  let ?t = "s\<lparr>pDeviceInterface := Some a, ComNum := 0, CompanyID := 0\<rparr>"
  let ?y = "x\<lparr>devstate := NotStarted, ResetFlag := 0, ParentFdo := ptdspbus_myself w,
              pPciDev := None, ParaFlag := para_flag (uHotKeyPressed s) (uAntennaFlag s)\<rparr>"
  have flags: "uHotKeyPressed s AND 1 = uHotKeyPressed s" "uAntennaFlag s AND 3 = uAntennaFlag s"
    using bus_inv_slot_ok [OF inv i] s by (auto simp: slot_ok_def)
  have len: "i < length ?ds" using inv i by simp
  have t: "slot_ok ((ifaces w)(a := Some ?y)) ?t"
    using flags sn cb para_flag_hot [OF flags] para_flag_antenna [OF flags]
    by (simp add: slot_ok_def iface_ok_def)
  have other: "slot_ok ((ifaces w)(a := Some ?y)) (?ds ! j)" if j: "j < 3" "j \<noteq> i" for j
  proof -
    have "pDeviceInterface (?ds ! j) \<noteq> Some a"
    proof
      assume "pDeviceInterface (?ds ! j) = Some a"
      with inv j x have "iface_ok (?ds ! j) x" by (auto elim: bus_inv_iface)
      with sn s inv i j show False by (auto simp: iface_ok_def dest: bus_inv_serial_inj)
    qed
    with bus_inv_slot_ok [OF inv j(1)] show ?thesis by (auto simp: slot_ok_def)
  qed
  have slots: "\<forall>u \<in> set (?ds[i := ?t]). slot_ok ((ifaces w)(a := Some ?y)) u"
    using t other inv len by (auto simp: in_set_conv_nth nth_list_update)
  have "map sSerialNo (?ds[i := ?t]) = map sSerialNo ?ds"
    using len s by (simp add: map_update list_update_same_conv)
  moreover have "any_registered (FdoData (attach_iface a x i s w))"
    using len by (auto simp: attach_iface_def set_slot_def set_iface_def any_registered_def
        TDSP_SetBusPowerState_def Let_def intro!: bexI [of _ ?t] set_update_memI)
  ultimately show ?thesis
    using inv slots
    by (simp add: bus_inv_def attach_iface_def set_slot_def set_iface_def Let_def
        TDSP_SetBusPowerState_def)
qed

lemma detach_iface_inv:
  assumes inv: "bus_inv w" and i: "i < 3" and s: "s = DeviceData (FdoData w) ! i"
    and occ: "pDeviceInterface s \<noteq> None"
  shows "bus_inv (bus_idle_if_empty (detach_iface i s w))"
proof -
  let ?ds = "DeviceData (FdoData w)"
  let ?t = "s\<lparr>pDeviceInterface := None\<rparr>"
  have len: "i < length ?ds" using inv i by simp
  have "s \<in> set ?ds" using len s by simp
  with occ inv have st: "DevicePnPState (FdoData w) = Started"
      "BusPowerState (FdoData w) = PowerWirlessOn"
    by (auto simp: bus_inv_def any_registered_def)
  have "slot_ok (ifaces w) ?t" using bus_inv_slot_ok [OF inv i] s by (auto simp: slot_ok_def)
  then have slots: "\<forall>u \<in> set (?ds[i := ?t]). slot_ok (ifaces w) u"
    using inv by (auto simp: bus_inv_def dest!: set_update_subset_insert')
  have "map sSerialNo (?ds[i := ?t]) = map sSerialNo ?ds"
    using len s by (simp add: map_update list_update_same_conv)
  with inv slots st show ?thesis
    by (simp add: bus_inv_def bus_idle_if_empty_def detach_iface_def set_slot_def
        any_registered_def TDSP_SetBusPowerState_def)
qed

lemma bus_idle_if_empty_inv:
  assumes "bus_inv w"
  shows "bus_idle_if_empty w = w \<or> bus_inv (bus_idle_if_empty w)"
  using assms
  by (auto simp: bus_idle_if_empty_def bus_inv_def any_registered_def TDSP_SetBusPowerState_def)

end
