(* ===== verification/Bus_Ops.thy ===== *)
theory Bus_Ops
  imports Bus_Inv
begin

text \<open>
  The operations of businit.c under the contract \<open>bus_client\<close>: every one returns and keeps
  the invariant of the device table and the contract of every registered interface.
\<close>

section \<open>Lookup results under the invariant\<close>

lemma Bus_Find_slot:
  assumes inv: "bus_inv w" and f: "Bus_FindPdoBySerialNo (FdoData w) sn = Some i"
  obtains p x where "i < 3" "pDeviceInterface (DeviceData (FdoData w) ! i) = Some p"
    "ifaces w p = Some x" "iface_ok (DeviceData (FdoData w) ! i) x"
    "slot_at (FdoData w) i = Some (DeviceData (FdoData w) ! i)"
    "ucast (sSerialNo (DeviceData (FdoData w) ! i)) = sn"
proof -
  from Bus_Find_Some [OF f] inv obtain p where i: "i < 3"
    and p: "pDeviceInterface (DeviceData (FdoData w) ! i) = Some p"
    and sn: "ucast (sSerialNo (DeviceData (FdoData w) ! i)) = sn" by auto
  obtain x where "ifaces w p = Some x" "iface_ok (DeviceData (FdoData w) ! i) x"
    using inv i p by (rule bus_inv_iface)
  with i p sn inv show ?thesis using that by simp
qed

lemma find_serial_slot:
  assumes "bus_inv w" "find_serial sn (DeviceData (FdoData w)) 0 = Some i"
  shows "i < 3" "sSerialNo (DeviceData (FdoData w) ! i) = sn"
    "slot_at (FdoData w) i = Some (DeviceData (FdoData w) ! i)"
  using find_serial_Some [OF assms(2)] assms(1) by auto

lemma rf_type_admits:
  "\<not> rf_type_refuses 1 (ucast (sn :: u8)) \<Longrightarrow> sn \<noteq> 4"
  by (auto simp: rf_type_refuses_def bus_consts)

lemma unplug_all_cong:
  assumes "\<And>sn w. sn \<noteq> 0 \<Longrightarrow> r1 sn w = r2 sn w"
    and "\<And>w s. P w \<Longrightarrow> s \<in> set (DeviceData (FdoData w)) \<Longrightarrow> sSerialNo s \<noteq> 0"
    and "\<And>sn w r w'. P w \<Longrightarrow> sn \<noteq> 0 \<Longrightarrow> r1 sn w = Some (r, w') \<Longrightarrow> P w'" and "P w"
  shows "unplug_all r1 is w = unplug_all r2 is w"
  using assms(4)
proof (induction "is" arbitrary: w)
  case (Cons i "is")
  show ?case
  proof (cases "fdo_of w")
    case (Some f)
    then have f: "f = FdoData w" by (simp add: fdo_of_def split: if_splits)
    show ?thesis
    proof (cases "slot_at f i")
      case (Some s)
      then have "s \<in> set (DeviceData (FdoData w))" by (auto simp: slot_at_def f split: if_splits)
      with assms(2) Cons.prems have "sSerialNo s \<noteq> 0" by blast
      then have sn: "(ucast (sSerialNo s) :: u32) \<noteq> 0" by simp
      have "unplug_all r1 is w' = unplug_all r2 is w'"
        if "r2 (ucast (sSerialNo s)) w = Some (r, w')" for r w'
        using Cons.IH assms(3) [OF Cons.prems sn] that by (simp add: assms(1) [OF sn])
      with assms(1) [OF sn] Cons.IH [OF Cons.prems] Some \<open>fdo_of w = Some f\<close> show ?thesis
        by (auto split: option.splits bind_splits)
    qed (use \<open>fdo_of w = Some f\<close> in simp)
  qed simp
qed simp

context bus_client begin

section \<open>Plug-in\<close>

lemma plug_started_ok:
  assumes "bus_ok ok w" "i < 3" "pDeviceInterface (DeviceData (FdoData w) ! i) = Some p"
  shows "\<exists>r w'. plug_started i w = Some (r, w') \<and> bus_ok ok w'"
proof -
  have inv: "bus_inv w" using assms(1) by (simp add: bus_ok_def)
  obtain w1 where w1: "set_devstate p Started w = Some w1" "bus_ok ok w1"
      "FdoData w1 = FdoData w"
    using set_devstate_ok [OF assms, of Started] by auto
  have "bus_ok ok (set_slot i ((DeviceData (FdoData w) ! i)\<lparr>state_old_from_wb := Started\<rparr>) w1)"
    using w1 assms(2) by (intro set_slot_ok) (auto simp: slot_agrees_def)
  with w1 inv assms show ?thesis by (simp add: plug_started_def)
qed

lemma Bus_PlugInDevice_ok:
  assumes "bus_ok ok w"
  shows "\<exists>r w'. Bus_PlugInDevice call sn w = Some (r, w') \<and> bus_ok ok w'"
proof (cases "Bus_FindPdoBySerialNo (FdoData w) (sn AND HOTKEY_FLAG_AND)")
  case None
  with assms show ?thesis by (simp add: Bus_PlugInDevice_def bus_ok_def Let_def)
next
  case (Some i)
  have inv: "bus_inv w" using assms by (simp add: bus_ok_def)
  obtain p x where i: "i < 3" and p: "pDeviceInterface (DeviceData (FdoData w) ! i) = Some p"
    and x: "ifaces w p = Some x" and xok: "iface_ok (DeviceData (FdoData w) ! i) x"
    and s: "slot_at (FdoData w) i = Some (DeviceData (FdoData w) ! i)"
    using inv Some by (rule Bus_Find_slot)
  from xok obtain cb where cb: "open_cb x = Some cb" by (auto simp: iface_ok_def)
  let ?w0 = "set_iface p (x\<lparr>pPciDev := None\<rparr>) w"
  have ok0: "bus_ok ok ?w0"
    using assms x xok by (intro set_iface_ok) (auto simp: iface_agrees_def iface_ok_def)
  obtain r w1 where c: "call cb p ?w0 = Some (r, w1)" "cb_frame p ?w0 w1" "bus_ok ok w1"
    using callback_ok [OF ok0 i, of p "x\<lparr>pPciDev := None\<rparr>" cb] p cb
    by (auto simp: set_iface_def)
  have fd: "FdoData w1 = FdoData w" using c(2) by (simp add: cb_frame_def set_iface_def)
  obtain r2 w2 where "plug_started i w1 = Some (r2, w2)" "bus_ok ok w2"
    using plug_started_ok [OF c(3) i, of p] p fd by auto
  with Some inv assms s p x cb c show ?thesis
    by (auto simp: Bus_PlugInDevice_def Let_def)
qed

section \<open>Unplug\<close>

lemma unplug_closed_ok:
  assumes "bus_ok ok w" "i < 3" "pDeviceInterface (DeviceData (FdoData w) ! i) = Some p"
  shows "\<exists>w'. unplug_closed i ret w = Some w' \<and> bus_ok ok w'"
proof -
  have inv: "bus_inv w" using assms(1) by (simp add: bus_ok_def)
  obtain w1 where w1: "set_devstate p Stopped w = Some w1" "bus_ok ok w1"
      "FdoData w1 = FdoData w"
    using set_devstate_ok [OF assms, of Stopped] by auto
  have "bus_ok ok (set_slot i ((DeviceData (FdoData w) ! i)\<lparr>state_old_from_wb := Stopped\<rparr>) w1)"
    using w1 assms(2) by (intro set_slot_ok) (auto simp: slot_agrees_def)
  with w1 inv assms show ?thesis by (simp add: unplug_closed_def)
qed

lemma unplug_one_ok:
  assumes "bus_ok ok w"
  shows "\<exists>r w'. unplug_one call sn w = Some (r, w') \<and> bus_ok ok w'"
proof (cases "Bus_FindPdoBySerialNo (FdoData w) (sn AND HOTKEY_FLAG_AND)")
  case None
  with assms show ?thesis by (simp add: unplug_one_def bus_ok_def)
next
  case (Some i)
  have inv: "bus_inv w" using assms by (simp add: bus_ok_def)
  obtain p x where i: "i < 3" and p: "pDeviceInterface (DeviceData (FdoData w) ! i) = Some p"
    and x: "ifaces w p = Some x" and xok: "iface_ok (DeviceData (FdoData w) ! i) x"
    and s: "slot_at (FdoData w) i = Some (DeviceData (FdoData w) ! i)"
    using inv Some by (rule Bus_Find_slot)
  from xok obtain cb where cb: "close_cb x = Some cb" by (auto simp: iface_ok_def)
  let ?t = "(DeviceData (FdoData w) ! i)\<lparr>state_old_from_wb := devstate x\<rparr>"
  let ?w0 = "set_slot i ?t w"
  have ok0: "bus_ok ok ?w0"
    using assms i by (intro set_slot_ok) (auto simp: slot_agrees_def)
  have p0: "pDeviceInterface (DeviceData (FdoData ?w0) ! i) = Some p"
    using p i inv by (simp add: set_slot_def)
  obtain r w1 where c: "call cb p ?w0 = Some (r, w1)" "cb_frame p ?w0 w1" "bus_ok ok w1"
    using callback_ok [OF ok0 i p0, of x cb] x cb by (auto simp: set_slot_def)
  have "pDeviceInterface (DeviceData (FdoData w1) ! i) = Some p"
    using c(2) p0 by (simp add: cb_frame_def)
  then obtain w2 where "unplug_closed i r w1 = Some w2" "bus_ok ok w2"
    using unplug_closed_ok [OF c(3) i, of p r] by auto
  with Some inv assms s p x cb c show ?thesis
    by (auto simp: unplug_one_def)
qed

lemma unplug_all_ok:
  assumes step: "\<And>w sn. sn \<noteq> 0 \<Longrightarrow> bus_ok ok w \<Longrightarrow>
      \<exists>r w'. rec sn w = Some (r, w') \<and> bus_ok ok w'"
    and "bus_ok ok w" "set is \<subseteq> {..<3}"
  shows "\<exists>w'. unplug_all rec is w = Some w' \<and> bus_ok ok w'"
  using assms(2,3)
proof (induction "is" arbitrary: w)
  case (Cons i "is")
  have inv: "bus_inv w" using Cons.prems by (simp add: bus_ok_def)
  let ?s = "DeviceData (FdoData w) ! i"
  have "sSerialNo ?s \<in> {1, 2, 4}"
    using bus_inv_serial [OF inv, of i] Cons.prems(2) by (auto simp: less_Suc_eq numeral_3_eq_3)
  then have "(ucast (sSerialNo ?s) :: u32) \<noteq> 0" by auto
  from step [OF this Cons.prems(1)] obtain r w1
    where "rec (ucast (sSerialNo ?s)) w = Some (r, w1)" "bus_ok ok w1" by blast
  with Cons inv show ?case by auto
qed simp

text \<open>Two levels of the recursion are enough: the inner calls have a non-zero serial number.\<close>

lemma Bus_UnPlugDevice_ok:
  assumes "bus_ok ok w"
  shows "\<exists>r w'. Bus_UnPlugDevice (Suc (Suc d)) call sn w = Some (r, w') \<and> bus_ok ok w'"
proof (cases "sn = 0")
  case True
  have "\<exists>w'. unplug_all (Bus_UnPlugDevice (Suc d) call) [0..<3] w = Some w' \<and> bus_ok ok w'"
    using assms unplug_one_ok by (intro unplug_all_ok) auto
  with True show ?thesis by (auto simp: BUS_DEVICE_TOTAL_COUNT_def simp del: upt_rec_numeral)
next
  case False
  with unplug_one_ok [OF assms] show ?thesis by simp
qed

text \<open>The depth given to \<open>Bus_UnPlugDevice\<close> does not matter from two on.\<close>

lemma unplug_depth:
  assumes "bus_ok ok w"
  shows "Bus_UnPlugDevice (Suc (Suc d)) call sn w = Bus_UnPlugDevice 2 call sn w"
proof (cases "sn = 0")
  case True
  have "unplug_all (Bus_UnPlugDevice (Suc d) call) [0..<3] w
      = unplug_all (Bus_UnPlugDevice (Suc 0) call) [0..<3] w"
  proof (rule unplug_all_cong [where P = "bus_ok ok"])
    show "sSerialNo s \<noteq> 0" if "bus_ok ok w" "s \<in> set (DeviceData (FdoData w))" for w s
      using that by (auto simp: bus_ok_def elim!: bus_inv_three)
    show "bus_ok ok w'"
      if "bus_ok ok w" "sn \<noteq> 0" "Bus_UnPlugDevice (Suc d) call sn w = Some (r, w')" for sn w r w'
      using that unplug_one_ok [OF that(1), of sn] by auto
  qed (use assms in simp_all)
  with True show ?thesis
    by (simp add: BUS_DEVICE_TOTAL_COUNT_def numeral_2_eq_2 del: upt_rec_numeral)
next
  case False
  then show ?thesis by (simp add: numeral_2_eq_2)
qed

section \<open>Registration\<close>

lemma attach_iface_ok:
  assumes "bus_ok ok w" and i: "i < 3" and s: "s = DeviceData (FdoData w) ! i"
    and "pDeviceInterface s = None" and x: "ifaces w a = Some x"
    and "iSerialNo x = sSerialNo s" "sSerialNo s \<noteq> 4"
    and "open_cb x \<noteq> None" "close_cb x \<noteq> None" and okx: "ok (client w) a x"
  shows "bus_ok ok (attach_iface a x i s w)"
proof -
  let ?y = "x\<lparr>devstate := NotStarted, ResetFlag := 0, ParentFdo := ptdspbus_myself w,
              pPciDev := None, ParaFlag := para_flag (uHotKeyPressed s) (uAntennaFlag s)\<rparr>"
  have inv: "bus_inv w" and cl: "clients_ok ok w" using assms(1) by (auto simp: bus_ok_def)
  have y: "ok (client w) a ?y" by (rule ok_agrees [OF _ okx]) (simp add: iface_agrees_def)
  have "ok (client w) p z"
    if "u \<in> set ((DeviceData (FdoData w))[i := s\<lparr>pDeviceInterface := Some a, ComNum := 0, CompanyID := 0\<rparr>])"
      and "pDeviceInterface u = Some p" and "((ifaces w)(a := Some ?y)) p = Some z" for u p z
    using set_update_subset_insert' [OF that(1)] that(2,3) y cl
    by (auto simp: clients_ok_def split: if_splits)
  then have "clients_ok ok (attach_iface a x i s w)"
    unfolding clients_ok_def
    by (auto simp: attach_iface_def set_slot_def set_iface_def Let_def TDSP_SetBusPowerState_def
        split: if_splits)
  with attach_iface_inv [OF inv i s] assms show ?thesis by (simp add: bus_ok_def)
qed

lemma auto_open_ok:
  assumes "bus_ok ok w" "i < 3" "pDeviceInterface (DeviceData (FdoData w) ! i) = Some a"
  shows "\<exists>w'. auto_open call a i w = Some w' \<and> bus_ok ok w'"
proof -
  have inv: "bus_inv w" using assms(1) by (simp add: bus_ok_def)
  obtain x where x: "ifaces w a = Some x" and xok: "iface_ok (DeviceData (FdoData w) ! i) x"
    using inv assms(2,3) by (rule bus_inv_iface)
  from xok obtain cb where cb: "open_cb x = Some cb" by (auto simp: iface_ok_def)
  obtain r w1 where c: "call cb a w = Some (r, w1)" "cb_frame a w w1" "bus_ok ok w1"
    using callback_ok [OF assms x, of cb] cb by auto
  have fd: "FdoData w1 = FdoData w" using c(2) by (simp add: cb_frame_def)
  obtain w2 where "set_devstate a Started w1 = Some w2" "bus_ok ok w2"
    using set_devstate_ok [OF c(3) assms(2), of a Started] assms(3) fd by auto
  moreover have "fdo_of w1 = Some (FdoData w)" "slot_at (FdoData w) i = Some (DeviceData (FdoData w) ! i)"
    using c(3) fd assms(2) inv by (auto simp: bus_ok_def)
  ultimately show ?thesis
    using assms inv x cb c by (auto simp: auto_open_def)
qed

lemma register_ok:
  assumes "bus_ok ok w" and "\<And>a. pInterface = Some a \<Longrightarrow> \<exists>x. ifaces w a = Some x \<and> ok (client w) a x"
  shows "\<exists>r w'. register_tdspbus_usbdev call pInterface w = Some (r, w') \<and> bus_ok ok w'"
proof (cases pInterface)
  case None
  with assms show ?thesis by (simp add: register_tdspbus_usbdev_def)
next
  case (Some a)
  with assms(2) obtain x where x: "ifaces w a = Some x" and okx: "ok (client w) a x" by blast
  have inv: "bus_inv w" using assms(1) by (simp add: bus_ok_def)
  have rf: "RfType (FdoData w) = 1" using inv by (simp add: bus_inv_def)
  show ?thesis
  proof (cases "find_serial (iSerialNo x) (DeviceData (FdoData w)) 0")
    case None
    with Some x inv assms(1) show ?thesis
      by (simp add: register_tdspbus_usbdev_def)
  next
    case (Some i)
    let ?s = "DeviceData (FdoData w) ! i"
    note sl = find_serial_slot [OF inv Some]
    show ?thesis
    proof (cases "rf_type_refuses 1 (ucast (iSerialNo x)) \<or> open_cb x = None \<or>
        close_cb x = None \<or> pDeviceInterface ?s \<noteq> None")
      case True
      with Some \<open>pInterface = Some a\<close> x inv assms(1) sl rf show ?thesis
        by (auto simp: register_tdspbus_usbdev_def)
    next
      case False
      with rf_type_admits [of "iSerialNo x"] have n4: "iSerialNo x \<noteq> 4" by blast
      let ?w1 = "attach_iface a x i ?s w"
      have ok1: "bus_ok ok ?w1"
        using False n4 sl x okx assms(1) by (intro attach_iface_ok) auto
      have "pDeviceInterface (DeviceData (FdoData ?w1) ! i) = Some a"
        using sl(1) inv by (simp add: attach_iface_def set_slot_def set_iface_def Let_def
            TDSP_SetBusPowerState_def)
      then obtain w2 where "auto_open call a i ?w1 = Some w2" "bus_ok ok w2"
        using auto_open_ok [OF ok1 sl(1)] by auto
      with False Some \<open>pInterface = Some a\<close> x inv assms(1) sl rf show ?thesis
        by (auto simp: register_tdspbus_usbdev_def)
    qed
  qed
qed

section \<open>Unregistration\<close>

lemma bus_idle_ok: "bus_ok ok w \<Longrightarrow> bus_ok ok (bus_idle_if_empty w)"
  using bus_idle_if_empty_inv [of w]
  by (auto simp: bus_ok_def clients_ok_def bus_idle_if_empty_def TDSP_SetBusPowerState_def)

lemma detach_ok:
  assumes "bus_ok ok w" "i < 3" "s = DeviceData (FdoData w) ! i" "pDeviceInterface s \<noteq> None"
  shows "bus_ok ok (bus_idle_if_empty (detach_iface i s w))"
proof -
  have "ok (client w) p z"
    if "u \<in> set ((DeviceData (FdoData w))[i := s\<lparr>pDeviceInterface := None\<rparr>])"
      and "pDeviceInterface u = Some p" and "ifaces w p = Some z" for u p z
    using set_update_subset_insert' [OF that(1)] that(2,3) assms(1)
    by (auto simp: clients_ok_def bus_ok_def)
  then have "clients_ok ok (bus_idle_if_empty (detach_iface i s w))"
    by (auto simp: clients_ok_def bus_idle_if_empty_def detach_iface_def set_slot_def
        TDSP_SetBusPowerState_def)
  with detach_iface_inv [OF _ assms(2-4)] assms(1) show ?thesis by (simp add: bus_ok_def)
qed

lemma unregister_ok:
  assumes "bus_ok ok w" and "\<And>a. pInterface = Some a \<Longrightarrow> \<exists>x. ifaces w a = Some x \<and> ok (client w) a x"
  shows "\<exists>r w'. unregister_tdspbus_usbdev call pInterface w = Some (r, w') \<and> bus_ok ok w'"
proof (cases pInterface)
  case None
  with assms show ?thesis by (simp add: unregister_tdspbus_usbdev_def)
next
  case (Some a)
  with assms(2) obtain x where x: "ifaces w a = Some x" and okx: "ok (client w) a x" by blast
  have inv: "bus_inv w" using assms(1) by (simp add: bus_ok_def)
  show ?thesis
  proof (cases "Bus_FindPdoBySerialNo (FdoData w) (ucast (iSerialNo x))")
    case None
    with Some x inv assms(1) show ?thesis
      by (simp add: unregister_tdspbus_usbdev_def)
  next
    case (Some i)
    obtain p y where i: "i < 3" and p: "pDeviceInterface (DeviceData (FdoData w) ! i) = Some p"
      and y: "ifaces w p = Some y" "iface_ok (DeviceData (FdoData w) ! i) y"
      and s: "slot_at (FdoData w) i = Some (DeviceData (FdoData w) ! i)"
      using inv Some by (rule Bus_Find_slot)
    let ?s = "DeviceData (FdoData w) ! i"
    show ?thesis
    proof (cases "p = a")
      case False
      with Some \<open>pInterface = Some a\<close> x inv assms(1) s p bus_idle_ok [OF assms(1)] show ?thesis
        by (simp add: unregister_tdspbus_usbdev_def Let_def)
    next
      case True
      let ?w1 = "bus_idle_if_empty (detach_iface i ?s w)"
      have ok1: "bus_ok ok ?w1" using assms(1) i p by (intro detach_ok) auto
      have same: "ifaces ?w1 = ifaces w" "client ?w1 = client w"
        by (auto simp: bus_idle_if_empty_def detach_iface_def set_slot_def)
      from y True x obtain cb where cb: "close_cb x = Some cb" by (auto simp: iface_ok_def)
      obtain r w2 where "call cb a ?w1 = Some (r, w2)" "bus_ok ok w2"
        using call_ok [OF ok1, of a x cb] same x okx cb by auto
      with True Some \<open>pInterface = Some a\<close> x inv assms(1) s p cb ok1 show ?thesis
        by (auto simp: unregister_tdspbus_usbdev_def Let_def)
    qed
  qed
qed

end

section \<open>Module load\<close>

lemma length_BUS_STRING_VERSION_ID: "length BUS_STRING_VERSION_ID = 11"
  by (simp add: BUS_STRING_VERSION_ID_def bytes_of_def)

lemma three_slots: "replicate BUS_DEVICE_TOTAL_COUNT s = [s, s, s]"
  by (simp add: BUS_DEVICE_TOTAL_COUNT_def numeral_3_eq_3)

lemma three_updates: "[a, b, c][0 := x, 1 := y, 2 := z] = [x, y, z]"
  by (simp add: numeral_2_eq_2)

lemma init_fdo_slots:
  "DeviceData init_fdo =
     [zero_slot\<lparr>sSerialNo := 1\<rparr>, zero_slot\<lparr>sSerialNo := 2\<rparr>, zero_slot\<lparr>sSerialNo := 4\<rparr>]"
  unfolding init_fdo_def zero_fdo_def TDSP_GetRfType_def Let_def
  by (simp add: three_slots three_updates bus_serials del: list_update_code)

lemma init_fdo_fields:
  "DevicePowerState init_fdo = PowerDeviceD0" "DevicePnPState init_fdo = NotStarted"
  "RfType init_fdo = 1" "BusPowerState init_fdo = PowerWirlessOff"
  by (simp_all add: init_fdo_def zero_fdo_def TDSP_GetRfType_def bus_consts Let_def)

lemma init_module_inv:
  assumes "0 \<le> major"
  shows "bus_inv (snd (tdspbus_init_module (Some p) major w))"
  using assms
  by (simp add: bus_inv_def tdspbus_init_module_def Let_def init_fdo_slots init_fdo_fields
      slot_ok_def any_registered_def zero_slot_def)

end
