(* ===== verification/Bus_Ioctl.thy ===== *)
theory Bus_Ioctl
  imports Bus_Ops
begin

text \<open>
  The character device of the bus module, \<^verbatim>\<open>src/driver_src/bus/busioctl.c\<close>: open, release
  and the ioctl the control utilities use.  One definition per case of the switch, each from the
  user memory at the argument's address and the bus state to the status, the user memory and the
  new state.  \<open>stk\<close> is what the kernel stack held where the structure of a plug or unplug
  request is read to: the code copies as many bytes as the request says.
\<close>

section \<open>The command codes\<close>

definition BUSENUM_IOCTL :: "u32 \<Rightarrow> u32" where "BUSENUM_IOCTL n = 0x6b00 + n"

abbreviation "IOCTL_BUSENUM_PLUGIN_HARDWARE \<equiv> BUSENUM_IOCTL 0x0"
abbreviation "IOCTL_BUSENUM_UNPLUG_HARDWARE \<equiv> BUSENUM_IOCTL 0x1"
abbreviation "IOCTL_BUSENUM_EJECT_HARDWARE \<equiv> BUSENUM_IOCTL 0x2"
abbreviation "IOCTL_BUSENUM_DISPLAY_IN_USE_DEVICE \<equiv> BUSENUM_IOCTL 0x4"
abbreviation "IOCTL_BUSENUM_RELOAD_BT_CODE \<equiv> BUSENUM_IOCTL 0x5"
abbreviation "IOCTL_BUSENUM_RELOAD_WLAN_CODE \<equiv> BUSENUM_IOCTL 0x6"
abbreviation "IOCTL_BUSENUM_RELOAD_GPS_CODE \<equiv> BUSENUM_IOCTL 0x7"
abbreviation "IOCTL_BUSENUM_RELOAD_CODE_FROM_FILE \<equiv> BUSENUM_IOCTL 0xe"
abbreviation "IOCTL_BUSENUM_RELOAD_COMBO_CODE \<equiv> BUSENUM_IOCTL 0xf"
abbreviation "IOCTL_BUSENUM_SET_INIT_FLAG \<equiv> BUSENUM_IOCTL 0x10"
abbreviation "IOCTL_BUSENUM_READ_REGISTER \<equiv> BUSENUM_IOCTL 0x11"
abbreviation "IOCTL_BUSENUM_WRITE_REGISTER \<equiv> BUSENUM_IOCTL 0x12"
abbreviation "IOCTL_BUSENUM_LOAD_EEPROM \<equiv> BUSENUM_IOCTL 0x1c"
abbreviation "IOCTL_BUSENUM_WRITE_EEPROM \<equiv> BUSENUM_IOCTL 0x1d"
abbreviation "IOCTL_BUSENUM_QUERY_AUTO_ENUM_FLAG \<equiv> BUSENUM_IOCTL 0x1e"
abbreviation "IOCTL_BUSENUM_QUERY_RF_TYPE \<equiv> BUSENUM_IOCTL 0x1f"
abbreviation "IOCTL_BUSENUM_QUERY_DEVICE_STATE \<equiv> BUSENUM_IOCTL 0x20"
abbreviation "IOCTL_BUSENUM_QUERY_DEVICE_VERSION \<equiv> BUSENUM_IOCTL 0x21"
abbreviation "IOCTL_BUSENUM_QUERY_BUS_VERSION \<equiv> BUSENUM_IOCTL 0x22"
abbreviation "IOCTL_BUSENUM_QUERY_FIRMWARE_VERSION \<equiv> BUSENUM_IOCTL 0x23"
abbreviation "IOCTL_BUSENUM_QUERY_DSP_START_FLAG \<equiv> BUSENUM_IOCTL 0x24"
abbreviation "IOCTL_BUSENUM_QUERY_DEVICE_COMNUM \<equiv> BUSENUM_IOCTL 0x25"
abbreviation "IOCTL_BUSENUM_GET_CHIP_ID \<equiv> BUSENUM_IOCTL 0x26"
abbreviation "IOCTL_BUSENUM_GET_SUB_SYSTEM_ID_INFO \<equiv> BUSENUM_IOCTL 0x27"
abbreviation "IOCTL_BUSENUM_QUERY_DEVICE_COMPANYID \<equiv> BUSENUM_IOCTL 0x28"
abbreviation "IOCTL_BUSENUM_READ_ENUM_MODE \<equiv> BUSENUM_IOCTL 0x29"
abbreviation "IOCTL_BUSENUM_WRITE_ENUM_MODE \<equiv> BUSENUM_IOCTL 0x2a"
abbreviation "IOCTL_BUSENUM_QUERY_RESET_FLAG \<equiv> BUSENUM_IOCTL 0x2b"
abbreviation "IOCTL_BUSENUM_QUERY_BUS_POWER_STATE \<equiv> BUSENUM_IOCTL 0x2e"
abbreviation "IOCTL_BUSENUM_SET_HOTKEY_FLAG \<equiv> BUSENUM_IOCTL 0x30"
abbreviation "IOCTL_BUSENUM_QUERY_8051_VERSION \<equiv> BUSENUM_IOCTL 0x31"
abbreviation "IOCTL_BUSENUM_SET_ANTENNA \<equiv> BUSENUM_IOCTL 0x32"

lemma BUSENUM_IOCTL_inject [simp]: "(BUSENUM_IOCTL m = BUSENUM_IOCTL n) = (m = n)"
  by (simp add: BUSENUM_IOCTL_def)

section \<open>Open and release\<close>

record bus_file =
  private_data :: "addr option"

definition tdspbus_open :: "bus_file \<Rightarrow> 'c bus \<Rightarrow> (int \<times> bus_file) option" where
  "tdspbus_open pfile w = do {
     f \<leftarrow> fdo_of w;
     Some (STATUS_SUCCESS, pfile\<lparr>private_data := ptdspbus_myself w\<rparr>)
   }"

definition tdspbus_release :: "bus_file \<Rightarrow> 'c bus \<Rightarrow> (int \<times> bus_file) option" where
  "tdspbus_release pfile w = do {
     f \<leftarrow> fdo_of w;
     if DevicePnPState f \<noteq> Started then Some (STATUS_NO_SUCH_DEVICE, pfile)
     else if DevicePowerState f \<noteq> PowerDeviceD0 then Some (STATUS_POWER_STATE_INVALID, pfile)
     else Some (STATUS_SUCCESS, pfile\<lparr>private_data := None\<rparr>)
   }"

section \<open>Building blocks of the cases\<close>

type_synonym 'c ioctl_case = "umem \<Rightarrow> 'c bus \<Rightarrow> (int \<times> umem \<times> 'c bus) option"

text \<open>A case that leaves its loop with a status and no reply.\<close>

definition ioctl_status :: "int \<Rightarrow> 'c ioctl_case" where
  "ioctl_status st m w = Some (st, m, w)"

text \<open>\<^verbatim>\<open>copy_to_user\<close> of a kernel object, \<^verbatim>\<open>-EFAULT\<close> when it fails.\<close>

definition ioctl_reply :: "u8 list \<Rightarrow> 'c ioctl_case" where
  "ioctl_reply bs m w =
     (case copy_to_user bs m of
        (n, m1) \<Rightarrow> if n \<noteq> 0 then Some (- EFAULT, m1, w) else Some (STATUS_SUCCESS, m1, w))"

text \<open>\<^verbatim>\<open>copy_from_user\<close> of an unsigned long; the status stays the initial one when it fails.\<close>

definition ioctl_fetch :: "(u32 \<Rightarrow> 'c ioctl_case) \<Rightarrow> 'c ioctl_case" where
  "ioctl_fetch k m w =
     (case copy_from_user 4 m of
        (n, bs) \<Rightarrow> if n \<noteq> 0 then Some (STATUS_INVALID_PARAMETER, m, w) else k (rd32 bs) m w)"

text \<open>
  Five cases write through the user pointer themselves and then copy the word onto itself.
\<close>

definition ioctl_store :: "u32 \<Rightarrow> 'c ioctl_case" where
  "ioctl_store x m w = do { m1 \<leftarrow> user_store32 x m; ioctl_reply (take 4 m1) m1 w }"

text \<open>The slot of a found device with its interface.\<close>

definition slot_iface :: "nat \<Rightarrow> 'c bus \<Rightarrow> (dev_slot \<times> iface) option" where
  "slot_iface i w = do {
     f \<leftarrow> fdo_of w;
     s \<leftarrow> slot_at f i;
     p \<leftarrow> pDeviceInterface s;
     x \<leftarrow> ifaces w p;
     Some (s, x)
   }"

section \<open>Plug and unplug requests\<close>

definition PLUGIN_SIZE :: nat where "PLUGIN_SIZE = 8"
definition UNPLUG_SIZE :: nat where "UNPLUG_SIZE = 16"

text \<open>
  The request's first word says how many bytes are copied onto the stack structure of
  \<open>sz\<close> bytes: a longer request overruns it, a shorter one leaves old stack contents.
\<close>

definition ioctl_request :: "nat \<Rightarrow> u8 list \<Rightarrow> (u32 \<Rightarrow> 'c ioctl_case) \<Rightarrow> 'c ioctl_case" where
  "ioctl_request sz stk k =
     ioctl_fetch (\<lambda>len m w.
       if sz < unat len then None
       else case copy_from_user (unat len) m of
         (n, bs) \<Rightarrow>
           if n \<noteq> 0 then Some (STATUS_INVALID_PARAMETER, m, w)
           else k (rd32 (drop 4 (bs @ drop (unat len) stk))) m w)"

definition ioctl_plugin :: "'c caller \<Rightarrow> u8 list \<Rightarrow> 'c ioctl_case" where
  "ioctl_plugin call stk =
     ioctl_request PLUGIN_SIZE stk
       (\<lambda>sn m w. do { (r, w1) \<leftarrow> Bus_PlugInDevice call sn w; Some (r, m, w1) })"

definition ioctl_unplug :: "'c caller \<Rightarrow> u8 list \<Rightarrow> 'c ioctl_case" where
  "ioctl_unplug call stk =
     ioctl_request UNPLUG_SIZE stk
       (\<lambda>sn m w. do { (r, w1) \<leftarrow> Bus_UnPlugDevice 2 call sn w; Some (r, m, w1) })"

section \<open>Queries\<close>

definition ioctl_query_bus_power_state :: "'c ioctl_case" where
  "ioctl_query_bus_power_state m w = do {
     f \<leftarrow> fdo_of w;
     ioctl_store (bus_power_code (BusPowerState f)) m w
   }"

fun in_use_bits :: "(addr \<Rightarrow> iface option) \<Rightarrow> dev_slot list \<Rightarrow> u32 \<Rightarrow> u32 option" where
  "in_use_bits h [] v = Some v"
| "in_use_bits h (s # ss) v =
     (case pDeviceInterface s of
        None \<Rightarrow> in_use_bits h ss v
      | Some p \<Rightarrow> do {
          x \<leftarrow> h p;
          in_use_bits h ss (if devstate x = Started then v OR ucast (sSerialNo s)
                            else v OR 0xff00)
        })"

definition in_use_value :: "u32 \<Rightarrow> u32" where
  "in_use_value v =
     (if v \<noteq> 0 then if v AND 0xff = 0 then 0xffff else v AND 0x00ff else 0x10000)"

definition ioctl_display_in_use :: "'c ioctl_case" where
  "ioctl_display_in_use m w =
     (case copy_to_user (le32 0) m of
        (n, m1) \<Rightarrow>
          if n \<noteq> 0 then Some (- EFAULT, m1, w)
          else do {
            f \<leftarrow> fdo_of w;
            v \<leftarrow> in_use_bits (ifaces w) (DeviceData f) 0;
            ioctl_reply (le32 (in_use_value v)) m1 w
          })"

definition ioctl_query_device_state :: "'c ioctl_case" where
  "ioctl_query_device_state =
     ioctl_fetch (\<lambda>sn m w. do {
       f \<leftarrow> fdo_of w;
       case Bus_FindPdoBySerialNo f sn of
         None \<Rightarrow> ioctl_reply (le32 0xff) m w
       | Some i \<Rightarrow> do {
           (s, x) \<leftarrow> slot_iface i w;
           ioctl_reply (le32 (if devstate x = Started then pnp_code Started else 0xff)) m w
         }
     })"

definition ioctl_query_device_version :: "'c ioctl_case" where
  "ioctl_query_device_version =
     ioctl_fetch (\<lambda>sn m w. do {
       f \<leftarrow> fdo_of w;
       case Bus_FindPdoBySerialNo f sn of
         None \<Rightarrow> ioctl_reply (le32 0) m w
       | Some i \<Rightarrow> do {
           (s, x) \<leftarrow> slot_iface i w;
           ioctl_reply (take MAX_VERSIONID_LEN (drv_version x)) m w
         }
     })"

definition ioctl_query_bus_version :: "'c ioctl_case" where
  "ioctl_query_bus_version m w = do {
     f \<leftarrow> fdo_of w;
     ioctl_reply (take MAX_VERSIONID_LEN (MyVersion f)) m w
   }"

text \<open>The firmware versions come from the Bluetooth interface, or else from the WLAN one.\<close>

definition firmware_slot :: "fdo \<Rightarrow> nat option" where
  "firmware_slot f =
     (case Bus_FindPdoBySerialNo f BUS_DEVICE_SERIAL_NO_BT of
        None \<Rightarrow> Bus_FindPdoBySerialNo f BUS_DEVICE_SERIAL_NO_WLAN
      | Some i \<Rightarrow> Some i)"

definition ioctl_query_firmware :: "(iface \<Rightarrow> u32) \<Rightarrow> 'c ioctl_case" where
  "ioctl_query_firmware field m w = do {
     f \<leftarrow> fdo_of w;
     case firmware_slot f of
       None \<Rightarrow> ioctl_status STATUS_SUCCESS m w
     | Some i \<Rightarrow> do {
         (s, x) \<leftarrow> slot_iface i w;
         ioctl_reply (le32 (field x)) m w
       }
   }"

definition ioctl_query_firmware_version :: "'c ioctl_case" where
  "ioctl_query_firmware_version = ioctl_query_firmware dsp_version"

definition ioctl_query_8051_version :: "'c ioctl_case" where
  "ioctl_query_8051_version = ioctl_query_firmware c8051_version"

definition ioctl_query_device_comnum :: "'c ioctl_case" where
  "ioctl_query_device_comnum =
     ioctl_fetch (\<lambda>sn m w. do {
       f \<leftarrow> fdo_of w;
       case Bus_FindPdoBySerialNo f sn of
         None \<Rightarrow> ioctl_reply (le32 0) m w
       | Some i \<Rightarrow> do { s \<leftarrow> slot_at f i; ioctl_reply (le32 (ComNum s)) m w }
     })"

text \<open>
  Four bytes are copied from the address of the two-byte field \<^verbatim>\<open>CompanyID\<close>; the two that
  follow it are the low half of \<^verbatim>\<open>ComNum\<close>.
\<close>

definition company_bytes :: "dev_slot \<Rightarrow> u8 list" where
  "company_bytes s =
     [ucast (CompanyID s), ucast (drop_bit 8 (CompanyID s))] @ take 2 (le32 (ComNum s))"

definition ioctl_query_device_companyid :: "'c ioctl_case" where
  "ioctl_query_device_companyid m w = do {
     x \<leftarrow> user_load32 m;
     ioctl_fetch (\<lambda>sn m w. do {
       f \<leftarrow> fdo_of w;
       case Bus_FindPdoBySerialNo f sn of
         None \<Rightarrow> ioctl_reply (le32 0) m w
       | Some i \<Rightarrow> do { s \<leftarrow> slot_at f i; ioctl_reply (company_bytes s) m w }
     }) m w
   }"

definition ioctl_get_chip_id :: "'c ioctl_case" where
  "ioctl_get_chip_id m w = do { f \<leftarrow> fdo_of w; ioctl_reply (le32 (chipID f)) m w }"

text \<open>\<^verbatim>\<open>outlen\<close> is 0 throughout the function.\<close>

definition ioctl_get_sub_system_id_info :: "nat \<Rightarrow> 'c ioctl_case" where
  "ioctl_get_sub_system_id_info outlen m w =
     (if outlen = 4 then do { f \<leftarrow> fdo_of w; ioctl_reply (le32 (SubSystemIDInfo f)) m w }
      else ioctl_status STATUS_INVALID_PARAMETER m w)"

definition ioctl_query_rf_type :: "'c ioctl_case" where
  "ioctl_query_rf_type m w = do { f \<leftarrow> fdo_of w; ioctl_store (ucast (RfType f)) m w }"

definition ioctl_query_auto_enum_flag :: "'c ioctl_case" where
  "ioctl_query_auto_enum_flag = ioctl_reply (le32 0)"

section \<open>The enumeration mode\<close>

definition enum_part :: "u32 \<Rightarrow> 'c bus \<Rightarrow> u32 option" where
  "enum_part sn w = do {
     f \<leftarrow> fdo_of w;
     case Bus_FindPdoBySerialNo f sn of
       None \<Rightarrow> Some 0
     | Some i \<Rightarrow> do {
         (s, x) \<leftarrow> slot_iface i w;
         Some (if devstate x = Started then sn
               else if state_old_from_wb s = NotStarted then push_bit 8 sn
               else 0)
       }
   }"

definition enum_normalize :: "u32 \<Rightarrow> u32" where
  "enum_normalize e =
     (if e AND 0xff \<noteq> 0 then e AND 0xff else if drop_bit 8 e \<noteq> 0 then - 1 else e)"

definition set_enum_mode :: "u32 \<Rightarrow> 'c bus \<Rightarrow> 'c bus" where
  "set_enum_mode e w = w\<lparr>FdoData := (FdoData w)\<lparr>EnumMode := e\<rparr>\<rparr>"

definition ioctl_read_enum_mode :: "'c ioctl_case" where
  "ioctl_read_enum_mode m w = do {
     b \<leftarrow> enum_part BUS_DEVICE_SERIAL_NO_BT w;
     l \<leftarrow> enum_part BUS_DEVICE_SERIAL_NO_WLAN w;
     let e = enum_normalize (b OR l);
     ioctl_reply (le32 e) m (set_enum_mode e w)
   }"

definition ioctl_write_enum_mode :: "'c ioctl_case" where
  "ioctl_write_enum_mode =
     ioctl_fetch (\<lambda>e m w. do {
       f \<leftarrow> fdo_of w;
       ioctl_status STATUS_SUCCESS m (set_enum_mode e w)
     })"

section \<open>Hot key and antenna\<close>

text \<open>\<^verbatim>\<open>ParaFlag\<close> with its hot-key bit, or its two antenna bits, replaced.\<close>

definition hotkey_para :: "u8 \<Rightarrow> u8 \<Rightarrow> u8" where
  "hotkey_para p h = (p AND NOT 1) OR h"

definition antenna_para :: "u8 \<Rightarrow> u8 \<Rightarrow> u8" where
  "antenna_para p a = (p AND NOT 6) OR push_bit 1 a"

text \<open>One iteration of either loop: the slot is written, then the flags of its interface.\<close>

definition hotkey_step :: "u32 \<Rightarrow> nat \<Rightarrow> 'c bus \<Rightarrow> 'c bus option" where
  "hotkey_step flag i w = do {
     f \<leftarrow> fdo_of w;
     s \<leftarrow> slot_at f i;
     let s1 = s\<lparr>uHotKeyPressed := ucast (flag AND 1), state_old_from_wb := StartWithOS\<rparr>;
     let w1 = set_slot i s1 w;
     case pDeviceInterface s1 of
       None \<Rightarrow> Some w1
     | Some p \<Rightarrow> do {
         x \<leftarrow> ifaces w1 p;
         Some (set_iface p (x\<lparr>ParaFlag := hotkey_para (ParaFlag x) (uHotKeyPressed s1)\<rparr>) w1)
       }
   }"

definition antenna_step :: "u32 \<Rightarrow> nat \<Rightarrow> 'c bus \<Rightarrow> 'c bus option" where
  "antenna_step flag i w = do {
     f \<leftarrow> fdo_of w;
     s \<leftarrow> slot_at f i;
     let s1 = s\<lparr>uAntennaFlag := ucast (flag AND 3)\<rparr>;
     let w1 = set_slot i s1 w;
     if ucast (sSerialNo s1) = BUS_DEVICE_SERIAL_NO_WLAN
     then (case pDeviceInterface s1 of
         None \<Rightarrow> Some w1
       | Some p \<Rightarrow> do {
           x \<leftarrow> ifaces w1 p;
           Some (set_iface p
             (x\<lparr>ParaFlag := antenna_para (ParaFlag x) (uAntennaFlag s1)\<rparr>) w1)
         })
     else Some w1
   }"

fun for_each_slot :: "(nat \<Rightarrow> 'c bus \<Rightarrow> 'c bus option) \<Rightarrow> nat list \<Rightarrow> 'c bus \<Rightarrow> 'c bus option" where
  "for_each_slot step [] w = Some w"
| "for_each_slot step (i # is) w = do { w1 \<leftarrow> step i w; for_each_slot step is w1 }"

definition ioctl_set_hotkey_flag :: "'c ioctl_case" where
  "ioctl_set_hotkey_flag =
     ioctl_fetch (\<lambda>flag m w. do {
       w1 \<leftarrow> for_each_slot (hotkey_step flag) [0..<BUS_DEVICE_TOTAL_COUNT] w;
       ioctl_status STATUS_SUCCESS m w1
     })"

definition ioctl_set_antenna :: "'c ioctl_case" where
  "ioctl_set_antenna =
     ioctl_fetch (\<lambda>flag m w. do {
       w1 \<leftarrow> for_each_slot (antenna_step flag) [0..<BUS_DEVICE_TOTAL_COUNT] w;
       ioctl_status STATUS_SUCCESS m w1
     })"

section \<open>The switch\<close>

definition ioctl_switch :: "'c caller \<Rightarrow> u8 list \<Rightarrow> u32 \<Rightarrow> 'c ioctl_case" where
  "ioctl_switch call stk cmd =
     (if cmd = IOCTL_BUSENUM_PLUGIN_HARDWARE then ioctl_plugin call stk
      else if cmd = IOCTL_BUSENUM_UNPLUG_HARDWARE then ioctl_unplug call stk
      else if cmd = IOCTL_BUSENUM_QUERY_BUS_POWER_STATE then ioctl_query_bus_power_state
      else if cmd = IOCTL_BUSENUM_EJECT_HARDWARE then ioctl_status STATUS_INVALID_PARAMETER
      else if cmd = IOCTL_BUSENUM_DISPLAY_IN_USE_DEVICE then ioctl_display_in_use
      else if cmd = IOCTL_BUSENUM_RELOAD_BT_CODE then ioctl_status STATUS_SUCCESS
      else if cmd = IOCTL_BUSENUM_RELOAD_WLAN_CODE then ioctl_status STATUS_SUCCESS
      else if cmd = IOCTL_BUSENUM_RELOAD_COMBO_CODE then ioctl_status STATUS_SUCCESS
      else if cmd = IOCTL_BUSENUM_RELOAD_GPS_CODE then ioctl_status STATUS_SUCCESS
      else if cmd = IOCTL_BUSENUM_RELOAD_CODE_FROM_FILE then ioctl_status STATUS_SUCCESS
      else if cmd = IOCTL_BUSENUM_SET_INIT_FLAG then ioctl_status STATUS_SUCCESS
      else if cmd = IOCTL_BUSENUM_QUERY_DEVICE_STATE then ioctl_query_device_state
      else if cmd = IOCTL_BUSENUM_QUERY_DEVICE_VERSION then ioctl_query_device_version
      else if cmd = IOCTL_BUSENUM_QUERY_BUS_VERSION then ioctl_query_bus_version
      else if cmd = IOCTL_BUSENUM_QUERY_FIRMWARE_VERSION then ioctl_query_firmware_version
      else if cmd = IOCTL_BUSENUM_QUERY_8051_VERSION then ioctl_query_8051_version
      else if cmd = IOCTL_BUSENUM_SET_HOTKEY_FLAG then ioctl_set_hotkey_flag
      else if cmd = IOCTL_BUSENUM_SET_ANTENNA then ioctl_set_antenna
      else if cmd = IOCTL_BUSENUM_QUERY_DSP_START_FLAG then ioctl_store 0
      else if cmd = IOCTL_BUSENUM_QUERY_DEVICE_COMNUM then ioctl_query_device_comnum
      else if cmd = IOCTL_BUSENUM_QUERY_DEVICE_COMPANYID then ioctl_query_device_companyid
      else if cmd = IOCTL_BUSENUM_GET_CHIP_ID then ioctl_get_chip_id
      else if cmd = IOCTL_BUSENUM_GET_SUB_SYSTEM_ID_INFO then ioctl_get_sub_system_id_info 0
      else if cmd = IOCTL_BUSENUM_READ_ENUM_MODE then ioctl_read_enum_mode
      else if cmd = IOCTL_BUSENUM_WRITE_ENUM_MODE then ioctl_write_enum_mode
      else if cmd = IOCTL_BUSENUM_QUERY_RESET_FLAG then ioctl_store 0
      else if cmd = IOCTL_BUSENUM_QUERY_RF_TYPE then ioctl_query_rf_type
      else if cmd = IOCTL_BUSENUM_QUERY_AUTO_ENUM_FLAG then ioctl_query_auto_enum_flag
      else if cmd = IOCTL_BUSENUM_READ_REGISTER then ioctl_status STATUS_INVALID_PARAMETER
      else if cmd = IOCTL_BUSENUM_WRITE_REGISTER then ioctl_status STATUS_INVALID_PARAMETER
      else ioctl_status STATUS_INVALID_PARAMETER)"

definition tdspbus_unlocked_ioctl ::
  "'c caller \<Rightarrow> u8 list \<Rightarrow> bus_file \<Rightarrow> u32 \<Rightarrow> 'c ioctl_case" where
  "tdspbus_unlocked_ioctl call stk pfile cmd m w =
     (if private_data pfile \<noteq> ptdspbus_myself w then Some (- EFAULT, m, w)
      else do {
        f \<leftarrow> fdo_of w;
        if DevicePnPState f \<noteq> Started \<and>
           (cmd \<noteq> IOCTL_BUSENUM_SET_HOTKEY_FLAG \<and> cmd \<noteq> IOCTL_BUSENUM_SET_ANTENNA)
        then Some (- EFAULT, m, w)
        else if DevicePowerState f \<noteq> PowerDeviceD0 then Some (- EFAULT, m, w)
        else ioctl_switch call stk cmd m w
      })"

end
