(* ===== verification/Bus_Ioctl_Ok.thy ===== *)
theory Bus_Ioctl_Ok
  imports Bus_Ioctl
begin

text \<open>
  Every ioctl of the bus device keeps the invariant and returns, provided the argument is one
  the code can take: the cases that write through the user pointer need four mapped bytes, and a
  plug or unplug request must not be longer than its structure on the stack (\<open>ioctl_safe\<close>).
  An unsafe argument crashes the kernel.
\<close>

section \<open>Evaluation of the building blocks\<close>

lemma ioctl_fetch_mapped [umem_simps]:
  "4 \<le> length m \<Longrightarrow> ioctl_fetch k m w = k (rd32 m) m w"
  by (simp add: ioctl_fetch_def umem_simps)

lemma ioctl_fetch_unmapped [umem_simps]:
  "length m < 4 \<Longrightarrow> ioctl_fetch k m w = Some (STATUS_INVALID_PARAMETER, m, w)"
  by (simp add: ioctl_fetch_def copy_from_user_def)

lemma ioctl_reply_fits [umem_simps]:
  "length bs \<le> length m \<Longrightarrow>
   ioctl_reply bs m w = Some (STATUS_SUCCESS, bs @ drop (length bs) m, w)"
  by (simp add: ioctl_reply_def umem_simps)

lemma ioctl_reply_faults [umem_simps]:
  "length m < length bs \<Longrightarrow> ioctl_reply bs m w = Some (- EFAULT, take (length m) bs, w)"
  by (simp add: ioctl_reply_def copy_to_user_def Let_def)

lemma ioctl_store_mapped [umem_simps]:
  "4 \<le> length m \<Longrightarrow> ioctl_store x m w = Some (STATUS_SUCCESS, le32 x @ drop 4 m, w)"
  by (simp add: ioctl_store_def umem_simps)

lemma ioctl_store_unmapped [umem_simps]: "length m < 4 \<Longrightarrow> ioctl_store x m w = None"
  by (simp add: ioctl_store_def user_store32_def)

lemma slot_iface_inv:
  assumes "bus_inv w" "Bus_FindPdoBySerialNo (FdoData w) sn = Some i"
  obtains p x where "slot_iface i w = Some (DeviceData (FdoData w) ! i, x)" "i < 3"
    "slot_at (FdoData w) i = Some (DeviceData (FdoData w) ! i)"
    "pDeviceInterface (DeviceData (FdoData w) ! i) = Some p" "ifaces w p = Some x"
    "iface_ok (DeviceData (FdoData w) ! i) x"
    "ucast (sSerialNo (DeviceData (FdoData w) ! i)) = sn"
proof -
  obtain p x where "i < 3" "pDeviceInterface (DeviceData (FdoData w) ! i) = Some p"
    "ifaces w p = Some x" "iface_ok (DeviceData (FdoData w) ! i) x"
    "slot_at (FdoData w) i = Some (DeviceData (FdoData w) ! i)"
    "ucast (sSerialNo (DeviceData (FdoData w) ! i)) = sn"
    using assms by (rule Bus_Find_slot)
  with assms(1) that show ?thesis by (simp add: slot_iface_def)
qed

section \<open>Cases that return and keep an invariant\<close>

definition keeps :: "('c bus \<Rightarrow> bool) \<Rightarrow> (umem \<Rightarrow> bool) \<Rightarrow> 'c ioctl_case \<Rightarrow> bool" where
  "keeps I P c \<longleftrightarrow>
     (\<forall>m w. I w \<longrightarrow> P m \<longrightarrow> (\<exists>r m' w'. c m w = Some (r, m', w') \<and> I w' \<and> length m' = length m))"

lemma keepsI:
  "(\<And>m w. I w \<Longrightarrow> P m \<Longrightarrow> \<exists>r m' w'. c m w = Some (r, m', w') \<and> I w' \<and> length m' = length m) \<Longrightarrow>
   keeps I P c"
  by (simp add: keeps_def)

lemma keepsE:
  assumes "keeps I P c" "I w" "P m"
  obtains r m' w' where "c m w = Some (r, m', w')" "I w'" "length m' = length m"
  using assms unfolding keeps_def by blast

lemma keeps_if: "(b \<Longrightarrow> keeps I P c) \<Longrightarrow> (\<not> b \<Longrightarrow> keeps I P d) \<Longrightarrow> keeps I P (if b then c else d)"
  by simp

lemma keeps_weaken: "keeps I P c \<Longrightarrow> (\<And>m. Q m \<Longrightarrow> P m) \<Longrightarrow> keeps I Q c"
  by (auto simp: keeps_def)

lemma keeps_status: "keeps I P (ioctl_status st)"
  by (simp add: keeps_def ioctl_status_def)

lemma ioctl_reply_keeps:
  "\<exists>r m'. ioctl_reply bs m w = Some (r, m', w) \<and> length m' = length m"
  by (cases "length bs \<le> length m") (auto simp: umem_simps)

lemma ioctl_fetch_keeps:
  assumes "\<And>x. keeps I P (k x)"
  shows "keeps I P (ioctl_fetch k)"
proof (rule keepsI)
  fix m w assume "I w" "P m"
  with assms show "\<exists>r m' w'. ioctl_fetch k m w = Some (r, m', w') \<and> I w' \<and> length m' = length m"
    by (cases "4 \<le> length m") (auto simp: umem_simps keeps_def)
qed

lemma keeps_reply_inv:
  assumes "\<And>m w. I w \<Longrightarrow> \<exists>bs. c m w = ioctl_reply bs m w"
  shows "keeps I P c"
proof (rule keepsI)
  fix m w assume "I w"
  with assms [of w m] obtain bs where "c m w = ioctl_reply bs m w" by blast
  with \<open>I w\<close> ioctl_reply_keeps [of bs m w]
  show "\<exists>r m' w'. c m w = Some (r, m', w') \<and> I w' \<and> length m' = length m" by auto
qed

lemma keeps_call:
  assumes "\<And>w. I w \<Longrightarrow> \<exists>r w'. f w = Some (r, w') \<and> I w'"
  shows "keeps I P (\<lambda>m w. do { (r, w1) \<leftarrow> f w; Some (r, m, w1) })"
proof (rule keepsI)
  fix m w assume "I w"
  with assms obtain r w' where "f w = Some (r, w')" "I w'" by blast
  then show "\<exists>r m' w'. do { (r, w1) \<leftarrow> f w; Some (r, m, w1) } = Some (r, m', w') \<and> I w' \<and>
      length m' = length m" by simp
qed

section \<open>Flag writes\<close>

lemma hot_1: "(ucast (flag AND 1 :: u32) :: u8) AND 1 = ucast (flag AND 1)"
  by (simp add: ucast_and_u8)

lemma hot_2: "hotkey_para p (ucast (flag AND 1 :: u32)) AND 1 = ucast (flag AND 1)"
  unfolding hotkey_para_def by (rule bit_word_eqI) (auto simp: bit_simps)

lemma hot_3: "drop_bit 1 (hotkey_para p (ucast (flag AND 1 :: u32))) = drop_bit 1 p"
  using drop_bit_low [of 1 p "ucast flag"] by (simp add: hotkey_para_def ucast_and_u8)

lemma antenna_1: "(ucast (flag AND 3 :: u32) :: u8) AND 3 = ucast (flag AND 3)"
  by (simp add: ucast_and_u8)

lemma antenna_2: "antenna_para p a AND 1 = p AND 1"
  using bit0_push_bit [of 1 p 3 a] by (simp add: antenna_para_def)

lemma antenna_3: "a AND 3 = a \<Longrightarrow> drop_bit 1 (antenna_para p a) AND 3 = a"
  using drop_bit_write [of 1 2 a p] by (simp add: antenna_para_def mask_eq_exp_minus_1)

text \<open>A slot and its interface written together.\<close>

lemma slot_heap_inv:
  assumes inv: "bus_inv w" and i: "i < 3"
    and t: "sSerialNo t = sSerialNo (DeviceData (FdoData w) ! i)"
      "pDeviceInterface t = pDeviceInterface (DeviceData (FdoData w) ! i)"
    and frame: "\<And>p. pDeviceInterface t \<noteq> Some p \<Longrightarrow> h p = ifaces w p"
    and ok: "slot_ok h t"
  shows "bus_inv (set_slot i t w\<lparr>ifaces := h\<rparr>)"
proof -
  let ?ds = "DeviceData (FdoData w)"
  have len: "i < length ?ds" using inv i by simp
  have other: "slot_ok h (?ds ! j)" if j: "j < 3" "j \<noteq> i" for j
  proof -
    have "pDeviceInterface (?ds ! j) = Some p \<Longrightarrow> h p = ifaces w p" for p
      using bus_inv_owner_unique [OF inv i j(1), of p] t(2) frame [of p] j(2) by auto
    with bus_inv_slot_ok [OF inv j(1)] show ?thesis by (auto simp: slot_ok_def)
  qed
  have "\<forall>u \<in> set (?ds[i := t]). slot_ok h u"
    using ok other inv len by (auto simp: in_set_conv_nth nth_list_update)
  moreover have "map sSerialNo (?ds[i := t]) = map sSerialNo ?ds"
    using len t(1) by (simp add: map_update list_update_same_conv)
  moreover have "any_registered (FdoData (set_slot i t w)) = any_registered (FdoData w)"
    using len t(2) by (simp add: set_slot_def any_registered_upd)
  ultimately show ?thesis using inv by (simp add: bus_inv_def set_slot_def)
qed

text \<open>What either loop leaves alone.\<close>

definition flag_frame :: "'c bus \<Rightarrow> 'c bus \<Rightarrow> bool" where
  "flag_frame w w' \<longleftrightarrow>
     client w' = client w \<and> ptdspbus_myself w' = ptdspbus_myself w \<and>
     map pDeviceInterface (DeviceData (FdoData w')) = map pDeviceInterface (DeviceData (FdoData w)) \<and>
     (\<forall>p. rel_option (\<lambda>x y. iface_agrees x y \<and> devstate y = devstate x) (ifaces w p) (ifaces w' p))"

lemma flag_frame_refl: "flag_frame w w"
  by (simp add: flag_frame_def option.rel_refl iface_agrees_def)

lemma flag_frame_trans: "flag_frame w1 w2 \<Longrightarrow> flag_frame w2 w3 \<Longrightarrow> flag_frame w1 w3"
  unfolding flag_frame_def
proof (intro conjI allI; elim conjE)
  fix p
  assume "\<forall>p. rel_option (\<lambda>x y. iface_agrees x y \<and> devstate y = devstate x) (ifaces w1 p) (ifaces w2 p)"
    and "\<forall>p. rel_option (\<lambda>x y. iface_agrees x y \<and> devstate y = devstate x) (ifaces w2 p) (ifaces w3 p)"
  then show "rel_option (\<lambda>x y. iface_agrees x y \<and> devstate y = devstate x) (ifaces w1 p) (ifaces w3 p)"
    by (cases "ifaces w1 p"; cases "ifaces w2 p"; cases "ifaces w3 p")
      (auto simp: iface_agrees_def dest!: spec [of _ p])
qed simp_all

lemma flag_frame_clients:
  assumes "flag_frame w w'" "clients_ok ok w" "\<And>c a x y. iface_agrees x y \<Longrightarrow> ok c a x \<Longrightarrow> ok c a y"
  shows "clients_ok ok w'"
  unfolding clients_ok_def
proof (intro ballI allI impI)
  fix s p y
  assume s: "s \<in> set (DeviceData (FdoData w'))" "pDeviceInterface s = Some p"
    and y: "ifaces w' p = Some y"
  have "Some p \<in> set (map pDeviceInterface (DeviceData (FdoData w')))" using s by force
  also have "\<dots> = set (map pDeviceInterface (DeviceData (FdoData w)))"
    using assms(1) by (simp add: flag_frame_def)
  finally obtain t where t: "t \<in> set (DeviceData (FdoData w))" "pDeviceInterface t = Some p"
    by auto
  obtain x where "ifaces w p = Some x" "iface_agrees x y"
    using assms(1) y by (auto simp: flag_frame_def option_rel_Some2 dest!: spec [of _ p])
  with t assms(2,3) s show "ok (client w') p y"
    using assms(1) by (auto simp: clients_ok_def flag_frame_def)
qed

lemma slot_heap_frame:
  assumes "i < length (DeviceData (FdoData w))"
    "pDeviceInterface t = pDeviceInterface (DeviceData (FdoData w) ! i)"
    "\<And>p. rel_option (\<lambda>x y. iface_agrees x y \<and> devstate y = devstate x) (ifaces w p) (h p)"
  shows "flag_frame w (set_slot i t w\<lparr>ifaces := h\<rparr>)"
  using assms by (simp add: flag_frame_def set_slot_def map_update list_update_same_conv)

text \<open>One step of a loop on slot \<open>i\<close>, with the new slot given.\<close>

definition step_run :: "(dev_slot \<Rightarrow> dev_slot) \<Rightarrow> nat \<Rightarrow> 'c bus \<Rightarrow> 'c bus \<Rightarrow> bool" where
  "step_run g i w w' \<longleftrightarrow>
     bus_inv w' \<and> flag_frame w w' \<and>
     DeviceData (FdoData w') = (DeviceData (FdoData w))[i := g (DeviceData (FdoData w) ! i)]"

lemma hotkey_step_run:
  assumes inv: "bus_inv w" and i: "i < 3"
  shows "\<exists>w'. hotkey_step flag i w = Some w' \<and>
    step_run (\<lambda>s. s\<lparr>uHotKeyPressed := ucast (flag AND 1), state_old_from_wb := StartWithOS\<rparr>) i w w'"
proof -
  let ?s = "DeviceData (FdoData w) ! i"
  let ?t = "?s\<lparr>uHotKeyPressed := ucast (flag AND 1), state_old_from_wb := StartWithOS\<rparr>"
  have sok: "slot_ok (ifaces w) ?s" using inv i by (rule bus_inv_slot_ok)
  have len: "i < length (DeviceData (FdoData w))" using inv i by simp
  show ?thesis
  proof (cases "pDeviceInterface ?s")
    case None
    have "bus_inv (set_slot i ?t w\<lparr>ifaces := ifaces w\<rparr>)"
      using sok None by (intro slot_heap_inv [OF inv i]) (auto simp: slot_ok_def hot_1)
    moreover have "flag_frame w (set_slot i ?t w\<lparr>ifaces := ifaces w\<rparr>)"
      using len by (intro slot_heap_frame) (auto simp: option.rel_refl iface_agrees_def)
    moreover have "set_slot i ?t w\<lparr>ifaces := ifaces w\<rparr> = set_slot i ?t w"
      by (simp add: set_slot_def)
    ultimately show ?thesis
      using None inv i by (simp add: hotkey_step_def step_run_def Let_def set_slot_def)
  next
    case (Some p)
    then obtain x where x: "ifaces w p = Some x" "iface_ok ?s x"
      using inv i by (auto elim: bus_inv_iface)
    let ?y = "x\<lparr>ParaFlag := hotkey_para (ParaFlag x) (ucast (flag AND 1))\<rparr>"
    let ?h = "(ifaces w)(p := Some ?y)"
    have "bus_inv (set_slot i ?t w\<lparr>ifaces := ?h\<rparr>)"
      using sok x Some
      by (intro slot_heap_inv [OF inv i])
        (auto simp: slot_ok_def hot_1 hot_2 hot_3 [simplified] iface_ok_def)
    moreover have "flag_frame w (set_slot i ?t w\<lparr>ifaces := ?h\<rparr>)"
      using len x by (intro slot_heap_frame) (auto simp: option.rel_refl iface_agrees_def)
    ultimately show ?thesis
      using Some x inv i by (simp add: hotkey_step_def step_run_def Let_def set_slot_def set_iface_def)
  qed
qed

lemma antenna_step_run:
  assumes inv: "bus_inv w" and i: "i < 3"
  shows "\<exists>w'. antenna_step flag i w = Some w' \<and>
    step_run (\<lambda>s. s\<lparr>uAntennaFlag := ucast (flag AND 3)\<rparr>) i w w'"
proof -
  let ?s = "DeviceData (FdoData w) ! i"
  let ?t = "?s\<lparr>uAntennaFlag := ucast (flag AND 3)\<rparr>"
  have sok: "slot_ok (ifaces w) ?s" using inv i by (rule bus_inv_slot_ok)
  have len: "i < length (DeviceData (FdoData w))" using inv i by simp
  have same: "set_slot i ?t w\<lparr>ifaces := ifaces w\<rparr> = set_slot i ?t w" by (simp add: set_slot_def)
  have wl: "(ucast (sSerialNo ?s) = BUS_DEVICE_SERIAL_NO_WLAN) = (sSerialNo ?s = 2)"
    by (simp add: bus_consts)
  show ?thesis
  proof (cases "sSerialNo ?s = 2 \<and> pDeviceInterface ?s \<noteq> None")
    case False
    have "bus_inv (set_slot i ?t w\<lparr>ifaces := ifaces w\<rparr>)"
      using sok False
      by (intro slot_heap_inv [OF inv i]) (auto simp: slot_ok_def antenna_1 iface_ok_def)
    moreover have "flag_frame w (set_slot i ?t w\<lparr>ifaces := ifaces w\<rparr>)"
      using len by (intro slot_heap_frame) (auto simp: option.rel_refl iface_agrees_def)
    ultimately show ?thesis unfolding same
      using False inv i wl
      by (auto simp: antenna_step_def step_run_def Let_def set_slot_def)
  next
    case True
    then obtain p where p: "pDeviceInterface ?s = Some p" by auto
    then obtain x where x: "ifaces w p = Some x" "iface_ok ?s x"
      using inv i by (auto elim: bus_inv_iface)
    let ?y = "x\<lparr>ParaFlag := antenna_para (ParaFlag x) (ucast (flag AND 3))\<rparr>"
    let ?h = "(ifaces w)(p := Some ?y)"
    have y: "ParaFlag ?y AND 1 = ParaFlag x AND 1" "drop_bit 1 (ParaFlag ?y) AND 3 = ucast (flag AND 3)"
      using antenna_2 [of "ParaFlag x"] antenna_3 [OF antenna_1] by simp_all
    have "slot_ok ?h ?t"
      using sok x p y by (simp add: slot_ok_def antenna_1 iface_ok_def)
    then have "bus_inv (set_slot i ?t w\<lparr>ifaces := ?h\<rparr>)"
      using p by (intro slot_heap_inv [OF inv i]) auto
    moreover have "flag_frame w (set_slot i ?t w\<lparr>ifaces := ?h\<rparr>)"
      using len x by (intro slot_heap_frame) (auto simp: option.rel_refl iface_agrees_def)
    ultimately show ?thesis
      using True p x inv i wl
      by (simp add: antenna_step_def step_run_def Let_def set_slot_def set_iface_def)
  qed
qed

text \<open>The whole loop.\<close>

lemma for_each_slot_run:
  assumes inv: "bus_inv w"
    and step: "\<And>i w. bus_inv w \<Longrightarrow> i < 3 \<Longrightarrow> \<exists>w'. f i w = Some w' \<and> step_run g i w w'"
  shows "\<exists>w'. for_each_slot f [0..<3] w = Some w' \<and> bus_inv w' \<and> flag_frame w w' \<and>
    DeviceData (FdoData w') = map g (DeviceData (FdoData w))"
proof -
  have len: "length (DeviceData (FdoData w)) = 3" using inv by simp
  obtain w1 where w1: "f 0 w = Some w1" "step_run g 0 w w1" using step [OF inv, of 0] by auto
  then obtain w2 where w2: "f (Suc 0) w1 = Some w2" "step_run g (Suc 0) w1 w2"
    using step [of w1 "Suc 0"] by (auto simp: step_run_def)
  then obtain w3 where w3: "f 2 w2 = Some w3" "step_run g 2 w2 w3"
    using step [of w2 2] by (auto simp: step_run_def)
  have "flag_frame w w3"
    using w1 w2 w3 by (auto simp: step_run_def intro: flag_frame_trans)
  moreover have "DeviceData (FdoData w3) = map g (DeviceData (FdoData w))"
    using w1 w2 w3 len
    by (intro nth_equalityI) (auto simp: step_run_def nth_list_update less_Suc_eq numeral_3_eq_3)
  moreover have "for_each_slot f [0..<3] w = Some w3"
    using w1 w2 w3 by (simp add: upt_rec numeral_eq_Suc)
  ultimately show ?thesis using w3 by (auto simp: step_run_def)
qed

lemmas hotkey_loop_run = for_each_slot_run [OF _ hotkey_step_run]
lemmas antenna_loop_run = for_each_slot_run [OF _ antenna_step_run]

section \<open>Safe arguments\<close>

definition direct_ioctls :: "u32 set" where
  "direct_ioctls =
     {IOCTL_BUSENUM_QUERY_BUS_POWER_STATE, IOCTL_BUSENUM_QUERY_DSP_START_FLAG,
      IOCTL_BUSENUM_QUERY_RESET_FLAG, IOCTL_BUSENUM_QUERY_RF_TYPE,
      IOCTL_BUSENUM_QUERY_DEVICE_COMPANYID}"

definition request_fits :: "nat \<Rightarrow> umem \<Rightarrow> bool" where
  "request_fits n m \<longleftrightarrow> length m < 4 \<or> unat (rd32 m) \<le> n"

definition ioctl_safe :: "u32 \<Rightarrow> umem \<Rightarrow> bool" where
  "ioctl_safe cmd m \<longleftrightarrow>
     (if cmd \<in> direct_ioctls then 4 \<le> length m
      else if cmd = IOCTL_BUSENUM_PLUGIN_HARDWARE then request_fits PLUGIN_SIZE m
      else if cmd = IOCTL_BUSENUM_UNPLUG_HARDWARE then request_fits UNPLUG_SIZE m
      else True)"

lemma ioctl_request_unsafe:
  "\<not> request_fits n m \<Longrightarrow> ioctl_request n stk k m w = None"
  by (auto simp: request_fits_def ioctl_request_def umem_simps)

lemma keeps_request:
  assumes "\<And>sn. keeps I (\<lambda>m. True) (k sn)"
  shows "keeps I (request_fits n) (ioctl_request n stk k)"
proof (rule keepsI)
  fix m w assume I: "I w" and P: "request_fits n m"
  show "\<exists>r m' w'. ioctl_request n stk k m w = Some (r, m', w') \<and> I w' \<and> length m' = length m"
  proof (cases "4 \<le> length m \<and> unat (rd32 m) \<le> length m")
    case True
    with P have "\<not> n < unat (rd32 m)" by (auto simp: request_fits_def)
    with True I assms show ?thesis by (simp add: ioctl_request_def umem_simps keeps_def)
  next
    case False
    with P I show ?thesis
      by (cases "4 \<le> length m")
        (auto simp: request_fits_def ioctl_request_def umem_simps copy_from_user_def)
  qed
qed

lemma keeps_store: "keeps I (\<lambda>m. 4 \<le> length m) (ioctl_store x)"
  by (auto simp: keeps_def umem_simps)

lemma bus_ok_fdo [simp]: "bus_ok ok w \<Longrightarrow> fdo_of w = Some (FdoData w)"
  by (simp add: bus_ok_def)

lemma in_use_bits_inv:
  "\<forall>s \<in> set ss. slot_ok h s \<Longrightarrow> \<exists>v. in_use_bits h ss v0 = Some v"
proof (induction ss arbitrary: v0)
  case (Cons s ss)
  then show ?case by (cases "pDeviceInterface s") (auto simp: slot_ok_def)
qed simp

lemma enum_part_inv: "bus_inv w \<Longrightarrow> \<exists>e. enum_part sn w = Some e"
  by (cases "Bus_FindPdoBySerialNo (FdoData w) sn") (auto simp: enum_part_def elim: slot_iface_inv)

lemma set_enum_mode_inv: "bus_inv w \<Longrightarrow> bus_inv (set_enum_mode e w)"
  by (simp add: bus_inv_def set_enum_mode_def any_registered_def)

lemma set_enum_mode_ok: "bus_ok ok w \<Longrightarrow> bus_ok ok (set_enum_mode e w)"
  using set_enum_mode_inv [of w e]
  by (auto simp: bus_ok_def clients_ok_def set_enum_mode_def)

context bus_client begin

lemma kept_found:
  assumes "\<And>i s p x m w. bus_ok ok w \<Longrightarrow> slot_iface i w = Some (s, x) \<Longrightarrow>
      slot_at (FdoData w) i = Some s \<Longrightarrow> \<exists>bs. k (FdoData w) i m w = ioctl_reply bs m w"
  shows "keeps (bus_ok ok) P (\<lambda>m w. do { f \<leftarrow> fdo_of w;
     case Bus_FindPdoBySerialNo f sn of None \<Rightarrow> ioctl_reply bs0 m w | Some i \<Rightarrow> k f i m w })"
proof (rule keeps_reply_inv)
  fix m and w :: "'c bus" assume ok: "bus_ok ok w"
  then have inv: "bus_inv w" by (simp add: bus_ok_def)
  show "\<exists>bs. do { f \<leftarrow> fdo_of w;
     case Bus_FindPdoBySerialNo f sn of None \<Rightarrow> ioctl_reply bs0 m w | Some i \<Rightarrow> k f i m w }
     = ioctl_reply bs m w"
  proof (cases "Bus_FindPdoBySerialNo (FdoData w) sn")
    case None
    with inv show ?thesis by auto
  next
    case (Some i)
    with inv obtain p x where "slot_iface i w = Some (DeviceData (FdoData w) ! i, x)"
      "slot_at (FdoData w) i = Some (DeviceData (FdoData w) ! i)"
      by (rule slot_iface_inv)
    with assms ok have "\<exists>bs. k (FdoData w) i m w = ioctl_reply bs m w" by blast
    with Some inv show ?thesis by auto
  qed
qed

lemma kept_plugin: "keeps (bus_ok ok) (request_fits PLUGIN_SIZE) (ioctl_plugin call stk)"
  unfolding ioctl_plugin_def
  by (rule keeps_request, rule keeps_call, rule Bus_PlugInDevice_ok)

lemma kept_unplug: "keeps (bus_ok ok) (request_fits UNPLUG_SIZE) (ioctl_unplug call stk)"
  unfolding ioctl_unplug_def numeral_2_eq_2
  by (rule keeps_request, rule keeps_call, rule Bus_UnPlugDevice_ok)

lemma kept_power_state:
  "keeps (bus_ok ok) (\<lambda>m. 4 \<le> length m) ioctl_query_bus_power_state"
  by (rule keepsI) (auto simp: ioctl_query_bus_power_state_def bus_ok_def umem_simps)

lemma kept_rf_type: "keeps (bus_ok ok) (\<lambda>m. 4 \<le> length m) ioctl_query_rf_type"
  by (rule keepsI) (auto simp: ioctl_query_rf_type_def bus_ok_def umem_simps)

lemma kept_display: "keeps (bus_ok ok) P ioctl_display_in_use"
proof (rule keepsI)
  fix m and w :: "'c bus" assume ok: "bus_ok ok w"
  then have inv: "bus_inv w" by (simp add: bus_ok_def)
  then have "\<forall>s \<in> set (DeviceData (FdoData w)). slot_ok (ifaces w) s"
    unfolding bus_inv_def by blast
  then obtain v where v: "in_use_bits (ifaces w) (DeviceData (FdoData w)) 0 = Some v"
    using in_use_bits_inv by blast
  show "\<exists>r m' w'. ioctl_display_in_use m w = Some (r, m', w') \<and> bus_ok ok w' \<and> length m' = length m"
    using ok inv v
    by (cases "4 \<le> length m") (auto simp: ioctl_display_in_use_def umem_simps copy_to_user_def Let_def)
qed

lemma kept_device_state: "keeps (bus_ok ok) P ioctl_query_device_state"
  unfolding ioctl_query_device_state_def by (rule ioctl_fetch_keeps, rule kept_found) auto

lemma kept_device_version: "keeps (bus_ok ok) P ioctl_query_device_version"
  unfolding ioctl_query_device_version_def by (rule ioctl_fetch_keeps, rule kept_found) auto

lemma kept_comnum: "keeps (bus_ok ok) P ioctl_query_device_comnum"
  unfolding ioctl_query_device_comnum_def
  by (rule ioctl_fetch_keeps, rule kept_found) (auto simp: bus_ok_def)

lemma kept_companyid: "keeps (bus_ok ok) (\<lambda>m. 4 \<le> length m) ioctl_query_device_companyid"
proof -
  have "keeps (bus_ok ok) (\<lambda>m. 4 \<le> length m) (ioctl_fetch (\<lambda>sn m w. do { f \<leftarrow> fdo_of w;
     case Bus_FindPdoBySerialNo f sn of None \<Rightarrow> ioctl_reply (le32 0) m w
     | Some i \<Rightarrow> do { s \<leftarrow> slot_at f i; ioctl_reply (company_bytes s) m w } }))"
    by (rule ioctl_fetch_keeps, rule kept_found) (auto simp: bus_ok_def)
  then show ?thesis
    by (simp add: keeps_def ioctl_query_device_companyid_def user_load32_def)
qed

lemma kept_bus_version: "keeps (bus_ok ok) P ioctl_query_bus_version"
  by (rule keeps_reply_inv) (auto simp: ioctl_query_bus_version_def bus_ok_def)

lemma kept_chip_id: "keeps (bus_ok ok) P ioctl_get_chip_id"
  by (rule keeps_reply_inv) (auto simp: ioctl_get_chip_id_def bus_ok_def)

lemma kept_sub_system: "keeps (bus_ok ok) P (ioctl_get_sub_system_id_info n)"
  using keeps_status [of "bus_ok ok" P STATUS_INVALID_PARAMETER]
    keeps_reply_inv [of "bus_ok ok" "\<lambda>m w. do { f \<leftarrow> fdo_of w; ioctl_reply (le32 (SubSystemIDInfo f)) m w }" P]
  by (auto simp: ioctl_get_sub_system_id_info_def bus_ok_def keeps_def)

lemma kept_auto_enum: "keeps (bus_ok ok) P ioctl_query_auto_enum_flag"
  by (rule keeps_reply_inv) (auto simp: ioctl_query_auto_enum_flag_def)

lemma kept_firmware: "keeps (bus_ok ok) P (ioctl_query_firmware field)"
proof (rule keepsI)
  fix m and w :: "'c bus" assume ok: "bus_ok ok w"
  then have inv: "bus_inv w" by (simp add: bus_ok_def)
  have "\<exists>s x. slot_iface i w = Some (s, x)" if "firmware_slot (FdoData w) = Some i" for i
    using inv that by (auto simp: firmware_slot_def split: option.splits elim: slot_iface_inv)
  with ok inv show "\<exists>r m' w'. ioctl_query_firmware field m w = Some (r, m', w') \<and> bus_ok ok w' \<and>
      length m' = length m"
    using ioctl_reply_keeps [of _ m w]
    by (cases "firmware_slot (FdoData w)")
      (fastforce simp: ioctl_query_firmware_def ioctl_status_def)+
qed

lemma kept_read_enum: "keeps (bus_ok ok) P ioctl_read_enum_mode"
proof (rule keepsI)
  fix m and w :: "'c bus" assume ok: "bus_ok ok w"
  then have inv: "bus_inv w" by (simp add: bus_ok_def)
  obtain b l where "enum_part BUS_DEVICE_SERIAL_NO_BT w = Some b"
    "enum_part BUS_DEVICE_SERIAL_NO_WLAN w = Some l"
    using enum_part_inv [OF inv] by metis
  then show "\<exists>r m' w'. ioctl_read_enum_mode m w = Some (r, m', w') \<and> bus_ok ok w' \<and>
      length m' = length m"
    using ioctl_reply_keeps [of _ m] set_enum_mode_ok [OF ok]
    by (fastforce simp: ioctl_read_enum_mode_def Let_def)
qed

lemma kept_write_enum: "keeps (bus_ok ok) P ioctl_write_enum_mode"
  unfolding ioctl_write_enum_mode_def
  by (rule ioctl_fetch_keeps, rule keepsI) (simp add: ioctl_status_def set_enum_mode_ok)

lemma loop_ok: "bus_ok ok w \<Longrightarrow> bus_inv w' \<Longrightarrow> flag_frame w w' \<Longrightarrow> bus_ok ok w'"
  using ok_agrees by (auto simp: bus_ok_def intro: flag_frame_clients)

lemma kept_hotkey: "keeps (bus_ok ok) P ioctl_set_hotkey_flag"
  unfolding ioctl_set_hotkey_flag_def
proof (rule ioctl_fetch_keeps, rule keepsI)
  fix flag m and w :: "'c bus" assume ok: "bus_ok ok w"
  then obtain w' where "for_each_slot (hotkey_step flag) [0..<3] w = Some w'" "bus_inv w'"
    "flag_frame w w'" using hotkey_loop_run by (fastforce simp: bus_ok_def)
  with ok loop_ok show "\<exists>r m' w'. do { w1 \<leftarrow> for_each_slot (hotkey_step flag) [0..<BUS_DEVICE_TOTAL_COUNT] w;
      ioctl_status STATUS_SUCCESS m w1 } = Some (r, m', w') \<and> bus_ok ok w' \<and> length m' = length m"
    by (auto simp: BUS_DEVICE_TOTAL_COUNT_def ioctl_status_def simp del: upt_rec_numeral)
qed

lemma kept_antenna: "keeps (bus_ok ok) P ioctl_set_antenna"
  unfolding ioctl_set_antenna_def
proof (rule ioctl_fetch_keeps, rule keepsI)
  fix flag m and w :: "'c bus" assume ok: "bus_ok ok w"
  then obtain w' where "for_each_slot (antenna_step flag) [0..<3] w = Some w'" "bus_inv w'"
    "flag_frame w w'" using antenna_loop_run by (fastforce simp: bus_ok_def)
  with ok loop_ok show "\<exists>r m' w'. do { w1 \<leftarrow> for_each_slot (antenna_step flag) [0..<BUS_DEVICE_TOTAL_COUNT] w;
      ioctl_status STATUS_SUCCESS m w1 } = Some (r, m', w') \<and> bus_ok ok w' \<and> length m' = length m"
    by (auto simp: BUS_DEVICE_TOTAL_COUNT_def ioctl_status_def simp del: upt_rec_numeral)
qed

lemmas kept_cases = keeps_status kept_display kept_device_state kept_device_version kept_comnum
  kept_bus_version kept_chip_id kept_sub_system kept_auto_enum kept_firmware kept_read_enum
  kept_write_enum kept_hotkey kept_antenna

lemma ioctl_switch_kept: "keeps (bus_ok ok) (ioctl_safe cmd) (ioctl_switch call stk cmd)"
proof -
  consider (direct) "cmd \<in> direct_ioctls" | (plug) "cmd = IOCTL_BUSENUM_PLUGIN_HARDWARE"
    | (unplug) "cmd = IOCTL_BUSENUM_UNPLUG_HARDWARE"
    | (rest) "cmd \<notin> direct_ioctls" "cmd \<noteq> IOCTL_BUSENUM_PLUGIN_HARDWARE"
      "cmd \<noteq> IOCTL_BUSENUM_UNPLUG_HARDWARE" by blast
  then show ?thesis
  proof cases
    case direct
    then have "keeps (bus_ok ok) (\<lambda>m. 4 \<le> length m) (ioctl_switch call stk cmd)"
      by (auto simp: direct_ioctls_def ioctl_switch_def kept_power_state keeps_store kept_rf_type
          kept_companyid)
    with direct show ?thesis by (auto simp: ioctl_safe_def intro: keeps_weaken)
  next
    case plug
    then show ?thesis
      using kept_plugin [of stk]
      by (auto simp: ioctl_safe_def direct_ioctls_def ioctl_switch_def elim: keeps_weaken)
  next
    case unplug
    then show ?thesis
      using kept_unplug [of stk]
      by (auto simp: ioctl_safe_def direct_ioctls_def ioctl_switch_def elim: keeps_weaken)
  next
    case rest
    then have "cmd \<noteq> IOCTL_BUSENUM_QUERY_BUS_POWER_STATE" "cmd \<noteq> IOCTL_BUSENUM_QUERY_DSP_START_FLAG"
      "cmd \<noteq> IOCTL_BUSENUM_QUERY_RESET_FLAG" "cmd \<noteq> IOCTL_BUSENUM_QUERY_RF_TYPE"
      "cmd \<noteq> IOCTL_BUSENUM_QUERY_DEVICE_COMPANYID"
      by (auto simp: direct_ioctls_def)
    with rest show ?thesis
      unfolding ioctl_switch_def ioctl_query_firmware_version_def ioctl_query_8051_version_def
      by (simp only: if_False) (intro keeps_if kept_cases)
  qed
qed

text \<open>The whole handler, whoever calls it.\<close>

lemma unlocked_ioctl_ok:
  assumes "bus_ok ok w" "ioctl_safe cmd m"
  shows "\<exists>r m' w'. tdspbus_unlocked_ioctl call stk pfile cmd m w = Some (r, m', w') \<and>
    bus_ok ok w' \<and> length m' = length m"
proof -
  obtain r m' w' where "ioctl_switch call stk cmd m w = Some (r, m', w')" "bus_ok ok w'"
    "length m' = length m"
    using ioctl_switch_kept assms by (rule keepsE)
  moreover have "tdspbus_unlocked_ioctl call stk pfile cmd m w = Some (- EFAULT, m, w) \<or>
      tdspbus_unlocked_ioctl call stk pfile cmd m w = ioctl_switch call stk cmd m w"
    using assms(1) by (simp add: tdspbus_unlocked_ioctl_def)
  ultimately show ?thesis using assms(1) by fastforce
qed

end

text \<open>An unsafe argument of a command that reaches the switch crashes.\<close>

lemma ioctl_switch_unsafe:
  assumes "bus_inv w" "\<not> ioctl_safe cmd m"
  shows "ioctl_switch call stk cmd m w = None"
proof (cases "cmd \<in> direct_ioctls")
  case True
  with assms(2) have "length m < 4" by (simp add: ioctl_safe_def)
  with True assms(1) show ?thesis
    by (auto simp: direct_ioctls_def ioctl_switch_def ioctl_query_bus_power_state_def
        ioctl_query_rf_type_def ioctl_query_device_companyid_def user_load32_def umem_simps)
next
  case False
  with assms(2) show ?thesis
    by (auto simp: ioctl_safe_def ioctl_switch_def ioctl_plugin_def ioctl_unplug_def
        ioctl_request_unsafe split: if_splits)
qed

end
