(* ===== verification/Bus_Spec.thy ===== *)
theory Bus_Spec
  imports Bus_Ioctl_Ok
begin

text \<open>
  What the bus device promises its user, stated on the abstract view of the device table (which
  devices are registered, which are started) and proved of the ioctl handlers and of
  registration.
\<close>

section \<open>The abstract view\<close>

definition dev_iface :: "'c bus \<Rightarrow> u8 \<Rightarrow> iface option" where
  "dev_iface w sn =
     (case filter (\<lambda>s. sSerialNo s = sn) (DeviceData (FdoData w)) of
        [] \<Rightarrow> None
      | s # _ \<Rightarrow> do { p \<leftarrow> pDeviceInterface s; ifaces w p })"

definition dev_registered :: "'c bus \<Rightarrow> u8 \<Rightarrow> bool" where
  "dev_registered w sn \<longleftrightarrow> dev_iface w sn \<noteq> None"

definition dev_started :: "'c bus \<Rightarrow> u8 \<Rightarrow> bool" where
  "dev_started w sn \<longleftrightarrow> (case dev_iface w sn of None \<Rightarrow> False | Some x \<Rightarrow> devstate x = Started)"

text \<open>The bits of the started devices.\<close>

definition started_mask :: "'c bus \<Rightarrow> u32" where
  "started_mask w =
     (if dev_started w 1 then 1 else 0) OR (if dev_started w 2 then 2 else 0)"

text \<open>The two slots that can be occupied, with their interfaces.\<close>

lemma two_devices:
  assumes "bus_inv w"
  obtains s0 s1 s2 where "DeviceData (FdoData w) = [s0, s1, s2]"
    "sSerialNo s0 = 1" "sSerialNo s1 = 2" "sSerialNo s2 = 4" "pDeviceInterface s2 = None"
    "pDeviceInterface s0 = None \<and> dev_iface w 1 = None \<or>
      (\<exists>p x. pDeviceInterface s0 = Some p \<and> ifaces w p = Some x \<and> dev_iface w 1 = Some x \<and> iface_ok s0 x)"
    "pDeviceInterface s1 = None \<and> dev_iface w 2 = None \<or>
      (\<exists>p x. pDeviceInterface s1 = Some p \<and> ifaces w p = Some x \<and> dev_iface w 2 = Some x \<and> iface_ok s1 x)"
proof -
  obtain s0 s1 s2 where ds: "DeviceData (FdoData w) = [s0, s1, s2]"
    and sn: "sSerialNo s0 = 1" "sSerialNo s1 = 2" "sSerialNo s2 = 4" "pDeviceInterface s2 = None"
    and ok: "slot_ok (ifaces w) s0" "slot_ok (ifaces w) s1"
    using assms by (rule bus_inv_three)
  from ok have "pDeviceInterface s0 = None \<and> dev_iface w 1 = None \<or>
      (\<exists>p x. pDeviceInterface s0 = Some p \<and> ifaces w p = Some x \<and> dev_iface w 1 = Some x \<and> iface_ok s0 x)"
    "pDeviceInterface s1 = None \<and> dev_iface w 2 = None \<or>
      (\<exists>p x. pDeviceInterface s1 = Some p \<and> ifaces w p = Some x \<and> dev_iface w 2 = Some x \<and> iface_ok s1 x)"
    by (cases "pDeviceInterface s0"; cases "pDeviceInterface s1";
        auto simp: slot_ok_def dev_iface_def ds sn)+
  with ds sn that show ?thesis by blast
qed

lemma find_two:
  assumes "DeviceData f = [s0, s1, s2]" "sSerialNo s0 = 1" "sSerialNo s1 = 2" "sSerialNo s2 = 4"
  shows "Bus_FindPdoBySerialNo f 1 = (if pDeviceInterface s0 = None then None else Some 0)"
    "Bus_FindPdoBySerialNo f 2 = (if pDeviceInterface s1 = None then None else Some 1)"
  using assms by (simp_all add: Bus_FindPdoBySerialNo_def)

section \<open>Which devices are in use\<close>

lemma in_use_value_mask:
  "in_use_value 0xff00 = 0xffff" "in_use_value 1 = 1" "in_use_value 2 = 2" "in_use_value 3 = 3"
  "in_use_value 0xff01 = 1" "in_use_value 0xff02 = 2"
  by (simp_all add: in_use_value_def)

lemma in_use_bits_two:
  assumes "bus_inv w" "any_registered (FdoData w)"
  shows "\<exists>v. in_use_bits (ifaces w) (DeviceData (FdoData w)) 0 = Some v \<and>
    in_use_value v = (if started_mask w = 0 then 0xffff else started_mask w)"
proof -
  obtain s0 s1 s2 where t: "DeviceData (FdoData w) = [s0, s1, s2]"
    "sSerialNo s0 = 1" "sSerialNo s1 = 2" "sSerialNo s2 = 4" "pDeviceInterface s2 = None"
    "pDeviceInterface s0 = None \<and> dev_iface w 1 = None \<or>
      (\<exists>p x. pDeviceInterface s0 = Some p \<and> ifaces w p = Some x \<and> dev_iface w 1 = Some x \<and> iface_ok s0 x)"
    "pDeviceInterface s1 = None \<and> dev_iface w 2 = None \<or>
      (\<exists>p x. pDeviceInterface s1 = Some p \<and> ifaces w p = Some x \<and> dev_iface w 2 = Some x \<and> iface_ok s1 x)"
    using assms(1) by (rule two_devices)
  have "pDeviceInterface s0 \<noteq> None \<or> pDeviceInterface s1 \<noteq> None"
    using assms(2) t by (auto simp: any_registered_def)
  with t show ?thesis
    by (elim disjE exE conjE) (auto simp: started_mask_def dev_started_def in_use_value_mask)
qed

text \<open>
  C1: \<^verbatim>\<open>IOCTL_BUSENUM_DISPLAY_IN_USE_DEVICE\<close> tells the utility exactly which devices are
  started. With a device registered it writes the OR of the serial numbers of the started ones,
  or 0xffff when none is, into the first four bytes of the argument, and nothing else changes.
\<close>

theorem display_in_use_correct:
  assumes "bus_inv w" "any_registered (FdoData w)" "4 \<le> length m"
  shows "ioctl_display_in_use m w =
    Some (STATUS_SUCCESS,
      le32 (if started_mask w = 0 then 0xffff else started_mask w) @ drop 4 m, w)"
proof -
  obtain v where "in_use_bits (ifaces w) (DeviceData (FdoData w)) 0 = Some v"
    "in_use_value v = (if started_mask w = 0 then 0xffff else started_mask w)"
    using in_use_bits_two [OF assms(1,2)] by blast
  with assms show ?thesis by (simp add: ioctl_display_in_use_def umem_simps)
qed

section \<open>The enumeration mode\<close>

text \<open>A registered device that neither the utility nor the bus has started or stopped yet.\<close>

definition dev_untouched :: "'c bus \<Rightarrow> u8 \<Rightarrow> bool" where
  "dev_untouched w sn \<longleftrightarrow>
     dev_registered w sn \<and> \<not> dev_started w sn \<and>
     (\<exists>s \<in> set (DeviceData (FdoData w)). sSerialNo s = sn \<and> state_old_from_wb s = NotStarted)"

definition enum_mode_spec :: "'c bus \<Rightarrow> u32" where
  "enum_mode_spec w =
     (if started_mask w \<noteq> 0 then started_mask w
      else if dev_untouched w 1 \<or> dev_untouched w 2 then - 1 else 0)"

lemma enum_normalize_cases:
  "enum_normalize 0 = 0" "enum_normalize 1 = 1" "enum_normalize 2 = 2" "enum_normalize 3 = 3"
  "enum_normalize 0x100 = - 1" "enum_normalize 0x200 = - 1" "enum_normalize 0x300 = - 1"
  "enum_normalize 0x201 = 1" "enum_normalize 0x102 = 2"
  by (simp_all add: enum_normalize_def)

lemma enum_part_two:
  assumes "bus_inv w" "sn = 1 \<or> sn = 2"
  shows "enum_part (ucast (sn :: u8)) w =
    Some (if dev_started w sn then ucast sn
          else if dev_untouched w sn then push_bit 8 (ucast sn) else 0)"
proof -
  obtain s0 s1 s2 where t: "DeviceData (FdoData w) = [s0, s1, s2]"
    "sSerialNo s0 = 1" "sSerialNo s1 = 2" "sSerialNo s2 = 4" "pDeviceInterface s2 = None"
    "pDeviceInterface s0 = None \<and> dev_iface w 1 = None \<or>
      (\<exists>p x. pDeviceInterface s0 = Some p \<and> ifaces w p = Some x \<and> dev_iface w 1 = Some x \<and> iface_ok s0 x)"
    "pDeviceInterface s1 = None \<and> dev_iface w 2 = None \<or>
      (\<exists>p x. pDeviceInterface s1 = Some p \<and> ifaces w p = Some x \<and> dev_iface w 2 = Some x \<and> iface_ok s1 x)"
    using assms(1) by (rule two_devices)
  note find = find_two [OF t(1-4)]
  show ?thesis
    using assms t find
    by (elim disjE exE conjE)
      (simp_all add: enum_part_def slot_iface_def slot_at_def dev_started_def dev_untouched_def
        dev_registered_def)
qed

lemma read_enum_mode_run:
  assumes "bus_inv w"
  shows "ioctl_read_enum_mode m w =
    ioctl_reply (le32 (enum_mode_spec w)) m (set_enum_mode (enum_mode_spec w) w)"
proof -
  have "enum_part 1 w = Some (if dev_started w 1 then 1 else if dev_untouched w 1 then 0x100 else 0)"
    "enum_part 2 w = Some (if dev_started w 2 then 2 else if dev_untouched w 2 then 0x200 else 0)"
    using enum_part_two [OF assms, of 1] enum_part_two [OF assms, of 2] by simp_all
  then show ?thesis
    by (auto simp: ioctl_read_enum_mode_def bus_consts enum_mode_spec_def started_mask_def
        enum_normalize_cases Let_def)
qed

text \<open>
  C2: \<^verbatim>\<open>IOCTL_BUSENUM_READ_ENUM_MODE\<close> reports the OR of the serial numbers of the started
  devices.  When none is started it reports all ones if a registered Bluetooth or WLAN device
  still carries the mark \<open>NotStarted\<close>, which starting or stopping it and setting the hot key
  replace, and 0 otherwise.  The answer is also stored in the bus, and nothing else changes.
\<close>

theorem read_enum_mode_correct:
  assumes "bus_inv w" "4 \<le> length m"
  shows "ioctl_read_enum_mode m w =
    Some (STATUS_SUCCESS, le32 (enum_mode_spec w) @ drop 4 m, set_enum_mode (enum_mode_spec w) w)"
  using assms by (simp add: read_enum_mode_run umem_simps)

lemma set_enum_mode_twice [simp]: "set_enum_mode e (set_enum_mode d w) = set_enum_mode e w"
  by (simp add: set_enum_mode_def)

lemma set_enum_mode_dev [simp]:
  "dev_iface (set_enum_mode e w) sn = dev_iface w sn"
  "DeviceData (FdoData (set_enum_mode e w)) = DeviceData (FdoData w)"
  by (simp_all add: dev_iface_def set_enum_mode_def split: list.split)

lemma enum_mode_spec_indep [simp]: "enum_mode_spec (set_enum_mode e w) = enum_mode_spec w"
  by (simp add: enum_mode_spec_def started_mask_def dev_untouched_def dev_registered_def
      dev_started_def)

text \<open>
  What \<^verbatim>\<open>IOCTL_BUSENUM_WRITE_ENUM_MODE\<close> writes is lost: it is accepted and stored, but
  reading the mode computes it from the device states again, so the value never comes back.
\<close>

theorem enum_mode_write_lost:
  assumes "bus_inv w" "4 \<le> length m"
  shows "\<exists>w1. ioctl_write_enum_mode m w = Some (STATUS_SUCCESS, m, w1) \<and>
    EnumMode (FdoData w1) = rd32 m \<and>
    ioctl_read_enum_mode m' w1 = ioctl_read_enum_mode m' w"
proof -
  have "ioctl_write_enum_mode m w = Some (STATUS_SUCCESS, m, set_enum_mode (rd32 m) w)"
    using assms by (simp add: ioctl_write_enum_mode_def umem_simps ioctl_status_def)
  moreover have "ioctl_read_enum_mode m' (set_enum_mode (rd32 m) w) = ioctl_read_enum_mode m' w"
    using assms by (simp add: read_enum_mode_run set_enum_mode_inv)
  moreover have "EnumMode (FdoData (set_enum_mode (rd32 m) w)) = rd32 m"
    by (simp add: set_enum_mode_def)
  ultimately show ?thesis by blast
qed

section \<open>Hot key and antenna\<close>

lemma hotkey_loop_ioctl:
  assumes "bus_inv w" "4 \<le> length m"
  shows "\<exists>w'. ioctl_set_hotkey_flag m w = Some (STATUS_SUCCESS, m, w') \<and> bus_inv w' \<and> flag_frame w w' \<and>
    DeviceData (FdoData w') = map (\<lambda>s. s\<lparr>uHotKeyPressed := ucast (rd32 m AND 1),
      state_old_from_wb := StartWithOS\<rparr>) (DeviceData (FdoData w))"
  using hotkey_loop_run [OF assms(1), of "rd32 m"] assms(2)
  by (auto simp: ioctl_set_hotkey_flag_def umem_simps ioctl_status_def BUS_DEVICE_TOTAL_COUNT_def
      simp del: upt_rec_numeral)

lemma antenna_loop_ioctl:
  assumes "bus_inv w" "4 \<le> length m"
  shows "\<exists>w'. ioctl_set_antenna m w = Some (STATUS_SUCCESS, m, w') \<and> bus_inv w' \<and> flag_frame w w' \<and>
    DeviceData (FdoData w') = map (\<lambda>s. s\<lparr>uAntennaFlag := ucast (rd32 m AND 3)\<rparr>)
      (DeviceData (FdoData w))"
  using antenna_loop_run [OF assms(1), of "rd32 m"] assms(2)
  by (auto simp: ioctl_set_antenna_def umem_simps ioctl_status_def BUS_DEVICE_TOTAL_COUNT_def
      simp del: upt_rec_numeral)

section \<open>Queries by serial number\<close>

lemma device_state_answer:
  assumes "bus_inv w" "4 \<le> length m" "rd32 m = ucast (sn :: u8)"
  shows "ioctl_query_device_state m w =
    Some (STATUS_SUCCESS, le32 (if dev_started w sn then 1 else 255) @ drop 4 m, w)"
proof -
  obtain s0 s1 s2 where t: "DeviceData (FdoData w) = [s0, s1, s2]"
    "sSerialNo s0 = 1" "sSerialNo s1 = 2" "sSerialNo s2 = 4" "pDeviceInterface s2 = None"
    "pDeviceInterface s0 = None \<and> dev_iface w 1 = None \<or>
      (\<exists>p x. pDeviceInterface s0 = Some p \<and> ifaces w p = Some x \<and> dev_iface w 1 = Some x \<and> iface_ok s0 x)"
    "pDeviceInterface s1 = None \<and> dev_iface w 2 = None \<or>
      (\<exists>p x. pDeviceInterface s1 = Some p \<and> ifaces w p = Some x \<and> dev_iface w 2 = Some x \<and> iface_ok s1 x)"
    using assms(1) by (rule two_devices)
  consider "sn = 1" | "sn = 2" | "sn = 4" | "sn \<noteq> 1" "sn \<noteq> 2" "sn \<noteq> 4" by blast
  then show ?thesis
  proof cases
    case 4
    then have "Bus_FindPdoBySerialNo (FdoData w) (ucast sn) = None" "dev_iface w sn = None"
      using t by (simp_all add: Bus_FindPdoBySerialNo_def dev_iface_def)
    with assms show ?thesis
      by (simp add: ioctl_query_device_state_def umem_simps dev_started_def)
  qed (use assms t find_two [OF t(1-4)] in
    \<open>elim disjE exE conjE; simp add: ioctl_query_device_state_def umem_simps slot_iface_def slot_at_def
        dev_started_def Bus_FindPdoBySerialNo_def dev_iface_def\<close>)+
qed

text \<open>
  \<^verbatim>\<open>IOCTL_BUSENUM_QUERY_DEVICE_STATE\<close> answers 1 for a started device and 255 for every
  other serial number, registered or not.
\<close>

theorem query_device_state_correct:
  assumes "bus_inv w" "4 \<le> length m" "rd32 m = ucast (sn :: u8)"
  shows "ioctl_query_device_state m w =
    Some (STATUS_SUCCESS, le32 (if dev_started w sn then 1 else 255) @ drop 4 m, w)"
  using assms by (rule device_state_answer)

end
