(* ===== verification/Client_State.thy ===== *)
theory Client_State
  imports Bus_Spec
begin

text \<open>
  The state of the two client drivers (\<^verbatim>\<open>src/driver_src/wlan\<close>,
  \<^verbatim>\<open>src/driver_src/new_bluetooth\<close>) and of the kernel objects they own.

  The hardware libraries \<^verbatim>\<open>3dspusbwlanlib.a\<close> and \<^verbatim>\<open>3dspusbbtlib.a\<close> exist only as
  binaries, so an adapter is a value of a type variable and the library is a record of functions
  on it, part of the state; what the drivers rely on is \<open>wlan_lib_laws\<close> and
  \<open>bt_lib_laws\<close>: a value stored through a \<^verbatim>\<open>Set\<close> function comes back from its
  \<^verbatim>\<open>Get\<close> function, and no other library call changes the three pointers the drivers store.
  Whether a kernel call succeeds is decided by \<open>outcome\<close>, an arbitrary function of the
  call's number. Memory is handed out at fresh addresses.
\<close>

section \<open>The private libraries\<close>

record stat_data =
  tx_good :: u32
  tx_err :: u32
  tx_payload :: u32
  rx_good :: u32
  rx_err :: u32
  rx_payload :: u32
  rx_mc :: u32
  rx_dropped_cnt :: u32

record wlan_usb_info =
  EP_control :: u8
  EP_bulkout_HEAD :: u8
  EP_bulkout_BODY :: u8
  EP_bulkin :: u8
  EP_interrupt :: u8
  usb_dev :: addr
  usb_intf :: addr

record 'a wlan_lib =
  Adap_Create :: "wlan_usb_info \<Rightarrow> 'a option"
  Adap_Initialize :: "'a \<Rightarrow> int \<times> (u32 \<times> u32) option \<times> 'a"
  Adap_Halt :: "'a \<Rightarrow> 'a"
  Adap_UnInitialize :: "'a \<Rightarrow> 'a"
  Adap_Set_Removed :: "u8 \<Rightarrow> 'a \<Rightarrow> 'a"
  Adap_Suspend :: "int \<Rightarrow> 'a \<Rightarrow> 'a"
  Adap_Resume :: "int \<Rightarrow> 'a \<Rightarrow> 'a"
  Adap_Set_BusInf :: "addr option \<Rightarrow> 'a \<Rightarrow> 'a"
  Adap_Get_BusInf :: "'a \<Rightarrow> addr option"
  Adap_Set_Netdev :: "addr option \<Rightarrow> 'a \<Rightarrow> 'a"
  Adap_Get_Netdev :: "'a \<Rightarrow> addr option"
  Adap_Set_Netstat :: "addr option \<Rightarrow> 'a \<Rightarrow> 'a"
  Adap_Get_Netstat :: "'a \<Rightarrow> addr option"
  Adap_Get_Mac_Addr :: "'a \<Rightarrow> u8 list"
  Adap_Get_StatData :: "'a \<Rightarrow> stat_data"
  Adap_Tx_Available :: "'a \<Rightarrow> bool"
  Adap_Use_WPA :: "'a \<Rightarrow> bool"
  Adap_Send :: "u8 list \<Rightarrow> 'a \<Rightarrow> 'a"

record bt_usb_info =
  EP_control_bt :: u32
  EP_bulkout_ACL :: u32
  EP_bulkout_SCO :: u32
  EP_bulkin_Inquiry :: u32
  EP_bulkin_Rx :: u32
  EP_interrupt_bt :: u32

record 'b bt_lib =
  Bluetooth_Adap_Create :: "bt_usb_info \<Rightarrow> addr \<Rightarrow> addr \<Rightarrow> 'b option"
  Bluetooth_Adap_Open_Dev :: "'b \<Rightarrow> int \<times> 'b"
  Bluetooth_Adap_Close_Dev :: "'b \<Rightarrow> 'b"
  Bluetooth_Adap_Set_BusInf :: "addr option \<Rightarrow> 'b \<Rightarrow> 'b"
  Bluetooth_Adap_Get_BusInf :: "'b \<Rightarrow> addr option"
  Bluetooth_Adap_Set_hdev :: "addr option \<Rightarrow> 'b \<Rightarrow> 'b"
  Bluetooth_Adap_Get_hdev :: "'b \<Rightarrow> addr option"
  Bluetooth_Adap_IsOpen :: "'b \<Rightarrow> bool"
  Bluetooth_Adap_SetOpen :: "'b \<Rightarrow> 'b"
  Bluetooth_Adap_ClearOpen :: "'b \<Rightarrow> 'b"
  Bluetooth_Adap_Init :: "'b \<Rightarrow> 'b"
  Bluetooth_Adap_Set_FirmVer :: "'b \<Rightarrow> u32 \<times> u32"
  Bluetooth_Adap_Exit_Lmp_Dump :: "'b \<Rightarrow> 'b"
  Bluetooth_Adap_Suspend :: "'b \<Rightarrow> 'b"
  Bluetooth_Adap_Resume :: "'b \<Rightarrow> 'b"
  Bluetooth_Adap_IsInD3 :: "'b \<Rightarrow> bool"
  Bluetooth_Adap_GetWorkMod :: "'b \<Rightarrow> u8"
  Bluetooth_Adap_SendCmd :: "u8 list \<Rightarrow> 'b \<Rightarrow> 'b"
  Bluetooth_Adap_SendData :: "u8 list \<Rightarrow> 'b \<Rightarrow> 'b"

text \<open>The pointers the drivers store in an adapter, and the library's laws about them.\<close>

definition wptrs :: "'a wlan_lib \<Rightarrow> 'a \<Rightarrow> addr option \<times> addr option \<times> addr option" where
  "wptrs L A = (Adap_Get_Netdev L A, Adap_Get_Netstat L A, Adap_Get_BusInf L A)"

definition wlan_lib_laws :: "'a wlan_lib \<Rightarrow> bool" where
  "wlan_lib_laws L \<longleftrightarrow>
     (\<forall>v A. wptrs L (Adap_Set_Netdev L v A) = (v, snd (wptrs L A))) \<and>
     (\<forall>v A. wptrs L (Adap_Set_Netstat L v A)
        = (Adap_Get_Netdev L A, v, Adap_Get_BusInf L A)) \<and>
     (\<forall>v A. wptrs L (Adap_Set_BusInf L v A)
        = (Adap_Get_Netdev L A, Adap_Get_Netstat L A, v)) \<and>
     (\<forall>A. wptrs L (snd (snd (Adap_Initialize L A))) = wptrs L A) \<and>
     (\<forall>A. wptrs L (Adap_Halt L A) = wptrs L A) \<and>
     (\<forall>A. wptrs L (Adap_UnInitialize L A) = wptrs L A) \<and>
     (\<forall>r A. wptrs L (Adap_Set_Removed L r A) = wptrs L A) \<and>
     (\<forall>t A. wptrs L (Adap_Suspend L t A) = wptrs L A) \<and>
     (\<forall>t A. wptrs L (Adap_Resume L t A) = wptrs L A) \<and>
     (\<forall>d A. wptrs L (Adap_Send L d A) = wptrs L A) \<and>
     (\<forall>u A. Adap_Create L u = Some A \<longrightarrow> wptrs L A = (None, None, None))"

definition bptrs :: "'b bt_lib \<Rightarrow> 'b \<Rightarrow> addr option \<times> addr option" where
  "bptrs L B = (Bluetooth_Adap_Get_hdev L B, Bluetooth_Adap_Get_BusInf L B)"

definition bt_lib_laws :: "'b bt_lib \<Rightarrow> bool" where
  "bt_lib_laws L \<longleftrightarrow>
     (\<forall>v B. bptrs L (Bluetooth_Adap_Set_hdev L v B) = (v, Bluetooth_Adap_Get_BusInf L B)) \<and>
     (\<forall>v B. bptrs L (Bluetooth_Adap_Set_BusInf L v B) = (Bluetooth_Adap_Get_hdev L B, v)) \<and>
     (\<forall>B. bptrs L (snd (Bluetooth_Adap_Open_Dev L B)) = bptrs L B) \<and>
     (\<forall>B. bptrs L (Bluetooth_Adap_Close_Dev L B) = bptrs L B) \<and>
     (\<forall>B. bptrs L (Bluetooth_Adap_SetOpen L B) = bptrs L B) \<and>
     (\<forall>B. bptrs L (Bluetooth_Adap_ClearOpen L B) = bptrs L B) \<and>
     (\<forall>B. bptrs L (Bluetooth_Adap_Init L B) = bptrs L B) \<and>
     (\<forall>B. bptrs L (Bluetooth_Adap_Exit_Lmp_Dump L B) = bptrs L B) \<and>
     (\<forall>B. bptrs L (Bluetooth_Adap_Suspend L B) = bptrs L B) \<and>
     (\<forall>B. bptrs L (Bluetooth_Adap_Resume L B) = bptrs L B) \<and>
     (\<forall>d B. bptrs L (Bluetooth_Adap_SendCmd L d B) = bptrs L B) \<and>
     (\<forall>d B. bptrs L (Bluetooth_Adap_SendData L d B) = bptrs L B) \<and>
     (\<forall>u d i B. Bluetooth_Adap_Create L u d i = Some B \<longrightarrow> bptrs L B = (None, None))"

section \<open>Kernel objects\<close>

record net_device =
  nd_name :: string
  nd_priv :: "addr option"
  nd_dev_addr :: "u8 list"
  nd_parent :: "addr option"
  nd_registered :: bool
  nd_carrier :: bool
  nd_queue_stopped :: bool

record net_stats =
  tx_packets :: u32
  tx_errors :: u32
  tx_bytes :: u32
  rx_packets :: u32
  rx_errors :: u32
  rx_bytes :: u32
  multicast :: u32
  rx_dropped :: u32

record hci_dev =
  hd_drvdata :: "addr option"
  hd_running :: bool
  hd_master :: bool
  hd_registered :: bool
  cmd_tx :: u32
  acl_tx :: u32
  sco_tx :: u32

datatype kernel_call =
  AllocEtherdev | AllocNetstat | RegisterNetdev | AllocInterface | HciAllocDev | HciRegisterDev
| DownInterruptible

text \<open>
  \<open>openLock\<close> is the count of the Bluetooth driver's semaphore, \<open>intfdata\<close> the driver
  pointer of each USB interface.
\<close>

record ('a, 'b) clients =
  wlib :: "'a wlan_lib"
  blib :: "'b bt_lib"
  wadap :: "addr \<Rightarrow> 'a option"
  netdevs :: "addr \<Rightarrow> net_device option"
  netstats :: "addr \<Rightarrow> net_stats option"
  badap :: "addr \<Rightarrow> 'b option"
  hdevs :: "addr \<Rightarrow> hci_dev option"
  openLock :: nat
  combodrv :: u32
  suspend_type :: int
  intfdata :: "addr \<Rightarrow> addr option"
  next_addr :: addr
  outcome :: "nat \<Rightarrow> kernel_call \<Rightarrow> bool"
  now :: nat

type_synonym ('a, 'b) system = "('a, 'b) clients bus"

definition ask :: "kernel_call \<Rightarrow> ('a, 'b) clients \<Rightarrow> bool \<times> ('a, 'b) clients" where
  "ask k c = (outcome c (now c) k, c\<lparr>now := Suc (now c)\<rparr>)"

definition with_client :: "('a, 'b) clients \<Rightarrow> ('a, 'b) system \<Rightarrow> ('a, 'b) system" where
  "with_client c w = w\<lparr>client := c\<rparr>"

text \<open>A USB interface as the probe routines see it.\<close>

record usb_interface =
  ui_addr :: addr
  bInterfaceNumber :: u8
  bNumEndpoints :: u8
  ui_usbdev :: addr

text \<open>
  \<^verbatim>\<open>strcat\<close> on a byte buffer of fixed size; running past its end is a crash.
\<close>

definition c_strcat :: "u8 list \<Rightarrow> u8 list \<Rightarrow> u8 list option" where
  "c_strcat buf s =
     (let k = length (takeWhile (\<lambda>b. b \<noteq> 0) buf)
      in if k + length s + 1 \<le> length buf
         then Some (take k buf @ s @ [0] @ drop (k + length s + 1) buf) else None)"

definition zero_iface :: iface where
  "zero_iface = \<lparr>ParentFdo = None, pPciDev = None, pBtDev = None,
     drv_version = replicate MAX_VERSIONID_LEN 0, c8051_version = 0, dsp_version = 0,
     iSerialNo = 0, ResetFlag = 0, ParaFlag = 0, devstate = NotStarted,
     open_cb = None, close_cb = None, pUsbDev = None\<rparr>"

end
