(* ===== verification/Wlan_Netdev.thy ===== *)
theory Wlan_Netdev
  imports Client_State
begin

text \<open>
  The network device of the WLAN driver, \<^verbatim>\<open>src/driver_src/wlan/lwlan_netdev.c\<close>: its
  creation when the bus starts the device, its destruction, the transmit path and the counters.
\<close>

definition zero_net_stats :: net_stats where
  "zero_net_stats = \<lparr>tx_packets = 0, tx_errors = 0, tx_bytes = 0, rx_packets = 0, rx_errors = 0,
     rx_bytes = 0, multicast = 0, rx_dropped = 0\<rparr>"

section \<open>Queue state\<close>

definition netdev_upd ::
  "addr \<Rightarrow> (net_device \<Rightarrow> net_device) \<Rightarrow> ('a, 'b) clients \<Rightarrow> ('a, 'b) clients option" where
  "netdev_upd n g c = do {
     nd \<leftarrow> netdevs c n;
     Some (c\<lparr>netdevs := (netdevs c)(n := Some (g nd))\<rparr>)
   }"

definition wlan_netdev_open :: "addr \<Rightarrow> ('a, 'b) clients \<Rightarrow> (int \<times> ('a, 'b) clients) option" where
  "wlan_netdev_open n c = do {
     c1 \<leftarrow> netdev_upd n (\<lambda>nd. nd\<lparr>nd_carrier := True, nd_queue_stopped := False\<rparr>) c;
     Some (0, c1)
   }"

definition wlan_netdev_close :: "addr \<Rightarrow> ('a, 'b) clients \<Rightarrow> (int \<times> ('a, 'b) clients) option" where
  "wlan_netdev_close n c = do {
     c1 \<leftarrow> netdev_upd n (\<lambda>nd. nd\<lparr>nd_carrier := False, nd_queue_stopped := True\<rparr>) c;
     Some (0, c1)
   }"

definition wlan_netdev_ioctl :: "addr \<Rightarrow> ('a, 'b) clients \<Rightarrow> int \<times> ('a, 'b) clients" where
  "wlan_netdev_ioctl n c = (0, c)"

text \<open>The queue functions of lwlan_netdev.h that the library calls.\<close>

definition tdsp_netdev_netq_ifstop :: "addr option \<Rightarrow> ('a, 'b) clients \<Rightarrow> int option" where
  "tdsp_netdev_netq_ifstop np c =
     (case np of
        None \<Rightarrow> Some 1
      | Some n \<Rightarrow> do { nd \<leftarrow> netdevs c n; Some (if nd_queue_stopped nd then 1 else 0) })"

definition tdsp_netdev_netq_start ::
  "addr option \<Rightarrow> ('a, 'b) clients \<Rightarrow> ('a, 'b) clients option" where
  "tdsp_netdev_netq_start np c =
     (case np of
        None \<Rightarrow> Some c
      | Some n \<Rightarrow> netdev_upd n (\<lambda>nd. nd\<lparr>nd_queue_stopped := False\<rparr>) c)"

definition tdsp_netdev_netq_stop ::
  "addr option \<Rightarrow> ('a, 'b) clients \<Rightarrow> ('a, 'b) clients option" where
  "tdsp_netdev_netq_stop np c = do {
     n \<leftarrow> np;
     netdev_upd n (\<lambda>nd. nd\<lparr>nd_queue_stopped := True\<rparr>) c
   }"

section \<open>Counters\<close>

definition stats_of :: "stat_data \<Rightarrow> net_stats" where
  "stats_of d = \<lparr>tx_packets = tx_good d, tx_errors = tx_err d, tx_bytes = tx_payload d,
     rx_packets = rx_good d, rx_errors = rx_err d, rx_bytes = rx_payload d,
     multicast = rx_mc d, rx_dropped = rx_dropped_cnt d\<rparr>"

definition wlan_netdev_get_stats ::
  "addr \<Rightarrow> ('a, 'b) clients \<Rightarrow> (net_stats \<times> ('a, 'b) clients) option" where
  "wlan_netdev_get_stats n c = do {
     nd \<leftarrow> netdevs c n;
     d \<leftarrow> nd_priv nd;
     A \<leftarrow> wadap c d;
     s \<leftarrow> Adap_Get_Netstat (wlib c) A;
     st \<leftarrow> netstats c s;
     let st1 = stats_of (Adap_Get_StatData (wlib c) A);
     Some (st1, c\<lparr>netstats := (netstats c)(s := Some st1)\<rparr>)
   }"

section \<open>Transmission\<close>

text \<open>
  The result is the return value and whether the driver freed the packet. The Ethernet type is
  read as a little-endian 16-bit number at offset 12.
\<close>

definition eth_type :: "u8 list \<Rightarrow> u16 option" where
  "eth_type bs =
     (if length bs < 14 then None
      else Some (ucast (bs ! 12) OR push_bit 8 (ucast (bs ! 13))))"

definition MAX_XMIT_LEN :: nat where "MAX_XMIT_LEN = 0x600"

definition wlan_netdev_send ::
  "addr \<Rightarrow> u8 list \<Rightarrow> 'a \<Rightarrow> ('a, 'b) clients \<Rightarrow> (int \<times> bool \<times> ('a, 'b) clients) option" where
  "wlan_netdev_send d skb A c =
     (if length skb \<le> MAX_XMIT_LEN
      then Some (0, True, c\<lparr>wadap := (wadap c)(d := Some (Adap_Send (wlib c) skb A))\<rparr>)
      else Some (-1, False, c))"

definition wlan_netdev_xmit ::
  "u8 list \<Rightarrow> addr \<Rightarrow> ('a, 'b) clients \<Rightarrow> (int \<times> bool \<times> ('a, 'b) clients) option" where
  "wlan_netdev_xmit skb n c = do {
     nd \<leftarrow> netdevs c n;
     case nd_priv nd of
       None \<Rightarrow> Some (-1, False, c)
     | Some d \<Rightarrow> do {
         A \<leftarrow> wadap c d;
         if \<not> Adap_Tx_Available (wlib c) A then Some (-1, False, c)
         else if Adap_Use_WPA (wlib c) A
         then do {
           t \<leftarrow> eth_type skb;
           if t \<noteq> 0x8e88 then Some (0, True, c) else wlan_netdev_send d skb A c
         }
         else wlan_netdev_send d skb A c
       }
   }"

section \<open>Creation and destruction\<close>

text \<open>
  A failed allocation of the counters is not noticed: \<^verbatim>\<open>memset\<close> then writes through NULL.
  A failed registration frees the device and leaves its address in the adapter.
\<close>

definition new_netdev :: "'a wlan_lib \<Rightarrow> addr \<Rightarrow> 'a \<Rightarrow> addr option \<Rightarrow> net_device" where
  "new_netdev L d A udev = \<lparr>nd_name = ''twifiu0'', nd_priv = Some d,
     nd_dev_addr = take 6 (Adap_Get_Mac_Addr L A), nd_parent = udev,
     nd_registered = False, nd_carrier = True, nd_queue_stopped = False\<rparr>"

definition wlan_netdev_setup ::
  "addr option \<Rightarrow> ('a, 'b) system \<Rightarrow> (int \<times> ('a, 'b) system) option" where
  "wlan_netdev_setup adapt w = do {
     d \<leftarrow> adapt;
     A \<leftarrow> wadap (client w) d;
     let L = wlib (client w);
     if Adap_Get_Netdev L A \<noteq> None then Some (- EEXIST, w)
     else (case ask AllocEtherdev (client w) of (ok1, c1) \<Rightarrow>
       if \<not> ok1 then Some (- ENOMEM, with_client c1 w)
       else (case ask AllocNetstat c1 of (ok2, c2) \<Rightarrow>
         if \<not> ok2 then None
         else do {
           let n = next_addr c2;
           let s = Suc n;
           let A1 = Adap_Set_Netstat L (Some s) A;
           let A2 = Adap_Set_Netdev L (Some n) A1;
           p \<leftarrow> Adap_Get_BusInf L A2;
           x \<leftarrow> ifaces w p;
           let nd = new_netdev L d A1 (pUsbDev x);
           let c3 = c2\<lparr>wadap := (wadap c2)(d := Some A2), netdevs := (netdevs c2)(n := Some nd),
                      netstats := (netstats c2)(s := Some zero_net_stats),
                      next_addr := Suc s\<rparr>;
           case ask RegisterNetdev c3 of (ok3, c4) \<Rightarrow>
             if ok3
             then Some (0, with_client
               (c4\<lparr>netdevs := (netdevs c4)(n := Some (nd\<lparr>nd_registered := True\<rparr>))\<rparr>) w)
             else Some (- ENODEV, with_client (c4\<lparr>netdevs := (netdevs c4)(n := None)\<rparr>) w)
         }))
   }"

definition wlan_netdev_destroy ::
  "addr option \<Rightarrow> ('a, 'b) clients \<Rightarrow> ('a, 'b) clients option" where
  "wlan_netdev_destroy adapt c = do {
     d \<leftarrow> adapt;
     A \<leftarrow> wadap c d;
     let L = wlib c;
     case Adap_Get_Netdev L A of
       None \<Rightarrow> Some c
     | Some n \<Rightarrow> do {
         let A1 = Adap_Set_Netdev L None A;
         nd \<leftarrow> netdevs c n;
         let c1 = c\<lparr>wadap := (wadap c)(d := Some A1), netdevs := (netdevs c)(n := None)\<rparr>;
         c2 \<leftarrow> (case Adap_Get_Netstat L A1 of
                None \<Rightarrow> Some c1
              | Some s \<Rightarrow> do {
                  st \<leftarrow> netstats c1 s;
                  Some (c1\<lparr>netstats := (netstats c1)(s := None)\<rparr>)
                });
         Some (c2\<lparr>wadap := (wadap c2)(d := Some (Adap_Set_Netstat L None A1))\<rparr>)
       }
   }"

end
