(* ===== verification/Wlan_Driver.thy ===== *)
theory Wlan_Driver
  imports Wlan_Netdev
begin

text \<open>
  The WLAN driver's side of the bus and its USB entry points:
  \<^verbatim>\<open>src/driver_src/wlan/tdsp_bus.c\<close> and \<^verbatim>\<open>lwlan_entry.c\<close>. The functions that reach the
  bus module take the callback dispatcher \<open>call\<close> that the bus operations take.
\<close>

section \<open>tdsp_bus.c\<close>

definition WLAN_DRV_VERSION :: "u8 list" where
  "WLAN_DRV_VERSION = bytes_of ''WLU100811''"

definition wlan_Bus_set_firmware_version ::
  "addr option \<Rightarrow> u32 \<Rightarrow> u32 \<Rightarrow> ('a, 'b) system \<Rightarrow> ('a, 'b) system option" where
  "wlan_Bus_set_firmware_version pIntf v8051 vdsp w = do {
     p \<leftarrow> pIntf;
     x \<leftarrow> ifaces w p;
     Some (set_iface p (x\<lparr>dsp_version := vdsp, c8051_version := v8051\<rparr>) w)
   }"

definition wlan_Bus_get_hotkey_flag :: "addr option \<Rightarrow> ('a, 'b) system \<Rightarrow> u8 option" where
  "wlan_Bus_get_hotkey_flag pIntf w = do {
     p \<leftarrow> pIntf;
     x \<leftarrow> ifaces w p;
     Some (ParaFlag x AND 1)
   }"

definition wlan_Bus_get_antenna_flag :: "addr option \<Rightarrow> ('a, 'b) system \<Rightarrow> u8 option" where
  "wlan_Bus_get_antenna_flag pIntf w = do {
     p \<leftarrow> pIntf;
     x \<leftarrow> ifaces w p;
     Some (drop_bit 1 (ParaFlag x) AND 3)
   }"

text \<open>
  The library reports the firmware versions of the card while it initializes it, through the
  interface it was given.
\<close>

definition wlan_initialize ::
  "addr \<Rightarrow> ('a, 'b) system \<Rightarrow> (int \<times> ('a, 'b) system) option" where
  "wlan_initialize d w = do {
     A \<leftarrow> wadap (client w) d;
     let L = wlib (client w);
     (case Adap_Initialize L A of (r, fw, A1) \<Rightarrow> do {
        let w1 = with_client ((client w)\<lparr>wadap := (wadap (client w))(d := Some A1)\<rparr>) w;
        w2 \<leftarrow> (case fw of
               None \<Rightarrow> Some w1
             | Some (v, s) \<Rightarrow> wlan_Bus_set_firmware_version (Adap_Get_BusInf L A1) v s w1);
        Some (r, w2)
      })
   }"

definition wlan_Bus_Open :: "addr \<Rightarrow> ('a, 'b) system \<Rightarrow> (int \<times> ('a, 'b) system) option" where
  "wlan_Bus_Open pIntf w = do {
     x \<leftarrow> ifaces w pIntf;
     d \<leftarrow> pBtDev x;
     (r, w1) \<leftarrow> wlan_initialize d w;
     if r \<noteq> 0 then Some (- EIO, w1)
     else do {
       x1 \<leftarrow> ifaces w1 pIntf;
       wlan_netdev_setup (pBtDev x1) w1
     }
   }"

definition wlan_adap_upd ::
  "addr \<Rightarrow> ('a \<Rightarrow> 'a) \<Rightarrow> ('a, 'b) clients \<Rightarrow> ('a, 'b) clients option" where
  "wlan_adap_upd d g c = do {
     A \<leftarrow> wadap c d;
     Some (c\<lparr>wadap := (wadap c)(d := Some (g A))\<rparr>)
   }"

definition wlan_Bus_Close :: "addr \<Rightarrow> ('a, 'b) system \<Rightarrow> (int \<times> ('a, 'b) system) option" where
  "wlan_Bus_Close pIntf w = do {
     x \<leftarrow> ifaces w pIntf;
     d \<leftarrow> pBtDev x;
     c1 \<leftarrow> wlan_adap_upd d (Adap_Halt (wlib (client w))) (client w);
     c2 \<leftarrow> wlan_netdev_destroy (pBtDev x) c1;
     c3 \<leftarrow> wlan_adap_upd d (Adap_UnInitialize (wlib c2)) c2;
     Some (0, with_client c3 w)
   }"

definition wlan_Bus_new_interface ::
  "addr option \<Rightarrow> ('a, 'b) system \<Rightarrow> addr option \<times> ('a, 'b) system" where
  "wlan_Bus_new_interface dev w =
     (case ask AllocInterface (client w) of (ok, c) \<Rightarrow>
        if \<not> ok then (None, with_client c w)
        else (let p = next_addr c
              in (Some p, set_iface p (zero_iface\<lparr>pBtDev := dev\<rparr>)
                            (with_client (c\<lparr>next_addr := Suc p\<rparr>) w))))"

definition free_iface :: "addr \<Rightarrow> ('a, 'b) system \<Rightarrow> ('a, 'b) system option" where
  "free_iface p w = do { x \<leftarrow> ifaces w p; Some (w\<lparr>ifaces := (ifaces w)(p := None)\<rparr>) }"

text \<open>Registration is tried twice; when it fails the interface is freed.\<close>

definition register_twice ::
  "('a, 'b) clients caller \<Rightarrow> addr \<Rightarrow> ('a, 'b) system \<Rightarrow> (int \<times> ('a, 'b) system) option" where
  "register_twice call p w = do {
     (r, w1) \<leftarrow> register_tdspbus_usbdev call (Some p) w;
     (r2, w2) \<leftarrow> (if r \<noteq> 0 then register_tdspbus_usbdev call (Some p) w1 else Some (r, w1));
     if r2 \<noteq> 0 then do { w3 \<leftarrow> free_iface p w2; Some (r2, w3) } else Some (r2, w2)
   }"

definition wlan_Bus_openInterface ::
  "('a, 'b) clients caller \<Rightarrow> addr option \<Rightarrow> ('a, 'b) system \<Rightarrow> (int \<times> ('a, 'b) system) option"
where
  "wlan_Bus_openInterface call pIntf w = do {
     p \<leftarrow> pIntf;
     x \<leftarrow> ifaces w p;
     v \<leftarrow> c_strcat (drv_version x) WLAN_DRV_VERSION;
     register_twice call p
       (set_iface p (x\<lparr>iSerialNo := ucast BUS_DEVICE_SERIAL_NO_WLAN, drv_version := v,
                      open_cb := Some Wlan_Bus_Open, close_cb := Some Wlan_Bus_Close\<rparr>) w)
   }"

definition wlan_Bus_closeInterface ::
  "('a, 'b) clients caller \<Rightarrow> addr option \<Rightarrow> ('a, 'b) system \<Rightarrow> (int \<times> ('a, 'b) system) option"
where
  "wlan_Bus_closeInterface call pIntf w =
     (case pIntf of
        None \<Rightarrow> Some (- EIO, w)
      | Some p \<Rightarrow> do {
          (r, w1) \<leftarrow> unregister_tdspbus_usbdev call (Some p) w;
          w2 \<leftarrow> free_iface p w1;
          Some (0, w2)
        })"

section \<open>lwlan_entry.c\<close>

definition wlan_adap_call ::
  "addr \<Rightarrow> ('a \<Rightarrow> 'a) \<Rightarrow> ('a, 'b) system \<Rightarrow> ('a, 'b) system option" where
  "wlan_adap_call d g w = do { c \<leftarrow> wlan_adap_upd d g (client w); Some (with_client c w) }"

definition wlan_usb_info_of :: "usb_interface \<Rightarrow> wlan_usb_info" where
  "wlan_usb_info_of u = \<lparr>EP_control = 0, EP_bulkout_HEAD = 4, EP_bulkout_BODY = 2, EP_bulkin = 1,
     EP_interrupt = 9, usb_dev = ui_usbdev u, usb_intf = ui_addr u\<rparr>"

text \<open>The part of the probe after the adapter exists at address \<open>d\<close>.\<close>

definition wlan_probe_bus ::
  "('a, 'b) clients caller \<Rightarrow> usb_interface \<Rightarrow> addr \<Rightarrow> ('a, 'b) system \<Rightarrow>
   (int \<times> ('a, 'b) system) option" where
  "wlan_probe_bus call u d w =
     (case wlan_Bus_new_interface (Some d) w of (pI, w1) \<Rightarrow> do {
        p \<leftarrow> pI;
        x \<leftarrow> ifaces w1 p;
        let w2 = set_iface p (x\<lparr>pUsbDev := Some (ui_usbdev u)\<rparr>) w1;
        let L = wlib (client w2);
        w3 \<leftarrow> wlan_adap_call d (Adap_Set_BusInf L (Some p)) w2;
        (r, w4) \<leftarrow> wlan_Bus_openInterface call (Some p) w3;
        if r \<noteq> 0 then do {
          w5 \<leftarrow> wlan_adap_call d (Adap_Set_BusInf L None) w4;
          w6 \<leftarrow> wlan_adap_call d (Adap_UnInitialize L) w5;
          Some (- EIO, w6)
        }
        else Some (0, w4)
      })"

definition wlan_usb_probe ::
  "('a, 'b) clients caller \<Rightarrow> usb_interface \<Rightarrow> ('a, 'b) system \<Rightarrow> (int \<times> ('a, 'b) system) option"
where
  "wlan_usb_probe call u w =
     (if bInterfaceNumber u \<noteq> 0 then Some (- ENODEV, w)
      else if bNumEndpoints u < 5 then Some (- EIO, w)
      else (let c = client w; L = wlib c in
        case Adap_Create L (wlan_usb_info_of u) of
          None \<Rightarrow> Some (- EIO, w)
        | Some A \<Rightarrow>
            (let d = next_addr c;
                 c1 = c\<lparr>wadap := (wadap c)(d := Some (Adap_Set_Removed L 0 A)), next_addr := Suc d,
                       intfdata := (intfdata c)(ui_addr u := Some d)\<rparr>
             in wlan_probe_bus call u d (with_client c1 w))))"

definition wlan_usb_disconnect ::
  "('a, 'b) clients caller \<Rightarrow> usb_interface \<Rightarrow> ('a, 'b) system \<Rightarrow> ('a, 'b) system option" where
  "wlan_usb_disconnect call u w =
     (case intfdata (client w) (ui_addr u) of
        None \<Rightarrow> Some w
      | Some d \<Rightarrow> do {
          let L = wlib (client w);
          w1 \<leftarrow> wlan_adap_call d (Adap_Set_Removed L 1) w;
          A \<leftarrow> wadap (client w1) d;
          (r, w2) \<leftarrow> wlan_Bus_closeInterface call (Adap_Get_BusInf L A) w1;
          A2 \<leftarrow> wadap (client w2) d;
          let c = client w2;
          Some (with_client (c\<lparr>wadap := (wadap c)(d := None),
                              intfdata := (intfdata c)(ui_addr u := None)\<rparr>) w2)
        })"

text \<open>
  The suspend type is a static variable; the argument 0 reads and clears it.  The three events
  are \<^verbatim>\<open>PM_EVENT_FREEZE\<close>, \<^verbatim>\<open>PM_EVENT_SUSPEND\<close> and \<^verbatim>\<open>PM_EVENT_HIBERNATE\<close>.
\<close>

definition wlan_suspend_type :: "int \<Rightarrow> int \<Rightarrow> int \<times> int" where
  "wlan_suspend_type type st =
     (if type \<noteq> 0
      then (0, if type = 2 then 2 else if type = 4 then 4 else if type = 1 then 1 else -1)
      else if st \<noteq> -1 then (st, -1)
      else (-1, st))"

definition wlan_usb_suspend ::
  "usb_interface \<Rightarrow> int \<Rightarrow> ('a, 'b) system \<Rightarrow> (int \<times> ('a, 'b) system) option" where
  "wlan_usb_suspend u event w =
     (case intfdata (client w) (ui_addr u) of
        None \<Rightarrow> Some (0, w)
      | Some d \<Rightarrow> do {
          let c = client w;
          let c1 = c\<lparr>suspend_type := snd (wlan_suspend_type event (suspend_type c))\<rparr>;
          w1 \<leftarrow> wlan_adap_call d (Adap_Suspend (wlib c) event) (with_client c1 w);
          Some (0, w1)
        })"

definition wlan_usb_resume ::
  "usb_interface \<Rightarrow> ('a, 'b) system \<Rightarrow> (int \<times> ('a, 'b) system) option" where
  "wlan_usb_resume u w =
     (let c = client w; rs = wlan_suspend_type 0 (suspend_type c);
          w1 = with_client (c\<lparr>suspend_type := snd rs\<rparr>) w
      in case intfdata c (ui_addr u) of
           None \<Rightarrow> Some (0, w1)
         | Some d \<Rightarrow> do {
             w2 \<leftarrow> wlan_adap_call d (Adap_Resume (wlib c) (fst rs)) w1;
             Some (0, w2)
           })"

text \<open>After a reset the suspend type is only consumed when there is a device.\<close>

definition wlan_usb_reset_resume ::
  "usb_interface \<Rightarrow> ('a, 'b) system \<Rightarrow> (int \<times> ('a, 'b) system) option" where
  "wlan_usb_reset_resume u w =
     (let c = client w; rs = wlan_suspend_type 0 (suspend_type c)
      in case intfdata c (ui_addr u) of
           None \<Rightarrow> Some (0, w)
         | Some d \<Rightarrow> do {
             w2 \<leftarrow> wlan_adap_call d (Adap_Resume (wlib c) (fst rs))
                    (with_client (c\<lparr>suspend_type := snd rs\<rparr>) w);
             Some (0, w2)
           })"

end
