(* ===== verification/Bt_Driver.thy ===== *)
theory Bt_Driver
  imports Wlan_Driver
begin

text \<open>
  The Bluetooth driver: its side of the bus (\<^verbatim>\<open>src/driver_src/new_bluetooth/tdsp_bus.c\<close>) and
  its USB and HCI entry points (\<^verbatim>\<open>lbluetooth_entry.c\<close>).
\<close>

section \<open>The semaphore that orders opening and closing\<close>

text \<open>
  \<^verbatim>\<open>down_interruptible\<close> takes the semaphore when its count is positive. On a count of 0 it
  sleeps: it returns \<^verbatim>\<open>-EINTR\<close> when a signal arrives and else, with no other task running
  that could release the semaphore, never returns (\<open>None\<close>).
\<close>

definition EINTR :: int where "EINTR = 4"

definition down_openLock :: "('a, 'b) clients \<Rightarrow> (int \<times> ('a, 'b) clients) option" where
  "down_openLock c =
     (if 0 < openLock c then Some (0, c\<lparr>openLock := openLock c - 1\<rparr>)
      else case ask DownInterruptible c of (ok, c1) \<Rightarrow>
        if ok then None else Some (- EINTR, c1))"

definition up_openLock :: "('a, 'b) clients \<Rightarrow> ('a, 'b) clients" where
  "up_openLock c = c\<lparr>openLock := Suc (openLock c)\<rparr>"

definition bt_adap_upd ::
  "addr \<Rightarrow> ('b \<Rightarrow> 'b) \<Rightarrow> ('a, 'b) clients \<Rightarrow> ('a, 'b) clients option" where
  "bt_adap_upd d g c = do {
     B \<leftarrow> badap c d;
     Some (c\<lparr>badap := (badap c)(d := Some (g B))\<rparr>)
   }"

definition hdev_upd ::
  "addr \<Rightarrow> (hci_dev \<Rightarrow> hci_dev) \<Rightarrow> ('a, 'b) clients \<Rightarrow> ('a, 'b) clients option" where
  "hdev_upd h g c = do {
     hd \<leftarrow> hdevs c h;
     Some (c\<lparr>hdevs := (hdevs c)(h := Some (g hd))\<rparr>)
   }"

section \<open>The HCI device\<close>

definition new_hdev :: "addr \<Rightarrow> hci_dev" where
  "new_hdev d = \<lparr>hd_drvdata = Some d, hd_running = False, hd_master = False,
     hd_registered = True, cmd_tx = 0, acl_tx = 0, sco_tx = 0\<rparr>"

text \<open>What is done with the semaphore held: the HCI device and the new state.\<close>

definition hci_create :: "addr \<Rightarrow> ('a, 'b) clients \<Rightarrow> (addr option \<times> ('a, 'b) clients) option" where
  "hci_create d c = do {
     B \<leftarrow> badap c d;
     (case Bluetooth_Adap_Open_Dev (blib c) B of (r, B1) \<Rightarrow>
       (let c1 = c\<lparr>badap := (badap c)(d := Some B1)\<rparr>
        in if r \<noteq> 0 then Some (None, c1)
           else (case ask HciAllocDev c1 of (ok1, c2) \<Rightarrow>
             if \<not> ok1 then Some (None, c2)
             else (let h = next_addr c2;
                       c3 = c2\<lparr>hdevs := (hdevs c2)(h := Some (new_hdev d)), next_addr := Suc h\<rparr>
                   in case ask HciRegisterDev c3 of (ok2, c4) \<Rightarrow>
                        if \<not> ok2 then Some (None, c4\<lparr>hdevs := (hdevs c4)(h := None)\<rparr>)
                        else do {
                          c5 \<leftarrow> bt_adap_upd d (Bluetooth_Adap_Set_hdev (blib c4) (Some h)) c4;
                          Some (Some h, c5)
                        }))))
   }"

definition register_HCI_device ::
  "addr option \<Rightarrow> ('a, 'b) clients \<Rightarrow> (addr option \<times> ('a, 'b) clients) option" where
  "register_HCI_device devExt c = do {
     d \<leftarrow> devExt;
     B \<leftarrow> badap c d;
     (r, c1) \<leftarrow> down_openLock c;
     if r = - EINTR then Some (None, c1)
     else do {
       (h, c2) \<leftarrow> hci_create d c1;
       Some (h, up_openLock c2)
     }
   }"

definition hci_destroy :: "addr \<Rightarrow> ('a, 'b) clients \<Rightarrow> ('a, 'b) clients option" where
  "hci_destroy d c = do {
     B \<leftarrow> badap c d;
     case Bluetooth_Adap_Get_hdev (blib c) B of
       None \<Rightarrow> Some c
     | Some h \<Rightarrow> do {
         c1 \<leftarrow> hdev_upd h (\<lambda>hd. hd\<lparr>hd_registered := False\<rparr>) c;
         c2 \<leftarrow> bt_adap_upd d (Bluetooth_Adap_Close_Dev (blib c1)) c1;
         c3 \<leftarrow> bt_adap_upd d (Bluetooth_Adap_Set_hdev (blib c2) None) c2;
         Some (c3\<lparr>hdevs := (hdevs c3)(h := None)\<rparr>)
       }
   }"

definition unregister_HCI_device ::
  "addr option \<Rightarrow> ('a, 'b) clients \<Rightarrow> ('a, 'b) clients option" where
  "unregister_HCI_device devExt c = do {
     (r, c1) \<leftarrow> down_openLock c;
     if r = - EINTR then Some c1
     else case devExt of
       None \<Rightarrow> Some (up_openLock c1)
     | Some d \<Rightarrow> do { c2 \<leftarrow> hci_destroy d c1; Some (up_openLock c2) }
   }"

section \<open>HCI callbacks\<close>

definition bt_Bus_set_firmware_version ::
  "addr option \<Rightarrow> u32 \<Rightarrow> u32 \<Rightarrow> ('a, 'b) system \<Rightarrow> ('a, 'b) system option" where
  "bt_Bus_set_firmware_version pIntf v8051 vdsp w = do {
     p \<leftarrow> pIntf;
     x \<leftarrow> ifaces w p;
     Some (set_iface p (x\<lparr>dsp_version := vdsp, c8051_version := v8051\<rparr>) w)
   }"

definition hci_usb_open :: "addr \<Rightarrow> ('a, 'b) system \<Rightarrow> (int \<times> ('a, 'b) system) option" where
  "hci_usb_open h w = do {
     let c = client w;
     hd \<leftarrow> hdevs c h;
     if hd_running hd then Some (0, w)
     else do {
       c1 \<leftarrow> hdev_upd h (\<lambda>x. x\<lparr>hd_running := True\<rparr>) c;
       d \<leftarrow> hd_drvdata hd;
       B \<leftarrow> badap c1 d;
       if Bluetooth_Adap_IsOpen (blib c1) B then Some (- EIO, with_client c1 w)
       else do {
         c2 \<leftarrow> bt_adap_upd d (Bluetooth_Adap_SetOpen (blib c1)) c1;
         c3 \<leftarrow> hdev_upd h (\<lambda>x. x\<lparr>hd_master := True\<rparr>) c2;
         c4 \<leftarrow> bt_adap_upd d (Bluetooth_Adap_Init (blib c3)) c3;
         B4 \<leftarrow> badap c4 d;
         if combodrv c4 \<noteq> 0
         then do {
           let v = Bluetooth_Adap_Set_FirmVer (blib c4) B4;
           w1 \<leftarrow> bt_Bus_set_firmware_version (Bluetooth_Adap_Get_BusInf (blib c4) B4)
                  (fst v) (snd v) (with_client c4 w);
           Some (0, w1)
         }
         else Some (0, with_client c4 w)
       }
     }
   }"

definition hci_usb_close :: "addr \<Rightarrow> ('a, 'b) clients \<Rightarrow> (int \<times> ('a, 'b) clients) option" where
  "hci_usb_close h c = do {
     hd \<leftarrow> hdevs c h;
     if \<not> hd_running hd then Some (0, c)
     else do {
       c1 \<leftarrow> hdev_upd h (\<lambda>x. x\<lparr>hd_running := False\<rparr>) c;
       d \<leftarrow> hd_drvdata hd;
       B \<leftarrow> badap c1 d;
       c2 \<leftarrow> (if Bluetooth_Adap_IsOpen (blib c1) B
              then bt_adap_upd d (Bluetooth_Adap_Exit_Lmp_Dump (blib c1)) c1 else Some c1);
       c3 \<leftarrow> bt_adap_upd d (Bluetooth_Adap_ClearOpen (blib c2)) c2;
       Some (0, c3)
     }
   }"

definition hci_usb_flush :: "addr \<Rightarrow> ('a, 'b) clients \<Rightarrow> int \<times> ('a, 'b) clients" where
  "hci_usb_flush h c = (0, c)"

text \<open>
  The kinds of packet the HCI core hands over; the result says whether the driver freed it.
  The driver data is read from the device before the test for NULL.
\<close>

datatype hci_pkt = HCI_COMMAND_PKT | HCI_ACLDATA_PKT | HCI_SCODATA_PKT | HCI_OTHER_PKT

definition hci_usb_send_frame ::
  "addr option \<Rightarrow> hci_pkt \<Rightarrow> u8 list \<Rightarrow> ('a, 'b) clients \<Rightarrow>
   (int \<times> bool \<times> ('a, 'b) clients) option" where
  "hci_usb_send_frame dev k skb c = do {
     h \<leftarrow> dev;
     hd \<leftarrow> hdevs c h;
     if \<not> hd_running hd then Some (- EBUSY, False, c)
     else do {
       d \<leftarrow> hd_drvdata hd;
       B \<leftarrow> badap c d;
       let L = blib c;
       if \<not> Bluetooth_Adap_IsOpen L B then Some (- EIO, False, c)
       else if Bluetooth_Adap_IsInD3 L B then Some (- EBUSY, False, c)
       else case k of
         HCI_COMMAND_PKT \<Rightarrow> do {
           c1 \<leftarrow> hdev_upd h (\<lambda>x. x\<lparr>cmd_tx := cmd_tx x + 1\<rparr>) c;
           c2 \<leftarrow> bt_adap_upd d (Bluetooth_Adap_SendCmd L skb) c1;
           Some (0, False, c2) }
       | HCI_ACLDATA_PKT \<Rightarrow> do {
           c1 \<leftarrow> hdev_upd h (\<lambda>x. x\<lparr>acl_tx := acl_tx x + 1\<rparr>) c;
           c2 \<leftarrow> bt_adap_upd d (Bluetooth_Adap_SendData L skb) c1;
           Some (0, True, c2) }
       | HCI_SCODATA_PKT \<Rightarrow> do {
           c1 \<leftarrow> hdev_upd h (\<lambda>x. x\<lparr>sco_tx := sco_tx x + 1\<rparr>) c;
           c2 \<leftarrow> bt_adap_upd d (Bluetooth_Adap_SendData L skb) c1;
           Some (0, True, c2) }
       | HCI_OTHER_PKT \<Rightarrow> Some (0, True, c)
     }
   }"

section \<open>tdsp_bus.c\<close>

definition BT_STRING_VERSION_ID :: "u8 list" where
  "BT_STRING_VERSION_ID = bytes_of ''BTU100723''"

definition bt_Bus_get_hotkey_flag :: "addr option \<Rightarrow> ('a, 'b) system \<Rightarrow> u8 option" where
  "bt_Bus_get_hotkey_flag pIntf w = do {
     p \<leftarrow> pIntf;
     x \<leftarrow> ifaces w p;
     Some (ParaFlag x AND 1)
   }"

definition tdsp_get_combodrv :: "('a, 'b) clients \<Rightarrow> u32" where
  "tdsp_get_combodrv c = combodrv c"

definition bt_Bus_Open :: "addr \<Rightarrow> ('a, 'b) system \<Rightarrow> (int \<times> ('a, 'b) system) option" where
  "bt_Bus_Open pIntf w = do {
     x \<leftarrow> ifaces w pIntf;
     (h, c) \<leftarrow> register_HCI_device (pBtDev x) (client w);
     Some (if h \<noteq> None then 0 else 1, with_client c w)
   }"

definition bt_Bus_Close :: "addr \<Rightarrow> ('a, 'b) system \<Rightarrow> (int \<times> ('a, 'b) system) option" where
  "bt_Bus_Close pIntf w = do {
     x \<leftarrow> ifaces w pIntf;
     c \<leftarrow> unregister_HCI_device (pBtDev x) (client w);
     Some (0, with_client c w)
   }"

definition bt_Bus_new_interface ::
  "addr option \<Rightarrow> ('a, 'b) system \<Rightarrow> addr option \<times> ('a, 'b) system" where
  "bt_Bus_new_interface dev w =
     (case ask AllocInterface (client w) of (ok, c) \<Rightarrow>
        if \<not> ok then (None, with_client c w)
        else (let p = next_addr c
              in (Some p, set_iface p (zero_iface\<lparr>pBtDev := dev\<rparr>)
                            (with_client (c\<lparr>next_addr := Suc p\<rparr>) w))))"

definition bt_Bus_openInterface ::
  "('a, 'b) clients caller \<Rightarrow> addr option \<Rightarrow> ('a, 'b) system \<Rightarrow> (int \<times> ('a, 'b) system) option"
where
  "bt_Bus_openInterface call pIntf w = do {
     p \<leftarrow> pIntf;
     x \<leftarrow> ifaces w p;
     v \<leftarrow> c_strcat (drv_version x) BT_STRING_VERSION_ID;
     register_twice call p
       (set_iface p (x\<lparr>iSerialNo := ucast BUS_DEVICE_SERIAL_NO_BT, drv_version := v,
                      open_cb := Some Bt_Bus_Open, close_cb := Some Bt_Bus_Close\<rparr>) w)
   }"

definition bt_Bus_closeInterface ::
  "('a, 'b) clients caller \<Rightarrow> addr option \<Rightarrow> ('a, 'b) system \<Rightarrow> (int \<times> ('a, 'b) system) option"
where
  "bt_Bus_closeInterface call pIntf w =
     (case pIntf of
        None \<Rightarrow> Some (- EIO, w)
      | Some p \<Rightarrow> do {
          (r, w1) \<leftarrow> unregister_tdspbus_usbdev call (Some p) w;
          w2 \<leftarrow> free_iface p w1;
          Some (0, w2)
        })"

section \<open>USB entry points\<close>

definition bt_adap_call ::
  "addr \<Rightarrow> ('b \<Rightarrow> 'b) \<Rightarrow> ('a, 'b) system \<Rightarrow> ('a, 'b) system option" where
  "bt_adap_call d g w = do { c \<leftarrow> bt_adap_upd d g (client w); Some (with_client c w) }"

definition bt_adap_free :: "addr \<Rightarrow> ('a, 'b) system \<Rightarrow> ('a, 'b) system option" where
  "bt_adap_free d w = do {
     B \<leftarrow> badap (client w) d;
     Some (with_client ((client w)\<lparr>badap := (badap (client w))(d := None)\<rparr>) w)
   }"

definition the_bt_usb_info :: bt_usb_info where
  "the_bt_usb_info = \<lparr>EP_control_bt = 0, EP_bulkout_ACL = 6, EP_bulkout_SCO = 8,
     EP_bulkin_Inquiry = 7, EP_bulkin_Rx = 5, EP_interrupt_bt = 10\<rparr>"

text \<open>
  With the combo driver, a failed registration with the bus destroys the adapter and the probe
  still returns 0, the interface's driver pointer left on the destroyed adapter.
\<close>

definition bt_probe_bus ::
  "('a, 'b) clients caller \<Rightarrow> addr \<Rightarrow> ('a, 'b) system \<Rightarrow> (int \<times> ('a, 'b) system) option" where
  "bt_probe_bus call d w =
     (case bt_Bus_new_interface (Some d) w of (pI, w1) \<Rightarrow>
        (case pI of
           None \<Rightarrow> do { w2 \<leftarrow> bt_adap_free d w1; Some (- EIO, w2) }
         | Some p \<Rightarrow> do {
             let L = blib (client w1);
             w2 \<leftarrow> bt_adap_call d (Bluetooth_Adap_Set_BusInf L (Some p)) w1;
             (r, w3) \<leftarrow> bt_Bus_openInterface call (Some p) w2;
             if r \<noteq> 0 then do {
               w4 \<leftarrow> bt_adap_call d (Bluetooth_Adap_Set_BusInf L None) w3;
               w5 \<leftarrow> bt_adap_free d w4;
               Some (0, w5)
             }
             else Some (0, w3)
           }))"

definition bt_usb_probe ::
  "('a, 'b) clients caller \<Rightarrow> usb_interface \<Rightarrow> ('a, 'b) system \<Rightarrow> (int \<times> ('a, 'b) system) option"
where
  "bt_usb_probe call u w =
     (let c0 = (client w)\<lparr>openLock := 1\<rparr>; w0 = with_client c0 w
      in if bInterfaceNumber u \<noteq> 1 then Some (- ENODEV, w0)
         else if bNumEndpoints u < 5 then Some (- EIO, w0)
         else case Bluetooth_Adap_Create (blib c0) the_bt_usb_info (ui_usbdev u) (ui_addr u) of
           None \<Rightarrow> Some (- EIO, w0)
         | Some B \<Rightarrow>
             (let d = next_addr c0;
                  c1 = c0\<lparr>badap := (badap c0)(d := Some B), next_addr := Suc d,
                         intfdata := (intfdata c0)(ui_addr u := Some d)\<rparr>;
                  w1 = with_client c1 w0
              in if combodrv c1 \<noteq> 0 then bt_probe_bus call d w1
                 else do {
                   (h, c2) \<leftarrow> register_HCI_device (Some d) c1;
                   Some (if h \<noteq> None then 0 else - EIO, with_client c2 w1)
                 }))"

text \<open>
  The result of \<^verbatim>\<open>down_interruptible\<close> is ignored on disconnection, so the semaphore is
  released even when it was not taken.
\<close>

definition bt_disconnect_close :: "addr option \<Rightarrow> ('a, 'b) system \<Rightarrow> ('a, 'b) system option" where
  "bt_disconnect_close hp w =
     (case hp of
        None \<Rightarrow> Some w
      | Some h \<Rightarrow> do {
          hd \<leftarrow> hdevs (client w) h;
          (r, c1) \<leftarrow> down_openLock (client w);
          (r2, c2) \<leftarrow> hci_usb_close h c1;
          Some (with_client (up_openLock c2) w)
        })"

definition bt_usb_disconnect ::
  "('a, 'b) clients caller \<Rightarrow> usb_interface \<Rightarrow> ('a, 'b) system \<Rightarrow> ('a, 'b) system option" where
  "bt_usb_disconnect call u w = do {
     let L = blib (client w);
     d \<leftarrow> intfdata (client w) (ui_addr u);
     let w0 = with_client ((client w)\<lparr>intfdata := (intfdata (client w))(ui_addr u := None)\<rparr>) w;
     B \<leftarrow> badap (client w0) d;
     w1 \<leftarrow> bt_disconnect_close (Bluetooth_Adap_Get_hdev L B) w0;
     w2 \<leftarrow> (if combodrv (client w1) \<noteq> 0
            then do {
              B1 \<leftarrow> badap (client w1) d;
              (r, v) \<leftarrow> bt_Bus_closeInterface call (Bluetooth_Adap_Get_BusInf L B1) w1;
              bt_adap_call d (Bluetooth_Adap_Set_BusInf L None) v
            }
            else do {
              c \<leftarrow> unregister_HCI_device (Some d) (client w1);
              Some (with_client c w1)
            });
     bt_adap_free d w2
   }"

text \<open>
  \<^verbatim>\<open>USB_STATE_SUSPENDED\<close> is set on the USB device, which is outside the model; the result
  says whether it is.
\<close>

definition bt_usb_suspend ::
  "usb_interface \<Rightarrow> int \<Rightarrow> ('a, 'b) system \<Rightarrow> (int \<times> bool \<times> ('a, 'b) system) option" where
  "bt_usb_suspend u event w = do {
     let L = blib (client w);
     d \<leftarrow> intfdata (client w) (ui_addr u);
     B \<leftarrow> badap (client w) d;
     case Bluetooth_Adap_Get_hdev L B of
       None \<Rightarrow> Some (0, False, w)
     | Some h \<Rightarrow> do {
         hd \<leftarrow> hdevs (client w) h;
         w1 \<leftarrow> bt_adap_call d (Bluetooth_Adap_Suspend L) w;
         B1 \<leftarrow> badap (client w1) d;
         Some (0, event \<noteq> 2 \<and> Bluetooth_Adap_GetWorkMod L B1 = 0, w1)
       }
   }"

definition bt_usb_resume ::
  "usb_interface \<Rightarrow> ('a, 'b) system \<Rightarrow> (int \<times> ('a, 'b) system) option" where
  "bt_usb_resume u w = do {
     let L = blib (client w);
     d \<leftarrow> intfdata (client w) (ui_addr u);
     B \<leftarrow> badap (client w) d;
     case Bluetooth_Adap_Get_hdev L B of
       None \<Rightarrow> Some (0, w)
     | Some h \<Rightarrow> do {
         w1 \<leftarrow> bt_adap_call d (Bluetooth_Adap_Resume L) w;
         hd \<leftarrow> hdevs (client w1) h;
         Some (0, w1)
       }
   }"

end
