(* ===== verification/Tdsp_System.thy ===== *)
theory Tdsp_System
  imports Bt_Driver
begin

text \<open>
  The three modules together: the bus with the callbacks of both drivers.  The contract
  \<open>bus_client\<close> is proved here of the drivers' code, so everything its locale shows of the
  bus holds of the whole system, and the invariant of the system is stated.
\<close>

section \<open>The callbacks\<close>

fun sys_call :: "('a, 'b) clients caller" where
  "sys_call Wlan_Bus_Open p w = wlan_Bus_Open p w"
| "sys_call Wlan_Bus_Close p w = wlan_Bus_Close p w"
| "sys_call Bt_Bus_Open p w = bt_Bus_Open p w"
| "sys_call Bt_Bus_Close p w = bt_Bus_Close p w"

section \<open>The clients' invariant\<close>

text \<open>What the drivers know of their adapters: the pointers they stored.\<close>

definition wview :: "('a, 'b) clients \<Rightarrow> addr \<Rightarrow> (addr option \<times> addr option \<times> addr option) option" where
  "wview c d = map_option (wptrs (wlib c)) (wadap c d)"

definition bview :: "('a, 'b) clients \<Rightarrow> addr \<Rightarrow> (addr option \<times> addr option) option" where
  "bview c d = map_option (bptrs (blib c)) (badap c d)"

text \<open>The interface each adapter was told of.\<close>

definition wbus :: "('a, 'b) clients \<Rightarrow> addr \<Rightarrow> addr option option" where
  "wbus c d = map_option (\<lambda>p. snd (snd p)) (wview c d)"

definition bbus :: "('a, 'b) clients \<Rightarrow> addr \<Rightarrow> addr option option" where
  "bbus c d = map_option snd (bview c d)"

text \<open>
  A WLAN adapter has both a live network device, whose private pointer leads back to it, and live
  counters of its own, or neither; a Bluetooth adapter's HCI device is live and leads back.
\<close>

definition wptrs_ok ::
  "('a, 'b) clients \<Rightarrow> addr \<Rightarrow> addr option \<times> addr option \<times> addr option \<Rightarrow> bool" where
  "wptrs_ok c d p \<longleftrightarrow>
     (case p of (nd, ns, bi) \<Rightarrow>
        nd = None \<and> ns = None \<or>
        (\<exists>n dev s. nd = Some n \<and> netdevs c n = Some dev \<and> nd_priv dev = Some d \<and>
                   ns = Some s \<and> netstats c s \<noteq> None))"

definition bptrs_ok :: "('a, 'b) clients \<Rightarrow> addr \<Rightarrow> addr option \<times> addr option \<Rightarrow> bool" where
  "bptrs_ok c d p \<longleftrightarrow>
     (\<forall>h. fst p = Some h \<longrightarrow> (\<exists>hd. hdevs c h = Some hd \<and> hd_drvdata hd = Some d))"

definition netstats_apart :: "('a, 'b) clients \<Rightarrow> bool" where
  "netstats_apart c \<longleftrightarrow>
     (\<forall>d e p q s. wview c d = Some p \<longrightarrow> wview c e = Some q \<longrightarrow>
        fst (snd p) = Some s \<longrightarrow> fst (snd q) = Some s \<longrightarrow> d = e)"

definition fresh_above :: "('a, 'b) clients \<Rightarrow> bool" where
  "fresh_above c \<longleftrightarrow>
     (\<forall>n \<ge> next_addr c. netdevs c n = None \<and> netstats c n = None \<and> hdevs c n = None \<and>
        wadap c n = None \<and> badap c n = None)"

text \<open>
  The kernel calls whose failure the WLAN driver does not survive: a failed allocation of the
  counters is written through, and a failed registration leaves a pointer to the freed device.
\<close>

definition env_ok :: "('a, 'b) clients \<Rightarrow> bool" where
  "env_ok c \<longleftrightarrow> (\<forall>t. outcome c t AllocNetstat \<and> outcome c t RegisterNetdev)"

text \<open>
  The invariant of the drivers' own state, with the laws of the libraries; and with it the
  hypothesis on the kernel, which every statement that needs it names.
\<close>

definition drivers_inv :: "('a, 'b) clients \<Rightarrow> bool" where
  "drivers_inv c \<longleftrightarrow>
     wlan_lib_laws (wlib c) \<and> bt_lib_laws (blib c) \<and> fresh_above c \<and>
     (\<forall>d p. wview c d = Some p \<longrightarrow> wptrs_ok c d p) \<and> netstats_apart c \<and>
     (\<forall>d p. bview c d = Some p \<longrightarrow> bptrs_ok c d p)"

definition clients_inv :: "('a, 'b) clients \<Rightarrow> bool" where
  clients_inv_alt: "clients_inv c \<longleftrightarrow> drivers_inv c \<and> env_ok c"

lemma clients_inv_def:
  "clients_inv c \<longleftrightarrow>
     wlan_lib_laws (wlib c) \<and> bt_lib_laws (blib c) \<and> env_ok c \<and> fresh_above c \<and>
     (\<forall>d p. wview c d = Some p \<longrightarrow> wptrs_ok c d p) \<and> netstats_apart c \<and>
     (\<forall>d p. bview c d = Some p \<longrightarrow> bptrs_ok c d p)"
  by (simp only: clients_inv_alt drivers_inv_def) blast

text \<open>
  The interfaces the two drivers register; what the drivers keep of an interface of the bus is
  \<open>sys_link\<close>, and \<open>sys_ok\<close> is the contract for the bus, with the hypothesis on the kernel.
\<close>

definition wlan_intf :: "('a, 'b) clients \<Rightarrow> addr \<Rightarrow> iface \<Rightarrow> bool" where
  "wlan_intf c a x \<longleftrightarrow>
     open_cb x = Some Wlan_Bus_Open \<and> close_cb x = Some Wlan_Bus_Close \<and>
     (\<exists>d. pBtDev x = Some d \<and> wbus c d = Some (Some a))"

definition bt_intf :: "('a, 'b) clients \<Rightarrow> addr \<Rightarrow> iface \<Rightarrow> bool" where
  "bt_intf c a x \<longleftrightarrow>
     open_cb x = Some Bt_Bus_Open \<and> close_cb x = Some Bt_Bus_Close \<and> 0 < openLock c \<and>
     (\<exists>d. pBtDev x = Some d \<and> bbus c d = Some (Some a))"

definition sys_link :: "('a, 'b) clients \<Rightarrow> addr \<Rightarrow> iface \<Rightarrow> bool" where
  "sys_link c a x \<longleftrightarrow> drivers_inv c \<and> (wlan_intf c a x \<or> bt_intf c a x)"

definition sys_ok :: "('a, 'b) clients \<Rightarrow> addr \<Rightarrow> iface \<Rightarrow> bool" where
  sys_ok_alt: "sys_ok c a x \<longleftrightarrow> sys_link c a x \<and> env_ok c"

lemma sys_ok_def: "sys_ok c a x \<longleftrightarrow> clients_inv c \<and> (wlan_intf c a x \<or> bt_intf c a x)"
  by (auto simp: sys_ok_alt sys_link_def clients_inv_alt)

lemma sys_ok_of_link: "bus_ok sys_link w \<Longrightarrow> env_ok (client w) \<Longrightarrow> bus_ok sys_ok w"
  by (auto simp: bus_ok_def clients_ok_def sys_ok_alt)

lemma sys_link_of_ok: "bus_ok sys_ok w \<Longrightarrow> bus_ok sys_link w"
  by (auto simp: bus_ok_def clients_ok_def sys_ok_alt)

section \<open>Steps of the clients\<close>

text \<open>Equal in everything the invariant reads.\<close>

definition same_view :: "('a, 'b) clients \<Rightarrow> ('a, 'b) clients \<Rightarrow> bool" where
  "same_view c c' \<longleftrightarrow>
     wlib c' = wlib c \<and> blib c' = blib c \<and> wview c' = wview c \<and> bview c' = bview c \<and>
     netdevs c' = netdevs c \<and> netstats c' = netstats c \<and> hdevs c' = hdevs c \<and>
     openLock c' = openLock c \<and> outcome c' = outcome c \<and> next_addr c' = next_addr c"

lemma view_None [simp]: "wview c d = None \<longleftrightarrow> wadap c d = None" "bview c d = None \<longleftrightarrow> badap c d = None"
  by (auto simp: wview_def bview_def)

lemma same_view_refl [simp]: "same_view c c"
  by (simp add: same_view_def)

lemma same_view_trans: "same_view a b \<Longrightarrow> same_view b c \<Longrightarrow> same_view a c"
  by (simp add: same_view_def)

lemma same_view_none:
  assumes "same_view c c'"
  shows "wadap c' n = None \<longleftrightarrow> wadap c n = None" "badap c' n = None \<longleftrightarrow> badap c n = None"
  using assms view_None unfolding same_view_def by metis+

lemma same_view_drivers: "same_view c c' \<Longrightarrow> drivers_inv c \<Longrightarrow> drivers_inv c'"
  using same_view_none [of c c']
  by (simp add: drivers_inv_def same_view_def wptrs_ok_def bptrs_ok_def netstats_apart_def fresh_above_def)

lemma same_view_inv: "same_view c c' \<Longrightarrow> clients_inv c \<Longrightarrow> clients_inv c'"
  using same_view_drivers [of c c'] by (simp add: clients_inv_alt same_view_def env_ok_def)

text \<open>What every step keeps for the interfaces of all adapters.\<close>

definition client_step :: "('a, 'b) clients \<Rightarrow> ('a, 'b) clients \<Rightarrow> bool" where
  "client_step c c' \<longleftrightarrow>
     clients_inv c' \<and> (0 < openLock c \<longrightarrow> 0 < openLock c') \<and>
     (\<forall>d b. wbus c d = Some b \<longrightarrow> wbus c' d = Some b) \<and>
     (\<forall>d b. bbus c d = Some b \<longrightarrow> bbus c' d = Some b)"

lemma client_step_refl: "clients_inv c \<Longrightarrow> client_step c c"
  by (simp add: client_step_def)

lemma client_step_trans: "client_step a b \<Longrightarrow> client_step b c \<Longrightarrow> client_step a c"
  by (auto simp: client_step_def)

lemma same_view_step: "same_view c c' \<Longrightarrow> clients_inv c \<Longrightarrow> client_step c c'"
  using same_view_inv [of c c'] by (auto simp: client_step_def same_view_def wbus_def bbus_def)

lemma client_step_inv: "client_step c c' \<Longrightarrow> clients_inv c'"
  by (simp add: client_step_def)

lemma client_step_sys_ok: "client_step c c' \<Longrightarrow> sys_ok c b y \<Longrightarrow> sys_ok c' b y"
  by (auto simp: sys_ok_def wlan_intf_def bt_intf_def client_step_def)

lemma ask_same_view: "same_view c (snd (ask k c))"
  by (simp add: ask_def same_view_def wview_def bview_def fun_eq_iff)

lemma ask_fst_env [simp]:
  "env_ok c \<Longrightarrow> fst (ask AllocNetstat c)" "env_ok c \<Longrightarrow> fst (ask RegisterNetdev c)"
  by (simp_all add: ask_def env_ok_def)

text \<open>Library calls that leave the stored pointers alone.\<close>

lemma wlan_adap_upd_same:
  assumes "wadap c d = Some A" "wptrs (wlib c) (g A) = wptrs (wlib c) A"
  shows "\<exists>c'. wlan_adap_upd d g c = Some c' \<and> same_view c c' \<and> wadap c' d = Some (g A)"
  using assms by (auto simp: wlan_adap_upd_def same_view_def wview_def bview_def fun_eq_iff)

lemma bt_adap_upd_same:
  assumes "badap c d = Some B" "bptrs (blib c) (g B) = bptrs (blib c) B"
  shows "\<exists>c'. bt_adap_upd d g c = Some c' \<and> same_view c c' \<and> badap c' d = Some (g B)"
  using assms by (auto simp: bt_adap_upd_def same_view_def wview_def bview_def fun_eq_iff)

section \<open>Creating and destroying the network device\<close>

lemma wlan_laws:
  assumes "wlan_lib_laws L"
  shows "wptrs L (Adap_Set_Netdev L v A) = (v, Adap_Get_Netstat L A, Adap_Get_BusInf L A)"
    "wptrs L (Adap_Set_Netstat L v A) = (Adap_Get_Netdev L A, v, Adap_Get_BusInf L A)"
    "wptrs L (Adap_Set_BusInf L v A) = (Adap_Get_Netdev L A, Adap_Get_Netstat L A, v)"
    "wptrs L (snd (snd (Adap_Initialize L A))) = wptrs L A"
    "wptrs L (Adap_Halt L A) = wptrs L A" "wptrs L (Adap_UnInitialize L A) = wptrs L A"
    "wptrs L (Adap_Set_Removed L r A) = wptrs L A" "wptrs L (Adap_Suspend L t A) = wptrs L A"
    "wptrs L (Adap_Resume L t A) = wptrs L A" "wptrs L (Adap_Send L bs A) = wptrs L A"
    "Adap_Create L u = Some A \<Longrightarrow> wptrs L A = (None, None, None)"
  using assms by (simp_all add: wlan_lib_laws_def wptrs_def)

lemma bt_laws:
  assumes "bt_lib_laws L"
  shows "bptrs L (Bluetooth_Adap_Set_hdev L v B) = (v, Bluetooth_Adap_Get_BusInf L B)"
    "bptrs L (Bluetooth_Adap_Set_BusInf L v B) = (Bluetooth_Adap_Get_hdev L B, v)"
    "bptrs L (snd (Bluetooth_Adap_Open_Dev L B)) = bptrs L B"
    "bptrs L (Bluetooth_Adap_Close_Dev L B) = bptrs L B"
    "bptrs L (Bluetooth_Adap_SetOpen L B) = bptrs L B"
    "bptrs L (Bluetooth_Adap_ClearOpen L B) = bptrs L B"
    "bptrs L (Bluetooth_Adap_Init L B) = bptrs L B"
    "bptrs L (Bluetooth_Adap_Exit_Lmp_Dump L B) = bptrs L B"
    "bptrs L (Bluetooth_Adap_Suspend L B) = bptrs L B"
    "bptrs L (Bluetooth_Adap_Resume L B) = bptrs L B"
    "bptrs L (Bluetooth_Adap_SendCmd L bs B) = bptrs L B"
    "bptrs L (Bluetooth_Adap_SendData L bs B) = bptrs L B"
    "Bluetooth_Adap_Create L u i j = Some B \<Longrightarrow> bptrs L B = (None, None)"
  using assms by (simp_all add: bt_lib_laws_def)

lemma wptrs_get:
  "wptrs L A = (nd, ns, bi) \<longleftrightarrow>
   Adap_Get_Netdev L A = nd \<and> Adap_Get_Netstat L A = ns \<and> Adap_Get_BusInf L A = bi"
  by (simp add: wptrs_def)

lemma bptrs_get:
  "bptrs L B = (h, bi) \<longleftrightarrow> Bluetooth_Adap_Get_hdev L B = h \<and> Bluetooth_Adap_Get_BusInf L B = bi"
  by (simp add: bptrs_def)

lemma clients_inv_wptrs: "clients_inv c \<Longrightarrow> wview c d = Some p \<Longrightarrow> wptrs_ok c d p"
  unfolding clients_inv_def by blast

lemma clients_inv_bptrs: "clients_inv c \<Longrightarrow> bview c d = Some p \<Longrightarrow> bptrs_ok c d p"
  unfolding clients_inv_def by blast

lemma clients_inv_apart:
  "clients_inv c \<Longrightarrow> wview c d = Some p \<Longrightarrow> wview c e = Some q \<Longrightarrow>
   fst (snd p) = Some s \<Longrightarrow> fst (snd q) = Some s \<Longrightarrow> d = e"
  unfolding clients_inv_def netstats_apart_def by blast

lemma wptrs_ok_frame:
  assumes "wptrs_ok c e r"
    and "\<And>n dev. netdevs c n = Some dev \<Longrightarrow> nd_priv dev = Some e \<Longrightarrow> netdevs c' n = Some dev"
    and "\<And>s. fst (snd r) = Some s \<Longrightarrow> netstats c s \<noteq> None \<Longrightarrow> netstats c' s \<noteq> None"
  shows "wptrs_ok c' e r"
proof (cases r)
  case (fields nd ns bi)
  show ?thesis
  proof (cases "nd = None \<and> ns = None")
    case False
    with assms(1) fields obtain n dev s where "nd = Some n" "netdevs c n = Some dev"
      "nd_priv dev = Some e" "ns = Some s" "netstats c s \<noteq> None"
      by (auto simp: wptrs_ok_def)
    with assms(2,3) fields show ?thesis unfolding wptrs_ok_def by simp
  qed (simp add: fields wptrs_ok_def)
qed

text \<open>
  One adapter's pointers change, with the objects they point to; every other adapter keeps its
  own objects.
\<close>

lemma wview_update_step:
  assumes inv: "clients_inv c" and d: "wview c d = Some p"
    and same: "wlib c' = wlib c" "blib c' = blib c" "bview c' = bview c" "hdevs c' = hdevs c"
      "openLock c' = openLock c" "outcome c' = outcome c"
    and view: "wview c' = (wview c)(d := Some q)" and bus: "snd (snd q) = snd (snd p)"
    and ok: "wptrs_ok c' d q" and fresh: "fresh_above c'"
    and others: "\<And>e r. e \<noteq> d \<Longrightarrow> wview c e = Some r \<Longrightarrow> wptrs_ok c' e r"
    and apart: "\<And>e r s. e \<noteq> d \<Longrightarrow> wview c e = Some r \<Longrightarrow> fst (snd q) = Some s \<Longrightarrow> fst (snd r) \<noteq> Some s"
  shows "client_step c c'"
proof -
  have "netstats_apart c'"
    unfolding netstats_apart_def
  proof (intro allI impI)
    fix e1 e2 r1 r2 s
    assume "wview c' e1 = Some r1" "wview c' e2 = Some r2"
      and "fst (snd r1) = Some s" "fst (snd r2) = Some s"
    then show "e1 = e2"
      using apart [of e1 r1 s] apart [of e2 r2 s] clients_inv_apart [OF inv, of e1 r1 e2 r2 s]
      unfolding view by (cases "e1 = d"; cases "e2 = d") auto
  qed
  then have "clients_inv c'"
    using inv same ok fresh others clients_inv_wptrs [OF inv]
    by (auto simp: clients_inv_def view env_ok_def bptrs_ok_def split: if_splits
        simp del: split_paired_All)
  then show ?thesis
    using same d bus by (cases p; cases q) (auto simp: client_step_def wbus_def bbus_def view)
qed

lemma netdev_setup_step:
  assumes inv: "clients_inv (client w)" and A: "wadap (client w) d = Some A"
    and bus: "Adap_Get_BusInf (wlib (client w)) A = Some a" and x: "ifaces w a = Some x"
  shows "\<exists>r c'. wlan_netdev_setup (Some d) w = Some (r, with_client c' w) \<and> client_step (client w) c'"
proof -
  let ?c = "client w" let ?L = "wlib ?c"
  have laws: "wlan_lib_laws ?L" and env: "env_ok ?c" using inv by (auto simp: clients_inv_def)
  obtain ok1 c1 where a1: "ask AllocEtherdev ?c = (ok1, c1)" by (cases "ask AllocEtherdev ?c")
  have s1: "same_view ?c c1" using ask_same_view [of ?c AllocEtherdev] a1 by simp
  have env1: "env_ok c1" using env s1 by (simp add: env_ok_def same_view_def)
  obtain c2 where a2: "ask AllocNetstat c1 = (True, c2)"
    using env1 by (metis ask_fst_env(1) prod.collapse)
  have s2: "same_view ?c c2"
    using ask_same_view [of c1 AllocNetstat] a2 s1 by (auto intro: same_view_trans)
  have ad: "wadap c2 = wadap ?c" "badap c2 = badap ?c" "wlib c2 = ?L" "blib c2 = blib ?c"
    using a1 a2 by (auto simp: ask_def)
  show ?thesis
  proof (cases "Adap_Get_Netdev ?L A = None \<and> ok1")
    case False
    then consider "wlan_netdev_setup (Some d) w = Some (- EEXIST, with_client ?c w)"
      | "wlan_netdev_setup (Some d) w = Some (- ENOMEM, with_client c1 w)"
      using A a1 by (cases "Adap_Get_Netdev ?L A")
        (auto simp: wlan_netdev_setup_def Let_def with_client_def)
    then show ?thesis
      using same_view_step [OF s1 inv] client_step_refl [OF inv] by cases blast+
  next
    case True
    let ?n = "next_addr c2" let ?s = "Suc ?n"
    let ?A1 = "Adap_Set_Netstat ?L (Some ?s) A" let ?A2 = "Adap_Set_Netdev ?L (Some ?n) ?A1"
    let ?nd = "new_netdev ?L d ?A1 (pUsbDev x)"
    let ?c3 = "c2\<lparr>wadap := (wadap c2)(d := Some ?A2), netdevs := (netdevs c2)(?n := Some ?nd),
                 netstats := (netstats c2)(?s := Some zero_net_stats), next_addr := Suc ?s\<rparr>"
    have env2: "env_ok ?c3" using env s2 by (simp add: env_ok_def same_view_def)
    then obtain c4 where a4: "ask RegisterNetdev ?c3 = (True, c4)"
      by (metis ask_fst_env(2) prod.collapse)
    have p2: "wptrs ?L ?A2 = (Some ?n, Some ?s, Some a)"
      using wlan_laws(1,2) [OF laws] bus by (metis wptrs_get)
    then have bus2: "Adap_Get_BusInf ?L ?A2 = Some a" by (simp add: wptrs_get)
    let ?c5 = "c4\<lparr>netdevs := (netdevs c4)(?n := Some (?nd\<lparr>nd_registered := True\<rparr>))\<rparr>"
    have c5: "c4 = ?c3\<lparr>now := Suc (now c2)\<rparr>" using a4 by (auto simp: ask_def)
    have vw: "wview ?c d = Some (None, Adap_Get_Netstat ?L A, Some a)"
      using A True bus by (simp add: wview_def wptrs_def)
    have fr: "fresh_above c2"
      using inv s2 same_view_none [OF s2] by (simp add: clients_inv_def same_view_def fresh_above_def)
    have "client_step ?c ?c5"
    proof (rule wview_update_step [OF inv vw])
      show "wview ?c5 = (wview ?c)(d := Some (Some ?n, Some ?s, Some a))"
        using p2 ad by (auto simp: wview_def c5 fun_eq_iff)
      show "bview ?c5 = bview ?c" using ad by (auto simp: bview_def c5 fun_eq_iff)
      show "wptrs_ok ?c5 d (Some ?n, Some ?s, Some a)"
        by (auto simp: wptrs_ok_def c5 new_netdev_def)
      show "fresh_above ?c5"
        using fr A ad by (auto simp: fresh_above_def c5)
      show "wptrs_ok ?c5 e r" if "e \<noteq> d" "wview ?c e = Some r" for e r
      proof -
        have "wptrs_ok c2 e r"
          using clients_inv_wptrs [OF inv that(2)] s2 by (simp add: wptrs_ok_def same_view_def)
        moreover have "netdevs c2 ?n = None" "netstats c2 ?s = None"
          using fr by (auto simp: fresh_above_def)
        ultimately show ?thesis by (elim wptrs_ok_frame) (auto simp: c5)
      qed
      show "fst (snd r) \<noteq> Some s"
        if "e \<noteq> d" "wview ?c e = Some r" "fst (snd (Some ?n, Some ?s, Some a)) = Some s" for e r s
      proof -
        have "wptrs_ok c2 e r"
          using clients_inv_wptrs [OF inv that(2)] s2 by (simp add: wptrs_ok_def same_view_def)
        moreover have "netstats c2 ?s = None" using fr by (auto simp: fresh_above_def)
        ultimately show ?thesis using that(3) by (auto simp: wptrs_ok_def)
      qed
    qed (use s2 in \<open>simp_all add: c5 same_view_def\<close>)
    moreover have "wlan_netdev_setup (Some d) w = Some (0, with_client ?c5 w)"
      using A True a1 a2 a4 bus2 x by (simp add: wlan_netdev_setup_def Let_def)
    ultimately show ?thesis by blast
  qed
qed

lemma netdev_destroy_step:
  assumes inv: "clients_inv c" and A: "wadap c d = Some A"
  shows "\<exists>c' A'. wlan_netdev_destroy (Some d) c = Some c' \<and> client_step c c' \<and> wadap c' d = Some A'"
proof (cases "Adap_Get_Netdev (wlib c) A")
  case None
  then show ?thesis using inv A by (auto simp: wlan_netdev_destroy_def Let_def client_step_refl)
next
  case (Some n)
  let ?L = "wlib c"
  have laws: "wlan_lib_laws ?L" using inv by (simp add: clients_inv_def)
  have vw: "wview c d = Some (wptrs ?L A)" using A by (simp add: wview_def)
  then have "wptrs_ok c d (wptrs ?L A)" by (rule clients_inv_wptrs [OF inv])
  with Some obtain dev s st where dev: "netdevs c n = Some dev" "nd_priv dev = Some d"
    and s: "Adap_Get_Netstat ?L A = Some s" "netstats c s = Some st"
    by (auto simp: wptrs_ok_def wptrs_def)
  let ?A1 = "Adap_Set_Netdev ?L None A" let ?A2 = "Adap_Set_Netstat ?L None ?A1"
  let ?c' = "c\<lparr>wadap := (wadap c)(d := Some ?A2), netdevs := (netdevs c)(n := None),
              netstats := (netstats c)(s := None)\<rparr>"
  have p1: "Adap_Get_Netstat ?L ?A1 = Some s" "Adap_Get_BusInf ?L ?A1 = Adap_Get_BusInf ?L A"
    "Adap_Get_Netdev ?L ?A1 = None"
    using wlan_laws(1) [OF laws, of None A] s by (auto simp: wptrs_get)
  have p2: "wptrs ?L ?A2 = (None, None, Adap_Get_BusInf ?L A)"
    using wlan_laws(2) [OF laws, of None ?A1] p1 by simp
  have "client_step c ?c'"
  proof (rule wview_update_step [OF inv vw])
    show "wview ?c' = (wview c)(d := Some (wptrs ?L ?A2))" by (auto simp: wview_def fun_eq_iff)
    show "bview ?c' = bview c" by (auto simp: bview_def fun_eq_iff)
    show "snd (snd (wptrs ?L ?A2)) = snd (snd (wptrs ?L A))" using p2 by (simp add: wptrs_def)
    show "wptrs_ok ?c' d (wptrs ?L ?A2)" by (simp add: p2 wptrs_ok_def)
    show "fresh_above ?c'" using inv A by (auto simp: clients_inv_def fresh_above_def)
    show "wptrs_ok ?c' e r" if e: "e \<noteq> d" "wview c e = Some r" for e r
    proof -
      have "wptrs_ok c e r" by (rule clients_inv_wptrs [OF inv e(2)])
      moreover have "fst (snd r) \<noteq> Some s"
        using clients_inv_apart [OF inv vw e(2), of s] e(1) s by (auto simp: wptrs_def)
      ultimately show ?thesis using dev e by (elim wptrs_ok_frame) auto
    qed
  qed (simp_all add: p2)
  moreover have "wlan_netdev_destroy (Some d) c = Some ?c'"
    using A Some dev s p1 by (simp add: wlan_netdev_destroy_def Let_def)
  ultimately show ?thesis by (auto intro!: exI [of _ ?c'])
qed

section \<open>The callbacks keep the contract\<close>

lemma client_with_client [simp]:
  "client (with_client c w) = c" "ifaces (with_client c w) = ifaces w"
  by (simp_all add: with_client_def)

lemma cb_frameI:
  assumes "ifaces w a = Some x" "ifaces w' a = Some (x\<lparr>c8051_version := v, dsp_version := d\<rparr>)"
    and "\<And>b. b \<noteq> a \<Longrightarrow> ifaces w' b = ifaces w b"
    and "ptdspbus_myself w' = ptdspbus_myself w" "FdoData w' = FdoData w"
      "fdo_live w' = fdo_live w" "chrdev w' = chrdev w"
  shows "cb_frame a w w'"
  using assms by (auto simp: cb_frame_def)

lemma cb_frame_client: "ifaces w a = Some x \<Longrightarrow> cb_frame a w (with_client c w)"
  by (rule cb_frameI [where v = "c8051_version x" and d = "dsp_version x"])
    (auto simp: with_client_def intro: iface.equality)

lemma cb_frame_trans:
  assumes "cb_frame a w1 w2" "cb_frame a w2 w3"
  shows "cb_frame a w1 w3"
proof -
  from assms obtain x v d y u e where "ifaces w1 a = Some x"
    "ifaces w2 a = Some (x\<lparr>c8051_version := v, dsp_version := d\<rparr>)"
    "ifaces w3 a = Some (x\<lparr>c8051_version := u, dsp_version := e\<rparr>)"
    by (auto simp: cb_frame_def)
  with assms show ?thesis by (auto simp: cb_frame_def)
qed

lemma cb_frame_versions:
  fixes s v :: u32
  shows "ifaces w a = Some x \<Longrightarrow>
    cb_frame a w (set_iface a (x\<lparr>dsp_version := s, c8051_version := v\<rparr>) w)"
  by (rule cb_frameI [where v = v and d = s]) (auto simp: set_iface_def intro: iface.equality)

lemma wbus_adap:
  "wbus c d = Some (Some a) \<longleftrightarrow> (\<exists>A. wadap c d = Some A \<and> Adap_Get_BusInf (wlib c) A = Some a)"
  by (auto simp: wbus_def wview_def wptrs_def)

lemma bbus_adap:
  "bbus c d = Some (Some a) \<longleftrightarrow>
   (\<exists>B. badap c d = Some B \<and> Bluetooth_Adap_Get_BusInf (blib c) B = Some a)"
  by (auto simp: bbus_def bview_def bptrs_def)

lemma same_view_bus: "same_view c c' \<Longrightarrow> wbus c' = wbus c \<and> bbus c' = bbus c"
  by (simp add: same_view_def wbus_def bbus_def fun_eq_iff)

lemma wlan_initialize_step:
  assumes inv: "clients_inv (client w)" and A: "wadap (client w) d = Some A"
    and bus: "Adap_Get_BusInf (wlib (client w)) A = Some a" and x: "ifaces w a = Some x"
  shows "\<exists>r w'. wlan_initialize d w = Some (r, w') \<and> same_view (client w) (client w') \<and> cb_frame a w w'"
proof -
  let ?L = "wlib (client w)"
  obtain r fw A1 where i: "Adap_Initialize ?L A = (r, fw, A1)" by (metis prod_cases3)
  have "wptrs ?L A1 = wptrs ?L A"
    using wlan_laws(4) [of ?L A] inv i by (simp add: clients_inv_def)
  then have b1: "Adap_Get_BusInf ?L A1 = Some a"
    and sv: "same_view (client w) ((client w)\<lparr>wadap := (wadap (client w))(d := Some A1)\<rparr>)"
    using A bus by (auto simp: same_view_def wview_def bview_def fun_eq_iff wptrs_def)
  let ?w1 = "with_client ((client w)\<lparr>wadap := (wadap (client w))(d := Some A1)\<rparr>) w"
  have f1: "cb_frame a w ?w1" using x by (rule cb_frame_client)
  show ?thesis
  proof (cases fw)
    case None
    with A i sv f1 show ?thesis by (auto simp: wlan_initialize_def Let_def)
  next
    case (Some vs)
    obtain v s where vs: "vs = (v, s)" by (cases vs)
    let ?w2 = "set_iface a (x\<lparr>dsp_version := s, c8051_version := v\<rparr>) ?w1"
    have "cb_frame a w ?w2"
      using f1 cb_frame_versions [of ?w1 a x] x by (auto intro: cb_frame_trans)
    moreover have "wlan_initialize d w = Some (r, ?w2)"
      using A i b1 x Some vs
      by (simp add: wlan_initialize_def Let_def wlan_Bus_set_firmware_version_def)
    moreover have "client ?w2 = client ?w1" by (simp add: set_iface_def)
    ultimately show ?thesis using sv by auto
  qed
qed

text \<open>What the contract asks of a callback of the interface \<open>a\<close>.\<close>

definition callback_done ::
  "addr \<Rightarrow> ('a, 'b) system \<Rightarrow> (int \<times> ('a, 'b) system) option \<Rightarrow> bool" where
  "callback_done a w res \<longleftrightarrow>
     (\<exists>r w'. res = Some (r, w') \<and> cb_frame a w w' \<and> client_step (client w) (client w'))"

lemma wlan_Bus_Open_done:
  assumes inv: "clients_inv (client w)" and x: "ifaces w a = Some x" and i: "wlan_intf (client w) a x"
  shows "callback_done a w (wlan_Bus_Open a w)"
proof -
  from i obtain d A where d: "pBtDev x = Some d" "wadap (client w) d = Some A"
    "Adap_Get_BusInf (wlib (client w)) A = Some a" by (auto simp: wlan_intf_def wbus_adap)
  obtain r w1 where w1: "wlan_initialize d w = Some (r, w1)" "same_view (client w) (client w1)"
    "cb_frame a w w1"
    using wlan_initialize_step [OF inv d(2,3) x] by blast
  have st1: "client_step (client w) (client w1)" using w1(2) inv by (rule same_view_step)
  show ?thesis
  proof (cases "r = 0")
    case False
    with x d w1 st1 show ?thesis by (auto simp: callback_done_def wlan_Bus_Open_def)
  next
    case True
    obtain x1 where x1: "ifaces w1 a = Some x1" "pBtDev x1 = Some d"
      using cb_frame_fields [OF w1(3) x] d(1) by (metis iface_agrees_def)
    have "wbus (client w1) d = Some (Some a)"
      using d same_view_bus [OF w1(2)] by (simp add: wbus_adap [symmetric]) (auto simp: wbus_adap)
    then obtain A1 where A1: "wadap (client w1) d = Some A1"
      "Adap_Get_BusInf (wlib (client w1)) A1 = Some a" by (auto simp: wbus_adap)
    obtain r2 c2 where s: "wlan_netdev_setup (Some d) w1 = Some (r2, with_client c2 w1)"
      "client_step (client w1) c2"
      using netdev_setup_step [OF client_step_inv [OF st1] A1 x1(1)] by blast
    have "cb_frame a w (with_client c2 w1)"
      using w1(3) x1(1) by (blast intro: cb_frame_trans cb_frame_client)
    moreover have "client_step (client w) c2" using st1 s(2) by (rule client_step_trans)
    ultimately show ?thesis using True x d w1 x1 s by (auto simp: callback_done_def wlan_Bus_Open_def)
  qed
qed

lemma wlan_Bus_Close_done:
  assumes inv: "clients_inv (client w)" and x: "ifaces w a = Some x" and i: "wlan_intf (client w) a x"
  shows "callback_done a w (wlan_Bus_Close a w)"
proof -
  let ?c = "client w"
  from i obtain d A where d: "pBtDev x = Some d" "wadap ?c d = Some A"
    by (auto simp: wlan_intf_def wbus_adap)
  have laws: "wlan_lib_laws (wlib ?c)" using inv by (simp add: clients_inv_def)
  obtain c1 where c1: "wlan_adap_upd d (Adap_Halt (wlib ?c)) ?c = Some c1" "same_view ?c c1"
    "wadap c1 d = Some (Adap_Halt (wlib ?c) A)"
    using wlan_adap_upd_same [OF d(2)] wlan_laws(5) [OF laws] by metis
  have st1: "client_step ?c c1" using c1(2) inv by (rule same_view_step)
  obtain c2 A2 where c2: "wlan_netdev_destroy (Some d) c1 = Some c2" "client_step c1 c2"
    "wadap c2 d = Some A2"
    using netdev_destroy_step [OF client_step_inv [OF st1] c1(3)] by blast
  have laws2: "wlan_lib_laws (wlib c2)" using c2(2) by (simp add: client_step_def clients_inv_def)
  obtain c3 where c3: "wlan_adap_upd d (Adap_UnInitialize (wlib c2)) c2 = Some c3" "same_view c2 c3"
    using wlan_adap_upd_same [OF c2(3)] wlan_laws(6) [OF laws2] by metis
  have "client_step c2 c3" using c3(2) client_step_inv [OF c2(2)] by (rule same_view_step)
  then have "client_step ?c c3" using st1 c2(2) by (blast intro: client_step_trans)
  then show ?thesis
    using x d c1 c2 c3 cb_frame_client [OF x] by (auto simp: callback_done_def wlan_Bus_Close_def)
qed

section \<open>The Bluetooth callbacks\<close>

text \<open>A step that may leave the semaphore taken.\<close>

definition bus_step :: "('a, 'b) clients \<Rightarrow> ('a, 'b) clients \<Rightarrow> bool" where
  "bus_step c c' \<longleftrightarrow>
     clients_inv c' \<and> (\<forall>d b. wbus c d = Some b \<longrightarrow> wbus c' d = Some b) \<and>
     (\<forall>d b. bbus c d = Some b \<longrightarrow> bbus c' d = Some b)"

lemma client_step_alt: "client_step c c' \<longleftrightarrow> bus_step c c' \<and> (0 < openLock c \<longrightarrow> 0 < openLock c')"
  by (auto simp: client_step_def bus_step_def)

lemma bus_step_trans: "bus_step a b \<Longrightarrow> bus_step b c \<Longrightarrow> bus_step a c"
  by (auto simp: bus_step_def)

lemma bus_step_inv: "bus_step c c' \<Longrightarrow> clients_inv c'"
  by (simp add: bus_step_def)

lemma same_view_bus_step: "same_view c c' \<Longrightarrow> clients_inv c \<Longrightarrow> bus_step c c'"
  using same_view_step by (auto simp: client_step_alt)

lemma openLock_irrelevant [simp]:
  "clients_inv (c\<lparr>openLock := n\<rparr>) = clients_inv c" "wbus (c\<lparr>openLock := n\<rparr>) = wbus c"
  "bbus (c\<lparr>openLock := n\<rparr>) = bbus c"
  by (simp_all add: clients_inv_def wview_def bview_def wbus_def bbus_def env_ok_def fresh_above_def
      netstats_apart_def wptrs_ok_def bptrs_ok_def fun_eq_iff)

lemma openLock_bus_step [simp]:
  "bus_step c (c'\<lparr>openLock := n\<rparr>) = bus_step c c'" "bus_step (c\<lparr>openLock := n\<rparr>) c' = bus_step c c'"
  by (simp_all add: bus_step_def)

lemma down_openLock_taken:
  assumes "0 < openLock c" "clients_inv c"
  obtains c1 where "down_openLock c = Some (0, c1)" "bus_step c c1" "badap c1 = badap c"
    "blib c1 = blib c" "openLock c1 = openLock c - 1" "bview c1 = bview c"
proof
  show "down_openLock c = Some (0, c\<lparr>openLock := openLock c - 1\<rparr>)"
    using assms(1) by (simp add: down_openLock_def)
  show "bus_step c (c\<lparr>openLock := openLock c - 1\<rparr>)"
    using same_view_bus_step [OF same_view_refl assms(2)] by simp
qed (simp_all add: bview_def fun_eq_iff)

lemma bview_update_step:
  assumes inv: "clients_inv c" and d: "bview c d = Some p"
    and same: "wlib c' = wlib c" "blib c' = blib c" "wview c' = wview c" "netdevs c' = netdevs c"
      "netstats c' = netstats c" "outcome c' = outcome c"
    and view: "bview c' = (bview c)(d := Some q)" and bus: "snd q = snd p"
    and ok: "bptrs_ok c' d q" and fresh: "fresh_above c'"
    and others: "\<And>e r. e \<noteq> d \<Longrightarrow> bview c e = Some r \<Longrightarrow> bptrs_ok c' e r"
  shows "bus_step c c'"
proof -
  have "wptrs_ok c' e r" if "wview c e = Some r" for e r
    using clients_inv_wptrs [OF inv that] same by (simp add: wptrs_ok_def)
  moreover have "netstats_apart c'"
    using inv same by (simp add: clients_inv_def netstats_apart_def)
  ultimately have "clients_inv c'"
    using inv same ok fresh others
    by (auto simp: clients_inv_def view env_ok_def split: if_splits simp del: split_paired_All)
  then show ?thesis
    using same d bus by (cases p; cases q) (auto simp: bus_step_def wbus_def bbus_def view)
qed

lemma hci_create_step:
  assumes inv: "clients_inv c" and B: "badap c d = Some B"
  shows "\<exists>h c'. hci_create d c = Some (h, c') \<and> bus_step c c' \<and> openLock c' = openLock c"
proof -
  let ?L = "blib c"
  have laws: "bt_lib_laws ?L" using inv by (simp add: clients_inv_def)
  obtain r B1 where o: "Bluetooth_Adap_Open_Dev ?L B = (r, B1)"
    by (cases "Bluetooth_Adap_Open_Dev ?L B")
  have B1: "bptrs ?L B1 = bptrs ?L B" using bt_laws(3) [OF laws, of B] o by simp
  let ?c1 = "c\<lparr>badap := (badap c)(d := Some B1)\<rparr>"
  have s1: "same_view c ?c1" using B B1 by (auto simp: same_view_def wview_def bview_def fun_eq_iff)
  obtain ok1 c2 where a2: "ask HciAllocDev ?c1 = (ok1, c2)" by (cases "ask HciAllocDev ?c1")
  have s2: "same_view c c2"
    using ask_same_view [of ?c1 HciAllocDev] a2 s1 by (auto intro: same_view_trans)
  have f2: "badap c2 d = Some B1" "blib c2 = ?L" "openLock c2 = openLock c"
    using a2 by (auto simp: ask_def)
  let ?h = "next_addr c2"
  let ?c3 = "c2\<lparr>hdevs := (hdevs c2)(?h := Some (new_hdev d)), next_addr := Suc ?h\<rparr>"
  obtain ok2 c4 where a4: "ask HciRegisterDev ?c3 = (ok2, c4)" by (cases "ask HciRegisterDev ?c3")
  have c4: "c4 = ?c3\<lparr>now := Suc (now c2)\<rparr>" using a4 by (auto simp: ask_def)
  have inv2: "clients_inv c2" using s2 inv by (rule same_view_inv)
  have fr: "fresh_above c2" using inv2 by (simp add: clients_inv_def)
  have bv: "bview c2 d = Some (bptrs ?L B1)" using f2 by (simp add: bview_def)
  have other: "bptrs_ok c' e q" if "bview c2 e = Some q"
    and "\<And>h hd. hdevs c2 h = Some hd \<Longrightarrow> hdevs c' h = Some hd" for c' e q
    using clients_inv_bptrs [OF inv2 that(1)] that(2) by (auto simp: bptrs_ok_def)
  consider "r \<noteq> 0" | "r = 0" "\<not> ok1" | "r = 0" "ok1" "\<not> ok2" | "r = 0" "ok1" "ok2" by blast
  then show ?thesis
  proof cases
    case 1
    with B o same_view_bus_step [OF s1 inv] show ?thesis by (auto simp: hci_create_def)
  next
    case 2
    with B o a2 f2 same_view_bus_step [OF s2 inv] show ?thesis by (auto simp: hci_create_def)
  next
    case 3
    let ?c5 = "c4\<lparr>hdevs := (hdevs c4)(?h := None)\<rparr>"
    have "bus_step c2 ?c5"
    proof (rule bview_update_step [OF inv2 bv])
      show "bview ?c5 = (bview c2)(d := Some (bptrs ?L B1))"
        using bv by (auto simp: c4 bview_def fun_eq_iff)
      show "wview ?c5 = wview c2" by (auto simp: c4 wview_def fun_eq_iff)
      show "fresh_above ?c5" using fr by (auto simp: fresh_above_def c4)
      have "hdevs ?c5 = hdevs c2" using fr by (auto simp: c4 fresh_above_def fun_eq_iff)
      then have keep: "bview c2 e = Some q \<Longrightarrow> bptrs_ok ?c5 e q" for e q
        by (intro other) (simp_all only:)
      show "bptrs_ok ?c5 d (bptrs ?L B1)" using bv by (rule keep)
      show "\<And>e q. e \<noteq> d \<Longrightarrow> bview c2 e = Some q \<Longrightarrow> bptrs_ok ?c5 e q" by (rule keep)
    qed (simp_all add: c4)
    then have "bus_step c ?c5" using same_view_bus_step [OF s2 inv] by (blast intro: bus_step_trans)
    with 3 B o a2 a4 f2 show ?thesis
      by (auto simp: hci_create_def Let_def c4)
  next
    case 4
    let ?B5 = "Bluetooth_Adap_Set_hdev ?L (Some ?h) B1"
    let ?c5 = "c4\<lparr>badap := (badap c4)(d := Some ?B5)\<rparr>"
    have p5: "bptrs ?L ?B5 = (Some ?h, Bluetooth_Adap_Get_BusInf ?L B1)" by (rule bt_laws(1) [OF laws])
    have "bus_step c2 ?c5"
    proof (rule bview_update_step [OF inv2 bv])
      show "bview ?c5 = (bview c2)(d := Some (bptrs ?L ?B5))"
        using f2 by (auto simp: c4 bview_def fun_eq_iff)
      show "wview ?c5 = wview c2" by (auto simp: c4 wview_def fun_eq_iff)
      show "fresh_above ?c5" using fr f2 by (auto simp: fresh_above_def c4)
      show "snd (bptrs ?L ?B5) = snd (bptrs ?L B1)" using p5 by (simp add: bptrs_def)
      show "bptrs_ok ?c5 d (bptrs ?L ?B5)" by (simp add: p5 bptrs_ok_def c4 new_hdev_def)
      have "hdevs c2 ?h = None" using fr by (simp add: fresh_above_def)
      then show "bptrs_ok ?c5 e q" if "e \<noteq> d" "bview c2 e = Some q" for e q
        using that(2) by (intro other) (auto simp: c4)
    qed (simp_all add: c4)
    then have "bus_step c ?c5" using same_view_bus_step [OF s2 inv] by (blast intro: bus_step_trans)
    moreover have "bt_adap_upd d (Bluetooth_Adap_Set_hdev (blib c4) (Some ?h)) c4 = Some ?c5"
      using f2 by (simp add: bt_adap_upd_def c4)
    ultimately show ?thesis using 4 B o a2 a4 f2
      by (auto simp: hci_create_def Let_def c4)
  qed
qed

lemma hci_destroy_step:
  assumes inv: "clients_inv c" and B: "badap c d = Some B"
  shows "\<exists>c'. hci_destroy d c = Some c' \<and> bus_step c c' \<and> openLock c' = openLock c"
proof (cases "Bluetooth_Adap_Get_hdev (blib c) B")
  case None
  then show ?thesis using B same_view_bus_step [OF same_view_refl inv] by (simp add: hci_destroy_def)
next
  case (Some h)
  let ?L = "blib c"
  have laws: "bt_lib_laws ?L" using inv by (simp add: clients_inv_def)
  have bv: "bview c d = Some (bptrs ?L B)" using B by (simp add: bview_def)
  then obtain hd where hd: "hdevs c h = Some hd" "hd_drvdata hd = Some d"
    using clients_inv_bptrs [OF inv bv] Some by (auto simp: bptrs_ok_def bptrs_def)
  let ?B1 = "Bluetooth_Adap_Close_Dev ?L B" let ?B2 = "Bluetooth_Adap_Set_hdev ?L None ?B1"
  let ?c' = "c\<lparr>badap := (badap c)(d := Some ?B2), hdevs := (hdevs c)(h := None)\<rparr>"
  have p2: "bptrs ?L ?B2 = (None, Bluetooth_Adap_Get_BusInf ?L B)"
    using bt_laws(1) [OF laws, of None ?B1] bt_laws(4) [OF laws, of B] by (simp add: bptrs_def)
  have "bus_step c ?c'"
  proof (rule bview_update_step [OF inv bv])
    show "bview ?c' = (bview c)(d := Some (bptrs ?L ?B2))" by (auto simp: bview_def fun_eq_iff)
    show "wview ?c' = wview c" by (auto simp: wview_def fun_eq_iff)
    show "fresh_above ?c'" using inv B by (auto simp: clients_inv_def fresh_above_def)
    show "snd (bptrs ?L ?B2) = snd (bptrs ?L B)" using p2 by (simp add: bptrs_def)
    show "bptrs_ok ?c' d (bptrs ?L ?B2)" by (simp add: p2 bptrs_ok_def)
    show "bptrs_ok ?c' e q" if e: "e \<noteq> d" "bview c e = Some q" for e q
      using clients_inv_bptrs [OF inv e(2)] hd e(1) by (auto simp: bptrs_ok_def)
  qed simp_all
  moreover have "hci_destroy d c = Some ?c'"
    using B Some hd by (simp add: hci_destroy_def hdev_upd_def bt_adap_upd_def)
  ultimately show ?thesis by auto
qed

lemma bt_Bus_Open_done:
  assumes inv: "clients_inv (client w)" and x: "ifaces w a = Some x" and i: "bt_intf (client w) a x"
  shows "callback_done a w (bt_Bus_Open a w)"
proof -
  let ?c = "client w"
  from i obtain d B where d: "pBtDev x = Some d" "badap ?c d = Some B" and lock: "0 < openLock ?c"
    by (auto simp: bt_intf_def bbus_adap)
  obtain c1 where c1: "down_openLock ?c = Some (0, c1)" "bus_step ?c c1" "badap c1 = badap ?c"
    using lock inv by (rule down_openLock_taken)
  obtain h c2 where c2: "hci_create d c1 = Some (h, c2)" "bus_step c1 c2" "openLock c2 = openLock c1"
    using hci_create_step [OF bus_step_inv [OF c1(2)]] c1(3) d(2) by metis
  have "client_step ?c (up_openLock c2)"
    using bus_step_trans [OF c1(2) c2(2)] by (simp add: client_step_alt up_openLock_def)
  then show ?thesis using x d c1 c2 cb_frame_client [OF x]
    by (auto simp: callback_done_def bt_Bus_Open_def register_HCI_device_def EINTR_def)
qed

lemma bt_Bus_Close_done:
  assumes inv: "clients_inv (client w)" and x: "ifaces w a = Some x" and i: "bt_intf (client w) a x"
  shows "callback_done a w (bt_Bus_Close a w)"
proof -
  let ?c = "client w"
  from i obtain d B where d: "pBtDev x = Some d" "badap ?c d = Some B" and lock: "0 < openLock ?c"
    by (auto simp: bt_intf_def bbus_adap)
  obtain c1 where c1: "down_openLock ?c = Some (0, c1)" "bus_step ?c c1" "badap c1 = badap ?c"
    using lock inv by (rule down_openLock_taken)
  obtain c2 where c2: "hci_destroy d c1 = Some c2" "bus_step c1 c2" "openLock c2 = openLock c1"
    using hci_destroy_step [OF bus_step_inv [OF c1(2)]] c1(3) d(2) by metis
  have "client_step ?c (up_openLock c2)"
    using bus_step_trans [OF c1(2) c2(2)] by (simp add: client_step_alt up_openLock_def)
  then show ?thesis using x d c1 c2 cb_frame_client [OF x]
    by (auto simp: callback_done_def bt_Bus_Close_def unregister_HCI_device_def EINTR_def)
qed

section \<open>The contract holds\<close>

lemma sys_call_done:
  assumes "ifaces w a = Some x" "sys_ok (client w) a x" "open_cb x = Some cb \<or> close_cb x = Some cb"
  shows "callback_done a w (sys_call cb a w)"
proof (cases "wlan_intf (client w) a x")
  case True
  then have "cb = Wlan_Bus_Open \<or> cb = Wlan_Bus_Close" using assms(3) by (auto simp: wlan_intf_def)
  then show ?thesis
    using assms True wlan_Bus_Open_done wlan_Bus_Close_done by (auto simp: sys_ok_def)
next
  case False
  with assms(2) have b: "bt_intf (client w) a x" by (simp add: sys_ok_def)
  then have "cb = Bt_Bus_Open \<or> cb = Bt_Bus_Close" using assms(3) by (auto simp: bt_intf_def)
  then show ?thesis
    using assms b bt_Bus_Open_done bt_Bus_Close_done by (auto simp: sys_ok_def)
qed

lemma sys_ok_agrees: "iface_agrees x y \<Longrightarrow> sys_ok c a x \<Longrightarrow> sys_ok c a y"
  by (auto simp: iface_agrees_def sys_ok_def wlan_intf_def bt_intf_def)

interpretation sys: bus_client sys_call sys_ok
proof
  fix w :: "('a, 'b) system" and a x cb
  assume "ifaces w a = Some x" "sys_ok (client w) a x" "open_cb x = Some cb \<or> close_cb x = Some cb"
  from sys_call_done [OF this] obtain r w' where "sys_call cb a w = Some (r, w')" "cb_frame a w w'"
    "client_step (client w) (client w')" by (auto simp: callback_done_def)
  then show "\<exists>r w'. sys_call cb a w = Some (r, w') \<and> cb_frame a w w' \<and>
      (\<forall>b y. sys_ok (client w) b y \<longrightarrow> sys_ok (client w') b y)"
    using client_step_sys_ok by blast
qed (rule sys_ok_agrees)

end
