(* ===== verification/Sys_Spec.thy ===== *)
theory Sys_Spec
  imports Tdsp_System
begin

text \<open>
  Properties of the three modules together, obtained from the locale \<open>bus_client\<close> through
  its interpretation on the drivers' callbacks.
\<close>

section \<open>The ioctl interface\<close>

text \<open>
  C5: As long as the kernel's allocations of the WLAN counters and its registrations of network
  devices succeed (\<open>env_ok\<close>; the driver survives neither failure), no ioctl on the bus
  device with a safe argument, whatever file, command and stack contents, crashes or breaks the
  invariant of the device table and of the drivers: the bus callbacks of both drivers included.
\<close>

theorem ioctl_keeps_system:
  assumes "bus_ok sys_link w" "env_ok (client w)" "ioctl_safe cmd m"
  shows "\<exists>r m' w'. tdspbus_unlocked_ioctl sys_call stk pfile cmd m w = Some (r, m', w') \<and>
    bus_ok sys_ok w' \<and> length m' = length m"
  using sys_ok_of_link [OF assms(1,2)] assms(3) by (rule sys.unlocked_ioctl_ok)

text \<open>
  C6: The safety condition is exact. On a file opened on the bus, with a device registered, and
  as long as the kernel's allocations of the WLAN counters and registrations of network devices
  succeed, an ioctl crashes the kernel if and only if its argument is unsafe: unmapped memory for
  the five commands that dereference the user pointer, or a plug or unplug request longer than
  its stack structure.
\<close>

theorem ioctl_crash_iff:
  assumes "bus_ok sys_link w" "env_ok (client w)" "any_registered (FdoData w)"
    and "private_data pfile = ptdspbus_myself w"
  shows "tdspbus_unlocked_ioctl sys_call stk pfile cmd m w = None \<longleftrightarrow> \<not> ioctl_safe cmd m"
proof
  assume "tdspbus_unlocked_ioctl sys_call stk pfile cmd m w = None"
  with sys.unlocked_ioctl_ok [OF sys_ok_of_link [OF assms(1,2)], of cmd m stk pfile] show "\<not> ioctl_safe cmd m" by auto
next
  assume "\<not> ioctl_safe cmd m"
  with assms show "tdspbus_unlocked_ioctl sys_call stk pfile cmd m w = None"
    by (auto simp: tdspbus_unlocked_ioctl_def ioctl_switch_unsafe bus_ok_def bus_inv_def)
qed

section \<open>Hot key and antenna reach the drivers\<close>

lemma slot_with_iface:
  assumes "bus_inv w" "s \<in> set (DeviceData (FdoData w))" "pDeviceInterface s = Some p"
  obtains x where "ifaces w p = Some x" "iface_ok s x"
proof -
  have "slot_ok (ifaces w) s" using assms(1,2) by (simp add: bus_inv_def)
  with assms(3) that show ?thesis by (auto simp: slot_ok_def)
qed

text \<open>
  C7: After \<^verbatim>\<open>IOCTL_BUSENUM_SET_HOTKEY_FLAG\<close> both drivers read back bit 0 of the value
  from their interface, for every registered device.
\<close>

theorem hotkey_reaches_drivers:
  fixes w :: "('a, 'b) system"
  assumes "bus_inv w" "4 \<le> length m"
  shows "\<exists>w'. ioctl_set_hotkey_flag m w = Some (STATUS_SUCCESS, m, w') \<and> bus_inv w' \<and>
    (\<forall>s \<in> set (DeviceData (FdoData w')). \<forall>p. pDeviceInterface s = Some p \<longrightarrow>
       wlan_Bus_get_hotkey_flag (Some p) w' = Some (ucast (rd32 m AND 1)) \<and>
       bt_Bus_get_hotkey_flag (Some p) w' = Some (ucast (rd32 m AND 1)))"
proof -
  obtain w' where w': "ioctl_set_hotkey_flag m w = Some (STATUS_SUCCESS, m, w')" "bus_inv w'"
    "DeviceData (FdoData w') = map (\<lambda>s. s\<lparr>uHotKeyPressed := ucast (rd32 m AND 1),
      state_old_from_wb := StartWithOS\<rparr>) (DeviceData (FdoData w))"
    using hotkey_loop_ioctl [OF assms] by blast
  have "ifaces w' p = Some x \<Longrightarrow> iface_ok s x \<Longrightarrow> s \<in> set (DeviceData (FdoData w')) \<Longrightarrow>
      ParaFlag x AND 1 = ucast (rd32 m AND 1)" for s p x
    using w'(3) by (auto simp: iface_ok_def)
  then have "wlan_Bus_get_hotkey_flag (Some p) w' = Some (ucast (rd32 m AND 1)) \<and>
      bt_Bus_get_hotkey_flag (Some p) w' = Some (ucast (rd32 m AND 1))"
    if "s \<in> set (DeviceData (FdoData w'))" "pDeviceInterface s = Some p" for s p
    using slot_with_iface [OF w'(2) that] that(1)
    by (metis (no_types, lifting) wlan_Bus_get_hotkey_flag_def bt_Bus_get_hotkey_flag_def bind.bind_lunit)
  with w' show ?thesis by blast
qed

text \<open>
  C8: After \<^verbatim>\<open>IOCTL_BUSENUM_SET_ANTENNA\<close> the WLAN driver reads back the two antenna bits of
  the value from its interface, and its hot-key bit has not changed.
\<close>

theorem antenna_reaches_wlan:
  fixes w :: "('a, 'b) system"
  assumes "bus_inv w" "4 \<le> length m"
    and "s \<in> set (DeviceData (FdoData w))" "sSerialNo s = 2" "pDeviceInterface s = Some p"
  shows "\<exists>w'. ioctl_set_antenna m w = Some (STATUS_SUCCESS, m, w') \<and> bus_inv w' \<and>
    wlan_Bus_get_antenna_flag (Some p) w' = Some (ucast (rd32 m AND 3)) \<and>
    wlan_Bus_get_hotkey_flag (Some p) w' = wlan_Bus_get_hotkey_flag (Some p) w"
proof -
  let ?g = "\<lambda>s. s\<lparr>uAntennaFlag := ucast (rd32 m AND 3)\<rparr>"
  obtain w' where w': "ioctl_set_antenna m w = Some (STATUS_SUCCESS, m, w')" "bus_inv w'"
    "DeviceData (FdoData w') = map ?g (DeviceData (FdoData w))"
    using antenna_loop_ioctl [OF assms(1,2)] by blast
  have t: "?g s \<in> set (DeviceData (FdoData w'))" "pDeviceInterface (?g s) = Some p"
    using w'(3) assms(3,5) by auto
  obtain x where x: "ifaces w p = Some x" "iface_ok s x"
    using assms(1,3,5) by (rule slot_with_iface)
  obtain y where y: "ifaces w' p = Some y" "iface_ok (?g s) y"
    using w'(2) t by (rule slot_with_iface)
  then have "drop_bit 1 (ParaFlag y) AND 3 = ucast (rd32 m AND 3)" "ParaFlag y AND 1 = ParaFlag x AND 1"
    using x assms(4) by (auto simp: iface_ok_def)
  with w' x y show ?thesis
    by (simp add: wlan_Bus_get_antenna_flag_def wlan_Bus_get_hotkey_flag_def)
qed

section \<open>Starting and stopping devices\<close>

lemma dev_iface_slot:
  assumes "bus_inv w" "i < 3" "pDeviceInterface (DeviceData (FdoData w) ! i) = Some p"
  shows "dev_iface w (sSerialNo (DeviceData (FdoData w) ! i)) = ifaces w p"
proof -
  obtain s0 s1 s2 where "DeviceData (FdoData w) = [s0, s1, s2]"
    "sSerialNo s0 = 1" "sSerialNo s1 = 2" "sSerialNo s2 = 4" "pDeviceInterface s2 = None"
    using assms(1) by (rule bus_inv_three)
  with assms(2,3) show ?thesis
    by (auto simp: dev_iface_def less_Suc_eq numeral_3_eq_3)
qed

lemma plug_in_run:
  fixes w :: "('a, 'b) system"
  assumes ok: "bus_ok sys_ok w"
    and find: "Bus_FindPdoBySerialNo (FdoData w) (sn AND HOTKEY_FLAG_AND) = Some i"
    and x: "dev_iface w (sSerialNo (DeviceData (FdoData w) ! i)) = Some x" "devstate x \<noteq> Started"
  shows "\<exists>p cb r w1 y w'. pDeviceInterface (DeviceData (FdoData w) ! i) = Some p \<and>
    open_cb x = Some cb \<and> sys_call cb p (set_iface p (x\<lparr>pPciDev := None\<rparr>) w) = Some (r, w1) \<and>
    ifaces w1 p = Some y \<and> Bus_PlugInDevice sys_call sn w = Some (0, w') \<and>
    w' = (if r = 0
          then set_slot i ((DeviceData (FdoData w) ! i)\<lparr>state_old_from_wb := Started\<rparr>)
                 (set_iface p (y\<lparr>devstate := Started\<rparr>) w1)
          else w1) \<and>
    bus_ok sys_ok w' \<and> dev_started w' (sSerialNo (DeviceData (FdoData w) ! i)) = (r = 0)"
proof -
  have inv: "bus_inv w" using ok by (simp add: bus_ok_def)
  obtain p y where i: "i < 3" and p: "pDeviceInterface (DeviceData (FdoData w) ! i) = Some p"
    and y: "ifaces w p = Some y" "iface_ok (DeviceData (FdoData w) ! i) y"
    and s: "slot_at (FdoData w) i = Some (DeviceData (FdoData w) ! i)"
    and sn: "ucast (sSerialNo (DeviceData (FdoData w) ! i)) = sn AND HOTKEY_FLAG_AND"
    using inv find by (rule Bus_Find_slot)
  have xy: "y = x" using dev_iface_slot [OF inv i p] x(1) y(1) by simp
  obtain cb where cb: "open_cb x = Some cb" using y xy by (auto simp: iface_ok_def)
  let ?w0 = "set_iface p (x\<lparr>pPciDev := None\<rparr>) w"
  have ok0: "bus_ok sys_ok ?w0"
    using ok y xy by (intro sys.set_iface_ok) (auto simp: iface_agrees_def iface_ok_def)
  obtain r w1 where c: "sys_call cb p ?w0 = Some (r, w1)" "cb_frame p ?w0 w1" "bus_ok sys_ok w1"
    using sys.callback_ok [OF ok0 i, of p "x\<lparr>pPciDev := None\<rparr>" cb] p cb by (auto simp: set_iface_def)
  have fd: "FdoData w1 = FdoData w" using c(2) by (simp add: cb_frame_def set_iface_def)
  have sn4: "sSerialNo (DeviceData (FdoData w) ! i) \<noteq> 4" using y by (simp add: iface_ok_def)
  have "DeviceData (FdoData w) ! i \<in> set (DeviceData (FdoData w))" using i inv by simp
  then have "DevicePnPState (FdoData w) = Started" "RfType (FdoData w) = 1"
    using inv p by (auto simp: bus_inv_def any_registered_def)
  moreover have "\<not> rf_type_refuses 1 (sn AND HOTKEY_FLAG_AND)"
    using sn sn4 by (auto simp: rf_type_refuses_def bus_consts simp flip: sn)
  ultimately have run: "Bus_PlugInDevice sys_call sn w
      = (if r = 0 then plug_started i w1 else Some (0, w1))"
    using find inv s p y xy x cb c by (simp add: Bus_PlugInDevice_def Let_def)
  obtain z where z: "ifaces w1 p = Some z" "devstate z = devstate x"
    using cb_frame_fields [OF c(2), of p "x\<lparr>pPciDev := None\<rparr>"] by (auto simp: set_iface_def)
  have inv1: "bus_inv w1" using c(3) by (simp add: bus_ok_def)
  show ?thesis
  proof (cases "r = 0")
    case False
    have "dev_iface w1 (sSerialNo (DeviceData (FdoData w) ! i)) = Some z"
      using dev_iface_slot [OF inv1 i, of p] p fd z by simp
    with False run c p cb x(2) z show ?thesis by (auto simp: dev_started_def)
  next
    case True
    obtain r2 w2 where w2: "plug_started i w1 = Some (r2, w2)" "bus_ok sys_ok w2"
      using sys.plug_started_ok [OF c(3) i, of p] p fd by auto
    then have r2: "r2 = 0" and st: "w2 = set_slot i
        ((DeviceData (FdoData w) ! i)\<lparr>state_old_from_wb := Started\<rparr>) (set_iface p (z\<lparr>devstate := Started\<rparr>) w1)"
      using inv1 s p fd z by (auto simp: plug_started_def set_devstate_def)
    have inv2: "bus_inv w2" using w2 by (simp add: bus_ok_def)
    have slot2: "DeviceData (FdoData w2) ! i = (DeviceData (FdoData w) ! i)\<lparr>state_old_from_wb := Started\<rparr>"
      using st fd i inv by (simp add: set_slot_def set_iface_def)
    then have "dev_iface w2 (sSerialNo (DeviceData (FdoData w) ! i)) = Some (z\<lparr>devstate := Started\<rparr>)"
      using dev_iface_slot [OF inv2 i, of p] p st by (simp add: set_slot_def set_iface_def)
    with True run c p cb w2 r2 st z show ?thesis by (auto simp: dev_started_def)
  qed
qed

text \<open>
  C9: Plugging in a registered device that is not started is one call of its driver's open
  callback, on its interface with the PCI pointer cleared: the state the request leaves is the
  state the callback left, with the device marked started when the callback returned 0 and with
  nothing changed when it did not.  The request itself returns 0 in either case, so the caller
  cannot see a failed start.  The kernel's allocation of the WLAN counters and its registration
  of the network device are taken to succeed, as the WLAN callback requires.
\<close>

theorem plug_in_result:
  fixes w :: "('a, 'b) system"
  assumes ok: "bus_ok sys_link w" and kernel: "env_ok (client w)"
    and find: "Bus_FindPdoBySerialNo (FdoData w) (sn AND HOTKEY_FLAG_AND) = Some i"
    and x: "dev_iface w (sSerialNo (DeviceData (FdoData w) ! i)) = Some x" "devstate x \<noteq> Started"
  shows "\<exists>p cb r w1 y w'. pDeviceInterface (DeviceData (FdoData w) ! i) = Some p \<and>
    open_cb x = Some cb \<and> sys_call cb p (set_iface p (x\<lparr>pPciDev := None\<rparr>) w) = Some (r, w1) \<and>
    ifaces w1 p = Some y \<and> Bus_PlugInDevice sys_call sn w = Some (0, w') \<and>
    w' = (if r = 0
          then set_slot i ((DeviceData (FdoData w) ! i)\<lparr>state_old_from_wb := Started\<rparr>)
                 (set_iface p (y\<lparr>devstate := Started\<rparr>) w1)
          else w1) \<and>
    bus_ok sys_ok w' \<and> dev_started w' (sSerialNo (DeviceData (FdoData w) ! i)) = (r = 0)"
  using sys_ok_of_link [OF ok kernel] find x by (rule plug_in_run)

text \<open>The state of the device in slot \<open>i\<close>.\<close>

definition slot_state :: "'c bus \<Rightarrow> nat \<Rightarrow> pnp_state option" where
  "slot_state w i = do {
     p \<leftarrow> pDeviceInterface (DeviceData (FdoData w) ! i);
     x \<leftarrow> ifaces w p;
     Some (devstate x)
   }"

text \<open>What unplugging makes of a device's state.\<close>

definition switched_off :: "pnp_state \<Rightarrow> pnp_state" where
  "switched_off d = (if d = NotStarted then NotStarted else Stopped)"

lemma switched_off_not_started [simp]:
  "switched_off d \<noteq> Started" "map_option switched_off x \<noteq> Some Started"
  by (auto simp: switched_off_def)

lemma slot_state_frame:
  assumes "bus_inv w" "cb_frame p w w'" "i < 3"
  shows "slot_state w' i = slot_state w i"
proof (cases "pDeviceInterface (DeviceData (FdoData w) ! i)")
  case None
  with assms(2) show ?thesis by (simp add: slot_state_def cb_frame_def)
next
  case (Some q)
  obtain x where x: "ifaces w q = Some x" using assms(1,3) Some by (rule bus_inv_iface)
  obtain y where "ifaces w' q = Some y" "devstate y = devstate x"
    using assms(2) x by (rule cb_frame_fields)
  with x Some assms(2) show ?thesis by (simp add: slot_state_def cb_frame_def)
qed

text \<open>Both close callbacks return 0.\<close>

lemma sys_close_zero:
  assumes "ifaces w a = Some x" "sys_ok (client w) a x" "close_cb x = Some cb"
  shows "\<exists>w'. sys_call cb a w = Some (0, w')"
proof -
  have cb: "cb = Wlan_Bus_Close \<or> cb = Bt_Bus_Close"
    using assms(2,3) by (auto simp: sys_ok_def wlan_intf_def bt_intf_def)
  obtain r w' where res: "sys_call cb a w = Some (r, w')"
    using sys_call_done [OF assms(1,2), of cb] assms(3) by (auto simp: callback_done_def)
  with cb have "r = 0"
    by (auto simp: wlan_Bus_Close_def bt_Bus_Close_def split: bind_splits)
  with res show ?thesis by auto
qed

lemma unplug_closed_effect:
  assumes ok: "bus_ok sys_ok w" and i: "i < 3"
    and p: "pDeviceInterface (DeviceData (FdoData w) ! i) = Some p"
  shows "\<exists>w'. unplug_closed i 0 w = Some w' \<and> slot_state w' i = Some Stopped \<and>
    (\<forall>j<3. j \<noteq> i \<longrightarrow> slot_state w' j = slot_state w j)"
proof -
  have inv: "bus_inv w" using ok by (simp add: bus_ok_def)
  obtain x where x: "ifaces w p = Some x" using inv i p by (rule bus_inv_iface)
  let ?w' = "set_slot i ((DeviceData (FdoData w) ! i)\<lparr>state_old_from_wb := Stopped\<rparr>)
      (set_iface p (x\<lparr>devstate := Stopped\<rparr>) w)"
  have "unplug_closed i 0 w = Some ?w'"
    using inv i p x by (simp add: unplug_closed_def set_devstate_def set_iface_def)
  moreover have "slot_state ?w' i = Some Stopped"
    using inv i p by (simp add: slot_state_def set_slot_def set_iface_def)
  moreover have "slot_state ?w' j = slot_state w j" if "j < 3" "j \<noteq> i" for j
  proof -
    have "pDeviceInterface (DeviceData (FdoData w) ! j) \<noteq> Some p"
      using bus_inv_owner_unique [OF inv i that(1) p] that(2) by auto
    with that show ?thesis
      by (cases "pDeviceInterface (DeviceData (FdoData w) ! j)")
        (auto simp: slot_state_def set_slot_def set_iface_def)
  qed
  ultimately show ?thesis by blast
qed

lemma unplug_one_effect:
  assumes ok: "bus_ok sys_ok w"
    and find: "Bus_FindPdoBySerialNo (FdoData w) (sn AND HOTKEY_FLAG_AND) = Some i"
  shows "\<exists>r w'. unplug_one sys_call sn w = Some (r, w') \<and>
    slot_state w' i = map_option switched_off (slot_state w i) \<and>
    (\<forall>j<3. j \<noteq> i \<longrightarrow> slot_state w' j = slot_state w j)"
proof -
  have inv: "bus_inv w" using ok by (simp add: bus_ok_def)
  obtain p x where i: "i < 3" and p: "pDeviceInterface (DeviceData (FdoData w) ! i) = Some p"
    and x: "ifaces w p = Some x" "iface_ok (DeviceData (FdoData w) ! i) x"
    and s: "slot_at (FdoData w) i = Some (DeviceData (FdoData w) ! i)"
    using inv find by (rule Bus_Find_slot)
  show ?thesis
  proof (cases "devstate x = NotStarted")
    case True
    with inv find s p x show ?thesis by (auto simp: unplug_one_def slot_state_def switched_off_def)
  next
    case False
    from x obtain cb where cb: "close_cb x = Some cb" by (auto simp: iface_ok_def)
    let ?w0 = "set_slot i ((DeviceData (FdoData w) ! i)\<lparr>state_old_from_wb := devstate x\<rparr>) w"
    have ok0: "bus_ok sys_ok ?w0"
      using ok i by (intro sys.set_slot_ok) (auto simp: slot_agrees_def)
    have p0: "pDeviceInterface (DeviceData (FdoData ?w0) ! i) = Some p"
      using p i inv by (simp add: set_slot_def)
    have x0: "ifaces ?w0 p = Some x" using x by (simp add: set_slot_def)
    obtain r w1 where c: "sys_call cb p ?w0 = Some (r, w1)" "cb_frame p ?w0 w1" "bus_ok sys_ok w1"
      using sys.callback_ok [OF ok0 i p0 x0] cb by blast
    have "sys_ok (client ?w0) p x"
      using ok0 i p0 x0 by (auto simp: bus_ok_def intro: clients_okD)
    with c(1) cb x0 have r: "r = 0" using sys_close_zero by fastforce
    have p1: "pDeviceInterface (DeviceData (FdoData w1) ! i) = Some p"
      using c(2) p0 by (simp add: cb_frame_def)
    obtain w2 where w2: "unplug_closed i 0 w1 = Some w2" "slot_state w2 i = Some Stopped"
      "\<forall>j<3. j \<noteq> i \<longrightarrow> slot_state w2 j = slot_state w1 j"
      using unplug_closed_effect [OF c(3) i p1] by blast
    have "slot_state w1 j = slot_state w j" if "j < 3" "j \<noteq> i" for j
      using slot_state_frame [OF _ c(2) that(1)] ok0 that(2)
      by (simp add: bus_ok_def slot_state_def set_slot_def)
    moreover have "slot_state w i = Some (devstate x)" using p x by (simp add: slot_state_def)
    ultimately show ?thesis using w2 False inv find s p x cb c r
      by (auto simp: unplug_one_def switched_off_def)
  qed
qed

text \<open>The loop over the table: what a step has stopped stays stopped.\<close>

lemma unplug_all_effect:
  assumes rec: "\<And>sn w. sn \<noteq> 0 \<Longrightarrow> rec sn w = unplug_one sys_call sn w"
    and "bus_ok sys_ok w" "set is \<subseteq> {..<3}" "distinct is"
  shows "\<exists>w'. unplug_all rec is w = Some w' \<and>
    (\<forall>i \<in> set is. slot_state w' i = map_option switched_off (slot_state w i)) \<and>
    (\<forall>j<3. j \<notin> set is \<longrightarrow> slot_state w' j = slot_state w j)"
  using assms(2-)
proof (induction "is" arbitrary: w)
  case (Cons i "is")
  have inv: "bus_inv w" using Cons.prems by (simp add: bus_ok_def)
  have i: "i < 3" "i \<notin> set is" and rest: "set is \<subseteq> {..<3}" "distinct is"
    using Cons.prems by auto
  note IH = Cons.IH [OF _ rest]
  let ?s = "DeviceData (FdoData w) ! i"
  show ?case
  proof (cases "pDeviceInterface ?s")
    case None
    obtain w' where "unplug_all rec is w = Some w'"
      "\<forall>i \<in> set is. slot_state w' i = map_option switched_off (slot_state w i)"
      "\<forall>j<3. j \<notin> set is \<longrightarrow> slot_state w' j = slot_state w j"
      using IH [OF Cons.prems(1)] by blast
    moreover have "slot_state w i = None" using None by (simp add: slot_state_def)
    ultimately show ?thesis using None inv i by auto
  next
    case (Some p)
    let ?sn = "ucast (sSerialNo ?s) :: u32"
    have ser: "sSerialNo ?s \<in> {1, 2, 4}"
      using bus_inv_serial [OF inv i(1)] i(1) by (auto simp: less_Suc_eq numeral_3_eq_3)
    then have sn: "?sn \<noteq> 0" "?sn AND HOTKEY_FLAG_AND = ?sn" by (auto simp: HOTKEY_FLAG_AND_def)
    have "Bus_FindPdoBySerialNo (FdoData w) (?sn AND HOTKEY_FLAG_AND) = Some i"
      using Bus_Find_inv [OF inv i(1)] Some sn(2) by simp
    then obtain r w1 where w1: "unplug_one sys_call ?sn w = Some (r, w1)"
      "slot_state w1 i = map_option switched_off (slot_state w i)" "\<forall>j<3. j \<noteq> i \<longrightarrow> slot_state w1 j = slot_state w j"
      using unplug_one_effect [OF Cons.prems(1)] by blast
    then have ok1: "bus_ok sys_ok w1" using sys.unplug_one_ok [OF Cons.prems(1), of ?sn] by simp
    obtain w' where "unplug_all rec is w1 = Some w'"
      "\<forall>i \<in> set is. slot_state w' i = map_option switched_off (slot_state w1 i)"
      "\<forall>j<3. j \<notin> set is \<longrightarrow> slot_state w' j = slot_state w1 j"
      using IH [OF ok1] by blast
    moreover have "j < 3 \<and> j \<noteq> i" if "j \<in> set is" for j using that rest(1) i(2) by auto
    ultimately show ?thesis using w1 Some inv i sn(1) by (auto simp: rec)
  qed
qed simp

lemma dev_started_slot:
  assumes "bus_inv w" "dev_started w sn"
  shows "\<exists>i<3. slot_state w i = Some Started"
proof -
  obtain s xs where f: "filter (\<lambda>s. sSerialNo s = sn) (DeviceData (FdoData w)) = s # xs"
    and st: "(do { p \<leftarrow> pDeviceInterface s; x \<leftarrow> ifaces w p; Some (devstate x) }) = Some Started"
    using assms(2) by (auto simp: dev_started_def dev_iface_def split: option.splits list.splits bind_splits)
  have "s \<in> set (filter (\<lambda>s. sSerialNo s = sn) (DeviceData (FdoData w)))" by (simp add: f)
  then have "s \<in> set (DeviceData (FdoData w))" by simp
  then obtain i where "i < 3" "DeviceData (FdoData w) ! i = s"
    using assms(1) by (auto simp: in_set_conv_nth)
  with st show ?thesis by (auto simp: slot_state_def)
qed

text \<open>
  C10: Unplugging with serial number 0 returns 0 and leaves no device started, whatever was
  registered or started before; the recursion ends at the second level.
\<close>

theorem unplug_all_stops:
  fixes w :: "('a, 'b) system"
  assumes "bus_ok sys_ok w"
  shows "\<exists>w'. Bus_UnPlugDevice 2 sys_call 0 w = Some (0, w') \<and> bus_ok sys_ok w' \<and>
    (\<forall>sn. \<not> dev_started w' sn)"
proof -
  have idx: "set [0..<3] \<subseteq> {..<3::nat}" "distinct [0..<3::nat]" by auto
  have rec: "\<And>sn v. sn \<noteq> 0 \<Longrightarrow>
      Bus_UnPlugDevice (Suc 0) sys_call sn (v :: ('a, 'b) system) = unplug_one sys_call sn v" by simp
  obtain w' where w': "unplug_all (Bus_UnPlugDevice (Suc 0) sys_call) [0..<3] w = Some w'"
    "\<forall>i \<in> set [0..<3]. slot_state w' i = map_option switched_off (slot_state w i)"
    using unplug_all_effect [OF rec assms idx] by blast
  then have run: "Bus_UnPlugDevice 2 sys_call 0 w = Some (0, w')"
    by (simp add: numeral_2_eq_2 BUS_DEVICE_TOTAL_COUNT_def del: upt_rec_numeral)
  then have ok: "bus_ok sys_ok w'"
    using sys.Bus_UnPlugDevice_ok [OF assms, of 0 0] by (simp add: numeral_2_eq_2)
  moreover have "slot_state w' i \<noteq> Some Started" if "i < 3" for i
  proof -
    have "i \<in> set [0..<3]" using that by (simp del: upt_rec_numeral)
    with w'(2) have "slot_state w' i = map_option switched_off (slot_state w i)" by blast
    then show ?thesis by simp
  qed
  then have "\<not> dev_started w' sn" for sn
    using dev_started_slot [of w' sn] ok by (auto simp: bus_ok_def)
  ultimately show ?thesis using run by blast
qed

end
