(* ===== verification/Client_Spec.thy ===== *)
theory Client_Spec
  imports Sys_Spec
begin

text \<open>
  Properties of the two client drivers: the life of the network device and its counters, the
  transmit path, and the drivers' behaviour when a kernel call or a registration fails.
\<close>

section \<open>The network device\<close>

text \<open>
  C11: Starting the WLAN device creates one registered network device with the adapter's
  address, and stopping it gives the memory back: the network devices and the counters are those
  of before, and the adapter holds no pointer to either.
\<close>

theorem netdev_setup_destroy:
  assumes inv: "clients_inv (client w)" and A: "wadap (client w) d = Some A"
    and bus: "Adap_Get_BusInf (wlib (client w)) A = Some a" and x: "ifaces w a = Some x"
    and none: "Adap_Get_Netdev (wlib (client w)) A = None"
    and alloc: "outcome (client w) (now (client w)) AllocEtherdev"
  shows "\<exists>c1 n nd c2. wlan_netdev_setup (Some d) w = Some (0, with_client c1 w) \<and>
    netdevs c1 n = Some nd \<and> nd_name nd = ''twifiu0'' \<and> nd_priv nd = Some d \<and>
    nd_registered nd \<and> nd_parent nd = pUsbDev x \<and>
    wlan_netdev_destroy (Some d) c1 = Some c2 \<and>
    netdevs c2 = netdevs (client w) \<and> netstats c2 = netstats (client w) \<and>
    wview c2 d = Some (None, None, Some a)"
proof -
  let ?c = "client w" let ?L = "wlib ?c"
  have laws: "wlan_lib_laws ?L" and env: "env_ok ?c" and fr: "fresh_above ?c"
    using inv by (auto simp: clients_inv_def)
  let ?n = "next_addr ?c" let ?s = "Suc ?n"
  let ?A1 = "Adap_Set_Netstat ?L (Some ?s) A" let ?A2 = "Adap_Set_Netdev ?L (Some ?n) ?A1"
  let ?nd = "(new_netdev ?L d ?A1 (pUsbDev x))\<lparr>nd_registered := True\<rparr>"
  let ?A3 = "Adap_Set_Netdev ?L None ?A2" let ?A4 = "Adap_Set_Netstat ?L None ?A3"
  let ?c1 = "?c\<lparr>wadap := (wadap ?c)(d := Some ?A2),
    netstats := (netstats ?c)(?s := Some zero_net_stats), next_addr := Suc ?s,
    now := now ?c + 3, netdevs := (netdevs ?c)(?n := Some ?nd)\<rparr>"
  let ?c2 = "?c\<lparr>next_addr := Suc ?s, now := now ?c + 3, netdevs := netdevs ?c,
    netstats := netstats ?c, wadap := (wadap ?c)(d := Some ?A4)\<rparr>"
  have p2: "wptrs ?L ?A2 = (Some ?n, Some ?s, Some a)"
    using wlan_laws(1,2) [OF laws] bus by (metis wptrs_get)
  have p3: "wptrs ?L ?A3 = (None, Some ?s, Some a)"
    using wlan_laws(1) [OF laws, of None ?A2] p2 by (simp add: wptrs_get)
  have p4: "wptrs ?L ?A4 = (None, None, Some a)"
    using wlan_laws(2) [OF laws, of None ?A3] p3 by (simp add: wptrs_get)
  have "wlan_netdev_setup (Some d) w = Some (0, with_client ?c1 w)"
    using A none alloc env x p2
    by (simp add: wlan_netdev_setup_def ask_def env_ok_def Let_def wptrs_get numeral_3_eq_3)
  moreover have "wlan_netdev_destroy (Some d) ?c1 = Some ?c2"
    using p2 p3 fr by (simp add: wlan_netdev_destroy_def wptrs_get Let_def fresh_above_def
        fun_upd_idem)
  moreover have "wview ?c2 d = Some (None, None, Some a)" using p4 by (simp add: wview_def)
  ultimately show ?thesis
    by (intro exI [of _ ?c1] exI [of _ ?n] exI [of _ ?nd] exI [of _ ?c2])
      (simp add: new_netdev_def)
qed

text \<open>
  C12: A failed \<^verbatim>\<open>register_netdev\<close> leaves the adapter with a pointer to the device that was
  just freed: starting it again is refused with \<^verbatim>\<open>-EEXIST\<close>, and stopping it unregisters and
  frees freed memory, which crashes.
\<close>

theorem failed_registration_dangles:
  assumes laws: "wlan_lib_laws (wlib (client w))" and A: "wadap (client w) d = Some A"
    and bus: "Adap_Get_BusInf (wlib (client w)) A = Some a" and x: "ifaces w a = Some x"
    and none: "Adap_Get_Netdev (wlib (client w)) A = None"
    and calls: "outcome (client w) (now (client w)) AllocEtherdev"
      "outcome (client w) (now (client w) + 1) AllocNetstat"
      "\<not> outcome (client w) (now (client w) + 2) RegisterNetdev"
  shows "\<exists>c1. wlan_netdev_setup (Some d) w = Some (- ENODEV, with_client c1 w) \<and>
    wlan_netdev_setup (Some d) (with_client c1 w) = Some (- EEXIST, with_client c1 w) \<and>
    wlan_netdev_destroy (Some d) c1 = None"
proof -
  let ?c = "client w" let ?L = "wlib ?c"
  let ?n = "next_addr ?c" let ?s = "Suc ?n"
  let ?A1 = "Adap_Set_Netstat ?L (Some ?s) A" let ?A2 = "Adap_Set_Netdev ?L (Some ?n) ?A1"
  let ?c1 = "?c\<lparr>wadap := (wadap ?c)(d := Some ?A2),
    netstats := (netstats ?c)(?s := Some zero_net_stats), next_addr := Suc ?s,
    now := now ?c + 3, netdevs := (netdevs ?c)(?n := None)\<rparr>"
  have p2: "wptrs ?L ?A2 = (Some ?n, Some ?s, Some a)"
    using wlan_laws(1,2) [OF laws] bus by (metis wptrs_get)
  have "wlan_netdev_setup (Some d) w = Some (- ENODEV, with_client ?c1 w)"
    using A none calls x p2
    by (simp add: wlan_netdev_setup_def ask_def Let_def wptrs_get numeral_3_eq_3 numeral_2_eq_2)
  moreover have "wlan_netdev_setup (Some d) (with_client ?c1 w) = Some (- EEXIST, with_client ?c1 w)"
    using p2 by (simp add: wlan_netdev_setup_def Let_def wptrs_get)
  moreover have "wlan_netdev_destroy (Some d) ?c1 = None"
    using p2 by (simp add: wlan_netdev_destroy_def Let_def wptrs_get)
  ultimately show ?thesis by blast
qed

section \<open>Transmission\<close>

text \<open>
  C13: With WPA in use and no link keys yet, only 802.1X frames leave: a frame of any other
  Ethernet type is freed, reported as sent, and the library never sees it.
\<close>

theorem wpa_filters_frames:
  assumes "netdevs c n = Some nd" "nd_priv nd = Some d" "wadap c d = Some A" "14 \<le> length skb"
    and "Adap_Tx_Available (wlib c) A" "Adap_Use_WPA (wlib c) A"
    and "\<not> (skb ! 12 = 0x88 \<and> skb ! 13 = 0x8e)"
  shows "wlan_netdev_xmit skb n c = Some (0, True, c)"
proof -
  have "(ucast a OR push_bit 8 (ucast b) :: u16) = 0x8e88 \<Longrightarrow> a = 0x88 \<and> b = 0x8e" for a b :: u8
  proof -
    assume eq: "(ucast a OR push_bit 8 (ucast b) :: u16) = 0x8e88"
    have "a = ucast (ucast a OR push_bit 8 (ucast b) :: u16)"
      by (rule bit_word_eqI) (auto simp: bit_simps)
    moreover have "b = ucast (drop_bit 8 (ucast a OR push_bit 8 (ucast b) :: u16))"
      by (rule bit_word_eqI) (auto simp: bit_simps dest: bit_imp_le_length)
    ultimately show "a = 0x88 \<and> b = 0x8e" unfolding eq by simp
  qed
  with assms show ?thesis by (auto simp: wlan_netdev_xmit_def eth_type_def)
qed

text \<open>
  C14: The transmit function returns a negative number only without having freed the packet, and
  0 only after having freed it; the packets it refuses (queue not available, or longer than 1536
  bytes) are the former. The network core takes a negative return for a consumed packet, so these
  packets are never freed.
\<close>

theorem xmit_result:
  assumes "wlan_netdev_xmit skb n c = Some (r, freed, c')"
  shows "r = 0 \<and> freed \<or> r = -1 \<and> \<not> freed \<and> c' = c"
  using assms
  by (auto simp: wlan_netdev_xmit_def wlan_netdev_send_def
      split: bind_splits option.splits if_splits)

section \<open>A second card\<close>

lemma find_serial_inv:
  assumes "bus_inv w" "i < 3"
  shows "find_serial (sSerialNo (DeviceData (FdoData w) ! i)) (DeviceData (FdoData w)) 0 = Some i"
proof -
  obtain s0 s1 s2 where "DeviceData (FdoData w) = [s0, s1, s2]"
    "sSerialNo s0 = 1" "sSerialNo s1 = 2" "sSerialNo s2 = 4"
    using assms(1) by (rule bus_inv_three)
  with assms(2) show ?thesis by (auto simp: less_Suc_eq numeral_3_eq_3)
qed

lemma register_occupied:
  assumes inv: "bus_inv w" and x: "ifaces w a = Some x" and i: "i < 3"
    and sn: "iSerialNo x = sSerialNo (DeviceData (FdoData w) ! i)"
    and occ: "pDeviceInterface (DeviceData (FdoData w) ! i) \<noteq> None"
    and cb: "open_cb x \<noteq> None" "close_cb x \<noteq> None"
  shows "register_tdspbus_usbdev call (Some a) w = Some (-1, w)"
proof -
  obtain p where p: "pDeviceInterface (DeviceData (FdoData w) ! i) = Some p" using occ by auto
  obtain y where "iface_ok (DeviceData (FdoData w) ! i) y" using inv i p by (rule bus_inv_iface)
  then have "sSerialNo (DeviceData (FdoData w) ! i) \<noteq> 4" by (simp add: iface_ok_def)
  then have sn12: "iSerialNo x = 1 \<or> iSerialNo x = 2"
    using bus_inv_serial [OF inv i] sn i by (auto simp: less_Suc_eq numeral_3_eq_3)
  then have "\<not> rf_type_refuses 1 (ucast (iSerialNo x))" by (auto simp: rf_type_refuses_def bus_consts)
  moreover have "RfType (FdoData w) = 1" "DevicePowerState (FdoData w) = PowerDeviceD0"
    using inv by (auto simp: bus_inv_def)
  moreover have "find_serial (iSerialNo x) (DeviceData (FdoData w)) 0 = Some i"
    using find_serial_inv [OF inv i] sn by simp
  ultimately show ?thesis
    using inv x i p cb sn12 by (auto simp: register_tdspbus_usbdev_def bus_consts)
qed

text \<open>
  The bus takes one device of each kind: registering an interface whose serial number's slot
  is occupied, by itself or by another interface, returns -1 and changes nothing.
\<close>

theorem register_second_refused:
  assumes "bus_inv w" and "ifaces w a = Some x" and "i < 3"
    and "iSerialNo x = sSerialNo (DeviceData (FdoData w) ! i)"
    and "pDeviceInterface (DeviceData (FdoData w) ! i) \<noteq> None"
    and "open_cb x \<noteq> None" "close_cb x \<noteq> None"
  shows "register_tdspbus_usbdev call (Some a) w = Some (-1, w)"
  using assms by (rule register_occupied)

lemma bus_inv_with_client [simp]: "bus_inv (with_client c w) = bus_inv w"
  by (simp add: bus_inv_def with_client_def)

lemma bus_inv_new_iface:
  assumes "bus_inv w" "ifaces w p = None"
  shows "bus_inv (set_iface p x w)"
  using assms by (auto simp: bus_inv_def set_iface_def slot_ok_def)

lemma FdoData_frame [simp]:
  "FdoData (set_iface p x w) = FdoData w" "FdoData (with_client c w) = FdoData w"
  by (simp_all add: set_iface_def with_client_def)

lemma ifaces_set_iface [simp]: "ifaces (set_iface p x w) = (ifaces w)(p := Some x)"
  by (simp add: set_iface_def)

lemma client_set_iface [simp]: "client (set_iface p x w) = client w"
  by (simp add: set_iface_def)

lemma with_client_twice [simp]: "with_client c (with_client d w) = with_client c w"
  by (simp add: with_client_def)

lemma with_client_set_iface [simp]:
  "with_client c (set_iface p x w) = set_iface p x (with_client c w)"
  by (simp add: with_client_def set_iface_def)

lemma client_upd_ifaces [simp]:
  "client (w\<lparr>ifaces := h\<rparr>) = client w" "with_client c (w\<lparr>ifaces := h\<rparr>) = (with_client c w)\<lparr>ifaces := h\<rparr>"
  by (simp_all add: with_client_def)

lemma strcat_zero:
  assumes "length s < n"
  shows "c_strcat (replicate n 0) s = Some (s @ replicate (n - length s) 0)"
proof -
  have "takeWhile (\<lambda>b. b \<noteq> 0) (replicate n (0 :: u8)) = []" by (cases n) auto
  moreover have "[0] @ replicate (n - (length s + 1)) (0 :: u8) = replicate (n - length s) 0"
    using assms by (simp flip: replicate_Suc add: Suc_diff_Suc)
  ultimately show ?thesis using assms by (simp add: c_strcat_def)
qed

lemma version_strcat:
  "c_strcat (drv_version zero_iface) BT_STRING_VERSION_ID =
     Some (BT_STRING_VERSION_ID @ replicate 55 0)"
  "c_strcat (drv_version zero_iface) WLAN_DRV_VERSION =
     Some (WLAN_DRV_VERSION @ replicate 55 0)"
  using strcat_zero [of BT_STRING_VERSION_ID 64] strcat_zero [of WLAN_DRV_VERSION 64]
  by (simp_all add: zero_iface_def MAX_VERSIONID_LEN_def BT_STRING_VERSION_ID_def
      WLAN_DRV_VERSION_def bytes_of_def)

lemma register_twice_refused:
  assumes "bus_inv w" "ifaces w a = Some x" "i < 3"
    "iSerialNo x = sSerialNo (DeviceData (FdoData w) ! i)"
    "pDeviceInterface (DeviceData (FdoData w) ! i) \<noteq> None" "open_cb x \<noteq> None" "close_cb x \<noteq> None"
  shows "register_twice call a w = Some (-1, w\<lparr>ifaces := (ifaces w)(a := None)\<rparr>)"
  using assms(2) register_occupied [OF assms, of call]
  by (simp add: register_twice_def free_iface_def)

text \<open>
  C16: When a Bluetooth card is already registered, probing another one with the combo driver
  reports success although its registration failed and its adapter was destroyed; disconnecting
  that card then uses the destroyed adapter, which crashes.
\<close>

theorem bt_second_card_crashes:
  assumes inv: "bus_inv w" and fresh: "\<forall>n \<ge> next_addr (client w). ifaces w n = None"
    and laws: "bt_lib_laws (blib (client w))"
    and u: "bInterfaceNumber u = 1" "5 \<le> bNumEndpoints u" "combodrv (client w) \<noteq> 0"
    and B: "Bluetooth_Adap_Create (blib (client w)) the_bt_usb_info (ui_usbdev u) (ui_addr u) = Some B"
    and alloc: "outcome (client w) (now (client w)) AllocInterface"
    and occ: "Bus_FindPdoBySerialNo (FdoData w) BUS_DEVICE_SERIAL_NO_BT = Some i"
  shows "\<exists>w'. bt_usb_probe sys_call u w = Some (0, w') \<and> bt_usb_disconnect sys_call u w' = None"
proof -
  obtain q y where i: "i < 3" and q: "pDeviceInterface (DeviceData (FdoData w) ! i) = Some q"
    and sn: "ucast (sSerialNo (DeviceData (FdoData w) ! i)) = BUS_DEVICE_SERIAL_NO_BT"
    using inv occ by (rule Bus_Find_slot)
  have sn1: "sSerialNo (DeviceData (FdoData w) ! i) = 1" using sn by (simp add: bus_consts)
  let ?c = "client w" let ?d = "next_addr ?c" let ?p = "Suc ?d" let ?L = "blib ?c"
  let ?x = "zero_iface\<lparr>pBtDev := Some ?d\<rparr>"
  let ?x1 = "?x\<lparr>iSerialNo := 1, drv_version := BT_STRING_VERSION_ID @ replicate 55 0,
               open_cb := Some Bt_Bus_Open, close_cb := Some Bt_Bus_Close\<rparr>"
  let ?c1 = "?c\<lparr>openLock := 1, badap := (badap ?c)(?d := Some B), next_addr := Suc ?d,
               intfdata := (intfdata ?c)(ui_addr u := Some ?d)\<rparr>"
  let ?c2 = "?c1\<lparr>now := Suc (now ?c), next_addr := Suc ?p\<rparr>"
  let ?B1 = "Bluetooth_Adap_Set_BusInf ?L (Some ?p) B"
  let ?c3 = "?c2\<lparr>badap := (badap ?c2)(?d := Some ?B1)\<rparr>"
  let ?w3 = "with_client ?c3 (set_iface ?p ?x w)"
  let ?w4 = "set_iface ?p ?x1 ?w3"
  have p: "ifaces w ?p = None" using fresh by simp
  have inv4: "bus_inv ?w4" using inv p
    by (simp add: set_iface_def with_client_def bus_inv_def slot_ok_def) (auto)
  have reg: "register_twice sys_call ?p ?w4 = Some (-1, ?w4\<lparr>ifaces := (ifaces ?w4)(?p := None)\<rparr>)"
    by (rule register_twice_refused [OF inv4 _ i, of _ ?x1]) (use q sn1 in simp_all)
  have new: "bt_Bus_new_interface (Some ?d) (with_client ?c1 w) =
      (Some ?p, set_iface ?p ?x (with_client ?c2 w))"
    using alloc by (simp add: bt_Bus_new_interface_def ask_def Let_def)
  have set: "bt_adap_call ?d (Bluetooth_Adap_Set_BusInf ?L (Some ?p))
      (set_iface ?p ?x (with_client ?c2 w)) = Some ?w3"
    by (simp add: bt_adap_call_def bt_adap_upd_def)
  have open_: "bt_Bus_openInterface sys_call (Some ?p) ?w3
      = Some (-1, ?w4\<lparr>ifaces := (ifaces ?w4)(?p := None)\<rparr>)"
    using reg version_strcat(1)
    by (simp add: bt_Bus_openInterface_def bus_consts zero_iface_def)
  have "\<exists>w'. bt_probe_bus sys_call ?d (with_client ?c1 w) = Some (0, w') \<and>
      badap (client w') ?d = None \<and> intfdata (client w') (ui_addr u) = Some ?d"
    using new set open_
    by (simp add: bt_probe_bus_def bt_adap_call_def bt_adap_upd_def bt_adap_free_def)
  then obtain w' where w': "bt_probe_bus sys_call ?d (with_client ?c1 w) = Some (0, w')"
    "badap (client w') ?d = None" "intfdata (client w') (ui_addr u) = Some ?d" by blast
  have "bt_usb_probe sys_call u w = Some (0, w')"
    using u B w'(1) by (simp add: bt_usb_probe_def Let_def with_client_def)
  moreover have "bt_usb_disconnect sys_call u w' = None"
    using w' by (simp add: bt_usb_disconnect_def Let_def)
  ultimately show ?thesis by blast
qed

end
