(* ===== verification/Demo_State.thy ===== *)
theory Demo_State
  imports Client_Spec
begin

text \<open>
  A concrete system on which the properties are instantiated: both drivers registered with the
  bus, the WLAN device started.  The private libraries are instantiated by functions that store
  the drivers' pointers and do nothing else.
\<close>

type_synonym demo_wadap = "addr option \<times> addr option \<times> addr option"
type_synonym demo_badap = "addr option \<times> addr option"

definition demo_wlan_lib :: "demo_wadap wlan_lib" where
  "demo_wlan_lib = \<lparr>Adap_Create = \<lambda>u. Some (None, None, None),
     Adap_Initialize = \<lambda>A. (0, Some (0x22, 0x33), A), Adap_Halt = \<lambda>A. A,
     Adap_UnInitialize = \<lambda>A. A, Adap_Set_Removed = \<lambda>r A. A, Adap_Suspend = \<lambda>t A. A,
     Adap_Resume = \<lambda>t A. A, Adap_Set_BusInf = \<lambda>v (n, s, b). (n, s, v),
     Adap_Get_BusInf = \<lambda>(n, s, b). b, Adap_Set_Netdev = \<lambda>v (n, s, b). (v, s, b),
     Adap_Get_Netdev = \<lambda>(n, s, b). n, Adap_Set_Netstat = \<lambda>v (n, s, b). (n, v, b),
     Adap_Get_Netstat = \<lambda>(n, s, b). s, Adap_Get_Mac_Addr = \<lambda>A. [0, 0x12, 0x7b, 1, 2, 3],
     Adap_Get_StatData = \<lambda>A. \<lparr>tx_good = 1, tx_err = 2, tx_payload = 3, rx_good = 4, rx_err = 5,
       rx_payload = 6, rx_mc = 7, rx_dropped_cnt = 8\<rparr>,
     Adap_Tx_Available = \<lambda>A. True, Adap_Use_WPA = \<lambda>A. True, Adap_Send = \<lambda>bs A. A\<rparr>"

definition demo_bt_lib :: "demo_badap bt_lib" where
  "demo_bt_lib = \<lparr>Bluetooth_Adap_Create = \<lambda>u d i. Some (None, None),
     Bluetooth_Adap_Open_Dev = \<lambda>B. (0, B), Bluetooth_Adap_Close_Dev = \<lambda>B. B,
     Bluetooth_Adap_Set_BusInf = \<lambda>v (h, b). (h, v), Bluetooth_Adap_Get_BusInf = \<lambda>(h, b). b,
     Bluetooth_Adap_Set_hdev = \<lambda>v (h, b). (v, b), Bluetooth_Adap_Get_hdev = \<lambda>(h, b). h,
     Bluetooth_Adap_IsOpen = \<lambda>B. False, Bluetooth_Adap_SetOpen = \<lambda>B. B,
     Bluetooth_Adap_ClearOpen = \<lambda>B. B, Bluetooth_Adap_Init = \<lambda>B. B,
     Bluetooth_Adap_Set_FirmVer = \<lambda>B. (1, 2), Bluetooth_Adap_Exit_Lmp_Dump = \<lambda>B. B,
     Bluetooth_Adap_Suspend = \<lambda>B. B, Bluetooth_Adap_Resume = \<lambda>B. B,
     Bluetooth_Adap_IsInD3 = \<lambda>B. False, Bluetooth_Adap_GetWorkMod = \<lambda>B. 0,
     Bluetooth_Adap_SendCmd = \<lambda>bs B. B, Bluetooth_Adap_SendData = \<lambda>bs B. B\<rparr>"

lemma demo_wlan_laws: "wlan_lib_laws demo_wlan_lib"
  by (simp add: wlan_lib_laws_def wptrs_def demo_wlan_lib_def)

lemma demo_bt_laws: "bt_lib_laws demo_bt_lib"
  by (simp add: bt_lib_laws_def bptrs_def demo_bt_lib_def)

definition demo_netdev :: net_device where
  "demo_netdev = \<lparr>nd_name = ''twifiu0'', nd_priv = Some 20, nd_dev_addr = [0, 0x12, 0x7b, 1, 2, 3],
     nd_parent = None, nd_registered = True, nd_carrier = True, nd_queue_stopped = False\<rparr>"

text \<open>\<open>A\<close> holds the pointers of the WLAN adapter, \<open>f\<close> says which kernel calls succeed.\<close>

definition demo_clients ::
  "demo_wadap \<Rightarrow> (nat \<Rightarrow> kernel_call \<Rightarrow> bool) \<Rightarrow> (demo_wadap, demo_badap) clients" where
  "demo_clients A f = \<lparr>wlib = demo_wlan_lib, blib = demo_bt_lib,
     wadap = [20 \<mapsto> A], netdevs = [30 \<mapsto> demo_netdev], netstats = [31 \<mapsto> zero_net_stats],
     badap = [21 \<mapsto> (None, Some 11)], hdevs = Map.empty, openLock = 1, combodrv = 1,
     suspend_type = -1, intfdata = Map.empty, next_addr = 40, outcome = f, now = 0\<rparr>"

definition demo_wlan_iface :: iface where
  "demo_wlan_iface = zero_iface\<lparr>ParentFdo := Some 1, pBtDev := Some 20, iSerialNo := 2,
     devstate := Started, open_cb := Some Wlan_Bus_Open, close_cb := Some Wlan_Bus_Close\<rparr>"

definition demo_bt_iface :: iface where
  "demo_bt_iface = zero_iface\<lparr>ParentFdo := Some 1, pBtDev := Some 21, iSerialNo := 1,
     open_cb := Some Bt_Bus_Open, close_cb := Some Bt_Bus_Close\<rparr>"

definition demo_fdo :: fdo where
  "demo_fdo = init_fdo\<lparr>DevicePnPState := Started, BusPowerState := PowerWirlessOn,
     DeviceData :=
       [zero_slot\<lparr>sSerialNo := 1, pDeviceInterface := Some 11\<rparr>,
        zero_slot\<lparr>sSerialNo := 2, state_old_from_wb := Started, pDeviceInterface := Some 10\<rparr>,
        zero_slot\<lparr>sSerialNo := 4\<rparr>]\<rparr>"

definition demo_sys ::
  "demo_wadap \<Rightarrow> (nat \<Rightarrow> kernel_call \<Rightarrow> bool) \<Rightarrow> (demo_wadap, demo_badap) system" where
  "demo_sys A f = \<lparr>ptdspbus_myself = Some 1, FdoData = demo_fdo, fdo_live = True, chrdev = True,
     ifaces = [10 \<mapsto> demo_wlan_iface, 11 \<mapsto> demo_bt_iface], client = demo_clients A f\<rparr>"

text \<open>The adapter before and after the network device is created.\<close>

abbreviation adapter_idle :: demo_wadap where "adapter_idle \<equiv> (None, None, Some 10)"
abbreviation adapter_up :: demo_wadap where "adapter_up \<equiv> (Some 30, Some 31, Some 10)"
abbreviation "all_succeed \<equiv> \<lambda>(t :: nat) (k :: kernel_call). True"
abbreviation "sys_idle \<equiv> demo_sys adapter_idle all_succeed"
abbreviation "sys_up \<equiv> demo_sys adapter_up all_succeed"

lemma demo_sys_simps [simp]:
  "ptdspbus_myself (demo_sys A f) = Some 1" "FdoData (demo_sys A f) = demo_fdo"
  "ifaces (demo_sys A f) = [10 \<mapsto> demo_wlan_iface, 11 \<mapsto> demo_bt_iface]"
  "client (demo_sys A f) = demo_clients A f"
  by (simp_all add: demo_sys_def)

lemma demo_clients_simps [simp]:
  "wlib (demo_clients A f) = demo_wlan_lib" "blib (demo_clients A f) = demo_bt_lib"
  "wadap (demo_clients A f) = [20 \<mapsto> A]" "netdevs (demo_clients A f) = [30 \<mapsto> demo_netdev]"
  "netstats (demo_clients A f) = [31 \<mapsto> zero_net_stats]"
  "badap (demo_clients A f) = [21 \<mapsto> (None, Some 11)]" "hdevs (demo_clients A f) = Map.empty"
  "openLock (demo_clients A f) = 1" "combodrv (demo_clients A f) = 1"
  "suspend_type (demo_clients A f) = -1" "intfdata (demo_clients A f) = Map.empty"
  "next_addr (demo_clients A f) = 40" "outcome (demo_clients A f) = f" "now (demo_clients A f) = 0"
  by (simp_all add: demo_clients_def)

lemma demo_fdo_slots:
  "DeviceData demo_fdo =
     [zero_slot\<lparr>sSerialNo := 1, pDeviceInterface := Some 11\<rparr>,
      zero_slot\<lparr>sSerialNo := 2, state_old_from_wb := Started, pDeviceInterface := Some 10\<rparr>,
      zero_slot\<lparr>sSerialNo := 4\<rparr>]"
  by (simp add: demo_fdo_def)

lemma demo_registered: "any_registered demo_fdo"
  by (simp add: any_registered_def demo_fdo_slots)

lemma demo_bus_inv: "bus_inv (demo_sys A f)"
  by (simp add: bus_inv_def demo_registered demo_fdo_slots slot_ok_def iface_ok_def zero_slot_def
      demo_wlan_iface_def demo_bt_iface_def zero_iface_def)
    (simp add: demo_sys_def demo_fdo_def init_fdo_fields)

lemma demo_clients_inv:
  assumes "A = adapter_idle \<or> A = adapter_up" "\<forall>t. f t AllocNetstat \<and> f t RegisterNetdev"
  shows "clients_inv (demo_clients A f)"
proof -
  have w: "wview (demo_clients A f) = [20 \<mapsto> A]"
    by (auto simp: wview_def wptrs_def demo_wlan_lib_def fun_eq_iff split: prod.split)
  have b: "bview (demo_clients A f) = [21 \<mapsto> (None, Some 11)]"
    by (auto simp: bview_def bptrs_def demo_bt_lib_def fun_eq_iff)
  show ?thesis using assms
    by (auto simp: clients_inv_def w b demo_wlan_laws demo_bt_laws env_ok_def fresh_above_def
        wptrs_ok_def bptrs_ok_def netstats_apart_def demo_netdev_def split: if_splits)
qed

lemma demo_bus_ok:
  assumes "A = adapter_idle \<or> A = adapter_up" "\<forall>t. f t AllocNetstat \<and> f t RegisterNetdev"
  shows "bus_ok sys_ok (demo_sys A f)"
proof -
  have "wlan_intf (demo_clients A f) 10 demo_wlan_iface" "bt_intf (demo_clients A f) 11 demo_bt_iface"
    using assms(1)
    by (auto simp: wlan_intf_def bt_intf_def wbus_adap bbus_adap demo_wlan_iface_def
        demo_bt_iface_def demo_wlan_lib_def demo_bt_lib_def)
  then show ?thesis
    using demo_clients_inv [OF assms]
    by (auto simp: bus_ok_def demo_bus_inv clients_ok_def sys_ok_def demo_fdo_slots zero_slot_def)
qed

lemma demo_env: "(\<forall>t. f t AllocNetstat \<and> f t RegisterNetdev) \<Longrightarrow> env_ok (demo_clients A f)"
  by (simp add: env_ok_def)

lemma demo_link:
  assumes "A = adapter_idle \<or> A = adapter_up" "\<forall>t. f t AllocNetstat \<and> f t RegisterNetdev"
  shows "bus_ok sys_link (demo_sys A f)"
  by (rule sys_link_of_ok [OF demo_bus_ok [OF assms]])

lemma demo_started:
  "dev_iface (demo_sys A f) 1 = Some demo_bt_iface" "dev_iface (demo_sys A f) 2 = Some demo_wlan_iface"
  "dev_started (demo_sys A f) 2" "\<not> dev_started (demo_sys A f) 1"
  by (simp_all add: dev_started_def dev_iface_def demo_fdo_slots demo_wlan_iface_def
      demo_bt_iface_def zero_slot_def zero_iface_def)

lemma demo_started_mask: "started_mask (demo_sys A f) = 2"
  by (simp add: started_mask_def demo_started)

end
