(* ===== verification/Bus_Switches.thy ===== *)
theory Bus_Switches
  imports Sys_Spec
begin

text \<open>
  The abstract view of the bus: three switches, one per serial number, each absent, never used,
  on or off.  Plugging a device in and unplugging it refine operations on the switches, whatever
  the callbacks of the drivers do.
\<close>

type_synonym switches = "pnp_state option list"

definition switches :: "'c bus \<Rightarrow> switches" where
  "switches w = map (slot_state w) [0, 1, 2]"

text \<open>The slot a request's serial number selects.\<close>

definition switch_index :: "u32 \<Rightarrow> nat option" where
  "switch_index sn =
     (let k = sn AND HOTKEY_FLAG_AND
      in if k = 1 then Some 0 else if k = 2 then Some 1 else if k = 4 then Some 2 else None)"

definition abs_unplug :: "u32 \<Rightarrow> switches \<Rightarrow> switches" where
  "abs_unplug sn xs =
     (if sn = 0 then map (map_option switched_off) xs
      else case switch_index sn of
        None \<Rightarrow> xs
      | Some i \<Rightarrow> xs[i := map_option switched_off (xs ! i)])"

text \<open>Plugging in: \<open>ok\<close> says whether the driver started the device.\<close>

definition abs_plug :: "bool \<Rightarrow> u32 \<Rightarrow> switches \<Rightarrow> switches" where
  "abs_plug ok sn xs =
     (case switch_index sn of
        None \<Rightarrow> xs
      | Some i \<Rightarrow> if ok then xs[i := map_option (\<lambda>d. Started) (xs ! i)] else xs)"

lemma switches_eqI:
  assumes "length xs = 3" "\<And>i. i < 3 \<Longrightarrow> slot_state w i = xs ! i"
  shows "switches w = xs"
proof -
  obtain a b c where "xs = [a, b, c]"
    using assms(1) by (auto simp: numeral_3_eq_3 length_Suc_conv)
  with assms(2) [of 0] assms(2) [of 1] assms(2) [of 2] show ?thesis
    by (simp add: switches_def)
qed

lemma length_switches [simp]: "length (switches w) = 3"
  by (simp add: switches_def)

lemma switches_nth [simp]: "i < 3 \<Longrightarrow> switches w ! i = slot_state w i"
  by (auto simp: switches_def numeral_2_eq_2 numeral_3_eq_3 less_Suc_eq)

text \<open>The table finds the selected slot exactly when its switch is present.\<close>

lemma find_switch:
  assumes "bus_inv w"
  shows "Bus_FindPdoBySerialNo (FdoData w) (sn AND HOTKEY_FLAG_AND) =
    (case switch_index sn of None \<Rightarrow> None
     | Some i \<Rightarrow> if slot_state w i = None then None else Some i)"
proof -
  let ?k = "sn AND HOTKEY_FLAG_AND" and ?ds = "DeviceData (FdoData w)"
  have ser: "sSerialNo (?ds ! 0) = 1" "sSerialNo (?ds ! 1) = 2" "sSerialNo (?ds ! 2) = 4"
    using bus_inv_serial [OF assms, of 0] bus_inv_serial [OF assms, of 1] bus_inv_serial [OF assms, of 2]
    by simp_all
  have st: "slot_state w i = None \<longleftrightarrow> pDeviceInterface (?ds ! i) = None" if "i < 3" for i
    using bus_inv_slot_ok [OF assms that]
    by (cases "pDeviceInterface (?ds ! i)") (auto simp: slot_state_def slot_ok_def)
  have f: "Bus_FindPdoBySerialNo (FdoData w) 1 = (if slot_state w 0 = None then None else Some 0)"
    "Bus_FindPdoBySerialNo (FdoData w) 2 = (if slot_state w 1 = None then None else Some 1)"
    "Bus_FindPdoBySerialNo (FdoData w) 4 = (if slot_state w 2 = None then None else Some 2)"
    using Bus_Find_inv [OF assms, of 0] Bus_Find_inv [OF assms, of 1] Bus_Find_inv [OF assms, of 2] ser
    by (simp_all add: st)
  have "Bus_FindPdoBySerialNo (FdoData w) ?k = None" if "?k \<noteq> 1" "?k \<noteq> 2" "?k \<noteq> 4"
  proof (rule ccontr)
    assume "Bus_FindPdoBySerialNo (FdoData w) ?k \<noteq> None"
    then obtain i where f: "Bus_FindPdoBySerialNo (FdoData w) ?k = Some i" by auto
    from Bus_Find_Some [OF f] assms have i: "i < 3" "ucast (sSerialNo (?ds ! i)) = ?k" by auto
    from i(1) consider "i = 0" | "i = 1" | "i = 2" by linarith
    then have "ucast (sSerialNo (?ds ! i)) \<in> {1, 2, 4 :: u32}"
      by cases (simp_all only: ser, simp_all)
    with i(2) that show False by (simp only: insert_iff empty_iff) blast
  qed
  with f show ?thesis by (auto simp: switch_index_def Let_def)
qed

lemma switch_index_less: "switch_index sn = Some i \<Longrightarrow> i < 3"
  by (auto simp: switch_index_def Let_def split: if_splits)

lemma unplug_refines:
  fixes w :: "('a, 'b) system"
  assumes ok: "bus_ok sys_ok w"
  shows "\<exists>r w'. Bus_UnPlugDevice 2 sys_call sn w = Some (r, w') \<and> switches w' = abs_unplug sn (switches w)"
proof (cases "sn = 0")
  case True
  have idx: "set [0..<3] \<subseteq> {..<3::nat}" "distinct [0..<3::nat]" by auto
  have rec: "\<And>sn v. sn \<noteq> 0 \<Longrightarrow>
      Bus_UnPlugDevice (Suc 0) sys_call sn (v :: ('a, 'b) system) = unplug_one sys_call sn v" by simp
  obtain w' where w': "unplug_all (Bus_UnPlugDevice (Suc 0) sys_call) [0..<3] w = Some w'"
    "\<forall>i \<in> set [0..<3]. slot_state w' i = map_option switched_off (slot_state w i)"
    using unplug_all_effect [OF rec ok idx] by blast
  have "slot_state w' i = map_option switched_off (slot_state w i)" if "i < 3" for i
    using w'(2) that by (simp del: upt_rec_numeral)
  then have "switches w' = abs_unplug sn (switches w)"
    using True by (intro switches_eqI) (auto simp: abs_unplug_def)
  with True w'(1) show ?thesis
    by (simp add: numeral_2_eq_2 BUS_DEVICE_TOTAL_COUNT_def del: upt_rec_numeral)
next
  case False
  have inv: "bus_inv w" using ok by (simp add: bus_ok_def)
  show ?thesis
  proof (cases "Bus_FindPdoBySerialNo (FdoData w) (sn AND HOTKEY_FLAG_AND)")
    case None
    have "switches w = abs_unplug sn (switches w)"
    proof (cases "switch_index sn")
      case (Some i)
      with None find_switch [OF inv, of sn] have "slot_state w i = None" by (auto split: if_splits)
      then show ?thesis using Some False switch_index_less [OF Some]
        by (intro switches_eqI) (auto simp: abs_unplug_def nth_list_update)
    qed (simp add: abs_unplug_def False)
    with None inv False show ?thesis by (simp add: numeral_2_eq_2 unplug_one_def)
  next
    case (Some i)
    with find_switch [OF inv, of sn] have i: "switch_index sn = Some i" by (auto split: option.splits if_splits)
    obtain r w' where w': "unplug_one sys_call sn w = Some (r, w')"
      "slot_state w' i = map_option switched_off (slot_state w i)"
      "\<forall>j<3. j \<noteq> i \<longrightarrow> slot_state w' j = slot_state w j"
      using unplug_one_effect [OF ok Some] by blast
    then have "switches w' = abs_unplug sn (switches w)"
      using False i switch_index_less [OF i]
      by (intro switches_eqI) (auto simp: abs_unplug_def nth_list_update)
    with w'(1) False show ?thesis by (simp add: numeral_2_eq_2)
  qed
qed

text \<open>
  Whether the open callback of the device that a request selects returns 0, called the way the
  request calls it.
\<close>

definition driver_opens :: "('a, 'b) system \<Rightarrow> u32 \<Rightarrow> bool" where
  "driver_opens w sn \<longleftrightarrow>
     (do {
        i \<leftarrow> switch_index sn;
        p \<leftarrow> pDeviceInterface (DeviceData (FdoData w) ! i);
        x \<leftarrow> ifaces w p;
        cb \<leftarrow> open_cb x;
        (r, w1) \<leftarrow> sys_call cb p (set_iface p (x\<lparr>pPciDev := None\<rparr>) w);
        Some r
      }) = Some 0"

lemma plug_refines:
  fixes w :: "('a, 'b) system"
  assumes ok: "bus_ok sys_ok w"
  shows "\<exists>r w'. Bus_PlugInDevice sys_call sn w = Some (r, w') \<and>
    switches w' = abs_plug (driver_opens w sn) sn (switches w)"
proof -
  have inv: "bus_inv w" using ok by (simp add: bus_ok_def)
  show ?thesis
  proof (cases "Bus_FindPdoBySerialNo (FdoData w) (sn AND HOTKEY_FLAG_AND)")
    case None
    then have "\<exists>r. Bus_PlugInDevice sys_call sn w = Some (r, w)"
      using inv by (simp add: Bus_PlugInDevice_def Let_def)
    moreover have "switches w = abs_plug (driver_opens w sn) sn (switches w)"
    proof (cases "switch_index sn")
      case (Some i)
      with None find_switch [OF inv, of sn] have "slot_state w i = None" by (auto split: if_splits)
      then show ?thesis using Some switch_index_less [OF Some]
        by (intro switches_eqI) (auto simp: abs_plug_def nth_list_update)
    qed (simp add: abs_plug_def)
    ultimately show ?thesis by auto
  next
    case (Some i)
    obtain p x where i: "i < 3" and p: "pDeviceInterface (DeviceData (FdoData w) ! i) = Some p"
      and x: "ifaces w p = Some x" "iface_ok (DeviceData (FdoData w) ! i) x"
      and s: "slot_at (FdoData w) i = Some (DeviceData (FdoData w) ! i)"
      using inv Some by (rule Bus_Find_slot)
    have sw: "switch_index sn = Some i"
      using find_switch [OF inv, of sn] Some by (auto split: option.splits if_splits)
    have st: "slot_state w i = Some (devstate x)" using p x by (simp add: slot_state_def)
    show ?thesis
    proof (cases "devstate x = Started")
      case True
      then have "\<exists>r. Bus_PlugInDevice sys_call sn w = Some (r, w)"
        using inv Some s p x by (simp add: Bus_PlugInDevice_def Let_def)
      moreover have "switches w = abs_plug (driver_opens w sn) sn (switches w)"
        using True st i sw by (intro switches_eqI) (auto simp: abs_plug_def nth_list_update)
      ultimately show ?thesis by auto
    next
      case False
      have d: "dev_iface w (sSerialNo (DeviceData (FdoData w) ! i)) = Some x"
        using dev_iface_slot [OF inv i p] x(1) by simp
      obtain cb r w1 y w' where c: "open_cb x = Some cb"
        "sys_call cb p (set_iface p (x\<lparr>pPciDev := None\<rparr>) w) = Some (r, w1)" "ifaces w1 p = Some y"
        and w': "Bus_PlugInDevice sys_call sn w = Some (0, w')" "bus_ok sys_ok w'"
        "w' = (if r = 0
            then set_slot i ((DeviceData (FdoData w) ! i)\<lparr>state_old_from_wb := Started\<rparr>)
                   (set_iface p (y\<lparr>devstate := Started\<rparr>) w1)
            else w1)"
        using plug_in_run [OF ok Some d False] p by auto
      have o: "driver_opens w sn \<longleftrightarrow> r = 0" using sw p x(1) c by (simp add: driver_opens_def)
      let ?w0 = "set_iface p (x\<lparr>pPciDev := None\<rparr>) w"
      have "callback_done p ?w0 (sys_call cb p ?w0)"
      proof (rule sys_call_done)
        show "ifaces ?w0 p = Some (x\<lparr>pPciDev := None\<rparr>)" by (simp add: set_iface_def)
        have "sys_ok (client w) p x" using ok i p x(1) by (auto simp: bus_ok_def intro: clients_okD)
        then show "sys_ok (client ?w0) p (x\<lparr>pPciDev := None\<rparr>)"
          by (simp add: set_iface_def sys_ok_def wlan_intf_def bt_intf_def)
      qed (use c in simp)
      then have frame: "cb_frame p ?w0 w1" using c(2) by (auto simp: callback_done_def)
      have ok0: "bus_ok sys_ok ?w0"
        using ok x by (intro sys.set_iface_ok) (auto simp: iface_agrees_def iface_ok_def)
      have "slot_state ?w0 j = slot_state w j" for j
        using x by (cases "pDeviceInterface (DeviceData (FdoData w) ! j)")
          (auto simp: slot_state_def set_iface_def)
      then have st1: "slot_state w1 j = slot_state w j" if "j < 3" for j
        using slot_state_frame [OF _ frame that] ok0 by (simp add: bus_ok_def)
      have fd: "DeviceData (FdoData w1) = DeviceData (FdoData w)"
        using frame by (simp add: cb_frame_def set_iface_def)
      have "slot_state w' j = (if j = i \<and> r = 0 then Some Started else slot_state w j)" if "j < 3" for j
      proof (cases "r = 0")
        case True
        have "pDeviceInterface (DeviceData (FdoData w) ! j) \<noteq> Some p" if "j \<noteq> i"
          using bus_inv_owner_unique [OF inv i \<open>j < 3\<close> p] that by auto
        then have "slot_state w' j = (if j = i then Some Started else slot_state w1 j)"
          using True w'(3) fd p i inv
          by (cases "pDeviceInterface (DeviceData (FdoData w) ! j)")
            (auto simp: slot_state_def set_slot_def set_iface_def)
        with True st1 [OF that] show ?thesis by simp
      qed (use w'(3) st1 [OF that] in simp)
      then have "switches w' = abs_plug (driver_opens w sn) sn (switches w)"
        using i sw st o by (intro switches_eqI) (auto simp: abs_plug_def nth_list_update)
      with w'(1) show ?thesis by blast
    qed
  qed
qed

text \<open>
  C30: The bus refines three switches.  Every unplug request returns, keeps the invariant of the
  system and turns the selected switch off, serial number 0 turning all off, and does nothing to
  the others; every plug request returns, keeps the invariant and turns the selected switch on
  exactly when the open callback of its driver returns 0, and otherwise changes no switch.  The
  kernel's allocations of the WLAN counters and registrations of network devices are taken to
  succeed, as the WLAN callback requires.
\<close>

theorem bus_refines_switches:
  fixes w :: "('a, 'b) system"
  assumes "bus_ok sys_link w" "env_ok (client w)"
  shows "(\<exists>r w'. Bus_UnPlugDevice 2 sys_call sn w = Some (r, w') \<and> bus_ok sys_ok w' \<and>
      switches w' = abs_unplug sn (switches w)) \<and>
    (\<exists>r w'. Bus_PlugInDevice sys_call sn w = Some (r, w') \<and> bus_ok sys_ok w' \<and>
      switches w' = abs_plug (driver_opens w sn) sn (switches w))"
proof
  have ok: "bus_ok sys_ok w" using assms by (rule sys_ok_of_link)
  obtain r w' where u: "Bus_UnPlugDevice 2 sys_call sn w = Some (r, w')"
    "switches w' = abs_unplug sn (switches w)"
    using unplug_refines [OF ok] by blast
  moreover have "bus_ok sys_ok w'"
    using sys.Bus_UnPlugDevice_ok [OF ok, of 0 sn] u(1) by (simp add: numeral_2_eq_2)
  ultimately show "\<exists>r w'. Bus_UnPlugDevice 2 sys_call sn w = Some (r, w') \<and> bus_ok sys_ok w' \<and>
      switches w' = abs_unplug sn (switches w)" by blast
  obtain r w' where p: "Bus_PlugInDevice sys_call sn w = Some (r, w')"
    "switches w' = abs_plug (driver_opens w sn) sn (switches w)"
    using plug_refines [OF ok] by blast
  moreover have "bus_ok sys_ok w'"
    using sys.Bus_PlugInDevice_ok [OF ok, of sn] p(1) by auto
  ultimately show "\<exists>r w'. Bus_PlugInDevice sys_call sn w = Some (r, w') \<and> bus_ok sys_ok w' \<and>
      switches w' = abs_plug (driver_opens w sn) sn (switches w)" by blast
qed

end
