(* ===== verification/Witnesses.thy ===== *)
theory Witnesses
  imports Demo_State Bus_Switches
begin

text \<open>
  Each property with hypotheses applied to the concrete system of \<open>Demo_State\<close>, where its
  hypotheses hold.
\<close>

section \<open>The bus\<close>

theorem display_in_use_correct_witness:
  "ioctl_display_in_use [9, 9, 9, 9, 7] sys_idle = Some (STATUS_SUCCESS, le32 2 @ [7], sys_idle)"
  using display_in_use_correct [of sys_idle "[9, 9, 9, 9, 7]"]
  by (simp add: demo_bus_inv demo_registered demo_started_mask)

theorem read_enum_mode_correct_witness:
  "ioctl_read_enum_mode [0, 0, 0, 0] sys_idle = Some (STATUS_SUCCESS, le32 2, set_enum_mode 2 sys_idle)"
  using read_enum_mode_correct [of sys_idle "[0, 0, 0, 0]"]
  by (simp add: demo_bus_inv demo_started_mask enum_mode_spec_def)

theorem enum_mode_write_lost_witness:
  "\<exists>w1. ioctl_write_enum_mode [3, 0, 0, 0] sys_idle = Some (STATUS_SUCCESS, [3, 0, 0, 0], w1) \<and>
    EnumMode (FdoData w1) = 3 \<and>
    ioctl_read_enum_mode [0, 0, 0, 0] w1 = ioctl_read_enum_mode [0, 0, 0, 0] sys_idle"
  using enum_mode_write_lost [of sys_idle "[3, 0, 0, 0]" "[0, 0, 0, 0]"]
  by (simp add: demo_bus_inv)

theorem query_device_state_correct_witness:
  "ioctl_query_device_state [2, 0, 0, 0] sys_idle = Some (STATUS_SUCCESS, le32 1, sys_idle)"
  using query_device_state_correct [of sys_idle "[2, 0, 0, 0]" 2]
  by (simp add: demo_bus_inv demo_started)

theorem ioctl_keeps_system_witness:
  "\<exists>r m' w'. tdspbus_unlocked_ioctl sys_call [] \<lparr>private_data = Some 1\<rparr>
      IOCTL_BUSENUM_UNPLUG_HARDWARE (16 # 0 # 0 # 0 # replicate 12 0) sys_up = Some (r, m', w') \<and>
    bus_ok sys_ok w' \<and> length m' = 16"
  using ioctl_keeps_system [of sys_up IOCTL_BUSENUM_UNPLUG_HARDWARE "16 # 0 # 0 # 0 # replicate 12 0" "[]"
      "\<lparr>private_data = Some 1\<rparr>"]
  by (simp add: demo_link demo_env ioctl_safe_def direct_ioctls_def request_fits_def UNPLUG_SIZE_def)

theorem ioctl_crash_iff_witness:
  "tdspbus_unlocked_ioctl sys_call [] \<lparr>private_data = Some 1\<rparr> IOCTL_BUSENUM_QUERY_RF_TYPE [] sys_idle
     = None"
  using ioctl_crash_iff [of sys_idle "\<lparr>private_data = Some 1\<rparr>" "[]" IOCTL_BUSENUM_QUERY_RF_TYPE "[]"]
  by (simp add: demo_link demo_env demo_registered ioctl_safe_def direct_ioctls_def)

theorem hotkey_reaches_drivers_witness:
  "\<exists>w'. ioctl_set_hotkey_flag [1, 0, 0, 0] sys_idle = Some (STATUS_SUCCESS, [1, 0, 0, 0], w') \<and>
    bus_inv w' \<and>
    (\<forall>s \<in> set (DeviceData (FdoData w')). \<forall>p. pDeviceInterface s = Some p \<longrightarrow>
       wlan_Bus_get_hotkey_flag (Some p) w' = Some 1 \<and> bt_Bus_get_hotkey_flag (Some p) w' = Some 1)"
  using hotkey_reaches_drivers [of sys_idle "[1, 0, 0, 0]"] by (simp add: demo_bus_inv)

theorem antenna_reaches_wlan_witness:
  "\<exists>w'. ioctl_set_antenna [2, 0, 0, 0] sys_idle = Some (STATUS_SUCCESS, [2, 0, 0, 0], w') \<and>
    bus_inv w' \<and> wlan_Bus_get_antenna_flag (Some 10) w' = Some 2 \<and>
    wlan_Bus_get_hotkey_flag (Some 10) w' = wlan_Bus_get_hotkey_flag (Some 10) sys_idle"
  using antenna_reaches_wlan [of sys_idle "[2, 0, 0, 0]"
      "zero_slot\<lparr>sSerialNo := 2, state_old_from_wb := Started, pDeviceInterface := Some 10\<rparr>" 10]
  by (simp add: demo_bus_inv demo_fdo_slots)

lemma demo_find:
  "Bus_FindPdoBySerialNo demo_fdo 1 = Some 0" "Bus_FindPdoBySerialNo demo_fdo 2 = Some 1"
  by (simp_all add: Bus_FindPdoBySerialNo_def demo_fdo_slots zero_slot_def)

theorem plug_in_result_witness:
  "\<exists>p cb r w1 w'. pDeviceInterface (DeviceData demo_fdo ! 0) = Some p \<and>
    open_cb demo_bt_iface = Some cb \<and>
    sys_call cb p (set_iface p (demo_bt_iface\<lparr>pPciDev := None\<rparr>) sys_idle) = Some (r, w1) \<and>
    Bus_PlugInDevice sys_call 1 sys_idle = Some (0, w') \<and> bus_ok sys_ok w' \<and>
    client w' = client w1 \<and> dev_started w' 1 = (r = 0)"
proof -
  have "dev_iface sys_idle (sSerialNo (DeviceData (FdoData sys_idle) ! 0)) = Some demo_bt_iface"
    "devstate demo_bt_iface \<noteq> Started"
    by (simp_all add: demo_fdo_slots demo_started) (simp add: demo_bt_iface_def zero_iface_def)
  from plug_in_result [OF _ _ _ this, of 1]
  obtain p cb r w1 y w' where "pDeviceInterface (DeviceData demo_fdo ! 0) = Some p"
    "open_cb demo_bt_iface = Some cb"
    "sys_call cb p (set_iface p (demo_bt_iface\<lparr>pPciDev := None\<rparr>) sys_idle) = Some (r, w1)"
    "Bus_PlugInDevice sys_call 1 sys_idle = Some (0, w')" "bus_ok sys_ok w'"
    "w' = (if r = 0
          then set_slot 0 ((DeviceData demo_fdo ! 0)\<lparr>state_old_from_wb := Started\<rparr>)
                 (set_iface p (y\<lparr>devstate := Started\<rparr>) w1)
          else w1)" "dev_started w' 1 = (r = 0)"
    by (auto simp: demo_link demo_env demo_find HOTKEY_FLAG_AND_def demo_fdo_slots)
  moreover from this(6) have "client w' = client w1" by (simp add: set_slot_def set_iface_def)
  ultimately show ?thesis by blast
qed

theorem unplug_all_stops_witness:
  "\<exists>w'. Bus_UnPlugDevice 2 sys_call 0 sys_up = Some (0, w') \<and> bus_ok sys_ok w' \<and>
    (\<forall>sn. \<not> dev_started w' sn)"
  using unplug_all_stops [of sys_up] by (simp add: demo_bus_ok)

theorem register_second_refused_witness:
  "register_tdspbus_usbdev sys_call (Some 10) sys_idle = Some (-1, sys_idle)"
  using register_second_refused [of sys_idle 10 demo_wlan_iface 1 sys_call]
  by (simp add: demo_bus_inv demo_fdo_slots demo_wlan_iface_def)

lemma demo_switches: "switches (demo_sys A f) = [Some NotStarted, Some Started, None]"
  by (simp add: switches_def slot_state_def demo_fdo_slots demo_wlan_iface_def demo_bt_iface_def
      zero_iface_def zero_slot_def)

theorem bus_refines_switches_witness:
  "(\<exists>r w'. Bus_UnPlugDevice 2 sys_call 0 sys_up = Some (r, w') \<and> bus_ok sys_ok w' \<and>
      switches w' = [Some NotStarted, Some Stopped, None]) \<and>
   (\<exists>r w'. Bus_PlugInDevice sys_call 1 sys_up = Some (r, w') \<and> bus_ok sys_ok w' \<and>
      switches w' = [Some Started, Some Started, None])"
proof -
  have "driver_opens sys_up 1"
    by (simp add: driver_opens_def switch_index_def HOTKEY_FLAG_AND_def demo_fdo_slots set_iface_def)
      (simp add: demo_bt_iface_def bt_Bus_Open_def register_HCI_device_def down_openLock_def hci_create_def
        ask_def bt_adap_upd_def demo_bt_lib_def Let_def EINTR_def)
  then have "abs_plug (driver_opens sys_up 1) 1 (switches sys_up) = [Some Started, Some Started, None]"
    by (simp add: abs_plug_def switch_index_def HOTKEY_FLAG_AND_def demo_switches)
  with bus_refines_switches [of sys_up 1] bus_refines_switches [of sys_up 0] show ?thesis
    by (simp add: demo_link demo_env demo_switches abs_unplug_def switched_off_def)
qed

section \<open>The drivers\<close>

theorem netdev_setup_destroy_witness:
  "\<exists>c1 n nd c2. wlan_netdev_setup (Some 20) sys_idle = Some (0, with_client c1 sys_idle) \<and>
    netdevs c1 n = Some nd \<and> nd_name nd = ''twifiu0'' \<and> nd_priv nd = Some 20 \<and>
    nd_registered nd \<and> nd_parent nd = pUsbDev demo_wlan_iface \<and>
    wlan_netdev_destroy (Some 20) c1 = Some c2 \<and>
    netdevs c2 = [30 \<mapsto> demo_netdev] \<and> netstats c2 = [31 \<mapsto> zero_net_stats] \<and>
    wview c2 20 = Some (None, None, Some 10)"
  using netdev_setup_destroy [of sys_idle 20 adapter_idle 10 demo_wlan_iface]
  by (simp add: demo_clients_inv demo_wlan_lib_def)

abbreviation "register_fails \<equiv> \<lambda>(t :: nat) k. k \<noteq> RegisterNetdev"

theorem failed_registration_dangles_witness:
  "\<exists>c1. wlan_netdev_setup (Some 20) (demo_sys adapter_idle register_fails) =
      Some (- ENODEV, with_client c1 (demo_sys adapter_idle register_fails)) \<and>
    wlan_netdev_setup (Some 20) (with_client c1 (demo_sys adapter_idle register_fails)) =
      Some (- EEXIST, with_client c1 (demo_sys adapter_idle register_fails)) \<and>
    wlan_netdev_destroy (Some 20) c1 = None"
  using failed_registration_dangles [of "demo_sys adapter_idle register_fails" 20 adapter_idle 10
      demo_wlan_iface]
  by (simp add: demo_wlan_laws) (simp add: demo_wlan_lib_def)

theorem wpa_filters_frames_witness:
  "wlan_netdev_xmit (replicate 60 0) 30 (client sys_up) = Some (0, True, client sys_up)"
  using wpa_filters_frames [of "client sys_up" 30 demo_netdev 20 adapter_up "replicate 60 0"]
  by (simp add: demo_netdev_def demo_wlan_lib_def)

theorem xmit_result_witness:
  "wlan_netdev_xmit (replicate 60 0) 30 (client sys_up) = Some (0, True, client sys_up) \<and>
   ((0::int) = 0 \<and> True \<or> (0::int) = -1 \<and> \<not> True \<and> client sys_up = client sys_up)"
proof -
  have run: "wlan_netdev_xmit (replicate 60 0) 30 (client sys_up) = Some (0, True, client sys_up)"
    by (simp add: wlan_netdev_xmit_def demo_netdev_def demo_wlan_lib_def eth_type_def)
  with xmit_result [OF run] show ?thesis by blast
qed

definition demo_bt_card :: usb_interface where
  "demo_bt_card = \<lparr>ui_addr = 70, bInterfaceNumber = 1, bNumEndpoints = 6, ui_usbdev = 71\<rparr>"

theorem bt_second_card_crashes_witness:
  "\<exists>w'. bt_usb_probe sys_call demo_bt_card sys_idle = Some (0, w') \<and>
    bt_usb_disconnect sys_call demo_bt_card w' = None"
  using bt_second_card_crashes [of sys_idle demo_bt_card "(None, None)" 0]
  by (simp add: demo_bus_inv demo_bt_laws demo_bt_card_def demo_find bus_consts)
    (simp add: demo_bt_lib_def)

end
