(* ===== verification/Tdsp_String.thy ===== *)
theory Tdsp_String
  imports Tdsp_Prelude
begin

text \<open>
  The string routines of \<^verbatim>\<open>src/driver_src/wlan/tdsp_string.h\<close>, on byte objects: the
  argument is the object from the pointer to its end, and \<open>None\<close> is an access past the end.
  Each loop is shown to compute what its comment in the header promises.
\<close>

section \<open>The routines\<close>

fun tdsp_strlen :: "u8 list \<Rightarrow> nat option" where
  "tdsp_strlen [] = None"
| "tdsp_strlen (c # s) = (if c = 0 then Some 0 else do { n \<leftarrow> tdsp_strlen s; Some (Suc n) })"

fun tdsp_strcpy :: "u8 list \<Rightarrow> u8 list \<Rightarrow> u8 list option" where
  "tdsp_strcpy (d # dest) (c # src) =
     (if c = 0 then Some (0 # dest)
      else do { r \<leftarrow> tdsp_strcpy dest src; Some (c # r) })"
| "tdsp_strcpy _ _ = None"

text \<open>The source pointer stops at the terminating zero, which is copied to the end.\<close>

fun tdsp_strncpy :: "u8 list \<Rightarrow> u8 list \<Rightarrow> nat \<Rightarrow> u8 list option" where
  "tdsp_strncpy dest src 0 = Some dest"
| "tdsp_strncpy (d # dest) (c # src) (Suc len) = do {
     r \<leftarrow> tdsp_strncpy dest (if c \<noteq> 0 then src else c # src) len;
     Some (c # r)
   }"
| "tdsp_strncpy _ _ (Suc len) = None"

text \<open>
  The difference is a signed char, returned as an unsigned int.
\<close>

fun tdsp_strcmp :: "u8 list \<Rightarrow> u8 list \<Rightarrow> u32 option" where
  "tdsp_strcmp (c # cs) (d # ct) =
     (let res = c - d in if res \<noteq> 0 \<or> c = 0 then Some (scast res) else tdsp_strcmp cs ct)"
| "tdsp_strcmp _ _ = None"

fun tdsp_strcat :: "u8 list \<Rightarrow> u8 list \<Rightarrow> u8 list option" where
  "tdsp_strcat [] src = None"
| "tdsp_strcat (d # dest) src =
     (if d \<noteq> 0 then do { r \<leftarrow> tdsp_strcat dest src; Some (d # r) }
      else tdsp_strcpy (d # dest) src)"

section \<open>What they compute\<close>

text \<open>The string an object holds.\<close>

definition cstr :: "u8 list \<Rightarrow> u8 list" where
  "cstr s = takeWhile (\<lambda>b. b \<noteq> 0) s"

lemma cstr_simps [simp]:
  "cstr [] = []" "cstr (0 # s) = []" "c \<noteq> 0 \<Longrightarrow> cstr (c # s) = c # cstr s"
  by (simp_all add: cstr_def)

lemma cstr_append_zero [simp]: "0 \<notin> set s \<Longrightarrow> cstr (s @ 0 # t) = s"
  by (induction s) auto

lemma cstr_nonzero: "0 \<notin> set (cstr s)"
  by (auto simp: cstr_def dest: set_takeWhileD)

lemma length_cstr: "0 \<in> set s \<Longrightarrow> length (cstr s) < length s"
  by (induction s) (auto simp: cstr_def)

lemma strlen_spec:
  "tdsp_strlen s = (if 0 \<in> set s then Some (length (cstr s)) else None)"
  by (induction s rule: tdsp_strlen.induct) auto

lemma strcpy_spec:
  assumes "0 \<in> set src"
  shows "tdsp_strcpy dest src =
    (if length (cstr src) < length dest
     then Some (cstr src @ 0 # drop (Suc (length (cstr src))) dest) else None)"
  using assms by (induction dest src rule: tdsp_strcpy.induct) auto

lemma strncpy_spec:
  assumes "0 \<in> set src" "n \<le> length dest"
  shows "tdsp_strncpy dest src n = Some (take n (cstr src @ replicate n 0) @ drop n dest)"
  using assms
proof (induction dest src n rule: tdsp_strncpy.induct)
  case (2 d dest c src len)
  have "take k (0 # replicate n 0) = replicate k (0 :: u8)" if "k \<le> n" for k n
    using that by (cases k) auto
  with 2 show ?case by (cases "c = 0") auto
qed auto

lemma scast_u8_u32_0 [simp]: "(scast (x :: u8) = (0 :: u32)) = (x = 0)"
proof
  assume a: "(scast x :: u32) = 0"
  show "x = 0"
  proof (rule bit_word_eqI)
    fix n assume "n < LENGTH(8)"
    then show "bit x n = bit 0 n"
      using arg_cong [OF a, of "\<lambda>w. bit w n"] by (auto simp: bit_simps)
  qed
qed simp

lemma strcmp_spec:
  assumes "0 \<in> set s" "0 \<in> set t"
  shows "\<exists>r. tdsp_strcmp s t = Some r \<and> (r = 0 \<longleftrightarrow> cstr s = cstr t)"
  using assms
proof (induction s t rule: tdsp_strcmp.induct)
  case (1 c cs d ct)
  then show ?case by (cases "c = 0"; cases "d = 0"; cases "c = d") auto
qed auto

lemma strcat_spec:
  assumes "0 \<in> set dest" "0 \<in> set src"
  shows "tdsp_strcat dest src =
    (let s = cstr dest @ cstr src
     in if length s < length dest then Some (s @ 0 # drop (Suc (length s)) dest) else None)"
  using assms(1)
  by (induction dest) (auto simp: strcpy_spec [OF assms(2)] Let_def)

end
