(* ===== verification/Wext_Data.thy ===== *)
theory Wext_Data
  imports Client_State Tdsp_String
begin

text \<open>
  The data of the wireless extensions, \<^verbatim>\<open>src/driver_src/wlan/lwlan_ioctl.c\<close>: the
  structures of \<^verbatim>\<open>linux/wireless.h\<close> (version 22) that the handlers read and write, the
  constants of \<^verbatim>\<open>usbwlan_lib.h\<close>, and the part of the binary hardware library that the
  handlers call, a record of functions on an adapter.

  \<^verbatim>\<open>union iwreq_data\<close> is a record of its members, and so is the buffer \<^verbatim>\<open>extra\<close> of
  the structures it holds: every handler uses one member only. A handler returns \<open>None\<close>
  when it would access memory past the end of an object.
\<close>

section \<open>Request data\<close>

record iw_freq =
  fq_m :: u32
  fq_e :: u16
  fq_flags :: u8

record iw_param =
  ip_value :: u32
  ip_fixed :: u8
  ip_disabled :: u8
  ip_flags :: u16

record iw_point =
  pt_length :: u16
  pt_flags :: u16

record sockaddr =
  sa_family :: u16
  sa_data :: "u8 list"

record iwreq =
  rq_name :: "u8 list"
  rq_freq :: iw_freq
  rq_mode :: u32
  rq_param :: iw_param
  rq_point :: iw_point
  rq_addr :: sockaddr

record iw_quality =
  qual :: u8
  level :: u8
  noise :: u8
  updated :: u8

record iw_range =
  num_channels :: u16
  num_frequency :: u8
  range_freq :: "iw_freq list"
  max_qual :: iw_quality
  avg_qual :: iw_quality
  sensitivity :: u32
  bitrate :: "u32 list"
  num_bitrates :: u8
  retry_capa :: u16
  retry_flags :: u16
  min_retry :: u32
  max_retry :: u32
  min_rts :: u32
  max_rts :: u32
  min_frag :: u32
  max_frag :: u32
  encoding_size :: "u16 list"
  num_encoding_sizes :: u8
  max_encoding_tokens :: u8
  enc_capa :: u32
  we_version_source :: u8
  we_version_compiled :: u8

record iw_encode_ext =
  ext_flags :: u32
  ext_rx_seq :: "u8 list"
  ext_addr :: sockaddr
  ext_alg :: u16
  ext_key_len :: u16
  ext_key :: "u8 list"

text \<open>
  \<^verbatim>\<open>struct iw_event\<close> without its length, which the kernel sets; every event is cleared
  before one member of its union is written.
\<close>

datatype iw_event_data =
  Ev_Addr sockaddr | Ev_Point u16 u16 | Ev_Mode u32 | Ev_Name "u8 list" | Ev_Freq iw_freq
  | Ev_Quality iw_quality | Ev_Rate iw_param

record iw_event =
  ev_cmd :: u16
  ev_data :: iw_event_data

record iw_extra =
  ex_bytes :: "u8 list"
  ex_range :: iw_range
  ex_ext :: iw_encode_ext
  ex_scan :: "u8 list"

section \<open>The hardware library\<close>

record rts_data =
  rts_disable :: u8
  rts_value :: u32

record frag_data =
  frag_disable :: u8
  frag_value :: u32

record rate_data =
  rate_fixed :: u8
  rate_value :: u32

record wep_key =
  wep_len :: u8
  wep_bytes :: "u8 list"

record add_key =
  KeyRSC :: "u8 list"
  BSS_ID :: "u8 list"
  is_group_key :: u8
  is_tx_key :: u8
  keyRSC_valid :: u8
  wep_mode :: u8
  KeyIndex :: u8
  KeyLength :: u8
  KeyMaterial :: "u8 list"

text \<open>A scan result; the bits of \<^verbatim>\<open>CAPABILITY_T\<close> are a word, its first field bit 0.\<close>

record scan_res =
  sr_bssid :: "u8 list"
  sr_ssid :: "u8 list"
  sr_channel :: u8
  sr_rssi :: u8
  beaconinterval :: u16
  sr_cap :: u16
  suprate :: "u8 list"
  IEs :: "u8 list"
  is80211g :: u8
  offset_wpa :: u16
  offset_wpa2 :: u16

definition cap_ess :: "scan_res \<Rightarrow> bool" where "cap_ess r = bit (sr_cap r) 0"
definition cap_ibss :: "scan_res \<Rightarrow> bool" where "cap_ibss r = bit (sr_cap r) 1"
definition cap_privacy :: "scan_res \<Rightarrow> bool" where "cap_privacy r = bit (sr_cap r) 4"

text \<open>
  The kernel's functions that append to a stream of events.  They take the position in the
  buffer (for a value, the position of its event first), the end, the event, and its size or the
  bytes it points to, and return the new position and the buffer.
\<close>

record iwe_stream =
  iwe_stream_add_event :: "nat \<Rightarrow> nat \<Rightarrow> iw_event \<Rightarrow> nat \<Rightarrow> u8 list \<Rightarrow> nat \<times> u8 list"
  iwe_stream_add_point :: "nat \<Rightarrow> nat \<Rightarrow> iw_event \<Rightarrow> u8 list \<Rightarrow> u8 list \<Rightarrow> nat \<times> u8 list"
  iwe_stream_add_value :: "nat \<Rightarrow> nat \<Rightarrow> nat \<Rightarrow> iw_event \<Rightarrow> nat \<Rightarrow> u8 list \<Rightarrow> nat \<times> u8 list"

text \<open>What the handlers call outside the repository: the hardware library and these functions.\<close>

record 'a wext_lib =
  iwe_lib :: iwe_stream
  Adap_Get_Scan_Result :: "'a \<Rightarrow> scan_res list"
  Adap_Driver_isWork :: "'a \<Rightarrow> bool"
  Adap_Get_DotType :: "'a \<Rightarrow> u32"
  Adap_Get_Mode :: "'a \<Rightarrow> u8"
  Adap_Set_Mode :: "u8 \<Rightarrow> 'a \<Rightarrow> 'a"
  Adap_Set_Defult_Channel :: "int \<Rightarrow> 'a \<Rightarrow> int \<times> 'a"
  Adap_Get_Channel :: "'a \<Rightarrow> u8"
  Adap_Get_Channel_Num :: "'a \<Rightarrow> u8"
  Adap_Has_Joined :: "'a \<Rightarrow> u8"
  Adap_Has_Connected :: "'a \<Rightarrow> u8"
  Adap_Start_Scan :: "'a \<Rightarrow> int \<times> 'a"
  Adap_Get_BSSID :: "'a \<Rightarrow> u8 list"
  Adap_Set_SSID :: "u8 list \<Rightarrow> u8 \<Rightarrow> 'a \<Rightarrow> int \<times> 'a"
  Adap_Get_SSID :: "'a \<Rightarrow> u8 list \<times> u8"
  Adap_Set_Rts :: "int \<Rightarrow> 'a \<Rightarrow> 'a"
  Adap_Get_Rts :: "'a \<Rightarrow> rts_data"
  Adap_Set_Frag :: "int \<Rightarrow> 'a \<Rightarrow> 'a"
  Adap_Get_Frag :: "'a \<Rightarrow> frag_data"
  Adap_Set_Rate :: "int \<Rightarrow> u8 \<Rightarrow> 'a \<Rightarrow> 'a"
  Adap_Get_Rate :: "'a \<Rightarrow> rate_data"
  Adap_Get_Rssi :: "'a \<Rightarrow> u8"
  Adap_Set_Auth :: "u8 \<Rightarrow> u8 \<Rightarrow> 'a \<Rightarrow> int \<times> 'a"
  Adap_Get_Auth_Alg :: "'a \<Rightarrow> u8"
  Adap_Get_Key_Mng :: "'a \<Rightarrow> u8"
  Adap_Is_Privacy_On :: "'a \<Rightarrow> u8"
  Adap_Disalbe_Encode :: "u8 \<Rightarrow> 'a \<Rightarrow> 'a"
  Adap_Set_Encode :: "u8 \<Rightarrow> u8 list \<Rightarrow> u8 \<Rightarrow> 'a \<Rightarrow> 'a"
  Adap_Get_Encode :: "u8 \<Rightarrow> 'a \<Rightarrow> wep_key"
  Adap_Remove_Key_Ext :: "u8 \<Rightarrow> u8 \<Rightarrow> 'a \<Rightarrow> int \<times> 'a"
  Adap_Add_Key_Ext :: "u8 \<Rightarrow> add_key \<Rightarrow> 'a \<Rightarrow> int \<times> 'a"
  Adap_Is_Encode_Enabled :: "'a \<Rightarrow> u8"
  Adap_Get_Encode_Mode :: "u8 \<Rightarrow> 'a \<Rightarrow> u8"
  Adap_Get_Encode_Key :: "u8 \<Rightarrow> 'a \<Rightarrow> int \<times> u8 list"
  Adap_Set_Domain :: "u8 \<Rightarrow> 'a \<Rightarrow> 'a"
  Adap_Get_Domain :: "'a \<Rightarrow> u32"
  Adap_Get_Dsp_Version :: "'a \<Rightarrow> u32"

type_synonym 'a wext_handler = "iwreq \<Rightarrow> iw_extra \<Rightarrow> 'a \<Rightarrow> (int \<times> iwreq \<times> iw_extra \<times> 'a) option"

section \<open>Constants\<close>

abbreviation (input) IEEE802_11_A :: u8 where "IEEE802_11_A \<equiv> 0"
abbreviation (input) IEEE802_11_B :: u8 where "IEEE802_11_B \<equiv> 1"
abbreviation (input) IEEE802_11_G :: u8 where "IEEE802_11_G \<equiv> 2"
abbreviation (input) WLAN_MACMODE_IBSS_STA :: u8 where "WLAN_MACMODE_IBSS_STA \<equiv> 1"
abbreviation (input) WLAN_MACMODE_ESS_STA :: u8 where "WLAN_MACMODE_ESS_STA \<equiv> 2"
abbreviation (input) WPA_VERSION_NONE :: u8 where "WPA_VERSION_NONE \<equiv> 0"
abbreviation (input) WPA_VERSION_WPA :: u8 where "WPA_VERSION_WPA \<equiv> 1"
abbreviation (input) WPA_VERSION_WPA2 :: u8 where "WPA_VERSION_WPA2 \<equiv> 2"
abbreviation (input) KEY_MNG_NONE :: u8 where "KEY_MNG_NONE \<equiv> 0"
abbreviation (input) KEY_MNG_1X :: u8 where "KEY_MNG_1X \<equiv> 1"
abbreviation (input) KEY_MNG_PSK :: u8 where "KEY_MNG_PSK \<equiv> 2"
abbreviation (input) AUTH_ALG_OPEN :: u8 where "AUTH_ALG_OPEN \<equiv> 0"
abbreviation (input) AUTH_ALG_SHARED_KEY :: u8 where "AUTH_ALG_SHARED_KEY \<equiv> 1"
abbreviation (input) AUTH_ALG_NONE :: u8 where "AUTH_ALG_NONE \<equiv> 2"
abbreviation (input) WEP_MODE_WEP :: u8 where "WEP_MODE_WEP \<equiv> 0"
abbreviation (input) WEP_MODE_TKIP :: u8 where "WEP_MODE_TKIP \<equiv> 1"
abbreviation (input) WEP_MODE_AES :: u8 where "WEP_MODE_AES \<equiv> 2"
abbreviation (input) WEP_MODE_NONE :: u8 where "WEP_MODE_NONE \<equiv> 3"
abbreviation (input) AUTH_WPA_VERSION :: u8 where "AUTH_WPA_VERSION \<equiv> 0"
abbreviation (input) AUTH_CIPHER_PAIRWISE :: u8 where "AUTH_CIPHER_PAIRWISE \<equiv> 1"
abbreviation (input) AUTH_CIPHER_GROUP :: u8 where "AUTH_CIPHER_GROUP \<equiv> 2"
abbreviation (input) AUTH_KEY_MGMT :: u8 where "AUTH_KEY_MGMT \<equiv> 3"
abbreviation (input) AUTH_80211_AUTH_ALG :: u8 where "AUTH_80211_AUTH_ALG \<equiv> 4"

text \<open>From \<^verbatim>\<open>linux/wireless.h\<close>.\<close>

abbreviation (input) IFNAMSIZ :: nat where "IFNAMSIZ \<equiv> 16"
abbreviation (input) ARPHRD_ETHER :: u16 where "ARPHRD_ETHER \<equiv> 1"
abbreviation (input) IW_ESSID_MAX_SIZE :: u16 where "IW_ESSID_MAX_SIZE \<equiv> 32"
abbreviation (input) IW_MODE_AUTO :: u32 where "IW_MODE_AUTO \<equiv> 0"
abbreviation (input) IW_MODE_ADHOC :: u32 where "IW_MODE_ADHOC \<equiv> 1"
abbreviation (input) IW_MODE_INFRA :: u32 where "IW_MODE_INFRA \<equiv> 2"
abbreviation (input) IW_QUAL_ALL_UPDATED :: u8 where "IW_QUAL_ALL_UPDATED \<equiv> 7"
abbreviation (input) IW_QUAL_QUAL_UPDATED :: u8 where "IW_QUAL_QUAL_UPDATED \<equiv> 1"
abbreviation (input) IW_QUAL_DBM :: u8 where "IW_QUAL_DBM \<equiv> 8"
abbreviation (input) IW_QUAL_LEVEL_INVALID :: u8 where "IW_QUAL_LEVEL_INVALID \<equiv> 0x20"
abbreviation (input) IW_QUAL_NOISE_INVALID :: u8 where "IW_QUAL_NOISE_INVALID \<equiv> 0x40"
abbreviation (input) IW_ENCODE_INDEX :: u16 where "IW_ENCODE_INDEX \<equiv> 0xff"
abbreviation (input) IW_ENCODE_DISABLED :: u16 where "IW_ENCODE_DISABLED \<equiv> 0x8000"
abbreviation (input) IW_ENCODE_ENABLED :: u16 where "IW_ENCODE_ENABLED \<equiv> 0"
abbreviation (input) IW_ENCODE_EXT_RX_SEQ_VALID :: u32 where "IW_ENCODE_EXT_RX_SEQ_VALID \<equiv> 2"
abbreviation (input) IW_ENCODE_EXT_GROUP_KEY :: u32 where "IW_ENCODE_EXT_GROUP_KEY \<equiv> 4"
abbreviation (input) IW_ENCODE_EXT_SET_TX_KEY :: u32 where "IW_ENCODE_EXT_SET_TX_KEY \<equiv> 8"
abbreviation (input) IW_ENCODE_ALG_NONE :: u16 where "IW_ENCODE_ALG_NONE \<equiv> 0"
abbreviation (input) IW_ENCODE_ALG_WEP :: u16 where "IW_ENCODE_ALG_WEP \<equiv> 1"
abbreviation (input) IW_ENCODE_ALG_TKIP :: u16 where "IW_ENCODE_ALG_TKIP \<equiv> 2"
abbreviation (input) IW_ENCODE_ALG_CCMP :: u16 where "IW_ENCODE_ALG_CCMP \<equiv> 3"
abbreviation (input) IW_ENCODE_NOKEY :: u16 where "IW_ENCODE_NOKEY \<equiv> 0x0800"
abbreviation (input) IW_MODE_MASTER :: u32 where "IW_MODE_MASTER \<equiv> 3"
abbreviation (input) IW_SCAN_MAX_DATA :: nat where "IW_SCAN_MAX_DATA \<equiv> 4096"
abbreviation (input) SIOCGIWNAME :: u16 where "SIOCGIWNAME \<equiv> 0x8b01"
abbreviation (input) SIOCGIWFREQ :: u16 where "SIOCGIWFREQ \<equiv> 0x8b05"
abbreviation (input) SIOCGIWMODE :: u16 where "SIOCGIWMODE \<equiv> 0x8b07"
abbreviation (input) SIOCGIWAP :: u16 where "SIOCGIWAP \<equiv> 0x8b15"
abbreviation (input) SIOCGIWESSID :: u16 where "SIOCGIWESSID \<equiv> 0x8b1b"
abbreviation (input) SIOCGIWRATE :: u16 where "SIOCGIWRATE \<equiv> 0x8b21"
abbreviation (input) SIOCGIWENCODE :: u16 where "SIOCGIWENCODE \<equiv> 0x8b2b"
abbreviation (input) IWEVQUAL :: u16 where "IWEVQUAL \<equiv> 0x8c01"
abbreviation (input) IWEVCUSTOM :: u16 where "IWEVCUSTOM \<equiv> 0x8c02"
abbreviation (input) IWEVGENIE :: u16 where "IWEVGENIE \<equiv> 0x8c05"
abbreviation (input) IW_EV_LCP_LEN :: nat where "IW_EV_LCP_LEN \<equiv> 4"
abbreviation (input) IW_EV_CHAR_LEN :: nat where "IW_EV_CHAR_LEN \<equiv> 20"
abbreviation (input) IW_EV_UINT_LEN :: nat where "IW_EV_UINT_LEN \<equiv> 8"
abbreviation (input) IW_EV_FREQ_LEN :: nat where "IW_EV_FREQ_LEN \<equiv> 12"
abbreviation (input) IW_EV_PARAM_LEN :: nat where "IW_EV_PARAM_LEN \<equiv> 12"
abbreviation (input) IW_EV_ADDR_LEN :: nat where "IW_EV_ADDR_LEN \<equiv> 20"
abbreviation (input) IW_EV_QUAL_LEN :: nat where "IW_EV_QUAL_LEN \<equiv> 8"
abbreviation (input) IW_EV_POINT_LEN :: nat where "IW_EV_POINT_LEN \<equiv> 8"
abbreviation (input) IW_AUTH_INDEX :: u16 where "IW_AUTH_INDEX \<equiv> 0x0fff"
abbreviation (input) IW_AUTH_WPA_VERSION :: u16 where "IW_AUTH_WPA_VERSION \<equiv> 0"
abbreviation (input) IW_AUTH_CIPHER_PAIRWISE :: u16 where "IW_AUTH_CIPHER_PAIRWISE \<equiv> 1"
abbreviation (input) IW_AUTH_CIPHER_GROUP :: u16 where "IW_AUTH_CIPHER_GROUP \<equiv> 2"
abbreviation (input) IW_AUTH_KEY_MGMT :: u16 where "IW_AUTH_KEY_MGMT \<equiv> 3"
abbreviation (input) IW_AUTH_TKIP_COUNTERMEASURES :: u16 where "IW_AUTH_TKIP_COUNTERMEASURES \<equiv> 4"
abbreviation (input) IW_AUTH_DROP_UNENCRYPTED :: u16 where "IW_AUTH_DROP_UNENCRYPTED \<equiv> 5"
abbreviation (input) IW_AUTH_80211_AUTH_ALG :: u16 where "IW_AUTH_80211_AUTH_ALG \<equiv> 6"
abbreviation (input) IW_AUTH_WPA_ENABLED :: u16 where "IW_AUTH_WPA_ENABLED \<equiv> 7"
abbreviation (input) IW_AUTH_RX_UNENCRYPTED_EAPOL :: u16 where "IW_AUTH_RX_UNENCRYPTED_EAPOL \<equiv> 8"
abbreviation (input) IW_AUTH_ROAMING_CONTROL :: u16 where "IW_AUTH_ROAMING_CONTROL \<equiv> 9"
abbreviation (input) IW_AUTH_PRIVACY_INVOKED :: u16 where "IW_AUTH_PRIVACY_INVOKED \<equiv> 10"
abbreviation (input) IW_AUTH_WPA_VERSION_WPA :: u32 where "IW_AUTH_WPA_VERSION_WPA \<equiv> 2"
abbreviation (input) IW_AUTH_WPA_VERSION_WPA2 :: u32 where "IW_AUTH_WPA_VERSION_WPA2 \<equiv> 4"
abbreviation (input) IW_AUTH_CIPHER_WEP40 :: u32 where "IW_AUTH_CIPHER_WEP40 \<equiv> 2"
abbreviation (input) IW_AUTH_CIPHER_TKIP :: u32 where "IW_AUTH_CIPHER_TKIP \<equiv> 4"
abbreviation (input) IW_AUTH_CIPHER_CCMP :: u32 where "IW_AUTH_CIPHER_CCMP \<equiv> 8"
abbreviation (input) IW_AUTH_CIPHER_WEP104 :: u32 where "IW_AUTH_CIPHER_WEP104 \<equiv> 0x10"
abbreviation (input) IW_AUTH_KEY_MGMT_802_1X :: u32 where "IW_AUTH_KEY_MGMT_802_1X \<equiv> 1"
abbreviation (input) IW_AUTH_KEY_MGMT_PSK :: u32 where "IW_AUTH_KEY_MGMT_PSK \<equiv> 2"
abbreviation (input) IW_AUTH_ALG_OPEN_SYSTEM :: u32 where "IW_AUTH_ALG_OPEN_SYSTEM \<equiv> 1"
abbreviation (input) IW_AUTH_ALG_SHARED_KEY :: u32 where "IW_AUTH_ALG_SHARED_KEY \<equiv> 2"

section \<open>Memory\<close>

text \<open>Writing to and reading from an object; \<open>None\<close> past its end.\<close>

definition mem_write :: "nat \<Rightarrow> u8 list \<Rightarrow> u8 list \<Rightarrow> u8 list option" where
  "mem_write off bs buf =
     (if off + length bs \<le> length buf
      then Some (take off buf @ bs @ drop (off + length bs) buf) else None)"

definition mem_read :: "nat \<Rightarrow> nat \<Rightarrow> u8 list \<Rightarrow> u8 list option" where
  "mem_read off n buf = (if off + n \<le> length buf then Some (take n (drop off buf)) else None)"

lemma unat_ucast_u8_u16 [simp]: "unat (ucast (x :: u8) :: u16) = unat x"
  using unsigned_less [of x, where ?'a = nat] by (simp add: unsigned_ucast_eq take_bit_eq_mod)

lemma unat_of_nat_u16: "m < 65536 \<Longrightarrow> unat (of_nat m :: u16) = m"
  by (simp add: unat_of_nat take_bit_eq_mod)

lemma mem_read_one: "i < length xs \<Longrightarrow> mem_read i 1 xs = Some [xs ! i]"
  by (cases "drop i xs") (auto simp: mem_read_def nth_via_drop)

lemma mem_read_Some: "mem_read off n buf = Some bs \<Longrightarrow> length bs = n"
  by (auto simp: mem_read_def split: if_splits)

lemma mem_write_length: "mem_write off bs buf = Some buf' \<Longrightarrow> length buf' = length buf"
  by (auto simp: mem_write_def split: if_splits)

lemma mem_write_read:
  "mem_write off bs buf = Some buf' \<Longrightarrow> mem_read off (length bs) buf' = Some bs"
  by (auto simp: mem_write_def mem_read_def split: if_splits)

end
