(* ===== verification/Wext_Radio.thy ===== *)
theory Wext_Radio
  imports Wext_Data
begin

text \<open>
  The pure functions of \<^verbatim>\<open>src/driver_src/wlan/lwlan_ioctl.c\<close>: channels and frequencies,
  the signal quality, and keys written as hexadecimal strings.
\<close>

section \<open>Channels and frequencies\<close>

definition ioctl_channel_to_freq_a :: "int \<Rightarrow> int" where
  "ioctl_channel_to_freq_a channel = 5000 + 5 * channel"

definition ioctl_channel_to_freq_bg :: "int \<Rightarrow> int" where
  "ioctl_channel_to_freq_bg channel = (if channel = 14 then 2484 else 2407 + 5 * channel)"

definition ioctl_channel_to_freq :: "int \<Rightarrow> int" where
  "ioctl_channel_to_freq channel =
     (if channel > 15 then ioctl_channel_to_freq_a channel else ioctl_channel_to_freq_bg channel)"

definition ioctl_freq_to_channel_a :: "int \<Rightarrow> int" where
  "ioctl_freq_to_channel_a freq = cdiv (freq - 5000) 5"

text \<open>The channel is an unsigned char here.\<close>

definition ioctl_freq_to_channel_bg :: "int \<Rightarrow> int" where
  "ioctl_freq_to_channel_bg freq =
     (if freq = 2484 then 14 else cdiv (freq - 2407) 5 mod 256)"

definition ioctl_freq_to_channel :: "int \<Rightarrow> int" where
  "ioctl_freq_to_channel freq =
     (if freq > 5000 then ioctl_freq_to_channel_a freq else ioctl_freq_to_channel_bg freq)"

lemmas channel_defs =
  ioctl_channel_to_freq_a_def ioctl_channel_to_freq_bg_def ioctl_channel_to_freq_def
  ioctl_freq_to_channel_a_def ioctl_freq_to_channel_bg_def ioctl_freq_to_channel_def

lemma cdiv_mult5: "0 \<le> c \<Longrightarrow> cdiv (5 * c) 5 = c"
  by (simp add: cdiv_nonneg)

lemma channel_freq_inverse:
  assumes "0 \<le> c" "c < 256"
  shows "ioctl_freq_to_channel (ioctl_channel_to_freq c) = c"
proof -
  consider "15 < c" | "c = 14" | "c \<le> 15" "c \<noteq> 14" by linarith
  then show ?thesis
  proof cases
    case 3
    then have "ioctl_channel_to_freq c = 2407 + 5 * c" "2407 + 5 * c \<le> 5000" "2407 + 5 * c \<noteq> 2484"
      by (simp_all add: ioctl_channel_to_freq_def ioctl_channel_to_freq_bg_def)
    then have "ioctl_freq_to_channel (ioctl_channel_to_freq c) = cdiv (5 * c) 5 mod 256"
      by (simp add: ioctl_freq_to_channel_def ioctl_freq_to_channel_bg_def)
    with assms show ?thesis by (simp add: cdiv_mult5)
  qed (use assms in \<open>simp_all add: channel_defs cdiv_mult5\<close>)
qed

lemma channel_freq_bounds:
  assumes "0 \<le> c" "c < 256"
  shows "1000 < ioctl_channel_to_freq c" "ioctl_channel_to_freq c < 6276"
  using assms by (auto simp: channel_defs)

text \<open>
  The loop that scales a frequency down to MHz.  Its counter is a signed char that is
  decremented before the test, so it wraps from -128 to 127.
\<close>

definition schar :: "int \<Rightarrow> int" where
  "schar x = (x + 128) mod 256 - 128"

lemma schar_small: "- 128 \<le> x \<Longrightarrow> x < 128 \<Longrightarrow> schar x = x"
  by (simp add: schar_def)

lemma schar_range: "- 128 \<le> schar x" "schar x < 128"
  using pos_mod_bound [of 256 "x + 128"] by (simp_all add: schar_def)

function scale_freq :: "int \<Rightarrow> int \<Rightarrow> int" where
  "scale_freq expon freq =
     (let e = schar (expon - 1) in if 0 \<le> e then scale_freq e (cdiv freq 10) else freq)"
  by auto
termination
proof (relation "measure (\<lambda>(x, f). nat (schar (x - 1) + 1))", goal_cases)
  case (2 x f e)
  then show ?case using schar_range [of "x - 1"] by (auto simp: schar_small)
qed auto

declare scale_freq.simps [simp del]

lemma scale_freq_stop: "- 128 < x \<Longrightarrow> x \<le> 0 \<Longrightarrow> scale_freq x f = f"
  by (subst scale_freq.simps) (simp add: schar_small)

lemma scale_freq_step: "0 < x \<Longrightarrow> x < 128 \<Longrightarrow> scale_freq x f = scale_freq (x - 1) (cdiv f 10)"
  by (subst scale_freq.simps) (simp add: schar_small)

lemma scale_freq_wrap: "scale_freq (-128) f = scale_freq 127 (cdiv f 10)"
  by (subst scale_freq.simps) (simp add: schar_def)

text \<open>The loop divides by ten as often as the counter says.\<close>

lemma scale_freq_power:
  assumes "n < 128" "0 \<le> f"
  shows "scale_freq (int n) f = f div 10 ^ n"
  using assms
proof (induction n arbitrary: f)
  case 0
  then show ?case by (simp add: scale_freq_stop)
next
  case (Suc n)
  have "scale_freq (int (Suc n)) f = scale_freq (int n) (f div 10)"
    using Suc.prems by (simp add: scale_freq_step cdiv_nonneg)
  also have "\<dots> = f div 10 div 10 ^ n"
    using Suc by (simp add: pos_imp_zdiv_nonneg_iff)
  also have "\<dots> = f div (10 * 10 ^ n)"
    by (rule zdiv_zmult2_eq [symmetric]) simp
  finally show ?case by simp
qed

section \<open>Signal quality\<close>

definition set_quality :: "iw_quality \<Rightarrow> u32 \<Rightarrow> int \<Rightarrow> iw_quality" where
  "set_quality iq rssi nv =
     \<lparr>qual = ucast ((rssi + 2) * 12 div 10 - 112),
      level = word_of_int (if sint rssi + nv \<le> 0 then sint rssi + nv else 0),
      noise = word_of_int nv,
      updated = IW_QUAL_ALL_UPDATED OR IW_QUAL_DBM\<rparr>"

section \<open>Keys as hexadecimal strings\<close>

definition hex_val :: "u8 \<Rightarrow> u32 option" where
  "hex_val c =
     (if 0x30 \<le> c \<and> c \<le> 0x39 then Some (ucast c - 0x30)
      else if 0x61 \<le> c \<and> c \<le> 0x66 then Some (ucast c - 0x61 + 10)
      else if 0x41 \<le> c \<and> c \<le> 0x46 then Some (ucast c - 0x41 + 10)
      else None)"

text \<open>How many bytes are still missing when the loop ends, and the bytes written.\<close>

fun key_loop :: "nat \<Rightarrow> u8 list \<Rightarrow> (nat \<times> u8 list) option" where
  "key_loop 0 s = Some (0, [])"
| "key_loop (Suc n) [] = None"
| "key_loop (Suc n) (c # s) =
     (case hex_val c of
        None \<Rightarrow> Some (Suc n, [])
      | Some v \<Rightarrow>
          (case s of
             [] \<Rightarrow> None
           | d # s' \<Rightarrow>
               (case hex_val d of
                  None \<Rightarrow> Some (Suc n, [])
                | Some v2 \<Rightarrow> do {
                    (r, bs) \<leftarrow> key_loop n s';
                    Some (r, ucast ((push_bit 4 v OR v2) AND 0xff) # bs)
                  })))"

definition ioctl_key_string2hex :: "u8 list \<Rightarrow> nat \<Rightarrow> (int \<times> u8 list) option" where
  "ioctl_key_string2hex string_buf max_len =
     (if max_len = 0 then Some (1, [])
      else do {
        (r, bs) \<leftarrow> key_loop max_len string_buf;
        Some (if r = 0 then 1 else 0, bs)
      })"

text \<open>The string form of a key: two digits a byte.\<close>

definition hex_digit :: "u8 \<Rightarrow> u8" where
  "hex_digit n = (if n < 10 then 0x30 + n else 0x57 + n)"

definition hex_string :: "u8 list \<Rightarrow> u8 list" where
  "hex_string bs = concat (map (\<lambda>b. [hex_digit (drop_bit 4 b), hex_digit (b AND 0xf)]) bs)"

lemma hex_val_digits:
  "\<forall>n \<in> set (map of_nat [0..<16]). hex_val (hex_digit n) = Some (ucast n)"
  by code_simp

lemma hex_val_digit:
  assumes "n < 16"
  shows "hex_val (hex_digit n) = Some (ucast n)"
proof -
  have "unat n \<in> set [0..<16]" using assms by (simp add: word_less_nat_alt)
  moreover have "n = of_nat (unat n)" by simp
  ultimately have "n \<in> set (map of_nat [0..<16])" by (metis image_eqI set_map)
  then show ?thesis using hex_val_digits by blast
qed

lemma nibbles_less: "drop_bit 4 (b :: u8) < 16" "(b :: u8) AND 0xf < 16"
proof -
  have "unat (drop_bit 4 b) < 16"
    using unsigned_less [of b, where ?'a = nat]
    by (simp add: drop_bit_eq_div unat_div less_mult_imp_div_less)
  then show "drop_bit 4 b < 16" by (simp add: word_less_nat_alt)
  have "b AND 0xf \<le> 0xf" by (rule word_and_le1)
  then show "b AND 0xf < 16" by (rule order.strict_trans1) simp
qed

lemma nibbles_join:
  "ucast ((push_bit 4 (ucast (drop_bit 4 (b :: u8))) OR ucast (b AND 0xf)) AND 0xff :: u32) = b"
proof -
  have m: "(0xf :: u8) = mask 4" "(0xff :: u32) = mask 8" by (simp_all add: mask_numeral)
  show ?thesis unfolding m
    by (rule bit_word_eqI) (auto simp: bit_simps dest: bit_imp_le_length)
qed

lemma key_loop_hex_string: "key_loop (length bs) (hex_string bs @ t) = Some (0, bs)"
proof (induction bs)
  case (Cons b bs)
  have "key_loop (length (b # bs)) (hex_string (b # bs) @ t) =
      do { (r, cs) \<leftarrow> key_loop (length bs) (hex_string bs @ t);
           Some (r, ucast ((push_bit 4 (ucast (drop_bit 4 b)) OR ucast (b AND 0xf)) AND 0xff :: u32) # cs) }"
    by (simp add: hex_string_def hex_val_digit nibbles_less del: push_bit_numeral)
  with Cons show ?case by (simp add: nibbles_join)
qed (simp add: hex_string_def)

end
