(* ===== verification/Wext_Handlers.thy ===== *)
theory Wext_Handlers
  imports Wext_Radio
begin

text \<open>
  The wireless-extension handlers of \<^verbatim>\<open>src/driver_src/wlan/lwlan_ioctl.c\<close> for name,
  frequency, mode, range, scanning, access point, network name, thresholds and rate.  Every
  handler takes the library, the request, the extra buffer and the adapter (what
  \<^verbatim>\<open>lwlan_get_netdev_priv\<close> leads to) and returns its result with their new values.
\<close>

section \<open>Name\<close>

definition ioctl_iw_get_name :: "'a wext_lib \<Rightarrow> 'a wext_handler" where
  "ioctl_iw_get_name L rq ex A =
     (if \<not> Adap_Driver_isWork L A then Some (-1, rq, ex, A)
      else (let dot_type = (ucast (Adap_Get_DotType L A) :: u8);
                name = (\<lambda>s. do {
                  n \<leftarrow> tdsp_strncpy (rq_name rq) (bytes_of s @ [0]) IFNAMSIZ;
                  Some (0, rq\<lparr>rq_name := n\<rparr>, ex, A) })
            in if dot_type = IEEE802_11_A then name ''802.11 a''
               else if dot_type = IEEE802_11_B then name ''802.11 b''
               else if dot_type = IEEE802_11_G then name ''802.11 g''
               else Some (- ENOTSUPP, rq, ex, A)))"

section \<open>Frequency\<close>

text \<open>The channel a request asks for: a channel number, or a frequency in Hz with exponent.\<close>

definition freq_channel :: "iw_freq \<Rightarrow> int option" where
  "freq_channel f =
     (if fq_e f = 0 \<and> 0 \<le> sint (fq_m f) \<and> sint (fq_m f) \<le> 1000 then Some (sint (fq_m f))
      else (let freq = scale_freq (schar (6 - sint (fq_e f))) (sint (fq_m f))
            in if freq \<le> 1000 then None else Some (ioctl_freq_to_channel freq)))"

definition ioctl_iw_set_freq :: "'a wext_lib \<Rightarrow> 'a wext_handler" where
  "ioctl_iw_set_freq L rq ex A =
     (if \<not> Adap_Driver_isWork L A then Some (-1, rq, ex, A)
      else if Adap_Get_Mode L A \<noteq> WLAN_MACMODE_IBSS_STA then Some (0, rq, ex, A)
      else case freq_channel (rq_freq rq) of
        None \<Rightarrow> Some (- EINVAL, rq, ex, A)
      | Some channel \<Rightarrow>
          (case Adap_Set_Defult_Channel L channel A of (r, A1) \<Rightarrow>
             if r \<noteq> 0 then Some (- EOPNOTSUPP, rq, ex, A1) else Some (0, rq, ex, A1)))"

definition ioctl_iw_get_freq :: "'a wext_lib \<Rightarrow> 'a wext_handler" where
  "ioctl_iw_get_freq L rq ex A =
     (if \<not> Adap_Driver_isWork L A then Some (-1, rq, ex, A)
      else Some (0, rq\<lparr>rq_freq := \<lparr>
             fq_m = word_of_int (ioctl_channel_to_freq (uint (Adap_Get_Channel L A)) * 100000),
             fq_e = 1, fq_flags = 1\<rparr>\<rparr>, ex, A))"

section \<open>Mode\<close>

definition ioctl_iw_set_bss_type :: "'a wext_lib \<Rightarrow> 'a wext_handler" where
  "ioctl_iw_set_bss_type L rq ex A =
     (if \<not> Adap_Driver_isWork L A then Some (-1, rq, ex, A)
      else if Adap_Has_Joined L A = 1 then Some (0, rq, ex, A)
      else if rq_mode rq = IW_MODE_ADHOC
        then Some (0, rq, ex, Adap_Set_Mode L WLAN_MACMODE_IBSS_STA A)
      else if rq_mode rq = IW_MODE_INFRA \<or> rq_mode rq = IW_MODE_AUTO
        then Some (0, rq, ex, Adap_Set_Mode L WLAN_MACMODE_ESS_STA A)
      else Some (- EOPNOTSUPP, rq, ex, A))"

definition ioctl_iw_get_bss_type :: "'a wext_lib \<Rightarrow> 'a wext_handler" where
  "ioctl_iw_get_bss_type L rq ex A =
     (if \<not> Adap_Driver_isWork L A then Some (-1, rq, ex, A)
      else if Adap_Get_Mode L A = WLAN_MACMODE_IBSS_STA
        then Some (0, rq\<lparr>rq_mode := IW_MODE_ADHOC\<rparr>, ex, A)
      else Some (0, rq\<lparr>rq_mode := IW_MODE_INFRA\<rparr>, ex, A))"

section \<open>Range\<close>

text \<open>
  \<^verbatim>\<open>sizeof(struct iw_range)\<close> on i386 is 568.  The fields the handler leaves at the zero of
  its \<^verbatim>\<open>memset\<close>, or sets to zero itself, are left out, except the table of frequencies.
\<close>

definition IW_RANGE_SIZE :: u16 where "IW_RANGE_SIZE = 568"

definition ioctl_iw_get_range :: "'a wext_lib \<Rightarrow> 'a wext_handler" where
  "ioctl_iw_get_range L rq ex A =
     (if \<not> Adap_Driver_isWork L A then Some (-1, rq, ex, A)
      else (let n = Adap_Get_Channel_Num L A;
                range = \<lparr>num_channels = ucast n, num_frequency = n,
                  range_freq = replicate 32 \<lparr>fq_m = 0, fq_e = 0, fq_flags = 0\<rparr>,
                  max_qual = \<lparr>qual = 100, level = 100, noise = 0, updated = IW_QUAL_NOISE_INVALID\<rparr>,
                  avg_qual = \<lparr>qual = 50, level = 50, noise = 0, updated = IW_QUAL_NOISE_INVALID\<rparr>,
                  sensitivity = 0,
                  bitrate = [1000000, 2000000, 5500000, 11000000, 6000000, 9000000, 12000000,
                     18000000, 24000000, 36000000, 48000000, 54000000] @ replicate 20 0,
                  num_bitrates = 12, retry_capa = 0x1000, retry_flags = 0x1000,
                  min_retry = 1, max_retry = 65535, min_rts = 256, max_rts = 2347,
                  min_frag = 256, max_frag = 2346,
                  encoding_size = [5, 13] @ replicate 6 0, num_encoding_sizes = 2,
                  max_encoding_tokens = 4, enc_capa = 1 OR 2 OR 4 OR 8,
                  we_version_source = 22, we_version_compiled = 22\<rparr>
            in Some (0, rq\<lparr>rq_point := (rq_point rq)\<lparr>pt_length := IW_RANGE_SIZE\<rparr>\<rparr>,
                     ex\<lparr>ex_range := range\<rparr>, A)))"

section \<open>Scanning, access point and network name\<close>

definition ioctl_iw_start_scan :: "'a wext_lib \<Rightarrow> 'a wext_handler" where
  "ioctl_iw_start_scan L rq ex A = (case Adap_Start_Scan L A of (r, A1) \<Rightarrow> Some (r, rq, ex, A1))"

definition ioctl_iw_get_ap :: "'a wext_lib \<Rightarrow> 'a wext_handler" where
  "ioctl_iw_get_ap L rq ex A =
     (if \<not> Adap_Driver_isWork L A then Some (-1, rq, ex, A)
      else do {
        bssid \<leftarrow> mem_write 0 (Adap_Get_BSSID L A) (replicate 6 0);
        d \<leftarrow> mem_write 0 bssid (sa_data (rq_addr rq));
        Some (0, rq\<lparr>rq_addr := \<lparr>sa_family = ARPHRD_ETHER, sa_data = d\<rparr>\<rparr>, ex, A)
      })"

definition ioctl_iw_set_essid :: "'a wext_lib \<Rightarrow> 'a wext_handler" where
  "ioctl_iw_set_essid L rq ex A =
     (if \<not> Adap_Driver_isWork L A then Some (-1, rq, ex, A)
      else (let pt = rq_point rq;
                ssid_len = (if pt_flags pt \<noteq> 0 then pt_length pt else 0)
            in if 0 < pt_flags pt \<and> (pt_length pt = 0 \<or> IW_ESSID_MAX_SIZE < pt_length pt)
               then Some (- EINVAL, rq, ex, A)
               else (case Adap_Set_SSID L (ex_bytes ex) (ucast ssid_len) A of (r, A1) \<Rightarrow>
                  if r \<noteq> 0 then Some (- EPERM, rq, ex, A1) else Some (0, rq, ex, A1))))"

definition ioctl_iw_get_essid :: "'a wext_lib \<Rightarrow> 'a wext_handler" where
  "ioctl_iw_get_essid L rq ex A =
     (if \<not> Adap_Driver_isWork L A then Some (-1, rq, ex, A)
      else (case Adap_Get_SSID L A of (ssid, ssid_len) \<Rightarrow>
        if 0 < ssid_len \<and> ssid_len \<le> 32
        then do {
          s \<leftarrow> mem_read 0 (unat ssid_len) ssid;
          b \<leftarrow> mem_write 0 s (ex_bytes ex);
          Some (0, rq\<lparr>rq_point := \<lparr>pt_length = ucast ssid_len, pt_flags = 1\<rparr>\<rparr>,
                ex\<lparr>ex_bytes := b\<rparr>, A)
        }
        else Some (0, rq\<lparr>rq_point := (rq_point rq)\<lparr>pt_length := 0\<rparr>\<rparr>, ex, A)))"

section \<open>Thresholds and rate\<close>

definition ioctl_iw_set_rts :: "'a wext_lib \<Rightarrow> 'a wext_handler" where
  "ioctl_iw_set_rts L rq ex A =
     (if \<not> Adap_Driver_isWork L A then Some (-1, rq, ex, A)
      else (let p = rq_param rq; v = sint (ip_value p)
            in if ip_disabled p \<noteq> 0 \<or> v = -1 then Some (0, rq, ex, Adap_Set_Rts L (-1) A)
               else if v < 256 \<or> v > 2347 then Some (- EINVAL, rq, ex, A)
               else Some (0, rq, ex, Adap_Set_Rts L v A)))"

definition ioctl_iw_get_rts :: "'a wext_lib \<Rightarrow> 'a wext_handler" where
  "ioctl_iw_get_rts L rq ex A =
     (if \<not> Adap_Driver_isWork L A then Some (-1, rq, ex, A)
      else (let d = Adap_Get_Rts L A
            in Some (0, rq\<lparr>rq_param := (rq_param rq)\<lparr>ip_disabled := rts_disable d,
                                                  ip_value := rts_value d\<rparr>\<rparr>, ex, A)))"

definition ioctl_iw_set_frag :: "'a wext_lib \<Rightarrow> 'a wext_handler" where
  "ioctl_iw_set_frag L rq ex A =
     (if \<not> Adap_Driver_isWork L A then Some (-1, rq, ex, A)
      else (let p = rq_param rq; v = sint (ip_value p)
            in if ip_disabled p \<noteq> 0 \<or> v = -1 then Some (0, rq, ex, Adap_Set_Frag L (-1) A)
               else if v < 256 \<or> v > 2346 then Some (- EINVAL, rq, ex, A)
               else Some (0, rq, ex, Adap_Set_Frag L v A)))"

definition ioctl_iw_get_frag :: "'a wext_lib \<Rightarrow> 'a wext_handler" where
  "ioctl_iw_get_frag L rq ex A =
     (if \<not> Adap_Driver_isWork L A then Some (-1, rq, ex, A)
      else (let d = Adap_Get_Frag L A
            in Some (0, rq\<lparr>rq_param := (rq_param rq)\<lparr>ip_disabled := frag_disable d,
                                                  ip_value := frag_value d\<rparr>\<rparr>, ex, A)))"

text \<open>Sensitivity and transmit power are not supported.\<close>

definition ioctl_iw_set_sens :: "'a wext_handler" where
  "ioctl_iw_set_sens rq ex A = Some (- EOPNOTSUPP, rq, ex, A)"

definition ioctl_iw_get_sens :: "'a wext_handler" where
  "ioctl_iw_get_sens rq ex A = Some (- EOPNOTSUPP, rq, ex, A)"

definition ioctl_iw_set_tx_pow :: "'a wext_handler" where
  "ioctl_iw_set_tx_pow rq ex A = Some (- EOPNOTSUPP, rq, ex, A)"

definition ioctl_iw_get_tx_pow :: "'a wext_handler" where
  "ioctl_iw_get_tx_pow rq ex A = Some (- EOPNOTSUPP, rq, ex, A)"

definition ioctl_iw_set_rate :: "'a wext_lib \<Rightarrow> 'a wext_handler" where
  "ioctl_iw_set_rate L rq ex A =
     (if \<not> Adap_Driver_isWork L A then Some (-1, rq, ex, A)
      else (let p = rq_param rq; fix = (if ip_fixed p \<noteq> 0 then 1 else 0)
            in Some (0, rq, ex, Adap_Set_Rate L (sint (ip_value p)) fix A)))"

definition ioctl_iw_get_rate :: "'a wext_lib \<Rightarrow> 'a wext_handler" where
  "ioctl_iw_get_rate L rq ex A =
     (if \<not> Adap_Driver_isWork L A then Some (-1, rq, ex, A)
      else (let d = Adap_Get_Rate L A
            in Some (0, rq\<lparr>rq_param := (rq_param rq)\<lparr>ip_value := rate_value d,
                                                  ip_fixed := rate_fixed d\<rparr>\<rparr>, ex, A)))"

end
