(* ===== verification/Wext_Keys.thy ===== *)
theory Wext_Keys
  imports Wext_Handlers
begin

text \<open>
  Authentication and keys: the handlers \<^verbatim>\<open>_ioctl_iw_set_auth\<close> to
  \<^verbatim>\<open>_ioctl_iw_get_encode_ext\<close> of \<^verbatim>\<open>src/driver_src/wlan/lwlan_ioctl.c\<close>.
\<close>

section \<open>Authentication\<close>

text \<open>The two bytes the library gets for an authentication parameter it is told of.\<close>

definition auth_mode_value :: "u16 \<Rightarrow> u32 \<Rightarrow> (u8 \<times> u8) option" where
  "auth_mode_value index v =
     (if index = IW_AUTH_WPA_VERSION
      then Some (AUTH_WPA_VERSION,
                 if v = IW_AUTH_WPA_VERSION_WPA then WPA_VERSION_WPA
                 else if v = IW_AUTH_WPA_VERSION_WPA2 then WPA_VERSION_WPA2
                 else WPA_VERSION_NONE)
      else if index = IW_AUTH_CIPHER_PAIRWISE \<or> index = IW_AUTH_CIPHER_GROUP
      then Some (if index = IW_AUTH_CIPHER_PAIRWISE then AUTH_CIPHER_PAIRWISE
                 else AUTH_CIPHER_GROUP,
                 if v = IW_AUTH_CIPHER_WEP40 \<or> v = IW_AUTH_CIPHER_WEP104 then WEP_MODE_WEP
                 else if v = IW_AUTH_CIPHER_TKIP then WEP_MODE_TKIP
                 else if v = IW_AUTH_CIPHER_CCMP then WEP_MODE_AES
                 else WEP_MODE_NONE)
      else if index = IW_AUTH_KEY_MGMT
      then Some (AUTH_KEY_MGMT,
                 if v = IW_AUTH_KEY_MGMT_802_1X then KEY_MNG_1X
                 else if v = IW_AUTH_KEY_MGMT_PSK then KEY_MNG_PSK
                 else KEY_MNG_NONE)
      else if index = IW_AUTH_80211_AUTH_ALG
      then Some (AUTH_80211_AUTH_ALG,
                 if v = IW_AUTH_ALG_OPEN_SYSTEM then AUTH_ALG_OPEN
                 else if v = IW_AUTH_ALG_SHARED_KEY then AUTH_ALG_SHARED_KEY
                 else AUTH_ALG_NONE)
      else None)"

definition auth_ignored :: "u16 \<Rightarrow> bool" where
  "auth_ignored index \<longleftrightarrow>
     index = IW_AUTH_WPA_ENABLED \<or> index = IW_AUTH_TKIP_COUNTERMEASURES \<or>
     index = IW_AUTH_DROP_UNENCRYPTED \<or> index = IW_AUTH_RX_UNENCRYPTED_EAPOL \<or>
     index = IW_AUTH_PRIVACY_INVOKED"

definition ioctl_iw_set_auth :: "'a wext_lib \<Rightarrow> 'a wext_handler" where
  "ioctl_iw_set_auth L rq ex A =
     (if \<not> Adap_Driver_isWork L A then Some (-1, rq, ex, A)
      else (let index = ip_flags (rq_param rq) AND IW_AUTH_INDEX
            in case auth_mode_value index (ip_value (rq_param rq)) of
                 Some (mode, value) \<Rightarrow>
                   (case Adap_Set_Auth L mode value A of (r, A1) \<Rightarrow> Some (r, rq, ex, A1))
               | None \<Rightarrow> if auth_ignored index then Some (0, rq, ex, A)
                         else Some (- EINVAL, rq, ex, A)))"

definition ioctl_iw_get_auth :: "'a wext_lib \<Rightarrow> 'a wext_handler" where
  "ioctl_iw_get_auth L rq ex A =
     (if \<not> Adap_Driver_isWork L A then Some (-1, rq, ex, A)
      else (let index = ip_flags (rq_param rq) AND IW_AUTH_INDEX;
                reply = (\<lambda>v. rq\<lparr>rq_param := (rq_param rq)\<lparr>ip_value := v\<rparr>\<rparr>)
            in if index = IW_AUTH_CIPHER_PAIRWISE \<or> index = IW_AUTH_CIPHER_GROUP \<or>
                  index = IW_AUTH_KEY_MGMT \<or> index = IW_AUTH_WPA_VERSION
               then Some (- EOPNOTSUPP, rq, ex, A)
               else if index = IW_AUTH_TKIP_COUNTERMEASURES \<or> index = IW_AUTH_RX_UNENCRYPTED_EAPOL
                  \<or> index = IW_AUTH_ROAMING_CONTROL \<or> index = IW_AUTH_PRIVACY_INVOKED
               then Some (0, rq, ex, A)
               else if index = IW_AUTH_DROP_UNENCRYPTED
               then Some (0, reply (ucast (Adap_Is_Privacy_On L A)), ex, A)
               else if index = IW_AUTH_80211_AUTH_ALG
               then (let auth_alg = Adap_Get_Auth_Alg L A
                     in if auth_alg = AUTH_ALG_OPEN
                        then Some (0, reply IW_AUTH_ALG_OPEN_SYSTEM, ex, A)
                        else if auth_alg = AUTH_ALG_SHARED_KEY
                        then Some (0, reply IW_AUTH_ALG_SHARED_KEY, ex, A)
                        else Some (- EINVAL, rq, ex, A))
               else if index = IW_AUTH_WPA_ENABLED
               then Some (0, reply (ucast (Adap_Get_Key_Mng L A)), ex, A)
               else Some (- EOPNOTSUPP, rq, ex, A)))"

section \<open>WEP keys\<close>

text \<open>The key index of a request: 1 to 4 select a key, 0 the first one.\<close>

definition key_index :: "u16 \<Rightarrow> u8 option" where
  "key_index flags =
     (let index = (ucast (flags AND IW_ENCODE_INDEX) :: u8)
      in if index \<noteq> 0
         then if index < 1 \<or> index > 4 then None else Some (index - 1)
         else Some index)"

definition ioctl_iw_set_encode :: "'a wext_lib \<Rightarrow> 'a wext_handler" where
  "ioctl_iw_set_encode L rq ex A =
     (if \<not> Adap_Driver_isWork L A then Some (-1, rq, ex, A)
      else case key_index (pt_flags (rq_point rq)) of
        None \<Rightarrow> Some (- EINVAL, rq, ex, A)
      | Some index \<Rightarrow>
          if pt_flags (rq_point rq) AND IW_ENCODE_DISABLED \<noteq> 0
          then Some (0, rq, ex, Adap_Disalbe_Encode L index A)
          else Some (0, rq, ex,
                     Adap_Set_Encode L index (ex_bytes ex) (ucast (pt_length (rq_point rq))) A))"

definition ioctl_iw_get_encode :: "'a wext_lib \<Rightarrow> 'a wext_handler" where
  "ioctl_iw_get_encode L rq ex A =
     (if \<not> Adap_Driver_isWork L A then Some (-1, rq, ex, A)
      else case key_index (pt_flags (rq_point rq)) of
        None \<Rightarrow> Some (- EINVAL, rq, ex, A)
      | Some index \<Rightarrow>
          (let wep = Adap_Get_Encode L index A; erq = rq_point rq
           in if wep_len wep = 0
              then Some (0, rq\<lparr>rq_point := erq\<lparr>pt_length := 0,
                           pt_flags := pt_flags erq OR IW_ENCODE_DISABLED\<rparr>\<rparr>, ex, A)
              else do {
                k \<leftarrow> mem_read 0 (unat (wep_len wep)) (wep_bytes wep);
                b \<leftarrow> mem_write 0 k (ex_bytes ex);
                Some (0, rq\<lparr>rq_point := erq\<lparr>pt_length := ucast (wep_len wep),
                            pt_flags := pt_flags erq OR IW_ENCODE_ENABLED\<rparr>\<rparr>,
                      ex\<lparr>ex_bytes := b\<rparr>, A)
              }))"

section \<open>Extended keys\<close>

definition MAC_ADDR_IS_BCAST :: "u8 list \<Rightarrow> bool" where
  "MAC_ADDR_IS_BCAST addr = (take 6 addr = [0xff, 0xff, 0xff, 0xff, 0xff, 0xff])"

definition ext_wep_mode :: "u16 \<Rightarrow> u8 option" where
  "ext_wep_mode alg =
     (if alg = IW_ENCODE_ALG_WEP then Some WEP_MODE_WEP
      else if alg = IW_ENCODE_ALG_TKIP then Some WEP_MODE_TKIP
      else if alg = IW_ENCODE_ALG_CCMP then Some WEP_MODE_AES
      else None)"

definition flag01 :: "u32 \<Rightarrow> u32 \<Rightarrow> u8" where
  "flag01 flags m = (if flags AND m \<noteq> 0 then 1 else 0)"

text \<open>The key of a request, in a zeroed buffer, before the key bytes are copied.\<close>

definition add_key_of :: "iw_encode_ext \<Rightarrow> u8 \<Rightarrow> add_key option" where
  "add_key_of e index = do {
     rsc \<leftarrow> mem_read 0 8 (ext_rx_seq e);
     bss \<leftarrow> mem_read 0 6 (sa_data (ext_addr e));
     Some \<lparr>KeyRSC = rsc, BSS_ID = bss,
       is_group_key = flag01 (ext_flags e) IW_ENCODE_EXT_GROUP_KEY,
       is_tx_key = flag01 (ext_flags e) IW_ENCODE_EXT_SET_TX_KEY,
       keyRSC_valid = flag01 (ext_flags e) IW_ENCODE_EXT_RX_SEQ_VALID,
       wep_mode = 0, KeyIndex = index, KeyLength = ucast (ext_key_len e),
       KeyMaterial = replicate 32 0\<rparr>
   }"

text \<open>The combinations the handler refuses.\<close>

definition ext_refused :: "'a wext_lib \<Rightarrow> 'a \<Rightarrow> iw_encode_ext \<Rightarrow> u8 \<Rightarrow> add_key \<Rightarrow> bool" where
  "ext_refused L A e index k \<longleftrightarrow>
     is_group_key k = 0 \<and> (index \<noteq> 0 \<and> ext_alg e \<noteq> IW_ENCODE_ALG_WEP \<or>
                           Adap_Get_Mode L A = WLAN_MACMODE_IBSS_STA) \<or>
     is_group_key k = 0 \<and> (is_tx_key k = 0 \<or> index \<noteq> 0) \<or>
     MAC_ADDR_IS_BCAST (BSS_ID k) \<and> is_group_key k = 0 \<or>
     ext_key_len e \<notin> {5, 13, 16, 32}"

definition ioctl_iw_set_encode_ext :: "'a wext_lib \<Rightarrow> 'a wext_handler" where
  "ioctl_iw_set_encode_ext L rq ex A =
     (if \<not> Adap_Driver_isWork L A then Some (-1, rq, ex, A)
      else case key_index (pt_flags (rq_point rq)) of
        None \<Rightarrow> Some (- EINVAL, rq, ex, A)
      | Some index \<Rightarrow>
          (let e = ex_ext ex
           in if pt_flags (rq_point rq) AND IW_ENCODE_DISABLED \<noteq> 0
              then (case Adap_Remove_Key_Ext L index
                           (ucast (ext_flags e AND IW_ENCODE_EXT_GROUP_KEY)) A of
                      (r, A1) \<Rightarrow> Some (r, rq, ex, A1))
              else do {
                k \<leftarrow> add_key_of e index;
                case ext_wep_mode (ext_alg e) of
                  None \<Rightarrow> Some (- EINVAL, rq, ex, A)
                | Some m \<Rightarrow>
                    let k1 = k\<lparr>wep_mode := m\<rparr>
                    in if ext_refused L A e index k1 then Some (- EINVAL, rq, ex, A)
                       else do {
                         bs \<leftarrow> mem_read 0 (unat (ext_key_len e)) (ext_key e);
                         km \<leftarrow> mem_write 0 bs (KeyMaterial k1);
                         case Adap_Add_Key_Ext L index (k1\<lparr>KeyMaterial := km\<rparr>) A of
                           (r, A1) \<Rightarrow> Some (r, rq, ex, A1)
                       }
              }))"

text \<open>
  The request's flags are tested with \<^verbatim>\<open>!flags & mask\<close>, in which the negation comes first,
  and read again after the structure is cleared.  \<^verbatim>\<open>sizeof(struct iw_encode_ext)\<close> is 40.
\<close>

definition IW_ENCODE_EXT_SIZE :: int where "IW_ENCODE_EXT_SIZE = 40"

definition zero_ext :: "iw_encode_ext \<Rightarrow> iw_encode_ext" where
  "zero_ext e = \<lparr>ext_flags = 0, ext_rx_seq = replicate 8 0,
     ext_addr = \<lparr>sa_family = 0, sa_data = replicate 14 0\<rparr>, ext_alg = 0, ext_key_len = 0,
     ext_key = ext_key e\<rparr>"

definition ext_alg_of :: "u8 \<Rightarrow> u16 option" where
  "ext_alg_of m =
     (if m = WEP_MODE_WEP then Some IW_ENCODE_ALG_WEP
      else if m = WEP_MODE_TKIP then Some IW_ENCODE_ALG_TKIP
      else if m = WEP_MODE_AES then Some IW_ENCODE_ALG_CCMP
      else None)"

definition ioctl_iw_get_encode_ext :: "'a wext_lib \<Rightarrow> 'a wext_handler" where
  "ioctl_iw_get_encode_ext L rq ex A =
     (if \<not> Adap_Driver_isWork L A then Some (-1, rq, ex, A)
      else (let erq = rq_point rq; e = ex_ext ex;
                index = (ucast (pt_flags erq AND IW_ENCODE_INDEX) :: u8);
                not_flags = (if ext_flags e = 0 then 1 else 0)
            in if int (unat (pt_length erq)) - IW_ENCODE_EXT_SIZE < 0 then Some (- EINVAL, rq, ex, A)
               else if not_flags AND IW_ENCODE_EXT_GROUP_KEY \<noteq> 0 \<and> ext_alg e \<noteq> IW_ENCODE_ALG_WEP \<and>
                    (index \<noteq> 0 \<or> Adap_Get_Mode L A = WLAN_MACMODE_IBSS_STA)
               then Some (- EINVAL, rq, ex, A)
               else (let fl = IW_ENCODE_INDEX AND (ucast index + 1);
                         e0 = zero_ext e;
                         reply = (\<lambda>f e1. (rq\<lparr>rq_point := erq\<lparr>pt_flags := f\<rparr>\<rparr>, ex\<lparr>ex_ext := e1\<rparr>, A))
                     in if Adap_Is_Encode_Enabled L A = 0
                        then Some (0, reply (fl OR IW_ENCODE_DISABLED)
                                        (e0\<lparr>ext_alg := IW_ENCODE_ALG_NONE, ext_key_len := 0\<rparr>))
                        else case ext_alg_of (Adap_Get_Encode_Mode L
                                    (ucast (ext_flags e0 AND IW_ENCODE_EXT_GROUP_KEY)) A) of
                          None \<Rightarrow> Some (- EINVAL, reply fl e0)
                        | Some alg \<Rightarrow>
                            (let e1 = e0\<lparr>ext_alg := alg\<rparr>
                             in case Adap_Get_Encode_Key L index A of (key_len, key_buf) \<Rightarrow>
                               if key_len < 0 then Some (- EINVAL, reply fl e1)
                               else (let n = (word_of_int key_len :: u16) in do {
                                 k \<leftarrow> mem_read 0 (unat n) key_buf;
                                 km \<leftarrow> mem_write 0 k (ext_key e1);
                                 Some (0, reply (fl OR IW_ENCODE_ENABLED)
                                       (e1\<lparr>ext_key_len := n, ext_key := km\<rparr>))
                               })))))"

end
