(* ===== verification/Wext_Scan.thy ===== *)
theory Wext_Scan
  imports Wext_Keys
begin

text \<open>
  The scan results: \<^verbatim>\<open>_ioctl_sub_get_scan_res\<close> and \<^verbatim>\<open>_ioctl_iw_get_scan_res\<close> of
  \<^verbatim>\<open>src/driver_src/wlan/lwlan_ioctl.c\<close>.  The position \<^verbatim>\<open>cur_data\<close> is an offset in the
  buffer.  Each block that appends an event is a step; it returns whether the loop goes on, and
  a step that does not fit ends it with \<^verbatim>\<open>-E2BIG\<close>.  The steps are followed by what they
  compute on a stream that behaves as \<^verbatim>\<open>net/iw_handler.h\<close> documents.
\<close>

section \<open>The steps\<close>

type_synonym scan_state = "nat \<times> u8 list"
type_synonym scan_step = "scan_state \<Rightarrow> (bool \<times> scan_state) option"

definition ATH_DEFAULT_NOISE :: int where "ATH_DEFAULT_NOISE = -95"
definition MAX_IE_LENGTH :: nat where "MAX_IE_LENGTH = 64 * 2 + 30"

definition event_step :: "iwe_stream \<Rightarrow> nat \<Rightarrow> u16 \<Rightarrow> iw_event_data \<Rightarrow> nat \<Rightarrow> scan_step" where
  "event_step K ends cmd d n st =
     (case st of (last_data, b) \<Rightarrow>
        (case iwe_stream_add_event K last_data ends \<lparr>ev_cmd = cmd, ev_data = d\<rparr> n b of
           (cur_data, b1) \<Rightarrow> Some (cur_data \<noteq> last_data, cur_data, b1)))"

text \<open>The kernel reads as many bytes from \<open>extra\<close> as the event says.\<close>

definition point_step :: "iwe_stream \<Rightarrow> nat \<Rightarrow> u16 \<Rightarrow> u16 \<Rightarrow> u16 \<Rightarrow> u8 list \<Rightarrow> scan_step" where
  "point_step K ends cmd n flags extra st =
     (case st of (last_data, b) \<Rightarrow>
        if length extra < unat n then None
        else case iwe_stream_add_point K last_data ends \<lparr>ev_cmd = cmd, ev_data = Ev_Point n flags\<rparr>
                    extra b of
               (cur_data, b1) \<Rightarrow> Some (cur_data \<noteq> last_data, cur_data, b1))"

definition bssid_step :: "iwe_stream \<Rightarrow> nat \<Rightarrow> scan_res \<Rightarrow> scan_step" where
  "bssid_step K ends r st = do {
     a \<leftarrow> mem_read 0 6 (sr_bssid r);
     event_step K ends SIOCGIWAP
       (Ev_Addr \<lparr>sa_family = ARPHRD_ETHER, sa_data = a @ replicate 8 0\<rparr>) IW_EV_ADDR_LEN st
   }"

definition ssid_step :: "iwe_stream \<Rightarrow> nat \<Rightarrow> scan_res \<Rightarrow> scan_step" where
  "ssid_step K ends r st = do {
     n \<leftarrow> mem_read 0 1 (sr_ssid r);
     point_step K ends SIOCGIWESSID (ucast (hd n)) 1 (drop 1 (sr_ssid r)) st
   }"

definition mode_step :: "iwe_stream \<Rightarrow> nat \<Rightarrow> scan_res \<Rightarrow> scan_step" where
  "mode_step K ends r st =
     (if cap_ess r \<or> cap_ibss r
      then event_step K ends SIOCGIWMODE
             (Ev_Mode (if cap_ess r then IW_MODE_MASTER else IW_MODE_ADHOC)) IW_EV_UINT_LEN st
      else Some (True, st))"

definition name_step :: "iwe_stream \<Rightarrow> nat \<Rightarrow> scan_res \<Rightarrow> scan_step" where
  "name_step K ends r =
     event_step K ends SIOCGIWNAME
       (Ev_Name (bytes_of (''IEEE 802.11'' @ (if is80211g r = 1 then ''g'' else ''b'')) @ replicate 4 0))
       IW_EV_CHAR_LEN"

definition freq_step :: "iwe_stream \<Rightarrow> nat \<Rightarrow> scan_res \<Rightarrow> scan_step" where
  "freq_step K ends r =
     event_step K ends SIOCGIWFREQ
       (Ev_Freq \<lparr>fq_m = word_of_int (ioctl_channel_to_freq (uint (sr_channel r)) * 100000),
                 fq_e = 1, fq_flags = 0\<rparr>) IW_EV_FREQ_LEN"

definition quality_step :: "iwe_stream \<Rightarrow> nat \<Rightarrow> scan_res \<Rightarrow> scan_step" where
  "quality_step K ends r =
     event_step K ends IWEVQUAL
       (Ev_Quality (set_quality \<lparr>qual = 0, level = 0, noise = 0, updated = 0\<rparr>
                      (ucast (sr_rssi r)) ATH_DEFAULT_NOISE)) IW_EV_QUAL_LEN"

definition encode_step :: "iwe_stream \<Rightarrow> nat \<Rightarrow> scan_res \<Rightarrow> scan_step" where
  "encode_step K ends r =
     point_step K ends SIOCGIWENCODE 0
       (if cap_privacy r then IW_ENCODE_ENABLED OR IW_ENCODE_NOKEY else IW_ENCODE_DISABLED) [0]"

definition rate_event :: "u8 \<Rightarrow> iw_event" where
  "rate_event x = \<lparr>ev_cmd = SIOCGIWRATE,
     ev_data = Ev_Rate \<lparr>ip_value = ucast (x AND 0x7f) * 500000, ip_fixed = 0, ip_disabled = 0,
                        ip_flags = 0\<rparr>\<rparr>"

fun rate_loop :: "iwe_stream \<Rightarrow> nat \<Rightarrow> nat \<Rightarrow> u8 list \<Rightarrow> scan_state \<Rightarrow> scan_state" where
  "rate_loop K cur_data ends [] st = st"
| "rate_loop K cur_data ends (x # xs) (cur_val, b) =
     rate_loop K cur_data ends xs
       (if x AND 0x7f \<noteq> 0
        then iwe_stream_add_value K cur_data cur_val ends (rate_event x) IW_EV_PARAM_LEN b
        else (cur_val, b))"

text \<open>
  When no rate was added the code compares the position with the one before, which has not
  changed, so the loop always ends there.
\<close>

definition rates_step :: "iwe_stream \<Rightarrow> nat \<Rightarrow> scan_res \<Rightarrow> scan_step" where
  "rates_step K ends r st =
     (case st of (cur_data, b) \<Rightarrow> do {
        n \<leftarrow> mem_read 0 1 (suprate r);
        rates \<leftarrow> mem_read 1 (unat (hd n)) (suprate r);
        let last_data = cur_data;
        let (cur_val, b1) = rate_loop K cur_data ends rates (cur_data + IW_EV_LCP_LEN, b);
        if cur_val - cur_data > IW_EV_LCP_LEN then Some (True, cur_val, b1)
        else Some (last_data \<noteq> cur_data, cur_data, b1)
      })"

text \<open>\<^verbatim>\<open>%u\<close>.\<close>

fun dec_string :: "nat \<Rightarrow> u8 list" where
  "dec_string n = (if n < 10 then [0x30 + of_nat n] else dec_string (n div 10) @ [0x30 + of_nat (n mod 10)])"

declare dec_string.simps [simp del]

definition beacon_step :: "iwe_stream \<Rightarrow> nat \<Rightarrow> scan_res \<Rightarrow> scan_step" where
  "beacon_step K ends r st =
     (let buf = bytes_of ''Beacon Interval:'' @ dec_string (unat (beaconinterval r)) @ [0] in do {
        n \<leftarrow> tdsp_strlen buf;
        point_step K ends IWEVCUSTOM (of_nat n) 0 buf st
      })"

definition ie_step :: "iwe_stream \<Rightarrow> nat \<Rightarrow> u16 \<Rightarrow> scan_res \<Rightarrow> scan_step" where
  "ie_step K ends off r st =
     (if off = 0xffff then Some (True, st)
      else do {
        l \<leftarrow> mem_read (unat off + 1) 1 (IEs r);
        let ie_length = unat (hd l);
        if ie_length + 2 > MAX_IE_LENGTH then Some (False, st)
        else do {
          buf \<leftarrow> mem_read (unat off) (ie_length + 2) (IEs r);
          point_step K ends IWEVGENIE (of_nat (ie_length + 2)) 0 buf st
        }
      })"

section \<open>The loops\<close>

fun run_steps :: "scan_step list \<Rightarrow> scan_step" where
  "run_steps [] st = Some (True, st)"
| "run_steps (f # fs) st = do {
     (ok, st1) \<leftarrow> f st;
     if ok then run_steps fs st1 else Some (False, st1)
   }"

definition ap_steps :: "iwe_stream \<Rightarrow> nat \<Rightarrow> scan_res \<Rightarrow> scan_step list" where
  "ap_steps K ends r =
     [bssid_step K ends r, ssid_step K ends r, mode_step K ends r, name_step K ends r,
      freq_step K ends r, quality_step K ends r, encode_step K ends r, rates_step K ends r,
      beacon_step K ends r, ie_step K ends (offset_wpa2 r) r, ie_step K ends (offset_wpa r) r]"

fun scan_loop :: "iwe_stream \<Rightarrow> nat \<Rightarrow> scan_res list \<Rightarrow> scan_state \<Rightarrow> (int \<times> scan_state) option" where
  "scan_loop K ends [] st = Some (0, st)"
| "scan_loop K ends (r # rs) (cur_data, b) =
     (if ends \<le> cur_data then Some (- E2BIG, cur_data, b)
      else do {
        (ok, st1) \<leftarrow> run_steps (ap_steps K ends r) (cur_data, b);
        if ok then scan_loop K ends rs st1 else Some (- E2BIG, st1)
      })"

definition ioctl_sub_get_scan_res :: "'a wext_lib \<Rightarrow> 'a \<Rightarrow> nat \<Rightarrow> u8 list \<Rightarrow> (int \<times> scan_state) option" where
  "ioctl_sub_get_scan_res L A ends b = scan_loop (iwe_lib L) ends (Adap_Get_Scan_Result L A) (0, b)"

definition ioctl_iw_get_scan_res :: "'a wext_lib \<Rightarrow> 'a wext_handler" where
  "ioctl_iw_get_scan_res L rq ex A =
     (if \<not> Adap_Driver_isWork L A then Some (-1, rq, ex, A)
      else (let len = unat (pt_length (rq_point rq));
                end_buf = (if len = 0 then IW_SCAN_MAX_DATA else len)
            in do {
              (res, actual_len, b) \<leftarrow> ioctl_sub_get_scan_res L A end_buf (ex_scan ex);
              Some (res, rq\<lparr>rq_point := (rq_point rq)\<lparr>pt_length := of_nat actual_len\<rparr>\<rparr>,
                    ex\<lparr>ex_scan := b\<rparr>, A)
            }))"

end
