(* ===== verification/Wext_Table.thy ===== *)
theory Wext_Table
  imports Wext_Scan Tdsp_System
begin

text \<open>
  The private handlers, the tables of handlers and the wireless statistics of
  \<^verbatim>\<open>src/driver_src/wlan/lwlan_ioctl.c\<close>, and a handler's call on a network device.
\<close>

section \<open>Private handlers\<close>

definition ioctl_priv_get_bytes_driver_ver :: "'a wext_handler" where
  "ioctl_priv_get_bytes_driver_ver rq ex A = do {
     b \<leftarrow> mem_write 0 (WLAN_DRV_VERSION @ [0]) (ex_bytes ex);
     n \<leftarrow> tdsp_strlen b;
     let b1 = map (\<lambda>x. if x = 0x20 \<or> x = 0x3a then 0x5f else x) (take n b) @ drop n b;
     Some (0, rq\<lparr>rq_point := (rq_point rq)\<lparr>pt_length := of_nat n\<rparr>\<rparr>, ex\<lparr>ex_bytes := b1\<rparr>, A)
   }"

text \<open>\<^verbatim>\<open>sprintf\<close> with \<^verbatim>\<open>0x%08x\<close>.\<close>

definition hex8 :: "u32 \<Rightarrow> u8 list" where
  "hex8 x = [0x30, 0x78] @
     map (\<lambda>i. hex_digit (ucast (drop_bit (4 * i) x AND 0xf))) [7, 6, 5, 4, 3, 2, 1, 0]"

definition ioctl_priv_get_bytes_dsp_ver :: "'a wext_lib \<Rightarrow> 'a wext_handler" where
  "ioctl_priv_get_bytes_dsp_ver L rq ex A = do {
     b \<leftarrow> mem_write 0 (hex8 (Adap_Get_Dsp_Version L A) @ [0]) (ex_bytes ex);
     Some (0, rq\<lparr>rq_point := (rq_point rq)\<lparr>pt_length := 10\<rparr>\<rparr>, ex\<lparr>ex_bytes := b\<rparr>, A)
   }"

definition ioctl_priv_set_string :: "'a wext_handler" where
  "ioctl_priv_set_string rq ex A = Some (- EOPNOTSUPP, rq, ex, A)"

text \<open>The default of the switch is a positive error number.\<close>

definition ioctl_priv_get_string :: "'a wext_lib \<Rightarrow> 'a wext_handler" where
  "ioctl_priv_get_string L rq ex A =
     (if pt_flags (rq_point rq) = 1 then ioctl_priv_get_bytes_driver_ver rq ex A
      else if pt_flags (rq_point rq) = 2 then ioctl_priv_get_bytes_dsp_ver L rq ex A
      else Some (EOPNOTSUPP, rq, ex, A))"

definition ioctl_priv_set_domain :: "'a wext_lib \<Rightarrow> u32 \<Rightarrow> 'a \<Rightarrow> int \<times> 'a" where
  "ioctl_priv_set_domain L domain_val A =
     (if domain_val \<in> {0, 1, 2, 3} then (0, Adap_Set_Domain L (ucast domain_val) A)
      else (- EINVAL, A))"

text \<open>The debug commands print registers and counters.\<close>

definition ioctl_priv_set_dbg_cmd :: "u32 \<Rightarrow> 'a \<Rightarrow> int \<times> 'a" where
  "ioctl_priv_set_dbg_cmd cmd A = (if cmd \<in> {0, 1, 2, 3, 4} then (0, A) else (- EINVAL, A))"

text \<open>The parameters \<^verbatim>\<open>DSP_PARAM__REG_DOMAIN\<close>, \<^verbatim>\<open>TX_PWR\<close> and \<^verbatim>\<open>DBG_CMD\<close>.\<close>

definition ioctl_priv_set_int :: "'a wext_lib \<Rightarrow> 'a wext_handler" where
  "ioctl_priv_set_int L rq ex A = do {
     p \<leftarrow> mem_read 0 4 (ex_bytes ex);
     v \<leftarrow> mem_read 4 4 (ex_bytes ex);
     let (r, A1) = (if rd32 p = 0 then ioctl_priv_set_domain L (rd32 v) A
                    else if rd32 p = 1 then (- EOPNOTSUPP, A)
                    else if rd32 p = 2 then ioctl_priv_set_dbg_cmd (rd32 v) A
                    else (EOPNOTSUPP, A));
     Some (r, rq, ex, A1)
   }"

definition ioctl_priv_get_int :: "'a wext_lib \<Rightarrow> 'a wext_handler" where
  "ioctl_priv_get_int L rq ex A = do {
     p \<leftarrow> mem_read 0 4 (ex_bytes ex);
     if rd32 p = 0 then do {
       b \<leftarrow> mem_write 0 (le32 (Adap_Get_Domain L A)) (ex_bytes ex);
       Some (0, rq, ex\<lparr>ex_bytes := b\<rparr>, A)
     }
     else if rd32 p = 1 then Some (- EOPNOTSUPP, rq, ex, A)
     else Some (EOPNOTSUPP, rq, ex, A)
   }"

section \<open>The tables\<close>

definition wdev_iwconfig_handler :: "'a wext_lib \<Rightarrow> 'a wext_handler option list" where
  "wdev_iwconfig_handler L =
     [None, Some (ioctl_iw_get_name L), None, None,
      Some (ioctl_iw_set_freq L), Some (ioctl_iw_get_freq L),
      Some (ioctl_iw_set_bss_type L), Some (ioctl_iw_get_bss_type L),
      Some ioctl_iw_set_sens, Some ioctl_iw_get_sens,
      None, Some (ioctl_iw_get_range L), None, None, None, None, None, None, None, None,
      None, Some (ioctl_iw_get_ap L), None, None,
      Some (ioctl_iw_start_scan L), Some (ioctl_iw_get_scan_res L),
      Some (ioctl_iw_set_essid L), Some (ioctl_iw_get_essid L), None, None, None, None,
      Some (ioctl_iw_set_rate L), Some (ioctl_iw_get_rate L),
      Some (ioctl_iw_set_rts L), Some (ioctl_iw_get_rts L),
      Some (ioctl_iw_set_frag L), Some (ioctl_iw_get_frag L),
      Some ioctl_iw_set_tx_pow, Some ioctl_iw_get_tx_pow, None, None,
      Some (ioctl_iw_set_encode L), Some (ioctl_iw_get_encode L),
      None, None, None, None, None, None,
      Some (ioctl_iw_set_auth L), Some (ioctl_iw_get_auth L),
      Some (ioctl_iw_set_encode_ext L), Some (ioctl_iw_get_encode_ext L), None]"

definition wdev_iwpriv_handler :: "'a wext_lib \<Rightarrow> 'a wext_handler option list" where
  "wdev_iwpriv_handler L =
     replicate 13 None @
     [Some (ioctl_priv_get_string L), Some ioctl_priv_set_string,
      Some (ioctl_priv_get_int L), Some (ioctl_priv_set_int L)] @ replicate 6 None"

definition wext_handlers :: "'a wext_lib \<Rightarrow> 'a wext_handler option list" where
  "wext_handlers L = wdev_iwconfig_handler L @ wdev_iwpriv_handler L"

text \<open>A handler called on a network device: the adapter is the one its private pointer leads to.\<close>

definition wext_call ::
  "'a wext_handler \<Rightarrow> addr \<Rightarrow> iwreq \<Rightarrow> iw_extra \<Rightarrow> ('a, 'b) clients \<Rightarrow>
   (int \<times> iwreq \<times> iw_extra \<times> ('a, 'b) clients) option" where
  "wext_call h n rq ex c = do {
     nd \<leftarrow> netdevs c n;
     d \<leftarrow> nd_priv nd;
     A \<leftarrow> wadap c d;
     (r, rq1, ex1, A1) \<leftarrow> h rq ex A;
     Some (r, rq1, ex1, c\<lparr>wadap := (wadap c)(d := Some A1)\<rparr>)
   }"

section \<open>Statistics\<close>

text \<open>
  \<^verbatim>\<open>_ioctl_iw_get_wireless_stats\<close> takes the adapter's \<^verbatim>\<open>net_device_stats\<close> for an
  \<^verbatim>\<open>iw_statistics\<close>.  On i386 the words of the former are, in order, the received and sent
  packets, the received and sent bytes, the receive and send errors and the dropped frames; over
  them lie the 16-bit status, the four bytes of the quality (at offset 2), and from offset 8 the
  discard counters nwid, code, fragment, retries and misc.  The missed-beacon counter lies over
  \<^verbatim>\<open>tx_dropped\<close>, which the driver never uses.
\<close>

record iw_statistics =
  st_status :: u16
  st_qual :: iw_quality
  disc_nwid :: u32
  disc_code :: u32
  disc_fragment :: u32
  disc_retries :: u32
  disc_misc :: u32

definition iw_stats_at :: "net_stats \<Rightarrow> iw_statistics" where
  "iw_stats_at s = \<lparr>st_status = ucast (rx_packets s),
     st_qual = \<lparr>qual = ucast (drop_bit 16 (rx_packets s)), level = ucast (drop_bit 24 (rx_packets s)),
                noise = ucast (tx_packets s), updated = ucast (drop_bit 8 (tx_packets s))\<rparr>,
     disc_nwid = rx_bytes s, disc_code = tx_bytes s, disc_fragment = rx_errors s,
     disc_retries = tx_errors s, disc_misc = rx_dropped s\<rparr>"

definition put_quality :: "iw_quality \<Rightarrow> net_stats \<Rightarrow> net_stats" where
  "put_quality q s = s\<lparr>
     rx_packets := (rx_packets s AND 0xffff) OR push_bit 16 (ucast (qual q))
                   OR push_bit 24 (ucast (level q)),
     tx_packets := (tx_packets s AND 0xffff0000) OR ucast (noise q)
                   OR push_bit 8 (ucast (updated q))\<rparr>"

definition clear_discard :: "net_stats \<Rightarrow> net_stats" where
  "clear_discard s = s\<lparr>rx_bytes := 0, tx_bytes := 0, rx_errors := 0, tx_errors := 0, rx_dropped := 0\<rparr>"

definition wireless_quality :: "'a wext_lib \<Rightarrow> 'a \<Rightarrow> iw_quality" where
  "wireless_quality L A =
     (if Adap_Has_Connected L A = 0
      then \<lparr>qual = 0, level = 0, noise = 0, updated = 7 OR IW_QUAL_ALL_UPDATED OR IW_QUAL_DBM\<rparr>
      else \<lparr>qual = 0, level = word_of_int (cdiv ((uint (Adap_Get_Rssi L A) + 2) * 12) 10), noise = 0,
            updated = IW_QUAL_QUAL_UPDATED OR IW_QUAL_DBM OR IW_QUAL_LEVEL_INVALID
                      OR IW_QUAL_NOISE_INVALID\<rparr>)"

definition ioctl_iw_get_wireless_stats ::
  "'a wext_lib \<Rightarrow> addr \<Rightarrow> ('a, 'b) clients \<Rightarrow> (iw_statistics \<times> ('a, 'b) clients) option" where
  "ioctl_iw_get_wireless_stats L n c = do {
     nd \<leftarrow> netdevs c n;
     d \<leftarrow> nd_priv nd;
     A \<leftarrow> wadap c d;
     s \<leftarrow> Adap_Get_Netstat (wlib c) A;
     st \<leftarrow> netstats c s;
     let st1 = put_quality (wireless_quality L A) (clear_discard st);
     Some (iw_stats_at st1, c\<lparr>netstats := (netstats c)(s := Some st1)\<rparr>)
   }"

text \<open>
  The event that tells user space of a new access point.  The last eight bytes of the address
  are what the stack holds.
\<close>

definition iw_send_bssid_to_up :: "u8 list \<Rightarrow> u8 list option \<Rightarrow> sockaddr option" where
  "iw_send_bssid_to_up stk bssid = do {
     b \<leftarrow> (case bssid of None \<Rightarrow> Some (replicate 6 0) | Some a \<Rightarrow> mem_read 0 6 a);
     d \<leftarrow> mem_write 0 b stk;
     Some \<lparr>sa_family = ARPHRD_ETHER, sa_data = d\<rparr>
   }"

end
