(* ===== verification/Wext_Scan_Spec.thy ===== *)
theory Wext_Scan_Spec
  imports Wext_Scan
begin

text \<open>
  What the scan results are: the concatenation of the access points' events, or an error when
  they do not fit or an access point has none of the rates.  A step is described by the bytes it
  appends (\<open>appends\<close>); sequences of steps append the concatenation.
\<close>

section \<open>The kernel's streams\<close>

text \<open>
  The bytes of an event, of an event with data, of the head of an event with values, and of a
  value, in the format of \<^verbatim>\<open>net/iw_handler.h\<close>: an event is appended when it ends before the
  end of the buffer, otherwise nothing changes; a value is appended at its place and the head of
  its event rewritten with the length so far.
\<close>

record iwe_format =
  fmt_event :: "iw_event \<Rightarrow> nat \<Rightarrow> u8 list"
  fmt_point :: "iw_event \<Rightarrow> u8 list \<Rightarrow> u8 list"
  fmt_head :: "u16 \<Rightarrow> nat \<Rightarrow> u8 list"
  fmt_value :: "iw_event \<Rightarrow> u8 list"

definition put :: "nat \<Rightarrow> u8 list \<Rightarrow> u8 list \<Rightarrow> u8 list" where
  "put p bs b = take p b @ bs @ drop (p + length bs) b"

definition iwe_laws :: "iwe_stream \<Rightarrow> iwe_format \<Rightarrow> bool" where
  "iwe_laws K E \<longleftrightarrow>
     (\<forall>v n. 4 \<le> n \<and> n \<le> 20 \<longrightarrow> length (fmt_event E v n) = n) \<and>
     (\<forall>c n. length (fmt_head E c n) = IW_EV_LCP_LEN) \<and>
     (\<forall>v. length (fmt_value E v) = IW_EV_PARAM_LEN - IW_EV_LCP_LEN) \<and>
     (\<forall>v xs. length (fmt_point E v xs) = IW_EV_POINT_LEN + length xs) \<and>
     (\<forall>p e v n b. 4 \<le> n \<and> n \<le> 20 \<longrightarrow> iwe_stream_add_event K p e v n b =
        (if p + n < e then (p + n, put p (fmt_event E v n) b) else (p, b))) \<and>
     (\<forall>p e c n fl xs b. iwe_stream_add_point K p e \<lparr>ev_cmd = c, ev_data = Ev_Point n fl\<rparr> xs b =
        (let bs = fmt_point E \<lparr>ev_cmd = c, ev_data = Ev_Point n fl\<rparr> (take (unat n) xs)
         in if p + IW_EV_POINT_LEN + unat n < e then (p + length bs, put p bs b) else (p, b))) \<and>
     (\<forall>p q e v b. iwe_stream_add_value K p q e v IW_EV_PARAM_LEN b =
        (if q + 8 < e
         then (q + 8, put p (fmt_head E (ev_cmd v) (q + 8 - p)) (put q (fmt_value E v) b))
         else (q, b)))"

lemma iwe_lens:
  assumes "iwe_laws K E"
  shows "4 \<le> n \<Longrightarrow> n \<le> 20 \<Longrightarrow> length (fmt_event E v n) = n" "length (fmt_head E c n) = 4"
    "length (fmt_value E v) = 8" "length (fmt_point E v xs) = 8 + length xs"
  using assms by (simp_all add: iwe_laws_def)

lemma iwe_runs:
  assumes "iwe_laws K E"
  shows "4 \<le> n \<Longrightarrow> n \<le> 20 \<Longrightarrow> iwe_stream_add_event K p e v n b =
      (if p + n < e then (p + n, put p (fmt_event E v n) b) else (p, b))"
    "iwe_stream_add_point K p e \<lparr>ev_cmd = c, ev_data = Ev_Point m fl\<rparr> xs b =
      (let bs = fmt_point E \<lparr>ev_cmd = c, ev_data = Ev_Point m fl\<rparr> (take (unat m) xs)
       in if p + 8 + unat m < e then (p + length bs, put p bs b) else (p, b))"
    "iwe_stream_add_value K p q e v 12 b =
      (if q + 8 < e then (q + 8, put p (fmt_head E (ev_cmd v) (q + 8 - p)) (put q (fmt_value E v) b))
       else (q, b))"
  using assms unfolding iwe_laws_def by blast+

section \<open>Writing in place\<close>

lemma put_Nil [simp]: "put p [] b = b"
  by (simp add: put_def)

lemma length_put [simp]: "p + length bs \<le> length b \<Longrightarrow> length (put p bs b) = length b"
  by (simp add: put_def)

lemma put_put_append:
  "p + length xs \<le> length b \<Longrightarrow> put (p + length xs) ys (put p xs b) = put p (xs @ ys) b"
  by (simp add: put_def ac_simps)

lemma put_head:
  assumes "length h = length h'" "p + length h \<le> length b"
  shows "put p h' (put p (h @ xs) b) = put p (h' @ xs) b"
  using assms by (simp add: put_def)

lemma put_before:
  assumes "p + length h + length w \<le> length b"
  shows "put p h (put (p + length h) w b) = put p (h @ w) b"
  using assms by (simp add: put_def add.assoc)

lemma take_put: "p + length bs \<le> length b \<Longrightarrow> take (p + length bs) (put p bs b) = take p b @ bs"
  by (simp add: put_def)

section \<open>Steps that append\<close>

definition appends :: "nat \<Rightarrow> scan_step \<Rightarrow> u8 list \<Rightarrow> bool \<Rightarrow> bool" where
  "appends ends f bs ok \<longleftrightarrow>
     (\<forall>p b. p < ends \<and> ends \<le> length b \<longrightarrow>
        (if ok \<and> (bs = [] \<or> p + length bs < ends)
         then f (p, b) = Some (True, p + length bs, put p bs b)
         else \<exists>q b1. f (p, b) = Some (False, q, b1) \<and> q < ends \<and> length b1 = length b))"

lemma appendsI:
  assumes "\<And>p b. p < ends \<Longrightarrow> ends \<le> length b \<Longrightarrow> ok \<Longrightarrow> bs = [] \<or> p + length bs < ends \<Longrightarrow>
      f (p, b) = Some (True, p + length bs, put p bs b)"
    and "\<And>p b. p < ends \<Longrightarrow> ends \<le> length b \<Longrightarrow> \<not> (ok \<and> (bs = [] \<or> p + length bs < ends)) \<Longrightarrow>
      \<exists>q b1. f (p, b) = Some (False, q, b1) \<and> q < ends \<and> length b1 = length b"
  shows "appends ends f bs ok"
  unfolding appends_def using assms by simp

lemma appends_fits:
  "appends ends f bs ok \<Longrightarrow> p < ends \<Longrightarrow> ends \<le> length b \<Longrightarrow> ok \<Longrightarrow> bs = [] \<or> p + length bs < ends \<Longrightarrow>
    f (p, b) = Some (True, p + length bs, put p bs b)"
  unfolding appends_def by simp

lemma appends_fails:
  fixes b :: "u8 list"
  assumes "appends ends f bs ok" "p < ends" "ends \<le> length b"
    "\<not> (ok \<and> (bs = [] \<or> p + length bs < ends))"
  obtains q b1 where "f (p, b) = Some (False, q, b1)" "q < ends" "length b1 = length b"
  using assms unfolding appends_def by metis

lemma appends_Nil: "appends ends (run_steps []) [] True"
  by (rule appendsI) auto

lemma appends_Cons:
  assumes f: "appends ends f bs1 ok1" and g: "appends ends (run_steps fs) bs2 ok2"
  shows "appends ends (run_steps (f # fs)) (bs1 @ bs2) (ok1 \<and> ok2)"
proof (rule appendsI)
  fix p and b :: "u8 list"
  assume p: "p < ends" "ends \<le> length b" and ok: "ok1 \<and> ok2"
    and fits: "bs1 @ bs2 = [] \<or> p + length (bs1 @ bs2) < ends"
  from fits have f1: "f (p, b) = Some (True, p + length bs1, put p bs1 b)"
    using ok by (intro appends_fits [OF f p]) auto
  moreover have "run_steps fs (p + length bs1, put p bs1 b) =
      Some (True, p + length bs1 + length bs2, put (p + length bs1) bs2 (put p bs1 b))"
    using ok p fits by (intro appends_fits [OF g]) auto
  ultimately show "run_steps (f # fs) (p, b) =
      Some (True, p + length (bs1 @ bs2), put p (bs1 @ bs2) b)"
    using fits p by (auto simp: put_put_append add.assoc)
next
  fix p and b :: "u8 list"
  assume p: "p < ends" "ends \<le> length b"
    and no: "\<not> ((ok1 \<and> ok2) \<and> (bs1 @ bs2 = [] \<or> p + length (bs1 @ bs2) < ends))"
  show "\<exists>q b1. run_steps (f # fs) (p, b) = Some (False, q, b1) \<and> q < ends \<and> length b1 = length b"
  proof (cases "ok1 \<and> (bs1 = [] \<or> p + length bs1 < ends)")
    case True
    then have f1: "f (p, b) = Some (True, p + length bs1, put p bs1 b)"
      using appends_fits [OF f p] by blast
    have p1: "p + length bs1 < ends" "ends \<le> length (put p bs1 b)" using True p by auto
    have "\<not> (ok2 \<and> (bs2 = [] \<or> p + length bs1 + length bs2 < ends))" using no True p by auto
    with g p1 obtain q b1 where "run_steps fs (p + length bs1, put p bs1 b) = Some (False, q, b1)"
      "q < ends" "length b1 = length (put p bs1 b)"
      by (rule appends_fails)
    with f1 p1 p show ?thesis by auto
  next
    case False
    with f p obtain q b1 where "f (p, b) = Some (False, q, b1)" "q < ends" "length b1 = length b"
      by (rule appends_fails)
    then show ?thesis by auto
  qed
qed

lemma run_steps_append:
  "run_steps (fs @ gs) st = do {
     (ok, st1) \<leftarrow> run_steps fs st;
     if ok then run_steps gs st1 else Some (False, st1)
   }"
proof (induction fs arbitrary: st)
  case (Cons f fs)
  then show ?case by (cases "f st") auto
qed simp

text \<open>Two steps described together.\<close>

lemma appends_pair:
  assumes "appends ends (run_steps [f, g]) bs1 ok1" "appends ends (run_steps fs) bs2 ok2"
  shows "appends ends (run_steps (f # g # fs)) (bs1 @ bs2) (ok1 \<and> ok2)"
proof -
  have "run_steps (f # g # fs) = run_steps (run_steps [f, g] # fs)"
  proof
    fix st
    show "run_steps (f # g # fs) st = run_steps (run_steps [f, g] # fs) st"
      using run_steps_append [of "[f, g]" fs st] by simp
  qed
  then show ?thesis using appends_Cons [OF assms] by simp
qed

section \<open>The steps of an access point\<close>

text \<open>The objects the library returns hold what their lengths say.\<close>

definition ie_in :: "scan_res \<Rightarrow> u16 \<Rightarrow> bool" where
  "ie_in r off \<longleftrightarrow> off = 0xffff \<or>
     unat off + 1 < length (IEs r) \<and> unat off + unat (IEs r ! (unat off + 1)) + 2 \<le> length (IEs r)"

definition scan_res_ok :: "scan_res \<Rightarrow> bool" where
  "scan_res_ok r \<longleftrightarrow>
     length (sr_bssid r) = 6 \<and> length (sr_ssid r) = 33 \<and> unat (sr_ssid r ! 0) \<le> 32 \<and>
     length (suprate r) = 13 \<and> unat (suprate r ! 0) \<le> 12 \<and> length (IEs r) = 440 \<and>
     ie_in r (offset_wpa r) \<and> ie_in r (offset_wpa2 r)"

text \<open>The rates of an access point, without those whose low seven bits are zero.\<close>

definition ap_rates :: "scan_res \<Rightarrow> u8 list" where
  "ap_rates r = filter (\<lambda>x. x AND 0x7f \<noteq> 0) (take (unat (suprate r ! 0)) (drop 1 (suprate r)))"

definition ie_short :: "scan_res \<Rightarrow> u16 \<Rightarrow> bool" where
  "ie_short r off \<longleftrightarrow> off = 0xffff \<or> unat (IEs r ! (unat off + 1)) + 2 \<le> MAX_IE_LENGTH"

definition reportable :: "scan_res \<Rightarrow> bool" where
  "reportable r \<longleftrightarrow> ap_rates r \<noteq> [] \<and> ie_short r (offset_wpa2 r) \<and> ie_short r (offset_wpa r)"

text \<open>The bytes of an access point's events, in order.\<close>

definition event_bytes :: "iwe_format \<Rightarrow> u16 \<Rightarrow> iw_event_data \<Rightarrow> nat \<Rightarrow> u8 list" where
  "event_bytes E cmd d n = fmt_event E \<lparr>ev_cmd = cmd, ev_data = d\<rparr> n"

definition point_bytes :: "iwe_format \<Rightarrow> u16 \<Rightarrow> u16 \<Rightarrow> u16 \<Rightarrow> u8 list \<Rightarrow> u8 list" where
  "point_bytes E cmd n flags xs = fmt_point E \<lparr>ev_cmd = cmd, ev_data = Ev_Point n flags\<rparr> (take (unat n) xs)"

definition rate_bytes :: "iwe_format \<Rightarrow> u8 list \<Rightarrow> u8 list" where
  "rate_bytes E xs = (if xs = [] then [] else
     fmt_head E SIOCGIWRATE (4 + 8 * length xs) @ concat (map (\<lambda>x. fmt_value E (rate_event x)) xs))"

definition beacon_text :: "scan_res \<Rightarrow> u8 list" where
  "beacon_text r = bytes_of ''Beacon Interval:'' @ dec_string (unat (beaconinterval r))"

definition ie_bytes :: "iwe_format \<Rightarrow> scan_res \<Rightarrow> u16 \<Rightarrow> u8 list" where
  "ie_bytes E r off = (if off = 0xffff then [] else
     let n = unat (IEs r ! (unat off + 1)) + 2
     in point_bytes E IWEVGENIE (of_nat n) 0 (take n (drop (unat off) (IEs r))))"

definition ap_bytes :: "iwe_format \<Rightarrow> scan_res \<Rightarrow> u8 list" where
  "ap_bytes E r =
     event_bytes E SIOCGIWAP (Ev_Addr \<lparr>sa_family = ARPHRD_ETHER, sa_data = sr_bssid r @ replicate 8 0\<rparr>) 20 @
     point_bytes E SIOCGIWESSID (ucast (sr_ssid r ! 0)) 1 (drop 1 (sr_ssid r)) @
     (if cap_ess r \<or> cap_ibss r
      then event_bytes E SIOCGIWMODE (Ev_Mode (if cap_ess r then IW_MODE_MASTER else IW_MODE_ADHOC)) 8
      else []) @
     event_bytes E SIOCGIWNAME
       (Ev_Name (bytes_of (''IEEE 802.11'' @ (if is80211g r = 1 then ''g'' else ''b'')) @ replicate 4 0)) 20 @
     event_bytes E SIOCGIWFREQ
       (Ev_Freq \<lparr>fq_m = word_of_int (ioctl_channel_to_freq (uint (sr_channel r)) * 100000),
                 fq_e = 1, fq_flags = 0\<rparr>) 12 @
     event_bytes E IWEVQUAL
       (Ev_Quality (set_quality \<lparr>qual = 0, level = 0, noise = 0, updated = 0\<rparr>
                      (ucast (sr_rssi r)) ATH_DEFAULT_NOISE)) 8 @
     point_bytes E SIOCGIWENCODE 0
       (if cap_privacy r then IW_ENCODE_ENABLED OR IW_ENCODE_NOKEY else IW_ENCODE_DISABLED) [0] @
     rate_bytes E (ap_rates r) @
     point_bytes E IWEVCUSTOM (of_nat (length (beacon_text r))) 0 (beacon_text r) @
     ie_bytes E r (offset_wpa2 r) @ ie_bytes E r (offset_wpa r)"

lemma event_step_appends:
  assumes "iwe_laws K E" "4 \<le> n" "n \<le> 20"
  shows "appends ends (event_step K ends cmd d n) (event_bytes E cmd d n) True"
proof -
  note len = iwe_lens(1) [OF assms] and run = iwe_runs(1) [OF assms]
  have "event_bytes E cmd d n \<noteq> []" using len assms(2) by (auto simp: event_bytes_def simp flip: length_0_conv)
  then show ?thesis using assms(2)
    by (intro appendsI) (auto simp: event_step_def event_bytes_def len run)
qed

lemma point_step_appends:
  assumes "iwe_laws K E" "unat n \<le> length xs"
  shows "appends ends (point_step K ends cmd n fl xs) (point_bytes E cmd n fl xs) True"
proof -
  note len = iwe_lens(4) [OF assms(1)] and run = iwe_runs(2) [OF assms(1)]
  have "length (point_bytes E cmd n fl xs) = 8 + unat n"
    using assms(2) by (simp add: point_bytes_def len)
  then show ?thesis using assms(2)
    by (intro appendsI) (auto simp: point_step_def point_bytes_def run Let_def)
qed

text \<open>The data past the length of the event is never read.\<close>

lemma point_bytes_more: "unat n \<le> length xs \<Longrightarrow> point_bytes E cmd n fl (xs @ ys) = point_bytes E cmd n fl xs"
  by (simp add: point_bytes_def)

lemma appends_cong: "appends ends f bs ok \<Longrightarrow> (\<And>st. g st = f st) \<Longrightarrow> appends ends g bs ok"
  by (simp add: appends_def)

lemma skip_appends: "appends ends (\<lambda>st. Some (True, st)) [] True"
  by (rule appendsI) auto

section \<open>The rates\<close>

lemma rate_loop_filter:
  "rate_loop K p e xs st = rate_loop K p e (filter (\<lambda>x. x AND 0x7f \<noteq> 0) xs) st"
  by (induction K p e xs st rule: rate_loop.induct) simp_all

lemma ev_cmd_rate [simp]: "ev_cmd (rate_event x) = SIOCGIWRATE"
  by (simp add: rate_event_def)

lemma rate_loop_more:
  assumes "iwe_laws K E" "\<forall>x\<in>set xs. x AND 0x7f \<noteq> 0" "length vs = 8 * k"
    and "p + 4 + 8 * (k + length xs) < e" "e \<le> length b"
  shows "rate_loop K p e xs (p + 4 + 8 * k, put p (fmt_head E SIOCGIWRATE (4 + 8 * k) @ vs) b) =
    (p + 4 + 8 * (k + length xs),
     put p (fmt_head E SIOCGIWRATE (4 + 8 * (k + length xs)) @ vs @
            concat (map (\<lambda>x. fmt_value E (rate_event x)) xs)) b)"
  using assms(2-5)
proof (induction xs arbitrary: k vs)
  case (Cons x xs)
  note len = iwe_lens [OF assms(1)] and run = iwe_runs(3) [OF assms(1)]
  let ?h = "\<lambda>k. fmt_head E SIOCGIWRATE (4 + 8 * k)" and ?w = "fmt_value E (rate_event x)"
  have "put (p + 4 + 8 * k) ?w (put p (?h k @ vs) b) = put p (?h k @ vs @ ?w) b"
    using put_put_append [of p "?h k @ vs" b ?w] Cons.prems len by (simp add: add.assoc)
  moreover have "put p (?h (Suc k)) (put p (?h k @ vs @ ?w) b) = put p (?h (Suc k) @ vs @ ?w) b"
    using Cons.prems len by (intro put_head) auto
  ultimately have "rate_loop K p e (x # xs) (p + 4 + 8 * k, put p (?h k @ vs) b) =
      rate_loop K p e xs (p + 4 + 8 * Suc k, put p (?h (Suc k) @ vs @ ?w) b)"
    using Cons.prems by (simp add: run add.assoc)
  also have "\<dots> = (p + 4 + 8 * (Suc k + length xs),
      put p (?h (Suc k + length xs) @ (vs @ ?w) @ concat (map (\<lambda>x. fmt_value E (rate_event x)) xs)) b)"
    using Cons.prems len by (intro Cons.IH) auto
  finally show ?case by simp
qed simp

lemma rate_loop_fits:
  assumes "iwe_laws K E" "\<forall>x\<in>set xs. x AND 0x7f \<noteq> 0" "xs \<noteq> []"
    and "p + 4 + 8 * length xs < e" "e \<le> length b"
  shows "rate_loop K p e xs (p + 4, b) = (p + 4 + 8 * length xs, put p (rate_bytes E xs) b)"
proof -
  note len = iwe_lens [OF assms(1)] and run = iwe_runs(3) [OF assms(1)]
  obtain x ys where xs: "xs = x # ys" using assms(3) by (cases xs) auto
  let ?h = "fmt_head E SIOCGIWRATE 12" and ?w = "fmt_value E (rate_event x)"
  have "put p ?h (put (p + 4) ?w b) = put p (?h @ ?w) b"
    using put_before [of p ?h ?w b] assms(4,5) len xs by simp
  then have "rate_loop K p e xs (p + 4, b) =
      rate_loop K p e ys (p + 4 + 8 * 1, put p (fmt_head E SIOCGIWRATE (4 + 8 * 1) @ ?w) b)"
    using assms(2,4) by (simp add: run xs add.assoc)
  also have "\<dots> = (p + 4 + 8 * length xs, put p (rate_bytes E xs) b)"
    using assms len xs by (subst rate_loop_more) (auto simp: rate_bytes_def)
  finally show ?thesis .
qed

text \<open>When they do not all fit, the position is left too close to the end for anything else.\<close>

lemma rate_loop_over:
  assumes "iwe_laws K E" "\<forall>x\<in>set xs. x AND 0x7f \<noteq> 0" "e \<le> length b" "p + 4 \<le> q"
  shows "\<exists>q1 b1. rate_loop K p e xs (q, b) = (q1, b1) \<and> length b1 = length b \<and> q \<le> q1 \<and>
    (q1 = q \<or> q1 < e) \<and> (xs \<noteq> [] \<and> e \<le> q + 8 * length xs \<longrightarrow> e \<le> q1 + 8)"
  using assms(2-4)
proof (induction xs arbitrary: q b)
  case (Cons x xs)
  note len = iwe_lens [OF assms(1)] and run = iwe_runs(3) [OF assms(1)]
  show ?case
  proof (cases "q + 8 < e")
    case True
    let ?b = "put p (fmt_head E SIOCGIWRATE (q + 8 - p)) (put q (fmt_value E (rate_event x)) b)"
    have l: "length ?b = length b" using Cons.prems True by (simp add: len)
    have "\<exists>q1 b1. rate_loop K p e xs (q + 8, ?b) = (q1, b1) \<and> length b1 = length ?b \<and>
        q + 8 \<le> q1 \<and> (q1 = q + 8 \<or> q1 < e) \<and>
        (xs \<noteq> [] \<and> e \<le> q + 8 + 8 * length xs \<longrightarrow> e \<le> q1 + 8)"
      using Cons.prems l by (intro Cons.IH) auto
    then show ?thesis using Cons.prems True l by (cases "xs = []") (auto simp: run)
  next
    case False
    have "\<exists>q1 b1. rate_loop K p e xs (q, b) = (q1, b1) \<and> length b1 = length b \<and> q \<le> q1 \<and>
        (q1 = q \<or> q1 < e) \<and> (xs \<noteq> [] \<and> e \<le> q + 8 * length xs \<longrightarrow> e \<le> q1 + 8)"
      using Cons.prems by (intro Cons.IH) auto
    then show ?thesis using Cons.prems False by (cases "xs = []") (auto simp: run)
  qed
qed simp

section \<open>The other steps\<close>

lemma dec_string_nonzero: "0 \<notin> set (dec_string n)"
proof (induction n rule: dec_string.induct)
  case (1 n)
  have "(0x30 :: u8) + of_nat k \<noteq> 0" if "k < 10" for k
  proof -
    have "k \<in> set [0..<10]" using that by simp
    moreover have "\<forall>k\<in>set [0..<10]. (0x30 :: u8) + of_nat k \<noteq> 0" by code_simp
    ultimately show ?thesis by blast
  qed
  with 1 show ?case by (subst dec_string.simps) auto
qed

lemma dec_string_length: "n < 10 ^ Suc k \<Longrightarrow> length (dec_string n) \<le> Suc k"
proof (induction k arbitrary: n)
  case (Suc k)
  then have "n div 10 < 10 ^ Suc k" by (simp add: less_mult_imp_div_less)
  from Suc.IH [OF this] show ?case by (subst dec_string.simps) auto
qed (simp add: dec_string.simps)

lemma beacon_text_nonzero: "0 \<notin> set (beacon_text r)"
  using dec_string_nonzero [of "unat (beaconinterval r)"]
  by (simp add: beacon_text_def bytes_of_def of_char_def)

lemma beacon_text_length: "length (beacon_text r) \<le> 21"
  using dec_string_length [of "unat (beaconinterval r)" 4] unsigned_less [of "beaconinterval r", where ?'a = nat]
  by (simp add: beacon_text_def bytes_of_def)

lemma beacon_step_appends:
  assumes "iwe_laws K E"
  shows "appends ends (beacon_step K ends r)
    (point_bytes E IWEVCUSTOM (of_nat (length (beacon_text r))) 0 (beacon_text r)) True"
proof (rule appends_cong)
  let ?n = "of_nat (length (beacon_text r)) :: u16"
  have n: "unat ?n = length (beacon_text r)"
    using beacon_text_length [of r] by (intro unat_of_nat_u16) simp
  then show "appends ends (point_step K ends IWEVCUSTOM ?n 0 (beacon_text r @ [0]))
      (point_bytes E IWEVCUSTOM ?n 0 (beacon_text r)) True"
    using point_step_appends [OF assms, of ?n "beacon_text r @ [0]"]
    by (simp add: point_bytes_more)
  show "beacon_step K ends r st = point_step K ends IWEVCUSTOM ?n 0 (beacon_text r @ [0]) st" for st
    using beacon_text_nonzero [of r]
    by (simp add: beacon_step_def strlen_spec flip: append_assoc beacon_text_def)
qed

lemma rates_step_run:
  assumes "scan_res_ok r"
  shows "rates_step K ends r (p, b) =
    (case rate_loop K p ends (ap_rates r) (p + 4, b) of
       (v, b1) \<Rightarrow> Some (if v - p > 4 then (True, v, b1) else (False, p, b1)))"
proof -
  have "mem_read 0 1 (suprate r) = Some [suprate r ! 0]"
    using assms by (intro mem_read_one) (auto simp: scan_res_ok_def)
  moreover have "mem_read 1 (unat (suprate r ! 0)) (suprate r) =
       Some (take (unat (suprate r ! 0)) (drop 1 (suprate r)))"
    using assms by (simp add: scan_res_ok_def mem_read_def)
  ultimately show ?thesis
    unfolding rates_step_def ap_rates_def
    by (subst rate_loop_filter [symmetric]) (simp split: prod.split)
qed

lemma rates_beacon_appends:
  assumes L: "iwe_laws K E" and r: "scan_res_ok r"
  shows "appends ends (run_steps [rates_step K ends r, beacon_step K ends r])
    (rate_bytes E (ap_rates r) @
     point_bytes E IWEVCUSTOM (of_nat (length (beacon_text r))) 0 (beacon_text r)) (ap_rates r \<noteq> [])"
    (is "appends ends ?f (?rb @ ?bb) _")
proof -
  note len = iwe_lens [OF L]
  have nz: "\<forall>x\<in>set (ap_rates r). x AND 0x7f \<noteq> 0" by (simp add: ap_rates_def)
  have rb: "length ?rb = 4 + 8 * length (ap_rates r)" if "ap_rates r \<noteq> []"
    using that by (simp add: rate_bytes_def len length_concat comp_def sum_list_triv)
  have bb: "8 \<le> length ?bb" by (simp add: point_bytes_def len)
  note beacon = beacon_step_appends [OF L, of ends r]
  have rates: "rates_step K ends r (p, b) = Some (True, p + length ?rb, put p ?rb b)"
    if "ap_rates r \<noteq> []" "p + length ?rb < ends" "ends \<le> length b" for p b
    using that rb by (simp add: rates_step_run [OF r] rate_loop_fits [OF L nz])
  show ?thesis
  proof (rule appendsI)
    fix p and b :: "u8 list"
    assume p: "p < ends" "ends \<le> length b" and ok: "ap_rates r \<noteq> []"
      and "?rb @ ?bb = [] \<or> p + length (?rb @ ?bb) < ends"
    then have f: "p + length ?rb + length ?bb < ends" using bb by auto
    then have "beacon_step K ends r (p + length ?rb, put p ?rb b) =
        Some (True, p + length ?rb + length ?bb, put (p + length ?rb) ?bb (put p ?rb b))"
      using p by (intro appends_fits [OF beacon]) auto
    with f p ok show "?f (p, b) = Some (True, p + length (?rb @ ?bb), put p (?rb @ ?bb) b)"
      by (simp add: rates put_put_append add.assoc)
  next
    fix p and b :: "u8 list"
    assume p: "p < ends" "ends \<le> length b"
      and no: "\<not> (ap_rates r \<noteq> [] \<and> (?rb @ ?bb = [] \<or> p + length (?rb @ ?bb) < ends))"
    have stuck: "\<exists>q b1. ?f (p, b) = Some (False, q, b1) \<and> q < ends \<and> length b1 = length b"
      if "rates_step K ends r (p, b) = Some (True, v, c)" "v < ends" "length c = length b"
        "ends \<le> v + length ?bb" for v c
    proof -
      have "ends \<le> length c" "\<not> (True \<and> (?bb = [] \<or> v + length ?bb < ends))"
        using that p bb by auto
      with beacon that(2) obtain q b1 where "beacon_step K ends r (v, c) = Some (False, q, b1)"
        "q < ends" "length b1 = length c"
        by (rule appends_fails)
      with that show ?thesis by simp
    qed
    consider "ap_rates r = []" | "ap_rates r \<noteq> []" "p + length ?rb < ends"
      | "ap_rates r \<noteq> []" "ends \<le> p + length ?rb" by linarith
    then show "\<exists>q b1. ?f (p, b) = Some (False, q, b1) \<and> q < ends \<and> length b1 = length b"
    proof cases
      case 1
      then show ?thesis using p by (simp add: rates_step_run [OF r])
    next
      case 2
      show ?thesis
        by (rule stuck [OF rates [OF 2 p(2)]]) (use 2 p no in auto)
    next
      case 3
      obtain v c where v: "rate_loop K p ends (ap_rates r) (p + 4, b) = (v, c)" "length c = length b"
        "p + 4 \<le> v" "v = p + 4 \<or> v < ends" "ends \<le> v + 8"
        using rate_loop_over [OF L nz p(2), of p "p + 4"] 3 rb by auto
      show ?thesis
      proof (cases "v = p + 4")
        case True
        then show ?thesis using v p by (simp add: rates_step_run [OF r])
      next
        case False
        then have "rates_step K ends r (p, b) = Some (True, v, c)"
          using v by (simp add: rates_step_run [OF r])
        then show ?thesis by (rule stuck) (use v False bb in auto)
      qed
    qed
  qed
qed

lemma bssid_step_appends:
  assumes "iwe_laws K E" "scan_res_ok r"
  shows "appends ends (bssid_step K ends r) (event_bytes E SIOCGIWAP
    (Ev_Addr \<lparr>sa_family = ARPHRD_ETHER, sa_data = sr_bssid r @ replicate 8 0\<rparr>) 20) True"
  by (rule appends_cong [OF event_step_appends [OF assms(1)]])
    (use assms(2) in \<open>simp_all add: bssid_step_def mem_read_def scan_res_ok_def\<close>)

lemma ssid_step_appends:
  assumes "iwe_laws K E" "scan_res_ok r"
  shows "appends ends (ssid_step K ends r)
    (point_bytes E SIOCGIWESSID (ucast (sr_ssid r ! 0)) 1 (drop 1 (sr_ssid r))) True"
proof (rule appends_cong [OF point_step_appends [OF assms(1)]])
  have r: "length (sr_ssid r) = 33" "unat (sr_ssid r ! 0) \<le> 32"
    using assms(2) by (auto simp: scan_res_ok_def)
  then show "unat (ucast (sr_ssid r ! 0) :: u16) \<le> length (drop 1 (sr_ssid r))" by simp
  show "ssid_step K ends r st = point_step K ends SIOCGIWESSID (ucast (sr_ssid r ! 0)) 1
      (drop 1 (sr_ssid r)) st" for st
    using r mem_read_one [of 0 "sr_ssid r"] by (simp add: ssid_step_def)
qed

lemma mode_step_appends:
  assumes "iwe_laws K E"
  shows "appends ends (mode_step K ends r) (if cap_ess r \<or> cap_ibss r
      then event_bytes E SIOCGIWMODE (Ev_Mode (if cap_ess r then IW_MODE_MASTER else IW_MODE_ADHOC)) 8
      else []) True"
proof (cases "cap_ess r \<or> cap_ibss r")
  case True
  show ?thesis unfolding if_P [OF True]
    by (rule appends_cong [OF event_step_appends [OF assms]]) (use True in \<open>auto simp: mode_step_def\<close>)
next
  case False
  show ?thesis unfolding if_not_P [OF False]
    by (rule appends_cong [OF skip_appends]) (use False in \<open>simp add: mode_step_def\<close>)
qed

lemma ie_step_appends:
  assumes "iwe_laws K E" "ie_in r off"
  shows "appends ends (ie_step K ends off r) (ie_bytes E r off) (ie_short r off)"
proof (cases "off = 0xffff")
  case True
  then have "ie_bytes E r off = []" "ie_short r off" by (simp_all add: ie_bytes_def ie_short_def)
  then show ?thesis
    by (simp, intro appends_cong [OF skip_appends]) (simp add: ie_step_def True)
next
  case False
  let ?n = "unat (IEs r ! (unat off + 1)) + 2"
  have i: "unat off + 1 < length (IEs r)" "unat off + ?n \<le> length (IEs r)"
    using assms(2) False by (auto simp: ie_in_def add.assoc)
  note read = mem_read_one [OF i(1)]
  show ?thesis
  proof (cases "?n \<le> MAX_IE_LENGTH")
    case True
    have u: "unat (of_nat ?n :: u16) = ?n"
      using True by (intro unat_of_nat_u16) (simp add: MAX_IE_LENGTH_def)
    have "appends ends (ie_step K ends off r)
        (point_bytes E IWEVGENIE (of_nat ?n) 0 (take ?n (drop (unat off) (IEs r)))) True"
    proof (rule appends_cong [OF point_step_appends [OF assms(1)]])
      show "unat (of_nat ?n :: u16) \<le> length (take ?n (drop (unat off) (IEs r)))"
        using u i(2) by simp
      show "ie_step K ends off r st = point_step K ends IWEVGENIE (of_nat ?n) 0
          (take ?n (drop (unat off) (IEs r))) st" for st
        using False True i(2) read by (simp add: ie_step_def mem_read_def [of "unat off"])
    qed
    then show ?thesis using False True by (simp add: ie_bytes_def ie_short_def Let_def)
  next
    case no: False
    then have "\<not> ie_short r off" using False by (simp add: ie_short_def)
    then show ?thesis
      using False no read by (intro appendsI) (auto simp: ie_step_def)
  qed
qed

section \<open>The whole answer\<close>

lemma ap_appends:
  assumes L: "iwe_laws K E" and r: "scan_res_ok r"
  shows "appends ends (run_steps (ap_steps K ends r)) (ap_bytes E r) (reportable r)"
proof -
  have ie: "ie_in r (offset_wpa2 r)" "ie_in r (offset_wpa r)" using r by (auto simp: scan_res_ok_def)
  have "appends ends (run_steps (ap_steps K ends r)) (ap_bytes E r @ [])
      (True \<and> True \<and> True \<and> True \<and> True \<and> True \<and> True \<and> (ap_rates r \<noteq> [] \<and>
        (ie_short r (offset_wpa2 r) \<and> (ie_short r (offset_wpa r) \<and> True))))"
    unfolding ap_steps_def ap_bytes_def append_assoc
    apply (rule appends_Cons [OF bssid_step_appends [OF L r]])
    apply (rule appends_Cons [OF ssid_step_appends [OF L r]])
    apply (rule appends_Cons [OF mode_step_appends [OF L]])
    apply (rule appends_Cons, simp add: name_step_def event_step_appends [OF L])
    apply (rule appends_Cons, simp add: freq_step_def event_step_appends [OF L])
    apply (rule appends_Cons, simp add: quality_step_def event_step_appends [OF L])
    apply (rule appends_Cons, simp add: encode_step_def point_step_appends [OF L])
    apply (subst append_assoc [symmetric], rule appends_pair [OF rates_beacon_appends [OF L r]])
    apply (rule appends_Cons [OF ie_step_appends [OF L ie(1)]])
    apply (rule appends_Cons [OF ie_step_appends [OF L ie(2)] appends_Nil])
    done
  then show ?thesis by (simp add: reportable_def)
qed

lemma ap_bytes_nonempty: "iwe_laws K E \<Longrightarrow> ap_bytes E r \<noteq> []"
  using iwe_lens(1) [of K E 20] by (auto simp: ap_bytes_def event_bytes_def simp flip: length_0_conv)

definition scan_bytes :: "iwe_format \<Rightarrow> scan_res list \<Rightarrow> u8 list" where
  "scan_bytes E rs = concat (map (ap_bytes E) rs)"

lemma scan_loop_result:
  assumes L: "iwe_laws K E" and "\<forall>r\<in>set rs. scan_res_ok r" "p < ends" "ends \<le> length b"
  shows "if (\<forall>r\<in>set rs. reportable r) \<and> (rs = [] \<or> p + length (scan_bytes E rs) < ends)
    then scan_loop K ends rs (p, b) = Some (0, p + length (scan_bytes E rs), put p (scan_bytes E rs) b)
    else \<exists>q b1. scan_loop K ends rs (p, b) = Some (- E2BIG, q, b1) \<and> q < ends \<and> length b1 = length b"
  using assms(2-4)
proof (induction rs arbitrary: p b)
  case (Cons r rs)
  let ?a = "ap_bytes E r"
  have f: "appends ends (run_steps (ap_steps K ends r)) ?a (reportable r)"
    using ap_appends [OF L] Cons.prems(1) by simp
  show ?case
  proof (cases "reportable r \<and> p + length ?a < ends")
    case True
    then have s: "run_steps (ap_steps K ends r) (p, b) = Some (True, p + length ?a, put p ?a b)"
      using appends_fits [OF f Cons.prems(2,3)] by blast
    have l: "length (put p ?a b) = length b" using True Cons.prems by simp
    have IH: "if (\<forall>r\<in>set rs. reportable r) \<and>
          (rs = [] \<or> p + length ?a + length (scan_bytes E rs) < ends)
        then scan_loop K ends rs (p + length ?a, put p ?a b) =
          Some (0, p + length ?a + length (scan_bytes E rs), put (p + length ?a) (scan_bytes E rs) (put p ?a b))
        else \<exists>q b1. scan_loop K ends rs (p + length ?a, put p ?a b) = Some (- E2BIG, q, b1) \<and>
          q < ends \<and> length b1 = length b"
      by (rule Cons.IH [of "p + length ?a" "put p ?a b", unfolded l]) (use True Cons.prems in auto)
    have e: "scan_bytes E (r # rs) = ?a @ scan_bytes E rs" by (simp add: scan_bytes_def)
    have "put (p + length ?a) (scan_bytes E rs) (put p ?a b) = put p (?a @ scan_bytes E rs) b"
      using True Cons.prems by (simp add: put_put_append)
    with IH s True Cons.prems(2) show ?thesis unfolding e
      by (cases "rs = []") (simp_all add: scan_bytes_def add.assoc split: if_splits)
  next
    case False
    then have "\<not> (reportable r \<and> (?a = [] \<or> p + length ?a < ends))"
      using ap_bytes_nonempty [OF L] by simp
    with f Cons.prems(2,3) obtain q b1 where "run_steps (ap_steps K ends r) (p, b) = Some (False, q, b1)"
      "q < ends" "length b1 = length b"
      by (rule appends_fails)
    then show ?thesis using False Cons.prems(2) by (auto simp: scan_bytes_def)
  qed
qed (simp add: scan_bytes_def)

text \<open>The end of the buffer a request leads to.\<close>

definition scan_end :: "iwreq \<Rightarrow> nat" where
  "scan_end rq = (if pt_length (rq_point rq) = 0 then IW_SCAN_MAX_DATA else unat (pt_length (rq_point rq)))"

lemma scan_end_pos: "0 < scan_end rq" "scan_end rq < 65536"
  using unsigned_less [of "pt_length (rq_point rq)", where ?'a = nat]
  by (auto simp: scan_end_def unat_gt_0)

lemma get_scan_res_runs:
  assumes L: "iwe_laws (iwe_lib L) E" and "Adap_Driver_isWork L A"
    and "\<forall>r\<in>set (Adap_Get_Scan_Result L A). scan_res_ok r" and "scan_end rq \<le> length (ex_scan ex)"
  obtains n b where
    "ioctl_iw_get_scan_res L rq ex A =
       Some (if (\<forall>r\<in>set (Adap_Get_Scan_Result L A). reportable r) \<and>
                (Adap_Get_Scan_Result L A = [] \<or>
                 length (scan_bytes E (Adap_Get_Scan_Result L A)) < scan_end rq)
             then 0 else - E2BIG,
             rq\<lparr>rq_point := (rq_point rq)\<lparr>pt_length := of_nat n\<rparr>\<rparr>, ex\<lparr>ex_scan := b\<rparr>, A)"
    "n < scan_end rq" "length b = length (ex_scan ex)"
    "(\<forall>r\<in>set (Adap_Get_Scan_Result L A). reportable r) \<and>
     (Adap_Get_Scan_Result L A = [] \<or> length (scan_bytes E (Adap_Get_Scan_Result L A)) < scan_end rq) \<Longrightarrow>
     n = length (scan_bytes E (Adap_Get_Scan_Result L A)) \<and>
     b = put 0 (scan_bytes E (Adap_Get_Scan_Result L A)) (ex_scan ex)"
proof -
  let ?rs = "Adap_Get_Scan_Result L A" and ?b = "ex_scan ex"
  let ?fits = "(\<forall>r\<in>set ?rs. reportable r) \<and> (?rs = [] \<or> length (scan_bytes E ?rs) < scan_end rq)"
  have h: "ioctl_iw_get_scan_res L rq ex A =
      (case scan_loop (iwe_lib L) (scan_end rq) ?rs (0, ?b) of None \<Rightarrow> None
       | Some (res, n, b) \<Rightarrow> Some (res, rq\<lparr>rq_point := (rq_point rq)\<lparr>pt_length := of_nat n\<rparr>\<rparr>,
                                  ex\<lparr>ex_scan := b\<rparr>, A))"
    using assms(2)
    by (auto simp: ioctl_iw_get_scan_res_def ioctl_sub_get_scan_res_def scan_end_def Let_def unat_eq_0
        split: bind_splits option.splits)
  note loop = scan_loop_result [OF L assms(3) scan_end_pos(1) [of rq] assms(4)]
  show ?thesis
  proof (cases ?fits)
    case True
    then have s: "scan_loop (iwe_lib L) (scan_end rq) ?rs (0, ?b) =
        Some (0, length (scan_bytes E ?rs), put 0 (scan_bytes E ?rs) ?b)"
      using loop by simp
    have n: "length (scan_bytes E ?rs) < scan_end rq"
      using True scan_end_pos(1) [of rq] by (auto simp: scan_bytes_def)
    then show ?thesis using True assms(4) by (intro that [unfolded h s]) auto
  next
    case False
    then obtain q b1 where s: "scan_loop (iwe_lib L) (scan_end rq) ?rs (0, ?b) = Some (- E2BIG, q, b1)"
      "q < scan_end rq" "length b1 = length ?b"
      using loop False by (simp split: if_splits) blast
    show ?thesis by (rule that [of q b1]) (use False h s in auto)
  qed
qed

end
