(* ===== verification/Wext_Args.thy ===== *)
theory Wext_Args
  imports Wext_Table Wext_Scan_Spec
begin

text \<open>
  The private commands of the WLAN driver as \<^verbatim>\<open>lwlan_ioctl.c\<close> advertises them to
  \<^verbatim>\<open>iwpriv\<close>, the structure that hands the tables to the wireless core, the buffers the core
  passes for them, and how the advertised commands and the handlers fit together.
\<close>

section \<open>The tables\<close>

definition SIOCIWFIRSTPRIV :: u32 where "SIOCIWFIRSTPRIV = 0x8be0"

abbreviation "DSP_RESET \<equiv> SIOCIWFIRSTPRIV + 1"
abbreviation "DSP_RESTART \<equiv> SIOCIWFIRSTPRIV + 2"
abbreviation "DSP_GET_PHY_MAC \<equiv> SIOCIWFIRSTPRIV + 3"
abbreviation "DSP_SET_PHY_MAC \<equiv> SIOCIWFIRSTPRIV + 4"
abbreviation "DSP_CTLDEV_GET_BYTES \<equiv> SIOCIWFIRSTPRIV + 13"
abbreviation "DSP_CTLDEV_SET_BYTES \<equiv> SIOCIWFIRSTPRIV + 14"
abbreviation "DSP_CTLDEV_GET_INT \<equiv> SIOCIWFIRSTPRIV + 15"
abbreviation "DSP_CTLDEV_SET_INT \<equiv> SIOCIWFIRSTPRIV + 16"
abbreviation "DSP_CTLDEV_HELP \<equiv> SIOCIWFIRSTPRIV + 17"

definition DSP_PARAM_DRIVER_VER :: u32 where "DSP_PARAM_DRIVER_VER = 1"
definition DSP_PARAM_DSP_VER :: u32 where "DSP_PARAM_DSP_VER = 2"
definition DSP_PARAM_REG_DOMAIN :: u32 where "DSP_PARAM_REG_DOMAIN = 0"
definition DSP_PARAM_TX_PWR :: u32 where "DSP_PARAM_TX_PWR = 1"
definition DSP_PARAM_DBG_CMD :: u32 where "DSP_PARAM_DBG_CMD = 2"
definition HELP_BUF_LEN :: u16 where "HELP_BUF_LEN = 2000"

abbreviation (input) IW_PRIV_TYPE_CHAR :: u16 where "IW_PRIV_TYPE_CHAR \<equiv> 0x2000"
abbreviation (input) IW_PRIV_TYPE_INT :: u16 where "IW_PRIV_TYPE_INT \<equiv> 0x4000"
abbreviation (input) IW_PRIV_SIZE_FIXED :: u16 where "IW_PRIV_SIZE_FIXED \<equiv> 0x0800"
abbreviation (input) IW_PRIV_SIZE_MASK :: u16 where "IW_PRIV_SIZE_MASK \<equiv> 0x07ff"

record iw_priv_args =
  ipa_cmd :: u32
  ipa_set_args :: u16
  ipa_get_args :: u16
  ipa_name :: string

definition priv_arg :: "u32 \<Rightarrow> u16 \<Rightarrow> u16 \<Rightarrow> string \<Rightarrow> iw_priv_args" where
  "priv_arg c s g n = \<lparr>ipa_cmd = c, ipa_set_args = s, ipa_get_args = g, ipa_name = n\<rparr>"

definition one_int :: u16 where
  "one_int = IW_PRIV_TYPE_INT OR IW_PRIV_SIZE_FIXED OR 1"

definition wdev_iwpriv_args :: "iw_priv_args list" where
  "wdev_iwpriv_args =
     [priv_arg DSP_RESET 0 0 ''reset'',
      priv_arg DSP_RESTART 0 0 ''restart'',
      priv_arg DSP_GET_PHY_MAC 0 (IW_PRIV_TYPE_CHAR OR 18) ''getMac'',
      priv_arg DSP_SET_PHY_MAC (IW_PRIV_TYPE_CHAR OR 18) 0 ''setMac'',
      priv_arg DSP_CTLDEV_GET_BYTES (IW_PRIV_TYPE_CHAR OR 512) (IW_PRIV_TYPE_CHAR OR 512) ''get_param_bytes'',
      priv_arg DSP_CTLDEV_SET_BYTES (IW_PRIV_TYPE_CHAR OR 512) 0 ''set_param_bytes'',
      priv_arg DSP_CTLDEV_GET_BYTES 0 (IW_PRIV_TYPE_CHAR OR 512) [],
      priv_arg DSP_CTLDEV_SET_BYTES (IW_PRIV_TYPE_CHAR OR 512) 0 [],
      priv_arg DSP_PARAM_DRIVER_VER 0 (IW_PRIV_TYPE_CHAR OR 512) ''driver_version'',
      priv_arg DSP_PARAM_DSP_VER 0 (IW_PRIV_TYPE_CHAR OR 512) ''dsp_version'',
      priv_arg DSP_CTLDEV_GET_INT one_int one_int ''get_param_int'',
      priv_arg DSP_CTLDEV_SET_INT (IW_PRIV_TYPE_INT OR IW_PRIV_SIZE_FIXED OR 2) 0 ''set_param_int'',
      priv_arg DSP_CTLDEV_GET_INT 0 one_int [],
      priv_arg DSP_CTLDEV_SET_INT one_int 0 [],
      priv_arg DSP_PARAM_REG_DOMAIN one_int 0 ''domain'',
      priv_arg DSP_PARAM_REG_DOMAIN 0 one_int ''get_domain'',
      priv_arg DSP_PARAM_TX_PWR one_int 0 ''tx_power'',
      priv_arg DSP_PARAM_TX_PWR 0 one_int ''get_tx_power'',
      priv_arg DSP_PARAM_DBG_CMD one_int 0 ''dbg_cmd'',
      priv_arg DSP_CTLDEV_HELP 0 (IW_PRIV_TYPE_CHAR OR HELP_BUF_LEN) ''help'']"

text \<open>\<^verbatim>\<open>struct iw_handler_def\<close> as the driver fills it.\<close>

record ('a, 'b) iw_handler_def =
  num_standard :: u16
  ihd_standard :: "'a wext_handler option list"
  num_private :: u16
  ihd_private :: "'a wext_handler option list"
  num_private_args :: u16
  ihd_private_args :: "iw_priv_args list"
  ihd_wireless_stats :: "addr \<Rightarrow> ('a, 'b) clients \<Rightarrow> (iw_statistics \<times> ('a, 'b) clients) option"

definition wlan_dev_iw_handler_def :: "'a wext_lib \<Rightarrow> ('a, 'b) iw_handler_def" where
  "wlan_dev_iw_handler_def L =
     \<lparr>num_standard = of_nat (length (wdev_iwconfig_handler L)),
      ihd_standard = wdev_iwconfig_handler L,
      num_private = of_nat (length (wdev_iwpriv_handler L)),
      ihd_private = wdev_iwpriv_handler L,
      num_private_args = of_nat (length wdev_iwpriv_args),
      ihd_private_args = wdev_iwpriv_args,
      ihd_wireless_stats = ioctl_iw_get_wireless_stats L\<rparr>"

section \<open>Commands and handlers\<close>

text \<open>The entry of a private command: its place in the table counts from \<^verbatim>\<open>SIOCIWFIRSTPRIV\<close>.\<close>

definition priv_handler :: "'a wext_lib \<Rightarrow> u32 \<Rightarrow> 'a wext_handler option" where
  "priv_handler L cmd =
     (let i = unat (cmd - SIOCIWFIRSTPRIV); D = (wlan_dev_iw_handler_def L :: ('a, unit) iw_handler_def)
      in if i < unat (num_private D) then ihd_private D ! i else None)"

text \<open>
  The advertised commands proper: the entries with a number below \<^verbatim>\<open>SIOCIWFIRSTPRIV\<close> name a
  parameter of one of them.
\<close>

definition priv_command :: "iw_priv_args \<Rightarrow> bool" where
  "priv_command a \<longleftrightarrow> SIOCIWFIRSTPRIV \<le> ipa_cmd a"

lemma handler_counts:
  "unat (num_standard (wlan_dev_iw_handler_def L)) = length (ihd_standard (wlan_dev_iw_handler_def L))"
  "unat (num_private (wlan_dev_iw_handler_def L)) = length (ihd_private (wlan_dev_iw_handler_def L))"
  "unat (num_private_args (wlan_dev_iw_handler_def L)) = length (ihd_private_args (wlan_dev_iw_handler_def L))"
  by (simp_all add: wlan_dev_iw_handler_def_def wdev_iwconfig_handler_def wdev_iwpriv_handler_def
      wdev_iwpriv_args_def)

lemma priv_handler_at:
  "k < 23 \<Longrightarrow> priv_handler L (SIOCIWFIRSTPRIV + of_nat k) = wdev_iwpriv_handler L ! k"
  by (simp add: priv_handler_def wlan_dev_iw_handler_def_def wdev_iwpriv_handler_def Let_def
      unat_of_nat take_bit_eq_mod)

text \<open>Five advertised commands have no handler: the core refuses them before the driver is asked.\<close>

lemma advertised_without_handler:
  "a \<in> set wdev_iwpriv_args \<Longrightarrow> priv_command a \<Longrightarrow>
   priv_handler L (ipa_cmd a) = None \<longleftrightarrow>
     ipa_name a \<in> {''reset'', ''restart'', ''getMac'', ''setMac'', ''help''}"
  by (auto simp: wdev_iwpriv_args_def priv_arg_def priv_command_def priv_handler_def
      wlan_dev_iw_handler_def_def wdev_iwpriv_handler_def Let_def SIOCIWFIRSTPRIV_def
      DSP_PARAM_DRIVER_VER_def DSP_PARAM_DSP_VER_def DSP_PARAM_REG_DOMAIN_def DSP_PARAM_TX_PWR_def
      DSP_PARAM_DBG_CMD_def nth_append nth_Cons' word_le_nat_alt)

text \<open>The bytes an answer may have: the count in the low bits, of characters or of integers.\<close>

definition priv_size :: "u16 \<Rightarrow> nat" where
  "priv_size args =
     unat (args AND IW_PRIV_SIZE_MASK) * (if args AND 0x7000 = IW_PRIV_TYPE_INT then 4 else 1)"

text \<open>
  The buffer the core passes with a private command: of the size the table advertises for the
  direction of the command, its parity, but the 16 bytes of the request's own union when there
  is nothing to copy or a fixed size fits it.
\<close>

definition priv_extra :: "u32 \<Rightarrow> nat" where
  "priv_extra cmd =
     (case find (\<lambda>a. ipa_cmd a = cmd) wdev_iwpriv_args of
        None \<Rightarrow> 16
      | Some a \<Rightarrow>
          (let args = (if bit cmd 0 then ipa_get_args a else ipa_set_args a); n = priv_size args
           in if n = 0 \<or> args AND IW_PRIV_SIZE_FIXED \<noteq> 0 \<and> n \<le> 16 then 16 else n))"

text \<open>
  The bytes the core passes with the request of number \<open>i\<close> in the two tables together: a
  network name has 32, a key 64, and the other standard requests have none.
\<close>

definition core_extra :: "nat \<Rightarrow> nat" where
  "core_extra i =
     (if i = 26 \<or> i = 27 then 32
      else if i = 42 \<or> i = 43 then 64
      else if i < 55 then 0
      else priv_extra (SIOCIWFIRSTPRIV + of_nat (i - 55)))"

lemma core_extra_priv: "core_extra 68 = 512" "core_extra 69 = 512" "core_extra 70 = 16" "core_extra 71 = 16"
  by (simp_all add: core_extra_def priv_extra_def wdev_iwpriv_args_def priv_arg_def priv_size_def one_int_def
      SIOCIWFIRSTPRIV_def DSP_PARAM_DRIVER_VER_def DSP_PARAM_DSP_VER_def DSP_PARAM_REG_DOMAIN_def
      DSP_PARAM_TX_PWR_def DSP_PARAM_DBG_CMD_def Let_def bit_0)

lemma length_WLAN_DRV_VERSION [simp]: "length WLAN_DRV_VERSION = 9"
  by (simp add: WLAN_DRV_VERSION_def bytes_of_def)

lemma get_string_answers:
  assumes "11 \<le> length (ex_bytes ex)" "pt_flags (rq_point rq) = 1 \<or> pt_flags (rq_point rq) = 2"
  shows "\<exists>rq1 ex1. ioctl_priv_get_string L rq ex A = Some (0, rq1, ex1, A) \<and>
    length (ex_bytes ex1) = length (ex_bytes ex) \<and> unat (pt_length (rq_point rq1)) \<le> 10"
  using assms(2)
proof
  assume f: "pt_flags (rq_point rq) = 1"
  let ?b = "WLAN_DRV_VERSION @ 0 # drop 10 (ex_bytes ex)"
  have b: "mem_write 0 (WLAN_DRV_VERSION @ [0]) (ex_bytes ex) = Some ?b" "length ?b = length (ex_bytes ex)"
    using assms(1) by (simp_all add: mem_write_def)
  have "0 \<notin> set WLAN_DRV_VERSION" by (simp add: WLAN_DRV_VERSION_def bytes_of_def)
  then have "tdsp_strlen ?b = Some 9" by (simp add: strlen_spec)
  with f b show ?thesis
    by (simp add: ioctl_priv_get_string_def ioctl_priv_get_bytes_driver_ver_def Let_def)
next
  assume "pt_flags (rq_point rq) = 2"
  with assms(1) show ?thesis
    by (auto simp: ioctl_priv_get_string_def ioctl_priv_get_bytes_dsp_ver_def hex8_def mem_write_def)
qed

text \<open>
  What the driver answers to the parameters it advertises fits the buffer of that size, which
  the core allocates for them.
\<close>

lemma advertised_answers_fit:
  assumes a: "a \<in> set wdev_iwpriv_args"
    and ex: "length (ex_bytes ex) = priv_size (ipa_get_args a)"
  shows "ipa_name a \<in> {''driver_version'', ''dsp_version''} \<Longrightarrow> pt_flags (rq_point rq) = ucast (ipa_cmd a) \<Longrightarrow>
      \<exists>rq1 ex1. ioctl_priv_get_string L rq ex A = Some (0, rq1, ex1, A) \<and>
        length (ex_bytes ex1) = length (ex_bytes ex) \<and> unat (pt_length (rq_point rq1)) \<le> 10"
    and "ipa_name a = ''get_domain'' \<Longrightarrow> rd32 (ex_bytes ex) = ipa_cmd a \<Longrightarrow>
      ioctl_priv_get_int L rq ex A = Some (0, rq, ex\<lparr>ex_bytes := le32 (Adap_Get_Domain L A)\<rparr>, A)"
    and "ipa_name a = ''get_tx_power'' \<Longrightarrow> rd32 (ex_bytes ex) = ipa_cmd a \<Longrightarrow>
      ioctl_priv_get_int L rq ex A = Some (- EOPNOTSUPP, rq, ex, A)"
proof -
  have sizes: "priv_size one_int = 4" "priv_size (IW_PRIV_TYPE_CHAR OR 512) = 512"
    by (simp_all add: priv_size_def one_int_def)
  show "ioctl_priv_get_int L rq ex A = Some (0, rq, ex\<lparr>ex_bytes := le32 (Adap_Get_Domain L A)\<rparr>, A)"
    if "ipa_name a = ''get_domain''" "rd32 (ex_bytes ex) = ipa_cmd a"
    using a ex that sizes
    by (auto simp: wdev_iwpriv_args_def priv_arg_def ioctl_priv_get_int_def mem_read_def mem_write_def
        DSP_PARAM_REG_DOMAIN_def)
  show "ioctl_priv_get_int L rq ex A = Some (- EOPNOTSUPP, rq, ex, A)"
    if "ipa_name a = ''get_tx_power''" "rd32 (ex_bytes ex) = ipa_cmd a"
    using a ex that sizes
    by (auto simp: wdev_iwpriv_args_def priv_arg_def ioctl_priv_get_int_def mem_read_def
        DSP_PARAM_TX_PWR_def)
  show "\<exists>rq1 ex1. ioctl_priv_get_string L rq ex A = Some (0, rq1, ex1, A) \<and>
        length (ex_bytes ex1) = length (ex_bytes ex) \<and> unat (pt_length (rq_point rq1)) \<le> 10"
    if "ipa_name a \<in> {''driver_version'', ''dsp_version''}" "pt_flags (rq_point rq) = ucast (ipa_cmd a)"
  proof -
    have n: "ipa_cmd a = 1 \<or> ipa_cmd a = 2" "11 \<le> length (ex_bytes ex)"
      using a ex that(1) sizes
      by (auto simp: wdev_iwpriv_args_def priv_arg_def DSP_PARAM_DRIVER_VER_def DSP_PARAM_DSP_VER_def)
    with that(2) get_string_answers [of ex rq L A] show ?thesis by auto
  qed
qed

text \<open>The power of the transmitter is advertised, but neither set nor read.\<close>

lemma tx_power_refused:
  assumes "8 \<le> length (ex_bytes ex)" "rd32 (ex_bytes ex) = DSP_PARAM_TX_PWR"
  shows "ioctl_priv_set_int L rq ex A = Some (- EOPNOTSUPP, rq, ex, A)"
  using assms by (simp add: ioctl_priv_set_int_def mem_read_def DSP_PARAM_TX_PWR_def)

end
