(* ===== verification/Wext_Spec.thy ===== *)
theory Wext_Spec
  imports Wext_Args
begin

text \<open>
  Properties of the wireless-extension handlers: memory safety and the pointers they keep, the
  frequencies and limits they agree on, the keys they let through, and how they mix with the
  rest of the WLAN driver.
\<close>

section \<open>What the handlers rely on\<close>

text \<open>
  The library writes objects of the sizes its header declares, the kernel's event functions
  append as documented, and none of its functions called
  here changes the pointers the driver stored in the adapter.
\<close>

definition wext_sizes :: "'a wext_lib \<Rightarrow> bool" where
  "wext_sizes L \<longleftrightarrow>
     (\<forall>A. length (Adap_Get_BSSID L A) = 6) \<and> (\<forall>A. length (fst (Adap_Get_SSID L A)) = 32) \<and>
     (\<forall>i A. length (wep_bytes (Adap_Get_Encode L i A)) = 16) \<and>
     (\<forall>i A. length (snd (Adap_Get_Encode_Key L i A)) = 16) \<and>
     (\<exists>E. iwe_laws (iwe_lib L) E) \<and> (\<forall>A. \<forall>r\<in>set (Adap_Get_Scan_Result L A). scan_res_ok r)"

text \<open>
  The keys the library has fit the 16 bytes its header and the handler give them.  Its header
  does not say so of the lengths, which are a byte and an \<^verbatim>\<open>int\<close>.
\<close>

definition keys_fit :: "'a wext_lib \<Rightarrow> 'a \<Rightarrow> bool" where
  "keys_fit L A \<longleftrightarrow>
     (\<forall>k. wep_len (Adap_Get_Encode L k A) \<le> 16) \<and> (\<forall>k. fst (Adap_Get_Encode_Key L k A) \<le> 16)"

definition wext_keeps :: "'a wext_lib \<Rightarrow> ('a \<Rightarrow> 'p) \<Rightarrow> bool" where
  "wext_keeps L ptrs \<longleftrightarrow>
     (\<forall>m A. ptrs (Adap_Set_Mode L m A) = ptrs A) \<and>
     (\<forall>c A. ptrs (snd (Adap_Set_Defult_Channel L c A)) = ptrs A) \<and>
     (\<forall>A. ptrs (snd (Adap_Start_Scan L A)) = ptrs A) \<and>
     (\<forall>s n A. ptrs (snd (Adap_Set_SSID L s n A)) = ptrs A) \<and>
     (\<forall>v A. ptrs (Adap_Set_Rts L v A) = ptrs A) \<and>
     (\<forall>v A. ptrs (Adap_Set_Frag L v A) = ptrs A) \<and>
     (\<forall>v f A. ptrs (Adap_Set_Rate L v f A) = ptrs A) \<and>
     (\<forall>m v A. ptrs (snd (Adap_Set_Auth L m v A)) = ptrs A) \<and>
     (\<forall>i A. ptrs (Adap_Disalbe_Encode L i A) = ptrs A) \<and>
     (\<forall>i k n A. ptrs (Adap_Set_Encode L i k n A) = ptrs A) \<and>
     (\<forall>i g A. ptrs (snd (Adap_Remove_Key_Ext L i g A)) = ptrs A) \<and>
     (\<forall>i k A. ptrs (snd (Adap_Add_Key_Ext L i k A)) = ptrs A) \<and>
     (\<forall>d A. ptrs (Adap_Set_Domain L d A) = ptrs A)"

text \<open>
  The structures the wireless core passes; the size of the extra bytes depends on the request
  (\<open>core_extra\<close>).
\<close>

definition wext_buffers :: "iwreq \<Rightarrow> iw_extra \<Rightarrow> bool" where
  "wext_buffers rq ex \<longleftrightarrow>
     length (rq_name rq) = 16 \<and> length (sa_data (rq_addr rq)) = 14 \<and>
     length (ext_rx_seq (ex_ext ex)) = 8 \<and> length (sa_data (ext_addr (ex_ext ex))) = 14 \<and>
     64 \<le> length (ext_key (ex_ext ex))"

text \<open>
  A handler is safe with at least \<open>n\<close> extra bytes on the adapters of \<open>K\<close>: it returns, and keeps
  the sizes and the pointers.
\<close>

definition wext_done :: "('a \<Rightarrow> 'p) \<Rightarrow> iw_extra \<Rightarrow> 'a \<Rightarrow> (int \<times> iwreq \<times> iw_extra \<times> 'a) option \<Rightarrow> bool" where
  "wext_done ptrs ex A res \<longleftrightarrow>
     (\<exists>r rq1 ex1 A1. res = Some (r, rq1, ex1, A1) \<and> wext_buffers rq1 ex1 \<and>
        length (ex_bytes ex1) = length (ex_bytes ex) \<and> ptrs A1 = ptrs A)"

lemma wext_doneI:
  "wext_buffers rq1 ex1 \<Longrightarrow> length (ex_bytes ex1) = length (ex_bytes ex) \<Longrightarrow> ptrs A1 = ptrs A \<Longrightarrow>
   wext_done ptrs ex A (Some (r, rq1, ex1, A1))"
  by (simp add: wext_done_def)

lemma wext_done_simps [simp]:
  "wext_done ptrs ex A (Some (r, rq1, ex1, A1)) \<longleftrightarrow>
     wext_buffers rq1 ex1 \<and> length (ex_bytes ex1) = length (ex_bytes ex) \<and> ptrs A1 = ptrs A"
  "\<not> wext_done ptrs ex A None"
  by (simp_all add: wext_done_def)

definition wext_ok :: "('a \<Rightarrow> 'p) \<Rightarrow> ('a \<Rightarrow> bool) \<Rightarrow> nat \<Rightarrow> 'a wext_handler \<Rightarrow> bool" where
  "wext_ok ptrs K n h \<longleftrightarrow>
     (\<forall>rq ex A. wext_buffers rq ex \<and> scan_end rq \<le> length (ex_scan ex) \<and> n \<le> length (ex_bytes ex) \<and> K A \<longrightarrow>
        wext_done ptrs ex A (h rq ex A))"

lemma wext_okI:
  assumes "\<And>rq ex A. wext_buffers rq ex \<Longrightarrow> n \<le> length (ex_bytes ex) \<Longrightarrow> K A \<Longrightarrow> wext_done ptrs ex A (h rq ex A)"
  shows "wext_ok ptrs K n h"
  using assms by (auto simp: wext_ok_def)

lemma wext_okD:
  assumes "wext_ok ptrs K n h" "wext_buffers rq ex" "scan_end rq \<le> length (ex_scan ex)"
    "n \<le> length (ex_bytes ex)" "K A"
  shows "wext_done ptrs ex A (h rq ex A)"
  using assms by (simp add: wext_ok_def)

lemmas mem_defs = mem_write_def mem_read_def

lemma wext_keeps_simps:
  assumes "wext_keeps L ptrs"
  shows "ptrs (Adap_Set_Mode L m A) = ptrs A" "ptrs (Adap_Set_Rts L v A) = ptrs A"
    "ptrs (Adap_Set_Frag L v A) = ptrs A" "ptrs (Adap_Set_Rate L v f A) = ptrs A"
    "ptrs (Adap_Disalbe_Encode L i A) = ptrs A" "ptrs (Adap_Set_Encode L i k n A) = ptrs A"
    "ptrs (Adap_Set_Domain L d A) = ptrs A"
  using assms by (simp_all add: wext_keeps_def)

lemma wext_keeps_pairs:
  assumes "wext_keeps L ptrs"
  shows "Adap_Set_Defult_Channel L c A = (r, A1) \<Longrightarrow> ptrs A1 = ptrs A"
    "Adap_Start_Scan L A = (r, A1) \<Longrightarrow> ptrs A1 = ptrs A"
    "Adap_Set_SSID L s n A = (r, A1) \<Longrightarrow> ptrs A1 = ptrs A"
    "Adap_Set_Auth L m v A = (r, A1) \<Longrightarrow> ptrs A1 = ptrs A"
    "Adap_Remove_Key_Ext L i g A = (r, A1) \<Longrightarrow> ptrs A1 = ptrs A"
    "Adap_Add_Key_Ext L i k A = (r, A1) \<Longrightarrow> ptrs A1 = ptrs A"
proof -
  have "ptrs (snd (Adap_Set_Defult_Channel L c A)) = ptrs A" "ptrs (snd (Adap_Start_Scan L A)) = ptrs A"
    "ptrs (snd (Adap_Set_SSID L s n A)) = ptrs A" "ptrs (snd (Adap_Set_Auth L m v A)) = ptrs A"
    "ptrs (snd (Adap_Remove_Key_Ext L i g A)) = ptrs A" "ptrs (snd (Adap_Add_Key_Ext L i k A)) = ptrs A"
    using assms by (simp_all add: wext_keeps_def)
  then show "Adap_Set_Defult_Channel L c A = (r, A1) \<Longrightarrow> ptrs A1 = ptrs A"
    "Adap_Start_Scan L A = (r, A1) \<Longrightarrow> ptrs A1 = ptrs A"
    "Adap_Set_SSID L s n A = (r, A1) \<Longrightarrow> ptrs A1 = ptrs A"
    "Adap_Set_Auth L m v A = (r, A1) \<Longrightarrow> ptrs A1 = ptrs A"
    "Adap_Remove_Key_Ext L i g A = (r, A1) \<Longrightarrow> ptrs A1 = ptrs A"
    "Adap_Add_Key_Ext L i k A = (r, A1) \<Longrightarrow> ptrs A1 = ptrs A"
    by simp_all
qed

lemma wext_ok_radio:
  assumes "wext_keeps L ptrs"
  shows "wext_ok ptrs K n (ioctl_iw_set_freq L)" "wext_ok ptrs K n (ioctl_iw_get_freq L)"
    "wext_ok ptrs K n (ioctl_iw_set_bss_type L)" "wext_ok ptrs K n (ioctl_iw_get_bss_type L)"
    "wext_ok ptrs K n (ioctl_iw_get_range L)" "wext_ok ptrs K n (ioctl_iw_start_scan L)"
    "wext_ok ptrs K n (ioctl_iw_set_essid L)"
  using wext_keeps_simps [OF assms] wext_keeps_pairs [OF assms]
  by (auto intro!: wext_okI
      simp: wext_buffers_def ioctl_iw_set_freq_def ioctl_iw_get_freq_def ioctl_iw_set_bss_type_def
        ioctl_iw_get_bss_type_def ioctl_iw_get_range_def ioctl_iw_start_scan_def
        ioctl_iw_set_essid_def Let_def split: prod.splits option.splits)

lemma wext_ok_param:
  assumes "wext_keeps L ptrs"
  shows "wext_ok ptrs K n (ioctl_iw_set_rts L)"
    "wext_ok ptrs K n (ioctl_iw_get_rts L)" "wext_ok ptrs K n (ioctl_iw_set_frag L)"
    "wext_ok ptrs K n (ioctl_iw_get_frag L)" "wext_ok ptrs K n (ioctl_iw_set_rate L)"
    "wext_ok ptrs K n (ioctl_iw_get_rate L)"
    "wext_ok ptrs K n ioctl_iw_set_sens" "wext_ok ptrs K n ioctl_iw_get_sens"
    "wext_ok ptrs K n ioctl_iw_set_tx_pow" "wext_ok ptrs K n ioctl_iw_get_tx_pow"
    "wext_ok ptrs K n (ioctl_iw_set_auth L)" "wext_ok ptrs K n (ioctl_iw_get_auth L)"
    "wext_ok ptrs K n (ioctl_iw_set_encode L)" "wext_ok ptrs K n ioctl_priv_set_string"
  using wext_keeps_simps [OF assms] wext_keeps_pairs [OF assms]
  by (auto intro!: wext_okI
      simp: wext_buffers_def ioctl_iw_set_rts_def ioctl_iw_get_rts_def
      ioctl_iw_set_frag_def ioctl_iw_get_frag_def ioctl_iw_set_rate_def ioctl_iw_get_rate_def
      ioctl_iw_set_sens_def ioctl_iw_get_sens_def ioctl_iw_set_tx_pow_def ioctl_iw_get_tx_pow_def
      ioctl_iw_set_auth_def ioctl_iw_get_auth_def ioctl_iw_set_encode_def ioctl_priv_set_string_def
      Let_def split: prod.splits option.splits)

lemma wext_ok_name: "wext_ok ptrs K k (ioctl_iw_get_name L)"
proof (rule wext_okI)
  fix rq ex A
  assume b: "wext_buffers rq ex"
  have n: "tdsp_strncpy (rq_name rq) (bytes_of s @ [0]) IFNAMSIZ =
      Some (take 16 (cstr (bytes_of s @ [0]) @ replicate 16 0))" for s
    using b by (subst strncpy_spec) (auto simp: wext_buffers_def)
  show "wext_done ptrs ex A (ioctl_iw_get_name L rq ex A)"
    using b by (auto simp: ioctl_iw_get_name_def n wext_buffers_def Let_def)
qed

text \<open>The two requests that copy a key out are safe when the key fits.\<close>

lemma wext_ok_memory:
  assumes "wext_sizes L"
  shows "wext_ok ptrs K n (ioctl_iw_get_ap L)" "32 \<le> n \<Longrightarrow> wext_ok ptrs K n (ioctl_iw_get_essid L)"
    "16 \<le> n \<Longrightarrow> (\<And>A. K A \<Longrightarrow> keys_fit L A) \<Longrightarrow> wext_ok ptrs K n (ioctl_iw_get_encode L)"
proof -
  have l: "length (Adap_Get_BSSID L A) = 6" "length (fst (Adap_Get_SSID L A)) = 32"
    "length (wep_bytes (Adap_Get_Encode L i A)) = 16" for A i
    using assms by (auto simp: wext_sizes_def)
  show "wext_ok ptrs K n (ioctl_iw_get_ap L)"
    by (rule wext_okI) (auto simp: ioctl_iw_get_ap_def mem_defs l wext_buffers_def)
  show "wext_ok ptrs K n (ioctl_iw_get_essid L)" if n: "32 \<le> n"
  proof (rule wext_okI)
    fix rq ex A
    assume b: "wext_buffers rq ex" "n \<le> length (ex_bytes ex)"
    obtain ssid k where e: "Adap_Get_SSID L A = (ssid, k)" by (cases "Adap_Get_SSID L A")
    have "length ssid = 32" using l(2) [of A] e by simp
    then show "wext_done ptrs ex A (ioctl_iw_get_essid L rq ex A)"
      using b n by (auto simp: ioctl_iw_get_essid_def e mem_defs wext_buffers_def word_le_nat_alt)
  qed
  show "wext_ok ptrs K n (ioctl_iw_get_encode L)" if n: "16 \<le> n" "\<And>A. K A \<Longrightarrow> keys_fit L A"
  proof (rule wext_okI)
    fix rq ex A
    assume b: "wext_buffers rq ex" "n \<le> length (ex_bytes ex)" "K A"
    have k: "unat (wep_len (Adap_Get_Encode L i A)) \<le> 16" for i
      using n(2) [OF b(3)] by (simp add: keys_fit_def word_le_nat_alt)
    have "unat (wep_len (Adap_Get_Encode L i A)) \<le> length (ex_bytes ex)" for i
      using k [of i] n(1) b(2) by linarith
    then show "wext_done ptrs ex A (ioctl_iw_get_encode L rq ex A)"
      using b k by (auto simp: ioctl_iw_get_encode_def mem_defs l wext_buffers_def Let_def split: option.splits)
  qed
qed

lemma add_key_of_Some:
  assumes "wext_buffers rq ex"
  obtains k where "add_key_of (ex_ext ex) index = Some k" "length (KeyMaterial k) = 32"
    "length (BSS_ID k) = 6" "length (KeyRSC k) = 8"
    "KeyLength k = ucast (ext_key_len (ex_ext ex))" "KeyIndex k = index"
proof
  show "add_key_of (ex_ext ex) index = Some (the (add_key_of (ex_ext ex) index))"
    "length (KeyMaterial (the (add_key_of (ex_ext ex) index))) = 32"
    "length (BSS_ID (the (add_key_of (ex_ext ex) index))) = 6"
    "length (KeyRSC (the (add_key_of (ex_ext ex) index))) = 8"
    "KeyLength (the (add_key_of (ex_ext ex) index)) = ucast (ext_key_len (ex_ext ex))"
    "KeyIndex (the (add_key_of (ex_ext ex) index)) = index"
    using assms by (simp_all add: add_key_of_def mem_read_def wext_buffers_def)
qed

lemma key_len_cases: "\<not> ext_refused L A e index k \<Longrightarrow> unat (ext_key_len e) \<in> {5, 13, 16, 32}"
  by (auto simp: ext_refused_def)

lemma key_copied:
  assumes "wext_buffers rq ex" "length (KeyMaterial k) = 32" "\<not> ext_refused L A (ex_ext ex) index k"
  obtains bs km where "mem_read 0 (unat (ext_key_len (ex_ext ex))) (ext_key (ex_ext ex)) = Some bs"
    "mem_write 0 bs (KeyMaterial k) = Some km" "length km = 32"
proof -
  let ?n = "unat (ext_key_len (ex_ext ex))" and ?key = "ext_key (ex_ext ex)"
  have n: "?n \<le> 32" using key_len_cases [OF assms(3)] by auto
  with assms(1) have "mem_read 0 ?n ?key = Some (take ?n ?key)"
    by (simp add: mem_read_def wext_buffers_def)
  moreover have "mem_write 0 (take ?n ?key) (KeyMaterial k) =
      Some (take ?n ?key @ drop ?n (KeyMaterial k))"
    using assms(1,2) n by (simp add: mem_write_def wext_buffers_def)
  moreover have "length (take ?n ?key @ drop ?n (KeyMaterial k)) = 32"
    using assms(1,2) n by (simp add: wext_buffers_def)
  ultimately show ?thesis by (rule that)
qed

lemma wext_ok_set_encode_ext:
  assumes "wext_keeps L ptrs"
  shows "wext_ok ptrs K n (ioctl_iw_set_encode_ext L)"
proof (rule wext_okI)
  fix rq ex A
  assume b: "wext_buffers rq ex"
  note p = wext_keeps_pairs [OF assms]
  show "wext_done ptrs ex A (ioctl_iw_set_encode_ext L rq ex A)"
  proof (cases "key_index (pt_flags (rq_point rq))")
    case (Some index)
    obtain k where k: "add_key_of (ex_ext ex) index = Some k" "length (KeyMaterial k) = 32"
      using b by (rule add_key_of_Some)
    have "wext_done ptrs ex A (do {
          bs \<leftarrow> mem_read 0 (unat (ext_key_len (ex_ext ex))) (ext_key (ex_ext ex));
          km \<leftarrow> mem_write 0 bs (KeyMaterial k);
          case Adap_Add_Key_Ext L index (k\<lparr>wep_mode := m, KeyMaterial := km\<rparr>) A of
            (r, A1) \<Rightarrow> Some (r, rq, ex, A1)
        })"
      if r: "\<not> ext_refused L A (ex_ext ex) index (k\<lparr>wep_mode := m\<rparr>)" for m
    proof -
      have "length (KeyMaterial (k\<lparr>wep_mode := m\<rparr>)) = 32" using k(2) by simp
      then obtain bs km where "mem_read 0 (unat (ext_key_len (ex_ext ex))) (ext_key (ex_ext ex)) = Some bs"
        "mem_write 0 bs (KeyMaterial (k\<lparr>wep_mode := m\<rparr>)) = Some km"
        using key_copied [OF b _ r] by metis
      then show ?thesis using p(6) b by (auto split: prod.splits)
    qed
    then show ?thesis using b p(5) Some k
      by (auto simp: ioctl_iw_set_encode_ext_def Let_def split: prod.split option.split)
  qed (use b in \<open>auto simp: ioctl_iw_set_encode_ext_def\<close>)
qed

lemma zero_ext_buffers [simp]:
  "length (ext_rx_seq (zero_ext e)) = 8" "length (sa_data (ext_addr (zero_ext e))) = 14"
  "ext_key (zero_ext e) = ext_key e" "ext_flags (zero_ext e) = 0"
  by (simp_all add: zero_ext_def)

lemma unat_key_len: "0 \<le> n \<Longrightarrow> n \<le> 16 \<Longrightarrow> unat (word_of_int n :: u16) = nat n"
  by (simp add: unat_eq_nat_uint uint_word_of_int)

lemma wext_ok_get_encode_ext:
  assumes "wext_sizes L" "\<And>A. K A \<Longrightarrow> keys_fit L A"
  shows "wext_ok ptrs K k (ioctl_iw_get_encode_ext L)"
proof (rule wext_okI)
  fix rq ex A
  assume b: "wext_buffers rq ex" "K A"
  let ?index = "ucast (pt_flags (rq_point rq) AND IW_ENCODE_INDEX) :: u8"
  obtain n bs where kb: "Adap_Get_Encode_Key L ?index A = (n, bs)"
    by (cases "Adap_Get_Encode_Key L ?index A")
  have "length (snd (Adap_Get_Encode_Key L ?index A)) = 16" using assms(1) by (simp add: wext_sizes_def)
  moreover have "fst (Adap_Get_Encode_Key L ?index A) \<le> 16" using assms(2) [OF b(2)] by (simp add: keys_fit_def)
  ultimately have l: "length bs = 16" "n \<le> 16" by (simp_all add: kb)
  show "wext_done ptrs ex A (ioctl_iw_get_encode_ext L rq ex A)"
    using b l kb
    by (auto simp: ioctl_iw_get_encode_ext_def Let_def wext_buffers_def mem_defs unat_key_len
        split: option.splits)
qed

lemma wext_ok_priv:
  assumes "wext_keeps L ptrs"
  shows "4 \<le> n \<Longrightarrow> wext_ok ptrs K n (ioctl_priv_get_int L)" "8 \<le> n \<Longrightarrow> wext_ok ptrs K n (ioctl_priv_set_int L)"
    "11 \<le> n \<Longrightarrow> wext_ok ptrs K n (ioctl_priv_get_string L)"
proof -
  show "wext_ok ptrs K n (ioctl_priv_get_int L)" if "4 \<le> n"
    using that by (intro wext_okI) (auto simp: ioctl_priv_get_int_def mem_defs wext_buffers_def)
  show "wext_ok ptrs K n (ioctl_priv_set_int L)" if "8 \<le> n"
    using wext_keeps_simps [OF assms] that
    by (intro wext_okI) (auto simp: ioctl_priv_set_int_def ioctl_priv_set_domain_def
        ioctl_priv_set_dbg_cmd_def mem_defs wext_buffers_def)
  assume n: "11 \<le> n"
  then have "wext_ok ptrs K n ioctl_priv_get_bytes_driver_ver"
    by (intro wext_okI)
      (auto simp: ioctl_priv_get_bytes_driver_ver_def mem_defs wext_buffers_def strlen_spec Let_def)
  moreover have "wext_ok ptrs K n (ioctl_priv_get_bytes_dsp_ver L)"
    using n by (intro wext_okI)
      (auto simp: ioctl_priv_get_bytes_dsp_ver_def hex8_def mem_defs wext_buffers_def)
  ultimately show "wext_ok ptrs K n (ioctl_priv_get_string L)"
    unfolding ioctl_priv_get_string_def [abs_def] wext_ok_def by auto
qed

lemma wext_ok_scan:
  assumes "wext_sizes L"
  shows "wext_ok ptrs K k (ioctl_iw_get_scan_res L)"
proof -
  obtain E where E: "iwe_laws (iwe_lib L) E" "\<And>A. \<forall>r\<in>set (Adap_Get_Scan_Result L A). scan_res_ok r"
    using assms unfolding wext_sizes_def by blast
  show ?thesis
    unfolding wext_ok_def
  proof (intro allI impI, elim conjE)
    fix rq ex A
    assume b: "wext_buffers rq ex" "scan_end rq \<le> length (ex_scan ex)"
    show "wext_done ptrs ex A (ioctl_iw_get_scan_res L rq ex A)"
    proof (cases "Adap_Driver_isWork L A")
      case True
      obtain r1 n m where "ioctl_iw_get_scan_res L rq ex A =
          Some (r1, rq\<lparr>rq_point := (rq_point rq)\<lparr>pt_length := of_nat n\<rparr>\<rparr>, ex\<lparr>ex_scan := m\<rparr>, A)"
        by (rule get_scan_res_runs [OF E(1) True E(2) b(2)])
      then show ?thesis using b(1) by (simp add: wext_buffers_def)
    qed (use b in \<open>simp add: ioctl_iw_get_scan_res_def\<close>)
  qed
qed

section \<open>Memory safety\<close>

text \<open>Request 43 and request 53 read a key from the library.\<close>

definition fits :: "'a wext_lib \<Rightarrow> nat \<Rightarrow> 'a \<Rightarrow> bool" where
  "fits L i A \<longleftrightarrow> (i = 43 \<or> i = 53 \<longrightarrow> keys_fit L A)"

lemma wext_all_ok:
  assumes "wext_sizes L" "wext_keeps L ptrs" "i < length (wext_handlers L)" "wext_handlers L ! i = Some h"
  shows "wext_ok ptrs (fits L i) (core_extra i) h"
proof -
  have f: "\<And>A. fits L 43 A \<Longrightarrow> keys_fit L A" "\<And>A. fits L 53 A \<Longrightarrow> keys_fit L A"
    by (simp_all add: fits_def)
  have e: "core_extra 27 = 32" "core_extra 43 = 64" by (simp_all add: core_extra_def)
  have sized: "int j = 27 \<Longrightarrow> wext_ok ptrs (fits L j) (core_extra j) (ioctl_iw_get_essid L)"
    "int j = 43 \<Longrightarrow> wext_ok ptrs (fits L j) (core_extra j) (ioctl_iw_get_encode L)"
    "int j = 53 \<Longrightarrow> wext_ok ptrs (fits L j) (core_extra j) (ioctl_iw_get_encode_ext L)"
    "int j = 68 \<Longrightarrow> wext_ok ptrs (fits L j) (core_extra j) (ioctl_priv_get_string L)"
    "int j = 70 \<Longrightarrow> wext_ok ptrs (fits L j) (core_extra j) (ioctl_priv_get_int L)"
    "int j = 71 \<Longrightarrow> wext_ok ptrs (fits L j) (core_extra j) (ioctl_priv_set_int L)" for j
  proof -
    have j: "int j = numeral n \<Longrightarrow> j = numeral n" for n by (metis of_nat_eq_iff of_nat_numeral)
    show "int j = 27 \<Longrightarrow> wext_ok ptrs (fits L j) (core_extra j) (ioctl_iw_get_essid L)"
      using wext_ok_memory(2) [OF assms(1)] by (auto dest!: j simp: e)
    show "int j = 43 \<Longrightarrow> wext_ok ptrs (fits L j) (core_extra j) (ioctl_iw_get_encode L)"
      using wext_ok_memory(3) [OF assms(1), of 64 "fits L 43"] f(1) by (auto dest!: j simp: e)
    show "int j = 53 \<Longrightarrow> wext_ok ptrs (fits L j) (core_extra j) (ioctl_iw_get_encode_ext L)"
      using wext_ok_get_encode_ext [OF assms(1), of "fits L 53"] f(2) by (auto dest!: j)
    show "int j = 68 \<Longrightarrow> wext_ok ptrs (fits L j) (core_extra j) (ioctl_priv_get_string L)"
      "int j = 70 \<Longrightarrow> wext_ok ptrs (fits L j) (core_extra j) (ioctl_priv_get_int L)"
      "int j = 71 \<Longrightarrow> wext_ok ptrs (fits L j) (core_extra j) (ioctl_priv_set_int L)"
      using wext_ok_priv [OF assms(2)] by (auto dest!: j simp: core_extra_priv)
  qed
  have "length (wext_handlers L) = 78"
    by (simp add: wext_handlers_def wdev_iwconfig_handler_def wdev_iwpriv_handler_def)
  then have "i \<in> set [0..<78]" using assms(3) by simp
  then show ?thesis
    using assms(4) wext_ok_name wext_ok_radio [OF assms(2)] wext_ok_param [OF assms(2)]
      wext_ok_memory(1) [OF assms(1)] wext_ok_set_encode_ext [OF assms(2)] wext_ok_scan [OF assms(1)]
    by (auto simp: wext_handlers_def wdev_iwconfig_handler_def wdev_iwpriv_handler_def upt_rec nth_append sized)
qed

text \<open>A longer key does overrun: the request that copies it out crashes.\<close>

lemma long_key_overruns:
  assumes "wext_sizes L" "Adap_Driver_isWork L A" "key_index (pt_flags (rq_point rq)) = Some k"
    and "16 < wep_len (Adap_Get_Encode L k A)"
  shows "ioctl_iw_get_encode L rq ex A = None"
proof -
  have "wep_len (Adap_Get_Encode L k A) \<noteq> 0" using assms(4) by auto
  then show ?thesis
    using assms by (simp add: ioctl_iw_get_encode_def wext_sizes_def mem_read_def word_less_nat_alt Let_def)
qed

text \<open>
  C17: Every wireless handler in the driver's tables, the private ones included, returns when it
  gets the buffers the wireless core allocates for its request - 32 bytes for a network name, 64
  for a key, the size the driver advertises for a private command or the 16 bytes of the request's
  own union when that is enough, none otherwise: it reads and writes nothing past the end of an
  object, whatever the request says, and keeps the pointers stored in the adapter.  The only
  exception are the two requests that copy a key out (\<^verbatim>\<open>SIOCGIWENCODE\<close> and
  \<^verbatim>\<open>SIOCGIWENCODEEXT\<close>), and only while the closed library reports a key of more than the 16
  bytes of its array.  The library's objects have the sizes its header declares, and its functions
  do not change the stored pointers.
\<close>

theorem wext_handlers_safe:
  assumes "wext_sizes L" "wext_keeps L (wptrs W)"
    and "i < length (wext_handlers L)" "wext_handlers L ! i = Some h"
    and "wext_buffers rq ex" "scan_end rq \<le> length (ex_scan ex)" "core_extra i \<le> length (ex_bytes ex)"
  shows "(\<exists>r rq1 ex1 A1. h rq ex A = Some (r, rq1, ex1, A1) \<and> wext_buffers rq1 ex1 \<and>
      length (ex_bytes ex1) = length (ex_bytes ex) \<and> wptrs W A1 = wptrs W A) \<or>
    (i = 43 \<or> i = 53) \<and> \<not> keys_fit L A"
  using wext_okD [OF wext_all_ok [OF assms(1-4)] assms(5-7), of A] by (auto simp: wext_done_def fits_def)

lemma netdev_of_adapter:
  assumes "drivers_inv c" "wadap c d = Some A" "Adap_Get_Netdev (wlib c) A = Some n"
  obtains nd where "netdevs c n = Some nd" "nd_priv nd = Some d"
proof -
  have v: "wview c d = Some (wptrs (wlib c) A)" using assms(2) by (simp add: wview_def)
  then have "wptrs_ok c d (wptrs (wlib c) A)" using assms(1) unfolding drivers_inv_def by blast
  with assms(3) that show ?thesis by (auto simp: wptrs_ok_def wptrs_def)
qed

text \<open>
  C18: A wireless request of either table on the network device of a WLAN adapter reaches that
  adapter, returns, and keeps the invariant of the drivers and what the bus relies on.  The
  buffers are those the core allocates for the request, the library's objects have the sizes of
  its header and its functions keep the stored pointers; for the two requests that copy a key out
  the keys of the library have at most the 16 bytes of its arrays, which its header does not say.
\<close>

theorem wext_call_keeps_drivers:
  assumes "drivers_inv c" "wadap c d = Some A" "Adap_Get_Netdev (wlib c) A = Some n"
    and "wext_sizes L" "wext_keeps L (wptrs (wlib c))"
    and "i < length (wext_handlers L)" "wext_handlers L ! i = Some h"
    and "i = 43 \<or> i = 53 \<longrightarrow> keys_fit L A"
    and "wext_buffers rq ex" "scan_end rq \<le> length (ex_scan ex)" "core_extra i \<le> length (ex_bytes ex)"
  shows "\<exists>r rq1 ex1 A1 c'. wext_call h n rq ex c = Some (r, rq1, ex1, c') \<and>
    h rq ex A = Some (r, rq1, ex1, A1) \<and> c' = c\<lparr>wadap := (wadap c)(d := Some A1)\<rparr> \<and>
    drivers_inv c' \<and> (\<forall>a x. sys_link c a x \<longrightarrow> sys_link c' a x)"
proof -
  obtain nd where nd: "netdevs c n = Some nd" "nd_priv nd = Some d"
    using assms(1-3) by (rule netdev_of_adapter)
  have "fits L i A" using assms(8) by (simp add: fits_def)
  from wext_okD [OF wext_all_ok [OF assms(4-7)] assms(9-11) this]
  obtain r rq1 ex1 A1 where h: "h rq ex A = Some (r, rq1, ex1, A1)"
    "wptrs (wlib c) A1 = wptrs (wlib c) A" by (auto simp: wext_done_def)
  let ?c = "c\<lparr>wadap := (wadap c)(d := Some A1)\<rparr>"
  have v: "same_view c ?c" using assms(2) h(2) by (auto simp: same_view_def wview_def bview_def fun_eq_iff)
  have "drivers_inv ?c" by (rule same_view_drivers [OF v assms(1)])
  moreover have "wext_call h n rq ex c = Some (r, rq1, ex1, ?c)"
    using nd assms(2) h(1) by (simp add: wext_call_def)
  moreover have "sys_link ?c a x" if "sys_link c a x" for a x
    using that same_view_bus [OF v] same_view_drivers [OF v]
    by (simp add: sys_link_def wlan_intf_def bt_intf_def)
  ultimately show ?thesis using h(1) by blast
qed

text \<open>
  While the driver is not working every handler that touches the adapter refuses, changing
  nothing: all entries of the standard table but the request for a scan (24) and the four entries
  (8, 9, 38 and 39) that are not supported at all.
\<close>

theorem not_working_refuses:
  assumes "\<not> Adap_Driver_isWork L A" "i < length (wdev_iwconfig_handler L)"
    and "wdev_iwconfig_handler L ! i = Some h" "i \<notin> {8, 9, 24, 38, 39}"
  shows "h rq ex A = Some (-1, rq, ex, A)"
proof -
  have "i < 55" using assms(2) by (simp add: wdev_iwconfig_handler_def)
  then have "i \<in> set [0..<55]" by simp
  with assms(1,3,4) show ?thesis
    by (auto simp: wdev_iwconfig_handler_def upt_rec ioctl_iw_get_name_def ioctl_iw_set_freq_def
        ioctl_iw_get_freq_def ioctl_iw_set_bss_type_def ioctl_iw_get_bss_type_def
        ioctl_iw_get_range_def ioctl_iw_get_scan_res_def ioctl_iw_get_ap_def ioctl_iw_set_essid_def ioctl_iw_get_essid_def
        ioctl_iw_set_rate_def ioctl_iw_get_rate_def ioctl_iw_set_rts_def ioctl_iw_get_rts_def
        ioctl_iw_set_frag_def ioctl_iw_get_frag_def ioctl_iw_set_encode_def
        ioctl_iw_get_encode_def ioctl_iw_set_auth_def ioctl_iw_get_auth_def
        ioctl_iw_set_encode_ext_def ioctl_iw_get_encode_ext_def)
qed

section \<open>Frequencies, limits and quality\<close>

lemma sint_u32_small: "0 \<le> x \<Longrightarrow> x < 2147483648 \<Longrightarrow> sint (word_of_int x :: u32) = x"
  by (simp add: sint_sbintrunc' signed_take_bit_int_eq_self)

lemma freq_channel_reply:
  assumes "0 \<le> c" "c < 256"
  shows "freq_channel \<lparr>fq_m = word_of_int (ioctl_channel_to_freq c * 100000), fq_e = 1, fq_flags = 1\<rparr>
    = Some c"
proof -
  let ?f = "ioctl_channel_to_freq c"
  note b = channel_freq_bounds [OF assms]
  have s: "sint (word_of_int (?f * 100000) :: u32) = ?f * 100000"
    using b by (intro sint_u32_small) auto
  have "scale_freq (schar (6 - sint (1 :: u16))) (?f * 100000) = ?f * 100000 div 10 ^ 5"
    using b scale_freq_power [of 5 "?f * 100000"] by (simp add: schar_def)
  then have "scale_freq (schar (6 - sint (1 :: u16))) (?f * 100000) = ?f" by simp
  with s b(1) channel_freq_inverse [OF assms] show ?thesis by (simp add: freq_channel_def)
qed

text \<open>
  C20: The frequency the driver reports is one it understands: setting what
  \<^verbatim>\<open>_ioctl_iw_get_freq\<close> returned selects the channel the adapter is on, for every channel
  of either band.
\<close>

theorem freq_roundtrip:
  assumes "Adap_Driver_isWork L A" "Adap_Get_Mode L A = WLAN_MACMODE_IBSS_STA"
    and "ioctl_iw_get_freq L rq ex A = Some (r, rq1, ex1, A1)"
    and "Adap_Set_Defult_Channel L (uint (Adap_Get_Channel L A)) A = (0, A2)"
  shows "ioctl_iw_set_freq L rq1 ex2 A = Some (0, rq1, ex2, A2)"
proof -
  have "freq_channel (rq_freq rq1) = Some (uint (Adap_Get_Channel L A))"
    using assms(1,3) freq_channel_reply [of "uint (Adap_Get_Channel L A)"] uint_lt2p [of "Adap_Get_Channel L A"]
    by (auto simp: ioctl_iw_get_freq_def)
  with assms show ?thesis by (simp add: ioctl_iw_set_freq_def)
qed

text \<open>
  C21: In the 2.4 GHz band a frequency may be given with any decimal exponent from 0 to 6 that
  makes it exact: the channel found is the one with that frequency.
\<close>

theorem freq_any_exponent:
  assumes "0 \<le> c" "c < 16" "k \<le> 6"
    and "sint (fq_e f) = int k" "sint (fq_m f) * 10 ^ k = ioctl_channel_to_freq c * 10 ^ 6"
  shows "freq_channel f = Some c"
proof -
  let ?F = "ioctl_channel_to_freq c" and ?m = "sint (fq_m f)"
  have F: "1000 < ?F" using assms(1,2) by (intro channel_freq_bounds) auto
  have "?m * 10 ^ k = ?F * 10 ^ (6 - k) * 10 ^ k"
    using assms(3,5) by (simp add: mult.assoc flip: power_add)
  then have m: "?m = ?F * 10 ^ (6 - k)" by simp
  then have "?F * 1 \<le> ?m" using F by (simp add: mult_left_mono)
  then have m0: "1000 < ?m" using F by linarith
  have "schar (6 - int k) = int (6 - k)" using assms(3) by (simp add: schar_small of_nat_diff)
  then have "scale_freq (schar (6 - sint (fq_e f))) ?m = ?m div 10 ^ (6 - k)"
    using m0 by (simp add: assms(4) scale_freq_power)
  also have "\<dots> = ?F" by (simp add: m)
  finally have "scale_freq (schar (6 - sint (fq_e f))) ?m = ?F" .
  with m0 F show ?thesis
    using channel_freq_inverse [of c] assms(1,2) by (simp add: freq_channel_def Let_def)
qed

text \<open>
  C22: The limits \<^verbatim>\<open>_ioctl_iw_get_range\<close> advertises are the ones the setters enforce: a
  threshold is accepted exactly when it is -1 (off) or within them.
\<close>

theorem limits_enforced:
  assumes "Adap_Driver_isWork L A" "ioctl_iw_get_range L rq0 ex0 A = Some (r, rq, ex, A0)"
    and "ip_disabled (rq_param rq1) = 0" "v = sint (ip_value (rq_param rq1))"
  shows "((\<exists>A1. ioctl_iw_set_rts L rq1 ex1 A = Some (0, rq1, ex1, A1)) \<longleftrightarrow>
      v = -1 \<or> sint (min_rts (ex_range ex)) \<le> v \<and> v \<le> sint (max_rts (ex_range ex))) \<and>
    ((\<exists>A1. ioctl_iw_set_frag L rq1 ex1 A = Some (0, rq1, ex1, A1)) \<longleftrightarrow>
      v = -1 \<or> sint (min_frag (ex_range ex)) \<le> v \<and> v \<le> sint (max_frag (ex_range ex)))"
  using assms(1-3)
  by (auto simp: ioctl_iw_get_range_def ioctl_iw_set_rts_def ioctl_iw_set_frag_def Let_def assms(4)
      split: if_splits)

lemma set_quality_scaled:
  assumes "unat rssi \<le> 255"
  shows "unat (qual (set_quality iq rssi nv)) = ((unat rssi + 2) * 12 div 10 + 144) mod 256"
proof -
  let ?q = "(rssi + 2) * 12 div 10"
  have "unat ((rssi + 2) * 12) = (unat rssi + 2) * 12"
    using assms by (simp add: unat_word_ariths)
  then have q: "unat ?q = (unat rssi + 2) * 12 div 10" by (simp add: unat_div)
  have "unat (x - 112) = (unat x + 4294967184) mod 2 ^ 32" for x :: u32
  proof -
    have "x - 112 = x + 4294967184" by simp
    then show ?thesis by (simp only: unat_word_ariths(1)) simp
  qed
  then have "unat (?q - 112) = ((unat rssi + 2) * 12 div 10 + 4294967184) mod 2 ^ 32"
    by (simp only: q)
  moreover have "unat (ucast x :: u8) = unat x mod 256" for x :: u32
    by (simp add: unsigned_ucast_eq take_bit_eq_mod)
  moreover have "(k + 4294967184) mod 256 = (k + 144) mod 256" for k :: nat
    using mod_mult_self2 [of "k + 144" 256 16777215] by (simp add: ac_simps)
  ultimately show ?thesis
    by (simp only: set_quality_def iw_quality.simps) (simp add: mod_mod_cancel)
qed

text \<open>
  C23: The quality of a scan result with a signal strength of one byte is the strength plus 2,
  times 1.2 and rounded down, less 112, in an unsigned byte: from 92 on that is the difference
  itself, and below 92 the byte wraps, to between 146 and 255.  So the quality is at most the 100
  that \<^verbatim>\<open>_ioctl_iw_get_range\<close> advertises exactly for a strength from 92 to 175: a weaker
  signal is reported as better than the best, and a stronger one as 101 to 196.
\<close>

theorem quality_in_range:
  assumes "unat rssi \<le> 255"
  shows "unat (qual (set_quality iq rssi nv)) =
      (if unat rssi < 92 then (unat rssi + 2) * 12 div 10 + 144 else (unat rssi + 2) * 12 div 10 - 112) \<and>
    (unat rssi < 92 \<longrightarrow> 146 \<le> unat (qual (set_quality iq rssi nv))) \<and>
    (175 < unat rssi \<longrightarrow>
      101 \<le> unat (qual (set_quality iq rssi nv)) \<and> unat (qual (set_quality iq rssi nv)) \<le> 196) \<and>
    (unat (qual (set_quality iq rssi nv)) \<le> 100 \<longleftrightarrow> 92 \<le> unat rssi \<and> unat rssi \<le> 175)"
proof -
  let ?k = "(unat rssi + 2) * 12 div 10"
  have less: "?k < m \<longleftrightarrow> (unat rssi + 2) * 12 < m * 10" for m by (rule div_less_iff_less_mult) simp
  have "\<not> ?k < 2" "?k < 309" "?k < 112 \<longleftrightarrow> unat rssi < 92" "\<not> ?k < 213 \<longleftrightarrow> 175 < unat rssi"
    unfolding less using assms by auto
  then have k: "2 \<le> ?k" "?k \<le> 308" "?k < 112 \<longleftrightarrow> unat rssi < 92" "212 < ?k \<longleftrightarrow> 175 < unat rssi"
    by (simp_all only: not_less) linarith+
  have "(?k + 144) mod 256 = (if ?k < 112 then ?k + 144 else ?k - 112)"
    using k(2) by (auto simp: le_mod_geq)
  with k show ?thesis unfolding set_quality_scaled [OF assms] by (simp only: k(3)) auto
qed

section \<open>Keys\<close>

lemma key_index_small: "key_index flags = Some i \<Longrightarrow> i \<le> 3"
proof -
  assume k: "key_index flags = Some i"
  let ?x = "ucast (flags AND IW_ENCODE_INDEX) :: u8"
  from k have "i = 0 \<and> ?x = 0 \<or> i = ?x - 1 \<and> ?x \<noteq> 0 \<and> ?x \<le> 4"
    by (auto simp: key_index_def Let_def split: if_splits)
  moreover have "x - 1 \<le> 3" if "x \<noteq> 0" "x \<le> 4" for x :: u8
  proof -
    have "unat (x - 1) = unat x - 1" using that(1) by (rule unat_minus_one)
    with that(2) show ?thesis by (simp add: word_le_nat_alt)
  qed
  ultimately show "i \<le> 3" by auto
qed

text \<open>A key the hardware may be given.\<close>

definition key_wf :: "'a wext_lib \<Rightarrow> 'a \<Rightarrow> u8 \<Rightarrow> add_key \<Rightarrow> bool" where
  "key_wf L A index k \<longleftrightarrow>
     index \<le> 3 \<and> KeyIndex k = index \<and> KeyLength k \<in> {5, 13, 16, 32} \<and>
     length (KeyMaterial k) = 32 \<and> length (BSS_ID k) = 6 \<and> length (KeyRSC k) = 8 \<and>
     wep_mode k \<in> {WEP_MODE_WEP, WEP_MODE_TKIP, WEP_MODE_AES} \<and>
     (is_group_key k = 0 \<longrightarrow> index = 0 \<and> is_tx_key k \<noteq> 0 \<and>
        Adap_Get_Mode L A \<noteq> WLAN_MACMODE_IBSS_STA \<and> \<not> MAC_ADDR_IS_BCAST (BSS_ID k))"

lemma accepted_key_wf:
  assumes b: "wext_buffers rq ex" and i: "key_index (pt_flags (rq_point rq)) = Some index"
    and k: "add_key_of (ex_ext ex) index = Some k" and m: "ext_wep_mode (ext_alg (ex_ext ex)) = Some m"
    and r: "\<not> ext_refused L A (ex_ext ex) index (k\<lparr>wep_mode := m\<rparr>)"
    and km: "length km = 32"
  shows "key_wf L A index (k\<lparr>wep_mode := m, KeyMaterial := km\<rparr>)"
proof -
  obtain k' where "add_key_of (ex_ext ex) index = Some k'" "length (BSS_ID k') = 6"
    "length (KeyRSC k') = 8" "KeyLength k' = ucast (ext_key_len (ex_ext ex))" "KeyIndex k' = index"
    using b by (rule add_key_of_Some)
  with k have k2: "length (BSS_ID k) = 6" "length (KeyRSC k) = 8"
    "KeyLength k = ucast (ext_key_len (ex_ext ex))" "KeyIndex k = index" by auto
  have "m \<in> {WEP_MODE_WEP, WEP_MODE_TKIP, WEP_MODE_AES}"
    using m by (auto simp: ext_wep_mode_def split: if_splits)
  moreover have "index \<le> 3" using i by (rule key_index_small)
  moreover have "KeyLength k \<in> {5, 13, 16, 32}" using r k2(3) by (auto simp: ext_refused_def)
  ultimately show ?thesis using k2 km r by (auto simp: key_wf_def ext_refused_def)
qed

text \<open>
  C24: The only keys \<^verbatim>\<open>_ioctl_iw_set_encode_ext\<close> hands to the hardware are well formed: an
  index of at most 3, one of the four lengths, a known cipher, and a pairwise key only as the
  transmit key of index 0 for a single station outside ad-hoc mode.  So the handler behaves the
  same with any library that agrees on well-formed keys.
\<close>

theorem only_wf_keys:
  assumes "wext_buffers rq ex"
    and "\<And>index k. key_wf L A index k \<Longrightarrow> add index k A = Adap_Add_Key_Ext L index k A"
  shows "ioctl_iw_set_encode_ext (L\<lparr>Adap_Add_Key_Ext := add\<rparr>) rq ex A =
    ioctl_iw_set_encode_ext L rq ex A"
proof (cases "key_index (pt_flags (rq_point rq))")
  case None
  then show ?thesis by (simp add: ioctl_iw_set_encode_ext_def)
next
  case (Some index)
  obtain k where k: "add_key_of (ex_ext ex) index = Some k" "length (KeyMaterial k) = 32"
    using assms(1) by (rule add_key_of_Some)
  have same: "ext_refused (L\<lparr>Adap_Add_Key_Ext := add\<rparr>) = ext_refused L"
    by (simp add: ext_refused_def fun_eq_iff)
  have "(do { bs \<leftarrow> mem_read 0 (unat (ext_key_len (ex_ext ex))) (ext_key (ex_ext ex));
              km \<leftarrow> mem_write 0 bs (KeyMaterial k);
              case add index (k\<lparr>wep_mode := m, KeyMaterial := km\<rparr>) A of (r, A1) \<Rightarrow> Some (r, rq, ex, A1) }) =
      (do { bs \<leftarrow> mem_read 0 (unat (ext_key_len (ex_ext ex))) (ext_key (ex_ext ex));
            km \<leftarrow> mem_write 0 bs (KeyMaterial k);
            case Adap_Add_Key_Ext L index (k\<lparr>wep_mode := m, KeyMaterial := km\<rparr>) A of
              (r, A1) \<Rightarrow> Some (r, rq, ex, A1) })"
    if m: "ext_wep_mode (ext_alg (ex_ext ex)) = Some m"
      "\<not> ext_refused L A (ex_ext ex) index (k\<lparr>wep_mode := m\<rparr>)" for m
  proof -
    have "length (KeyMaterial (k\<lparr>wep_mode := m\<rparr>)) = 32" using k(2) by simp
    then obtain bs km where c: "mem_read 0 (unat (ext_key_len (ex_ext ex))) (ext_key (ex_ext ex)) = Some bs"
      "mem_write 0 bs (KeyMaterial (k\<lparr>wep_mode := m\<rparr>)) = Some km" "length km = 32"
      using key_copied [OF assms(1) _ m(2)] by metis
    have "key_wf L A index (k\<lparr>wep_mode := m, KeyMaterial := km\<rparr>)"
      using accepted_key_wf [OF assms(1) Some k(1) m c(3)] .
    with c assms(2) show ?thesis by simp
  qed
  then show ?thesis using Some k
    by (auto simp: ioctl_iw_set_encode_ext_def Let_def same split: option.split)
qed

text \<open>
  The reply of \<^verbatim>\<open>_ioctl_iw_get_encode_ext\<close> names another key than the request: its index
  is one more, since the handler adds one to an index that already counts from one.
\<close>

theorem reply_index_shifted:
  assumes "ioctl_iw_get_encode_ext L rq ex A = Some (0, rq1, ex1, A1)"
  shows "pt_flags (rq_point rq1) AND IW_ENCODE_INDEX = (pt_flags (rq_point rq) + 1) AND IW_ENCODE_INDEX"
proof -
  let ?f = "pt_flags (rq_point rq)"
  let ?i = "ucast (?f AND IW_ENCODE_INDEX) :: u8"
  have m: "IW_ENCODE_INDEX = mask 8" by (simp add: mask_numeral)
  have u: "(ucast ?i :: u16) = ?f AND mask 8"
    unfolding m by (rule bit_word_eqI) (auto simp: bit_simps)
  have i: "IW_ENCODE_INDEX AND (ucast ?i + 1) = (?f + 1) AND IW_ENCODE_INDEX"
  proof -
    have "uint (take_bit 8 (take_bit 8 ?f + 1)) = uint (take_bit 8 (?f + 1))"
      by (simp add: take_bit_eq_mod uint_mod uint_word_ariths mod_mod_cancel mod_simps)
    then have "take_bit 8 (take_bit 8 ?f + 1) = take_bit 8 (?f + 1)" by (simp only: word_uint_eq_iff)
    with u show ?thesis
      unfolding m take_bit_eq_mask by (simp only: and.commute)
  qed
  have "pt_flags (rq_point rq1) = (IW_ENCODE_INDEX AND (ucast ?i + 1)) OR IW_ENCODE_DISABLED \<or>
      pt_flags (rq_point rq1) = (IW_ENCODE_INDEX AND (ucast ?i + 1)) OR IW_ENCODE_ENABLED"
    using assms
    by (auto simp: ioctl_iw_get_encode_ext_def Let_def split: if_splits option.splits bind_splits prod.splits)
  moreover have "((IW_ENCODE_INDEX AND x) OR IW_ENCODE_DISABLED) AND IW_ENCODE_INDEX = IW_ENCODE_INDEX AND x"
    "((IW_ENCODE_INDEX AND x) OR IW_ENCODE_ENABLED) AND IW_ENCODE_INDEX = IW_ENCODE_INDEX AND x" for x
  proof -
    have h: "(IW_ENCODE_DISABLED :: u16) = push_bit 15 1" by simp
    have "((mask 8 AND x) OR push_bit 15 y) AND mask 8 = mask 8 AND x" for y :: u16
      by (rule bit_word_eqI) (auto simp: bit_simps)
    then show "((IW_ENCODE_INDEX AND x) OR IW_ENCODE_DISABLED) AND IW_ENCODE_INDEX = IW_ENCODE_INDEX AND x"
      unfolding m h .
    show "((IW_ENCODE_INDEX AND x) OR IW_ENCODE_ENABLED) AND IW_ENCODE_INDEX = IW_ENCODE_INDEX AND x"
      by (simp add: ac_simps)
  qed
  ultimately show ?thesis using i by metis
qed

text \<open>
  C26: Reading a key from its string form gives the key back, with success, whatever follows the
  digits.
\<close>

theorem key_string_roundtrip:
  "ioctl_key_string2hex (hex_string bs @ t) (length bs) = Some (1, bs)"
  by (cases "bs = []") (simp_all add: ioctl_key_string2hex_def key_loop_hex_string)

section \<open>Statistics\<close>

text \<open>What lies in the words of the counters after the quality was written over them.\<close>

lemma overlay_words:
  fixes s :: net_stats and q :: iw_quality
  defines "t \<equiv> put_quality q (clear_discard s)"
  shows "(ucast (rx_packets t) :: u16) = ucast (rx_packets s)"
    "(ucast (drop_bit 16 (rx_packets t)) :: u8) = qual q" "(ucast (drop_bit 24 (rx_packets t)) :: u8) = level q"
    "(ucast (tx_packets t) :: u8) = noise q" "(ucast (drop_bit 8 (tx_packets t)) :: u8) = updated q"
    "drop_bit 16 (tx_packets t) = drop_bit 16 (tx_packets s)"
proof -
  have m: "(0xffff :: u32) = mask 16" "(0xffff0000 :: u32) = push_bit 16 (mask 16)" by (simp_all add: mask_numeral)
  note d = t_def put_quality_def clear_discard_def m
  show "(ucast (rx_packets t) :: u16) = ucast (rx_packets s)"
    unfolding d by simp (rule bit_word_eqI, auto simp: bit_simps)
  show "(ucast (drop_bit 16 (rx_packets t)) :: u8) = qual q"
    unfolding d by simp (rule bit_word_eqI, auto simp: bit_simps)
  show "(ucast (drop_bit 24 (rx_packets t)) :: u8) = level q"
    unfolding d by simp (rule bit_word_eqI, auto simp: bit_simps dest: bit_imp_le_length)
  show "(ucast (tx_packets t) :: u8) = noise q"
    unfolding d by simp (rule bit_word_eqI, auto simp: bit_simps)
  show "(ucast (drop_bit 8 (tx_packets t)) :: u8) = updated q"
    unfolding d by simp (rule bit_word_eqI, auto simp: bit_simps dest: bit_imp_le_length)
  show "drop_bit 16 (tx_packets t) = drop_bit 16 (tx_packets s)"
    unfolding d by simp (rule bit_word_eqI, auto simp: bit_simps dest: bit_imp_le_length)
qed

text \<open>
  C27: The wireless statistics are written over the adapter's network counters.  The reply names
  the connection's quality and no discarded packet, and its status is the low half of the count of
  received packets; of the counters the request leaves, those of bytes, errors and dropped packets
  are 0, and of the counts of packets only the low half of the received and the high half of the
  sent are kept, the quality lying in the other halves.  Nothing else changes, and not for good:
  the next query of the counters returns, and leaves, what it would have without the request.
\<close>

theorem wireless_stats_overlay:
  assumes "netdevs c n = Some nd" "nd_priv nd = Some d" "wadap c d = Some A"
    and "Adap_Get_Netstat (wlib c) A = Some s" "netstats c s = Some st"
  shows "\<exists>ws c1 st1. ioctl_iw_get_wireless_stats L n c = Some (ws, c1) \<and>
    ws = \<lparr>st_status = ucast (rx_packets st), st_qual = wireless_quality L A,
          disc_nwid = 0, disc_code = 0, disc_fragment = 0, disc_retries = 0, disc_misc = 0\<rparr> \<and>
    c1 = c\<lparr>netstats := (netstats c)(s := Some st1)\<rparr> \<and>
    rx_bytes st1 = 0 \<and> tx_bytes st1 = 0 \<and> rx_errors st1 = 0 \<and> tx_errors st1 = 0 \<and> rx_dropped st1 = 0 \<and>
    multicast st1 = multicast st \<and> (ucast (rx_packets st1) :: u16) = ucast (rx_packets st) \<and>
    drop_bit 16 (tx_packets st1) = drop_bit 16 (tx_packets st) \<and>
    (ucast (drop_bit 16 (rx_packets st1)) :: u8) = qual (wireless_quality L A) \<and>
    (ucast (drop_bit 24 (rx_packets st1)) :: u8) = level (wireless_quality L A) \<and>
    (ucast (tx_packets st1) :: u8) = noise (wireless_quality L A) \<and>
    (ucast (drop_bit 8 (tx_packets st1)) :: u8) = updated (wireless_quality L A) \<and>
    wlan_netdev_get_stats n c1 = wlan_netdev_get_stats n c"
proof -
  let ?st1 = "put_quality (wireless_quality L A) (clear_discard st)"
  have f: "rx_bytes ?st1 = 0" "tx_bytes ?st1 = 0" "rx_errors ?st1 = 0" "tx_errors ?st1 = 0" "rx_dropped ?st1 = 0"
    "multicast ?st1 = multicast st"
    by (simp_all add: put_quality_def clear_discard_def)
  let ?c1 = "c\<lparr>netstats := (netstats c)(s := Some ?st1)\<rparr>"
  have "ioctl_iw_get_wireless_stats L n c = Some (iw_stats_at ?st1, ?c1)"
    using assms by (simp add: ioctl_iw_get_wireless_stats_def Let_def)
  moreover have "iw_stats_at ?st1 = \<lparr>st_status = ucast (rx_packets st), st_qual = wireless_quality L A,
      disc_nwid = 0, disc_code = 0, disc_fragment = 0, disc_retries = 0, disc_misc = 0\<rparr>"
    by (simp add: iw_stats_at_def f overlay_words)
  moreover have "wlan_netdev_get_stats n ?c1 = wlan_netdev_get_stats n c"
    using assms by (simp add: wlan_netdev_get_stats_def Let_def)
  ultimately show ?thesis
    using f overlay_words [of "wireless_quality L A" st]
    by (intro exI [of _ "iw_stats_at ?st1"] exI [of _ ?c1] exI [of _ ?st1]) simp
qed

section \<open>Scan results\<close>

text \<open>
  C28: The answer to a request for scan results is the access points' events one after another,
  complete and in order, and succeeds exactly when all of it ends before the end of the buffer and
  every access point can be reported: one without a rate, or with an information element longer
  than the handler's buffer, ends the whole answer with the error that asks for a larger buffer.
\<close>

theorem scan_answer_complete:
  assumes "iwe_laws (iwe_lib L) E" "Adap_Driver_isWork L A" "Adap_Get_Scan_Result L A = rs"
    and "\<forall>r\<in>set rs. scan_res_ok r" "scan_end rq \<le> length (ex_scan ex)"
  shows "\<exists>r n b. ioctl_iw_get_scan_res L rq ex A =
      Some (r, rq\<lparr>rq_point := (rq_point rq)\<lparr>pt_length := of_nat n\<rparr>\<rparr>, ex\<lparr>ex_scan := b\<rparr>, A) \<and>
    n < scan_end rq \<and> length b = length (ex_scan ex) \<and>
    (if (\<forall>r\<in>set rs. reportable r) \<and> length (scan_bytes E rs) < scan_end rq
     then r = 0 \<and> n = length (scan_bytes E rs) \<and> take n b = scan_bytes E rs
     else r = - E2BIG)"
proof -
  have empty: "rs = [] \<or> length (scan_bytes E rs) < scan_end rq \<longleftrightarrow> length (scan_bytes E rs) < scan_end rq"
    using scan_end_pos(1) [of rq] by (auto simp: scan_bytes_def)
  from get_scan_res_runs [OF assms(1,2) _ assms(5), unfolded assms(3) empty] assms(4)
  obtain n b where r: "ioctl_iw_get_scan_res L rq ex A =
      Some (if (\<forall>r\<in>set rs. reportable r) \<and> length (scan_bytes E rs) < scan_end rq then 0 else - E2BIG,
            rq\<lparr>rq_point := (rq_point rq)\<lparr>pt_length := of_nat n\<rparr>\<rparr>, ex\<lparr>ex_scan := b\<rparr>, A)"
    "n < scan_end rq" "length b = length (ex_scan ex)"
    "(\<forall>r\<in>set rs. reportable r) \<and> length (scan_bytes E rs) < scan_end rq \<Longrightarrow>
     n = length (scan_bytes E rs) \<and> b = put 0 (scan_bytes E rs) (ex_scan ex)"
    by blast
  have "take (length (scan_bytes E rs)) (put 0 (scan_bytes E rs) (ex_scan ex)) = scan_bytes E rs"
    if "length (scan_bytes E rs) < scan_end rq"
    using that assms(5) take_put [of 0 "scan_bytes E rs" "ex_scan ex"] by simp
  with r show ?thesis by (intro exI [of _ n] exI [of _ b] exI conjI) auto
qed

end
