(* ===== verification/Bus_Frame.thy ===== *)
theory Bus_Frame
  imports Bus_Ioctl_Ok
begin

text \<open>
  What no ioctl of the bus changes, whatever its callbacks do: which interface is in which slot,
  the fields of every interface that its driver set, and, while nothing is registered, the
  clients.
\<close>

section \<open>The frame\<close>

definition bus_frame :: "'c bus \<Rightarrow> 'c bus \<Rightarrow> bool" where
  "bus_frame w w' \<longleftrightarrow>
     map pDeviceInterface (DeviceData (FdoData w')) = map pDeviceInterface (DeviceData (FdoData w)) \<and>
     (\<forall>p. rel_option iface_agrees (ifaces w p) (ifaces w' p)) \<and>
     (\<not> any_registered (FdoData w) \<longrightarrow> client w' = client w)"

lemma iface_agrees_refl [simp]: "iface_agrees x x"
  by (simp add: iface_agrees_def)

lemma iface_agrees_trans: "iface_agrees x y \<Longrightarrow> iface_agrees y z \<Longrightarrow> iface_agrees x z"
  by (simp add: iface_agrees_def)

lemma rel_agrees_trans:
  "rel_option iface_agrees x y \<Longrightarrow> rel_option iface_agrees y z \<Longrightarrow> rel_option iface_agrees x z"
  by (cases x; cases y; cases z) (auto intro: iface_agrees_trans)

lemma any_registered_map:
  "any_registered f \<longleftrightarrow> (\<exists>p. Some p \<in> set (map pDeviceInterface (DeviceData f)))"
  unfolding any_registered_def set_map image_iff by (metis option.distinct(1) option.exhaust)

lemma bus_frame_refl [simp]: "bus_frame w w"
  by (simp add: bus_frame_def option.rel_refl)

lemma bus_frame_trans:
  assumes "bus_frame a b" "bus_frame b c"
  shows "bus_frame a c"
proof -
  have "rel_option iface_agrees (ifaces a p) (ifaces c p)" for p
    using assms by (auto simp: bus_frame_def intro: rel_agrees_trans)
  moreover have "any_registered (FdoData b) = any_registered (FdoData a)"
    using assms(1) by (simp add: any_registered_map bus_frame_def)
  ultimately show ?thesis using assms by (simp add: bus_frame_def)
qed

lemma frame_iface:
  "ifaces w p = Some x \<Longrightarrow> iface_agrees x y \<Longrightarrow> bus_frame w (set_iface p y w)"
  by (simp add: bus_frame_def set_iface_def option.rel_refl)

lemma frame_slot:
  "i < length (DeviceData (FdoData w)) \<Longrightarrow>
   pDeviceInterface t = pDeviceInterface (DeviceData (FdoData w) ! i) \<Longrightarrow> bus_frame w (set_slot i t w)"
  by (simp add: bus_frame_def set_slot_def option.rel_refl map_update list_update_same_conv)

lemma frame_devstate:
  assumes "set_devstate p d w = Some w'"
  shows "bus_frame w w'" "FdoData w' = FdoData w"
  using assms by (auto simp: set_devstate_def iface_agrees_def intro!: frame_iface split: bind_splits)
    (auto simp: set_iface_def)

lemma frame_call:
  assumes "cb_frame a w w'" "any_registered (FdoData w)"
  shows "bus_frame w w'"
proof -
  have "rel_option iface_agrees (ifaces w p) (ifaces w' p)" for p
    using assms(1) by (cases "p = a") (auto simp: cb_frame_def iface_agrees_def option.rel_refl)
  then show ?thesis using assms by (simp add: bus_frame_def cb_frame_def)
qed

lemma registered_found: "Bus_FindPdoBySerialNo f sn = Some i \<Longrightarrow> any_registered f"
  using Bus_Find_Some [of f sn i] by (force simp: any_registered_def intro: nth_mem)

section \<open>Plug-in and unplug\<close>

lemma devstate_slot_frame:
  assumes "set_devstate p d w = Some w1" "slot_at (FdoData w) i = Some s"
  shows "bus_frame w (set_slot i (s\<lparr>state_old_from_wb := e\<rparr>) w1)"
proof -
  have "s = DeviceData (FdoData w1) ! i" "i < length (DeviceData (FdoData w1))"
    using assms(2) frame_devstate(2) [OF assms(1)] by (auto simp: slot_at_def split: if_splits)
  then have "bus_frame w1 (set_slot i (s\<lparr>state_old_from_wb := e\<rparr>) w1)" by (intro frame_slot) simp_all
  with frame_devstate(1) [OF assms(1)] show ?thesis by (rule bus_frame_trans)
qed

lemma fdo_ofD: "fdo_of w = Some f \<Longrightarrow> f = FdoData w"
  by (simp add: fdo_of_def split: if_splits)

lemma plug_started_frame: "plug_started i w = Some (r, w') \<Longrightarrow> bus_frame w w'"
  by (auto simp: plug_started_def dest!: fdo_ofD intro: devstate_slot_frame split: bind_splits)

lemma unplug_closed_frame: "unplug_closed i ret w = Some w' \<Longrightarrow> bus_frame w w'"
  by (auto simp: unplug_closed_def dest!: fdo_ofD intro: devstate_slot_frame split: bind_splits if_splits)

context bus_client begin

lemma plug_frame:
  assumes "bus_ok ok w" "Bus_PlugInDevice call sn w = Some (r, w')"
  shows "bus_frame w w'"
proof (cases "Bus_FindPdoBySerialNo (FdoData w) (sn AND HOTKEY_FLAG_AND)")
  case None
  with assms show ?thesis by (auto simp: Bus_PlugInDevice_def bus_ok_def Let_def split: if_splits)
next
  case (Some i)
  have inv: "bus_inv w" using assms(1) by (simp add: bus_ok_def)
  obtain p x where i: "i < 3" and p: "pDeviceInterface (DeviceData (FdoData w) ! i) = Some p"
    and x: "ifaces w p = Some x" and xok: "iface_ok (DeviceData (FdoData w) ! i) x"
    and s: "slot_at (FdoData w) i = Some (DeviceData (FdoData w) ! i)"
    using inv Some by (rule Bus_Find_slot)
  from xok obtain cb where cb: "open_cb x = Some cb" by (auto simp: iface_ok_def)
  let ?w0 = "set_iface p (x\<lparr>pPciDev := None\<rparr>) w"
  have ok0: "bus_ok ok ?w0"
    using assms(1) x xok by (intro set_iface_ok) (auto simp: iface_agrees_def iface_ok_def)
  obtain r1 w1 where c: "call cb p ?w0 = Some (r1, w1)" "cb_frame p ?w0 w1"
    using callback_ok [OF ok0 i, of p "x\<lparr>pPciDev := None\<rparr>" cb] p cb
    by (auto simp: set_iface_def)
  have "bus_frame w ?w0" using x by (intro frame_iface) (auto simp: iface_agrees_def)
  moreover have "bus_frame ?w0 w1"
    using c(2) registered_found [OF Some] by (intro frame_call) (auto simp: set_iface_def)
  ultimately have "bus_frame w w1" by (rule bus_frame_trans)
  moreover have "w' = w \<or> w' = w1 \<or> (\<exists>r2. plug_started i w1 = Some (r2, w'))"
    using assms(2) Some inv s p x cb c(1)
    by (auto simp: Bus_PlugInDevice_def Let_def split: if_splits)
  ultimately show ?thesis using plug_started_frame by (blast intro: bus_frame_refl bus_frame_trans)
qed

lemma unplug_one_frame:
  assumes "bus_ok ok w" "unplug_one call sn w = Some (r, w')"
  shows "bus_frame w w'"
proof (cases "Bus_FindPdoBySerialNo (FdoData w) (sn AND HOTKEY_FLAG_AND)")
  case None
  with assms show ?thesis by (simp add: unplug_one_def bus_ok_def)
next
  case (Some i)
  have inv: "bus_inv w" using assms(1) by (simp add: bus_ok_def)
  obtain p x where i: "i < 3" and p: "pDeviceInterface (DeviceData (FdoData w) ! i) = Some p"
    and x: "ifaces w p = Some x" and xok: "iface_ok (DeviceData (FdoData w) ! i) x"
    and s: "slot_at (FdoData w) i = Some (DeviceData (FdoData w) ! i)"
    using inv Some by (rule Bus_Find_slot)
  from xok obtain cb where cb: "close_cb x = Some cb" by (auto simp: iface_ok_def)
  let ?w0 = "set_slot i ((DeviceData (FdoData w) ! i)\<lparr>state_old_from_wb := devstate x\<rparr>) w"
  have ok0: "bus_ok ok ?w0"
    using assms(1) i by (intro set_slot_ok) (auto simp: slot_agrees_def)
  have p0: "pDeviceInterface (DeviceData (FdoData ?w0) ! i) = Some p"
    using p i inv by (simp add: set_slot_def)
  obtain r1 w1 where c: "call cb p ?w0 = Some (r1, w1)" "cb_frame p ?w0 w1"
    using callback_ok [OF ok0 i p0, of x cb] x cb by (auto simp: set_slot_def)
  have f0: "bus_frame w ?w0" using i inv by (intro frame_slot) simp_all
  moreover have "bus_frame ?w0 w1"
    using c(2) registered_found [OF Some] f0 by (intro frame_call) (auto simp: any_registered_map bus_frame_def)
  ultimately have "bus_frame w w1" by (rule bus_frame_trans)
  moreover have "w' = w \<or> unplug_closed i r1 w1 = Some w'"
    using assms(2) Some inv s p x cb c(1) by (auto simp: unplug_one_def split: if_splits bind_splits)
  ultimately show ?thesis using unplug_closed_frame by (blast intro: bus_frame_refl bus_frame_trans)
qed

lemma unplug_all_frame:
  assumes step: "\<And>w sn. sn \<noteq> 0 \<Longrightarrow> bus_ok ok w \<Longrightarrow>
      \<exists>r w'. rec sn w = Some (r, w') \<and> bus_ok ok w' \<and> bus_frame w w'"
    and "bus_ok ok w" "set is \<subseteq> {..<3}" "unplug_all rec is w = Some w'"
  shows "bus_frame w w'"
  using assms(2-)
proof (induction "is" arbitrary: w)
  case (Cons i "is")
  have inv: "bus_inv w" using Cons.prems by (simp add: bus_ok_def)
  let ?s = "DeviceData (FdoData w) ! i"
  have "sSerialNo ?s \<in> {1, 2, 4}"
    using bus_inv_serial [OF inv, of i] Cons.prems(2) by (auto simp: less_Suc_eq numeral_3_eq_3)
  then have "(ucast (sSerialNo ?s) :: u32) \<noteq> 0" by auto
  from step [OF this Cons.prems(1)] obtain r w1
    where w1: "rec (ucast (sSerialNo ?s)) w = Some (r, w1)" "bus_ok ok w1" "bus_frame w w1" by blast
  show ?case
  proof (cases "pDeviceInterface ?s")
    case None
    with Cons inv show ?thesis by simp
  next
    case (Some p)
    with Cons.prems inv w1 have "unplug_all rec is w1 = Some w'" by simp
    with Cons.IH [OF w1(2)] Cons.prems(2) w1(3) show ?thesis by (auto intro: bus_frame_trans)
  qed
qed simp

lemma unplug_frame:
  assumes "bus_ok ok w" "Bus_UnPlugDevice 2 call sn w = Some (r, w')"
  shows "bus_frame w w'"
proof (cases "sn = 0")
  case True
  have "bus_frame w w'"
  proof (rule unplug_all_frame [OF _ assms(1)])
    show "unplug_all (Bus_UnPlugDevice (Suc 0) call) [0..<3] w = Some w'"
      using assms(2) True
      by (auto simp: numeral_2_eq_2 BUS_DEVICE_TOTAL_COUNT_def simp del: upt_rec_numeral split: bind_splits)
    show "\<exists>r w'. Bus_UnPlugDevice (Suc 0) call sn w = Some (r, w') \<and> bus_ok ok w' \<and> bus_frame w w'"
      if "sn \<noteq> 0" "bus_ok ok w" for sn w
      using unplug_one_ok [OF that(2), of sn] unplug_one_frame [OF that(2), of sn] that(1) by auto
  qed auto
  then show ?thesis .
next
  case False
  with assms unplug_one_frame show ?thesis by (simp add: numeral_2_eq_2)
qed

end

section \<open>The automatic start\<close>

context bus_client begin

lemma auto_open_frame:
  assumes "bus_ok ok w" "i < 3" "pDeviceInterface (DeviceData (FdoData w) ! i) = Some a"
    and "auto_open call a i w = Some w'"
  shows "bus_frame w w'"
proof -
  have inv: "bus_inv w" using assms(1) by (simp add: bus_ok_def)
  obtain x where x: "ifaces w a = Some x" and xok: "iface_ok (DeviceData (FdoData w) ! i) x"
    using inv assms(2,3) by (rule bus_inv_iface)
  from xok obtain cb where cb: "open_cb x = Some cb" by (auto simp: iface_ok_def)
  obtain r w1 where c: "call cb a w = Some (r, w1)" "cb_frame a w w1"
    using callback_ok [OF assms(1-3) x, of cb] cb by auto
  have "DeviceData (FdoData w) ! i \<in> set (DeviceData (FdoData w))" using inv assms(2) by simp
  then have "any_registered (FdoData w)" using assms(3) unfolding any_registered_def by fastforce
  then have "bus_frame w w1" using c(2) by (rule frame_call [rotated])
  moreover have "w' = w \<or> w' = w1 \<or> (\<exists>p. set_devstate p Started w1 = Some w')"
    using assms inv x cb c(1) by (auto simp: auto_open_def split: if_splits bind_splits)
  ultimately show ?thesis using frame_devstate(1) by (blast intro: bus_frame_refl bus_frame_trans)
qed

end

section \<open>Every ioctl\<close>

text \<open>
  A case of the switch whose start and end are related by \<open>R\<close> where it returns.  All cases but
  plug-in and unplug stay within \<open>flag_frame\<close>.
\<close>

definition frames :: "('c bus \<Rightarrow> 'c bus \<Rightarrow> bool) \<Rightarrow> ('c bus \<Rightarrow> bool) \<Rightarrow> 'c ioctl_case \<Rightarrow> bool" where
  "frames R I c \<longleftrightarrow> (\<forall>m w r m' w'. I w \<longrightarrow> c m w = Some (r, m', w') \<longrightarrow> R w w')"

lemma frames_if: "(b \<Longrightarrow> frames R I c) \<Longrightarrow> (\<not> b \<Longrightarrow> frames R I d) \<Longrightarrow> frames R I (if b then c else d)"
  by simp

lemma frames_mono:
  "frames R I c \<Longrightarrow> (\<And>w w'. R w w' \<Longrightarrow> R' w w') \<Longrightarrow> (\<And>w. I' w \<Longrightarrow> I w) \<Longrightarrow> frames R' I' c"
  unfolding frames_def by blast

lemma reply_same: "ioctl_reply bs m w = Some (r, m', w') \<Longrightarrow> w' = w"
  by (auto simp: ioctl_reply_def Let_def split: prod.splits if_splits)

lemma frames_same: "(\<And>m w r m' w'. c m w = Some (r, m', w') \<Longrightarrow> w' = w) \<Longrightarrow> frames flag_frame I c"
  unfolding frames_def by (metis flag_frame_refl)

lemma frames_fetch:
  "(\<And>x. frames R I (k x)) \<Longrightarrow> (\<And>w. R w w) \<Longrightarrow> frames R I (ioctl_fetch k)"
  unfolding frames_def ioctl_fetch_def
  by (auto split: prod.splits if_splits option.splits)

lemma frames_status: "frames flag_frame I (ioctl_status st)"
  by (simp add: frames_def ioctl_status_def flag_frame_refl)

lemmas query_defs = ioctl_query_bus_power_state_def ioctl_store_def ioctl_display_in_use_def
  ioctl_query_bus_version_def ioctl_get_chip_id_def ioctl_get_sub_system_id_info_def
  ioctl_query_rf_type_def ioctl_query_auto_enum_flag_def ioctl_query_firmware_def

lemmas query_splits = bind_splits option.splits if_splits prod.splits

lemma frames_queries:
  "frames flag_frame I ioctl_query_bus_power_state" "frames flag_frame I (ioctl_store v)"
  "frames flag_frame I ioctl_display_in_use" "frames flag_frame I ioctl_query_bus_version"
  "frames flag_frame I ioctl_get_chip_id" "frames flag_frame I (ioctl_get_sub_system_id_info n)"
  "frames flag_frame I ioctl_query_rf_type" "frames flag_frame I ioctl_query_auto_enum_flag"
  "frames flag_frame I (ioctl_query_firmware field)"
  by (rule frames_same,
      auto simp: query_defs ioctl_status_def Let_def dest: reply_same split: query_splits)+

lemma frames_lookups:
  "frames flag_frame I ioctl_query_device_state" "frames flag_frame I ioctl_query_device_version"
  "frames flag_frame I ioctl_query_device_comnum" "frames flag_frame I ioctl_query_device_companyid"
  unfolding ioctl_query_device_state_def ioctl_query_device_version_def
    ioctl_query_device_comnum_def ioctl_query_device_companyid_def
  by (rule frames_same,
      auto simp: ioctl_status_def ioctl_fetch_def Let_def dest: reply_same split: query_splits)+

lemma frame_enum: "flag_frame w (set_enum_mode e w)"
  by (simp add: flag_frame_def set_enum_mode_def option.rel_refl iface_agrees_def)

lemma frames_enum: "frames flag_frame I ioctl_read_enum_mode" "frames flag_frame I ioctl_write_enum_mode"
proof -
  show "frames flag_frame I ioctl_write_enum_mode"
    unfolding ioctl_write_enum_mode_def
    by (rule frames_fetch)
      (auto simp: frames_def ioctl_status_def frame_enum flag_frame_refl split: bind_splits)
  show "frames flag_frame I ioctl_read_enum_mode"
    unfolding frames_def ioctl_read_enum_mode_def
    by (auto simp: Let_def frame_enum dest!: reply_same split: query_splits)
qed

lemma flag_frame_bus: "flag_frame w w' \<Longrightarrow> bus_frame w w'"
  unfolding flag_frame_def bus_frame_def by (auto elim: option.rel_mono_strong)

lemma frames_loop:
  assumes "\<And>w. bus_inv w \<Longrightarrow> \<exists>w'. for_each_slot (f flag) [0..<3] w = Some w' \<and> flag_frame w w'"
  shows "frames flag_frame bus_inv (\<lambda>m w. do { w1 \<leftarrow> for_each_slot (f flag) [0..<BUS_DEVICE_TOTAL_COUNT] w;
      ioctl_status st m w1 })"
  unfolding frames_def
proof (intro allI impI)
  fix m w r m' w'
  assume "bus_inv w" and run: "do { w1 \<leftarrow> for_each_slot (f flag) [0..<BUS_DEVICE_TOTAL_COUNT] w;
      ioctl_status st m w1 } = Some (r, m', w')"
  from assms [OF this(1)] obtain w1 where
    "for_each_slot (f flag) [0..<3] w = Some w1" "flag_frame w w1" by blast
  with run show "flag_frame w w'"
    by (auto simp: BUS_DEVICE_TOTAL_COUNT_def ioctl_status_def simp del: upt_rec_numeral)
qed

lemma frames_flags:
  "frames flag_frame bus_inv ioctl_set_hotkey_flag" "frames flag_frame bus_inv ioctl_set_antenna"
proof -
  show "frames flag_frame bus_inv ioctl_set_hotkey_flag"
    unfolding ioctl_set_hotkey_flag_def
    by (rule frames_fetch, rule frames_loop) (use hotkey_loop_run flag_frame_refl in blast)+
  show "frames flag_frame bus_inv ioctl_set_antenna"
    unfolding ioctl_set_antenna_def
    by (rule frames_fetch, rule frames_loop) (use antenna_loop_run flag_frame_refl in blast)+
qed

lemma frames_request:
  "(\<And>sn. frames R I (k sn)) \<Longrightarrow> (\<And>w. R w w) \<Longrightarrow> frames R I (ioctl_request n stk k)"
  unfolding ioctl_request_def
  by (rule frames_fetch) (auto simp: frames_def split: query_splits)

lemma frames_switch:
  assumes "frames R I (ioctl_plugin call stk)" "frames R I (ioctl_unplug call stk)"
    and "\<And>w w'. flag_frame w w' \<Longrightarrow> R w w'" "\<And>w. I w \<Longrightarrow> bus_inv w"
  shows "frames R I (ioctl_switch call stk cmd)"
  unfolding ioctl_switch_def ioctl_query_firmware_version_def ioctl_query_8051_version_def
  by (intro frames_if assms(1,2) frames_mono [OF frames_status assms(3,4)]
      frames_mono [OF frames_queries(1) assms(3,4)] frames_mono [OF frames_queries(2) assms(3,4)]
      frames_mono [OF frames_queries(3) assms(3,4)] frames_mono [OF frames_queries(4) assms(3,4)]
      frames_mono [OF frames_queries(5) assms(3,4)] frames_mono [OF frames_queries(6) assms(3,4)]
      frames_mono [OF frames_queries(7) assms(3,4)] frames_mono [OF frames_queries(8) assms(3,4)]
      frames_mono [OF frames_queries(9) assms(3,4)] frames_mono [OF frames_lookups(1) assms(3,4)]
      frames_mono [OF frames_lookups(2) assms(3,4)] frames_mono [OF frames_lookups(3) assms(3,4)]
      frames_mono [OF frames_lookups(4) assms(3,4)] frames_mono [OF frames_enum(1) assms(3,4)]
      frames_mono [OF frames_enum(2) assms(3,4)] frames_mono [OF frames_flags(1) assms(3,4)]
      frames_mono [OF frames_flags(2) assms(3,4)])

text \<open>An ioctl is a case of the switch, or changes nothing.\<close>

lemma ioctl_related:
  assumes "frames R I (ioctl_plugin call stk)" "frames R I (ioctl_unplug call stk)"
    and R: "\<And>w w'. flag_frame w w' \<Longrightarrow> R w w'" and "\<And>w. I w \<Longrightarrow> bus_inv w" "I w"
    and run: "tdspbus_unlocked_ioctl call stk pfile cmd m w = Some (r, m', w')"
  shows "R w w'"
proof -
  have "frames R I (ioctl_switch call stk cmd)" using assms(1-4) by (rule frames_switch)
  moreover have "w' = w \<or> ioctl_switch call stk cmd m w = Some (r, m', w')"
    using run by (auto simp: tdspbus_unlocked_ioctl_def split: if_splits bind_splits)
  moreover have "R w w" by (rule R) (rule flag_frame_refl)
  ultimately show ?thesis using \<open>I w\<close> by (auto simp: frames_def)
qed

context bus_client begin

lemma ioctl_frame:
  assumes "bus_ok ok w" "tdspbus_unlocked_ioctl call stk pfile cmd m w = Some (r, m', w')"
  shows "bus_frame w w'"
proof (rule ioctl_related [where R = bus_frame and I = "bus_ok ok"])
  show "frames bus_frame (bus_ok ok) (ioctl_plugin call stk)"
    unfolding ioctl_plugin_def
    by (rule frames_request) (auto simp: frames_def split: bind_splits dest: plug_frame)
  show "frames bus_frame (bus_ok ok) (ioctl_unplug call stk)"
    unfolding ioctl_unplug_def
    by (rule frames_request) (auto simp: frames_def split: bind_splits dest: unplug_frame)
qed (use assms in \<open>auto simp: bus_ok_def flag_frame_bus\<close>)

end

end
