(* ===== verification/Bus_Shut.thy ===== *)
theory Bus_Shut
  imports Bus_Frame
begin

text \<open>
  A device the bus does not hold as started is closed.  What a client calls closed is its own
  affair; the locale \<open>bus_closer\<close> says what of it the bus relies on: a failed open leaves a
  closed device closed, a close closes it, and a callback does not open the devices of others.
  Every operation of the bus then keeps all devices that are not started closed.  So it does with
  any property of the client's state that closing a device keeps, and opening a closed one.
\<close>

locale bus_closer = bus_client +
  fixes closed :: "'a \<Rightarrow> iface \<Rightarrow> bool" and kept :: "'a \<Rightarrow> bool"
  assumes closed_agrees: "iface_agrees x y \<Longrightarrow> closed c x \<Longrightarrow> closed c y"
    and open_fails:
      "ifaces w a = Some x \<Longrightarrow> ok (client w) a x \<Longrightarrow> closed (client w) x \<Longrightarrow>
       open_cb x = Some cb \<Longrightarrow> call cb a w = Some (r, w') \<Longrightarrow> r \<noteq> 0 \<Longrightarrow> closed (client w') x"
    and close_closes:
      "ifaces w a = Some x \<Longrightarrow> ok (client w) a x \<Longrightarrow> close_cb x = Some cb \<Longrightarrow>
       call cb a w = Some (r, w') \<Longrightarrow> closed (client w') x"
    and others_closed:
      "ifaces w a = Some x \<Longrightarrow> ok (client w) a x \<Longrightarrow> open_cb x = Some cb \<or> close_cb x = Some cb \<Longrightarrow>
       call cb a w = Some (r, w') \<Longrightarrow> b \<noteq> a \<Longrightarrow> ok (client w) b y \<Longrightarrow> closed (client w) y \<Longrightarrow>
       closed (client w') y"
    and open_keeps:
      "ifaces w a = Some x \<Longrightarrow> ok (client w) a x \<Longrightarrow> closed (client w) x \<Longrightarrow>
       open_cb x = Some cb \<Longrightarrow> call cb a w = Some (r, w') \<Longrightarrow> kept (client w) \<Longrightarrow> kept (client w')"
    and close_keeps:
      "ifaces w a = Some x \<Longrightarrow> ok (client w) a x \<Longrightarrow> close_cb x = Some cb \<Longrightarrow>
       call cb a w = Some (r, w') \<Longrightarrow> kept (client w) \<Longrightarrow> kept (client w')"

text \<open>The devices outside \<open>P\<close> that are not started are closed.\<close>

definition shut :: "('c \<Rightarrow> iface \<Rightarrow> bool) \<Rightarrow> addr set \<Rightarrow> 'c bus \<Rightarrow> bool" where
  "shut closed P w \<longleftrightarrow>
     (\<forall>p x. Some p \<in> set (map pDeviceInterface (DeviceData (FdoData w))) \<longrightarrow> p \<notin> P \<longrightarrow>
        ifaces w p = Some x \<longrightarrow> devstate x \<noteq> Started \<longrightarrow> closed (client w) x)"

lemma shutD:
  "shut closed P w \<Longrightarrow> Some p \<in> set (map pDeviceInterface (DeviceData (FdoData w))) \<Longrightarrow> p \<notin> P \<Longrightarrow>
   ifaces w p = Some x \<Longrightarrow> devstate x \<noteq> Started \<Longrightarrow> closed (client w) x"
  unfolding shut_def by blast

lemma slot_ptr_mem:
  "i < length (DeviceData f) \<Longrightarrow> pDeviceInterface (DeviceData f ! i) = Some p \<Longrightarrow>
   Some p \<in> set (map pDeviceInterface (DeviceData f))"
  by (metis length_map nth_map nth_mem)

lemma shut_more: "shut closed P w \<Longrightarrow> P \<subseteq> Q \<Longrightarrow> shut closed Q w"
  unfolding shut_def by blast

lemma shut_less:
  "shut closed (insert p P) w \<Longrightarrow>
   (\<And>x. ifaces w p = Some x \<Longrightarrow> devstate x \<noteq> Started \<Longrightarrow> closed (client w) x) \<Longrightarrow> shut closed P w"
  unfolding shut_def by blast

lemma flag_frame_iface:
  "ifaces w p = Some x \<Longrightarrow> iface_agrees x y \<Longrightarrow> devstate y = devstate x \<Longrightarrow>
   flag_frame w (set_iface p y w)"
  by (simp add: flag_frame_def set_iface_def option.rel_refl iface_agrees_def)

lemma flag_frame_slot:
  "i < length (DeviceData (FdoData w)) \<Longrightarrow>
   pDeviceInterface t = pDeviceInterface (DeviceData (FdoData w) ! i) \<Longrightarrow> flag_frame w (set_slot i t w)"
  by (simp add: flag_frame_def set_slot_def option.rel_refl map_update list_update_same_conv
      iface_agrees_def)

context bus_closer begin

definition tidy :: "'a bus \<Rightarrow> bool" where
  "tidy w \<longleftrightarrow> shut closed {} w \<and> kept (client w)"

lemma shut_flag:
  assumes f: "flag_frame w w'" and s: "shut closed P w"
  shows "shut closed P w'"
  unfolding shut_def
proof (intro allI impI)
  fix p y
  assume p: "Some p \<in> set (map pDeviceInterface (DeviceData (FdoData w')))" "p \<notin> P"
    and y: "ifaces w' p = Some y" "devstate y \<noteq> Started"
  obtain x where x: "ifaces w p = Some x" "iface_agrees x y" "devstate y = devstate x"
    using f y(1) by (auto simp: flag_frame_def option_rel_Some2 dest!: spec [of _ p])
  have "closed (client w) x"
    by (rule shutD [OF s _ p(2) x(1)]) (use f p(1) y(2) x(3) in \<open>simp_all add: flag_frame_def\<close>)
  with x(2) have "closed (client w) y" by (blast intro: closed_agrees)
  then show "closed (client w') y" using f by (simp add: flag_frame_def)
qed

text \<open>A callback of \<open>a\<close> keeps the others' devices.\<close>

lemma shut_call:
  assumes ok: "bus_ok ok w" and x: "ifaces w a = Some x" "ok (client w) a x"
    and cb: "open_cb x = Some cb \<or> close_cb x = Some cb"
    and c: "call cb a w = Some (r, w')" "cb_frame a w w'" and s: "shut closed P w"
  shows "shut closed (insert a P) w'"
  unfolding shut_def
proof (intro allI impI)
  fix p y
  assume p: "Some p \<in> set (map pDeviceInterface (DeviceData (FdoData w')))" "p \<notin> insert a P"
    and y: "ifaces w' p = Some y" "devstate y \<noteq> Started"
  have same: "ifaces w p = Some y" "Some p \<in> set (map pDeviceInterface (DeviceData (FdoData w)))"
    using c(2) p y(1) by (auto simp: cb_frame_def)
  have "ok (client w) p y"
    using ok same by (auto simp: bus_ok_def clients_ok_def)
  moreover have "closed (client w) y" using s same p(2) y(2) by (blast intro: shutD)
  ultimately show "closed (client w') y" using others_closed [OF x cb c(1)] p(2) by blast
qed

text \<open>The device state set after a callback.\<close>

lemma shut_devstate:
  assumes s: "shut closed (insert p P) w" and d: "set_devstate p e w = Some w'"
    and e: "e = Started \<or> (\<forall>x. ifaces w p = Some x \<longrightarrow> closed (client w) x)"
  shows "shut closed P w'"
proof -
  obtain x where x: "ifaces w p = Some x" "w' = set_iface p (x\<lparr>devstate := e\<rparr>) w"
    using d by (auto simp: set_devstate_def split: bind_splits)
  have "closed (client w) x \<Longrightarrow> closed (client w) (x\<lparr>devstate := e\<rparr>)"
    by (rule closed_agrees) (simp add: iface_agrees_def)
  with e x s show ?thesis unfolding shut_def by (auto simp: set_iface_def split: if_splits)
qed

lemma shut_devstate_slot:
  assumes s: "shut closed (insert p P) w" and d: "set_devstate p e w = Some w1"
    and e: "e = Started \<or> (\<forall>x. ifaces w p = Some x \<longrightarrow> closed (client w) x)"
    and t: "slot_at (FdoData w) i = Some t"
  shows "shut closed P (set_slot i (t\<lparr>state_old_from_wb := e'\<rparr>) w1)"
proof -
  have "FdoData w1 = FdoData w" by (rule frame_devstate(2) [OF d])
  with t have "flag_frame w1 (set_slot i (t\<lparr>state_old_from_wb := e'\<rparr>) w1)"
    by (intro flag_frame_slot) (auto simp: slot_at_def split: if_splits)
  then show ?thesis by (rule shut_flag) (rule shut_devstate [OF s d e])
qed

section \<open>Plug-in and unplug\<close>

lemma plug_shut:
  assumes "bus_ok ok w" "Bus_PlugInDevice call sn w = Some (r, w')" and shut: "tidy w"
  shows "tidy w'"
proof (cases "Bus_FindPdoBySerialNo (FdoData w) (sn AND HOTKEY_FLAG_AND)")
  case None
  with assms show ?thesis by (auto simp: Bus_PlugInDevice_def bus_ok_def Let_def split: if_splits)
next
  case (Some i)
  have inv: "bus_inv w" using assms(1) by (simp add: bus_ok_def)
  obtain p x where i: "i < 3" and p: "pDeviceInterface (DeviceData (FdoData w) ! i) = Some p"
    and x: "ifaces w p = Some x" and xok: "iface_ok (DeviceData (FdoData w) ! i) x"
    and s: "slot_at (FdoData w) i = Some (DeviceData (FdoData w) ! i)"
    using inv Some by (rule Bus_Find_slot)
  from xok obtain cb where cb: "open_cb x = Some cb" by (auto simp: iface_ok_def)
  let ?x0 = "x\<lparr>pPciDev := None\<rparr>" let ?w0 = "set_iface p ?x0 w"
  have ag: "iface_agrees x ?x0" by (simp add: iface_agrees_def)
  have ok0: "bus_ok ok ?w0"
    using assms(1) x xok ag by (intro set_iface_ok) (auto simp: iface_ok_def)
  have okx: "ok (client w) p x"
    using assms(1) i p x inv by (intro clients_okD [of ok w i]) (simp_all add: bus_ok_def)
  have x0: "ifaces ?w0 p = Some ?x0" "ok (client ?w0) p ?x0"
    using ok_agrees [OF ag okx] by (simp_all add: set_iface_def)
  obtain r1 w1 where c: "call cb p ?w0 = Some (r1, w1)" "cb_frame p ?w0 w1"
    using callback_ok [OF ok0 i, of p ?x0 cb] p cb x0(1) by (auto simp: set_iface_def)
  have sh: "shut closed {} w" using shut by (simp add: tidy_def)
  have s0: "shut closed {} ?w0" 
    by (rule shut_flag [OF flag_frame_iface [OF x ag]]) (use shut in \<open>simp_all add: tidy_def\<close>)
  have s1: "shut closed {p} w1"
    by (rule shut_call [OF ok0 x0 _ c s0]) (use cb in simp)
  have p1: "pDeviceInterface (DeviceData (FdoData w1) ! i) = Some p" "fdo_of w1 = Some (FdoData w1)"
    "slot_at (FdoData w1) i = Some (DeviceData (FdoData w1) ! i)"
    using c(2) p s inv by (auto simp: cb_frame_def set_iface_def bus_inv_def fdo_of_def)
  consider "w' = w" | "r1 \<noteq> 0" "w' = w1" "devstate x \<noteq> Started"
    | r2 where "plug_started i w1 = Some (r2, w')" "devstate x \<noteq> Started"
    using assms(2) Some inv s p x cb c(1)
    by (auto simp: Bus_PlugInDevice_def Let_def split: if_splits)
  moreover have kept: "closed (client ?w0) ?x0" "kept (client w1)" if d: "devstate x \<noteq> Started"
  proof -
    have "closed (client w) x"
      using inv i by (intro shutD [OF sh slot_ptr_mem [OF _ p] _ x d]) simp_all
    then have "closed (client w) ?x0" by (rule closed_agrees [OF ag])
    then show cl: "closed (client ?w0) ?x0" by (simp add: set_iface_def)
    show "kept (client w1)"
      by (rule open_keeps [OF x0 cl _ c(1)]) (use cb shut in \<open>simp_all add: tidy_def set_iface_def\<close>)
  qed
  ultimately show ?thesis
  proof cases
    case 2
    have "closed (client w1) ?x0" using open_fails [OF x0 kept(1) _ c(1) 2(1)] 2(3) cb by simp
    moreover have "iface_agrees ?x0 y" if "ifaces w1 p = Some y" for y
      using c(2) that by (auto simp: cb_frame_def set_iface_def iface_agrees_def)
    ultimately show ?thesis
      using s1 kept(2) [OF 2(3)] unfolding 2(2) tidy_def by (blast intro: shut_less closed_agrees)
  next
    case 3
    then obtain w2 where w2: "set_devstate p Started w1 = Some w2"
      "w' = set_slot i ((DeviceData (FdoData w1) ! i)\<lparr>state_old_from_wb := Started\<rparr>) w2"
      using p1 by (auto simp: plug_started_def split: bind_splits)
    have "client w' = client w1" using w2 by (auto simp: set_devstate_def set_slot_def set_iface_def split: bind_splits)
    with s1 p1(3) w2 kept(2) [OF 3(2)] show ?thesis by (auto simp: tidy_def intro: shut_devstate_slot)
  qed (use shut in simp)
qed

text \<open>After the close callback the device is closed.\<close>

lemma close_shut:
  assumes ok: "bus_ok ok w" and x: "ifaces w a = Some x" "ok (client w) a x" "close_cb x = Some cb"
    and c: "call cb a w = Some (r, w')" "cb_frame a w w'" and s: "shut closed P w"
  shows "shut closed P w'" "ifaces w' a = Some y \<Longrightarrow> closed (client w') y" "closed (client w') x"
proof -
  show cl: "closed (client w') x" by (rule close_closes [OF x c(1)])
  have "iface_agrees x y" if "ifaces w' a = Some y" for y
    using c(2) x(1) that by (auto simp: cb_frame_def iface_agrees_def)
  with cl show any: "closed (client w') y" if "ifaces w' a = Some y" for y
    using that by (blast intro: closed_agrees)
  show "shut closed P w'"
    by (rule shut_less [OF shut_call [OF ok x(1,2) _ c s]]) (use x(3) any in auto)
qed

lemma unplug_one_shut:
  assumes "bus_ok ok w" "unplug_one call sn w = Some (r, w')" and shut: "tidy w"
  shows "tidy w'"
proof (cases "Bus_FindPdoBySerialNo (FdoData w) (sn AND HOTKEY_FLAG_AND)")
  case None
  with assms show ?thesis by (simp add: unplug_one_def bus_ok_def)
next
  case (Some i)
  have inv: "bus_inv w" using assms(1) by (simp add: bus_ok_def)
  obtain p x where i: "i < 3" and p: "pDeviceInterface (DeviceData (FdoData w) ! i) = Some p"
    and x: "ifaces w p = Some x" and xok: "iface_ok (DeviceData (FdoData w) ! i) x"
    and s: "slot_at (FdoData w) i = Some (DeviceData (FdoData w) ! i)"
    using inv Some by (rule Bus_Find_slot)
  from xok obtain cb where cb: "close_cb x = Some cb" by (auto simp: iface_ok_def)
  let ?w0 = "set_slot i ((DeviceData (FdoData w) ! i)\<lparr>state_old_from_wb := devstate x\<rparr>) w"
  have ok0: "bus_ok ok ?w0"
    using assms(1) i by (intro set_slot_ok) (auto simp: slot_agrees_def)
  have p0: "pDeviceInterface (DeviceData (FdoData ?w0) ! i) = Some p"
    using p i inv by (simp add: set_slot_def)
  have x0: "ifaces ?w0 p = Some x" "ok (client ?w0) p x"
    using assms(1) x i p inv by (auto simp: bus_ok_def set_slot_def intro!: clients_okD [of ok w i])
  obtain r1 w1 where c: "call cb p ?w0 = Some (r1, w1)" "cb_frame p ?w0 w1"
    using callback_ok [OF ok0 i p0 x0(1), of cb] cb by auto
  have "shut closed {} ?w0"
    by (rule shut_flag [OF flag_frame_slot]) (use i inv shut in \<open>simp_all add: tidy_def\<close>)
  note s1 = close_shut [OF ok0 x0 cb c this]
  have kept: "kept (client w1)"
    by (rule close_keeps [OF x0 cb c(1)]) (use shut in \<open>simp add: tidy_def set_slot_def\<close>)
  have p1: "pDeviceInterface (DeviceData (FdoData w1) ! i) = Some p" "fdo_of w1 = Some (FdoData w1)"
    "slot_at (FdoData w1) i = Some (DeviceData (FdoData w1) ! i)"
    using c(2) p0 i inv by (auto simp: cb_frame_def set_slot_def bus_inv_def fdo_of_def slot_at_def)
  consider "w' = w" | "unplug_closed i r1 w1 = Some w'"
    using assms(2) Some inv s p x cb c(1) by (auto simp: unplug_one_def split: if_splits bind_splits)
  then show ?thesis
  proof cases
    case 2
    show ?thesis
    proof (cases "r1 = 0")
      case True
      with 2 p1 obtain w2 where w2: "set_devstate p Stopped w1 = Some w2"
        "w' = set_slot i ((DeviceData (FdoData w1) ! i)\<lparr>state_old_from_wb := Stopped\<rparr>) w2"
        by (auto simp: unplug_closed_def split: bind_splits)
      then have "client w' = client w1" by (auto simp: set_devstate_def set_slot_def set_iface_def split: bind_splits)
      with w2 s1 p1(3) kept show ?thesis
        by (auto simp: tidy_def intro!: shut_devstate_slot [where e = Stopped and w = w1 and p = p]
            intro: shut_more)
    qed (use 2 s1 kept in \<open>simp add: unplug_closed_def tidy_def\<close>)
  qed (use shut in simp)
qed

lemma unplug_all_shut:
  assumes step: "\<And>w sn. sn \<noteq> 0 \<Longrightarrow> bus_ok ok w \<Longrightarrow> tidy w \<Longrightarrow>
      \<exists>r w'. rec sn w = Some (r, w') \<and> bus_ok ok w' \<and> tidy w'"
    and "bus_ok ok w" "set is \<subseteq> {..<3}" "unplug_all rec is w = Some w'" "tidy w"
  shows "tidy w'"
  using assms(2-)
proof (induction "is" arbitrary: w)
  case (Cons i "is")
  have inv: "bus_inv w" using Cons.prems by (simp add: bus_ok_def)
  let ?s = "DeviceData (FdoData w) ! i"
  have "sSerialNo ?s \<in> {1, 2, 4}"
    using bus_inv_serial [OF inv, of i] Cons.prems(2) by (auto simp: less_Suc_eq numeral_3_eq_3)
  then have "(ucast (sSerialNo ?s) :: u32) \<noteq> 0" by auto
  from step [OF this Cons.prems(1,4)] obtain r w1
    where w1: "rec (ucast (sSerialNo ?s)) w = Some (r, w1)" "bus_ok ok w1" "tidy w1" by blast
  show ?case
  proof (cases "pDeviceInterface ?s")
    case None
    with Cons inv show ?thesis by simp
  next
    case (Some p)
    with Cons.prems inv w1 have "unplug_all rec is w1 = Some w'" by simp
    with Cons.IH [OF w1(2)] Cons.prems(2) w1(3) show ?thesis by simp
  qed
qed simp

lemma unplug_shut:
  assumes "bus_ok ok w" "Bus_UnPlugDevice 2 call sn w = Some (r, w')" "tidy w"
  shows "tidy w'"
proof (cases "sn = 0")
  case True
  show ?thesis
  proof (rule unplug_all_shut [OF _ assms(1)])
    show "unplug_all (Bus_UnPlugDevice (Suc 0) call) [0..<3] w = Some w'"
      using assms(2) True
      by (auto simp: numeral_2_eq_2 BUS_DEVICE_TOTAL_COUNT_def simp del: upt_rec_numeral split: bind_splits)
    show "\<exists>r w'. Bus_UnPlugDevice (Suc 0) call sn w = Some (r, w') \<and> bus_ok ok w' \<and> tidy w'"
      if "sn \<noteq> 0" "bus_ok ok w" "tidy w" for sn w
      using unplug_one_ok [OF that(2), of sn] unplug_one_shut [OF that(2) _ that(3), of sn] that(1) by auto
  qed (use assms in auto)
next
  case False
  with assms unplug_one_shut show ?thesis by (simp add: numeral_2_eq_2)
qed

lemma tidy_flag: "flag_frame w w' \<Longrightarrow> tidy w \<Longrightarrow> tidy w'"
  using shut_flag by (auto simp: tidy_def) (simp add: flag_frame_def)

lemma ioctl_shut:
  assumes "bus_ok ok w" "tdspbus_unlocked_ioctl call stk pfile cmd m w = Some (r, m', w')"
    and "tidy w"
  shows "tidy w'"
proof -
  have "tidy w \<longrightarrow> tidy w'"
  proof (rule ioctl_related [where R = "\<lambda>w w'. tidy w \<longrightarrow> tidy w'" and I = "bus_ok ok"])
    show "frames (\<lambda>w w'. tidy w \<longrightarrow> tidy w') (bus_ok ok) (ioctl_plugin call stk)"
      unfolding ioctl_plugin_def
      by (rule frames_request) (auto simp: frames_def split: bind_splits dest: plug_shut)
    show "frames (\<lambda>w w'. tidy w \<longrightarrow> tidy w') (bus_ok ok) (ioctl_unplug call stk)"
      unfolding ioctl_unplug_def
      by (rule frames_request) (auto simp: frames_def split: bind_splits dest: unplug_shut)
  qed (use assms(1,2) in \<open>auto simp: bus_ok_def intro: tidy_flag\<close>)
  with assms(3) show ?thesis by blast
qed

section \<open>Registration and unregistration\<close>

lemma auto_open_shut:
  assumes "bus_ok ok w" "i < 3" and p: "pDeviceInterface (DeviceData (FdoData w) ! i) = Some a"
    and run: "auto_open call a i w = Some w'" and shut: "tidy w"
    and cl: "\<And>x. ifaces w a = Some x \<Longrightarrow> closed (client w) x"
  shows "tidy w'"
proof -
  have inv: "bus_inv w" using assms(1) by (simp add: bus_ok_def)
  obtain x where x: "ifaces w a = Some x" and xok: "iface_ok (DeviceData (FdoData w) ! i) x"
    using inv assms(2) p by (rule bus_inv_iface)
  from xok obtain cb where cb: "open_cb x = Some cb" by (auto simp: iface_ok_def)
  obtain r w1 where c: "call cb a w = Some (r, w1)" "cb_frame a w w1"
    using callback_ok [OF assms(1,2) p x, of cb] cb by auto
  have okx: "ok (client w) a x"
    using assms(1,2) p x inv by (intro clients_okD [of ok w i]) (simp_all add: bus_ok_def)
  have s1: "shut closed {a} w1"
    by (rule shut_call [OF assms(1) x okx _ c]) (use cb shut in \<open>simp_all add: tidy_def\<close>)
  have kept: "kept (client w1)"
    by (rule open_keeps [OF x okx cl [OF x] cb c(1)]) (use shut in \<open>simp add: tidy_def\<close>)
  have p1: "pDeviceInterface (DeviceData (FdoData w1) ! i) = Some a" "fdo_of w1 = Some (FdoData w1)"
    "slot_at (FdoData w1) i = Some (DeviceData (FdoData w1) ! i)"
    "fdo_of w = Some (FdoData w)" "slot_at (FdoData w) i = Some (DeviceData (FdoData w) ! i)"
    using c(2) p inv assms(2) by (auto simp: cb_frame_def bus_inv_def fdo_of_def slot_at_def)
  have "(if state_old_from_wb (DeviceData (FdoData w) ! i) = Started \<or>
      state_old_from_wb (DeviceData (FdoData w) ! i) = StartWithOS
    then if r = 0 then set_devstate a Started w1 else Some w1 else Some w) = Some w'"
    using run p x cb c(1) p1 by (simp add: auto_open_def cong: if_cong)
  then have "w' = w \<or> r \<noteq> 0 \<and> w' = w1 \<or> set_devstate a Started w1 = Some w'"
    by (simp split: if_split_asm)
  then consider "w' = w" | "r \<noteq> 0" "w' = w1" | "set_devstate a Started w1 = Some w'" by blast
  then show ?thesis
  proof cases
    case 2
    have "closed (client w1) x" by (rule open_fails [OF x okx cl [OF x] cb c(1) 2(1)])
    moreover have "iface_agrees x y" if "ifaces w1 a = Some y" for y
      using c(2) x that by (auto simp: cb_frame_def iface_agrees_def)
    ultimately show ?thesis
      using s1 kept unfolding 2(2) tidy_def by (blast intro: shut_less closed_agrees)
  next
    case 3
    have "shut closed {} w'" by (rule shut_devstate [OF s1 3]) simp
    moreover have "client w' = client w1" using 3 by (auto simp: set_devstate_def set_iface_def split: bind_splits)
    ultimately show ?thesis using kept by (simp add: tidy_def)
  qed (use shut in simp)
qed

lemma attach_shut:
  assumes "bus_inv w" and i: "i < 3" and x: "ifaces w a = Some x" "closed (client w) x"
    and shut: "shut closed {} w"
  shows "shut closed {} (attach_iface a x i s w)"
    "ifaces (attach_iface a x i s w) a = Some y \<Longrightarrow> closed (client (attach_iface a x i s w)) y"
proof -
  let ?w = "attach_iface a x i s w"
  have same: "client ?w = client w" "\<And>p. p \<noteq> a \<Longrightarrow> ifaces ?w p = ifaces w p"
    "map pDeviceInterface (DeviceData (FdoData ?w)) =
      (map pDeviceInterface (DeviceData (FdoData w)))[i := Some a]"
    by (simp_all add: attach_iface_def set_slot_def set_iface_def Let_def TDSP_SetBusPowerState_def map_update)
  show a: "closed (client ?w) y" if "ifaces ?w a = Some y" for y
  proof -
    have "iface_agrees x y"
      using that by (auto simp: attach_iface_def set_slot_def set_iface_def Let_def iface_agrees_def)
    with x(2) same(1) show ?thesis by (auto intro: closed_agrees)
  qed
  have "Some p \<in> set (map pDeviceInterface (DeviceData (FdoData w)))"
    if "Some p \<in> set ((map pDeviceInterface (DeviceData (FdoData w)))[i := Some a])" "p \<noteq> a" for p
    using set_update_subset_insert [of "map pDeviceInterface (DeviceData (FdoData w))" i "Some a"] that
    by blast
  note mem = this
  show "shut closed {} ?w"
    unfolding shut_def
  proof (intro allI impI)
    fix p y
    assume p: "Some p \<in> set (map pDeviceInterface (DeviceData (FdoData ?w)))"
      and y: "ifaces ?w p = Some y" "devstate y \<noteq> Started"
    show "closed (client ?w) y"
    proof (cases "p = a")
      case False
      with p mem same y have "closed (client w) y" by (intro shutD [OF shut, of p]) auto
      then show ?thesis by (simp add: same(1))
    qed (use y a in blast)
  qed
qed

lemma detach_shut:
  "shut closed {} w \<Longrightarrow> shut closed {} (bus_idle_if_empty (detach_iface i s w))"
proof -
  assume s: "shut closed {} w"
  let ?w = "bus_idle_if_empty (detach_iface i s w)"
  have same: "client ?w = client w" "ifaces ?w = ifaces w"
    "map pDeviceInterface (DeviceData (FdoData ?w)) =
      (map pDeviceInterface (DeviceData (FdoData w)))[i := None]"
    by (simp_all add: bus_idle_if_empty_def detach_iface_def set_slot_def TDSP_SetBusPowerState_def map_update)
  have "Some p \<in> set (map pDeviceInterface (DeviceData (FdoData w)))"
    if "Some p \<in> set ((map pDeviceInterface (DeviceData (FdoData w)))[i := None])" for p
    using set_update_subset_insert [of "map pDeviceInterface (DeviceData (FdoData w))" i None] that
    by blast
  with s show ?thesis unfolding shut_def same by blast
qed

end

end
