(* ===== verification/Sys_Devices.thy ===== *)
theory Sys_Devices
  imports Bus_Shut Tdsp_System
begin

text \<open>
  Which adapter serves a network or HCI device.  The drivers create a device when the bus opens
  an interface and destroy it when the bus closes it, so that every device of the kernel belongs
  to an adapter that points back to it and that was told of an interface, and an interface the
  bus does not hold as started has no device: the contract \<open>bus_closer\<close> on the drivers'
  callbacks.
\<close>

section \<open>Devices and their adapters\<close>

definition netdev_owner :: "('a, 'b) clients \<Rightarrow> addr \<Rightarrow> addr option option" where
  "netdev_owner c n = map_option nd_priv (netdevs c n)"

definition hdev_owner :: "('a, 'b) clients \<Rightarrow> addr \<Rightarrow> addr option option" where
  "hdev_owner c h = map_option hd_drvdata (hdevs c h)"

definition owned :: "('a, 'b) clients \<Rightarrow> bool" where
  "owned c \<longleftrightarrow>
     (\<forall>n o1. netdev_owner c n = Some o1 \<longrightarrow>
        (\<exists>d s a. o1 = Some d \<and> wview c d = Some (Some n, s, Some a))) \<and>
     (\<forall>h o1. hdev_owner c h = Some o1 \<longrightarrow> (\<exists>d a. o1 = Some d \<and> bview c d = Some (Some h, Some a)))"

lemma ownedD:
  "owned c \<Longrightarrow> netdev_owner c n = Some o1 \<Longrightarrow> \<exists>d s a. o1 = Some d \<and> wview c d = Some (Some n, s, Some a)"
  "owned c \<Longrightarrow> hdev_owner c h = Some o1 \<Longrightarrow> \<exists>d a. o1 = Some d \<and> bview c d = Some (Some h, Some a)"
  unfolding owned_def by blast+

text \<open>The adapter of a closed interface has no device.\<close>

definition dev_closed :: "('a, 'b) clients \<Rightarrow> iface \<Rightarrow> bool" where
  "dev_closed c x \<longleftrightarrow>
     (\<forall>d. pBtDev x = Some d \<longrightarrow>
        (open_cb x = Some Wlan_Bus_Open \<longrightarrow> (\<forall>p. wview c d = Some p \<longrightarrow> fst p = None)) \<and>
        (open_cb x = Some Bt_Bus_Open \<longrightarrow> (\<forall>p. bview c d = Some p \<longrightarrow> fst p = None)))"

lemma dev_closed_agrees: "iface_agrees x y \<Longrightarrow> dev_closed c x \<Longrightarrow> dev_closed c y"
  by (simp add: dev_closed_def iface_agrees_def)

text \<open>What of the clients these predicates read.\<close>

definition same_devs :: "('a, 'b) clients \<Rightarrow> ('a, 'b) clients \<Rightarrow> bool" where
  "same_devs c c' \<longleftrightarrow> wview c' = wview c \<and> bview c' = bview c \<and>
     netdev_owner c' = netdev_owner c \<and> hdev_owner c' = hdev_owner c"

lemma same_devs_refl [simp]: "same_devs c c"
  by (simp add: same_devs_def)

lemma same_devs_trans: "same_devs a b \<Longrightarrow> same_devs b c \<Longrightarrow> same_devs a c"
  by (simp add: same_devs_def)

lemma same_devs_owned: "same_devs c c' \<Longrightarrow> owned c' = owned c"
  by (simp add: same_devs_def owned_def)

lemma same_devs_closed: "same_devs c c' \<Longrightarrow> dev_closed c' x = dev_closed c x"
  by (simp add: same_devs_def dev_closed_def)

lemma same_view_devs: "same_view c c' \<Longrightarrow> same_devs c c'"
  by (simp add: same_view_def same_devs_def netdev_owner_def hdev_owner_def fun_eq_iff)

lemma same_devs_openLock [simp]: "same_devs c (c'\<lparr>openLock := n\<rparr>) = same_devs c c'"
  "same_devs (c\<lparr>openLock := n\<rparr>) c' = same_devs c c'"
  by (simp_all add: same_devs_def wview_def bview_def netdev_owner_def hdev_owner_def fun_eq_iff)

text \<open>A change in the devices of one adapter.\<close>

lemma owned_wlan:
  assumes "owned c" "bview c' = bview c" "hdev_owner c' = hdev_owner c"
    and "\<And>e. e \<noteq> d \<Longrightarrow> wview c' e = wview c e"
    and "\<And>n o1. netdev_owner c' n = Some o1 \<Longrightarrow>
      netdev_owner c n = Some o1 \<and> o1 \<noteq> Some d \<or> o1 = Some d \<and> (\<exists>s a. wview c' d = Some (Some n, s, Some a))"
  shows "owned c'"
  unfolding owned_def
proof (intro conjI allI impI)
  fix n o1
  assume o: "netdev_owner c' n = Some o1"
  from assms(5) [OF this] show "\<exists>d s a. o1 = Some d \<and> wview c' d = Some (Some n, s, Some a)"
  proof
    assume n: "netdev_owner c n = Some o1 \<and> o1 \<noteq> Some d"
    with ownedD(1) [OF assms(1)] obtain e s a where "o1 = Some e" "wview c e = Some (Some n, s, Some a)"
      by blast
    with n assms(4) [of e] show ?thesis by auto
  qed blast
qed (use assms(1-3) in \<open>simp add: owned_def\<close>)

lemma owned_bt:
  assumes "owned c" "wview c' = wview c" "netdev_owner c' = netdev_owner c"
    and "\<And>e. e \<noteq> d \<Longrightarrow> bview c' e = bview c e"
    and "\<And>h o1. hdev_owner c' h = Some o1 \<Longrightarrow>
      hdev_owner c h = Some o1 \<and> o1 \<noteq> Some d \<or> o1 = Some d \<and> (\<exists>a. bview c' d = Some (Some h, Some a))"
  shows "owned c'"
  unfolding owned_def
proof (intro conjI allI impI)
  fix h o1
  assume o: "hdev_owner c' h = Some o1"
  from assms(5) [OF this] show "\<exists>d a. o1 = Some d \<and> bview c' d = Some (Some h, Some a)"
  proof
    assume n: "hdev_owner c h = Some o1 \<and> o1 \<noteq> Some d"
    with ownedD(2) [OF assms(1)] obtain e a where "o1 = Some e" "bview c e = Some (Some h, Some a)"
      by blast
    with n assms(4) [of e] show ?thesis by auto
  qed blast
qed (use assms(1-3) in \<open>simp add: owned_def\<close>)

section \<open>The network device\<close>

definition wlan_apart :: "addr \<Rightarrow> ('a, 'b) clients \<Rightarrow> ('a, 'b) clients \<Rightarrow> bool" where
  "wlan_apart d c c' \<longleftrightarrow> bview c' = bview c \<and> (\<forall>e. e \<noteq> d \<longrightarrow> wview c' e = wview c e)"

definition bt_apart :: "addr \<Rightarrow> ('a, 'b) clients \<Rightarrow> ('a, 'b) clients \<Rightarrow> bool" where
  "bt_apart d c c' \<longleftrightarrow> wview c' = wview c \<and> (\<forall>e. e \<noteq> d \<longrightarrow> bview c' e = bview c e)"

lemma same_devs_apart: "same_devs c c' \<Longrightarrow> wlan_apart d c c'" "same_devs c c' \<Longrightarrow> bt_apart d c c'"
  by (simp_all add: same_devs_def wlan_apart_def bt_apart_def)

lemma apart_trans:
  "wlan_apart d a b \<Longrightarrow> wlan_apart d b c \<Longrightarrow> wlan_apart d a c"
  "bt_apart d a b \<Longrightarrow> bt_apart d b c \<Longrightarrow> bt_apart d a c"
  by (simp_all add: wlan_apart_def bt_apart_def)

lemma netdev_setup_devs:
  assumes inv: "clients_inv (client w)" and A: "wadap (client w) d = Some A"
    and bus: "Adap_Get_BusInf (wlib (client w)) A = Some a" and x: "ifaces w a = Some x"
    and run: "wlan_netdev_setup (Some d) w = Some (r, w')"
  shows "wlan_apart d (client w) (client w')" "r \<noteq> 0 \<Longrightarrow> same_devs (client w) (client w')"
    "owned (client w) \<Longrightarrow> owned (client w')"
proof -
  let ?c = "client w" let ?L = "wlib ?c"
  have laws: "wlan_lib_laws ?L" and env: "env_ok ?c" using inv by (auto simp: clients_inv_def)
  let ?n = "next_addr ?c" let ?s = "Suc ?n"
  let ?A1 = "Adap_Set_Netstat ?L (Some ?s) A" let ?A2 = "Adap_Set_Netdev ?L (Some ?n) ?A1"
  have p2: "wptrs ?L ?A2 = (Some ?n, Some ?s, Some a)"
    using wlan_laws(1,2) [OF laws] bus by (metis wptrs_get)
  then have bus2: "Adap_Get_BusInf ?L ?A2 = Some a" by (simp add: wptrs_get)
  have "same_devs ?c (client w') \<or>
    r = 0 \<and> Adap_Get_Netdev ?L A = None \<and> wview (client w') = (wview ?c)(d := Some (Some ?n, Some ?s, Some a)) \<and>
    bview (client w') = bview ?c \<and> hdevs (client w') = hdevs ?c \<and>
    netdev_owner (client w') = (netdev_owner ?c)(?n := Some (Some d))"
    using run A x bus2 p2 env
    by (auto simp: wlan_netdev_setup_def ask_def env_ok_def Let_def same_devs_def wview_def bview_def
        netdev_owner_def hdev_owner_def new_netdev_def fun_eq_iff split: if_splits)
  then show "wlan_apart d ?c (client w')" "r \<noteq> 0 \<Longrightarrow> same_devs ?c (client w')"
    "owned ?c \<Longrightarrow> owned (client w')"
  proof (atomize (full), elim disjE)
    assume e: "r = 0 \<and> Adap_Get_Netdev ?L A = None \<and>
      wview (client w') = (wview ?c)(d := Some (Some ?n, Some ?s, Some a)) \<and>
      bview (client w') = bview ?c \<and> hdevs (client w') = hdevs ?c \<and>
      netdev_owner (client w') = (netdev_owner ?c)(?n := Some (Some d))"
    have vw: "wview ?c d = Some (None, Adap_Get_Netstat ?L A, Some a)"
      using A e bus by (simp add: wview_def wptrs_def)
    have "owned (client w')" if own: "owned ?c"
    proof (rule owned_wlan [OF own])
      show "netdev_owner ?c n = Some o1 \<and> o1 \<noteq> Some d \<or>
          o1 = Some d \<and> (\<exists>s a. wview (client w') d = Some (Some n, s, Some a))"
        if "netdev_owner (client w') n = Some o1" for n o1
        using that e ownedD(1) [OF own, of n o1] vw by (auto split: if_splits)
    qed (use e in \<open>simp_all add: hdev_owner_def fun_eq_iff\<close>)
    with e show "wlan_apart d ?c (client w') \<and> (r \<noteq> 0 \<longrightarrow> same_devs ?c (client w')) \<and>
        (owned ?c \<longrightarrow> owned (client w'))"
      by (simp add: wlan_apart_def)
  qed (use same_devs_apart same_devs_owned in blast)
qed

lemma netdev_destroy_devs:
  assumes inv: "clients_inv c" and A: "wadap c d = Some A" and run: "wlan_netdev_destroy (Some d) c = Some c'"
  shows "wlan_apart d c c'" "\<forall>p. wview c' d = Some p \<longrightarrow> fst p = None" "owned c \<Longrightarrow> owned c'"
proof -
  let ?L = "wlib c"
  have laws: "wlan_lib_laws ?L" using inv by (simp add: clients_inv_def)
  have vw: "wview c d = Some (wptrs ?L A)" using A by (simp add: wview_def)
  let ?A1 = "Adap_Set_Netdev ?L None A" let ?A2 = "Adap_Set_Netstat ?L None ?A1"
  have p1: "wptrs ?L ?A1 = (None, Adap_Get_Netstat ?L A, Adap_Get_BusInf ?L A)"
    by (rule wlan_laws(1) [OF laws])
  have p2: "wptrs ?L ?A2 = (None, None, Adap_Get_BusInf ?L A)"
    using wlan_laws(2) [OF laws, of None ?A1] p1 by (simp add: wptrs_def)
  have "c' = c \<and> fst (wptrs ?L A) = None \<or>
    (\<exists>n. Adap_Get_Netdev ?L A = Some n \<and> wview c' = (wview c)(d := Some (None, None, Adap_Get_BusInf ?L A)) \<and>
      bview c' = bview c \<and> hdevs c' = hdevs c \<and> netdev_owner c' = (netdev_owner c)(n := None))"
    using run A p2
    by (auto simp: wlan_netdev_destroy_def Let_def wview_def bview_def wptrs_def netdev_owner_def
        fun_eq_iff split: option.splits bind_splits)
  then show "wlan_apart d c c'" "\<forall>p. wview c' d = Some p \<longrightarrow> fst p = None" "owned c \<Longrightarrow> owned c'"
  proof (atomize (full), elim disjE exE)
    fix n
    assume e: "Adap_Get_Netdev ?L A = Some n \<and>
      wview c' = (wview c)(d := Some (None, None, Adap_Get_BusInf ?L A)) \<and>
      bview c' = bview c \<and> hdevs c' = hdevs c \<and> netdev_owner c' = (netdev_owner c)(n := None)"
    have "owned c'" if own: "owned c"
    proof (rule owned_wlan [OF own])
      show "netdev_owner c m = Some o1 \<and> o1 \<noteq> Some d \<or> o1 = Some d \<and> (\<exists>s a. wview c' d = Some (Some m, s, Some a))"
        if "netdev_owner c' m = Some o1" for m o1
        using that e ownedD(1) [OF own, of m o1] vw by (auto simp: wptrs_def split: if_splits)
    qed (use e in \<open>simp_all add: hdev_owner_def fun_eq_iff\<close>)
    with e show "wlan_apart d c c' \<and> (\<forall>p. wview c' d = Some p \<longrightarrow> fst p = None) \<and> (owned c \<longrightarrow> owned c')"
      by (simp add: wlan_apart_def)
  qed (use vw in \<open>simp add: wlan_apart_def\<close>)
qed

lemma wlan_open_devs:
  assumes inv: "clients_inv (client w)" and x: "ifaces w a = Some x" and i: "wlan_intf (client w) a x"
    and d: "pBtDev x = Some d" and run: "wlan_Bus_Open a w = Some (r, w')"
  shows "wlan_apart d (client w) (client w')" "r \<noteq> 0 \<Longrightarrow> same_devs (client w) (client w')"
    "owned (client w) \<Longrightarrow> owned (client w')"
proof -
  from i d obtain A where A: "wadap (client w) d = Some A" "Adap_Get_BusInf (wlib (client w)) A = Some a"
    by (auto simp: wlan_intf_def wbus_adap)
  obtain r1 w1 where w1: "wlan_initialize d w = Some (r1, w1)" "same_view (client w) (client w1)"
    "cb_frame a w w1"
    using wlan_initialize_step [OF inv A x] by blast
  have s1: "same_devs (client w) (client w1)" by (rule same_view_devs [OF w1(2)])
  obtain x1 where x1: "ifaces w1 a = Some x1" "pBtDev x1 = Some d"
    using cb_frame_fields [OF w1(3) x] d by (metis iface_agrees_def)
  have "wbus (client w1) d = Some (Some a)"
    using A same_view_bus [OF w1(2)] by (simp add: wbus_adap [symmetric]) (auto simp: wbus_adap)
  then obtain A1 where A1: "wadap (client w1) d = Some A1" "Adap_Get_BusInf (wlib (client w1)) A1 = Some a"
    by (auto simp: wbus_adap)
  have inv1: "clients_inv (client w1)" using same_view_inv [OF w1(2) inv] .
  have "wlan_apart d (client w) (client w') \<and> (r \<noteq> 0 \<longrightarrow> same_devs (client w) (client w')) \<and>
    (owned (client w) \<longrightarrow> owned (client w'))"
  proof (cases "r1 = 0")
    case True
    with run x d w1(1) x1 have "wlan_netdev_setup (Some d) w1 = Some (r, w')"
      by (simp add: wlan_Bus_Open_def)
    note s = netdev_setup_devs [OF inv1 A1 x1(1) this]
    with s1 show ?thesis
      using apart_trans(1) [OF same_devs_apart(1) [OF s1]] same_devs_owned [OF s1] same_devs_trans [OF s1]
      by blast
  next
    case False
    with run x d w1(1) have "w' = w1" by (simp add: wlan_Bus_Open_def)
    with s1 same_devs_apart same_devs_owned [OF s1] show ?thesis by blast
  qed
  then show "wlan_apart d (client w) (client w')" "r \<noteq> 0 \<Longrightarrow> same_devs (client w) (client w')"
    "owned (client w) \<Longrightarrow> owned (client w')" by blast+
qed

lemma wlan_close_devs:
  assumes inv: "clients_inv (client w)" and x: "ifaces w a = Some x" and i: "wlan_intf (client w) a x"
    and d: "pBtDev x = Some d" and run: "wlan_Bus_Close a w = Some (r, w')"
  shows "wlan_apart d (client w) (client w')" "\<forall>p. wview (client w') d = Some p \<longrightarrow> fst p = None"
    "owned (client w) \<Longrightarrow> owned (client w')"
proof -
  let ?c = "client w"
  from i d obtain A where A: "wadap ?c d = Some A" by (auto simp: wlan_intf_def wbus_adap)
  have laws: "wlan_lib_laws (wlib ?c)" using inv by (simp add: clients_inv_def)
  obtain c1 where c1: "wlan_adap_upd d (Adap_Halt (wlib ?c)) ?c = Some c1" "same_view ?c c1"
    "wadap c1 d = Some (Adap_Halt (wlib ?c) A)"
    using wlan_adap_upd_same [OF A] wlan_laws(5) [OF laws] by metis
  have inv1: "clients_inv c1" by (rule same_view_inv [OF c1(2) inv])
  obtain c2 A2 where c2: "wlan_netdev_destroy (Some d) c1 = Some c2" "client_step c1 c2" "wadap c2 d = Some A2"
    using netdev_destroy_step [OF inv1 c1(3)] by blast
  have laws2: "wlan_lib_laws (wlib c2)" using c2(2) by (simp add: client_step_def clients_inv_def)
  obtain c3 where c3: "wlan_adap_upd d (Adap_UnInitialize (wlib c2)) c2 = Some c3" "same_view c2 c3"
    using wlan_adap_upd_same [OF c2(3)] wlan_laws(6) [OF laws2] by metis
  have w': "client w' = c3" using run x d c1(1) c2(1) c3(1) by (auto simp: wlan_Bus_Close_def)
  note s1 = same_view_devs [OF c1(2)] and s3 = same_view_devs [OF c3(2)]
  note k = netdev_destroy_devs [OF inv1 c1(3) c2(1)]
  show "wlan_apart d ?c (client w')" unfolding w'
    using k(1) same_devs_apart(1) [OF s1] same_devs_apart(1) [OF s3] by (blast intro: apart_trans)
  show "\<forall>p. wview (client w') d = Some p \<longrightarrow> fst p = None" unfolding w'
    using k(2) s3 by (simp add: same_devs_def)
  show "owned (client w')" if "owned ?c" unfolding w'
    using k(3) that same_devs_owned [OF s1] same_devs_owned [OF s3] by simp
qed

section \<open>The HCI device\<close>

lemma hci_create_devs:
  assumes inv: "clients_inv c" and B: "badap c d = Some B" "Bluetooth_Adap_Get_BusInf (blib c) B = Some a"
    and run: "hci_create d c = Some (h, c')"
  shows "bt_apart d c c'" "h = None \<Longrightarrow> same_devs c c'"
    "owned c \<Longrightarrow> Bluetooth_Adap_Get_hdev (blib c) B = None \<Longrightarrow> owned c'"
proof -
  let ?L = "blib c" let ?h = "next_addr c"
  have laws: "bt_lib_laws ?L" and fresh: "hdevs c ?h = None"
    using inv by (auto simp: clients_inv_def fresh_above_def)
  obtain r B1 where o: "Bluetooth_Adap_Open_Dev ?L B = (r, B1)" by (cases "Bluetooth_Adap_Open_Dev ?L B")
  have B1: "bptrs ?L B1 = bptrs ?L B" using bt_laws(3) [OF laws, of B] o by simp
  have p5: "bptrs ?L (Bluetooth_Adap_Set_hdev ?L (Some ?h) B1) = (Some ?h, Some a)"
    using bt_laws(1) [OF laws, of "Some ?h" B1] B1 B(2) by (simp add: bptrs_def)
  have "same_devs c c' \<or>
    h = Some ?h \<and> bview c' = (bview c)(d := Some (Some ?h, Some a)) \<and>
    wview c' = wview c \<and> netdevs c' = netdevs c \<and> hdev_owner c' = (hdev_owner c)(?h := Some (Some d))"
    using run B(1) o B1 p5 fresh
    by (auto simp: hci_create_def ask_def bt_adap_upd_def Let_def same_devs_def wview_def bview_def
        netdev_owner_def hdev_owner_def new_hdev_def fun_eq_iff split: if_splits)
  then show "bt_apart d c c'" "h = None \<Longrightarrow> same_devs c c'"
    "owned c \<Longrightarrow> Bluetooth_Adap_Get_hdev ?L B = None \<Longrightarrow> owned c'"
  proof (atomize (full), elim disjE)
    assume e: "h = Some ?h \<and> bview c' = (bview c)(d := Some (Some ?h, Some a)) \<and>
      wview c' = wview c \<and> netdevs c' = netdevs c \<and> hdev_owner c' = (hdev_owner c)(?h := Some (Some d))"
    have "owned c'" if own: "owned c" and none: "Bluetooth_Adap_Get_hdev ?L B = None"
    proof (rule owned_bt [OF own])
      have "bview c d = Some (None, Some a)" using B none by (simp add: bview_def bptrs_def)
      then show "hdev_owner c m = Some o1 \<and> o1 \<noteq> Some d \<or> o1 = Some d \<and> (\<exists>a. bview c' d = Some (Some m, Some a))"
        if "hdev_owner c' m = Some o1" for m o1
        using that e ownedD(2) [OF own, of m o1] by (auto split: if_splits)
    qed (use e in \<open>simp_all add: netdev_owner_def fun_eq_iff\<close>)
    with e show "bt_apart d c c' \<and> (h = None \<longrightarrow> same_devs c c') \<and>
        (owned c \<longrightarrow> Bluetooth_Adap_Get_hdev ?L B = None \<longrightarrow> owned c')"
      by (simp add: bt_apart_def)
  qed (use same_devs_apart same_devs_owned in blast)
qed

lemma hci_destroy_devs:
  assumes inv: "clients_inv c" and B: "badap c d = Some B" and run: "hci_destroy d c = Some c'"
  shows "bt_apart d c c'" "\<forall>p. bview c' d = Some p \<longrightarrow> fst p = None" "owned c \<Longrightarrow> owned c'"
proof -
  let ?L = "blib c"
  have laws: "bt_lib_laws ?L" using inv by (simp add: clients_inv_def)
  have vw: "bview c d = Some (bptrs ?L B)" using B by (simp add: bview_def)
  let ?B1 = "Bluetooth_Adap_Close_Dev ?L B" let ?B2 = "Bluetooth_Adap_Set_hdev ?L None ?B1"
  have p2: "bptrs ?L ?B2 = (None, Bluetooth_Adap_Get_BusInf ?L B)"
    using bt_laws(1) [OF laws, of None ?B1] bt_laws(4) [OF laws, of B] by (simp add: bptrs_def)
  have "c' = c \<and> fst (bptrs ?L B) = None \<or>
    (\<exists>h. Bluetooth_Adap_Get_hdev ?L B = Some h \<and> bview c' = (bview c)(d := Some (None, Bluetooth_Adap_Get_BusInf ?L B)) \<and>
      wview c' = wview c \<and> netdevs c' = netdevs c \<and> hdev_owner c' = (hdev_owner c)(h := None))"
    using run B p2
    by (auto simp: hci_destroy_def hdev_upd_def bt_adap_upd_def wview_def bview_def bptrs_def hdev_owner_def
        fun_eq_iff split: option.splits bind_splits)
  then show "bt_apart d c c'" "\<forall>p. bview c' d = Some p \<longrightarrow> fst p = None" "owned c \<Longrightarrow> owned c'"
  proof (atomize (full), elim disjE exE)
    fix h
    assume e: "Bluetooth_Adap_Get_hdev ?L B = Some h \<and>
      bview c' = (bview c)(d := Some (None, Bluetooth_Adap_Get_BusInf ?L B)) \<and>
      wview c' = wview c \<and> netdevs c' = netdevs c \<and> hdev_owner c' = (hdev_owner c)(h := None)"
    have "owned c'" if own: "owned c"
    proof (rule owned_bt [OF own])
      show "hdev_owner c m = Some o1 \<and> o1 \<noteq> Some d \<or> o1 = Some d \<and> (\<exists>a. bview c' d = Some (Some m, Some a))"
        if "hdev_owner c' m = Some o1" for m o1
        using that e ownedD(2) [OF own, of m o1] vw by (auto simp: bptrs_def split: if_splits)
    qed (use e in \<open>simp_all add: netdev_owner_def fun_eq_iff\<close>)
    with e show "bt_apart d c c' \<and> (\<forall>p. bview c' d = Some p \<longrightarrow> fst p = None) \<and> (owned c \<longrightarrow> owned c')"
      by (simp add: bt_apart_def)
  qed (use vw in \<open>simp add: bt_apart_def\<close>)
qed

lemma bt_open_devs:
  assumes inv: "clients_inv (client w)" and x: "ifaces w a = Some x" and i: "bt_intf (client w) a x"
    and d: "pBtDev x = Some d" and run: "bt_Bus_Open a w = Some (r, w')"
  shows "bt_apart d (client w) (client w')" "r \<noteq> 0 \<Longrightarrow> same_devs (client w) (client w')"
    "owned (client w) \<Longrightarrow> dev_closed (client w) x \<Longrightarrow> owned (client w')"
proof -
  let ?c = "client w" let ?c1 = "?c\<lparr>openLock := openLock ?c - 1\<rparr>"
  from i d obtain B where B: "badap ?c d = Some B" "Bluetooth_Adap_Get_BusInf (blib ?c) B = Some a"
    and lock: "0 < openLock ?c" and cb: "open_cb x = Some Bt_Bus_Open"
    by (auto simp: bt_intf_def bbus_adap)
  have inv1: "clients_inv ?c1" using inv by simp
  obtain h c2 where c2: "hci_create d ?c1 = Some (h, c2)"
    using hci_create_step [OF inv1, of d B] B(1) by auto
  have w': "client w' = up_openLock c2" "r = (if h \<noteq> None then 0 else 1)"
    using run x d B(1) lock c2
    by (auto simp: bt_Bus_Open_def register_HCI_device_def down_openLock_def EINTR_def)
  have B1: "badap ?c1 d = Some B" "Bluetooth_Adap_Get_BusInf (blib ?c1) B = Some a" using B by simp_all
  note k = hci_create_devs [OF inv1 B1 c2]
  have up: "same_devs ?c ?c1" "same_devs c2 (client w')" by (simp_all add: w'(1) up_openLock_def)
  show "bt_apart d ?c (client w')"
    using k(1) same_devs_apart(2) [OF up(1)] same_devs_apart(2) [OF up(2)] by (blast intro: apart_trans)
  show "same_devs ?c (client w')" if "r \<noteq> 0"
    using k(2) that w'(2) up by (auto split: if_splits intro: same_devs_trans)
  show "owned (client w')" if o: "owned ?c" "dev_closed ?c x"
  proof -
    have "Bluetooth_Adap_Get_hdev (blib ?c) B = None"
      using o(2) d cb B(1) by (auto simp: dev_closed_def bview_def bptrs_def)
    with k(3) o(1) show ?thesis using same_devs_owned [OF up(1)] same_devs_owned [OF up(2)] by simp
  qed
qed

lemma bt_close_devs:
  assumes inv: "clients_inv (client w)" and x: "ifaces w a = Some x" and i: "bt_intf (client w) a x"
    and d: "pBtDev x = Some d" and run: "bt_Bus_Close a w = Some (r, w')"
  shows "bt_apart d (client w) (client w')" "\<forall>p. bview (client w') d = Some p \<longrightarrow> fst p = None"
    "owned (client w) \<Longrightarrow> owned (client w')"
proof -
  let ?c = "client w" let ?c1 = "?c\<lparr>openLock := openLock ?c - 1\<rparr>"
  from i d obtain B where B: "badap ?c d = Some B" and lock: "0 < openLock ?c"
    by (auto simp: bt_intf_def bbus_adap)
  have inv1: "clients_inv ?c1" using inv by simp
  obtain c2 where c2: "hci_destroy d ?c1 = Some c2"
    using hci_destroy_step [OF inv1, of d B] B by auto
  have w': "client w' = up_openLock c2"
    using run x d lock c2 by (auto simp: bt_Bus_Close_def unregister_HCI_device_def down_openLock_def EINTR_def)
  have up: "same_devs ?c ?c1" "same_devs c2 (client w')" by (simp_all add: w' up_openLock_def)
  have B1: "badap ?c1 d = Some B" using B by simp
  note k = hci_destroy_devs [OF inv1 B1 c2]
  show "bt_apart d ?c (client w')"
    using k(1) same_devs_apart(2) [OF up(1)] same_devs_apart(2) [OF up(2)] by (blast intro: apart_trans)
  show "\<forall>p. bview (client w') d = Some p \<longrightarrow> fst p = None" using k(2) up(2) by (simp add: same_devs_def)
  show "owned (client w')" if "owned ?c"
    using k(3) that same_devs_owned [OF up(1)] same_devs_owned [OF up(2)] by simp
qed

section \<open>The contract\<close>

text \<open>What a callback of the interface \<open>x\<close> with the adapter \<open>d\<close> changes.\<close>

lemma callback_devs:
  assumes x: "ifaces w a = Some x" "sys_ok (client w) a x"
    and run: "sys_call cb a w = Some (r, w')"
  shows "open_cb x = Some cb \<Longrightarrow> r \<noteq> 0 \<Longrightarrow> same_devs (client w) (client w')"
    "open_cb x = Some cb \<Longrightarrow> dev_closed (client w) x \<Longrightarrow> owned (client w) \<Longrightarrow> owned (client w')"
    "close_cb x = Some cb \<Longrightarrow> dev_closed (client w') x"
    "close_cb x = Some cb \<Longrightarrow> owned (client w) \<Longrightarrow> owned (client w')"
    "open_cb x = Some cb \<or> close_cb x = Some cb \<Longrightarrow> \<exists>d. pBtDev x = Some d \<and>
       (wlan_intf (client w) a x \<and> wlan_apart d (client w) (client w') \<or>
        bt_intf (client w) a x \<and> bt_apart d (client w) (client w'))"
proof (atomize (full), goal_cases)
  case 1
  have inv: "clients_inv (client w)" using x(2) by (simp add: sys_ok_def)
  obtain d where d: "pBtDev x = Some d" using x(2) by (auto simp: sys_ok_def wlan_intf_def bt_intf_def)
  show ?case
  proof (cases "wlan_intf (client w) a x")
    case True
    note o = wlan_open_devs [OF inv x(1) True d] and c = wlan_close_devs [OF inv x(1) True d]
    have cb: "open_cb x = Some Wlan_Bus_Open" "close_cb x = Some Wlan_Bus_Close"
      using True by (auto simp: wlan_intf_def)
    have "cb = Wlan_Bus_Open \<Longrightarrow> wlan_Bus_Open a w = Some (r, w')"
      "cb = Wlan_Bus_Close \<Longrightarrow> wlan_Bus_Close a w = Some (r, w')" using run by auto
    with o c cb d True show ?thesis by (cases cb) (simp_all add: dev_closed_def)
  next
    case False
    then have b: "bt_intf (client w) a x" using x(2) by (simp add: sys_ok_def)
    note o = bt_open_devs [OF inv x(1) b d] and c = bt_close_devs [OF inv x(1) b d]
    have cb: "open_cb x = Some Bt_Bus_Open" "close_cb x = Some Bt_Bus_Close"
      using b by (auto simp: bt_intf_def)
    have "cb = Bt_Bus_Open \<Longrightarrow> bt_Bus_Open a w = Some (r, w')"
      "cb = Bt_Bus_Close \<Longrightarrow> bt_Bus_Close a w = Some (r, w')" using run by auto
    with o c cb d b show ?thesis by (cases cb) (simp_all add: dev_closed_def)
  qed
qed

lemma others_dev_closed:
  assumes x: "ifaces w a = Some x" "sys_ok (client w) a x"
    and run: "sys_call cb a w = Some (r, w')" "open_cb x = Some cb \<or> close_cb x = Some cb"
    and y: "b \<noteq> a" "sys_ok (client w) b y" "dev_closed (client w) y"
  shows "dev_closed (client w') y"
proof -
  obtain d where d: "pBtDev x = Some d"
    "wlan_intf (client w) a x \<and> wlan_apart d (client w) (client w') \<or>
     bt_intf (client w) a x \<and> bt_apart d (client w) (client w')"
    using callback_devs(5) [OF x run] by blast
  obtain e where e: "pBtDev y = Some e" using y(2) by (auto simp: sys_ok_def wlan_intf_def bt_intf_def)
  have "e \<noteq> d" if "wlan_intf (client w) a x \<and> wlan_intf (client w) b y \<or> bt_intf (client w) a x \<and> bt_intf (client w) b y"
    using that y(1) d(1) e by (auto simp: wlan_intf_def bt_intf_def)
  with d e y(2,3) show ?thesis
    by (auto simp: sys_ok_def dev_closed_def wlan_apart_def bt_apart_def wlan_intf_def bt_intf_def)
qed

interpretation sysdev: bus_closer sys_call sys_ok dev_closed owned
proof
  fix w w' :: "('a, 'b) system" and a x cb r
  assume x: "ifaces w a = Some x" "sys_ok (client w) a x" and run: "sys_call cb a w = Some (r, w')"
  note k = callback_devs [OF x run]
  show "dev_closed (client w') x" if "dev_closed (client w) x" "open_cb x = Some cb" "r \<noteq> 0"
    using k(1) that same_devs_closed by blast
  show "dev_closed (client w') x" if "close_cb x = Some cb" using k(3) that by blast
  show "dev_closed (client w') y"
    if "open_cb x = Some cb \<or> close_cb x = Some cb" "b \<noteq> a" "sys_ok (client w) b y" "dev_closed (client w) y"
    for b y using that by (intro others_dev_closed [OF x run])
  show "owned (client w')" if "dev_closed (client w) x" "open_cb x = Some cb" "owned (client w)"
    using k(2) that by blast
  show "owned (client w')" if "close_cb x = Some cb" "owned (client w)" using k(4) that by blast
qed (rule dev_closed_agrees)

text \<open>Every device is served, and no interface that is not started has one.\<close>

definition served :: "('a, 'b) system \<Rightarrow> bool" where
  "served w \<longleftrightarrow> shut dev_closed {} w \<and> owned (client w)"

lemma served_tidy: "sysdev.tidy = served"
  by (simp add: sysdev.tidy_def served_def fun_eq_iff)

lemmas ioctl_served = sysdev.ioctl_shut [unfolded served_tidy]
lemmas flag_served = sysdev.tidy_flag [unfolded served_tidy]
lemmas auto_open_served = sysdev.auto_open_shut [unfolded served_tidy]

lemma served_client:
  assumes "served w" "same_devs (client w) c"
  shows "served (with_client c w)"
  using assms same_devs_closed [OF assms(2)] same_devs_owned [OF assms(2)]
  by (simp add: served_def shut_def with_client_def)

text \<open>A change of the clients in adapters that have no device before and after.\<close>

definition idle_change :: "('a, 'b) clients \<Rightarrow> ('a, 'b) clients \<Rightarrow> bool" where
  "idle_change c c' \<longleftrightarrow> netdev_owner c' = netdev_owner c \<and> hdev_owner c' = hdev_owner c \<and>
     (\<forall>e. wview c' e = wview c e \<or>
        (\<forall>p. wview c e = Some p \<longrightarrow> fst p = None) \<and> (\<forall>p. wview c' e = Some p \<longrightarrow> fst p = None)) \<and>
     (\<forall>e. bview c' e = bview c e \<or>
        (\<forall>p. bview c e = Some p \<longrightarrow> fst p = None) \<and> (\<forall>p. bview c' e = Some p \<longrightarrow> fst p = None))"

lemma same_devs_idle: "same_devs c c' \<Longrightarrow> idle_change c c'"
  by (simp add: same_devs_def idle_change_def)

lemma idle_change_owned:
  assumes i: "idle_change c c'" and own: "owned c"
  shows "owned c'"
  unfolding owned_def
proof (intro conjI allI impI)
  fix n o1
  assume "netdev_owner c' n = Some o1"
  then obtain d s a where d: "o1 = Some d" "wview c d = Some (Some n, s, Some a)"
    using i ownedD(1) [OF own, of n o1] by (auto simp: idle_change_def)
  then have "wview c' d = wview c d" using i by (auto simp: idle_change_def dest!: spec [of _ d])
  with d show "\<exists>d s a. o1 = Some d \<and> wview c' d = Some (Some n, s, Some a)" by auto
next
  fix h o1
  assume "hdev_owner c' h = Some o1"
  then obtain d a where d: "o1 = Some d" "bview c d = Some (Some h, Some a)"
    using i ownedD(2) [OF own, of h o1] by (auto simp: idle_change_def)
  then have "bview c' d = bview c d" using i by (auto simp: idle_change_def dest!: spec [of _ d])
  with d show "\<exists>d a. o1 = Some d \<and> bview c' d = Some (Some h, Some a)" by auto
qed

lemma idle_change_closed:
  assumes "idle_change c c'" "dev_closed c x"
  shows "dev_closed c' x"
  unfolding dev_closed_def
proof (intro allI impI conjI)
  fix d p
  assume d: "pBtDev x = Some d"
  have "wview c' d = wview c d \<or> (\<forall>p. wview c' d = Some p \<longrightarrow> fst p = None)"
    "bview c' d = bview c d \<or> (\<forall>p. bview c' d = Some p \<longrightarrow> fst p = None)"
    using assms(1) by (auto simp: idle_change_def simp del: split_paired_All)
  then show "open_cb x = Some Wlan_Bus_Open \<Longrightarrow> wview c' d = Some p \<Longrightarrow> fst p = None"
    using assms(2) d unfolding dev_closed_def by metis
next
  fix d p
  assume d: "pBtDev x = Some d"
  have "bview c' d = bview c d \<or> (\<forall>p. bview c' d = Some p \<longrightarrow> fst p = None)"
    using assms(1) by (auto simp: idle_change_def simp del: split_paired_All)
  then show "open_cb x = Some Bt_Bus_Open \<Longrightarrow> bview c' d = Some p \<Longrightarrow> fst p = None"
    using assms(2) d unfolding dev_closed_def by metis
qed

lemma idle_wlanI:
  assumes "netdevs c' = netdevs c" "hdevs c' = hdevs c" "badap c' = badap c" "wlib c' = wlib c" "blib c' = blib c"
    and "wadap c' = (wadap c)(d := v)"
    and "\<And>p. wview c d = Some p \<Longrightarrow> fst p = None" "\<And>A. v = Some A \<Longrightarrow> fst (wptrs (wlib c) A) = None"
  shows "idle_change c c'"
proof -
  have "wview c' e = wview c e" if "e \<noteq> d" for e using assms that by (simp add: wview_def)
  moreover have "fst p = None" if "wview c' d = Some p" for p using assms that by (auto simp: wview_def)
  moreover have "bview c' = bview c" using assms by (simp add: bview_def fun_eq_iff)
  ultimately show ?thesis
    using assms(1,2,7) unfolding idle_change_def netdev_owner_def hdev_owner_def by metis
qed

lemma idle_btI:
  assumes "netdevs c' = netdevs c" "hdevs c' = hdevs c" "wadap c' = wadap c" "wlib c' = wlib c" "blib c' = blib c"
    and "badap c' = (badap c)(d := v)"
    and "\<And>p. bview c d = Some p \<Longrightarrow> fst p = None" "\<And>B. v = Some B \<Longrightarrow> fst (bptrs (blib c) B) = None"
  shows "idle_change c c'"
proof -
  have "bview c' e = bview c e" if "e \<noteq> d" for e using assms that by (simp add: bview_def)
  moreover have "fst p = None" if "bview c' d = Some p" for p using assms that by (auto simp: bview_def)
  moreover have "wview c' = wview c" using assms by (simp add: wview_def fun_eq_iff)
  ultimately show ?thesis
    using assms(1,2,7) unfolding idle_change_def netdev_owner_def hdev_owner_def by metis
qed

lemma same_devsI:
  assumes "netdevs c' = netdevs c" "hdevs c' = hdevs c" "wadap c' = wadap c" "badap c' = badap c"
    "wlib c' = wlib c" "blib c' = blib c"
  shows "same_devs c c'"
  using assms by (simp add: same_devs_def wview_def bview_def netdev_owner_def hdev_owner_def fun_eq_iff)

lemma served_change:
  assumes s: "served w" and i: "idle_change (client w) c" and c: "client w' = c"
    and t: "map pDeviceInterface (DeviceData (FdoData w')) = map pDeviceInterface (DeviceData (FdoData w))"
    and f: "\<And>p x. Some p \<in> set (map pDeviceInterface (DeviceData (FdoData w))) \<Longrightarrow> ifaces w' p = Some x \<Longrightarrow>
      ifaces w p = Some x"
  shows "served w'"
proof -
  have "dev_closed c x" if "Some p \<in> set (map pDeviceInterface (DeviceData (FdoData w)))"
    "ifaces w' p = Some x" "devstate x \<noteq> Started" for p x
  proof (rule idle_change_closed [OF i])
    show "dev_closed (client w) x"
      using s that f [OF that(1,2)] by (intro shutD [of dev_closed "{}" w]) (simp_all add: served_def)
  qed
  then show ?thesis
    using s c idle_change_owned [OF i] unfolding served_def shut_def t by simp
qed

end
