(* ===== verification/Sys_Run.thy ===== *)
theory Sys_Run
  imports Wext_Spec Sys_Spec Client_Spec Sys_Devices
begin

text \<open>
  Runs of the whole system between hot-plugs: the requests of user space and of the kernel's
  networking, Bluetooth and power code that reach the three modules, in any order.  A step
  relation over them, its reachable states, and the invariant every one of them keeps.
\<close>

section \<open>A contract extended by what the callbacks never touch\<close>

locale bus_client_keeps = bus_client +
  fixes P :: "'a \<Rightarrow> bool"
  assumes call_keeps: "call cb a w = Some (r, w') \<Longrightarrow> P (client w) \<Longrightarrow> P (client w')"

sublocale bus_client_keeps \<subseteq> kept: bus_client call "\<lambda>c a x. ok c a x \<and> P c"
proof
  fix w :: "'a bus" and a x cb
  assume x: "ifaces w a = Some x" "ok (client w) a x \<and> P (client w)"
    "open_cb x = Some cb \<or> close_cb x = Some cb"
  then obtain r w' where "call cb a w = Some (r, w')" "cb_frame a w w'"
    "\<forall>b y. ok (client w) b y \<longrightarrow> ok (client w') b y"
    using call_law by blast
  with x(2) show "\<exists>r w'. call cb a w = Some (r, w') \<and> cb_frame a w w' \<and>
      (\<forall>b y. ok (client w) b y \<and> P (client w) \<longrightarrow> ok (client w') b y \<and> P (client w'))"
    using call_keeps by blast
qed (use ok_agrees in blast)

text \<open>
  What the callbacks leave alone whatever the state: the libraries, the driver pointers of the
  USB interfaces, the module parameter; and they neither create an adapter nor take an address
  back.
\<close>

definition untouched :: "('a, 'b) clients \<Rightarrow> ('a, 'b) clients \<Rightarrow> bool" where
  "untouched c c' \<longleftrightarrow>
     wlib c' = wlib c \<and> blib c' = blib c \<and> intfdata c' = intfdata c \<and> combodrv c' = combodrv c \<and>
     next_addr c \<le> next_addr c' \<and>
     (\<forall>d. wadap c d = None \<longrightarrow> wadap c' d = None) \<and> (\<forall>d. badap c d = None \<longrightarrow> badap c' d = None)"

lemma untouched_refl [simp]: "untouched c c"
  by (simp add: untouched_def)

lemma untouched_trans: "untouched a b \<Longrightarrow> untouched b c \<Longrightarrow> untouched a c"
  by (simp add: untouched_def)

lemma untouched_openLock [simp]:
  "untouched (c\<lparr>openLock := n\<rparr>) c' = untouched c c'" "untouched c (c'\<lparr>openLock := n\<rparr>) = untouched c c'"
  by (simp_all add: untouched_def)

lemma down_openLock_untouched: "down_openLock c = Some (r, c') \<Longrightarrow> untouched c c'"
  by (auto simp: down_openLock_def ask_def untouched_def split: if_splits)

lemma wlan_adap_upd_untouched: "wlan_adap_upd d g c = Some c' \<Longrightarrow> untouched c c'"
  by (auto simp: wlan_adap_upd_def untouched_def split: bind_splits)

lemma hci_create_untouched: "hci_create d c = Some (h, c') \<Longrightarrow> untouched c c'"
  by (auto simp: hci_create_def bt_adap_upd_def ask_def untouched_def Let_def
      split: bind_splits prod.splits if_splits)

lemma hci_destroy_untouched: "hci_destroy d c = Some c' \<Longrightarrow> untouched c c'"
  by (auto simp: hci_destroy_def bt_adap_upd_def hdev_upd_def untouched_def split: bind_splits option.splits)

lemma wlan_initialize_untouched: "wlan_initialize d w = Some (r, w') \<Longrightarrow> untouched (client w) (client w')"
  by (auto simp: wlan_initialize_def wlan_Bus_set_firmware_version_def set_iface_def untouched_def Let_def
      split: bind_splits prod.splits option.splits)

lemma netdev_setup_untouched: "wlan_netdev_setup a w = Some (r, w') \<Longrightarrow> untouched (client w) (client w')"
  by (auto simp: wlan_netdev_setup_def ask_def untouched_def Let_def
      split: bind_splits prod.splits if_splits)

lemma netdev_destroy_untouched: "wlan_netdev_destroy a c = Some c' \<Longrightarrow> untouched c c'"
  by (auto simp: wlan_netdev_destroy_def untouched_def Let_def split: bind_splits option.splits)

lemmas callback_parts_untouched = down_openLock_untouched wlan_adap_upd_untouched hci_create_untouched
  hci_destroy_untouched wlan_initialize_untouched netdev_setup_untouched netdev_destroy_untouched

lemma sys_call_untouched: "sys_call cb a w = Some (r, w') \<Longrightarrow> untouched (client w) (client w')"
  by (cases cb)
    (auto simp: wlan_Bus_Open_def wlan_Bus_Close_def bt_Bus_Open_def bt_Bus_Close_def
      register_HCI_device_def unregister_HCI_device_def up_openLock_def
      dest!: callback_parts_untouched intro: untouched_trans
      split: bind_splits prod.splits if_splits option.splits)

lemma sys_call_wlib: "sys_call cb a w = Some (r, w') \<Longrightarrow> wlib (client w') = wlib (client w)"
  by (drule sys_call_untouched) (simp add: untouched_def)

interpretation syslib: bus_client_keeps sys_call sys_ok "\<lambda>c. wlib c = W" for W
  by unfold_locales (auto dest: sys_call_wlib)

section \<open>Requests that leave the links between the objects alone\<close>

definition same_links :: "('a, 'b) clients \<Rightarrow> ('a, 'b) clients \<Rightarrow> bool" where
  "same_links c c' \<longleftrightarrow>
     wlib c' = wlib c \<and> blib c' = blib c \<and> wview c' = wview c \<and> bview c' = bview c \<and>
     outcome c' = outcome c \<and> next_addr c' = next_addr c \<and> openLock c' = openLock c \<and>
     intfdata c' = intfdata c \<and> combodrv c' = combodrv c \<and>
     (\<forall>n. map_option nd_priv (netdevs c' n) = map_option nd_priv (netdevs c n)) \<and>
     (\<forall>s. netstats c' s = None \<longleftrightarrow> netstats c s = None) \<and>
     (\<forall>h. map_option hd_drvdata (hdevs c' h) = map_option hd_drvdata (hdevs c h))"

lemma same_links_refl [simp]: "same_links c c"
  by (simp add: same_links_def)

lemma same_links_trans: "same_links a b \<Longrightarrow> same_links b c \<Longrightarrow> same_links a c"
  by (simp add: same_links_def)

lemma map_option_SomeD: "map_option f x = map_option f y \<Longrightarrow> y = Some b \<Longrightarrow> \<exists>a. x = Some a \<and> f a = f b"
  by auto

lemma same_links_inv:
  assumes s: "same_links c c'" and inv: "clients_inv c"
  shows "clients_inv c'"
proof -
  have none: "netdevs c' n = None \<longleftrightarrow> netdevs c n = None" "hdevs c' n = None \<longleftrightarrow> hdevs c n = None"
    "wadap c' n = None \<longleftrightarrow> wadap c n = None" "badap c' n = None \<longleftrightarrow> badap c n = None" for n
  proof -
    have "map_option nd_priv (netdevs c' n) = map_option nd_priv (netdevs c n)"
      "map_option hd_drvdata (hdevs c' n) = map_option hd_drvdata (hdevs c n)"
      "wview c' n = wview c n" "bview c' n = bview c n"
      using s by (auto simp: same_links_def)
    then show "netdevs c' n = None \<longleftrightarrow> netdevs c n = None" "hdevs c' n = None \<longleftrightarrow> hdevs c n = None"
      "wadap c' n = None \<longleftrightarrow> wadap c n = None" "badap c' n = None \<longleftrightarrow> badap c n = None"
      by (metis option.map_disc_iff view_None)+
  qed
  have w: "wptrs_ok c' d p" if "wview c' d = Some p" for d p
  proof -
    have "wptrs_ok c d p" using that s clients_inv_wptrs [OF inv] by (simp add: same_links_def)
    then show ?thesis
    proof (cases "fst p = None \<and> fst (snd p) = None")
      case False
      with \<open>wptrs_ok c d p\<close> obtain n dev st where "fst p = Some n" "netdevs c n = Some dev"
        "nd_priv dev = Some d" "fst (snd p) = Some st" "netstats c st \<noteq> None"
        by (auto simp: wptrs_ok_def)
      moreover from this obtain dev' where "netdevs c' n = Some dev'" "nd_priv dev' = Some d"
        using s map_option_SomeD [of nd_priv "netdevs c' n" "netdevs c n" dev]
        by (auto simp: same_links_def)
      ultimately show ?thesis using s by (cases p) (auto simp: wptrs_ok_def same_links_def)
    qed (auto simp: wptrs_ok_def)
  qed
  have b: "bptrs_ok c' d p" if "bview c' d = Some p" for d p
    unfolding bptrs_ok_def
  proof (intro allI impI)
    fix h
    assume h: "fst p = Some h"
    have "bptrs_ok c d p" using that s clients_inv_bptrs [OF inv] by (simp add: same_links_def)
    with h obtain hx where "hdevs c h = Some hx" "hd_drvdata hx = Some d" by (auto simp: bptrs_ok_def)
    then show "\<exists>hx. hdevs c' h = Some hx \<and> hd_drvdata hx = Some d"
      using s map_option_SomeD [of hd_drvdata "hdevs c' h" "hdevs c h" hx]
      by (auto simp: same_links_def)
  qed
  have "netstats_apart c'" "fresh_above c'" "env_ok c'"
    using inv s none by (simp_all add: clients_inv_def same_links_def netstats_apart_def fresh_above_def env_ok_def)
  then show ?thesis
    using inv s w b by (simp add: clients_inv_def same_links_def del: split_paired_All)
qed

lemma same_links_step: "same_links c c' \<Longrightarrow> clients_inv c \<Longrightarrow> client_step c c'"
  using same_links_inv [of c c'] by (simp add: client_step_def same_links_def wbus_def bbus_def)

text \<open>
  A move of the clients: a step that leaves the adapters, the interfaces they were told of and
  the driver pointers as they are.
\<close>

definition client_move :: "('a, 'b) clients \<Rightarrow> ('a, 'b) clients \<Rightarrow> bool" where
  "client_move c c' \<longleftrightarrow>
     client_step c c' \<and> wbus c' = wbus c \<and> bbus c' = bbus c \<and> wlib c' = wlib c \<and> blib c' = blib c \<and>
     intfdata c' = intfdata c \<and> combodrv c' = combodrv c \<and> next_addr c \<le> next_addr c'"

lemma client_move_refl: "clients_inv c \<Longrightarrow> client_move c c"
  by (simp add: client_move_def client_step_refl)

lemma client_move_trans: "client_move a b \<Longrightarrow> client_move b c \<Longrightarrow> client_move a c"
  by (auto simp: client_move_def intro: client_step_trans)

lemma client_move_inv: "client_move c c' \<Longrightarrow> clients_inv c'"
  unfolding client_move_def by (blast intro: client_step_inv)

lemma same_links_move: "same_links c c' \<Longrightarrow> clients_inv c \<Longrightarrow> client_move c c'"
  using same_links_step [of c c'] by (simp add: client_move_def same_links_def wbus_def bbus_def fun_eq_iff)

lemma bus_None: "wbus c d = None \<longleftrightarrow> wadap c d = None" "bbus c d = None \<longleftrightarrow> badap c d = None"
  by (simp_all add: wbus_def bbus_def)

lemma step_untouched_move:
  assumes st: "client_step c c'" and rest: "untouched c c'"
  shows "client_move c c'"
proof -
  have "wbus c' d = wbus c d" "bbus c' d = bbus c d" for d
    using assms bus_None [of c d] bus_None [of c' d]
    by (cases "wbus c d"; cases "bbus c d"; auto simp: client_step_def untouched_def)+
  with assms show ?thesis by (simp add: client_move_def untouched_def fun_eq_iff)
qed

lemma callback_move:
  assumes "ifaces w a = Some x" "sys_ok (client w) a x" "open_cb x = Some cb \<or> close_cb x = Some cb"
  obtains r w' where "sys_call cb a w = Some (r, w')" "cb_frame a w w'"
    "client_move (client w) (client w')"
proof -
  from sys_call_done [OF assms] obtain r w' where "sys_call cb a w = Some (r, w')" "cb_frame a w w'"
    "client_step (client w) (client w')" by (auto simp: callback_done_def)
  with that show ?thesis by (blast intro: step_untouched_move sys_call_untouched)
qed

interpretation sysmove: bus_client sys_call "\<lambda>c a x. sys_ok c a x \<and> client_move c0 c" for c0
proof
  fix w :: "('a, 'b) system" and a x cb
  assume x: "ifaces w a = Some x" "sys_ok (client w) a x \<and> client_move c0 (client w)"
    "open_cb x = Some cb \<or> close_cb x = Some cb"
  then obtain r w' where "sys_call cb a w = Some (r, w')" "cb_frame a w w'"
    "client_move (client w) (client w')" by (blast elim: callback_move)
  with x(2) show "\<exists>r w'. sys_call cb a w = Some (r, w') \<and> cb_frame a w w' \<and>
      (\<forall>b y. sys_ok (client w) b y \<and> client_move c0 (client w) \<longrightarrow>
        sys_ok (client w') b y \<and> client_move c0 (client w'))"
    by (auto intro: client_move_trans) (auto simp: client_move_def intro: client_step_sys_ok)
qed (use sys_ok_agrees in blast)

section \<open>Events\<close>

text \<open>
  The requests that reach the drivers: the control utility's ioctl, a wireless handler by its
  place in the tables, the network device's and the HCI device's operations, and the power
  management of both USB interfaces.
\<close>

datatype sys_event =
  Ev_Ioctl "u8 list" bus_file u32 umem
| Ev_Wext nat addr iwreq iw_extra
| Ev_Wstats addr
| Ev_Xmit addr "u8 list"
| Ev_Stats addr
| Ev_Ndo_Open addr
| Ev_Ndo_Stop addr
| Ev_Hci_Open addr
| Ev_Hci_Close addr
| Ev_Hci_Send addr hci_pkt "u8 list"
| Ev_Wlan_Suspend usb_interface int
| Ev_Wlan_Resume usb_interface
| Ev_Wlan_Reset usb_interface
| Ev_Bt_Suspend usb_interface int
| Ev_Bt_Resume usb_interface

fun run_event :: "'a wext_lib \<Rightarrow> sys_event \<Rightarrow> ('a, 'b) system \<Rightarrow> ('a, 'b) system option" where
  "run_event L (Ev_Ioctl stk pfile cmd m) w =
     do { (r, m1, w1) \<leftarrow> tdspbus_unlocked_ioctl sys_call stk pfile cmd m w; Some w1 }"
| "run_event L (Ev_Wext i n rq ex) w =
     (case wext_handlers L ! i of
        None \<Rightarrow> Some w
      | Some h \<Rightarrow> do { (r, rq1, ex1, c) \<leftarrow> wext_call h n rq ex (client w); Some (with_client c w) })"
| "run_event L (Ev_Wstats n) w =
     do { (st, c) \<leftarrow> ioctl_iw_get_wireless_stats L n (client w); Some (with_client c w) }"
| "run_event L (Ev_Xmit n skb) w =
     do { (r, freed, c) \<leftarrow> wlan_netdev_xmit skb n (client w); Some (with_client c w) }"
| "run_event L (Ev_Stats n) w =
     do { (st, c) \<leftarrow> wlan_netdev_get_stats n (client w); Some (with_client c w) }"
| "run_event L (Ev_Ndo_Open n) w =
     do { (r, c) \<leftarrow> wlan_netdev_open n (client w); Some (with_client c w) }"
| "run_event L (Ev_Ndo_Stop n) w =
     do { (r, c) \<leftarrow> wlan_netdev_close n (client w); Some (with_client c w) }"
| "run_event L (Ev_Hci_Open h) w = do { (r, w1) \<leftarrow> hci_usb_open h w; Some w1 }"
| "run_event L (Ev_Hci_Close h) w =
     do { (r, c) \<leftarrow> hci_usb_close h (client w); Some (with_client c w) }"
| "run_event L (Ev_Hci_Send h k skb) w =
     do { (r, freed, c) \<leftarrow> hci_usb_send_frame (Some h) k skb (client w); Some (with_client c w) }"
| "run_event L (Ev_Wlan_Suspend u e) w = do { (r, w1) \<leftarrow> wlan_usb_suspend u e w; Some w1 }"
| "run_event L (Ev_Wlan_Resume u) w = do { (r, w1) \<leftarrow> wlan_usb_resume u w; Some w1 }"
| "run_event L (Ev_Wlan_Reset u) w = do { (r, w1) \<leftarrow> wlan_usb_reset_resume u w; Some w1 }"
| "run_event L (Ev_Bt_Suspend u e) w = do { (r, s, w1) \<leftarrow> bt_usb_suspend u e w; Some w1 }"
| "run_event L (Ev_Bt_Resume u) w = do { (r, w1) \<leftarrow> bt_usb_resume u w; Some w1 }"

text \<open>
  What the kernel guarantees of a request: the devices belong to an adapter whose interface is
  registered with the bus, the power management acts on a probed interface, a packet has an
  Ethernet header, the buffers have the documented sizes; and the ioctl's argument is safe.
\<close>

definition registered :: "('a, 'b) system \<Rightarrow> addr \<Rightarrow> bool" where
  "registered w a \<longleftrightarrow> (\<exists>s \<in> set (DeviceData (FdoData w)). pDeviceInterface s = Some a)"

definition netdev_of :: "('a, 'b) system \<Rightarrow> addr \<Rightarrow> bool" where
  "netdev_of w n \<longleftrightarrow> (\<exists>a d A. registered w a \<and> wadap (client w) d = Some A \<and>
     Adap_Get_BusInf (wlib (client w)) A = Some a \<and> Adap_Get_Netdev (wlib (client w)) A = Some n)"

definition hcidev_of :: "('a, 'b) system \<Rightarrow> addr \<Rightarrow> bool" where
  "hcidev_of w h \<longleftrightarrow> (\<exists>a d B. registered w a \<and> badap (client w) d = Some B \<and>
     Bluetooth_Adap_Get_BusInf (blib (client w)) B = Some a \<and>
     Bluetooth_Adap_Get_hdev (blib (client w)) B = Some h)"

definition wlan_probed :: "('a, 'b) system \<Rightarrow> usb_interface \<Rightarrow> bool" where
  "wlan_probed w u \<longleftrightarrow>
     (\<forall>d. intfdata (client w) (ui_addr u) = Some d \<longrightarrow> wadap (client w) d \<noteq> None)"

definition bt_probed :: "('a, 'b) system \<Rightarrow> usb_interface \<Rightarrow> bool" where
  "bt_probed w u \<longleftrightarrow> (\<exists>d B a. intfdata (client w) (ui_addr u) = Some d \<and>
     badap (client w) d = Some B \<and> Bluetooth_Adap_Get_BusInf (blib (client w)) B = Some a \<and>
     registered w a)"

fun enabled :: "'a wext_lib \<Rightarrow> sys_event \<Rightarrow> ('a, 'b) system \<Rightarrow> bool" where
  "enabled L (Ev_Ioctl stk pfile cmd m) w = ioctl_safe cmd m"
| "enabled L (Ev_Wext i n rq ex) w =
     (i < length (wext_handlers L) \<and> netdev_of w n \<and> wext_buffers rq ex \<and>
      scan_end rq \<le> length (ex_scan ex) \<and> core_extra i \<le> length (ex_bytes ex))"
| "enabled L (Ev_Xmit n skb) w = (netdev_of w n \<and> 14 \<le> length skb)"
| "enabled L (Ev_Wstats n) w = netdev_of w n"
| "enabled L (Ev_Stats n) w = netdev_of w n"
| "enabled L (Ev_Ndo_Open n) w = netdev_of w n"
| "enabled L (Ev_Ndo_Stop n) w = netdev_of w n"
| "enabled L (Ev_Hci_Open h) w = hcidev_of w h"
| "enabled L (Ev_Hci_Close h) w = hcidev_of w h"
| "enabled L (Ev_Hci_Send h k skb) w = hcidev_of w h"
| "enabled L (Ev_Wlan_Suspend u e) w = wlan_probed w u"
| "enabled L (Ev_Wlan_Resume u) w = wlan_probed w u"
| "enabled L (Ev_Wlan_Reset u) w = wlan_probed w u"
| "enabled L (Ev_Bt_Suspend u e) w = bt_probed w u"
| "enabled L (Ev_Bt_Resume u) w = bt_probed w u"

text \<open>The invariant, for the hardware library the requests are run with.\<close>

definition run_ok :: "'a wlan_lib \<Rightarrow> ('a, 'b) system \<Rightarrow> bool" where
  "run_ok W w \<longleftrightarrow> bus_ok (\<lambda>c a x. sys_ok c a x \<and> wlib c = W) w"

lemma run_ok_registered:
  assumes "run_ok W w" "registered w a"
  obtains x where "ifaces w a = Some x" "sys_ok (client w) a x" "clients_inv (client w)"
    "wlib (client w) = W"
proof -
  from assms(2) obtain s where s: "s \<in> set (DeviceData (FdoData w))" "pDeviceInterface s = Some a"
    by (auto simp: registered_def)
  with assms(1) obtain x where x: "ifaces w a = Some x"
    by (auto simp: run_ok_def bus_ok_def bus_inv_def slot_ok_def)
  with s assms(1) have "sys_ok (client w) a x" "wlib (client w) = W"
    by (auto simp: run_ok_def bus_ok_def clients_ok_def)
  with x that show ?thesis by (auto simp: sys_ok_def)
qed

lemma run_ok_bus: "run_ok W w \<Longrightarrow> bus_ok sys_ok w"
  by (auto simp: run_ok_def bus_ok_def clients_ok_def)

text \<open>A request to the drivers keeps the invariant when it keeps the links.\<close>

lemma run_ok_links:
  assumes ok: "run_ok W w" and s: "clients_inv (client w) \<Longrightarrow> same_links (client w) c"
  shows "run_ok W (with_client c w)"
proof -
  have "sys_ok c p x \<and> wlib c = W"
    if "sd \<in> set (DeviceData (FdoData w))" "pDeviceInterface sd = Some p" "ifaces w p = Some x" for sd p x
  proof -
    have "registered w p" using that by (auto simp: registered_def)
    with ok obtain y where y: "ifaces w p = Some y" "sys_ok (client w) p y" "clients_inv (client w)"
      "wlib (client w) = W"
      by (rule run_ok_registered)
    then have "same_links (client w) c" using s by blast
    with y client_step_sys_ok [OF same_links_step, of "client w" c p y] that(3) show ?thesis
      by (auto simp: same_links_def)
  qed
  with ok show ?thesis
    by (auto simp: run_ok_def bus_ok_def bus_inv_def clients_ok_def with_client_def)
qed

section \<open>The WLAN side\<close>

lemma netdev_ofE:
  assumes "run_ok W w" "netdev_of w n"
  obtains d A nd s where "clients_inv (client w)" "wlib (client w) = W" "wadap (client w) d = Some A"
    "Adap_Get_Netdev W A = Some n" "netdevs (client w) n = Some nd" "nd_priv nd = Some d"
    "Adap_Get_Netstat W A = Some s" "netstats (client w) s \<noteq> None"
proof -
  from assms(2) obtain a d A where a: "registered w a" and A: "wadap (client w) d = Some A"
    "Adap_Get_Netdev (wlib (client w)) A = Some n"
    by (auto simp: netdev_of_def)
  from assms(1) a obtain x where inv: "clients_inv (client w)" "wlib (client w) = W"
    by (rule run_ok_registered)
  have v: "wview (client w) d = Some (wptrs W A)" using A inv by (simp add: wview_def)
  then have "wptrs_ok (client w) d (wptrs W A)" by (rule clients_inv_wptrs [OF inv(1)])
  with A inv that show ?thesis by (auto simp: wptrs_ok_def wptrs_def)
qed

lemma wadap_upd_links:
  assumes "wadap c d = Some A" "wptrs (wlib c) A1 = wptrs (wlib c) A"
  shows "same_links c (c\<lparr>wadap := (wadap c)(d := Some A1)\<rparr>)"
  using assms by (auto simp: same_links_def wview_def bview_def fun_eq_iff)

lemma badap_upd_links:
  assumes "badap c d = Some B" "bptrs (blib c) B1 = bptrs (blib c) B"
  shows "same_links c (c\<lparr>badap := (badap c)(d := Some B1)\<rparr>)"
  using assms by (auto simp: same_links_def wview_def bview_def fun_eq_iff)

lemma netdevs_upd_links:
  assumes "netdevs c n = Some nd" "nd_priv nd1 = nd_priv nd"
  shows "same_links c (c\<lparr>netdevs := (netdevs c)(n := Some nd1)\<rparr>)"
  using assms by (auto simp: same_links_def wview_def bview_def fun_eq_iff)

lemma hdevs_upd_links:
  assumes "hdevs c h = Some hx" "hd_drvdata hx1 = hd_drvdata hx"
  shows "same_links c (c\<lparr>hdevs := (hdevs c)(h := Some hx1)\<rparr>)"
  using assms by (auto simp: same_links_def wview_def bview_def fun_eq_iff)

lemma netstats_upd_links:
  assumes "netstats c s \<noteq> None"
  shows "same_links c (c\<lparr>netstats := (netstats c)(s := Some st)\<rparr>)"
  using assms by (auto simp: same_links_def wview_def bview_def fun_eq_iff)

lemma suspend_type_links: "same_links c (c\<lparr>suspend_type := t\<rparr>)"
  by (simp add: same_links_def wview_def bview_def fun_eq_iff)

text \<open>
  A request that returns and keeps the invariant; and it only moves the system, when the clients'
  invariant holds: which interface is in which slot, and what its driver set in it, stay.
\<close>

definition shifted :: "('a, 'b) system \<Rightarrow> ('a, 'b) system \<Rightarrow> bool" where
  "shifted w w1 \<longleftrightarrow>
     map pDeviceInterface (DeviceData (FdoData w1)) = map pDeviceInterface (DeviceData (FdoData w)) \<and>
     (\<forall>p. rel_option iface_agrees (ifaces w p) (ifaces w1 p)) \<and> client_move (client w) (client w1) \<and>
     (served w \<longrightarrow> served w1)"

definition runs_ok :: "'a wlan_lib \<Rightarrow> ('a, 'b) system \<Rightarrow> ('a, 'b) system option \<Rightarrow> bool" where
  "runs_ok W w res \<longleftrightarrow>
     (\<exists>w1. res = Some w1 \<and> run_ok W w1 \<and> (clients_inv (client w) \<longrightarrow> shifted w w1))"

lemma same_links_devs: "same_links c c' \<Longrightarrow> same_devs c c'"
  by (simp add: same_links_def same_devs_def netdev_owner_def hdev_owner_def fun_eq_iff)

lemma shifted_client:
  "client_move (client w) c \<Longrightarrow> same_devs (client w) c \<Longrightarrow> shifted w (with_client c w)"
  using served_client [of w c]
  by (simp add: shifted_def with_client_def option.rel_refl)

lemma runs_ok_same: "run_ok W w \<Longrightarrow> runs_ok W w (Some w)"
  by (simp add: runs_ok_def shifted_def option.rel_refl client_move_refl)

lemma runs_okI:
  assumes "run_ok W w" "res = Some (with_client c w)" "clients_inv (client w) \<Longrightarrow> same_links (client w) c"
  shows "runs_ok W w res"
  using run_ok_links [OF assms(1,3)] assms(2,3)
  by (auto simp: runs_ok_def intro: shifted_client same_links_move same_links_devs)

lemma with_client_same [simp]: "with_client (client w) w = w"
  by (simp add: with_client_def)

lemma wext_event_run:
  assumes "run_ok W w" "netdev_of w n" "wext_sizes L" "\<forall>A. keys_fit L A" "wext_keeps L (wptrs W)"
    and "i < length (wext_handlers L)" "wext_handlers L ! i = Some h"
    and "wext_buffers rq ex" "scan_end rq \<le> length (ex_scan ex)" "core_extra i \<le> length (ex_bytes ex)"
  shows "\<exists>r rq1 ex1 c. wext_call h n rq ex (client w) = Some (r, rq1, ex1, c) \<and> same_links (client w) c"
proof -
  from assms(1,2) obtain d A nd s where "wlib (client w) = W" "wadap (client w) d = Some A"
    "netdevs (client w) n = Some nd" "nd_priv nd = Some d"
    by (rule netdev_ofE)
  moreover have f: "fits L i A" using assms(4) by (simp add: fits_def)
  obtain r rq1 ex1 A1 where "h rq ex A = Some (r, rq1, ex1, A1)" "wptrs W A1 = wptrs W A"
    using wext_okD [OF wext_all_ok [OF assms(3,5,6,7)] assms(8-10) f] by (auto simp: wext_done_def)
  ultimately show ?thesis
    using wadap_upd_links [of "client w" d A A1] by (simp add: wext_call_def)
qed

lemma netdev_events_run:
  assumes ok: "run_ok W w" and n: "netdev_of w n"
  shows "runs_ok W w (run_event L (Ev_Wstats n) w)" "runs_ok W w (run_event L (Ev_Stats n) w)"
    "14 \<le> length skb \<Longrightarrow> runs_ok W w (run_event L (Ev_Xmit n skb) w)"
    "runs_ok W w (run_event L (Ev_Ndo_Open n) w)" "runs_ok W w (run_event L (Ev_Ndo_Stop n) w)"
proof -
  from ok n obtain d A nd s where inv: "clients_inv (client w)" and W: "wlib (client w) = W"
    and A: "wadap (client w) d = Some A" and nd: "netdevs (client w) n = Some nd" "nd_priv nd = Some d"
    and s: "Adap_Get_Netstat W A = Some s" "netstats (client w) s \<noteq> None"
    by (rule netdev_ofE)
  from s(2) obtain st where st: "netstats (client w) s = Some st" by blast
  note run = runs_okI [OF ok]
  show "runs_ok W w (run_event L (Ev_Wstats n) w)"
    by (rule run [OF _ netstats_upd_links [OF s(2)]])
      (use W A nd s st in \<open>simp add: ioctl_iw_get_wireless_stats_def Let_def\<close>)
  show "runs_ok W w (run_event L (Ev_Stats n) w)"
    by (rule run [OF _ netstats_upd_links [OF s(2)]])
      (use W A nd s st in \<open>simp add: wlan_netdev_get_stats_def Let_def\<close>)
  show "runs_ok W w (run_event L (Ev_Ndo_Open n) w)"
    by (rule run [OF _ netdevs_upd_links [OF nd(1)],
          of _ "nd\<lparr>nd_carrier := True, nd_queue_stopped := False\<rparr>"])
      (use nd in \<open>simp_all add: wlan_netdev_open_def netdev_upd_def\<close>)
  show "runs_ok W w (run_event L (Ev_Ndo_Stop n) w)"
    by (rule run [OF _ netdevs_upd_links [OF nd(1)],
          of _ "nd\<lparr>nd_carrier := False, nd_queue_stopped := True\<rparr>"])
      (use nd in \<open>simp_all add: wlan_netdev_close_def netdev_upd_def\<close>)
  have laws: "wlan_lib_laws W" using inv W by (auto simp: clients_inv_def)
  let ?c = "(client w)\<lparr>wadap := (wadap (client w))(d := Some (Adap_Send W skb A))\<rparr>"
  show "runs_ok W w (run_event L (Ev_Xmit n skb) w)" if "14 \<le> length skb"
  proof -
    have "run_event L (Ev_Xmit n skb) w = Some (with_client (client w) w) \<or>
        run_event L (Ev_Xmit n skb) w = Some (with_client ?c w)"
      using W A nd that by (auto simp: wlan_netdev_xmit_def wlan_netdev_send_def eth_type_def)
    moreover have "same_links (client w) ?c"
      using wlan_laws(10) [OF laws] W A by (intro wadap_upd_links) auto
    ultimately show ?thesis using run by (elim disjE) (blast intro: same_links_refl)+
  qed
qed

lemma wlan_power_run:
  assumes ok: "run_ok W w" and u: "wlan_probed w u"
  shows "runs_ok W w (run_event L (Ev_Wlan_Suspend u e) w)"
    "runs_ok W w (run_event L (Ev_Wlan_Resume u) w)" "runs_ok W w (run_event L (Ev_Wlan_Reset u) w)"
proof -
  let ?c = "client w"
  note run = runs_okI [OF ok]
  have ad: "same_links ?c (?c\<lparr>suspend_type := t, wadap := (wadap ?c)(d := Some A1)\<rparr>)"
    if "wadap ?c d = Some A" "clients_inv ?c"
      "A1 = Adap_Suspend (wlib ?c) e A \<or> A1 = Adap_Resume (wlib ?c) k A" for d A A1 t k
  proof -
    have "wlan_lib_laws (wlib ?c)" using that(2) by (simp add: clients_inv_def)
    then have "wptrs (wlib ?c) A1 = wptrs (wlib ?c) A" using that(3) by (elim disjE) (simp_all add: wlan_laws(8,9))
    with that(1) show ?thesis
      by (auto simp: same_links_def wview_def bview_def fun_eq_iff)
  qed
  show "runs_ok W w (run_event L (Ev_Wlan_Suspend u e) w)"
  proof (cases "intfdata ?c (ui_addr u)")
    case None
    then show ?thesis by (intro run [of _ ?c]) (auto simp: wlan_usb_suspend_def)
  next
    case (Some d)
    then obtain A where A: "wadap ?c d = Some A" using u by (auto simp: wlan_probed_def)
    show ?thesis
      by (rule run [OF _ ad [OF A]])
        (use Some A in \<open>auto simp: wlan_usb_suspend_def wlan_adap_call_def wlan_adap_upd_def
          with_client_def Let_def\<close>)
  qed
  show "runs_ok W w (run_event L (Ev_Wlan_Resume u) w)"
  proof (cases "intfdata ?c (ui_addr u)")
    case None
    then show ?thesis
      by (intro run [OF _ suspend_type_links]) (auto simp: wlan_usb_resume_def Let_def)
  next
    case (Some d)
    then obtain A where A: "wadap ?c d = Some A" using u by (auto simp: wlan_probed_def)
    show ?thesis
      by (rule run [OF _ ad [OF A]])
        (use Some A in \<open>auto simp: wlan_usb_resume_def wlan_adap_call_def wlan_adap_upd_def
          with_client_def Let_def\<close>)
  qed
  show "runs_ok W w (run_event L (Ev_Wlan_Reset u) w)"
  proof (cases "intfdata ?c (ui_addr u)")
    case None
    then show ?thesis
      by (intro run [of _ ?c]) (auto simp: wlan_usb_reset_resume_def Let_def)
  next
    case (Some d)
    then obtain A where A: "wadap ?c d = Some A" using u by (auto simp: wlan_probed_def)
    show ?thesis
      by (rule run [OF _ ad [OF A]])
        (use Some A in \<open>auto simp: wlan_usb_reset_resume_def wlan_adap_call_def wlan_adap_upd_def
          with_client_def Let_def\<close>)
  qed
qed

section \<open>The Bluetooth side\<close>

lemma hcidev_ofE:
  assumes "run_ok W w" "hcidev_of w h"
  obtains a d B hx x where "registered w a" "clients_inv (client w)" "badap (client w) d = Some B"
    "Bluetooth_Adap_Get_BusInf (blib (client w)) B = Some a"
    "Bluetooth_Adap_Get_hdev (blib (client w)) B = Some h"
    "hdevs (client w) h = Some hx" "hd_drvdata hx = Some d" "ifaces w a = Some x"
proof -
  from assms(2) obtain a d B where a: "registered w a" and B: "badap (client w) d = Some B"
    "Bluetooth_Adap_Get_BusInf (blib (client w)) B = Some a"
    "Bluetooth_Adap_Get_hdev (blib (client w)) B = Some h"
    by (auto simp: hcidev_of_def)
  from assms(1) a obtain x where inv: "clients_inv (client w)" "ifaces w a = Some x"
    by (rule run_ok_registered)
  have v: "bview (client w) d = Some (bptrs (blib (client w)) B)" using B by (simp add: bview_def)
  then have "bptrs_ok (client w) d (bptrs (blib (client w)) B)" by (rule clients_inv_bptrs [OF inv(1)])
  with a B inv that show ?thesis by (auto simp: bptrs_ok_def bptrs_def)
qed

text \<open>An update of an HCI device and of its adapter that keeps the pointers.\<close>

lemma hci_upd_links:
  assumes "hdevs c h = Some hx" "hd_drvdata hx1 = hd_drvdata hx"
    and "badap c d = Some B" "bptrs (blib c) B1 = bptrs (blib c) B"
  shows "same_links c (c\<lparr>hdevs := (hdevs c)(h := Some hx1), badap := (badap c)(d := Some B1)\<rparr>)"
  using assms by (auto simp: same_links_def wview_def bview_def fun_eq_iff)

lemma hci_close_links:
  assumes inv: "clients_inv c" and B: "badap c d = Some B"
    and hx: "hdevs c h = Some hx" "hd_drvdata hx = Some d"
  shows "\<exists>c1. hci_usb_close h c = Some (0, c1) \<and> same_links c c1"
proof -
  let ?L = "blib c"
  have laws: "bt_lib_laws ?L" using inv by (simp add: clients_inv_def)
  let ?X = "if Bluetooth_Adap_IsOpen ?L B then Bluetooth_Adap_Exit_Lmp_Dump ?L B else B"
  let ?c1 = "c\<lparr>hdevs := (hdevs c)(h := Some (hx\<lparr>hd_running := False\<rparr>)),
               badap := (badap c)(d := Some (Bluetooth_Adap_ClearOpen ?L ?X))\<rparr>"
  have "bptrs ?L (Bluetooth_Adap_ClearOpen ?L ?X) = bptrs ?L B" by (simp add: bt_laws(6,8) [OF laws])
  with hx B have "same_links c ?c1" by (intro hci_upd_links) auto
  moreover have "hci_usb_close h c = Some (0, c)" if "\<not> hd_running hx"
    using hx that by (simp add: hci_usb_close_def)
  moreover have "hci_usb_close h c = Some (0, ?c1)" if "hd_running hx"
    using hx B that by (cases "Bluetooth_Adap_IsOpen ?L B")
      (simp_all add: hci_usb_close_def hdev_upd_def bt_adap_upd_def)
  ultimately show ?thesis using same_links_refl by (cases "hd_running hx") blast+
qed

lemma hci_close_run:
  assumes ok: "run_ok W w" and h: "hcidev_of w h"
  shows "runs_ok W w (run_event L (Ev_Hci_Close h) w)"
proof -
  from ok h obtain a d B hx x where "clients_inv (client w)" "badap (client w) d = Some B"
    "hdevs (client w) h = Some hx" "hd_drvdata hx = Some d"
    by (rule hcidev_ofE)
  from hci_close_links [OF this] show ?thesis by (auto intro!: runs_okI [OF ok])
qed

lemma hci_send_run:
  assumes ok: "run_ok W w" and h: "hcidev_of w h"
  shows "runs_ok W w (run_event L (Ev_Hci_Send h k skb) w)"
proof -
  let ?c = "client w" let ?L = "blib ?c"
  from ok h obtain a d B hx x where inv: "clients_inv ?c" and B: "badap ?c d = Some B"
    and hx: "hdevs ?c h = Some hx" "hd_drvdata hx = Some d"
    by (rule hcidev_ofE)
  have laws: "bt_lib_laws ?L" using inv by (simp add: clients_inv_def)
  note links = hci_upd_links [OF hx(1) _ B]
  have "\<exists>r freed c. hci_usb_send_frame (Some h) k skb ?c = Some (r, freed, c) \<and> same_links ?c c"
    using B hx bt_laws(11,12) [OF laws]
    by (cases k) (auto simp: hci_usb_send_frame_def Let_def hdev_upd_def bt_adap_upd_def intro!: links)
  then show ?thesis by (auto intro!: runs_okI [OF ok])
qed

lemma bt_power_run:
  assumes ok: "run_ok W w" and u: "bt_probed w u"
  shows "runs_ok W w (run_event L (Ev_Bt_Suspend u e) w)" "runs_ok W w (run_event L (Ev_Bt_Resume u) w)"
proof -
  let ?c = "client w" let ?L = "blib ?c"
  from u obtain d B a where d: "intfdata ?c (ui_addr u) = Some d" "badap ?c d = Some B"
    "Bluetooth_Adap_Get_BusInf ?L B = Some a" and a: "registered w a"
    by (auto simp: bt_probed_def)
  from ok a obtain x where inv: "clients_inv ?c" by (rule run_ok_registered)
  have laws: "bt_lib_laws ?L" using inv by (simp add: clients_inv_def)
  have "bview ?c d = Some (bptrs ?L B)" using d by (simp add: bview_def)
  then have "bptrs_ok ?c d (bptrs ?L B)" by (rule clients_inv_bptrs [OF inv])
  then have h: "hdevs ?c h \<noteq> None" if "Bluetooth_Adap_Get_hdev ?L B = Some h" for h
    using that by (auto simp: bptrs_ok_def bptrs_def)
  note links = badap_upd_links [OF d(2)]
  have "\<exists>r s c. bt_usb_suspend u e w = Some (r, s, with_client c w) \<and> same_links ?c c"
  proof (cases "Bluetooth_Adap_Get_hdev ?L B")
    case None
    then show ?thesis using d by (auto simp: bt_usb_suspend_def intro!: exI [of _ ?c])
  next
    case (Some h)
    with h obtain hx where "hdevs ?c h = Some hx" by blast
    with Some show ?thesis
      using d bt_laws(9) [OF laws]
      by (auto simp: bt_usb_suspend_def bt_adap_call_def bt_adap_upd_def Let_def intro!: links)
  qed
  then show "runs_ok W w (run_event L (Ev_Bt_Suspend u e) w)" by (auto intro!: runs_okI [OF ok])
  have "\<exists>r c. bt_usb_resume u w = Some (r, with_client c w) \<and> same_links ?c c"
  proof (cases "Bluetooth_Adap_Get_hdev ?L B")
    case None
    then show ?thesis using d by (auto simp: bt_usb_resume_def intro!: exI [of _ ?c])
  next
    case (Some h)
    with h obtain hx where "hdevs ?c h = Some hx" by blast
    with Some show ?thesis
      using d bt_laws(10) [OF laws]
      by (auto simp: bt_usb_resume_def bt_adap_call_def bt_adap_upd_def Let_def intro!: links)
  qed
  then show "runs_ok W w (run_event L (Ev_Bt_Resume u) w)" by (auto intro!: runs_okI [OF ok])
qed

lemma set_version_run:
  assumes "run_ok W w" "registered w a" "ifaces w a = Some x"
  shows "run_ok W (set_iface a (x\<lparr>dsp_version := s, c8051_version := v\<rparr>) w)"
proof -
  from assms(2) obtain sd where sd: "sd \<in> set (DeviceData (FdoData w))" "pDeviceInterface sd = Some a"
    by (auto simp: registered_def)
  with assms(1,3) have "devstate x \<in> {NotStarted, Started, Stopped}"
    by (auto simp: run_ok_def bus_ok_def bus_inv_def slot_ok_def iface_ok_def)
  with assms show ?thesis
    unfolding run_ok_def by (intro syslib.kept.set_iface_ok) (auto simp: iface_agrees_def)
qed

lemma hci_open_run:
  assumes ok: "run_ok W w" and h: "hcidev_of w h"
  shows "runs_ok W w (run_event L (Ev_Hci_Open h) w)"
proof -
  let ?c = "client w" let ?L = "blib ?c"
  from ok h obtain a d B hx x where a: "registered w a" and inv: "clients_inv ?c"
    and B: "badap ?c d = Some B" "Bluetooth_Adap_Get_BusInf ?L B = Some a"
    and hx: "hdevs ?c h = Some hx" "hd_drvdata hx = Some d" and x: "ifaces w a = Some x"
    by (rule hcidev_ofE)
  have laws: "bt_lib_laws ?L" using inv by (simp add: clients_inv_def)
  let ?c1 = "?c\<lparr>hdevs := (hdevs ?c)(h := Some (hx\<lparr>hd_running := True\<rparr>))\<rparr>"
  let ?B1 = "Bluetooth_Adap_Init ?L (Bluetooth_Adap_SetOpen ?L B)"
  let ?c2 = "?c\<lparr>hdevs := (hdevs ?c)(h := Some (hx\<lparr>hd_running := True, hd_master := True\<rparr>)),
                badap := (badap ?c)(d := Some ?B1)\<rparr>"
  have p: "bptrs ?L ?B1 = bptrs ?L B" by (simp add: bt_laws(5,7) [OF laws])
  then have bi: "Bluetooth_Adap_Get_BusInf ?L ?B1 = Some a" using B(2) by (simp add: bptrs_def)
  have l1: "same_links ?c ?c1" by (rule hdevs_upd_links [OF hx(1)]) simp
  have l2: "same_links ?c ?c2" by (rule hci_upd_links [OF hx(1) _ B(1) p]) simp
  have ok2: "run_ok W (with_client ?c2 w)" by (rule run_ok_links [OF ok l2])
  have a2: "registered (with_client ?c2 w) a" "ifaces (with_client ?c2 w) a = Some x"
    using a x by (simp_all add: registered_def with_client_def)
  let ?v = "Bluetooth_Adap_Set_FirmVer ?L ?B1"
  consider "hci_usb_open h w = Some (0, w)" | "hci_usb_open h w = Some (- EIO, with_client ?c1 w)"
    | "hci_usb_open h w = Some (0, with_client ?c2 w)"
    | "hci_usb_open h w = Some (0, set_iface a
        (x\<lparr>dsp_version := snd ?v, c8051_version := fst ?v\<rparr>) (with_client ?c2 w))"
    using B hx x bi
    by (cases "hd_running hx"; cases "Bluetooth_Adap_IsOpen ?L B"; cases "combodrv ?c = 0")
      (auto simp: hci_usb_open_def hdev_upd_def bt_adap_upd_def bt_Bus_set_firmware_version_def Let_def)
  then show ?thesis
  proof cases
    case 1
    with ok show ?thesis by (simp add: runs_ok_same)
  next
    case 2
    with l1 show ?thesis by (auto intro: runs_okI [OF ok])
  next
    case 3
    with l2 show ?thesis by (auto intro: runs_okI [OF ok])
  next
    case 4
    have "shifted w (set_iface a (x\<lparr>dsp_version := snd ?v, c8051_version := fst ?v\<rparr>) (with_client ?c2 w))"
      using shifted_client [OF same_links_move [OF l2 inv] same_links_devs [OF l2]] x
        flag_served [OF flag_frame_iface [of "with_client ?c2 w" a x]]
      by (simp add: shifted_def iface_agrees_def)
    with 4 set_version_run [OF ok2 a2] show ?thesis by (simp add: runs_ok_def)
  qed
qed

section \<open>Runs\<close>

inductive sys_reach :: "'a wext_lib \<Rightarrow> ('a, 'b) system \<Rightarrow> ('a, 'b) system \<Rightarrow> bool" for L w0 where
  reach_start: "sys_reach L w0 w0"
| reach_step: "sys_reach L w0 w \<Longrightarrow> enabled L e w \<Longrightarrow> run_event L e w = Some w1 \<Longrightarrow> sys_reach L w0 w1"

inductive_cases reach_stepE: "sys_reach L w0 w1"

lemma ioctl_runs:
  assumes ok: "run_ok W w" and m: "ioctl_safe cmd m"
  shows "runs_ok W w (run_event L (Ev_Ioctl stk pfile cmd m) w)"
proof -
  obtain r m1 w1 where run: "tdspbus_unlocked_ioctl sys_call stk pfile cmd m w = Some (r, m1, w1)"
    and ok1: "run_ok W w1"
    using ok m unfolding run_ok_def using syslib.kept.unlocked_ioctl_ok by blast
  have frame: "bus_frame w w1"
    using ok run unfolding run_ok_def by (rule syslib.kept.ioctl_frame)
  have "client_move (client w) (client w1)" if inv: "clients_inv (client w)"
  proof (cases "any_registered (FdoData w)")
    case False
    with frame inv show ?thesis by (simp add: bus_frame_def client_move_refl)
  next
    case True
    have "bus_ok (\<lambda>c a x. sys_ok c a x \<and> client_move (client w) c) w"
      using ok client_move_refl [OF inv] by (auto simp: run_ok_def bus_ok_def clients_ok_def)
    then have ok2: "bus_ok (\<lambda>c a x. sys_ok c a x \<and> client_move (client w) c) w1"
      using sysmove.unlocked_ioctl_ok [of "client w" w cmd m stk pfile] m run by auto
    have "any_registered (FdoData w1)"
      using True frame by (simp add: any_registered_map bus_frame_def)
    then obtain s p where s: "s \<in> set (DeviceData (FdoData w1))" "pDeviceInterface s = Some p"
      by (auto simp: any_registered_def)
    with ok2 obtain x where "ifaces w1 p = Some x"
      by (auto simp: bus_ok_def bus_inv_def slot_ok_def)
    with s ok2 show ?thesis by (auto simp: bus_ok_def clients_ok_def)
  qed
  moreover have "served w \<longrightarrow> served w1"
    using ok run ioctl_served [of w] by (auto simp: run_ok_def bus_ok_def clients_ok_def)
  ultimately show ?thesis using run ok1 frame by (simp add: runs_ok_def shifted_def bus_frame_def)
qed

lemma event_runs:
  assumes ok: "run_ok W w" and en: "enabled L e w"
    and L: "wext_sizes L" "\<forall>A. keys_fit L A" "wext_keeps L (wptrs W)"
  shows "runs_ok W w (run_event L e w)"
proof (cases e)
  case (Ev_Ioctl stk pfile cmd m)
  with en ioctl_runs [OF ok] show ?thesis by simp
next
  case (Ev_Wext i n rq ex)
  then have i: "i < length (wext_handlers L)" "netdev_of w n" "wext_buffers rq ex"
    "scan_end rq \<le> length (ex_scan ex)" "core_extra i \<le> length (ex_bytes ex)" using en by simp_all
  show ?thesis
  proof (cases "wext_handlers L ! i")
    case None
    with Ev_Wext ok show ?thesis by (simp add: runs_ok_same)
  next
    case (Some h)
    obtain r rq1 ex1 c where "wext_call h n rq ex (client w) = Some (r, rq1, ex1, c)"
      "same_links (client w) c"
      using wext_event_run [OF ok i(2) L i(1) Some i(3-5)] by blast
    with Ev_Wext Some show ?thesis by (auto intro!: runs_okI [OF ok])
  qed
qed (use ok en in \<open>auto intro: netdev_events_run wlan_power_run hci_close_run hci_send_run
  hci_open_run bt_power_run simp del: run_event.simps\<close>)

text \<open>
  Whatever requests reach the three modules between hot-plugs, and in whatever order, the
  system stays in its invariant, and from every state it can reach every request the kernel may
  make returns: no use of a freed object, no NULL pointer, no access past a buffer.
\<close>

theorem no_run_crashes:
  assumes "run_ok W w0" "wext_sizes L" "\<forall>A. keys_fit L A" "wext_keeps L (wptrs W)" "sys_reach L w0 w"
  shows "run_ok W w \<and> (\<forall>e. enabled L e w \<longrightarrow> (\<exists>w1. run_event L e w = Some w1 \<and> run_ok W w1))"
proof -
  have "run_ok W w"
    using assms(5)
  proof induction
    case (reach_step w e w1)
    with event_runs [OF _ _ assms(2-4), of w e] show ?case by (auto simp: runs_ok_def)
  qed (rule assms(1))
  then show ?thesis using event_runs [OF _ _ assms(2-4)] by (auto simp: runs_ok_def)
qed

end
