(* ===== verification/Sys_Links.thy ===== *)
theory Sys_Links
  imports Sys_Run
begin

text \<open>
  What holds between the drivers and the bus while interfaces come and go: an adapter that was
  told of an interface is the one the registered interface leads to, and every device is served
  by its adapter.  How registration, unregistration, and the making and freeing of adapters and
  interfaces change it.
\<close>

section \<open>Registration in a free slot and unregistration\<close>

text \<open>Which interface is in which slot.\<close>

abbreviation slot_ptrs :: "('a, 'b) system \<Rightarrow> addr option list" where
  "slot_ptrs w \<equiv> map pDeviceInterface (DeviceData (FdoData w))"

definition agrees :: "('a, 'b) system \<Rightarrow> ('a, 'b) system \<Rightarrow> bool" where
  "agrees w w1 \<longleftrightarrow> (\<forall>p. rel_option iface_agrees (ifaces w p) (ifaces w1 p))"

lemma agreesD: "agrees w w1 \<Longrightarrow> ifaces w p = Some x \<Longrightarrow> \<exists>y. ifaces w1 p = Some y \<and> iface_agrees x y"
  unfolding agrees_def by (metis option_rel_Some1)

lemma agrees_None: "agrees w w1 \<Longrightarrow> ifaces w p = None \<Longrightarrow> ifaces w1 p = None"
  unfolding agrees_def by (metis rel_option_None1)

lemma agrees_refl [simp]: "agrees w w"
  by (simp add: agrees_def option.rel_refl)

lemma agrees_trans: "agrees a b \<Longrightarrow> agrees b c \<Longrightarrow> agrees a c"
  unfolding agrees_def by (blast intro: rel_agrees_trans)

lemma bus_frame_agrees: "bus_frame w w1 \<Longrightarrow> agrees w w1 \<and> slot_ptrs w1 = slot_ptrs w"
  by (simp add: bus_frame_def agrees_def)

lemma registered_ptrs: "registered w a \<longleftrightarrow> Some a \<in> set (slot_ptrs w)"
  by (auto simp: registered_def image_iff) (metis)+

lemma registered_nth: "registered w b \<longleftrightarrow> (\<exists>j < length (slot_ptrs w). slot_ptrs w ! j = Some b)"
  by (simp only: registered_ptrs in_set_conv_nth)

text \<open>The invariant of runs, with the moves of the clients since the state \<open>c0\<close>.\<close>

definition moving :: "('a, 'b) clients \<Rightarrow> ('a, 'b) system \<Rightarrow> bool" where
  "moving c0 w \<longleftrightarrow> bus_ok (\<lambda>c a x. sys_ok c a x \<and> client_move c0 c) w"

lemma run_ok_moving: "run_ok W w \<Longrightarrow> clients_inv (client w) \<Longrightarrow> moving (client w) w"
  using client_move_refl by (auto simp: run_ok_def moving_def bus_ok_def clients_ok_def)

lemma moving_run_ok: "moving c0 w \<Longrightarrow> wlib c0 = W \<Longrightarrow> run_ok W w"
  by (auto simp: run_ok_def moving_def bus_ok_def clients_ok_def client_move_def)

lemma moving_registered:
  assumes "moving c0 w" "registered w a"
  shows "client_move c0 (client w)"
proof -
  from assms(2) obtain s where s: "s \<in> set (DeviceData (FdoData w))" "pDeviceInterface s = Some a"
    by (auto simp: registered_def)
  with assms(1) obtain x where "ifaces w a = Some x"
    by (auto simp: moving_def bus_ok_def bus_inv_def slot_ok_def)
  with s assms(1) show ?thesis by (auto simp: moving_def bus_ok_def clients_ok_def)
qed

lemma register_free:
  assumes ok: "run_ok W w" and inv: "clients_inv (client w)" and W: "wlib (client w) = W"
    and x: "ifaces w a = Some x" "sys_ok (client w) a x"
    and i: "i < 3" "iSerialNo x = sSerialNo (DeviceData (FdoData w) ! i)" "iSerialNo x = 1 \<or> iSerialNo x = 2"
    and free: "pDeviceInterface (DeviceData (FdoData w) ! i) = None"
  obtains w1 where "register_tdspbus_usbdev sys_call (Some a) w = Some (0, w1)" "run_ok W w1"
    "client_move (client w) (client w1)" "slot_ptrs w1 = (slot_ptrs w)[i := Some a]" "agrees w w1"
    "served w \<Longrightarrow> dev_closed (client w) x \<Longrightarrow> served w1"
proof -
  let ?s = "DeviceData (FdoData w) ! i"
  let ?w0 = "attach_iface a x i ?s w"
  have inv_bus: "bus_inv w" using ok by (simp add: run_ok_def bus_ok_def)
  obtain oc cc where cb: "open_cb x = Some oc" "close_cb x = Some cc"
    using x(2) by (auto simp: sys_ok_def wlan_intf_def bt_intf_def)
  have mv: "moving (client w) w" by (rule run_ok_moving [OF ok inv])
  have ok0: "moving (client w) ?w0"
    unfolding moving_def
    by (rule sysmove.attach_iface_ok)
      (use mv x i free cb client_move_refl [OF inv] in \<open>auto simp: moving_def\<close>)
  have p0: "slot_ptrs ?w0 = (slot_ptrs w)[i := Some a]"
    by (simp add: attach_iface_def set_slot_def set_iface_def Let_def TDSP_SetBusPowerState_def map_update)
  then have pi: "pDeviceInterface (DeviceData (FdoData ?w0) ! i) = Some a"
    using i(1) inv_bus by (simp add: attach_iface_def set_slot_def set_iface_def Let_def
        TDSP_SetBusPowerState_def)
  have a0: "agrees w ?w0"
    using x(1) by (auto simp: agrees_def attach_iface_def set_slot_def set_iface_def Let_def
        iface_agrees_def option.rel_refl)
  obtain w1 where w1: "auto_open sys_call a i ?w0 = Some w1" "moving (client w) w1"
    using sysmove.auto_open_ok [OF ok0 [unfolded moving_def] i(1) pi] by (auto simp: moving_def)
  have fr: "bus_frame ?w0 w1"
    using ok0 i(1) pi w1(1) unfolding moving_def by (rule sysmove.auto_open_frame)
  have ptrs: "slot_ptrs w1 = (slot_ptrs w)[i := Some a]" using fr p0 by (simp add: bus_frame_def)
  have "i < length (slot_ptrs w)" using i(1) inv_bus by simp
  then have "Some a \<in> set (slot_ptrs w1)" unfolding ptrs by (rule set_update_memI)
  then have "registered w1 a" by (simp only: registered_ptrs)
  then have mv1: "client_move (client w) (client w1)" by (rule moving_registered [OF w1(2)])
  have ag: "agrees w w1" using a0 bus_frame_agrees [OF fr] by (blast intro: agrees_trans)
  have sv: "served w1" if "served w" "dev_closed (client w) x"
  proof (rule auto_open_served [OF _ i(1) pi w1(1)])
    have sh: "shut dev_closed {} w" using that(1) by (simp add: served_def)
    note at = sysdev.attach_shut [OF inv_bus i(1) x(1) that(2) sh, of ?s]
    have "client ?w0 = client w"
      by (simp add: attach_iface_def set_slot_def set_iface_def Let_def TDSP_SetBusPowerState_def)
    with at(1) that(1) show "served ?w0" by (simp add: served_def)
    show "dev_closed (client ?w0) y" if "ifaces ?w0 a = Some y" for y by (rule at(2) [OF that])
    show "bus_ok sys_ok ?w0" using ok0 by (auto simp: moving_def bus_ok_def clients_ok_def)
  qed
  have "find_serial (iSerialNo x) (DeviceData (FdoData w)) 0 = Some i"
    using find_serial_inv [OF inv_bus i(1)] i(2) by simp
  moreover have "\<not> rf_type_refuses 1 (ucast (iSerialNo x))"
    using i(3) by (auto simp: rf_type_refuses_def bus_consts)
  moreover have "RfType (FdoData w) = 1" "DevicePowerState (FdoData w) = PowerDeviceD0"
    using inv_bus by (auto simp: bus_inv_def)
  moreover have "ucast (iSerialNo x) \<noteq> BUS_DEVICE_SERIAL_NO_NULL" using i(3) by (auto simp: bus_consts)
  ultimately have "register_tdspbus_usbdev sys_call (Some a) w = Some (0, w1)"
    using inv_bus x i cb free w1 by (simp add: register_tdspbus_usbdev_def)
  with moving_run_ok [OF w1(2) W] mv1 ptrs ag sv that show ?thesis by blast
qed

lemma bus_idle_same [simp]:
  "ifaces (bus_idle_if_empty w) = ifaces w" "client (bus_idle_if_empty w) = client w"
  "DeviceData (FdoData (bus_idle_if_empty w)) = DeviceData (FdoData w)"
  by (simp_all add: bus_idle_if_empty_def TDSP_SetBusPowerState_def)

lemma detach_same [simp]:
  "ifaces (detach_iface i s w) = ifaces w" "client (detach_iface i s w) = client w"
  by (simp_all add: detach_iface_def set_slot_def)

lemma unregister_registered:
  assumes ok: "run_ok W w" and inv: "clients_inv (client w)" and W: "wlib (client w) = W"
    and x: "ifaces w a = Some x" "sys_ok (client w) a x"
    and i: "i < 3" "pDeviceInterface (DeviceData (FdoData w) ! i) = Some a"
  obtains w1 where "unregister_tdspbus_usbdev sys_call (Some a) w = Some (0, w1)" "run_ok W w1"
    "client_move (client w) (client w1)" "slot_ptrs w1 = (slot_ptrs w)[i := None]" "agrees w w1"
    "served w \<Longrightarrow> served w1 \<and> dev_closed (client w1) x"
proof -
  let ?s = "DeviceData (FdoData w) ! i"
  let ?w0 = "bus_idle_if_empty (detach_iface i ?s w)"
  have inv_bus: "bus_inv w" using ok by (simp add: run_ok_def bus_ok_def)
  have xok: "iface_ok ?s x" using inv_bus i x(1) by (auto elim: bus_inv_iface)
  obtain cb where cb: "close_cb x = Some cb" using xok by (auto simp: iface_ok_def)
  have ok0: "moving (client w) ?w0"
    using run_ok_moving [OF ok inv] i unfolding moving_def by (intro sysmove.detach_ok) auto
  have p0: "slot_ptrs ?w0 = (slot_ptrs w)[i := None]"
    by (simp add: detach_iface_def set_slot_def map_update)
  obtain r w1 where c: "sys_call cb a ?w0 = Some (r, w1)" "cb_frame a ?w0 w1"
      "client_move (client ?w0) (client w1)"
    by (rule callback_move [of ?w0 a x cb]) (use x cb in auto)
  have "\<exists>r w'. sys_call cb a ?w0 = Some (r, w') \<and> cb_frame a ?w0 w' \<and>
      bus_ok (\<lambda>c a x. sys_ok c a x \<and> client_move (client w) c) w'"
    by (rule sysmove.call_ok)
      (use ok0 x cb client_move_refl [OF inv] in \<open>auto simp: moving_def\<close>)
  then have ok1: "moving (client w) w1" using c(1) by (simp add: moving_def)
  have f: "slot_ptrs w1 = slot_ptrs ?w0" "agrees w w1"
  proof -
    show "slot_ptrs w1 = slot_ptrs ?w0" using c(2) by (simp add: cb_frame_def)
    have "rel_option iface_agrees (ifaces w p) (ifaces w1 p)" for p
      using c(2) by (cases "p = a") (auto simp: cb_frame_def iface_agrees_def option.rel_refl)
    then show "agrees w w1" by (simp add: agrees_def)
  qed
  have find: "Bus_FindPdoBySerialNo (FdoData w) (ucast (iSerialNo x)) = Some i"
    using Bus_Find_inv [OF inv_bus i(1)] i(2) xok by (simp add: iface_ok_def)
  have sn: "ucast (iSerialNo x) \<noteq> BUS_DEVICE_SERIAL_NO_NULL"
    using xok bus_inv_serial [OF inv_bus i(1)] i(1)
    by (auto simp: iface_ok_def bus_consts less_Suc_eq numeral_3_eq_3)
  have sys0: "bus_ok sys_ok ?w0" using ok0 by (auto simp: moving_def bus_ok_def clients_ok_def)
  have sv0: "served w \<Longrightarrow> served ?w0" by (simp add: served_def sysdev.detach_shut)
  have sv1: "served w1 \<and> dev_closed (client w1) x" if "served w"
  proof -
    have x0: "ifaces ?w0 a = Some x" "sys_ok (client ?w0) a x" using x by simp_all
    have "shut dev_closed {} ?w0" using sv0 [OF that] by (simp add: served_def)
    note cl = sysdev.close_shut [OF sys0 x0 cb c(1,2) this]
    have "owned (client w1)"
      using callback_devs(4) [OF x0 c(1) cb] sv0 [OF that] by (simp add: served_def)
    with cl(1,3) show ?thesis by (simp add: served_def)
  qed
  have closed: "dev_closed (client w) x" if "served w" "devstate x \<noteq> Started"
  proof -
    have sh: "shut dev_closed {} w" using that(1) by (simp add: served_def)
    show ?thesis using i inv_bus by (intro shutD [OF sh slot_ptr_mem [OF _ i(2)] _ x(1) that(2)]) simp_all
  qed
  show ?thesis
  proof (cases "devstate x = Started")
    case True
    with inv_bus x i find sn cb c have "unregister_tdspbus_usbdev sys_call (Some a) w = Some (0, w1)"
      by (simp add: unregister_tdspbus_usbdev_def Let_def)
    with moving_run_ok [OF ok1 W] c(3) f p0 sv1 that show ?thesis by simp
  next
    case False
    with inv_bus x i find sn have "unregister_tdspbus_usbdev sys_call (Some a) w = Some (0, ?w0)"
      by (simp add: unregister_tdspbus_usbdev_def Let_def)
    moreover have "agrees w ?w0" by (simp add: agrees_def option.rel_refl)
    ultimately show ?thesis
      using moving_run_ok [OF ok0 W] client_move_refl [OF inv] p0 sv0 closed False that [of ?w0] by simp
  qed
qed

section \<open>Adapters and their interfaces\<close>

text \<open>
  A WLAN adapter that was told of an interface is the one the interface leads to, and the
  interface is registered; the same for Bluetooth.
\<close>

definition wlan_link :: "('a, 'b) system \<Rightarrow> addr \<Rightarrow> addr \<Rightarrow> bool" where
  "wlan_link w d a \<longleftrightarrow>
     registered w a \<and> (\<exists>x. ifaces w a = Some x \<and> pBtDev x = Some d \<and> wlan_intf (client w) a x)"

definition bt_link :: "('a, 'b) system \<Rightarrow> addr \<Rightarrow> addr \<Rightarrow> bool" where
  "bt_link w d a \<longleftrightarrow>
     registered w a \<and> (\<exists>x. ifaces w a = Some x \<and> pBtDev x = Some d \<and> bt_intf (client w) a x)"

text \<open>The invariant, with the WLAN adapters \<open>X\<close> and the Bluetooth adapters \<open>Y\<close> exempt.\<close>

definition linked :: "'a wlan_lib \<Rightarrow> addr set \<Rightarrow> addr set \<Rightarrow> ('a, 'b) system \<Rightarrow> bool" where
  "linked W X Y w \<longleftrightarrow>
     run_ok W w \<and> clients_inv (client w) \<and> wlib (client w) = W \<and> combodrv (client w) \<noteq> 0 \<and>
     (\<forall>n \<ge> next_addr (client w). ifaces w n = None) \<and> served w \<and>
     (\<forall>d a. wbus (client w) d = Some (Some a) \<longrightarrow> d \<notin> X \<longrightarrow> wlan_link w d a) \<and>
     (\<forall>d a. bbus (client w) d = Some (Some a) \<longrightarrow> d \<notin> Y \<longrightarrow> bt_link w d a)"

lemma linkedD:
  assumes "linked W X Y w"
  shows "run_ok W w" "clients_inv (client w)" "wlib (client w) = W" "combodrv (client w) \<noteq> 0"
    "\<And>n. next_addr (client w) \<le> n \<Longrightarrow> ifaces w n = None"
    "\<And>d a. wbus (client w) d = Some (Some a) \<Longrightarrow> d \<notin> X \<Longrightarrow> wlan_link w d a"
    "\<And>d a. bbus (client w) d = Some (Some a) \<Longrightarrow> d \<notin> Y \<Longrightarrow> bt_link w d a"
    "bus_inv w" "served w"
  using assms by (auto simp: linked_def run_ok_def bus_ok_def)

lemma link_kept:
  assumes "client_step (client w) (client w1)" "registered w1 a"
    and "\<And>x. ifaces w a = Some x \<Longrightarrow> \<exists>y. ifaces w1 a = Some y \<and> iface_agrees x y"
  shows "wlan_link w d a \<Longrightarrow> wlan_link w1 d a" "bt_link w d a \<Longrightarrow> bt_link w1 d a"
proof -
  show "wlan_link w1 d a" if l: "wlan_link w d a"
  proof -
    from l obtain x where x: "ifaces w a = Some x" "pBtDev x = Some d" "wlan_intf (client w) a x"
      by (auto simp: wlan_link_def)
    obtain y where y: "ifaces w1 a = Some y" "iface_agrees x y" using assms(3) [OF x(1)] by blast
    with x assms(1,2) show ?thesis
      by (auto simp: wlan_link_def wlan_intf_def iface_agrees_def client_step_def)
  qed
  show "bt_link w1 d a" if l: "bt_link w d a"
  proof -
    from l obtain x where x: "ifaces w a = Some x" "pBtDev x = Some d" "bt_intf (client w) a x"
      by (auto simp: bt_link_def)
    obtain y where y: "ifaces w1 a = Some y" "iface_agrees x y" using assms(3) [OF x(1)] by blast
    with x assms(1,2) show ?thesis
      by (auto simp: bt_link_def bt_intf_def iface_agrees_def client_step_def)
  qed
qed

text \<open>
  A step of the clients that keeps what \<open>linked\<close> reads of them (the driver pointers may change),
  with a change of the table that keeps the links not exempt.
\<close>

definition quiet :: "('a, 'b) clients \<Rightarrow> ('a, 'b) clients \<Rightarrow> bool" where
  "quiet c c' \<longleftrightarrow>
     client_step c c' \<and> wbus c' = wbus c \<and> bbus c' = bbus c \<and> wlib c' = wlib c \<and>
     combodrv c' = combodrv c \<and> next_addr c \<le> next_addr c'"

lemma move_quiet: "client_move c c' \<Longrightarrow> quiet c c'"
  by (simp add: client_move_def quiet_def)

lemma linked_change:
  assumes L: "linked W X Y w" and ok: "run_ok W w1"
    and mv: "quiet (client w) (client w1)" and ag: "agrees w w1" and sv: "served w1"
    and wk: "\<And>d a. d \<notin> X' \<Longrightarrow> wlan_link w d a \<Longrightarrow> registered w1 a"
    and bk: "\<And>d a. d \<notin> Y' \<Longrightarrow> bt_link w d a \<Longrightarrow> registered w1 a"
    and sub: "X \<subseteq> X'" "Y \<subseteq> Y'"
  shows "linked W X' Y' w1"
proof -
  have st: "client_step (client w) (client w1)" and bus: "wbus (client w1) = wbus (client w)"
    "bbus (client w1) = bbus (client w)"
    using mv by (auto simp: quiet_def)
  have "wlan_link w1 d a" if "wbus (client w) d = Some (Some a)" "d \<notin> X'" for d a
  proof -
    have l: "wlan_link w d a" using linkedD(6) [OF L that(1)] that(2) sub by blast
    show ?thesis by (rule link_kept(1) [OF st wk [OF that(2) l] agreesD [OF ag] l])
  qed
  moreover have "bt_link w1 d a" if "bbus (client w) d = Some (Some a)" "d \<notin> Y'" for d a
  proof -
    have l: "bt_link w d a" using linkedD(7) [OF L that(1)] that(2) sub by blast
    show ?thesis by (rule link_kept(2) [OF st bk [OF that(2) l] agreesD [OF ag] l])
  qed
  moreover have "ifaces w1 n = None" if "next_addr (client w1) \<le> n" for n
    using that mv linkedD(5) [OF L, of n] by (intro agrees_None [OF ag]) (simp add: quiet_def)
  ultimately show ?thesis
    using ok mv sv linkedD(3,4) [OF L] client_step_inv [OF st]
    by (simp add: linked_def bus quiet_def)
qed

lemma registered_links: "wlan_link w d a \<Longrightarrow> registered w a" "bt_link w d a \<Longrightarrow> registered w a"
  by (simp_all add: wlan_link_def bt_link_def)

text \<open>A request.\<close>

lemma linked_shifted:
  assumes "linked W X Y w" "run_ok W w1" "shifted w w1"
  shows "linked W X Y w1"
proof (rule linked_change [OF assms(1,2)])
  have "registered w a \<Longrightarrow> registered w1 a" for a
    using assms(3) by (simp add: registered_ptrs shifted_def)
  then show "wlan_link w d a \<Longrightarrow> registered w1 a" "bt_link w d a \<Longrightarrow> registered w1 a" for d a
    by (auto dest: registered_links)
qed (use assms(3) linkedD(9) [OF assms(1)] in \<open>auto simp: shifted_def agrees_def move_quiet\<close>)

lemma run_ok_client:
  assumes "run_ok W w" "\<And>b y. registered w b \<Longrightarrow> sys_ok (client w) b y \<Longrightarrow> sys_ok c b y"
    and "wlib c = wlib (client w)"
  shows "run_ok W (with_client c w)"
proof -
  have "sys_ok c p x \<and> wlib c = W"
    if s: "s \<in> set (DeviceData (FdoData w))" "pDeviceInterface s = Some p" "ifaces w p = Some x" for s p x
  proof -
    have "registered w p" using s by (auto simp: registered_def)
    with assms s show ?thesis by (auto simp: run_ok_def bus_ok_def clients_ok_def)
  qed
  with assms(1) show ?thesis by (auto simp: run_ok_def bus_ok_def clients_ok_def)
qed

text \<open>A quiet step of the clients alone.\<close>

lemma registered_with_client [simp]: "registered (with_client c w) a = registered w a"
  by (simp add: registered_def)

lemma linked_quiet:
  assumes "linked W X Y w" "quiet (client w) c" and i: "same_devs (client w) c"
  shows "linked W X Y (with_client c w)"
proof (rule linked_change [OF assms(1)])
  show "run_ok W (with_client c w)"
    by (rule run_ok_client [OF linkedD(1) [OF assms(1)]])
      (use assms(2) client_step_sys_ok in \<open>auto simp: quiet_def\<close>)
  show "agrees w (with_client c w)" by (simp add: agrees_def option.rel_refl)
  show "served (with_client c w)" by (rule served_client [OF linkedD(9) [OF assms(1)] i])
qed (use assms(2) registered_links in auto)

text \<open>The exemption ends once the adapter is linked.\<close>

lemma linked_close:
  assumes "linked W X Y w"
    and "\<And>d a. d \<in> X \<Longrightarrow> wbus (client w) d = Some (Some a) \<Longrightarrow> wlan_link w d a"
    and "\<And>d a. d \<in> Y \<Longrightarrow> bbus (client w) d = Some (Some a) \<Longrightarrow> bt_link w d a"
  shows "linked W {} {} w"
  using assms unfolding linked_def by blast

text \<open>A new adapter with a new interface.\<close>

lemma linked_new:
  assumes L: "linked W {} {} w" and st: "client_step (client w) c"
    and same: "wlib c = wlib (client w)" "combodrv c = combodrv (client w)"
    and i: "idle_change (client w) c"
    and p: "next_addr (client w) \<le> p" "p < next_addr c"
    and wb: "\<And>e b. e \<notin> X \<Longrightarrow> wbus c e = Some (Some b) \<Longrightarrow> wbus (client w) e = Some (Some b)"
    and bb: "\<And>e b. e \<notin> Y \<Longrightarrow> bbus c e = Some (Some b) \<Longrightarrow> bbus (client w) e = Some (Some b)"
  shows "linked W X Y (with_client c (set_iface p x w))" (is "linked W X Y ?w1")
proof -
  note D = linkedD [OF L]
  have free: "ifaces w p = None" using D(5) p(1) by blast
  have ag: "\<exists>y. ifaces ?w1 a = Some y \<and> iface_agrees z y" if "ifaces w a = Some z" for a z
    using that free by (cases "a = p") auto
  have reg: "registered ?w1 a = registered w a" for a by (simp add: registered_def)
  have nw: "registered w a \<Longrightarrow> a \<noteq> p" for a
    using run_ok_registered [OF D(1)] free by force
  have "bus_inv ?w1" using D(8) free bus_inv_new_iface [of "with_client c w" p x] by simp
  moreover have "clients_ok (\<lambda>c a x. sys_ok c a x \<and> wlib c = W) ?w1"
    unfolding clients_ok_def
  proof (intro ballI allI impI)
    fix s q y
    assume s: "s \<in> set (DeviceData (FdoData ?w1))" "pDeviceInterface s = Some q" "ifaces ?w1 q = Some y"
    then have q: "registered w q" by (auto simp: registered_def)
    with nw s(3) have "ifaces w q = Some y" by auto
    with run_ok_registered [OF D(1) q] have "sys_ok (client w) q y" by force
    then show "sys_ok (client ?w1) q y \<and> wlib (client ?w1) = W"
      using client_step_sys_ok [OF st] same(1) D(3) by simp
  qed
  ultimately have "run_ok W ?w1" by (simp add: run_ok_def bus_ok_def)
  moreover have "wlan_link ?w1 d a" if "wbus c d = Some (Some a)" "d \<notin> X" for d a
  proof -
    have l: "wlan_link w d a" using D(6) wb that by blast
    have "registered ?w1 a" using l reg by (simp add: wlan_link_def)
    then show ?thesis using st by (intro link_kept(1) [OF _ _ ag l]) simp_all
  qed
  moreover have "bt_link ?w1 d a" if "bbus c d = Some (Some a)" "d \<notin> Y" for d a
  proof -
    have l: "bt_link w d a" using D(7) bb that by blast
    have "registered ?w1 a" using l reg by (simp add: bt_link_def)
    then show ?thesis using st by (intro link_kept(2) [OF _ _ ag l]) simp_all
  qed
  moreover have "ifaces ?w1 n = None" if "next_addr c \<le> n" for n
    using that p D(5) [of n] by simp
  moreover have "served ?w1"
    by (rule served_change [OF D(9) i]) (use nw in \<open>auto simp: with_client_def set_iface_def registered_ptrs\<close>)
  ultimately show ?thesis
    using D(3,4) same client_step_inv [OF st] by (simp add: linked_def)
qed

text \<open>An interface that is not registered is freed.\<close>

definition without_iface :: "addr \<Rightarrow> ('a, 'b) system \<Rightarrow> ('a, 'b) system" where
  "without_iface a w = w\<lparr>ifaces := (ifaces w)(a := None)\<rparr>"

lemma without_iface_simps [simp]:
  "FdoData (without_iface a w) = FdoData w" "client (without_iface a w) = client w"
  "ifaces (without_iface a w) = (ifaces w)(a := None)"
  by (simp_all add: without_iface_def)

lemma registered_without [simp]: "registered (without_iface a w) b = registered w b"
  by (simp add: registered_def)

lemma free_iface_without: "ifaces w a \<noteq> None \<Longrightarrow> free_iface a w = Some (without_iface a w)"
  by (auto simp: free_iface_def without_iface_def)

lemma run_ok_without:
  assumes "run_ok W w" "\<not> registered w a"
  shows "run_ok W (without_iface a w)"
proof -
  have other: "s \<in> set (DeviceData (FdoData w)) \<Longrightarrow> pDeviceInterface s \<noteq> Some a" for s
    using assms(2) by (auto simp: registered_def)
  then have "bus_inv (without_iface a w)"
    using assms(1) by (auto simp: run_ok_def bus_ok_def bus_inv_def slot_ok_def without_iface_def)
  then show ?thesis
    using assms(1) other by (auto simp: run_ok_def bus_ok_def clients_ok_def)
qed

lemma linked_without:
  assumes L: "linked W X Y w" and a: "\<not> registered w a"
  shows "linked W X Y (without_iface a w)"
proof -
  have "wlan_link w d b \<Longrightarrow> wlan_link (without_iface a w) d b"
    "bt_link w d b \<Longrightarrow> bt_link (without_iface a w) d b" for d b
    using a by (auto simp: wlan_link_def bt_link_def)
  moreover have "served (without_iface a w)"
    by (rule served_change [OF linkedD(9) [OF L] same_devs_idle [OF same_devs_refl]])
      (auto split: if_splits)
  ultimately show ?thesis using L run_ok_without [OF linkedD(1) [OF L] a] by (simp add: linked_def)
qed

text \<open>The clients change in one adapter that loses its interface, which is not registered.\<close>

lemma linked_drop_wlan:
  assumes L: "linked W {d} {} w" and a: "wbus (client w) d = Some (Some a)" "\<not> registered w a"
    and inv: "clients_inv c" and same: "wlib c = wlib (client w)" "combodrv c = combodrv (client w)"
      "openLock c = openLock (client w)" "next_addr c = next_addr (client w)" "idle_change (client w) c"
    and bus: "wbus c = (wbus (client w))(d := v)" "\<And>b. v \<noteq> Some (Some b)" "bbus c = bbus (client w)"
  shows "linked W {} {} (with_client c w)"
proof -
  have keep: "sys_ok c b y" if "registered w b" "sys_ok (client w) b y" for b y
    using that a inv same(3) bus(1,3) by (auto simp: sys_ok_def wlan_intf_def bt_intf_def)
  have "wlan_link (with_client c w) e b" if "e \<noteq> d" "wlan_link w e b" for e b
    using that a(2) bus(1) by (auto simp: wlan_link_def wlan_intf_def)
  moreover have "bt_link (with_client c w) e b" if "bt_link w e b" for e b
    using that bus(3) same(3) by (auto simp: bt_link_def bt_intf_def)
  moreover have "served (with_client c w)"
    by (rule served_change [OF linkedD(9) [OF L] same(5)]) simp_all
  ultimately show ?thesis
    using L inv same bus run_ok_client [OF linkedD(1) [OF L] keep same(1)]
    by (auto simp: linked_def split: if_splits)
qed

lemma linked_drop_bt:
  assumes L: "linked W {} {d} w" and a: "bbus (client w) d = Some (Some a)" "\<not> registered w a"
    and inv: "clients_inv c" and same: "wlib c = wlib (client w)" "combodrv c = combodrv (client w)"
      "openLock c = openLock (client w)" "next_addr c = next_addr (client w)" "idle_change (client w) c"
    and bus: "bbus c = (bbus (client w))(d := v)" "\<And>b. v \<noteq> Some (Some b)" "wbus c = wbus (client w)"
  shows "linked W {} {} (with_client c w)"
proof -
  have keep: "sys_ok c b y" if "registered w b" "sys_ok (client w) b y" for b y
    using that a inv same(3) bus(1,3) by (auto simp: sys_ok_def wlan_intf_def bt_intf_def)
  have "bt_link (with_client c w) e b" if "e \<noteq> d" "bt_link w e b" for e b
    using that a(2) bus(1) same(3) by (auto simp: bt_link_def bt_intf_def)
  moreover have "wlan_link (with_client c w) e b" if "wlan_link w e b" for e b
    using that bus(3) by (auto simp: wlan_link_def wlan_intf_def)
  moreover have "served (with_client c w)"
    by (rule served_change [OF linkedD(9) [OF L] same(5)]) simp_all
  ultimately show ?thesis
    using L inv same bus run_ok_client [OF linkedD(1) [OF L] keep same(1)]
    by (auto simp: linked_def split: if_splits)
qed

section \<open>Registration and unregistration of an adapter's interface\<close>

lemma linked_registers:
  assumes L: "linked W X Y w"
    and x: "ifaces w a = Some x" "sys_ok (client w) a x" "pBtDev x = Some d" "dev_closed (client w) x"
    and i: "i < 3" "iSerialNo x = sSerialNo (DeviceData (FdoData w) ! i)" "iSerialNo x = 1 \<or> iSerialNo x = 2"
    and free: "pDeviceInterface (DeviceData (FdoData w) ! i) = None"
    and X: "X = {d} \<and> Y = {} \<and> wlan_intf (client w) a x \<or> X = {} \<and> Y = {d} \<and> bt_intf (client w) a x"
  obtains w1 where "register_twice sys_call a w = Some (0, w1)" "linked W {} {} w1"
    "client_move (client w) (client w1)"
proof -
  note D = linkedD [OF L]
  obtain w1 where w1: "register_tdspbus_usbdev sys_call (Some a) w = Some (0, w1)" "run_ok W w1"
    "client_move (client w) (client w1)" "slot_ptrs w1 = (slot_ptrs w)[i := Some a]" "agrees w w1"
    "served w1"
    by (rule register_free [OF D(1,2,3) x(1,2) i free]) (use D(9) x(4) in blast)
  have st: "client_step (client w) (client w1)" using w1(3) by (simp add: client_move_def)
  have len: "i < length (slot_ptrs w)" "slot_ptrs w ! i = None" using i(1) free D(8) by simp_all
  have reg: "registered w1 b" if "registered w b \<or> b = a" for b
  proof (cases "b = a")
    case True
    with set_update_memI [OF len(1)] show ?thesis by (simp add: registered_ptrs w1(4))
  next
    case False
    with that obtain j where j: "j < length (slot_ptrs w)" "slot_ptrs w ! j = Some b"
      unfolding registered_nth by blast
    then have "j \<noteq> i" using len(2) by auto
    then have "slot_ptrs w1 ! j = Some b" using j by (simp add: w1(4))
    moreover have "j < length (slot_ptrs w1)" using j by (simp add: w1(4) del: length_map)
    ultimately show ?thesis unfolding registered_nth by blast
  qed
  have L1: "linked W X Y w1"
    by (rule linked_change [OF L w1(2) move_quiet [OF w1(3)] w1(5,6)])
      (auto intro: reg dest: registered_links)
  obtain y where y: "ifaces w1 a = Some y" "iface_agrees x y" using agreesD [OF w1(5) x(1)] by blast
  have reg_a: "registered w1 a" by (rule reg) simp
  have "linked W {} {} w1"
  proof (rule linked_close [OF L1])
    show "wlan_link w1 e b" if e: "e \<in> X" "wbus (client w1) e = Some (Some b)" for e b
      using X
    proof
      assume w: "X = {d} \<and> Y = {} \<and> wlan_intf (client w) a x"
      then have "wbus (client w1) d = Some (Some a)"
        using x(3) w1(3) by (auto simp: wlan_intf_def client_move_def)
      with w e x(3) y reg_a show ?thesis
        by (auto simp: wlan_link_def wlan_intf_def iface_agrees_def)
    qed (use e in simp)
    show "bt_link w1 e b" if e: "e \<in> Y" "bbus (client w1) e = Some (Some b)" for e b
      using X
    proof
      assume w: "X = {} \<and> Y = {d} \<and> bt_intf (client w) a x"
      then have "bbus (client w1) d = Some (Some a)" "0 < openLock (client w1)"
        using x(3) w1(3) by (auto simp: bt_intf_def client_move_def client_step_def)
      with w e x(3) y reg_a show ?thesis
        by (auto simp: bt_link_def bt_intf_def iface_agrees_def)
    qed (use e in simp)
  qed
  moreover have "register_twice sys_call a w = Some (0, w1)" using w1(1) by (simp add: register_twice_def)
  ultimately show ?thesis using that w1(3) by blast
qed

text \<open>After it the interface is freed, and the adapter is exempt.\<close>

lemma linked_unregisters:
  assumes L: "linked W {} {} w"
    and l: "wlan_link w d a \<and> X = {d} \<and> Y = {} \<or> bt_link w d a \<and> X = {} \<and> Y = {d}"
  obtains w1 where "unregister_tdspbus_usbdev sys_call (Some a) w = Some (0, w1)"
    "free_iface a w1 = Some (without_iface a w1)" "linked W X Y (without_iface a w1)"
    "client_move (client w) (client w1)" "\<not> registered w1 a"
    "\<And>p. X = {d} \<Longrightarrow> wview (client w1) d = Some p \<Longrightarrow> fst p = None"
    "\<And>p. Y = {d} \<Longrightarrow> bview (client w1) d = Some p \<Longrightarrow> fst p = None"
proof -
  note D = linkedD [OF L]
  obtain x where ra: "registered w a" and x: "ifaces w a = Some x" "pBtDev x = Some d"
    and xi: "wlan_intf (client w) a x \<and> X = {d} \<and> Y = {} \<or> bt_intf (client w) a x \<and> X = {} \<and> Y = {d}"
    using l by (auto simp: wlan_link_def bt_link_def)
  have xok: "sys_ok (client w) a x" using xi D(2) by (auto simp: sys_ok_def)
  obtain i where i: "i < 3" "pDeviceInterface (DeviceData (FdoData w) ! i) = Some a"
    using ra D(8) by (auto simp: registered_ptrs in_set_conv_nth)
  obtain w1 where w1: "unregister_tdspbus_usbdev sys_call (Some a) w = Some (0, w1)" "run_ok W w1"
    "client_move (client w) (client w1)" "slot_ptrs w1 = (slot_ptrs w)[i := None]" "agrees w w1"
    "served w1" "dev_closed (client w1) x"
    by (rule unregister_registered [OF D(1,2,3) x(1) xok i]) (use D(9) in blast)
  have idle: "X = {d} \<Longrightarrow> wview (client w1) d = Some p \<Longrightarrow> fst p = None"
    "Y = {d} \<Longrightarrow> bview (client w1) d = Some q \<Longrightarrow> fst q = None" for p q
    using w1(7) x(2) xi by (auto simp: dev_closed_def wlan_intf_def bt_intf_def simp del: split_paired_All)
  have len: "length (slot_ptrs w) = 3" using D(8) by simp
  have reg: "registered w1 b \<longleftrightarrow> registered w b \<and> b \<noteq> a" for b
  proof -
    have "registered w1 b \<longleftrightarrow> (\<exists>j<3. j \<noteq> i \<and> slot_ptrs w ! j = Some b)"
      using i(1) len unfolding registered_nth w1(4) by (auto simp: nth_list_update simp del: length_map)
    moreover have "registered w b \<longleftrightarrow> (\<exists>j<3. slot_ptrs w ! j = Some b)"
      unfolding registered_nth len by (rule refl)
    moreover have "slot_ptrs w ! i = Some a" using i D(8) by simp
    moreover have "slot_ptrs w ! j = Some a \<Longrightarrow> j < 3 \<Longrightarrow> j = i" for j
      using bus_inv_owner_unique [OF D(8) i(1), of j] i(2) D(8) by simp
    ultimately show ?thesis by auto
  qed
  have L1: "linked W X Y w1"
    by (rule linked_change [OF L w1(2) move_quiet [OF w1(3)] w1(5,6)])
      (use x xi in \<open>auto simp: reg wlan_link_def bt_link_def wlan_intf_def bt_intf_def\<close>)
  have na: "\<not> registered w1 a" by (simp add: reg)
  obtain y where "ifaces w1 a = Some y" using agreesD [OF w1(5) x(1)] by blast
  then have "free_iface a w1 = Some (without_iface a w1)" by (intro free_iface_without) simp
  with w1(1,3) linked_without [OF L1 na] na idle that show ?thesis by blast
qed

section \<open>Making and freeing an adapter\<close>

lemma wadap_put_inv:
  assumes inv: "clients_inv c" and n: "d < n" "next_addr c \<le> n" and p: "wptrs (wlib c) A = (None, None, b)"
  shows "clients_inv (c\<lparr>intfdata := f, now := t, next_addr := n, wadap := (wadap c)(d := Some A)\<rparr>)"
    (is "clients_inv ?c")
proof -
  have view: "wview ?c = (wview c)(d := Some (None, None, b))" "bview ?c = bview c"
    using p by (auto simp: wview_def bview_def fun_eq_iff)
  have "wptrs_ok ?c e q = wptrs_ok c e q" "bptrs_ok ?c e r = bptrs_ok c e r" for e q r
    by (simp_all add: wptrs_ok_def bptrs_ok_def)
  moreover have "fresh_above ?c" using inv n by (auto simp: clients_inv_def fresh_above_def)
  moreover have "netstats_apart ?c"
    using inv by (auto simp: clients_inv_def netstats_apart_def view split: if_splits)
  ultimately show ?thesis
    using inv by (auto simp: clients_inv_def view env_ok_def wptrs_ok_def split: if_splits)
qed

lemma wadap_del_inv:
  assumes inv: "clients_inv c"
  shows "clients_inv (c\<lparr>wadap := (wadap c)(d := None), intfdata := f\<rparr>)" (is "clients_inv ?c")
proof -
  have view: "wview ?c = (wview c)(d := None)" "bview ?c = bview c"
    by (auto simp: wview_def bview_def fun_eq_iff)
  have "wptrs_ok ?c e q = wptrs_ok c e q" "bptrs_ok ?c e r = bptrs_ok c e r" for e q r
    by (simp_all add: wptrs_ok_def bptrs_ok_def)
  moreover have "fresh_above ?c" using inv by (auto simp: clients_inv_def fresh_above_def)
  moreover have "netstats_apart ?c"
    using inv by (auto simp: clients_inv_def netstats_apart_def view split: if_splits)
  ultimately show ?thesis using inv by (auto simp: clients_inv_def view env_ok_def split: if_splits)
qed

lemma badap_put_inv:
  assumes inv: "clients_inv c" and n: "d < n" "next_addr c \<le> n" and p: "bptrs (blib c) B = (None, b)"
  shows "clients_inv (c\<lparr>openLock := l, intfdata := f, now := t, next_addr := n,
    badap := (badap c)(d := Some B)\<rparr>)" (is "clients_inv ?c")
proof -
  have view: "bview ?c = (bview c)(d := Some (None, b))" "wview ?c = wview c"
    using p by (auto simp: wview_def bview_def fun_eq_iff)
  have "wptrs_ok ?c e q = wptrs_ok c e q" "bptrs_ok ?c e r = bptrs_ok c e r" for e q r
    by (simp_all add: wptrs_ok_def bptrs_ok_def)
  moreover have "fresh_above ?c" using inv n by (auto simp: clients_inv_def fresh_above_def)
  moreover have "netstats_apart ?c" using inv by (simp add: clients_inv_def netstats_apart_def view)
  ultimately show ?thesis
    using inv by (auto simp: clients_inv_def view env_ok_def bptrs_ok_def split: if_splits)
qed

lemma badap_del_inv:
  assumes inv: "clients_inv c"
  shows "clients_inv (c\<lparr>badap := (badap c)(d := None)\<rparr>)" (is "clients_inv ?c")
proof -
  have view: "bview ?c = (bview c)(d := None)" "wview ?c = wview c"
    by (auto simp: wview_def bview_def fun_eq_iff)
  have "wptrs_ok ?c e q = wptrs_ok c e q" "bptrs_ok ?c e r = bptrs_ok c e r" for e q r
    by (simp_all add: wptrs_ok_def bptrs_ok_def)
  moreover have "fresh_above ?c" using inv by (auto simp: clients_inv_def fresh_above_def)
  moreover have "netstats_apart ?c" using inv by (simp add: clients_inv_def netstats_apart_def view)
  ultimately show ?thesis using inv by (auto simp: clients_inv_def view env_ok_def split: if_splits)
qed

lemma bus_alt:
  "wbus c = (\<lambda>e. map_option (Adap_Get_BusInf (wlib c)) (wadap c e))"
  "bbus c = (\<lambda>e. map_option (Bluetooth_Adap_Get_BusInf (blib c)) (badap c e))"
  by (simp_all add: wbus_def wview_def wptrs_def bbus_def bview_def bptrs_def fun_eq_iff
      option.map_comp comp_def)

end
