(* ===== verification/Sys_Hotplug.thy ===== *)
theory Sys_Hotplug
  imports Sys_Links
begin

text \<open>
  Runs of the system with hot-plugs: between the requests of \<open>Sys_Run\<close> the USB core probes
  and disconnects WLAN and Bluetooth interfaces, in any order.  The kernel's part of the state is
  the set of interfaces each driver is bound to: a probe that returns 0 binds, and only a bound
  interface is suspended, resumed or disconnected.
\<close>

section \<open>Events\<close>

record ('a, 'b) hot_system =
  hs_sys :: "('a, 'b) system"
  hs_wlan :: "addr set"
  hs_bt :: "addr set"

datatype hot_event =
  Hot_Req sys_event
| Hot_Wlan_Probe usb_interface
| Hot_Wlan_Disconnect usb_interface
| Hot_Bt_Probe usb_interface
| Hot_Bt_Disconnect usb_interface

fun run_hot :: "'a wext_lib \<Rightarrow> hot_event \<Rightarrow> ('a, 'b) hot_system \<Rightarrow> ('a, 'b) hot_system option" where
  "run_hot L (Hot_Req e) s = do { w \<leftarrow> run_event L e (hs_sys s); Some (s\<lparr>hs_sys := w\<rparr>) }"
| "run_hot L (Hot_Wlan_Probe u) s =
     do { (r, w) \<leftarrow> wlan_usb_probe sys_call u (hs_sys s);
          Some (s\<lparr>hs_sys := w,
                  hs_wlan := if r = 0 then insert (ui_addr u) (hs_wlan s) else hs_wlan s\<rparr>) }"
| "run_hot L (Hot_Wlan_Disconnect u) s =
     do { w \<leftarrow> wlan_usb_disconnect sys_call u (hs_sys s);
          Some (s\<lparr>hs_sys := w, hs_wlan := hs_wlan s - {ui_addr u}\<rparr>) }"
| "run_hot L (Hot_Bt_Probe u) s =
     do { (r, w) \<leftarrow> bt_usb_probe sys_call u (hs_sys s);
          Some (s\<lparr>hs_sys := w,
                  hs_bt := if r = 0 then insert (ui_addr u) (hs_bt s) else hs_bt s\<rparr>) }"
| "run_hot L (Hot_Bt_Disconnect u) s =
     do { w \<leftarrow> bt_usb_disconnect sys_call u (hs_sys s);
          Some (s\<lparr>hs_sys := w, hs_bt := hs_bt s - {ui_addr u}\<rparr>) }"

text \<open>
  What may happen.  A request on a network or HCI device is made when the device exists in the
  kernel, whichever driver call made it; an ioctl has a safe argument, a packet and the buffers of
  a wireless request have the sizes the kernel gives them.  Power management and disconnection reach bound
  interfaces, a probe an interface no driver is bound to.  Two hot-plugs are left out because the code does not survive
  them: a WLAN probe in which the allocation of the bus interface fails, which is dereferenced
  (\<open>wlan_probe_bus\<close>), and the probe of a second Bluetooth card (\<open>bt_second_card_crashes\<close>).
\<close>

definition netdev_live :: "('a, 'b) hot_system \<Rightarrow> addr \<Rightarrow> bool" where
  "netdev_live s n \<longleftrightarrow> netdevs (client (hs_sys s)) n \<noteq> None"

definition hdev_live :: "('a, 'b) hot_system \<Rightarrow> addr \<Rightarrow> bool" where
  "hdev_live s h \<longleftrightarrow> hdevs (client (hs_sys s)) h \<noteq> None"

fun hot_request :: "'a wext_lib \<Rightarrow> sys_event \<Rightarrow> ('a, 'b) hot_system \<Rightarrow> bool" where
  "hot_request L (Ev_Wlan_Suspend u e) s = (ui_addr u \<in> hs_wlan s)"
| "hot_request L (Ev_Wlan_Resume u) s = (ui_addr u \<in> hs_wlan s)"
| "hot_request L (Ev_Wlan_Reset u) s = (ui_addr u \<in> hs_wlan s)"
| "hot_request L (Ev_Bt_Suspend u e) s = (ui_addr u \<in> hs_bt s)"
| "hot_request L (Ev_Bt_Resume u) s = (ui_addr u \<in> hs_bt s)"
| "hot_request L (Ev_Ioctl stk pfile cmd m) s = ioctl_safe cmd m"
| "hot_request L (Ev_Wext i n rq ex) s =
     (i < length (wext_handlers L) \<and> netdev_live s n \<and> wext_buffers rq ex \<and>
      scan_end rq \<le> length (ex_scan ex) \<and> core_extra i \<le> length (ex_bytes ex))"
| "hot_request L (Ev_Xmit n skb) s = (netdev_live s n \<and> 14 \<le> length skb)"
| "hot_request L (Ev_Wstats n) s = netdev_live s n"
| "hot_request L (Ev_Stats n) s = netdev_live s n"
| "hot_request L (Ev_Ndo_Open n) s = netdev_live s n"
| "hot_request L (Ev_Ndo_Stop n) s = netdev_live s n"
| "hot_request L (Ev_Hci_Open h) s = hdev_live s h"
| "hot_request L (Ev_Hci_Close h) s = hdev_live s h"
| "hot_request L (Ev_Hci_Send h k skb) s = hdev_live s h"

fun hot_enabled :: "'a wext_lib \<Rightarrow> hot_event \<Rightarrow> ('a, 'b) hot_system \<Rightarrow> bool" where
  "hot_enabled L (Hot_Req e) s = hot_request L e s"
| "hot_enabled L (Hot_Wlan_Probe u) s =
     (ui_addr u \<notin> hs_wlan s \<union> hs_bt s \<and>
      outcome (client (hs_sys s)) (now (client (hs_sys s))) AllocInterface)"
| "hot_enabled L (Hot_Wlan_Disconnect u) s = (ui_addr u \<in> hs_wlan s)"
| "hot_enabled L (Hot_Bt_Probe u) s =
     (ui_addr u \<notin> hs_wlan s \<union> hs_bt s \<and>
      Bus_FindPdoBySerialNo (FdoData (hs_sys s)) BUS_DEVICE_SERIAL_NO_BT = None)"
| "hot_enabled L (Hot_Bt_Disconnect u) s = (ui_addr u \<in> hs_bt s)"

inductive hot_reach :: "'a wext_lib \<Rightarrow> ('a, 'b) hot_system \<Rightarrow> ('a, 'b) hot_system \<Rightarrow> bool" for L s0 where
  hot_start: "hot_reach L s0 s0"
| hot_step: "hot_reach L s0 s \<Longrightarrow> hot_enabled L e s \<Longrightarrow> run_hot L e s = Some s1 \<Longrightarrow> hot_reach L s0 s1"

section \<open>The WLAN interface comes and goes\<close>

text \<open>
  A probe changes the driver pointer of its own interface only and keeps what the adapters were
  told; when it succeeds, the pointer leads to a new adapter that was told of an interface.
\<close>

definition probed ::
  "usb_interface \<Rightarrow> bool \<Rightarrow> (addr \<Rightarrow> addr option option) \<Rightarrow> (addr \<Rightarrow> addr option option) \<Rightarrow>
   ('a, 'b) clients \<Rightarrow> ('a, 'b) clients \<Rightarrow> bool" where
  "probed u ok bus bus' c c' \<longleftrightarrow>
     (\<forall>v. v \<noteq> ui_addr u \<longrightarrow> intfdata c' v = intfdata c v) \<and>
     (\<forall>e b. wbus c e = Some (Some b) \<longrightarrow> wbus c' e = Some (Some b)) \<and>
     (\<forall>e b. bbus c e = Some (Some b) \<longrightarrow> bbus c' e = Some (Some b)) \<and>
     (ok \<longrightarrow> (\<exists>d a. intfdata c' (ui_addr u) = Some d \<and> bus d = None \<and> bus' d = Some (Some a)))"

lemma set_iface_twice [simp]: "set_iface p x (set_iface p y w) = set_iface p x w"
  by (simp add: set_iface_def)

lemma wlan_probe_linked:
  assumes L: "linked W {} {} w" and alloc: "outcome (client w) (now (client w)) AllocInterface"
  obtains r w1 where "wlan_usb_probe sys_call u w = Some (r, w1)" "linked W {} {} w1"
    "probed u (r = 0) (wbus (client w)) (wbus (client w1)) (client w) (client w1)"
    "bInterfaceNumber u = 0 \<Longrightarrow> \<not> bNumEndpoints u < 5 \<Longrightarrow>
     Adap_Create (wlib (client w)) (wlan_usb_info_of u) \<noteq> None \<Longrightarrow>
     Bus_FindPdoBySerialNo (FdoData w) BUS_DEVICE_SERIAL_NO_WLAN = None \<Longrightarrow> r = 0"
proof -
  note D = linkedD [OF L]
  let ?c = "client w" let ?L = "wlib ?c"
  let ?d = "next_addr ?c" let ?p = "Suc ?d"
  show ?thesis
  proof (cases "bInterfaceNumber u \<noteq> 0 \<or> bNumEndpoints u < 5 \<or>
      Adap_Create ?L (wlan_usb_info_of u) = None")
    case True
    then have "\<exists>r. wlan_usb_probe sys_call u w = Some (r, w) \<and> r \<noteq> 0"
      unfolding wlan_usb_probe_def Let_def by (auto split: option.split)
    then obtain r where r: "wlan_usb_probe sys_call u w = Some (r, w)" "r \<noteq> 0" by blast
    show ?thesis by (rule that [OF r(1) L]) (use True r(2) in \<open>auto simp: probed_def\<close>)
  next
    case False
    then obtain A where A: "Adap_Create ?L (wlan_usb_info_of u) = Some A" by auto
    have laws: "wlan_lib_laws ?L" using D(2) by (simp add: clients_inv_def)
    let ?A1 = "Adap_Set_Removed ?L 0 A" let ?A3 = "Adap_Set_BusInf ?L (Some ?p) ?A1"
    let ?f = "(intfdata ?c)(ui_addr u := Some ?d)"
    let ?c3 = "?c\<lparr>intfdata := ?f, now := Suc (now ?c), next_addr := Suc ?p,
                 wadap := (wadap ?c)(?d := Some ?A3)\<rparr>"
    let ?x4 = "zero_iface\<lparr>pBtDev := Some ?d, pUsbDev := Some (ui_usbdev u), iSerialNo := 2,
                 drv_version := WLAN_DRV_VERSION @ replicate 55 0,
                 open_cb := Some Wlan_Bus_Open, close_cb := Some Wlan_Bus_Close\<rparr>"
    let ?w4 = "with_client ?c3 (set_iface ?p ?x4 w)"
    have "wptrs ?L ?A1 = (None, None, None)" using wlan_laws(7,11) [OF laws] A by simp
    then have p3: "wptrs ?L ?A3 = (None, None, Some ?p)"
      using wlan_laws(3) [OF laws, of "Some ?p" ?A1] by (simp add: wptrs_get)
    then have b3: "Adap_Get_BusInf ?L ?A3 = Some ?p" by (simp add: wptrs_get)
    have new: "wadap ?c ?d = None" using D(2) by (simp add: clients_inv_def fresh_above_def)
    have wb: "wbus ?c3 = (wbus ?c)(?d := Some (Some ?p))" "bbus ?c3 = bbus ?c"
      using b3 by (simp_all add: bus_alt fun_eq_iff)
    have wn: "wbus ?c ?d = None" using new by (simp add: bus_None)
    have inv3: "clients_inv ?c3" by (rule wadap_put_inv [OF D(2) _ _ p3]) simp_all
    have st3: "client_step ?c ?c3" using inv3 wb wn by (auto simp: client_step_def)
    have i3: "idle_change ?c ?c3"
      by (rule idle_wlanI [where d = ?d and v = "Some ?A3"]) (use new p3 in \<open>simp_all add: wview_def\<close>)
    have L4: "linked W {?d} {} ?w4"
      by (rule linked_new [OF L st3]) (use wb i3 in \<open>auto split: if_splits\<close>)
    have xi: "wlan_intf (client ?w4) ?p ?x4" using wb by (simp add: wlan_intf_def)
    have xc: "dev_closed (client ?w4) ?x4" using p3 by (simp add: dev_closed_def wview_def)
    have run: "wlan_usb_probe sys_call u w = do {
        (r, w5) \<leftarrow> register_twice sys_call ?p ?w4;
        if r \<noteq> 0 then do {
          w6 \<leftarrow> wlan_adap_call ?d (Adap_Set_BusInf ?L None) w5;
          w7 \<leftarrow> wlan_adap_call ?d (Adap_UnInitialize ?L) w6;
          Some (- EIO, w7)
        } else Some (0, w5) }"
      using False A alloc version_strcat(2)
      by (simp add: wlan_usb_probe_def wlan_probe_bus_def wlan_Bus_new_interface_def ask_def Let_def
          wlan_adap_call_def wlan_adap_upd_def wlan_Bus_openInterface_def bus_consts zero_iface_def
          cong: if_cong)
    show ?thesis
    proof (cases "pDeviceInterface (DeviceData (FdoData w) ! 1) = None")
      case True
      obtain w5 where w5: "register_twice sys_call ?p ?w4 = Some (0, w5)" "linked W {} {} w5"
        "client_move (client ?w4) (client w5)"
        by (rule linked_registers [OF L4, of ?p ?x4 ?d 1])
          (use xi xc True D(8) linkedD(2) [OF L4] bus_inv_serial [OF D(8), of 1]
            in \<open>simp_all add: sys_ok_def\<close>)
      have "wlan_usb_probe sys_call u w = Some (0, w5)" using run w5(1) by simp
      moreover have "probed u True (wbus ?c) (wbus (client w5)) ?c (client w5)"
        using w5(3) wb wn by (auto simp: probed_def client_move_def)
      ultimately show ?thesis using that [of 0 w5] w5(2) by simp
    next
      case False
      let ?w5 = "without_iface ?p ?w4"
      let ?A6 = "Adap_UnInitialize ?L (Adap_Set_BusInf ?L None ?A3)"
      let ?c6 = "?c3\<lparr>wadap := (wadap ?c3)(?d := Some ?A6)\<rparr>"
      have inv4: "bus_inv ?w4" by (rule linkedD(8) [OF L4])
      have "register_twice sys_call ?p ?w4 = Some (-1, ?w5)"
        unfolding without_iface_def
        by (rule register_twice_refused [OF inv4, of _ ?x4 1])
          (use False bus_inv_serial [OF D(8), of 1] in simp_all)
      then have "wlan_usb_probe sys_call u w = Some (- EIO, with_client ?c6 ?w5)"
        using run by (simp add: wlan_adap_call_def wlan_adap_upd_def)
      moreover have p6: "wptrs ?L ?A6 = (None, None, None)"
        using wlan_laws(3) [OF laws, of None ?A3] p3 by (simp add: wlan_laws(6) [OF laws] wptrs_get)
      have inv6: "clients_inv ?c6"
        using wadap_put_inv [OF inv3, of ?d "Suc ?p" ?A6 None "Suc (now ?c)" ?f] p6 by simp
      have nr: "\<not> registered ?w4 ?p"
        using run_ok_registered [OF D(1)] D(5) [of ?p] by (force simp: registered_def)
      have b6: "wbus ?c6 = (wbus ?c3)(?d := Some None)" "bbus ?c6 = bbus ?c3"
        using p6 by (simp_all add: bus_alt fun_eq_iff wptrs_get)
      have i6: "idle_change ?c3 ?c6"
        by (rule idle_wlanI [where d = ?d and v = "Some ?A6"]) (use p3 p6 in \<open>auto simp: wview_def\<close>)
      have "linked W {} {} (with_client ?c6 ?w5)"
        by (rule linked_drop_wlan [OF linked_without [OF L4 nr], where a = ?p and v = "Some None"])
          (use nr wb b6 inv6 i6 in simp_all)
      moreover have "probed u False (wbus ?c) (wbus ?c6) ?c ?c6"
        using b6 wb wn by (auto simp: probed_def)
      moreover have "Bus_FindPdoBySerialNo (FdoData w) BUS_DEVICE_SERIAL_NO_WLAN \<noteq> None"
        using Bus_Find_inv [OF D(8), of 1] bus_inv_serial [OF D(8), of 1] False by (simp add: bus_consts)
      ultimately show ?thesis by (intro that [of "- EIO" "with_client ?c6 ?w5"]) simp_all
    qed
  qed
qed

lemma wlan_disconnect_linked:
  assumes L: "linked W {} {} w" and d: "intfdata (client w) (ui_addr u) = Some d"
    and a: "wbus (client w) d = Some (Some a)"
  obtains w1 where "wlan_usb_disconnect sys_call u w = Some w1" "linked W {} {} w1"
    "intfdata (client w1) = (intfdata (client w))(ui_addr u := None)"
    "wbus (client w1) = (wbus (client w))(d := None)" "bbus (client w1) = bbus (client w)"
proof -
  note D = linkedD [OF L]
  let ?c = "client w" let ?L = "wlib ?c"
  have laws: "wlan_lib_laws ?L" using D(2) by (simp add: clients_inv_def)
  obtain A where A: "wadap ?c d = Some A" "Adap_Get_BusInf ?L A = Some a" using a by (auto simp: wbus_adap)
  let ?A1 = "Adap_Set_Removed ?L 1 A"
  let ?c1 = "?c\<lparr>wadap := (wadap ?c)(d := Some ?A1)\<rparr>" let ?w1 = "with_client ?c1 w"
  have p1: "wptrs ?L ?A1 = wptrs ?L A" by (rule wlan_laws(7) [OF laws])
  then have b1: "Adap_Get_BusInf ?L ?A1 = Some a" using A(2) by (simp add: wptrs_def)
  have sl: "same_links ?c ?c1" by (rule wadap_upd_links [OF A(1) p1])
  have mv1: "client_move ?c ?c1" by (rule same_links_move [OF sl D(2)])
  have L1: "linked W {} {} ?w1" by (rule linked_quiet [OF L move_quiet [OF mv1] same_links_devs [OF sl]])
  have "wbus (client ?w1) d = Some (Some a)" using mv1 a by (simp add: client_move_def)
  then have l1: "wlan_link ?w1 d a" by (intro linkedD(6) [OF L1]) simp_all
  obtain w2 where w2: "unregister_tdspbus_usbdev sys_call (Some a) ?w1 = Some (0, w2)"
    "free_iface a w2 = Some (without_iface a w2)" "linked W {d} {} (without_iface a w2)"
    "client_move (client ?w1) (client w2)" "\<not> registered w2 a"
    "\<And>p. wview (client w2) d = Some p \<Longrightarrow> fst p = None"
    by (rule linked_unregisters [OF L1, of d a "{d}" "{}"]) (use l1 in simp_all)
  let ?c2 = "client w2"
  have mv2: "client_move ?c ?c2" using client_move_trans [OF mv1] w2(4) by simp
  then have d2: "wbus ?c2 d = Some (Some a)" "intfdata ?c2 = intfdata ?c" using a by (simp_all add: client_move_def)
  then obtain A2 where A2: "wadap ?c2 d = Some A2" by (auto simp: wbus_adap)
  let ?c3 = "?c2\<lparr>wadap := (wadap ?c2)(d := None), intfdata := (intfdata ?c2)(ui_addr u := None)\<rparr>"
  let ?w3 = "with_client ?c3 (without_iface a w2)"
  have b3: "wbus ?c3 = (wbus ?c2)(d := None)" "bbus ?c3 = bbus ?c2"
    by (simp_all add: bus_alt fun_eq_iff)
  have L3: "linked W {} {} ?w3"
    by (rule linked_drop_wlan [OF w2(3), where a = a and v = None])
      (use d2 w2(5) b3 wadap_del_inv [OF client_move_inv [OF mv2]] idle_wlanI [of ?c3 ?c2 d None] w2(6)
        in simp_all)
  have "wlan_usb_disconnect sys_call u w = Some ?w3"
    using d A(1) A2 b1 w2(1,2)
    by (simp add: wlan_usb_disconnect_def wlan_adap_call_def wlan_adap_upd_def Let_def
        wlan_Bus_closeInterface_def)
  then show ?thesis using that L3 b3 d2 mv2 by (simp add: client_move_def)
qed

section \<open>The Bluetooth interface comes and goes\<close>

lemma bt_slot_free:
  assumes "bus_inv w" "Bus_FindPdoBySerialNo (FdoData w) BUS_DEVICE_SERIAL_NO_BT = None"
  shows "pDeviceInterface (DeviceData (FdoData w) ! 0) = None"
  using Bus_Find_inv [OF assms(1), of 0] assms(2) bus_inv_serial [OF assms(1), of 0]
  by (simp add: bus_consts split: if_splits)

lemma bt_probe_linked:
  assumes L: "linked W {} {} w"
    and free: "Bus_FindPdoBySerialNo (FdoData w) BUS_DEVICE_SERIAL_NO_BT = None"
  obtains r w1 where "bt_usb_probe sys_call u w = Some (r, w1)" "linked W {} {} w1"
    "probed u (r = 0) (bbus (client w)) (bbus (client w1)) (client w) (client w1)"
proof -
  note D = linkedD [OF L]
  let ?c = "client w" let ?L = "blib ?c"
  let ?d = "next_addr ?c" let ?p = "Suc ?d"
  let ?cl = "?c\<lparr>openLock := 1\<rparr>"
  show ?thesis
  proof (cases "bInterfaceNumber u \<noteq> 1 \<or> bNumEndpoints u < 5 \<or>
      Bluetooth_Adap_Create ?L the_bt_usb_info (ui_usbdev u) (ui_addr u) = None")
    case True
    then have "\<exists>r. bt_usb_probe sys_call u w = Some (r, with_client ?cl w) \<and> r \<noteq> 0"
      unfolding bt_usb_probe_def Let_def by (auto split: option.split)
    moreover have q: "quiet ?c ?cl" using D(2) by (simp add: quiet_def client_step_def)
    moreover have "probed u False (bbus ?c) (bbus ?cl) ?c ?cl" by (simp add: probed_def)
    ultimately show ?thesis using that linked_quiet [OF L q] by (auto simp: same_devsI)
  next
    case False
    then obtain B where B: "Bluetooth_Adap_Create ?L the_bt_usb_info (ui_usbdev u) (ui_addr u) = Some B"
      by auto
    have laws: "bt_lib_laws ?L" using D(2) by (simp add: clients_inv_def)
    have new: "badap ?c ?d = None" using D(2) by (simp add: clients_inv_def fresh_above_def)
    have bn: "bbus ?c ?d = None" using new by (simp add: bus_None)
    let ?f = "(intfdata ?c)(ui_addr u := Some ?d)"
    show ?thesis
    proof (cases "outcome ?c (now ?c) AllocInterface")
      case False
      let ?c1 = "?c\<lparr>openLock := 1, next_addr := ?p, intfdata := ?f, now := Suc (now ?c),
                   badap := (badap ?c)(?d := None)\<rparr>"
      have "(badap ?c)(?d := None) = badap ?c" using new by auto
      then have bus: "bbus ?c1 = bbus ?c" "wbus ?c1 = wbus ?c" by (simp_all add: bus_alt)
      have "clients_inv (?c\<lparr>openLock := 1, intfdata := ?f, now := Suc (now ?c), next_addr := ?p,
          badap := (badap ?c)(?d := Some B)\<rparr>)"
        by (rule badap_put_inv [OF D(2) _ _ bt_laws(13) [OF laws B]]) simp_all
      from badap_del_inv [OF this, of ?d] have "clients_inv (?c\<lparr>openLock := 1, intfdata := ?f,
          now := Suc (now ?c), next_addr := ?p, badap := (badap ?c)(?d := None)\<rparr>)" by simp
      moreover have "?c\<lparr>openLock := 1, intfdata := ?f, now := Suc (now ?c), next_addr := ?p,
          badap := (badap ?c)(?d := None)\<rparr> = ?c1" by (rule clients.equality) simp_all
      ultimately have "clients_inv ?c1" by (simp only:)
      then have q: "quiet ?c ?c1" using bus by (simp add: quiet_def client_step_def)
      have "bt_usb_probe sys_call u w = Some (- EIO, with_client ?c1 w)"
        using \<open>\<not> (bInterfaceNumber u \<noteq> 1 \<or> _)\<close> B False D(4)
        by (simp add: bt_usb_probe_def bt_probe_bus_def bt_Bus_new_interface_def ask_def Let_def
            bt_adap_free_def)
      moreover have "probed u False (bbus ?c) (bbus ?c1) ?c ?c1" using bus by (simp add: probed_def)
      moreover have "same_devs ?c ?c1" by (rule same_devsI) (use \<open>_ = badap ?c\<close> in simp_all)
      ultimately show ?thesis using that linked_quiet [OF L q] by simp
    next
      case True
      let ?B3 = "Bluetooth_Adap_Set_BusInf ?L (Some ?p) B"
      let ?c3 = "?c\<lparr>openLock := 1, intfdata := ?f, now := Suc (now ?c), next_addr := Suc ?p,
                   badap := (badap ?c)(?d := Some ?B3)\<rparr>"
      let ?x4 = "zero_iface\<lparr>pBtDev := Some ?d, iSerialNo := 1,
                   drv_version := BT_STRING_VERSION_ID @ replicate 55 0,
                   open_cb := Some Bt_Bus_Open, close_cb := Some Bt_Bus_Close\<rparr>"
      let ?w4 = "with_client ?c3 (set_iface ?p ?x4 w)"
      have "bptrs ?L B = (None, None)" by (rule bt_laws(13) [OF laws B])
      then have p3: "bptrs ?L ?B3 = (None, Some ?p)"
        using bt_laws(2) [OF laws, of "Some ?p" B] by (simp add: bptrs_get)
      then have b3: "Bluetooth_Adap_Get_BusInf ?L ?B3 = Some ?p" by (simp add: bptrs_get)
      have bb: "bbus ?c3 = (bbus ?c)(?d := Some (Some ?p))" "wbus ?c3 = wbus ?c"
        using b3 by (simp_all add: bus_alt fun_eq_iff)
      have inv3: "clients_inv ?c3" by (rule badap_put_inv [OF D(2) _ _ p3]) simp_all
      have st3: "client_step ?c ?c3" using inv3 bb bn by (auto simp: client_step_def)
      have i3: "idle_change ?c ?c3"
        by (rule idle_btI [where d = ?d and v = "Some ?B3"]) (use new p3 in \<open>simp_all add: bview_def\<close>)
      have L4: "linked W {} {?d} ?w4"
        by (rule linked_new [OF L st3]) (use bb i3 in \<open>auto split: if_splits\<close>)
      have xi: "bt_intf (client ?w4) ?p ?x4" using bb by (simp add: bt_intf_def)
      have xc: "dev_closed (client ?w4) ?x4" using p3 by (simp add: dev_closed_def bview_def)
      have run: "bt_usb_probe sys_call u w = do {
          (r, w5) \<leftarrow> register_twice sys_call ?p ?w4;
          if r \<noteq> 0 then do {
            w6 \<leftarrow> bt_adap_call ?d (Bluetooth_Adap_Set_BusInf ?L None) w5;
            w7 \<leftarrow> bt_adap_free ?d w6;
            Some (0, w7)
          } else Some (0, w5) }"
        using \<open>\<not> (bInterfaceNumber u \<noteq> 1 \<or> _)\<close> B True version_strcat(1) D(4)
        by (simp add: bt_usb_probe_def bt_probe_bus_def bt_Bus_new_interface_def ask_def Let_def
            bt_adap_call_def bt_adap_upd_def bt_Bus_openInterface_def bus_consts zero_iface_def
            cong: if_cong)
      obtain w5 where w5: "register_twice sys_call ?p ?w4 = Some (0, w5)" "linked W {} {} w5"
        "client_move (client ?w4) (client w5)"
        by (rule linked_registers [OF L4, of ?p ?x4 ?d 0])
          (use xi xc bt_slot_free [OF D(8) free] D(8) linkedD(2) [OF L4] bus_inv_serial [OF D(8), of 0]
            in \<open>simp_all add: sys_ok_def\<close>)
      have "bt_usb_probe sys_call u w = Some (0, w5)" using run w5(1) by simp
      moreover have "probed u True (bbus ?c) (bbus (client w5)) ?c (client w5)"
        using w5(3) bb bn by (auto simp: probed_def client_move_def)
      ultimately show ?thesis using that [of 0 w5] w5(2) by simp
    qed
  qed
qed

lemma view_openLock: "wview (c\<lparr>openLock := n\<rparr>) = wview c" "bview (c\<lparr>openLock := n\<rparr>) = bview c"
  by (simp_all add: wview_def bview_def fun_eq_iff)

lemma bt_close_linked:
  assumes L: "linked W {} {} w" and l: "bt_link w d a" and B: "badap (client w) d = Some B"
  obtains w1 where "bt_disconnect_close (Bluetooth_Adap_Get_hdev (blib (client w)) B) w = Some w1"
    "linked W {} {} w1" "client_move (client w) (client w1)"
proof -
  note D = linkedD [OF L]
  let ?c = "client w" let ?L = "blib ?c"
  show ?thesis
  proof (cases "Bluetooth_Adap_Get_hdev ?L B")
    case None
    with L client_move_refl [OF D(2)] that show ?thesis by (simp add: bt_disconnect_close_def)
  next
    case (Some h)
    have bv: "bview ?c d = Some (bptrs ?L B)" using B by (simp add: bview_def)
    then obtain hx where hx: "hdevs ?c h = Some hx" "hd_drvdata hx = Some d"
      using clients_inv_bptrs [OF D(2) bv] Some by (auto simp: bptrs_ok_def bptrs_def)
    have lock: "0 < openLock ?c" using l by (auto simp: bt_link_def bt_intf_def)
    let ?c1 = "?c\<lparr>openLock := openLock ?c - 1\<rparr>"
    obtain c2 where c2: "hci_usb_close h ?c1 = Some (0, c2)" "same_links ?c1 c2"
      using hci_close_links [of ?c1 d B h hx] D(2) B hx by auto
    let ?c3 = "c2\<lparr>openLock := Suc (openLock c2)\<rparr>"
    have sl: "same_links ?c ?c3" using c2(2) lock by (simp add: same_links_def view_openLock)
    then have mv: "client_move ?c ?c3" by (rule same_links_move [OF _ D(2)])
    have "bt_disconnect_close (Some h) w = Some (with_client ?c3 w)"
      using hx lock c2(1) by (simp add: bt_disconnect_close_def down_openLock_def up_openLock_def)
    with Some that linked_quiet [OF L move_quiet [OF mv] same_links_devs [OF sl]] mv show ?thesis by simp
  qed
qed

lemma bt_disconnect_linked:
  assumes L: "linked W {} {} w" and d: "intfdata (client w) (ui_addr u) = Some d"
    and a: "bbus (client w) d = Some (Some a)"
  obtains w1 where "bt_usb_disconnect sys_call u w = Some w1" "linked W {} {} w1"
    "intfdata (client w1) = (intfdata (client w))(ui_addr u := None)"
    "bbus (client w1) = (bbus (client w))(d := None)" "wbus (client w1) = wbus (client w)"
proof -
  note D = linkedD [OF L]
  let ?c = "client w" let ?L = "blib ?c"
  let ?cl = "?c\<lparr>intfdata := (intfdata ?c)(ui_addr u := None)\<rparr>" let ?wl = "with_client ?cl w"
  have "clients_inv ?cl"
    using D(2) by (simp add: clients_inv_def wview_def bview_def env_ok_def fresh_above_def
        netstats_apart_def wptrs_ok_def bptrs_ok_def)
  then have q: "quiet ?c ?cl" by (simp add: quiet_def client_step_def bus_alt)
  have L1: "linked W {} {} ?wl" by (rule linked_quiet [OF L q]) (simp add: same_devsI)
  obtain B where B: "badap ?c d = Some B" using a by (auto simp: bbus_adap)
  have "bbus (client ?wl) d = Some (Some a)" using q a by (simp add: quiet_def)
  then have l1: "bt_link ?wl d a" by (intro linkedD(7) [OF L1]) simp_all
  obtain w1 where w1: "bt_disconnect_close (Bluetooth_Adap_Get_hdev ?L B) ?wl = Some w1"
    "linked W {} {} w1" "client_move ?cl (client w1)"
    by (rule bt_close_linked [OF L1 l1, of B]) (use B in simp_all)
  have a1: "bbus (client w1) d = Some (Some a)" "blib (client w1) = ?L" "combodrv (client w1) \<noteq> 0"
    using w1(3) a q D(4) by (simp_all add: client_move_def quiet_def)
  then obtain B1 where B1: "badap (client w1) d = Some B1" "Bluetooth_Adap_Get_BusInf ?L B1 = Some a"
    by (auto simp: bbus_adap)
  have l2: "bt_link w1 d a" by (rule linkedD(7) [OF w1(2) a1(1)]) simp
  obtain w2 where w2: "unregister_tdspbus_usbdev sys_call (Some a) w1 = Some (0, w2)"
    "free_iface a w2 = Some (without_iface a w2)" "linked W {} {d} (without_iface a w2)"
    "client_move (client w1) (client w2)" "\<not> registered w2 a"
    "\<And>p. bview (client w2) d = Some p \<Longrightarrow> fst p = None"
    by (rule linked_unregisters [OF w1(2), of d a "{}" "{d}"]) (use l2 in simp_all)
  let ?c2 = "client w2"
  have mv2: "client_move ?cl ?c2" by (rule client_move_trans [OF w1(3) w2(4)])
  then have d2: "bbus ?c2 d = Some (Some a)" "intfdata ?c2 = intfdata ?cl" "bbus ?c2 = bbus ?c"
    "wbus ?c2 = wbus ?c" using a q by (simp_all add: client_move_def quiet_def)
  from d2(1) obtain B2 where B2: "badap ?c2 d = Some B2" by (auto simp: bbus_adap)
  let ?c3 = "?c2\<lparr>badap := (badap ?c2)(d := None)\<rparr>"
  let ?w3 = "with_client ?c3 (without_iface a w2)"
  have b3: "bbus ?c3 = (bbus ?c2)(d := None)" "wbus ?c3 = wbus ?c2" by (simp_all add: bus_alt fun_eq_iff)
  have L3: "linked W {} {} ?w3"
    by (rule linked_drop_bt [OF w2(3), where a = a and v = None])
      (use d2 w2(5) b3 badap_del_inv [OF client_move_inv [OF mv2]] idle_btI [of ?c3 ?c2 d None] w2(6)
        in simp_all)
  have "bt_usb_disconnect sys_call u w = Some ?w3"
    using d B w1(1) a1(3) B1 B2 w2(1,2)
    by (simp add: bt_usb_disconnect_def Let_def bt_Bus_closeInterface_def bt_adap_call_def
        bt_adap_upd_def bt_adap_free_def)
  then show ?thesis using that L3 b3 d2 by simp
qed

section \<open>Bound interfaces\<close>

text \<open>
  Every bound interface leads to an adapter of its own, which was told of a bus interface.
\<close>

definition bound_to :: "(addr \<Rightarrow> addr option) \<Rightarrow> (addr \<Rightarrow> addr option option) \<Rightarrow> addr set \<Rightarrow> bool" where
  "bound_to f bus V \<longleftrightarrow> inj_on f V \<and> (\<forall>v \<in> V. \<exists>d a. f v = Some d \<and> bus d = Some (Some a))"

definition hot_inv :: "'a wlan_lib \<Rightarrow> ('a, 'b) hot_system \<Rightarrow> bool" where
  "hot_inv W s \<longleftrightarrow>
     linked W {} {} (hs_sys s) \<and> hs_wlan s \<inter> hs_bt s = {} \<and>
     bound_to (intfdata (client (hs_sys s))) (wbus (client (hs_sys s))) (hs_wlan s) \<and>
     bound_to (intfdata (client (hs_sys s))) (bbus (client (hs_sys s))) (hs_bt s)"

lemma bound_toD:
  "bound_to f bus V \<Longrightarrow> v \<in> V \<Longrightarrow> \<exists>d a. f v = Some d \<and> bus d = Some (Some a)"
  by (simp add: bound_to_def)

lemma bound_to_keep:
  assumes "bound_to f bus V" "V' \<subseteq> V" "\<And>v. v \<in> V' \<Longrightarrow> f' v = f v"
    and "\<And>v d b. v \<in> V' \<Longrightarrow> f v = Some d \<Longrightarrow> bus d = Some (Some b) \<Longrightarrow> bus' d = Some (Some b)"
  shows "bound_to f' bus' V'"
proof -
  have "inj_on f' V'"
    using assms(1-3) by (simp add: bound_to_def inj_on_def subset_iff)
  moreover have "\<exists>d a. f' v = Some d \<and> bus' d = Some (Some a)" if "v \<in> V'" for v
    using bound_toD [OF assms(1), of v] assms(2-4) that by fastforce
  ultimately show ?thesis by (simp add: bound_to_def)
qed

lemma bound_to_insert:
  assumes "bound_to f bus V" "f v = Some d" "bus d = Some (Some a)" "\<And>u. u \<in> V \<Longrightarrow> f u \<noteq> Some d"
  shows "bound_to f bus (insert v V)"
proof (cases "v \<in> V")
  case True
  with assms(1) show ?thesis by (simp add: insert_absorb)
next
  case False
  have "f v \<notin> f ` (V - {v})" using assms(2,4) by (auto dest: sym)
  with assms(1-3) show ?thesis by (auto simp: bound_to_def)
qed

text \<open>A probe, for either driver: \<open>V\<close> are its own interfaces, \<open>U\<close> those of the other.\<close>

lemma bound_to_probe:
  assumes V: "bound_to (intfdata c) bus V" and U: "bound_to (intfdata c) bus2 U"
    and p: "probed u ok bus bus' c c'" and new: "ui_addr u \<notin> V \<union> U"
    and keep: "\<And>e b. bus e = Some (Some b) \<Longrightarrow> bus' e = Some (Some b)"
      "\<And>e b. bus2 e = Some (Some b) \<Longrightarrow> bus2' e = Some (Some b)"
  shows "bound_to (intfdata c') bus' (if ok then insert (ui_addr u) V else V)"
    "bound_to (intfdata c') bus2' U"
proof -
  have same: "intfdata c' v = intfdata c v" if "v \<noteq> ui_addr u" for v using p that by (simp add: probed_def)
  have V': "bound_to (intfdata c') bus' V"
    by (rule bound_to_keep [OF V]) (use new keep(1) in \<open>auto intro!: same\<close>)
  show "bound_to (intfdata c') bus2' U"
    by (rule bound_to_keep [OF U]) (use new keep(2) in \<open>auto intro!: same\<close>)
  show "bound_to (intfdata c') bus' (if ok then insert (ui_addr u) V else V)"
  proof (cases ok)
    case True
    then obtain d a where d: "intfdata c' (ui_addr u) = Some d" "bus d = None" "bus' d = Some (Some a)"
      using p by (auto simp: probed_def)
    have "intfdata c' v \<noteq> Some d" if v: "v \<in> V" for v
    proof -
      obtain e b where "intfdata c v = Some e" "bus e = Some (Some b)" using bound_toD [OF V v] by blast
      moreover have "v \<noteq> ui_addr u" using v new by blast
      ultimately show ?thesis using d(2) same [of v] by auto
    qed
    with bound_to_insert [OF V' d(1,3)] True show ?thesis by simp
  qed (use V' in simp)
qed

text \<open>A disconnection.\<close>

lemma bound_to_disconnect:
  assumes V: "bound_to f bus V" and U: "bound_to f bus2 U" and v: "v \<in> V" "f v = Some d" and apart: "V \<inter> U = {}"
  shows "bound_to (f(v := None)) (bus(d := None)) (V - {v})" "bound_to (f(v := None)) bus2 U"
proof -
  have "f w \<noteq> Some d" if "w \<in> V - {v}" for w
    using V v that unfolding bound_to_def inj_on_def by (metis Diff_iff singletonI)
  then show "bound_to (f(v := None)) (bus(d := None)) (V - {v})"
    by (intro bound_to_keep [OF V]) auto
  show "bound_to (f(v := None)) bus2 U"
    by (rule bound_to_keep [OF U]) (use v apart in auto)
qed

section \<open>Every event\<close>

text \<open>Every network and HCI device is that of an adapter whose interface is registered.\<close>

lemma linked_netdev:
  assumes L: "linked W {} {} w" and n: "netdevs (client w) n \<noteq> None"
  shows "netdev_of w n"
proof -
  obtain o1 where "netdev_owner (client w) n = Some o1" using n by (auto simp: netdev_owner_def)
  then obtain d t a where d: "wview (client w) d = Some (Some n, t, Some a)"
    using ownedD(1) [of "client w" n o1] linkedD(9) [OF L] by (auto simp: served_def)
  then have "wbus (client w) d = Some (Some a)" by (simp add: wbus_def)
  then have "registered w a" using linkedD(6) [OF L] by (auto simp: wlan_link_def)
  with d show ?thesis by (auto simp: netdev_of_def wview_def wptrs_def)
qed

lemma linked_hdev:
  assumes L: "linked W {} {} w" and h: "hdevs (client w) h \<noteq> None"
  shows "hcidev_of w h"
proof -
  obtain o1 where "hdev_owner (client w) h = Some o1" using h by (auto simp: hdev_owner_def)
  then obtain d a where d: "bview (client w) d = Some (Some h, Some a)"
    using ownedD(2) [of "client w" h o1] linkedD(9) [OF L] by (auto simp: served_def)
  then have "bbus (client w) d = Some (Some a)" by (simp add: bbus_def)
  then have "registered w a" using linkedD(7) [OF L] by (auto simp: bt_link_def)
  with d show ?thesis by (auto simp: hcidev_of_def bview_def bptrs_def)
qed

lemma hot_request_enabled:
  assumes s: "hot_inv W s" and e: "hot_request L e s"
  shows "enabled L e (hs_sys s)"
proof -
  have L: "linked W {} {} (hs_sys s)" using s by (simp add: hot_inv_def)
  have w: "wlan_probed (hs_sys s) u" if u: "ui_addr u \<in> hs_wlan s" for u
  proof -
    have "\<exists>d a. intfdata (client (hs_sys s)) (ui_addr u) = Some d \<and> wbus (client (hs_sys s)) d = Some (Some a)"
      using s u by (intro bound_toD) (auto simp: hot_inv_def)
    then show ?thesis by (auto simp: wlan_probed_def wbus_adap)
  qed
  have b: "bt_probed (hs_sys s) u" if u: "ui_addr u \<in> hs_bt s" for u
  proof -
    have "\<exists>d a. intfdata (client (hs_sys s)) (ui_addr u) = Some d \<and> bbus (client (hs_sys s)) d = Some (Some a)"
      using s u by (intro bound_toD) (auto simp: hot_inv_def)
    then obtain d a where d: "intfdata (client (hs_sys s)) (ui_addr u) = Some d"
      "bbus (client (hs_sys s)) d = Some (Some a)" by blast
    have "bt_link (hs_sys s) d a" by (rule linkedD(7) [OF L d(2)]) simp
    with d show ?thesis by (auto simp: bt_probed_def bbus_adap bt_link_def)
  qed
  have n: "netdev_of (hs_sys s) n" if "netdev_live s n" for n
    by (rule linked_netdev [OF L]) (use that in \<open>simp add: netdev_live_def\<close>)
  have h: "hcidev_of (hs_sys s) h" if "hdev_live s h" for h
    by (rule linked_hdev [OF L]) (use that in \<open>simp add: hdev_live_def\<close>)
  show ?thesis using e w b n h by (cases e) simp_all
qed

lemma hot_request_runs:
  assumes s: "hot_inv W s" and e: "hot_request L e s"
    and X: "wext_sizes L" "\<forall>A. keys_fit L A" "wext_keeps L (wptrs W)"
  shows "\<exists>s1. run_hot L (Hot_Req e) s = Some s1 \<and> hot_inv W s1"
proof -
  have L: "linked W {} {} (hs_sys s)" using s by (simp add: hot_inv_def)
  obtain w1 where w1: "run_event L e (hs_sys s) = Some w1" "run_ok W w1" "shifted (hs_sys s) w1"
    using event_runs [OF linkedD(1) [OF L] hot_request_enabled [OF s e] X] linkedD(2) [OF L]
    by (auto simp: runs_ok_def)
  have "linked W {} {} w1" by (rule linked_shifted [OF L w1(2,3)])
  with s w1 show ?thesis by (simp add: hot_inv_def shifted_def client_move_def)
qed

lemma hot_probes:
  assumes s: "hot_inv W s"
  shows "hot_enabled L (Hot_Wlan_Probe u) s \<Longrightarrow> \<exists>s1. run_hot L (Hot_Wlan_Probe u) s = Some s1 \<and> hot_inv W s1"
    "hot_enabled L (Hot_Bt_Probe u) s \<Longrightarrow> \<exists>s1. run_hot L (Hot_Bt_Probe u) s = Some s1 \<and> hot_inv W s1"
proof -
  let ?c = "client (hs_sys s)"
  have L: "linked W {} {} (hs_sys s)" and apart: "hs_wlan s \<inter> hs_bt s = {}"
    and V: "bound_to (intfdata ?c) (wbus ?c) (hs_wlan s)" and U: "bound_to (intfdata ?c) (bbus ?c) (hs_bt s)"
    using s by (auto simp: hot_inv_def)
  show "\<exists>s1. run_hot L (Hot_Wlan_Probe u) s = Some s1 \<and> hot_inv W s1"
    if e: "hot_enabled L (Hot_Wlan_Probe u) s"
  proof -
    obtain r w1 where w1: "wlan_usb_probe sys_call u (hs_sys s) = Some (r, w1)" "linked W {} {} w1"
      "probed u (r = 0) (wbus ?c) (wbus (client w1)) ?c (client w1)"
      by (rule wlan_probe_linked [OF L, of u]) (use e in auto)
    have "bound_to (intfdata (client w1)) (wbus (client w1))
        (if r = 0 then insert (ui_addr u) (hs_wlan s) else hs_wlan s)"
      "bound_to (intfdata (client w1)) (bbus (client w1)) (hs_bt s)"
      by (rule bound_to_probe [OF V U w1(3)]; use e w1(3) in \<open>auto simp: probed_def\<close>)+
    with w1 apart e show ?thesis by (auto simp: hot_inv_def)
  qed
  show "\<exists>s1. run_hot L (Hot_Bt_Probe u) s = Some s1 \<and> hot_inv W s1"
    if e: "hot_enabled L (Hot_Bt_Probe u) s"
  proof -
    obtain r w1 where w1: "bt_usb_probe sys_call u (hs_sys s) = Some (r, w1)" "linked W {} {} w1"
      "probed u (r = 0) (bbus ?c) (bbus (client w1)) ?c (client w1)"
      using bt_probe_linked [OF L] e by auto
    have "bound_to (intfdata (client w1)) (bbus (client w1))
        (if r = 0 then insert (ui_addr u) (hs_bt s) else hs_bt s)"
      "bound_to (intfdata (client w1)) (wbus (client w1)) (hs_wlan s)"
      by (rule bound_to_probe [OF U V w1(3)]; use e w1(3) in \<open>auto simp: probed_def\<close>)+
    with w1 apart e show ?thesis by (auto simp: hot_inv_def)
  qed
qed

lemma hot_disconnects:
  assumes s: "hot_inv W s"
  shows "ui_addr u \<in> hs_wlan s \<Longrightarrow> \<exists>s1. run_hot L (Hot_Wlan_Disconnect u) s = Some s1 \<and> hot_inv W s1"
    "ui_addr u \<in> hs_bt s \<Longrightarrow> \<exists>s1. run_hot L (Hot_Bt_Disconnect u) s = Some s1 \<and> hot_inv W s1"
proof -
  let ?c = "client (hs_sys s)"
  have L: "linked W {} {} (hs_sys s)" and apart: "hs_wlan s \<inter> hs_bt s = {}" "hs_bt s \<inter> hs_wlan s = {}"
    and V: "bound_to (intfdata ?c) (wbus ?c) (hs_wlan s)" and U: "bound_to (intfdata ?c) (bbus ?c) (hs_bt s)"
    using s by (auto simp: hot_inv_def)
  show "\<exists>s1. run_hot L (Hot_Wlan_Disconnect u) s = Some s1 \<and> hot_inv W s1" if u: "ui_addr u \<in> hs_wlan s"
  proof -
    obtain d a where d: "intfdata ?c (ui_addr u) = Some d" "wbus ?c d = Some (Some a)"
      using bound_toD [OF V u] by blast
    obtain w1 where "wlan_usb_disconnect sys_call u (hs_sys s) = Some w1" "linked W {} {} w1"
      "intfdata (client w1) = (intfdata ?c)(ui_addr u := None)"
      "wbus (client w1) = (wbus ?c)(d := None)" "bbus (client w1) = bbus ?c"
      by (rule wlan_disconnect_linked [OF L d])
    with bound_to_disconnect [OF V U u d(1) apart(1)] apart show ?thesis by (auto simp: hot_inv_def)
  qed
  show "\<exists>s1. run_hot L (Hot_Bt_Disconnect u) s = Some s1 \<and> hot_inv W s1" if u: "ui_addr u \<in> hs_bt s"
  proof -
    obtain d a where d: "intfdata ?c (ui_addr u) = Some d" "bbus ?c d = Some (Some a)"
      using bound_toD [OF U u] by blast
    obtain w1 where "bt_usb_disconnect sys_call u (hs_sys s) = Some w1" "linked W {} {} w1"
      "intfdata (client w1) = (intfdata ?c)(ui_addr u := None)"
      "bbus (client w1) = (bbus ?c)(d := None)" "wbus (client w1) = wbus ?c"
      by (rule bt_disconnect_linked [OF L d])
    with bound_to_disconnect [OF U V u d(1) apart(2)] apart show ?thesis by (auto simp: hot_inv_def)
  qed
qed

lemma hot_event_runs:
  assumes "hot_inv W s" "hot_enabled L e s" "wext_sizes L" "\<forall>A. keys_fit L A" "wext_keeps L (wptrs W)"
  shows "\<exists>s1. run_hot L e s = Some s1 \<and> hot_inv W s1"
  using assms hot_request_runs [OF assms(1)] hot_probes [OF assms(1)] hot_disconnects [OF assms(1)]
  by (cases e) (simp_all del: run_hot.simps)

section \<open>From module load\<close>

text \<open>
  The drivers' state when the modules are loaded: no adapter and no device, the combo driver, and
  libraries that keep their laws.
\<close>

definition fresh_clients :: "('a, 'b) clients \<Rightarrow> bool" where
  "fresh_clients c \<longleftrightarrow>
     wadap c = Map.empty \<and> badap c = Map.empty \<and> netdevs c = Map.empty \<and> netstats c = Map.empty \<and>
     hdevs c = Map.empty \<and> combodrv c \<noteq> 0 \<and>
     wlan_lib_laws (wlib c) \<and> bt_lib_laws (blib c)"

definition hot_loaded :: "addr \<Rightarrow> int \<Rightarrow> ('a, 'b) system \<Rightarrow> ('a, 'b) hot_system" where
  "hot_loaded p major w =
     \<lparr>hs_sys = snd (tdspbus_init_module (Some p) major w), hs_wlan = {}, hs_bt = {}\<rparr>"

lemma hot_loaded_inv:
  assumes c: "fresh_clients (client w)" "env_ok (client w)" and w: "ifaces w = Map.empty" "0 \<le> major"
  shows "hot_inv (wlib (client w)) (hot_loaded p major w)"
proof -
  let ?w = "snd (tdspbus_init_module (Some p) major w)"
  have inv: "bus_inv ?w" by (rule init_module_inv [OF w(2)])
  have f: "client ?w = client w" "ifaces ?w = Map.empty" "DeviceData (FdoData ?w) = DeviceData init_fdo"
    using w by (simp_all add: tdspbus_init_module_def Let_def)
  have views: "wview (client w) = Map.empty" "bview (client w) = Map.empty"
    using c by (auto simp: wview_def bview_def fresh_clients_def fun_eq_iff)
  then have "clients_inv (client w)"
    using c by (simp add: clients_inv_def fresh_clients_def fresh_above_def netstats_apart_def)
  moreover have "run_ok (wlib (client w)) ?w"
    using inv f by (simp add: run_ok_def bus_ok_def clients_ok_def init_fdo_slots zero_slot_def)
  moreover have "served ?w"
    using c f by (simp add: served_def shut_def owned_def netdev_owner_def hdev_owner_def fresh_clients_def)
  ultimately have "linked (wlib (client w)) {} {} ?w"
    using c f views by (simp add: linked_def fresh_clients_def wbus_def bbus_def)
  then show ?thesis by (simp add: hot_inv_def hot_loaded_def bound_to_def)
qed

text \<open>
  C29: From module load on, in every order of the events that \<open>hot_enabled\<close> admits - requests on
  any device the kernel holds, with the buffers the kernel gives them, ioctls with a safe argument,
  power management, and probes and disconnections of WLAN and Bluetooth interfaces, but for a probe
  of a second Bluetooth card and a WLAN probe whose interface is not allocated, which the code does
  not survive - the system stays in its invariant, and from every state it reaches every such event
  returns: no use of a freed adapter, interface or device, no NULL pointer, no access past a
  buffer.  The hypotheses on what is not in the repository: the kernel's allocations of the WLAN
  counters and registrations of network devices succeed, the libraries keep their laws, their
  objects have the sizes of their headers, and their keys fit 16 bytes.
\<close>

theorem no_hot_run_crashes:
  assumes "fresh_clients (client w0)" "env_ok (client w0)" "ifaces w0 = Map.empty" "0 \<le> major"
    and "wext_sizes L" "\<forall>A. keys_fit L A" "wext_keeps L (wptrs (wlib (client w0)))"
    and "hot_reach L (hot_loaded p major w0) s"
  shows "hot_inv (wlib (client w0)) s \<and>
    (\<forall>e. hot_enabled L e s \<longrightarrow>
       (\<exists>s1. run_hot L e s = Some s1 \<and> hot_inv (wlib (client w0)) s1))"
proof -
  have "hot_inv (wlib (client w0)) s"
    using assms(8)
  proof induction
    case hot_start
    show ?case by (rule hot_loaded_inv [OF assms(1-4)])
  next
    case (hot_step s e s1)
    with hot_event_runs [OF _ _ assms(5-7), of s e] show ?case by auto
  qed
  then show ?thesis using hot_event_runs [OF _ _ assms(5-7)] by blast
qed

end
