(* ===== verification/Wext_Witnesses.thy ===== *)
theory Wext_Witnesses
  imports Sys_Hotplug Demo_State
begin

text \<open>
  The properties of \<open>Wext_Spec\<close> applied to a concrete library, request and buffer.
\<close>

definition demo_fmt :: iwe_format where
  "demo_fmt = \<lparr>fmt_event = \<lambda>v n. replicate n 0x11, fmt_point = \<lambda>v xs. replicate 8 0x22 @ xs,
     fmt_head = \<lambda>c n. replicate 4 0x33, fmt_value = \<lambda>v. replicate 8 0x44\<rparr>"

definition demo_point_len :: "iw_event \<Rightarrow> nat" where
  "demo_point_len v = (case ev_data v of Ev_Point n fl \<Rightarrow> unat n | _ \<Rightarrow> 0)"

definition demo_iwe :: iwe_stream where
  "demo_iwe = \<lparr>iwe_stream_add_event = \<lambda>p e v n b.
       if p + n < e then (p + n, put p (fmt_event demo_fmt v n) b) else (p, b),
     iwe_stream_add_point = \<lambda>p e v xs b.
       let bs = fmt_point demo_fmt v (take (demo_point_len v) xs)
       in if p + 8 + demo_point_len v < e then (p + length bs, put p bs b) else (p, b),
     iwe_stream_add_value = \<lambda>p q e v n b.
       if q + 8 < e
       then (q + 8, put p (fmt_head demo_fmt (ev_cmd v) (q + 8 - p)) (put q (fmt_value demo_fmt v) b))
       else (q, b)\<rparr>"

lemma demo_iwe_laws: "iwe_laws demo_iwe demo_fmt"
  unfolding iwe_laws_def by (simp add: demo_iwe_def demo_point_len_def) (simp add: demo_fmt_def)

text \<open>An access point \<open>abcd\<close> on channel 6 with the four rates of 802.11b and a WPA2 element.\<close>

definition demo_ap :: scan_res where
  "demo_ap = \<lparr>sr_bssid = [2, 0, 0, 0, 0, 1], sr_ssid = [4, 0x61, 0x62, 0x63, 0x64] @ replicate 28 0,
     sr_channel = 6, sr_rssi = 150, beaconinterval = 100, sr_cap = 0x11,
     suprate = [4, 0x82, 0x84, 0x8b, 0x96] @ replicate 8 0,
     IEs = [48, 2, 1, 0] @ replicate 436 0, is80211g = 0, offset_wpa = 0xffff, offset_wpa2 = 0\<rparr>"

lemma demo_ap_ok: "scan_res_ok demo_ap" "reportable demo_ap"
  by code_simp+

lemma demo_scan_length: "length (scan_bytes demo_fmt [demo_ap]) = 163"
  by code_simp

definition demo_wext :: "demo_wadap wext_lib" where
  "demo_wext = \<lparr>iwe_lib = demo_iwe, Adap_Get_Scan_Result = \<lambda>A. [demo_ap],
     Adap_Driver_isWork = \<lambda>A. A \<noteq> (None, None, None), Adap_Get_DotType = \<lambda>A. 2,
     Adap_Get_Mode = \<lambda>A. 1,
     Adap_Set_Mode = \<lambda>m A. A, Adap_Set_Defult_Channel = \<lambda>c A. (0, A), Adap_Get_Channel = \<lambda>A. 6,
     Adap_Get_Channel_Num = \<lambda>A. 14, Adap_Has_Joined = \<lambda>A. 0, Adap_Has_Connected = \<lambda>A. 1,
     Adap_Start_Scan = \<lambda>A. (0, A), Adap_Get_BSSID = \<lambda>A. [2, 0, 0, 0, 0, 1],
     Adap_Set_SSID = \<lambda>s n A. (0, A), Adap_Get_SSID = \<lambda>A. (replicate 32 0x61, 4),
     Adap_Set_Rts = \<lambda>v A. A, Adap_Get_Rts = \<lambda>A. \<lparr>rts_disable = 0, rts_value = 300\<rparr>,
     Adap_Set_Frag = \<lambda>v A. A, Adap_Get_Frag = \<lambda>A. \<lparr>frag_disable = 0, frag_value = 300\<rparr>,
     Adap_Set_Rate = \<lambda>v f A. A, Adap_Get_Rate = \<lambda>A. \<lparr>rate_fixed = 0, rate_value = 11000000\<rparr>,
     Adap_Get_Rssi = \<lambda>A. 150, Adap_Set_Auth = \<lambda>m v A. (0, A), Adap_Get_Auth_Alg = \<lambda>A. 0,
     Adap_Get_Key_Mng = \<lambda>A. 2, Adap_Is_Privacy_On = \<lambda>A. 1, Adap_Disalbe_Encode = \<lambda>i A. A,
     Adap_Set_Encode = \<lambda>i k n A. A,
     Adap_Get_Encode = \<lambda>i A. \<lparr>wep_len = 5, wep_bytes = replicate 16 7\<rparr>,
     Adap_Remove_Key_Ext = \<lambda>i g A. (0, A), Adap_Add_Key_Ext = \<lambda>i k A. (0, A),
     Adap_Is_Encode_Enabled = \<lambda>A. 1, Adap_Get_Encode_Mode = \<lambda>g A. 1,
     Adap_Get_Encode_Key = \<lambda>i A. (16, replicate 16 7), Adap_Set_Domain = \<lambda>d A. A,
     Adap_Get_Domain = \<lambda>A. 0, Adap_Get_Dsp_Version = \<lambda>A. 0x1234\<rparr>"

definition demo_iwreq :: iwreq where
  "demo_iwreq = \<lparr>rq_name = replicate 16 0, rq_freq = \<lparr>fq_m = 0, fq_e = 0, fq_flags = 0\<rparr>, rq_mode = 0,
     rq_param = \<lparr>ip_value = 300, ip_fixed = 0, ip_disabled = 0, ip_flags = 0\<rparr>,
     rq_point = \<lparr>pt_length = 72, pt_flags = 1\<rparr>,
     rq_addr = \<lparr>sa_family = 0, sa_data = replicate 14 0\<rparr>\<rparr>"

definition demo_ext :: iw_encode_ext where
  "demo_ext = \<lparr>ext_flags = 4, ext_rx_seq = replicate 8 0,
     ext_addr = \<lparr>sa_family = 1, sa_data = replicate 14 0xff\<rparr>, ext_alg = 2, ext_key_len = 32,
     ext_key = replicate 64 9\<rparr>"

definition demo_extra :: "iw_range \<Rightarrow> iw_extra" where
  "demo_extra r = \<lparr>ex_bytes = replicate 256 0, ex_range = r, ex_ext = demo_ext,
     ex_scan = replicate 4096 0\<rparr>"

lemma demo_wext_sizes: "wext_sizes demo_wext"
  using demo_iwe_laws demo_ap_ok by (auto simp: wext_sizes_def demo_wext_def)

lemma demo_keys_fit: "keys_fit demo_wext A"
  by (simp add: keys_fit_def demo_wext_def)

lemma demo_wext_keeps: "wext_keeps demo_wext ptrs"
  by (simp add: wext_keeps_def demo_wext_def)

lemma demo_wext_buffers: "wext_buffers demo_iwreq (demo_extra rg)"
  by (simp add: wext_buffers_def demo_iwreq_def demo_extra_def demo_ext_def)

lemma demo_scan_end: "scan_end demo_iwreq \<le> length (ex_scan (demo_extra rg))"
  by (simp add: scan_end_def demo_iwreq_def demo_extra_def)

lemma get_int_listed: "70 < length (wext_handlers L)" "wext_handlers L ! 70 = Some (ioctl_priv_get_int L)"
  by (simp_all add: wext_handlers_def wdev_iwconfig_handler_def wdev_iwpriv_handler_def nth_append)

lemma get_encode_listed: "43 < length (wext_handlers L)" "wext_handlers L ! 43 = Some (ioctl_iw_get_encode L)"
  by (simp_all add: wext_handlers_def wdev_iwconfig_handler_def wdev_iwpriv_handler_def nth_append)

text \<open>A private command gets 16 bytes, the union of its request.\<close>

theorem wext_handlers_safe_witness:
  "\<forall>rg. \<exists>r rq1 ex1 A1.
      ioctl_priv_get_int demo_wext demo_iwreq ((demo_extra rg)\<lparr>ex_bytes := replicate 16 0\<rparr>) adapter_up =
        Some (r, rq1, ex1, A1) \<and>
      wext_buffers rq1 ex1 \<and> length (ex_bytes ex1) = 16 \<and> wptrs demo_wlan_lib A1 = adapter_up"
proof
  fix rg
  let ?ex = "(demo_extra rg)\<lparr>ex_bytes := replicate 16 0\<rparr>"
  have b: "wext_buffers demo_iwreq ?ex" "scan_end demo_iwreq \<le> length (ex_scan ?ex)"
    "core_extra 70 \<le> length (ex_bytes ?ex)"
    using demo_wext_buffers [of rg] demo_scan_end [of rg] by (simp_all add: wext_buffers_def core_extra_priv)
  have "wptrs demo_wlan_lib adapter_up = adapter_up" by (simp add: wptrs_def demo_wlan_lib_def)
  with wext_handlers_safe [OF demo_wext_sizes demo_wext_keeps get_int_listed b, where W = demo_wlan_lib
      and A = adapter_up]
  show "\<exists>r rq1 ex1 A1.
      ioctl_priv_get_int demo_wext demo_iwreq ?ex adapter_up = Some (r, rq1, ex1, A1) \<and>
      wext_buffers rq1 ex1 \<and> length (ex_bytes ex1) = 16 \<and> wptrs demo_wlan_lib A1 = adapter_up"
    by auto
qed

theorem wext_call_keeps_drivers_witness:
  "\<forall>rg. \<exists>r rq1 ex1 c'. wext_call (ioctl_iw_get_encode demo_wext) 30 demo_iwreq (demo_extra rg)
      (client sys_up) = Some (r, rq1, ex1, c') \<and> drivers_inv c'"
proof
  fix rg
  have inv: "drivers_inv (client sys_up)" using demo_clients_inv [of adapter_up all_succeed] by (simp add: clients_inv_alt)
  have n: "wadap (client sys_up) 20 = Some adapter_up" "Adap_Get_Netdev (wlib (client sys_up)) adapter_up = Some 30"
    by (simp_all add: demo_wlan_lib_def)
  have x: "core_extra 43 \<le> length (ex_bytes (demo_extra rg))" by (simp add: core_extra_def demo_extra_def)
  from wext_call_keeps_drivers [OF inv n demo_wext_sizes demo_wext_keeps get_encode_listed _ demo_wext_buffers
      demo_scan_end x] demo_keys_fit
  show "\<exists>r rq1 ex1 c'. wext_call (ioctl_iw_get_encode demo_wext) 30 demo_iwreq (demo_extra rg)
      (client sys_up) = Some (r, rq1, ex1, c') \<and> drivers_inv c'"
    by blast
qed

theorem not_working_refuses_witness:
  "\<forall>ex. ioctl_iw_set_encode_ext demo_wext demo_iwreq ex (None, None, None) =
    Some (-1, demo_iwreq, ex, (None, None, None))"
  using not_working_refuses [of demo_wext "(None, None, None)" 52 "ioctl_iw_set_encode_ext demo_wext"]
  by (simp add: wdev_iwconfig_handler_def) (simp add: demo_wext_def)

theorem freq_roundtrip_witness:
  "\<forall>ex. \<exists>rq1. ioctl_iw_get_freq demo_wext demo_iwreq ex adapter_up = Some (0, rq1, ex, adapter_up) \<and>
    ioctl_iw_set_freq demo_wext rq1 ex adapter_up = Some (0, rq1, ex, adapter_up)"
proof
  fix ex
  obtain rq1 where g: "ioctl_iw_get_freq demo_wext demo_iwreq ex adapter_up = Some (0, rq1, ex, adapter_up)"
    by (simp add: ioctl_iw_get_freq_def demo_wext_def)
  moreover have "ioctl_iw_set_freq demo_wext rq1 ex adapter_up = Some (0, rq1, ex, adapter_up)"
    by (rule freq_roundtrip [OF _ _ g]) (simp_all add: demo_wext_def)
  ultimately show "\<exists>rq1. ioctl_iw_get_freq demo_wext demo_iwreq ex adapter_up =
        Some (0, rq1, ex, adapter_up) \<and>
      ioctl_iw_set_freq demo_wext rq1 ex adapter_up = Some (0, rq1, ex, adapter_up)"
    by blast
qed

theorem freq_any_exponent_witness:
  "freq_channel \<lparr>fq_m = 24370, fq_e = 5, fq_flags = 0\<rparr> = Some 6"
  by (rule freq_any_exponent [of 6 5]) (simp_all add: ioctl_channel_to_freq_def
      ioctl_channel_to_freq_bg_def)

theorem limits_enforced_witness:
  "\<forall>ex0. \<exists>r rq ex. ioctl_iw_get_range demo_wext demo_iwreq ex0 adapter_up =
      Some (r, rq, ex, adapter_up) \<and>
    ((\<exists>A1. ioctl_iw_set_rts demo_wext demo_iwreq ex0 adapter_up = Some (0, demo_iwreq, ex0, A1)) \<longleftrightarrow>
      (300 :: int) = -1 \<or> sint (min_rts (ex_range ex)) \<le> 300 \<and> 300 \<le> sint (max_rts (ex_range ex)))"
proof
  fix ex0
  obtain rq ex where g: "ioctl_iw_get_range demo_wext demo_iwreq ex0 adapter_up =
      Some (0, rq, ex, adapter_up)"
    by (simp add: ioctl_iw_get_range_def demo_wext_def)
  have "Adap_Driver_isWork demo_wext adapter_up" "ip_disabled (rq_param demo_iwreq) = 0"
    "300 = sint (ip_value (rq_param demo_iwreq))"
    by (simp_all add: demo_wext_def demo_iwreq_def)
  with limits_enforced [OF this(1) g this(2,3)] g
  show "\<exists>r rq ex. ioctl_iw_get_range demo_wext demo_iwreq ex0 adapter_up =
        Some (r, rq, ex, adapter_up) \<and>
      ((\<exists>A1. ioctl_iw_set_rts demo_wext demo_iwreq ex0 adapter_up = Some (0, demo_iwreq, ex0, A1)) \<longleftrightarrow>
        (300 :: int) = -1 \<or> sint (min_rts (ex_range ex)) \<le> 300 \<and> 300 \<le> sint (max_rts (ex_range ex)))"
    by blast
qed

theorem quality_in_range_witness:
  "\<forall>iq nv. unat (qual (set_quality iq 150 nv)) = 70 \<and> unat (qual (set_quality iq 80 nv)) = 242"
  using quality_in_range [of 150] quality_in_range [of 80] by simp

text \<open>A library that fails for every key that is not well formed.\<close>

definition picky_add :: "u8 \<Rightarrow> add_key \<Rightarrow> demo_wadap \<Rightarrow> int \<times> demo_wadap" where
  "picky_add index k A = (if key_wf demo_wext A index k then (0, A) else (-5, A))"

theorem only_wf_keys_witness:
  "\<forall>rg. ioctl_iw_set_encode_ext (demo_wext\<lparr>Adap_Add_Key_Ext := picky_add\<rparr>) demo_iwreq (demo_extra rg)
      adapter_up =
    ioctl_iw_set_encode_ext demo_wext demo_iwreq (demo_extra rg) adapter_up"
  using only_wf_keys [OF demo_wext_buffers, of demo_wext adapter_up picky_add]
  by (simp add: picky_add_def) (simp add: demo_wext_def)

theorem reply_index_shifted_witness:
  "\<forall>rg. \<exists>rq1 ex1. ioctl_iw_get_encode_ext demo_wext demo_iwreq (demo_extra rg) adapter_up =
      Some (0, rq1, ex1, adapter_up) \<and> pt_flags (rq_point rq1) AND IW_ENCODE_INDEX = 2"
proof
  fix rg
  obtain rq1 ex1 where g: "ioctl_iw_get_encode_ext demo_wext demo_iwreq (demo_extra rg) adapter_up =
      Some (0, rq1, ex1, adapter_up)"
    by (simp add: ioctl_iw_get_encode_ext_def demo_wext_def demo_iwreq_def demo_extra_def demo_ext_def
        IW_ENCODE_EXT_SIZE_def ext_alg_of_def mem_read_def mem_write_def zero_ext_def)
  with reply_index_shifted [OF g]
  show "\<exists>rq1 ex1. ioctl_iw_get_encode_ext demo_wext demo_iwreq (demo_extra rg) adapter_up =
      Some (0, rq1, ex1, adapter_up) \<and> pt_flags (rq_point rq1) AND IW_ENCODE_INDEX = 2"
    by (simp add: demo_iwreq_def)
qed

theorem wireless_stats_overlay_witness:
  "\<exists>ws c1 st1. ioctl_iw_get_wireless_stats demo_wext 30 (client sys_up) = Some (ws, c1) \<and>
    st_qual ws = wireless_quality demo_wext adapter_up \<and> netstats c1 31 = Some st1 \<and> rx_bytes st1 = 0 \<and>
    wlan_netdev_get_stats 30 c1 = wlan_netdev_get_stats 30 (client sys_up)"
proof -
  have h: "netdevs (client sys_up) 30 = Some demo_netdev" "nd_priv demo_netdev = Some 20"
    "wadap (client sys_up) 20 = Some adapter_up"
    "Adap_Get_Netstat (wlib (client sys_up)) adapter_up = Some 31" "netstats (client sys_up) 31 = Some zero_net_stats"
    by (simp_all add: demo_netdev_def demo_wlan_lib_def)
  from wireless_stats_overlay [OF h, of demo_wext]
  obtain ws c1 st1 where r: "ioctl_iw_get_wireless_stats demo_wext 30 (client sys_up) = Some (ws, c1)"
    "st_qual ws = wireless_quality demo_wext adapter_up"
    "c1 = (client sys_up)\<lparr>netstats := (netstats (client sys_up))(31 := Some st1)\<rparr>" "rx_bytes st1 = 0"
    "wlan_netdev_get_stats 30 c1 = wlan_netdev_get_stats 30 (client sys_up)"
    by auto
  from r(3) have "netstats c1 31 = Some st1" by simp
  with r show ?thesis by blast
qed

theorem scan_answer_complete_witness:
  "\<forall>rg fl. (\<exists>b. ioctl_iw_get_scan_res demo_wext (demo_iwreq\<lparr>rq_point := \<lparr>pt_length = 0, pt_flags = fl\<rparr>\<rparr>)
       (demo_extra rg) adapter_up =
     Some (0, demo_iwreq\<lparr>rq_point := \<lparr>pt_length = 163, pt_flags = fl\<rparr>\<rparr>,
       demo_extra rg\<lparr>ex_scan := b\<rparr>, adapter_up) \<and> take 163 b = scan_bytes demo_fmt [demo_ap])"
proof (intro allI)
  fix rg fl
  let ?rq = "demo_iwreq\<lparr>rq_point := \<lparr>pt_length = 0, pt_flags = fl\<rparr>\<rparr>"
  have "\<exists>r n b. ioctl_iw_get_scan_res demo_wext ?rq (demo_extra rg) adapter_up =
      Some (r, ?rq\<lparr>rq_point := (rq_point ?rq)\<lparr>pt_length := of_nat n\<rparr>\<rparr>,
        demo_extra rg\<lparr>ex_scan := b\<rparr>, adapter_up) \<and>
    n < scan_end ?rq \<and> length b = length (ex_scan (demo_extra rg)) \<and>
    (if (\<forall>r\<in>set [demo_ap]. reportable r) \<and> length (scan_bytes demo_fmt [demo_ap]) < scan_end ?rq
     then r = 0 \<and> n = length (scan_bytes demo_fmt [demo_ap]) \<and> take n b = scan_bytes demo_fmt [demo_ap]
     else r = - E2BIG)"
    by (rule scan_answer_complete)
      (use demo_iwe_laws demo_ap_ok in \<open>simp_all add: demo_wext_def scan_end_def demo_extra_def\<close>)
  moreover have "scan_end ?rq = 4096" by (simp add: scan_end_def)
  ultimately show "\<exists>b. ioctl_iw_get_scan_res demo_wext ?rq (demo_extra rg) adapter_up =
     Some (0, demo_iwreq\<lparr>rq_point := \<lparr>pt_length = 163, pt_flags = fl\<rparr>\<rparr>,
       demo_extra rg\<lparr>ex_scan := b\<rparr>, adapter_up) \<and> take 163 b = scan_bytes demo_fmt [demo_ap]"
    by (auto simp: demo_ap_ok demo_scan_length)
qed

section \<open>Runs\<close>

text \<open>The modules just loaded, and a WLAN interface.\<close>

definition demo_unloaded :: "(demo_wadap, demo_badap) system" where
  "demo_unloaded = \<lparr>ptdspbus_myself = None, FdoData = zero_fdo, fdo_live = False, chrdev = False,
     ifaces = Map.empty,
     client = \<lparr>wlib = demo_wlan_lib, blib = demo_bt_lib, wadap = Map.empty, netdevs = Map.empty,
       netstats = Map.empty, badap = Map.empty, hdevs = Map.empty, openLock = 0, combodrv = 1,
       suspend_type = -1, intfdata = Map.empty, next_addr = 40, outcome = all_succeed, now = 0\<rparr>\<rparr>"

definition demo_wlan_usb :: usb_interface where
  "demo_wlan_usb = \<lparr>ui_addr = 5, bInterfaceNumber = 0, bNumEndpoints = 5, ui_usbdev = 4\<rparr>"

definition demo_loaded :: "(demo_wadap, demo_badap) hot_system" where
  "demo_loaded = hot_loaded 2 254 demo_unloaded"

lemma demo_unloaded_fresh: "fresh_clients (client demo_unloaded)" "env_ok (client demo_unloaded)"
  "ifaces demo_unloaded = Map.empty"
  by (simp_all add: demo_unloaded_def fresh_clients_def demo_wlan_laws demo_bt_laws env_ok_def)

lemma demo_loaded_parts:
  "DeviceData (FdoData (hs_sys demo_loaded)) =
     [zero_slot\<lparr>sSerialNo := 1\<rparr>, zero_slot\<lparr>sSerialNo := 2\<rparr>, zero_slot\<lparr>sSerialNo := 4\<rparr>]"
  "RfType (FdoData (hs_sys demo_loaded)) = 1"
  "DevicePowerState (FdoData (hs_sys demo_loaded)) = PowerDeviceD0"
  "fdo_of (hs_sys demo_loaded) = Some (FdoData (hs_sys demo_loaded))"
  "client (hs_sys demo_loaded) = client demo_unloaded" "hs_wlan demo_loaded = {}" "hs_bt demo_loaded = {}"
  by (simp_all add: demo_loaded_def hot_loaded_def tdspbus_init_module_def Let_def fdo_of_def
      init_fdo_fields init_fdo_slots)

lemma demo_probe: "\<exists>w. wlan_usb_probe sys_call demo_wlan_usb (hs_sys demo_loaded) = Some (0, w)"
proof -
  have "hot_inv demo_wlan_lib demo_loaded"
    using hot_loaded_inv [OF demo_unloaded_fresh, of 254 2] by (simp add: demo_loaded_def demo_unloaded_def)
  then have L: "linked demo_wlan_lib {} {} (hs_sys demo_loaded)" by (simp add: hot_inv_def)
  have "outcome (client (hs_sys demo_loaded)) (now (client (hs_sys demo_loaded))) AllocInterface"
    by (simp add: demo_loaded_parts demo_unloaded_def)
  from wlan_probe_linked [OF L this, of demo_wlan_usb] show ?thesis
    by (auto simp: demo_wlan_usb_def demo_loaded_parts demo_unloaded_def demo_wlan_lib_def
        Bus_FindPdoBySerialNo_def zero_slot_def bus_consts)
qed

theorem no_hot_run_crashes_witness:
  "\<exists>s1 s2. hot_reach demo_wext demo_loaded s1 \<and> hs_wlan s1 = {5} \<and>
    run_hot demo_wext (Hot_Wlan_Disconnect demo_wlan_usb) s1 = Some s2 \<and> hs_wlan s2 = {}"
proof -
  obtain w where "wlan_usb_probe sys_call demo_wlan_usb (hs_sys demo_loaded) = Some (0, w)"
    using demo_probe by blast
  then obtain s1 where s1: "run_hot demo_wext (Hot_Wlan_Probe demo_wlan_usb) demo_loaded = Some s1"
    "hs_wlan s1 = {5}" by (auto simp: demo_loaded_parts demo_wlan_usb_def)
  have reach: "hot_reach demo_wext demo_loaded s1"
    by (rule hot_step [OF hot_start _ s1(1)]) (simp add: demo_loaded_parts demo_unloaded_def)
  have "wext_keeps demo_wext (wptrs (wlib (client demo_unloaded)))"
    using demo_wext_keeps by (simp add: demo_unloaded_def)
  from no_hot_run_crashes [OF demo_unloaded_fresh _ demo_wext_sizes _ this reach [unfolded demo_loaded_def]]
  obtain s2 where s2: "run_hot demo_wext (Hot_Wlan_Disconnect demo_wlan_usb) s1 = Some s2"
    using s1(2) by (auto simp: demo_wlan_usb_def demo_keys_fit simp del: run_hot.simps
        dest!: spec [of _ "Hot_Wlan_Disconnect demo_wlan_usb"])
  then have "hs_wlan s2 = {}" using s1(2) by (auto simp: demo_wlan_usb_def split: bind_splits)
  with reach s1(2) s2 show ?thesis by blast
qed

end
