(* ===== verification/Os_State.thy ===== *)
theory Os_State
  imports Tdsp_Prelude
begin

text \<open>
  The kernel as the wrappers of \<^verbatim>\<open>src/driver_src/wlan/tdsp_*.c\<close> and
  \<^verbatim>\<open>src/driver_src/new_bluetooth/tdsp_*.c\<close> use it.  A handle is a structure with one
  \<^verbatim>\<open>void *\<close>, named by a number; what it points to is an object that \<^verbatim>\<open>kmalloc\<close>
  returned.  The kernel keeps queues of pending work and tasklets and the armed timers, which
  refer to objects by address and run them later: an object freed too early is found there.

  An operation returns \<open>None\<close> when it crashes or never returns: NULL or freed memory is
  accessed, a lock is taken twice, an object is freed twice.
\<close>

section \<open>Objects\<close>

type_synonym callback = "nat \<times> u32"

record sk_buff =
  sk_len :: nat
  sk_room :: nat
  sk_queue :: "addr option"
  sk_dev :: "addr option"
  sk_pkt_type :: u32

datatype kobj =
  K_Spinlock bool
| K_Event bool
| K_Tasklet callback nat
| K_Worklet callback u8
| K_Timer callback
| K_Work callback
| K_Queue "addr list"
| K_Skb sk_buff
| K_Workqueue

datatype kkind = Spinlock | Event | Tasklet | Worklet | Timer | Work | Queue | Skb | Workqueue

fun kind_of :: "kobj \<Rightarrow> kkind" where
  "kind_of (K_Spinlock b) = Spinlock"
| "kind_of (K_Event b) = Event"
| "kind_of (K_Tasklet cb n) = Tasklet"
| "kind_of (K_Worklet cb r) = Worklet"
| "kind_of (K_Timer cb) = Timer"
| "kind_of (K_Work cb) = Work"
| "kind_of (K_Queue xs) = Queue"
| "kind_of (K_Skb k) = Skb"
| "kind_of K_Workqueue = Workqueue"

text \<open>
  \<open>work_pending\<close> is the kernel's shared work queue and \<open>worker\<close> the item whose routine it
  is running; \<open>wq_pending\<close> holds the work queued on the Bluetooth driver's own queues, with the
  queue, and \<open>delayed\<close> the work whose timer is armed, with the queue it will go to.
  \<open>ran\<close> are the callbacks called so far.  \<open>kmalloc_ok\<close> says which allocations succeed,
  \<open>to_jiffies\<close> is \<^verbatim>\<open>timeval_to_jiffies\<close> on microseconds, \<open>skb_tailroom\<close> the
  size that \<^verbatim>\<open>alloc_skb\<close> rounds a request up to, and \<open>queue_sets_timer_fn\<close> says whether
  the kernel's \<^verbatim>\<open>queue_delayed_work\<close> installs the function of the work's timer (kernels
  before 3.7; later ones expect \<^verbatim>\<open>INIT_DELAYED_WORK\<close> to have done it).
  The field \<open>sk_queue\<close> of a buffer is the queue its list links are in.
\<close>

record os_state =
  kobjs :: "addr \<Rightarrow> kobj option"
  next_obj :: addr
  kmalloc_ok :: "addr \<Rightarrow> bool"
  handles :: "nat \<Rightarrow> addr option"
  irqs_on :: bool
  bh_off :: nat
  jiffies :: u32
  to_jiffies :: "u32 \<Rightarrow> u32"
  skb_tailroom :: "u32 \<Rightarrow> nat"
  queue_sets_timer_fn :: bool
  work_pending :: "addr list"
  worker :: "addr option"
  tasklets :: "addr list"
  hi_tasklets :: "addr list"
  armed :: "addr \<Rightarrow> u32 option"
  wq_pending :: "(addr \<times> addr) list"
  delayed :: "addr \<Rightarrow> addr option"
  ran :: "callback list"

section \<open>Memory\<close>

definition kmalloc :: "kobj \<Rightarrow> os_state \<Rightarrow> addr option \<times> os_state" where
  "kmalloc x s =
     (let p = next_obj s; s1 = s\<lparr>next_obj := Suc p\<rparr>
      in if kmalloc_ok s p then (Some p, s1\<lparr>kobjs := (kobjs s)(p := Some x)\<rparr>) else (None, s1))"

text \<open>\<^verbatim>\<open>kfree\<close> ignores NULL.\<close>

definition kfree :: "addr option \<Rightarrow> os_state \<Rightarrow> os_state option" where
  "kfree ap s =
     (case ap of
        None \<Rightarrow> Some s
      | Some p \<Rightarrow> do { x \<leftarrow> kobjs s p; Some (s\<lparr>kobjs := (kobjs s)(p := None)\<rparr>) })"

definition set_obj :: "addr \<Rightarrow> kobj \<Rightarrow> os_state \<Rightarrow> os_state" where
  "set_obj p x s = s\<lparr>kobjs := (kobjs s)(p := Some x)\<rparr>"

definition set_handle :: "nat \<Rightarrow> addr option \<Rightarrow> os_state \<Rightarrow> os_state" where
  "set_handle h v s = s\<lparr>handles := (handles s)(h := v)\<rparr>"

text \<open>An operation on a handle, with the test for NULL that most wrappers have or without it.\<close>

definition on_handle ::
  "nat \<Rightarrow> (addr \<Rightarrow> kobj \<Rightarrow> os_state \<Rightarrow> os_state option) \<Rightarrow> os_state \<Rightarrow> os_state option" where
  "on_handle h f s =
     (case handles s h of
        None \<Rightarrow> Some s
      | Some p \<Rightarrow> do { x \<leftarrow> kobjs s p; f p x s })"

definition deref_handle ::
  "nat \<Rightarrow> (addr \<Rightarrow> kobj \<Rightarrow> os_state \<Rightarrow> os_state option) \<Rightarrow> os_state \<Rightarrow> os_state option" where
  "deref_handle h f s = do { p \<leftarrow> handles s h; x \<leftarrow> kobjs s p; f p x s }"

text \<open>Allocation of the object of a handle; a failed allocation leaves the handle as it was.\<close>

definition init_handle :: "kobj \<Rightarrow> nat \<Rightarrow> os_state \<Rightarrow> os_state option" where
  "init_handle x h s =
     (case kmalloc x s of
        (None, s1) \<Rightarrow> Some s1
      | (Some p, s1) \<Rightarrow> Some (set_handle h (Some p) s1))"

text \<open>The same without the test: the object is written through NULL.\<close>

definition init_unchecked :: "kobj \<Rightarrow> nat \<Rightarrow> os_state \<Rightarrow> os_state option" where
  "init_unchecked x h s =
     (case kmalloc x s of
        (None, s1) \<Rightarrow> None
      | (Some p, s1) \<Rightarrow> Some (set_handle h (Some p) s1))"

definition free_handle :: "nat \<Rightarrow> addr \<Rightarrow> os_state \<Rightarrow> os_state option" where
  "free_handle h p s = do { s1 \<leftarrow> kfree (Some p) s; Some (set_handle h None s1) }"

section \<open>The kernel's primitives\<close>

text \<open>One processor: a lock that is held is never released while another waits for it.\<close>

definition spin_take :: "addr \<Rightarrow> kobj \<Rightarrow> os_state \<Rightarrow> os_state option" where
  "spin_take p x s = (if x = K_Spinlock False then Some (set_obj p (K_Spinlock True) s) else None)"

definition spin_release :: "addr \<Rightarrow> kobj \<Rightarrow> os_state \<Rightarrow> os_state option" where
  "spin_release p x s = (if kind_of x = Spinlock then Some (set_obj p (K_Spinlock False) s) else None)"

definition set_event :: "bool \<Rightarrow> addr \<Rightarrow> kobj \<Rightarrow> os_state \<Rightarrow> os_state option" where
  "set_event b p x s = (if kind_of x = Event then Some (set_obj p (K_Event b) s) else None)"

text \<open>Work that is pending is not queued again.\<close>

definition queue_work :: "addr \<Rightarrow> os_state \<Rightarrow> os_state" where
  "queue_work p s = (if p \<in> set (work_pending s) then s else s\<lparr>work_pending := work_pending s @ [p]\<rparr>)"

definition tasklet_scheduled :: "addr \<Rightarrow> os_state \<Rightarrow> bool" where
  "tasklet_scheduled p s \<longleftrightarrow> p \<in> set (tasklets s) \<or> p \<in> set (hi_tasklets s)"

definition tasklet_schedule :: "addr \<Rightarrow> kobj \<Rightarrow> os_state \<Rightarrow> os_state option" where
  "tasklet_schedule p x s =
     (if kind_of x \<noteq> Tasklet then None
      else if tasklet_scheduled p s then Some s else Some (s\<lparr>tasklets := tasklets s @ [p]\<rparr>))"

definition tasklet_hi_schedule :: "addr \<Rightarrow> kobj \<Rightarrow> os_state \<Rightarrow> os_state option" where
  "tasklet_hi_schedule p x s =
     (if kind_of x \<noteq> Tasklet then None
      else if tasklet_scheduled p s then Some s else Some (s\<lparr>hi_tasklets := hi_tasklets s @ [p]\<rparr>))"

text \<open>
  \<^verbatim>\<open>tasklet_kill\<close> waits until a scheduled tasklet has run, for ever when it is disabled.
\<close>

definition tasklet_kill :: "addr \<Rightarrow> kobj \<Rightarrow> os_state \<Rightarrow> os_state option" where
  "tasklet_kill p x s =
     (case x of
        K_Tasklet cb n \<Rightarrow>
          if \<not> tasklet_scheduled p s then Some s
          else if n \<noteq> 0 then None
          else Some (s\<lparr>tasklets := filter (\<lambda>q. q \<noteq> p) (tasklets s),
                       hi_tasklets := filter (\<lambda>q. q \<noteq> p) (hi_tasklets s), ran := ran s @ [cb]\<rparr>)
      | _ \<Rightarrow> None)"

definition tasklet_disable :: "addr \<Rightarrow> kobj \<Rightarrow> os_state \<Rightarrow> os_state option" where
  "tasklet_disable p x s = (case x of K_Tasklet cb n \<Rightarrow> Some (set_obj p (K_Tasklet cb (Suc n)) s) | _ \<Rightarrow> None)"

definition tasklet_enable :: "addr \<Rightarrow> kobj \<Rightarrow> os_state \<Rightarrow> os_state option" where
  "tasklet_enable p x s = (case x of K_Tasklet cb n \<Rightarrow> Some (set_obj p (K_Tasklet cb (n - 1)) s) | _ \<Rightarrow> None)"

text \<open>\<^verbatim>\<open>add_timer\<close> stops the kernel when the timer is already armed.\<close>

definition add_timer :: "u32 \<Rightarrow> addr \<Rightarrow> kobj \<Rightarrow> os_state \<Rightarrow> os_state option" where
  "add_timer t p x s =
     (if kind_of x \<noteq> Timer \<or> armed s p \<noteq> None then None else Some (s\<lparr>armed := (armed s)(p := Some t)\<rparr>))"

definition mod_timer :: "u32 \<Rightarrow> addr \<Rightarrow> kobj \<Rightarrow> os_state \<Rightarrow> os_state option" where
  "mod_timer t p x s =
     (if kind_of x \<noteq> Timer then None else Some (s\<lparr>armed := (armed s)(p := Some t)\<rparr>))"

definition del_timer :: "addr \<Rightarrow> kobj \<Rightarrow> os_state \<Rightarrow> os_state option" where
  "del_timer p x s = (if kind_of x \<noteq> Timer then None else Some (s\<lparr>armed := (armed s)(p := None)\<rparr>))"

section \<open>The kernel runs what is pending\<close>

text \<open>A softirq runs the first tasklet; a disabled one goes back to the queue.\<close>

definition run_tasklet :: "os_state \<Rightarrow> os_state option" where
  "run_tasklet s =
     (case hi_tasklets s @ tasklets s of
        [] \<Rightarrow> Some s
      | p # _ \<Rightarrow>
          (case kobjs s p of
             Some (K_Tasklet cb n) \<Rightarrow>
               let s1 = (case hi_tasklets s of [] \<Rightarrow> s\<lparr>tasklets := tl (tasklets s)\<rparr>
                         | _ # ps \<Rightarrow> s\<lparr>hi_tasklets := ps\<rparr>)
               in if n = 0 then Some (s1\<lparr>ran := ran s @ [cb]\<rparr>)
                  else Some (s1\<lparr>tasklets := tasklets s1 @ [p]\<rparr>)
           | _ \<Rightarrow> None))"

definition fire_timer :: "addr \<Rightarrow> os_state \<Rightarrow> os_state option" where
  "fire_timer p s =
     (case armed s p of
        None \<Rightarrow> Some s
      | Some t \<Rightarrow>
          (case kobjs s p of
             Some (K_Timer cb) \<Rightarrow> Some (s\<lparr>armed := (armed s)(p := None), ran := ran s @ [cb]\<rparr>)
           | _ \<Rightarrow> None))"

end
