(* ===== verification/Os_Types.thy ===== *)
theory Os_Types
  imports Os_State
begin

text \<open>
  The typing discipline of the handles: \<open>ty\<close> gives each handle the kind of its C type, and
  \<open>os_typed ty s\<close> says that a handle points to NULL or to a live object of its kind that no other
  handle points to, and that what the kernel will run later is live.  The locale \<open>os_object\<close> is
  the contract of a pair of functions that create and destroy the object of a handle; it is
  interpreted for every such pair of both drivers.
\<close>

section \<open>The invariant\<close>

definition live :: "kkind \<Rightarrow> os_state \<Rightarrow> addr \<Rightarrow> bool" where
  "live k s p \<longleftrightarrow> (\<exists>x. kobjs s p = Some x \<and> kind_of x = k)"

definition handles_typed :: "(nat \<Rightarrow> kkind) \<Rightarrow> os_state \<Rightarrow> bool" where
  "handles_typed ty s \<longleftrightarrow>
     (\<forall>h p. handles s h = Some p \<longrightarrow> live (ty h) s p) \<and>
     (\<forall>h h' p. handles s h = Some p \<longrightarrow> handles s h' = Some p \<longrightarrow> h = h') \<and>
     (\<forall>p x. kobjs s p = Some x \<longrightarrow> p < next_obj s)"

definition runs_typed :: "os_state \<Rightarrow> bool" where
  "runs_typed s \<longleftrightarrow>
     (\<forall>p\<in>set (work_pending s). live Worklet s p) \<and>
     (\<forall>p. worker s = Some p \<longrightarrow> live Worklet s p) \<and>
     (\<forall>p\<in>set (tasklets s @ hi_tasklets s). live Tasklet s p) \<and>
     (\<forall>p. armed s p \<noteq> None \<longrightarrow> live Timer s p)"

definition os_typed :: "(nat \<Rightarrow> kkind) \<Rightarrow> os_state \<Rightarrow> bool" where
  "os_typed ty s \<longleftrightarrow> handles_typed ty s \<and> runs_typed s"

text \<open>The kernel holds no reference to the object.\<close>

definition idle :: "addr \<Rightarrow> os_state \<Rightarrow> bool" where
  "idle p s \<longleftrightarrow>
     p \<notin> set (work_pending s) \<and> worker s \<noteq> Some p \<and> \<not> tasklet_scheduled p s \<and> armed s p = None"

lemma live_handle: "os_typed ty s \<Longrightarrow> handles s h = Some p \<Longrightarrow> live (ty h) s p"
  by (auto simp: os_typed_def handles_typed_def)

lemma live_obj:
  assumes "os_typed ty s" "handles s h = Some p"
  obtains x where "kobjs s p = Some x" "kind_of x = ty h"
  using live_handle [OF assms] by (auto simp: live_def)

lemma live_below: "os_typed ty s \<Longrightarrow> live k s p \<Longrightarrow> p < next_obj s"
  by (auto simp: os_typed_def handles_typed_def live_def)

lemma kind_of_simps [simp]:
  "kind_of x = Spinlock \<longleftrightarrow> (\<exists>b. x = K_Spinlock b)" "kind_of x = Event \<longleftrightarrow> (\<exists>b. x = K_Event b)"
  "kind_of x = Tasklet \<longleftrightarrow> (\<exists>cb n. x = K_Tasklet cb n)"
  "kind_of x = Worklet \<longleftrightarrow> (\<exists>cb r. x = K_Worklet cb r)"
  "kind_of x = Timer \<longleftrightarrow> (\<exists>cb. x = K_Timer cb)" "kind_of x = Work \<longleftrightarrow> (\<exists>cb. x = K_Work cb)"
  "kind_of x = Queue \<longleftrightarrow> (\<exists>xs. x = K_Queue xs)" "kind_of x = Skb \<longleftrightarrow> (\<exists>k. x = K_Skb k)"
  "kind_of x = Workqueue \<longleftrightarrow> x = K_Workqueue"
  by (cases x; simp)+

section \<open>The steps that keep it\<close>

lemma set_obj_sel [simp]:
  "handles (set_obj p x s) = handles s" "next_obj (set_obj p x s) = next_obj s"
  "work_pending (set_obj p x s) = work_pending s" "worker (set_obj p x s) = worker s"
  "tasklets (set_obj p x s) = tasklets s" "hi_tasklets (set_obj p x s) = hi_tasklets s"
  "armed (set_obj p x s) = armed s" "kobjs (set_obj p x s) = (kobjs s)(p := Some x)"
  by (simp_all add: set_obj_def)

lemma set_handle_sel [simp]:
  "handles (set_handle h v s) = (handles s)(h := v)" "next_obj (set_handle h v s) = next_obj s"
  "work_pending (set_handle h v s) = work_pending s" "worker (set_handle h v s) = worker s"
  "tasklets (set_handle h v s) = tasklets s" "hi_tasklets (set_handle h v s) = hi_tasklets s"
  "armed (set_handle h v s) = armed s" "kobjs (set_handle h v s) = kobjs s"
  by (simp_all add: set_handle_def)

lemma set_handle_same [simp]: "handles s h = v \<Longrightarrow> set_handle h v s = s"
  by (auto simp: set_handle_def)

lemma live_set_obj:
  "live k0 s p \<Longrightarrow> kind_of x = k0 \<Longrightarrow> live k (set_obj p x s) q \<longleftrightarrow> live k s q"
  by (auto simp: live_def)

lemma typed_set_obj:
  assumes "os_typed ty s" "live (kind_of x) s p"
  shows "os_typed ty (set_obj p x s)"
proof -
  have "p < next_obj s" using live_below [OF assms] .
  then show ?thesis
    using assms(1) by (auto simp: os_typed_def handles_typed_def runs_typed_def live_set_obj [OF assms(2) refl])
qed

text \<open>The parts of the state the invariant does not mention.\<close>

lemma live_frame [simp]:
  "live k (s\<lparr>irqs_on := b\<rparr>) = live k s" "live k (s\<lparr>bh_off := n\<rparr>) = live k s"
  "live k (s\<lparr>ran := r\<rparr>) = live k s" "live k (s\<lparr>work_pending := w\<rparr>) = live k s"
  "live k (s\<lparr>worker := v\<rparr>) = live k s" "live k (s\<lparr>tasklets := t\<rparr>) = live k s"
  "live k (s\<lparr>hi_tasklets := t\<rparr>) = live k s" "live k (s\<lparr>armed := a\<rparr>) = live k s"
  by (auto simp: live_def)

lemma typed_frame [simp]:
  "os_typed ty (s\<lparr>irqs_on := b\<rparr>) = os_typed ty s" "os_typed ty (s\<lparr>bh_off := n\<rparr>) = os_typed ty s"
  "os_typed ty (s\<lparr>ran := r\<rparr>) = os_typed ty s"
  by (simp_all add: os_typed_def handles_typed_def runs_typed_def)

lemma handles_typed_frame [simp]:
  "handles_typed ty (s\<lparr>work_pending := w\<rparr>) = handles_typed ty s"
  "handles_typed ty (s\<lparr>worker := v\<rparr>) = handles_typed ty s"
  "handles_typed ty (s\<lparr>tasklets := t\<rparr>) = handles_typed ty s"
  "handles_typed ty (s\<lparr>hi_tasklets := t\<rparr>) = handles_typed ty s"
  "handles_typed ty (s\<lparr>armed := a\<rparr>) = handles_typed ty s"
  "handles_typed ty (s\<lparr>ran := r\<rparr>) = handles_typed ty s"
  by (simp_all add: handles_typed_def)

lemma typed_runs:
  assumes "os_typed ty s" "handles_typed ty s'" "\<And>k p. live k s' p = live k s p"
    and "set (work_pending s') \<subseteq> set (work_pending s) \<union> {p. live Worklet s p}"
    and "\<And>p. worker s' = Some p \<Longrightarrow> live Worklet s p"
    and "set (tasklets s') \<union> set (hi_tasklets s') \<subseteq> {p. live Tasklet s p}"
    and "\<And>p. armed s' p \<noteq> None \<Longrightarrow> live Timer s p"
  shows "os_typed ty s'"
proof -
  have "\<And>p. p \<in> set (work_pending s) \<Longrightarrow> live Worklet s p"
    using assms(1) by (simp add: os_typed_def runs_typed_def)
  then show ?thesis
    using assms(2,4-7) unfolding os_typed_def runs_typed_def assms(3) by auto
qed

lemma typed_alloc:
  assumes "os_typed ty s" "kind_of x = ty h" "kmalloc_ok s (next_obj s)"
  obtains s' where "init_handle x h s = Some s'" "init_unchecked x h s = Some s'" "os_typed ty s'"
    "handles s' = (handles s)(h := Some (next_obj s))"
    "kobjs s' = (kobjs s)(next_obj s := Some x)"
    "idle (next_obj s) s'" "next_obj s' = Suc (next_obj s)"
proof -
  let ?p = "next_obj s"
  let ?s = "set_handle h (Some ?p) (s\<lparr>next_obj := Suc ?p, kobjs := (kobjs s)(?p := Some x)\<rparr>)"
  have fresh: "kobjs s ?p = None"
    using assms(1) by (cases "kobjs s ?p") (auto simp: os_typed_def handles_typed_def)
  have keep: "live k ?s q" if "live k s q" for k q
    using that fresh by (auto simp: live_def)
  have new: "live (ty h) ?s ?p" using assms(2) by (simp add: live_def)
  have old: "q < ?p" if "live k s q" for k q using live_below [OF assms(1) that] .
  have "handles_typed ty ?s"
    using assms(1) keep new old unfolding os_typed_def handles_typed_def
    by (auto simp: less_Suc_eq) blast+
  moreover have "runs_typed ?s"
    using assms(1) keep unfolding os_typed_def runs_typed_def by simp
  moreover have "idle ?p ?s"
  proof -
    have "\<not> live k s ?p" for k using fresh by (simp add: live_def)
    then show ?thesis
      using assms(1) unfolding os_typed_def runs_typed_def idle_def tasklet_scheduled_def
      by fastforce
  qed
  ultimately show ?thesis
    using assms(3) by (intro that [of ?s])
      (simp_all add: init_handle_def init_unchecked_def kmalloc_def Let_def os_typed_def)
qed

lemma typed_no_alloc:
  "os_typed ty s \<Longrightarrow> os_typed ty (s\<lparr>next_obj := Suc (next_obj s)\<rparr>)"
  by (auto simp: os_typed_def handles_typed_def runs_typed_def live_def less_SucI)

lemma free_handle_Some:
  "kobjs s p = Some x \<Longrightarrow>
   free_handle h p s = Some (set_handle h None (s\<lparr>kobjs := (kobjs s)(p := None)\<rparr>))"
  by (simp add: free_handle_def kfree_def)

lemma typed_free:
  assumes "os_typed ty s" "handles s h = Some p" "idle p s"
  obtains s' where "free_handle h p s = Some s'" "os_typed ty s'"
    "handles s' = (handles s)(h := None)" "kobjs s' = (kobjs s)(p := None)"
    "next_obj s' = next_obj s"
proof -
  let ?s = "set_handle h None (s\<lparr>kobjs := (kobjs s)(p := None)\<rparr>)"
  obtain x where x: "kobjs s p = Some x" using live_obj [OF assms(1,2)] .
  have keep: "live k ?s q \<longleftrightarrow> live k s q \<and> q \<noteq> p" for k q
    by (simp add: live_def)
  have other: "h' = h" if "handles s h' = Some p" for h'
    using assms(1,2) that unfolding os_typed_def handles_typed_def by blast
  have "handles_typed ty ?s"
    unfolding handles_typed_def
  proof (intro conjI allI impI)
    fix h' q assume "handles ?s h' = Some q"
    then have "handles s h' = Some q" "h' \<noteq> h" by (auto split: if_splits)
    then show "live (ty h') ?s q"
      using keep live_handle [OF assms(1)] other by blast
  next
    fix h1 h2 q assume "handles ?s h1 = Some q" "handles ?s h2 = Some q"
    then show "h1 = h2"
      using assms(1) unfolding os_typed_def handles_typed_def by (auto split: if_splits)
  next
    fix q y assume "kobjs ?s q = Some y"
    then show "q < next_obj ?s"
      using assms(1) unfolding os_typed_def handles_typed_def by (auto split: if_splits)
  qed
  moreover have "runs_typed ?s"
    using assms(1,3) unfolding os_typed_def runs_typed_def idle_def tasklet_scheduled_def keep
    by auto
  ultimately show ?thesis
    by (intro that [of ?s]) (simp_all add: free_handle_Some [OF x] os_typed_def)
qed

section \<open>The contract of creating and destroying an object\<close>

locale os_object =
  fixes x0 :: kobj
    and create :: "nat \<Rightarrow> os_state \<Rightarrow> os_state option"
    and destroy :: "nat \<Rightarrow> os_state \<Rightarrow> os_state option"
  assumes create_ok: "kmalloc_ok s (next_obj s) \<Longrightarrow> create h s = init_handle x0 h s"
    and destroy_null: "handles s h = None \<Longrightarrow> destroy h s = Some s"
    and destroy_ok: "handles s h = Some p \<Longrightarrow> kobjs s p = Some x \<Longrightarrow> kind_of x = kind_of x0 \<Longrightarrow>
      idle p s \<Longrightarrow> destroy h s = free_handle h p s"

context os_object begin

lemma create_typed:
  assumes "os_typed ty s" "ty h = kind_of x0" "kmalloc_ok s (next_obj s)"
  obtains s' where "create h s = Some s'" "os_typed ty s'"
    "handles s' = (handles s)(h := Some (next_obj s))" "kobjs s' = (kobjs s)(next_obj s := Some x0)"
    "idle (next_obj s) s'"
  using typed_alloc [OF assms(1) assms(2)[symmetric] assms(3)] create_ok [OF assms(3)] by metis

lemma destroy_typed:
  assumes "os_typed ty s" "ty h = kind_of x0" "\<And>p. handles s h = Some p \<Longrightarrow> idle p s"
  obtains s' where "destroy h s = Some s'" "os_typed ty s'" "handles s' = (handles s)(h := None)"
proof (cases "handles s h")
  case None
  then show ?thesis using destroy_null that [of s] assms(1) by (auto simp: fun_upd_idem)
next
  case (Some p)
  obtain x where x: "kobjs s p = Some x" "kind_of x = ty h" using live_obj [OF assms(1) Some] .
  show ?thesis
    using typed_free [OF assms(1) Some assms(3) [OF Some]] destroy_ok [OF Some x(1)] x(2) assms(2,3) Some that
    by metis
qed

lemma create_destroy:
  assumes "os_typed ty s" "ty h = kind_of x0" "kmalloc_ok s (next_obj s)" "handles s h = None"
  shows "\<exists>s1 s2. create h s = Some s1 \<and> destroy h s1 = Some s2 \<and>
    handles s2 = handles s \<and> kobjs s2 = kobjs s"
proof -
  obtain s1 where s1: "create h s = Some s1" "os_typed ty s1"
      "handles s1 = (handles s)(h := Some (next_obj s))" "kobjs s1 = (kobjs s)(next_obj s := Some x0)"
      "idle (next_obj s) s1"
    using create_typed [OF assms(1-3)] .
  have h: "handles s1 h = Some (next_obj s)" using s1(3) by simp
  obtain s2 where s2: "free_handle h (next_obj s) s1 = Some s2"
      "handles s2 = (handles s1)(h := None)" "kobjs s2 = (kobjs s1)(next_obj s := None)"
    using typed_free [OF s1(2) h s1(5)] .
  have "kobjs s (next_obj s) = None"
    using assms(1) by (cases "kobjs s (next_obj s)") (auto simp: os_typed_def handles_typed_def)
  then show ?thesis
    using s1 s2 h assms(4) destroy_ok [OF h _ refl s1(5)] by (simp add: fun_upd_idem)
qed

lemma destroy_again:
  assumes "os_typed ty s" "ty h = kind_of x0" "\<And>p. handles s h = Some p \<Longrightarrow> idle p s"
  shows "\<exists>s'. destroy h s = Some s' \<and> destroy h s' = Some s'"
  using destroy_typed [OF assms] destroy_null by (metis fun_upd_same)

end

lemma init_unchecked_ok:
  "kmalloc_ok s (next_obj s) \<Longrightarrow> init_unchecked x h s = init_handle x h s"
  by (simp add: init_unchecked_def init_handle_def kmalloc_def Let_def)

text \<open>On an idle object the kernel's cancelling operations change nothing.\<close>

lemma idle_tasklet_kill: "idle p s \<Longrightarrow> tasklet_kill p (K_Tasklet cb n) s = Some s"
  by (simp add: idle_def tasklet_kill_def)

lemma idle_del_timer: "idle p s \<Longrightarrow> del_timer p (K_Timer cb) s = Some s"
  by (simp add: idle_def del_timer_def fun_upd_idem)

lemmas object_simps = on_handle_def init_unchecked_ok kfree_def free_handle_def
  idle_tasklet_kill idle_del_timer

end
