(* ===== verification/Os_Wlan.thy ===== *)
theory Os_Wlan
  imports Os_Types
begin

text \<open>
  The WLAN driver's wrappers of the kernel: \<^verbatim>\<open>wlan/tdsp_mutex.c\<close>,
  \<^verbatim>\<open>tdsp_event.c\<close>, \<^verbatim>\<open>tdsp_tasklet.c\<close>, \<^verbatim>\<open>tdsp_timer.c\<close>, \<^verbatim>\<open>tdsp_time.h\<close>
  and the wrappers of \<^verbatim>\<open>kmalloc\<close> in \<^verbatim>\<open>tdsp_memory.c\<close>.
\<close>

section \<open>Spin locks\<close>

definition wlan_spin_lock_init :: "nat \<Rightarrow> os_state \<Rightarrow> os_state option" where
  "wlan_spin_lock_init h = init_handle (K_Spinlock False) h"

definition wlan_spin_lock :: "nat \<Rightarrow> os_state \<Rightarrow> os_state option" where
  "wlan_spin_lock h = on_handle h spin_take"

definition wlan_spin_lock_bh :: "nat \<Rightarrow> os_state \<Rightarrow> os_state option" where
  "wlan_spin_lock_bh h = on_handle h (\<lambda>p x s. spin_take p x (s\<lparr>bh_off := Suc (bh_off s)\<rparr>))"

text \<open>The saved flags are an argument and a result: a NULL lock leaves the caller's as they are.\<close>

definition wlan_spin_lock_irqsave :: "nat \<Rightarrow> bool \<Rightarrow> os_state \<Rightarrow> (bool \<times> os_state) option" where
  "wlan_spin_lock_irqsave h flags s =
     (case handles s h of
        None \<Rightarrow> Some (flags, s)
      | Some p \<Rightarrow>
          do { x \<leftarrow> kobjs s p;
               s1 \<leftarrow> spin_take p x (s\<lparr>irqs_on := False\<rparr>);
               Some (irqs_on s, s1) })"

definition wlan_spin_unlock :: "nat \<Rightarrow> os_state \<Rightarrow> os_state option" where
  "wlan_spin_unlock h = on_handle h spin_release"

definition wlan_spin_unlock_irqrestroe :: "nat \<Rightarrow> bool \<Rightarrow> os_state \<Rightarrow> os_state option" where
  "wlan_spin_unlock_irqrestroe h flags =
     on_handle h (\<lambda>p x s. map_option (irqs_on_update (\<lambda>_. flags)) (spin_release p x s))"

definition wlan_spin_unlock_bh :: "nat \<Rightarrow> os_state \<Rightarrow> os_state option" where
  "wlan_spin_unlock_bh h =
     on_handle h (\<lambda>p x s. map_option (bh_off_update (\<lambda>n. n - 1)) (spin_release p x s))"

definition wlan_spin_lock_kill :: "nat \<Rightarrow> os_state \<Rightarrow> os_state option" where
  "wlan_spin_lock_kill h = on_handle h (\<lambda>p x s. free_handle h p s)"

section \<open>Events\<close>

definition wlan_event_init :: "nat \<Rightarrow> os_state \<Rightarrow> os_state option" where
  "wlan_event_init h = init_handle (K_Event False) h"

definition wlan_event_set :: "nat \<Rightarrow> os_state \<Rightarrow> os_state option" where
  "wlan_event_set h = on_handle h (set_event True)"

text \<open>
  \<^verbatim>\<open>wait_event_interruptible_timeout\<close> returns the timeout at once when the event is set;
  otherwise the thread sleeps and \<open>slept\<close> is what the sleep gives: the ticks that were left, 0
  for a timeout, a negative error for a signal.
\<close>

definition wlan_event_wait :: "nat \<Rightarrow> u32 \<Rightarrow> int \<Rightarrow> os_state \<Rightarrow> (int \<times> os_state) option" where
  "wlan_event_wait h timeout slept s =
     (case handles s h of
        None \<Rightarrow> Some (0, s)
      | Some p \<Rightarrow>
          (case kobjs s p of
             Some (K_Event b) \<Rightarrow>
               Some (if b then sint timeout else slept, set_obj p (K_Event False) s)
           | _ \<Rightarrow> None))"

definition wlan_event_reset :: "nat \<Rightarrow> os_state \<Rightarrow> os_state option" where
  "wlan_event_reset h = on_handle h (set_event False)"

definition wlan_event_kill :: "nat \<Rightarrow> os_state \<Rightarrow> os_state option" where
  "wlan_event_kill h = on_handle h (\<lambda>p x s. free_handle h p s)"

section \<open>Worklets\<close>

text \<open>Neither the result of the allocation nor a handle is tested, except by \<^verbatim>\<open>kfree\<close>.\<close>

definition wlan_worklet_init :: "nat \<Rightarrow> callback \<Rightarrow> os_state \<Rightarrow> os_state option" where
  "wlan_worklet_init h cb = init_unchecked (K_Worklet cb 0) h"

definition wlan_worklet_kill :: "nat \<Rightarrow> os_state \<Rightarrow> os_state option" where
  "wlan_worklet_kill h s = do { s1 \<leftarrow> kfree (handles s h) s; Some (set_handle h None s1) }"

definition wlan_worklet_schedule :: "nat \<Rightarrow> os_state \<Rightarrow> os_state option" where
  "wlan_worklet_schedule h =
     deref_handle h (\<lambda>p x s.
       (case x of
          K_Worklet cb r \<Rightarrow> Some (queue_work p (set_obj p (K_Worklet cb 1) s))
        | _ \<Rightarrow> None))"

definition wlan_worklet_running :: "nat \<Rightarrow> os_state \<Rightarrow> u8 option" where
  "wlan_worklet_running h s =
     do { p \<leftarrow> handles s h;
          x \<leftarrow> kobjs s p;
          case x of K_Worklet cb r \<Rightarrow> Some r | _ \<Rightarrow> None }"

text \<open>
  \<^verbatim>\<open>_tdsp_worklet_routine\<close>: the kernel takes the item off its queue and calls the routine,
  which calls the driver's function (here it starts) and clears \<^verbatim>\<open>running\<close> when the function
  has returned.  Between the two steps other code runs, the function itself included.
\<close>

definition worklet_start :: "os_state \<Rightarrow> os_state option" where
  "worklet_start s =
     (case (worker s, work_pending s) of
        (None, p # ps) \<Rightarrow>
          (case kobjs s p of
             Some (K_Worklet cb r) \<Rightarrow>
               if r = 1 then Some (s\<lparr>work_pending := ps, worker := Some p, ran := ran s @ [cb]\<rparr>)
               else Some (s\<lparr>work_pending := ps\<rparr>)
           | _ \<Rightarrow> None)
      | _ \<Rightarrow> Some s)"

definition worklet_finish :: "os_state \<Rightarrow> os_state option" where
  "worklet_finish s =
     (case worker s of
        None \<Rightarrow> Some s
      | Some p \<Rightarrow>
          (case kobjs s p of
             Some (K_Worklet cb r) \<Rightarrow> Some (set_obj p (K_Worklet cb 0) (s\<lparr>worker := None\<rparr>))
           | _ \<Rightarrow> None))"

section \<open>Tasklets\<close>

definition wlan_tasklet_init :: "nat \<Rightarrow> callback \<Rightarrow> os_state \<Rightarrow> os_state option" where
  "wlan_tasklet_init h cb = init_handle (K_Tasklet cb 0) h"

definition wlan_tasklet_kill :: "nat \<Rightarrow> os_state \<Rightarrow> os_state option" where
  "wlan_tasklet_kill h =
     on_handle h (\<lambda>p x s. do { s1 \<leftarrow> tasklet_kill p x s; free_handle h p s1 })"

definition wlan_tasklet_schedule :: "nat \<Rightarrow> os_state \<Rightarrow> os_state option" where
  "wlan_tasklet_schedule h = on_handle h tasklet_schedule"

definition wlan_tasklet_hi_schedule :: "nat \<Rightarrow> os_state \<Rightarrow> os_state option" where
  "wlan_tasklet_hi_schedule h = on_handle h tasklet_hi_schedule"

definition wlan_tasklet_disable :: "nat \<Rightarrow> os_state \<Rightarrow> os_state option" where
  "wlan_tasklet_disable h = on_handle h tasklet_disable"

definition wlan_tasklet_enable :: "nat \<Rightarrow> os_state \<Rightarrow> os_state option" where
  "wlan_tasklet_enable h = on_handle h tasklet_enable"

section \<open>Timers\<close>

text \<open>
  The wrappers print a message for a NULL timer and go on with it.  The microseconds are computed
  in 32 bits and the expiry is truncated to an \<^verbatim>\<open>unsigned long\<close>.
\<close>

definition tdsp_ms_to_ticks :: "u32 \<Rightarrow> os_state \<Rightarrow> u32" where
  "tdsp_ms_to_ticks ms s = to_jiffies s (ms * 1000)"

definition wlan_timer_init :: "nat \<Rightarrow> callback \<Rightarrow> os_state \<Rightarrow> os_state option" where
  "wlan_timer_init h cb = init_unchecked (K_Timer cb) h"

definition wlan_timer_start :: "nat \<Rightarrow> u32 \<Rightarrow> os_state \<Rightarrow> os_state option" where
  "wlan_timer_start h timeout =
     deref_handle h (\<lambda>p x s. add_timer (jiffies s + tdsp_ms_to_ticks timeout s) p x s)"

definition wlan_timer_stop :: "nat \<Rightarrow> os_state \<Rightarrow> os_state option" where
  "wlan_timer_stop h = deref_handle h del_timer"

definition wlan_timer_reset :: "nat \<Rightarrow> u32 \<Rightarrow> os_state \<Rightarrow> os_state option" where
  "wlan_timer_reset h sec =
     deref_handle h (\<lambda>p x s. mod_timer (jiffies s + tdsp_ms_to_ticks sec s) p x s)"

definition wlan_timer_kill :: "nat \<Rightarrow> os_state \<Rightarrow> os_state option" where
  "wlan_timer_kill h = on_handle h (\<lambda>p x s. do { s1 \<leftarrow> del_timer p x s; free_handle h p s1 })"

section \<open>Random numbers and time\<close>

text \<open>
  The generator's static variable is the first component; \<open>j\<close> is \<^verbatim>\<open>jiffies\<close> when it is
  read.
\<close>

definition tdsp_get_random_byte :: "u32 \<Rightarrow> u32 \<Rightarrow> u32 \<times> u8" where
  "tdsp_get_random_byte j r =
     (let r1 = (29 * (r + j) + 73) mod 1021 in (r1, ucast (r1 mod 256)))"

fun random_bytes :: "u32 list \<Rightarrow> u32 \<Rightarrow> u32 \<times> u8 list" where
  "random_bytes [] r = (r, [])"
| "random_bytes (j # js) r =
     (let (r1, b) = tdsp_get_random_byte j r; (r2, bs) = random_bytes js r1 in (r2, b # bs))"

definition tdsp_get_random_dword :: "u32 \<Rightarrow> u32 \<Rightarrow> u32 \<Rightarrow> u32 \<Rightarrow> u32 \<Rightarrow> u32 \<times> u32" where
  "tdsp_get_random_dword j0 j1 j2 j3 r =
     (let (r1, bs) = random_bytes [j0, j1, j2, j3] r in (r1, rd32 bs))"

text \<open>
  A time is seconds and microseconds.  The function wants to return 1 when more than a second has
  passed since its last call; it adds the microseconds to a count of milliseconds.
\<close>

type_synonym timeval = "u32 \<times> u32"

definition time_downout_duration :: "timeval \<Rightarrow> timeval \<Rightarrow> u8 \<times> timeval" where
  "time_downout_duration now st =
     (if st = (0, 0) then (1, now)
      else let count_ms = (fst now - fst st) * 1000 + (snd now - snd st);
               ret = (if fst st \<le>s fst now \<and> 1000 <s count_ms then 1 else 0)
           in (ret, now))"

section \<open>The pairs that create and destroy objects\<close>

interpretation wlan_spinlock: os_object "K_Spinlock False" wlan_spin_lock_init wlan_spin_lock_kill
  by unfold_locales (auto simp: object_simps wlan_spin_lock_init_def wlan_spin_lock_kill_def)

interpretation wlan_event_obj: os_object "K_Event False" wlan_event_init wlan_event_kill
  by unfold_locales (auto simp: object_simps wlan_event_init_def wlan_event_kill_def)

interpretation wlan_tasklet_obj: os_object "K_Tasklet cb 0" "\<lambda>h. wlan_tasklet_init h cb" wlan_tasklet_kill for cb
  by unfold_locales (auto simp: object_simps wlan_tasklet_init_def wlan_tasklet_kill_def)

interpretation wlan_timer_obj: os_object "K_Timer cb" "\<lambda>h. wlan_timer_init h cb" wlan_timer_kill for cb
  by unfold_locales (auto simp: object_simps wlan_timer_init_def wlan_timer_kill_def)

interpretation wlan_worklet_obj: os_object "K_Worklet cb 0" "\<lambda>h. wlan_worklet_init h cb" wlan_worklet_kill for cb
  by unfold_locales (auto simp: object_simps wlan_worklet_init_def wlan_worklet_kill_def)

end
