(* ===== verification/Os_Bt.thy ===== *)
theory Os_Bt
  imports Os_Types
begin

text \<open>
  The Bluetooth driver's wrappers of the kernel: \<^verbatim>\<open>new_bluetooth/tdsp_mutex.c\<close>,
  \<^verbatim>\<open>tdsp_event.c\<close>, \<^verbatim>\<open>tdsp_tasklet.c\<close>, \<^verbatim>\<open>tdsp_timer.c\<close>, \<^verbatim>\<open>tdsp_time.h\<close>,
  the socket buffers of \<^verbatim>\<open>tdsp_skb.c\<close>, the work queues of \<^verbatim>\<open>tdsp_work.c\<close> and the test
  of \<^verbatim>\<open>tdsp_file.c\<close>.
\<close>

section \<open>Spin locks\<close>

definition bt_spin_lock_init :: "nat \<Rightarrow> os_state \<Rightarrow> os_state option" where
  "bt_spin_lock_init h = init_handle (K_Spinlock False) h"

definition bt_spin_lock :: "nat \<Rightarrow> os_state \<Rightarrow> os_state option" where
  "bt_spin_lock h = on_handle h spin_take"

definition bt_spin_lock_bh :: "nat \<Rightarrow> os_state \<Rightarrow> os_state option" where
  "bt_spin_lock_bh h = on_handle h (\<lambda>p x s. spin_take p x (s\<lparr>bh_off := Suc (bh_off s)\<rparr>))"

definition bt_spin_lock_irqsave :: "nat \<Rightarrow> bool \<Rightarrow> os_state \<Rightarrow> (bool \<times> os_state) option" where
  "bt_spin_lock_irqsave h flags s =
     (case handles s h of
        None \<Rightarrow> Some (flags, s)
      | Some p \<Rightarrow>
          do { x \<leftarrow> kobjs s p;
               s1 \<leftarrow> spin_take p x (s\<lparr>irqs_on := False\<rparr>);
               Some (irqs_on s, s1) })"

definition bt_spin_unlock :: "nat \<Rightarrow> os_state \<Rightarrow> os_state option" where
  "bt_spin_unlock h = on_handle h spin_release"

definition bt_spin_unlock_bh :: "nat \<Rightarrow> os_state \<Rightarrow> os_state option" where
  "bt_spin_unlock_bh h =
     on_handle h (\<lambda>p x s. map_option (bh_off_update (\<lambda>n. n - 1)) (spin_release p x s))"

definition bt_spin_unlock_irqrestroe :: "nat \<Rightarrow> bool \<Rightarrow> os_state \<Rightarrow> os_state option" where
  "bt_spin_unlock_irqrestroe h flags =
     on_handle h (\<lambda>p x s. map_option (irqs_on_update (\<lambda>_. flags)) (spin_release p x s))"

definition bt_spin_lock_kill :: "nat \<Rightarrow> os_state \<Rightarrow> os_state option" where
  "bt_spin_lock_kill h = on_handle h (\<lambda>p x s. free_handle h p s)"

text \<open>The result is 1 outside atomic context.\<close>

definition tdsp_isin_atomic :: "bool \<Rightarrow> u32" where
  "tdsp_isin_atomic in_atomic = (if \<not> in_atomic then 1 else 0)"

section \<open>Events\<close>

definition bt_event_init :: "nat \<Rightarrow> os_state \<Rightarrow> os_state option" where
  "bt_event_init h = init_handle (K_Event False) h"

definition bt_event_set :: "nat \<Rightarrow> os_state \<Rightarrow> os_state option" where
  "bt_event_set h = on_handle h (set_event True)"

definition bt_event_wait :: "nat \<Rightarrow> u32 \<Rightarrow> int \<Rightarrow> os_state \<Rightarrow> (int \<times> os_state) option" where
  "bt_event_wait h timeout slept s =
     (case handles s h of
        None \<Rightarrow> Some (0, s)
      | Some p \<Rightarrow>
          (case kobjs s p of
             Some (K_Event b) \<Rightarrow>
               Some (if b then sint timeout else slept, set_obj p (K_Event False) s)
           | _ \<Rightarrow> None))"

definition bt_event_kill :: "nat \<Rightarrow> os_state \<Rightarrow> os_state option" where
  "bt_event_kill h = on_handle h (\<lambda>p x s. free_handle h p s)"

text \<open>An event is set when its flag is exactly 1.\<close>

definition bt_event_flag_set :: "nat \<Rightarrow> u32 \<Rightarrow> os_state \<Rightarrow> os_state option" where
  "bt_event_flag_set h flag = on_handle h (set_event (flag = 1))"

section \<open>Tasklets and timers\<close>

definition bt_tasklet_init :: "nat \<Rightarrow> callback \<Rightarrow> os_state \<Rightarrow> os_state option" where
  "bt_tasklet_init h cb = init_handle (K_Tasklet cb 0) h"

definition bt_tasklet_kill :: "nat \<Rightarrow> os_state \<Rightarrow> os_state option" where
  "bt_tasklet_kill h =
     on_handle h (\<lambda>p x s. do { s1 \<leftarrow> tasklet_kill p x s; free_handle h p s1 })"

definition bt_tasklet_schedule :: "nat \<Rightarrow> os_state \<Rightarrow> os_state option" where
  "bt_tasklet_schedule h = on_handle h tasklet_schedule"

definition bt_tasklet_hi_schedule :: "nat \<Rightarrow> os_state \<Rightarrow> os_state option" where
  "bt_tasklet_hi_schedule h = on_handle h tasklet_hi_schedule"

definition bt_tasklet_disable :: "nat \<Rightarrow> os_state \<Rightarrow> os_state option" where
  "bt_tasklet_disable h = on_handle h tasklet_disable"

definition bt_tasklet_enable :: "nat \<Rightarrow> os_state \<Rightarrow> os_state option" where
  "bt_tasklet_enable h = on_handle h tasklet_enable"

text \<open>Only \<^verbatim>\<open>tdsp_timer_kill\<close> tests for NULL.\<close>

definition bt_ms_to_ticks :: "u32 \<Rightarrow> os_state \<Rightarrow> u32" where
  "bt_ms_to_ticks ms s = to_jiffies s (ms * 1000)"

definition bt_timer_init :: "nat \<Rightarrow> callback \<Rightarrow> os_state \<Rightarrow> os_state option" where
  "bt_timer_init h cb = init_unchecked (K_Timer cb) h"

definition bt_timer_start :: "nat \<Rightarrow> u32 \<Rightarrow> os_state \<Rightarrow> os_state option" where
  "bt_timer_start h timeout =
     deref_handle h (\<lambda>p x s. add_timer (jiffies s + bt_ms_to_ticks timeout s) p x s)"

definition bt_timer_stop :: "nat \<Rightarrow> os_state \<Rightarrow> os_state option" where
  "bt_timer_stop h = deref_handle h del_timer"

text \<open>On one processor no timer function runs while another thread does.\<close>

definition bt_timer_stop_sync :: "nat \<Rightarrow> os_state \<Rightarrow> os_state option" where
  "bt_timer_stop_sync h = deref_handle h del_timer"

definition bt_timer_reset :: "nat \<Rightarrow> u32 \<Rightarrow> os_state \<Rightarrow> os_state option" where
  "bt_timer_reset h sec =
     deref_handle h (\<lambda>p x s. mod_timer (jiffies s + bt_ms_to_ticks sec s) p x s)"

definition bt_timer_kill :: "nat \<Rightarrow> os_state \<Rightarrow> os_state option" where
  "bt_timer_kill h = on_handle h (\<lambda>p x s. do { s1 \<leftarrow> del_timer p x s; free_handle h p s1 })"

section \<open>Socket buffers\<close>

definition live_skb :: "os_state \<Rightarrow> addr \<Rightarrow> bool" where
  "live_skb s p = (case kobjs s p of Some (K_Skb k) \<Rightarrow> True | _ \<Rightarrow> False)"

text \<open>
  The kernel's \<^verbatim>\<open>skb_queue_tail\<close> and \<^verbatim>\<open>skb_dequeue\<close> write the list links of the buffer
  and of its neighbour; a buffer that is already in a queue would break that queue's links.
\<close>

definition skb_queue_tail :: "addr \<Rightarrow> addr \<Rightarrow> os_state \<Rightarrow> os_state option" where
  "skb_queue_tail q p s =
     (case (kobjs s q, kobjs s p) of
        (Some (K_Queue xs), Some (K_Skb k)) \<Rightarrow>
          if sk_queue k \<noteq> None \<or> (xs \<noteq> [] \<and> \<not> live_skb s (last xs)) then None
          else Some (set_obj q (K_Queue (xs @ [p])) (set_obj p (K_Skb (k\<lparr>sk_queue := Some q\<rparr>)) s))
      | _ \<Rightarrow> None)"

definition skb_dequeue :: "addr \<Rightarrow> os_state \<Rightarrow> (addr option \<times> os_state) option" where
  "skb_dequeue q s =
     (case kobjs s q of
        Some (K_Queue []) \<Rightarrow> Some (None, s)
      | Some (K_Queue (p # ps)) \<Rightarrow>
          (case kobjs s p of
             Some (K_Skb k) \<Rightarrow>
               if ps \<noteq> [] \<and> \<not> live_skb s (hd ps) then None
               else Some (Some p, set_obj q (K_Queue ps) (set_obj p (K_Skb (k\<lparr>sk_queue := None\<rparr>)) s))
           | _ \<Rightarrow> None)
      | _ \<Rightarrow> None)"

definition bt_skb_queue_init :: "nat \<Rightarrow> os_state \<Rightarrow> os_state option" where
  "bt_skb_queue_init h = init_handle (K_Queue []) h"

text \<open>The buffers still in the queue are not freed.\<close>

definition bt_skb_queue_release :: "nat \<Rightarrow> os_state \<Rightarrow> os_state option" where
  "bt_skb_queue_release h s =
     (case handles s h of None \<Rightarrow> Some s | Some p \<Rightarrow> free_handle h p s)"

definition bt_skb_get_queue_len :: "nat \<Rightarrow> os_state \<Rightarrow> nat option" where
  "bt_skb_get_queue_len h s =
     do { q \<leftarrow> handles s h;
          x \<leftarrow> kobjs s q;
          case x of K_Queue xs \<Rightarrow> Some (length xs) | _ \<Rightarrow> None }"

definition bt_skb_put_queue_tail :: "nat \<Rightarrow> nat \<Rightarrow> os_state \<Rightarrow> os_state option" where
  "bt_skb_put_queue_tail h sk s =
     (case (handles s h, handles s sk) of
        (Some q, Some p) \<Rightarrow> skb_queue_tail q p s
      | _ \<Rightarrow> Some s)"

definition bt_skb_is_queue_empty :: "nat \<Rightarrow> os_state \<Rightarrow> bool option" where
  "bt_skb_is_queue_empty h s =
     do { q \<leftarrow> handles s h;
          x \<leftarrow> kobjs s q;
          case x of K_Queue xs \<Rightarrow> Some (xs = []) | _ \<Rightarrow> None }"

definition bt_skb_dequeue_skb :: "nat \<Rightarrow> os_state \<Rightarrow> (addr option \<times> os_state) option" where
  "bt_skb_dequeue_skb h s = do { q \<leftarrow> handles s h; skb_dequeue q s }"

definition bt_skb_alloc_atomic :: "u32 \<Rightarrow> os_state \<Rightarrow> addr option \<times> os_state" where
  "bt_skb_alloc_atomic n s =
     kmalloc (K_Skb \<lparr>sk_len = 0, sk_room = skb_tailroom s n, sk_queue = None, sk_dev = None, sk_pkt_type = 0\<rparr>) s"

text \<open>The Bluetooth stack's allocator keeps 8 bytes in front of the data.\<close>

definition bt_bt_skb_alloc_atomic :: "u32 \<Rightarrow> os_state \<Rightarrow> addr option \<times> os_state" where
  "bt_bt_skb_alloc_atomic n s =
     kmalloc (K_Skb \<lparr>sk_len = 0, sk_room = skb_tailroom s (n + 8) - 8, sk_queue = None, sk_dev = None,
       sk_pkt_type = 0\<rparr>) s"

definition bt_skb_kfree :: "nat \<Rightarrow> os_state \<Rightarrow> os_state option" where
  "bt_skb_kfree sk s = (case handles s sk of None \<Rightarrow> Some s | Some p \<Rightarrow> free_handle sk p s)"

definition deref_skb :: "nat \<Rightarrow> (addr \<Rightarrow> sk_buff \<Rightarrow> 'a option) \<Rightarrow> os_state \<Rightarrow> 'a option" where
  "deref_skb sk f s =
     do { p \<leftarrow> handles s sk;
          x \<leftarrow> kobjs s p;
          case x of K_Skb k \<Rightarrow> f p k | _ \<Rightarrow> None }"

text \<open>
  \<^verbatim>\<open>skb_put\<close> stops the kernel when the buffer is too small; the pointer it returns is the
  buffer and the offset of the old end of the data.
\<close>

definition bt_put_to_skb :: "nat \<Rightarrow> u32 \<Rightarrow> os_state \<Rightarrow> ((addr \<times> nat) \<times> os_state) option" where
  "bt_put_to_skb sk n s =
     deref_skb sk (\<lambda>p k.
       if sk_room k < sk_len k + unat n then None
       else Some ((p, sk_len k), set_obj p (K_Skb (k\<lparr>sk_len := sk_len k + unat n\<rparr>)) s)) s"

definition bt_skb_get_len :: "nat \<Rightarrow> os_state \<Rightarrow> nat option" where
  "bt_skb_get_len sk s = deref_skb sk (\<lambda>p k. Some (sk_len k)) s"

definition bt_skb_get_dataptr :: "nat \<Rightarrow> os_state \<Rightarrow> (addr \<times> nat) option" where
  "bt_skb_get_dataptr sk s = deref_skb sk (\<lambda>p k. Some (p, 0)) s"

definition bt_skb_set_dev :: "nat \<Rightarrow> addr option \<Rightarrow> os_state \<Rightarrow> os_state option" where
  "bt_skb_set_dev sk dev s =
     (if handles s sk = None then Some s
      else deref_skb sk (\<lambda>p k. Some (set_obj p (K_Skb (k\<lparr>sk_dev := dev\<rparr>)) s)) s)"

text \<open>The control block's field has 8 bits.\<close>

definition bt_skb_set_btpkt_type :: "nat \<Rightarrow> u32 \<Rightarrow> os_state \<Rightarrow> os_state option" where
  "bt_skb_set_btpkt_type sk type s =
     (if handles s sk = None then Some s
      else deref_skb sk (\<lambda>p k. Some (set_obj p (K_Skb (k\<lparr>sk_pkt_type := type AND 0xFF\<rparr>)) s)) s)"

section \<open>Work queues\<close>

text \<open>What the kernel does with a work item, given by address, and a queue.\<close>

definition work_is_pending :: "addr \<Rightarrow> os_state \<Rightarrow> bool" where
  "work_is_pending p s \<longleftrightarrow> p \<in> snd ` set (wq_pending s) \<or> delayed s p \<noteq> None"

definition live_queue :: "addr option \<Rightarrow> os_state \<Rightarrow> addr option" where
  "live_queue aq s = do { q \<leftarrow> aq; x \<leftarrow> kobjs s q; if x = K_Workqueue then Some q else None }"

definition queue_work_on :: "addr option \<Rightarrow> addr \<Rightarrow> os_state \<Rightarrow> (u32 \<times> os_state) option" where
  "queue_work_on aq p s =
     (if work_is_pending p s then Some (0, s)
      else do { q \<leftarrow> live_queue aq s; Some (1, s\<lparr>wq_pending := wq_pending s @ [(q, p)]\<rparr>) })"

definition queue_delayed_work :: "addr option \<Rightarrow> addr \<Rightarrow> u32 \<Rightarrow> os_state \<Rightarrow> (u32 \<times> os_state) option" where
  "queue_delayed_work aq p delay s =
     (if delay = 0 then queue_work_on aq p s
      else if work_is_pending p s then Some (0, s)
      else do { q \<leftarrow> live_queue aq s; Some (1, s\<lparr>delayed := (delayed s)(p := Some q)\<rparr>) })"

definition cancel_delayed_work :: "addr \<Rightarrow> os_state \<Rightarrow> os_state" where
  "cancel_delayed_work p s =
     s\<lparr>wq_pending := filter (\<lambda>e. snd e \<noteq> p) (wq_pending s), delayed := (delayed s)(p := None)\<rparr>"

definition work_obj :: "addr \<Rightarrow> os_state \<Rightarrow> callback option" where
  "work_obj p s = (case kobjs s p of Some (K_Work cb) \<Rightarrow> Some cb | _ \<Rightarrow> None)"

text \<open>
  \<open>bt_work_routine\<close> is \<^verbatim>\<open>_tdsp_work_routine\<close> called on the first item of the queues,
  \<open>delay_expires\<close> the timer of a delayed item.
\<close>

definition bt_work_routine :: "os_state \<Rightarrow> os_state option" where
  "bt_work_routine s =
     (case wq_pending s of
        [] \<Rightarrow> Some s
      | (q, p) # es \<Rightarrow> do { cb \<leftarrow> work_obj p s; Some (s\<lparr>wq_pending := es, ran := ran s @ [cb]\<rparr>) })"

definition delay_expires :: "addr \<Rightarrow> os_state \<Rightarrow> os_state option" where
  "delay_expires p s =
     (case delayed s p of
        None \<Rightarrow> Some s
      | Some q \<Rightarrow>
          do { cb \<leftarrow> work_obj p s;
               q' \<leftarrow> (if queue_sets_timer_fn s then live_queue (Some q) s else None);
               Some (s\<lparr>delayed := (delayed s)(p := None), wq_pending := wq_pending s @ [(q', p)]\<rparr>) })"

fun run_all :: "addr list \<Rightarrow> os_state \<Rightarrow> os_state option" where
  "run_all [] s = Some s"
| "run_all (p # ps) s = do { cb \<leftarrow> work_obj p s; run_all ps (s\<lparr>ran := ran s @ [cb]\<rparr>) }"

definition flush_workqueue :: "addr \<Rightarrow> os_state \<Rightarrow> os_state option" where
  "flush_workqueue q s =
     do { s1 \<leftarrow> run_all (map snd (filter (\<lambda>e. fst e = q) (wq_pending s))) s;
          Some (s1\<lparr>wq_pending := filter (\<lambda>e. fst e \<noteq> q) (wq_pending s)\<rparr>) }"

definition bt_workthread_create :: "os_state \<Rightarrow> addr option \<times> os_state" where
  "bt_workthread_create s = kmalloc K_Workqueue s"

text \<open>The handle keeps the address of the destroyed queue.\<close>

definition bt_destory_workqueue :: "nat \<Rightarrow> os_state \<Rightarrow> os_state option" where
  "bt_destory_workqueue h s =
     (case handles s h of
        None \<Rightarrow> Some s
      | Some q \<Rightarrow> do { q' \<leftarrow> live_queue (Some q) s; s1 \<leftarrow> flush_workqueue q s; kfree (Some q) s1 })"

definition bt_delaywork_init :: "nat \<Rightarrow> callback \<Rightarrow> os_state \<Rightarrow> os_state option" where
  "bt_delaywork_init h cb = init_handle (K_Work cb) h"

text \<open>A NULL queue or work is reported and then used.\<close>

definition bt_queue_delayedwork :: "nat \<Rightarrow> nat \<Rightarrow> u32 \<Rightarrow> os_state \<Rightarrow> (u32 \<times> os_state) option" where
  "bt_queue_delayedwork h w delay s =
     do { p \<leftarrow> handles s w;
          cb \<leftarrow> work_obj p s;
          queue_delayed_work (handles s h) p delay s }"

definition bt_cancel_delayedwork :: "nat \<Rightarrow> nat \<Rightarrow> os_state \<Rightarrow> os_state option" where
  "bt_cancel_delayedwork h w s =
     (case (handles s h, handles s w) of
        (Some q, Some p) \<Rightarrow> do { cb \<leftarrow> work_obj p s; Some (cancel_delayed_work p s) }
      | _ \<Rightarrow> Some s)"

text \<open>The handle keeps the address of the freed work.\<close>

definition bt_delaywork_release :: "nat \<Rightarrow> nat \<Rightarrow> os_state \<Rightarrow> os_state option" where
  "bt_delaywork_release h w s =
     (case (handles s h, handles s w) of
        (Some q, Some p) \<Rightarrow>
          do { cb \<leftarrow> work_obj p s; kfree (Some p) (cancel_delayed_work p s) }
      | _ \<Rightarrow> Some s)"

definition bt_work_init :: "nat \<Rightarrow> callback \<Rightarrow> os_state \<Rightarrow> os_state option" where
  "bt_work_init h cb = init_unchecked (K_Work cb) h"

definition bt_queue_work :: "nat \<Rightarrow> nat \<Rightarrow> os_state \<Rightarrow> (u32 \<times> os_state) option" where
  "bt_queue_work h w s =
     do { p \<leftarrow> handles s w;
          cb \<leftarrow> work_obj p s;
          queue_work_on (handles s h) p s }"

definition bt_work_release :: "nat \<Rightarrow> os_state \<Rightarrow> os_state option" where
  "bt_work_release w s = (case handles s w of None \<Rightarrow> Some s | Some p \<Rightarrow> free_handle w p s)"

section \<open>Files\<close>

text \<open>The address is NULL or one of the 4095 error values.\<close>

definition tdsp_open_success :: "u32 \<Rightarrow> u32" where
  "tdsp_open_success file_p = (if file_p = 0 \<or> - 4095 \<le> file_p then 1 else 0)"

section \<open>The pairs that create and destroy objects\<close>

interpretation bt_spinlock: os_object "K_Spinlock False" bt_spin_lock_init bt_spin_lock_kill
  by unfold_locales (auto simp: object_simps bt_spin_lock_init_def bt_spin_lock_kill_def)

interpretation bt_event_obj: os_object "K_Event False" bt_event_init bt_event_kill
  by unfold_locales (auto simp: object_simps bt_event_init_def bt_event_kill_def)

interpretation bt_tasklet_obj: os_object "K_Tasklet cb 0" "\<lambda>h. bt_tasklet_init h cb" bt_tasklet_kill for cb
  by unfold_locales (auto simp: object_simps bt_tasklet_init_def bt_tasklet_kill_def)

interpretation bt_timer_obj: os_object "K_Timer cb" "\<lambda>h. bt_timer_init h cb" bt_timer_kill for cb
  by unfold_locales (auto simp: object_simps bt_timer_init_def bt_timer_kill_def)

interpretation bt_skb_queue: os_object "K_Queue []" bt_skb_queue_init bt_skb_queue_release
  by unfold_locales (auto simp: object_simps bt_skb_queue_init_def bt_skb_queue_release_def)

interpretation bt_work_obj: os_object "K_Work cb" "\<lambda>h. bt_work_init h cb" bt_work_release for cb
  by unfold_locales (auto simp: object_simps bt_work_init_def bt_work_release_def)

end
