(* ===== verification/Os_Spec.thy ===== *)
theory Os_Spec
  imports Os_Wlan Os_Bt
begin

text \<open>
  What the wrappers promise.  \<open>wlan_call\<close> is a call of one of the WLAN driver's wrappers or a
  step in which the kernel runs something that is pending; \<open>call_safe\<close> is the exact condition,
  on the state the call is made in, under which it returns and leaves nothing dangling.
\<close>

section \<open>Calls\<close>

datatype wlan_call =
  Spin_Init nat | Spin_Lock nat | Spin_Lock_Bh nat | Spin_Lock_Irq nat bool | Spin_Unlock nat
| Spin_Unlock_Irq nat bool | Spin_Unlock_Bh nat | Spin_Kill nat
| Event_Init nat | Event_Set nat | Event_Wait nat u32 int | Event_Reset nat | Event_Kill nat
| Worklet_Init nat callback | Worklet_Kill nat | Worklet_Schedule nat | Worklet_Running nat
| Tasklet_Init nat callback | Tasklet_Kill nat | Tasklet_Schedule nat | Tasklet_Hi_Schedule nat
| Tasklet_Disable nat | Tasklet_Enable nat
| Timer_Init nat callback | Timer_Start nat u32 | Timer_Stop nat | Timer_Reset nat u32 | Timer_Kill nat
| Work_Start | Work_Finish | Softirq | Timer_Fires addr

fun wlan_exec :: "wlan_call \<Rightarrow> os_state \<Rightarrow> os_state option" where
  "wlan_exec (Spin_Init h) = wlan_spin_lock_init h"
| "wlan_exec (Spin_Lock h) = wlan_spin_lock h"
| "wlan_exec (Spin_Lock_Bh h) = wlan_spin_lock_bh h"
| "wlan_exec (Spin_Lock_Irq h fl) = (\<lambda>s. map_option snd (wlan_spin_lock_irqsave h fl s))"
| "wlan_exec (Spin_Unlock h) = wlan_spin_unlock h"
| "wlan_exec (Spin_Unlock_Irq h fl) = wlan_spin_unlock_irqrestroe h fl"
| "wlan_exec (Spin_Unlock_Bh h) = wlan_spin_unlock_bh h"
| "wlan_exec (Spin_Kill h) = wlan_spin_lock_kill h"
| "wlan_exec (Event_Init h) = wlan_event_init h"
| "wlan_exec (Event_Set h) = wlan_event_set h"
| "wlan_exec (Event_Wait h t r) = (\<lambda>s. map_option snd (wlan_event_wait h t r s))"
| "wlan_exec (Event_Reset h) = wlan_event_reset h"
| "wlan_exec (Event_Kill h) = wlan_event_kill h"
| "wlan_exec (Worklet_Init h cb) = wlan_worklet_init h cb"
| "wlan_exec (Worklet_Kill h) = wlan_worklet_kill h"
| "wlan_exec (Worklet_Schedule h) = wlan_worklet_schedule h"
| "wlan_exec (Worklet_Running h) = (\<lambda>s. map_option (\<lambda>_. s) (wlan_worklet_running h s))"
| "wlan_exec (Tasklet_Init h cb) = wlan_tasklet_init h cb"
| "wlan_exec (Tasklet_Kill h) = wlan_tasklet_kill h"
| "wlan_exec (Tasklet_Schedule h) = wlan_tasklet_schedule h"
| "wlan_exec (Tasklet_Hi_Schedule h) = wlan_tasklet_hi_schedule h"
| "wlan_exec (Tasklet_Disable h) = wlan_tasklet_disable h"
| "wlan_exec (Tasklet_Enable h) = wlan_tasklet_enable h"
| "wlan_exec (Timer_Init h cb) = wlan_timer_init h cb"
| "wlan_exec (Timer_Start h t) = wlan_timer_start h t"
| "wlan_exec (Timer_Stop h) = wlan_timer_stop h"
| "wlan_exec (Timer_Reset h t) = wlan_timer_reset h t"
| "wlan_exec (Timer_Kill h) = wlan_timer_kill h"
| "wlan_exec Work_Start = worklet_start"
| "wlan_exec Work_Finish = worklet_finish"
| "wlan_exec Softirq = run_tasklet"
| "wlan_exec (Timer_Fires p) = fire_timer p"

text \<open>The handle of a call, with the kind its C type says it has.\<close>

fun call_handle :: "wlan_call \<Rightarrow> (nat \<times> kkind) option" where
  "call_handle (Spin_Init h) = Some (h, Spinlock)"
| "call_handle (Spin_Lock h) = Some (h, Spinlock)"
| "call_handle (Spin_Lock_Bh h) = Some (h, Spinlock)"
| "call_handle (Spin_Lock_Irq h fl) = Some (h, Spinlock)"
| "call_handle (Spin_Unlock h) = Some (h, Spinlock)"
| "call_handle (Spin_Unlock_Irq h fl) = Some (h, Spinlock)"
| "call_handle (Spin_Unlock_Bh h) = Some (h, Spinlock)"
| "call_handle (Spin_Kill h) = Some (h, Spinlock)"
| "call_handle (Event_Init h) = Some (h, Event)"
| "call_handle (Event_Set h) = Some (h, Event)"
| "call_handle (Event_Wait h t r) = Some (h, Event)"
| "call_handle (Event_Reset h) = Some (h, Event)"
| "call_handle (Event_Kill h) = Some (h, Event)"
| "call_handle (Worklet_Init h cb) = Some (h, Worklet)"
| "call_handle (Worklet_Kill h) = Some (h, Worklet)"
| "call_handle (Worklet_Schedule h) = Some (h, Worklet)"
| "call_handle (Worklet_Running h) = Some (h, Worklet)"
| "call_handle (Tasklet_Init h cb) = Some (h, Tasklet)"
| "call_handle (Tasklet_Kill h) = Some (h, Tasklet)"
| "call_handle (Tasklet_Schedule h) = Some (h, Tasklet)"
| "call_handle (Tasklet_Hi_Schedule h) = Some (h, Tasklet)"
| "call_handle (Tasklet_Disable h) = Some (h, Tasklet)"
| "call_handle (Tasklet_Enable h) = Some (h, Tasklet)"
| "call_handle (Timer_Init h cb) = Some (h, Timer)"
| "call_handle (Timer_Start h t) = Some (h, Timer)"
| "call_handle (Timer_Stop h) = Some (h, Timer)"
| "call_handle (Timer_Reset h t) = Some (h, Timer)"
| "call_handle (Timer_Kill h) = Some (h, Timer)"
| "call_handle _ = None"

definition call_typed :: "(nat \<Rightarrow> kkind) \<Rightarrow> wlan_call \<Rightarrow> bool" where
  "call_typed ty c = (case call_handle c of None \<Rightarrow> True | Some (h, k) \<Rightarrow> ty h = k)"

text \<open>
  A lock is not taken twice; the unchecked allocations succeed; the unchecked handles are not NULL;
  a timer is not started twice; a worklet is killed only when its routine is neither pending nor
  running, a scheduled tasklet only when it is enabled.
\<close>

definition unlocked :: "nat \<Rightarrow> os_state \<Rightarrow> bool" where
  "unlocked h s = (case handles s h of None \<Rightarrow> True | Some p \<Rightarrow> kobjs s p = Some (K_Spinlock False))"

definition enabled_if_scheduled :: "nat \<Rightarrow> os_state \<Rightarrow> bool" where
  "enabled_if_scheduled h s =
     (case handles s h of
        None \<Rightarrow> True
      | Some p \<Rightarrow> tasklet_scheduled p s \<longrightarrow> (case kobjs s p of Some (K_Tasklet cb n) \<Rightarrow> n = 0 | _ \<Rightarrow> False))"

definition at_rest :: "nat \<Rightarrow> os_state \<Rightarrow> bool" where
  "at_rest h s =
     (case handles s h of None \<Rightarrow> True | Some p \<Rightarrow> p \<notin> set (work_pending s) \<and> worker s \<noteq> Some p)"

fun call_safe :: "wlan_call \<Rightarrow> os_state \<Rightarrow> bool" where
  "call_safe (Spin_Lock h) s = unlocked h s"
| "call_safe (Spin_Lock_Bh h) s = unlocked h s"
| "call_safe (Spin_Lock_Irq h fl) s = unlocked h s"
| "call_safe (Worklet_Init h cb) s = kmalloc_ok s (next_obj s)"
| "call_safe (Worklet_Kill h) s = at_rest h s"
| "call_safe (Worklet_Schedule h) s = (handles s h \<noteq> None)"
| "call_safe (Worklet_Running h) s = (handles s h \<noteq> None)"
| "call_safe (Tasklet_Kill h) s = enabled_if_scheduled h s"
| "call_safe (Timer_Init h cb) s = kmalloc_ok s (next_obj s)"
| "call_safe (Timer_Start h t) s = (case handles s h of None \<Rightarrow> False | Some p \<Rightarrow> armed s p = None)"
| "call_safe (Timer_Stop h) s = (handles s h \<noteq> None)"
| "call_safe (Timer_Reset h t) s = (handles s h \<noteq> None)"
| "call_safe _ s = True"

section \<open>Every call is typed\<close>

definition fine :: "(nat \<Rightarrow> kkind) \<Rightarrow> os_state option \<Rightarrow> bool" where
  "fine ty r = (\<exists>s'. r = Some s' \<and> os_typed ty s')"

lemma fine_Some [simp]: "fine ty (Some s) = os_typed ty s"
  by (simp add: fine_def)

lemma fine_None [simp]: "\<not> fine ty None"
  by (simp add: fine_def)

lemma fine_bind: "fine ty r \<Longrightarrow> (\<And>s'. r = Some s' \<Longrightarrow> os_typed ty s' \<Longrightarrow> fine ty (g s')) \<Longrightarrow> fine ty (r \<bind> g)"
  by (auto simp: fine_def)

lemma fine_on_handle:
  assumes "os_typed ty s"
    and "\<And>p x. handles s h = Some p \<Longrightarrow> kobjs s p = Some x \<Longrightarrow> kind_of x = ty h \<Longrightarrow> fine ty (f p x s)"
  shows "fine ty (on_handle h f s)"
proof (cases "handles s h")
  case None
  then show ?thesis using assms by (simp add: on_handle_def)
next
  case (Some p)
  obtain x where "kobjs s p = Some x" "kind_of x = ty h" using live_obj [OF assms(1) Some] .
  then show ?thesis using Some assms(2) [OF Some] by (simp add: on_handle_def)
qed

lemma fine_deref_handle:
  assumes "os_typed ty s" "handles s h \<noteq> None"
    and "\<And>p x. handles s h = Some p \<Longrightarrow> kobjs s p = Some x \<Longrightarrow> kind_of x = ty h \<Longrightarrow> fine ty (f p x s)"
  shows "fine ty (deref_handle h f s)"
proof (cases "handles s h")
  case None
  then show ?thesis using assms by (simp add: deref_handle_def)
next
  case (Some p)
  obtain x where "kobjs s p = Some x" "kind_of x = ty h" using live_obj [OF assms(1) Some] .
  then show ?thesis using Some assms(3) [OF Some] by (simp add: deref_handle_def)
qed

lemma fine_init_handle:
  assumes "os_typed ty s" "kind_of x = ty h"
  shows "fine ty (init_handle x h s)"
proof (cases "kmalloc_ok s (next_obj s)")
  case True
  then show ?thesis using typed_alloc [OF assms True] by (metis fine_Some)
next
  case False
  then show ?thesis
    using typed_no_alloc [OF assms(1)] by (simp add: init_handle_def kmalloc_def Let_def)
qed

lemma fine_free:
  "os_typed ty s \<Longrightarrow> handles s h = Some p \<Longrightarrow> idle p s \<Longrightarrow> fine ty (free_handle h p s)"
  using typed_free by (metis fine_Some)

text \<open>An object of a kind the kernel does not run is never referred to by it.\<close>

lemma idle_kind:
  assumes "os_typed ty s" "kobjs s p = Some x"
    and "kind_of x \<notin> {Worklet, Tasklet, Timer}"
  shows "idle p s"
proof -
  have no: "\<not> live k s p" if "k \<in> {Worklet, Tasklet, Timer}" for k
    using assms(2,3) that by (auto simp: live_def)
  show ?thesis
    using assms(1) no unfolding os_typed_def runs_typed_def idle_def tasklet_scheduled_def
    by (metis Un_iff insertCI set_append)
qed

lemma fine_set_obj:
  "os_typed ty s \<Longrightarrow> kobjs s p = Some x \<Longrightarrow> kind_of y = kind_of x \<Longrightarrow> os_typed ty (set_obj p y s)"
  by (rule typed_set_obj) (auto simp: live_def)

lemma typed_live_runs:
  assumes "os_typed ty s"
  shows "p \<in> set (work_pending s) \<Longrightarrow> live Worklet s p" "worker s = Some p \<Longrightarrow> live Worklet s p"
    "p \<in> set (tasklets s) \<Longrightarrow> live Tasklet s p" "p \<in> set (hi_tasklets s) \<Longrightarrow> live Tasklet s p"
    "armed s p \<noteq> None \<Longrightarrow> live Timer s p"
  using assms by (auto simp: os_typed_def runs_typed_def)

lemma live_unique: "live k s p \<Longrightarrow> kobjs s p = Some x \<Longrightarrow> kind_of x = k"
  by (auto simp: live_def)

text \<open>So an object of one of those kinds is idle when its own queue does not hold it.\<close>

lemma idle_tasklet:
  "os_typed ty s \<Longrightarrow> kobjs s p = Some (K_Tasklet cb n) \<Longrightarrow> \<not> tasklet_scheduled p s \<Longrightarrow> idle p s"
  unfolding idle_def using typed_live_runs [of ty s p] live_unique [of _ s p] by fastforce

lemma idle_timer:
  "os_typed ty s \<Longrightarrow> kobjs s p = Some (K_Timer cb) \<Longrightarrow> armed s p = None \<Longrightarrow> idle p s"
  unfolding idle_def tasklet_scheduled_def
  using typed_live_runs [of ty s p] live_unique [of _ s p] by fastforce

lemma idle_worklet:
  "os_typed ty s \<Longrightarrow> kobjs s p = Some (K_Worklet cb r) \<Longrightarrow> p \<notin> set (work_pending s) \<Longrightarrow>
   worker s \<noteq> Some p \<Longrightarrow> idle p s"
  unfolding idle_def tasklet_scheduled_def
  using typed_live_runs [of ty s p] live_unique [of _ s p] by fastforce

text \<open>Changes of what is queued.\<close>

lemma typed_tasklets:
  assumes "os_typed ty s" "set ts \<union> set hs \<subseteq> {p. live Tasklet s p}"
  shows "os_typed ty (s\<lparr>tasklets := ts, hi_tasklets := hs\<rparr>)"
  using typed_live_runs [OF assms(1)] assms(1)
  by (intro typed_runs [OF assms(1)]) (use assms(2) in \<open>auto simp: os_typed_def\<close>)

lemma typed_armed:
  assumes "os_typed ty s" "\<And>p. a p \<noteq> None \<Longrightarrow> live Timer s p"
  shows "os_typed ty (s\<lparr>armed := a\<rparr>)"
  using typed_live_runs [OF assms(1)] assms(1)
  by (intro typed_runs [OF assms(1)]) (use assms(2) in \<open>auto simp: os_typed_def\<close>)

lemma typed_work:
  assumes "os_typed ty s" "set w \<subseteq> {p. live Worklet s p}" "\<And>p. v = Some p \<Longrightarrow> live Worklet s p"
  shows "os_typed ty (s\<lparr>work_pending := w, worker := v\<rparr>)"
  using typed_live_runs [OF assms(1)] assms(1)
  by (intro typed_runs [OF assms(1)]) (use assms(2,3) in \<open>auto simp: os_typed_def\<close>)

lemma typed_pending:
  assumes "os_typed ty s" "set w \<subseteq> {p. live Worklet s p}"
  shows "os_typed ty (s\<lparr>work_pending := w\<rparr>)"
  using typed_live_runs [OF assms(1)] assms(1)
  by (intro typed_runs [OF assms(1)]) (use assms(2) in \<open>auto simp: os_typed_def\<close>)

section \<open>The primitives are typed\<close>

lemma fine_spin_take:
  "os_typed ty s \<Longrightarrow> kobjs s p = Some (K_Spinlock False) \<Longrightarrow> fine ty (spin_take p (K_Spinlock False) s)"
  by (simp add: spin_take_def fine_set_obj)

lemma fine_spin_release:
  "os_typed ty s \<Longrightarrow> kobjs s p = Some x \<Longrightarrow> kind_of x = Spinlock \<Longrightarrow> fine ty (spin_release p x s)"
  by (auto simp: spin_release_def fine_set_obj)

lemma fine_map_frame:
  "fine ty r \<Longrightarrow> fine ty (map_option (irqs_on_update g) r)"
  "fine ty r \<Longrightarrow> fine ty (map_option (bh_off_update n) r)"
  by (auto simp: fine_def os_typed_def handles_typed_def runs_typed_def live_def)

lemma fine_set_event:
  "os_typed ty s \<Longrightarrow> kobjs s p = Some x \<Longrightarrow> kind_of x = Event \<Longrightarrow> fine ty (set_event b p x s)"
  by (auto simp: set_event_def fine_set_obj)

lemma fine_tasklet_ops:
  assumes "os_typed ty s" "kobjs s p = Some x" "kind_of x = Tasklet"
  shows "fine ty (tasklet_schedule p x s)" "fine ty (tasklet_hi_schedule p x s)"
    "fine ty (tasklet_disable p x s)" "fine ty (tasklet_enable p x s)"
proof -
  have p: "live Tasklet s p" using assms by (simp add: live_def)
  show "fine ty (tasklet_schedule p x s)" "fine ty (tasklet_hi_schedule p x s)"
    using typed_tasklets [OF assms(1), of "tasklets s @ [p]" "hi_tasklets s"]
      typed_tasklets [OF assms(1), of "tasklets s" "hi_tasklets s @ [p]"]
      typed_live_runs(3,4) [OF assms(1)] assms p
    by (auto simp: tasklet_schedule_def tasklet_hi_schedule_def)
  show "fine ty (tasklet_disable p x s)" "fine ty (tasklet_enable p x s)"
    using assms by (auto simp: tasklet_disable_def tasklet_enable_def intro!: fine_set_obj)
qed

lemma fine_tasklet_kill:
  assumes "os_typed ty s" "handles s h = Some p" "kobjs s p = Some (K_Tasklet cb n)"
    "tasklet_scheduled p s \<longrightarrow> n = 0"
  shows "fine ty (do { s1 \<leftarrow> tasklet_kill p (K_Tasklet cb n) s; free_handle h p s1 })"
proof (cases "tasklet_scheduled p s")
  case False
  then show ?thesis
    using fine_free [OF assms(1,2)] idle_tasklet [OF assms(1,3)] by (simp add: tasklet_kill_def)
next
  case True
  let ?s = "s\<lparr>tasklets := filter (\<lambda>q. q \<noteq> p) (tasklets s),
    hi_tasklets := filter (\<lambda>q. q \<noteq> p) (hi_tasklets s)\<rparr>"
  have s: "os_typed ty (?s\<lparr>ran := ran s @ [cb]\<rparr>)"
    unfolding typed_frame by (rule typed_tasklets [OF assms(1)])
      (use typed_live_runs(3,4) [OF assms(1)] in auto)
  have "idle p (?s\<lparr>ran := ran s @ [cb]\<rparr>)"
    using idle_tasklet [OF s, of p cb n] assms(3) by (simp add: tasklet_scheduled_def)
  then show ?thesis
    using fine_free [OF s, of h p] assms True by (simp add: tasklet_kill_def)
qed

lemma fine_timer_ops:
  assumes "os_typed ty s" "kobjs s p = Some x" "kind_of x = Timer"
  shows "armed s p = None \<Longrightarrow> fine ty (add_timer t p x s)" "fine ty (mod_timer t p x s)"
    "fine ty (del_timer p x s)"
  using assms typed_live_runs(5) [OF assms(1)]
  by (auto simp: add_timer_def mod_timer_def del_timer_def live_def intro!: typed_armed split: if_splits)

lemma fine_timer_kill:
  assumes "os_typed ty s" "handles s h = Some p" "kobjs s p = Some (K_Timer cb)"
  shows "fine ty (do { s1 \<leftarrow> del_timer p (K_Timer cb) s; free_handle h p s1 })"
proof -
  let ?s = "s\<lparr>armed := (armed s)(p := None)\<rparr>"
  have s: "os_typed ty ?s" using fine_timer_ops(3) [OF assms(1,3)] by (simp add: del_timer_def)
  have "idle p ?s" using idle_timer [OF s, of p cb] assms(3) by simp
  then show ?thesis using fine_free [OF s, of h p] assms(2) by (simp add: del_timer_def)
qed

lemma fine_worklet_schedule:
  assumes "os_typed ty s" "kobjs s p = Some (K_Worklet cb r)"
  shows "os_typed ty (queue_work p (set_obj p (K_Worklet cb 1) s))"
proof -
  have s: "os_typed ty (set_obj p (K_Worklet cb 1) s)" using fine_set_obj [OF assms] by simp
  have "live Worklet (set_obj p (K_Worklet cb 1) s) p" by (simp add: live_def)
  then show ?thesis
    using s typed_live_runs(1) [OF s] by (auto simp: queue_work_def intro!: typed_pending)
qed

section \<open>The steps of the kernel are typed\<close>

lemma fine_worklet_start:
  assumes "os_typed ty s" shows "fine ty (worklet_start s)"
proof (cases "worker s = None \<and> work_pending s \<noteq> []")
  case True
  then obtain p ps where w: "worker s = None" "work_pending s = p # ps" by (meson neq_Nil_conv)
  then obtain cb r where x: "kobjs s p = Some (K_Worklet cb r)" "live Worklet s p"
    using typed_live_runs(1) [OF assms, of p] by (auto simp: live_def)
  have "os_typed ty (s\<lparr>work_pending := ps, worker := v\<rparr>)" if "v = None \<or> v = Some p" for v
    using that typed_work [OF assms, of ps v] typed_live_runs(1) [OF assms] w x(2) by auto
  then have "os_typed ty (s\<lparr>work_pending := ps, worker := Some p\<rparr>)"
      "os_typed ty (s\<lparr>work_pending := ps, worker := None\<rparr>)" by auto
  moreover have "s\<lparr>work_pending := ps, worker := None\<rparr> = s\<lparr>work_pending := ps\<rparr>" using w(1) by simp
  ultimately show ?thesis using w x by (simp add: worklet_start_def)
next
  case False
  then show ?thesis using assms by (auto simp: worklet_start_def split: option.splits list.splits)
qed

lemma fine_worklet_finish:
  assumes "os_typed ty s" shows "fine ty (worklet_finish s)"
proof (cases "worker s")
  case None
  then show ?thesis using assms by (simp add: worklet_finish_def)
next
  case (Some p)
  then obtain cb r where x: "kobjs s p = Some (K_Worklet cb r)"
    using typed_live_runs(2) [OF assms, of p] by (auto simp: live_def)
  have "os_typed ty (s\<lparr>worker := None\<rparr>)"
    using typed_work [OF assms, of "work_pending s" None] typed_live_runs(1) [OF assms] by auto
  then show ?thesis using fine_set_obj [of ty "s\<lparr>worker := None\<rparr>" p] x Some
    by (simp add: worklet_finish_def)
qed

lemma fine_fire_timer:
  assumes "os_typed ty s" shows "fine ty (fire_timer p s)"
proof (cases "armed s p")
  case None
  then show ?thesis using assms by (simp add: fire_timer_def)
next
  case (Some t)
  then obtain cb where x: "kobjs s p = Some (K_Timer cb)"
    using typed_live_runs(5) [OF assms, of p] by (auto simp: live_def)
  have "os_typed ty (s\<lparr>armed := (armed s)(p := None)\<rparr>)"
    using fine_timer_ops(3) [OF assms x] by (simp add: del_timer_def)
  then show ?thesis using Some x by (simp add: fire_timer_def)
qed

lemma rec_swap: "s\<lparr>tasklets := ts, hi_tasklets := hs\<rparr> = s\<lparr>hi_tasklets := hs, tasklets := ts\<rparr>"
  by simp

lemma fine_run_tasklet:
  assumes "os_typed ty s" shows "fine ty (run_tasklet s)"
proof (cases "hi_tasklets s @ tasklets s")
  case Nil
  then show ?thesis using assms by (simp add: run_tasklet_def)
next
  case (Cons p ps)
  have p: "live Tasklet s p" using typed_live_runs(3,4) [OF assms, of p] Cons
    by (metis Un_iff list.set_intros(1) set_append)
  then obtain cb n where x: "kobjs s p = Some (K_Tasklet cb n)" by (auto simp: live_def)
  have t: "os_typed ty (s\<lparr>tasklets := ts, hi_tasklets := hs\<rparr>)"
    if "set ts \<subseteq> insert p (set (tasklets s))" "set hs \<subseteq> set (hi_tasklets s)" for ts hs
    using typed_tasklets [OF assms, of ts hs] that typed_live_runs(3,4) [OF assms] p by blast
  show ?thesis
  proof (cases "hi_tasklets s")
    case Nil
    then have "set (tl (tasklets s)) \<subseteq> set (tasklets s)" by (cases "tasklets s") auto
    then have "os_typed ty (s\<lparr>tasklets := tl (tasklets s)\<rparr>)"
        "os_typed ty (s\<lparr>tasklets := tl (tasklets s) @ [p]\<rparr>)"
      using t [of "tl (tasklets s)" "hi_tasklets s"] t [of "tl (tasklets s) @ [p]" "hi_tasklets s"]
      by auto
    then show ?thesis using Nil Cons x by (simp add: run_tasklet_def Let_def)
  next
    case (Cons q hs)
    then have "os_typed ty (s\<lparr>hi_tasklets := hs\<rparr>)"
        "os_typed ty (s\<lparr>hi_tasklets := hs, tasklets := tasklets s @ [p]\<rparr>)"
      using t [of "tasklets s" hs] t [of "tasklets s @ [p]" hs] by (auto simp: rec_swap)
    then show ?thesis using Cons \<open>hi_tasklets s @ tasklets s = p # ps\<close> x by (simp add: run_tasklet_def Let_def)
  qed
qed

section \<open>The wrappers are typed\<close>

lemma fine_spin_calls:
  assumes "os_typed ty s" "ty h = Spinlock"
  shows "fine ty (wlan_spin_lock_init h s)" "fine ty (wlan_spin_unlock h s)"
    "fine ty (wlan_spin_unlock_bh h s)" "fine ty (wlan_spin_unlock_irqrestroe h fl s)"
    "fine ty (wlan_spin_lock_kill h s)"
    "unlocked h s \<Longrightarrow> fine ty (wlan_spin_lock h s)"
    "unlocked h s \<Longrightarrow> fine ty (wlan_spin_lock_bh h s)"
    "unlocked h s \<Longrightarrow> fine ty (map_option snd (wlan_spin_lock_irqsave h fl s))"
proof -
  show "fine ty (wlan_spin_lock_init h s)"
    using assms by (simp add: wlan_spin_lock_init_def fine_init_handle)
  show "fine ty (wlan_spin_unlock h s)" "fine ty (wlan_spin_unlock_bh h s)"
    "fine ty (wlan_spin_unlock_irqrestroe h fl s)"
    unfolding wlan_spin_unlock_def wlan_spin_unlock_bh_def wlan_spin_unlock_irqrestroe_def
    using assms by (auto intro!: fine_on_handle fine_map_frame fine_spin_release)
  show "fine ty (wlan_spin_lock_kill h s)"
    unfolding wlan_spin_lock_kill_def
    using assms by (auto intro!: fine_on_handle fine_free idle_kind)
  show "unlocked h s \<Longrightarrow> fine ty (wlan_spin_lock h s)" "unlocked h s \<Longrightarrow> fine ty (wlan_spin_lock_bh h s)"
    unfolding wlan_spin_lock_def wlan_spin_lock_bh_def
    using assms by (auto intro!: fine_on_handle fine_spin_take simp: unlocked_def)
  show "unlocked h s \<Longrightarrow> fine ty (map_option snd (wlan_spin_lock_irqsave h fl s))"
    using assms fine_spin_take [of ty "s\<lparr>irqs_on := False\<rparr>"]
    by (auto simp: wlan_spin_lock_irqsave_def unlocked_def spin_take_def fine_def split: option.splits)
qed

lemma fine_event_calls:
  assumes "os_typed ty s" "ty h = Event"
  shows "fine ty (wlan_event_init h s)" "fine ty (wlan_event_set h s)" "fine ty (wlan_event_reset h s)"
    "fine ty (wlan_event_kill h s)" "fine ty (map_option snd (wlan_event_wait h t r s))"
proof -
  show "fine ty (wlan_event_init h s)" using assms by (simp add: wlan_event_init_def fine_init_handle)
  show "fine ty (wlan_event_set h s)" "fine ty (wlan_event_reset h s)"
    unfolding wlan_event_set_def wlan_event_reset_def
    using assms by (auto intro!: fine_on_handle fine_set_event)
  show "fine ty (wlan_event_kill h s)"
    unfolding wlan_event_kill_def using assms by (auto intro!: fine_on_handle fine_free idle_kind)
  show "fine ty (map_option snd (wlan_event_wait h t r s))"
  proof (cases "handles s h")
    case (Some p)
    then obtain b where "kobjs s p = Some (K_Event b)"
      using live_obj [OF assms(1) Some] assms(2) by (metis kind_of_simps(2))
    then show ?thesis using Some assms(1) fine_set_obj [OF assms(1)] by (simp add: wlan_event_wait_def)
  qed (use assms in \<open>simp add: wlan_event_wait_def\<close>)
qed

lemma fine_worklet_calls:
  assumes "os_typed ty s" "ty h = Worklet"
  shows "kmalloc_ok s (next_obj s) \<Longrightarrow> fine ty (wlan_worklet_init h cb s)"
    "at_rest h s \<Longrightarrow> fine ty (wlan_worklet_kill h s)"
    "handles s h \<noteq> None \<Longrightarrow> fine ty (wlan_worklet_schedule h s)"
    "handles s h \<noteq> None \<Longrightarrow> fine ty (map_option (\<lambda>_. s) (wlan_worklet_running h s))"
proof -
  show "fine ty (wlan_worklet_init h cb s)" if "kmalloc_ok s (next_obj s)"
    using that assms by (simp add: wlan_worklet_init_def init_unchecked_ok fine_init_handle)
  show "fine ty (wlan_worklet_kill h s)" if "at_rest h s"
  proof (cases "handles s h")
    case (Some p)
    obtain cb r where x: "kobjs s p = Some (K_Worklet cb r)"
      using live_obj [OF assms(1) Some] assms(2) by (metis kind_of_simps(4))
    have "idle p s" using that Some idle_worklet [OF assms(1) x] by (simp add: at_rest_def)
    then show ?thesis
      using wlan_worklet_obj.destroy_ok [OF Some x] fine_free [OF assms(1) Some] by simp
  qed (use assms wlan_worklet_obj.destroy_null in \<open>simp add: wlan_worklet_kill_def kfree_def\<close>)
  show "fine ty (wlan_worklet_schedule h s)" if "handles s h \<noteq> None"
    unfolding wlan_worklet_schedule_def
    using that assms by (auto intro!: fine_deref_handle fine_worklet_schedule)
  show "fine ty (map_option (\<lambda>_. s) (wlan_worklet_running h s))" if h: "handles s h \<noteq> None"
  proof -
    obtain p where p: "handles s h = Some p" using h by auto
    obtain cb r where "kobjs s p = Some (K_Worklet cb r)"
      using live_obj [OF assms(1) p] assms(2) by (metis kind_of_simps(4))
    then show ?thesis using p assms(1) by (simp add: wlan_worklet_running_def)
  qed
qed

lemma fine_tasklet_calls:
  assumes "os_typed ty s" "ty h = Tasklet"
  shows "fine ty (wlan_tasklet_init h cb s)" "fine ty (wlan_tasklet_schedule h s)"
    "fine ty (wlan_tasklet_hi_schedule h s)" "fine ty (wlan_tasklet_disable h s)"
    "fine ty (wlan_tasklet_enable h s)"
    "enabled_if_scheduled h s \<Longrightarrow> fine ty (wlan_tasklet_kill h s)"
proof -
  show "fine ty (wlan_tasklet_init h cb s)"
    using assms by (simp add: wlan_tasklet_init_def fine_init_handle)
  show "fine ty (wlan_tasklet_schedule h s)" "fine ty (wlan_tasklet_hi_schedule h s)"
    "fine ty (wlan_tasklet_disable h s)" "fine ty (wlan_tasklet_enable h s)"
    unfolding wlan_tasklet_schedule_def wlan_tasklet_hi_schedule_def wlan_tasklet_disable_def
      wlan_tasklet_enable_def
    using assms by (auto intro!: fine_on_handle fine_tasklet_ops)
  show "fine ty (wlan_tasklet_kill h s)" if "enabled_if_scheduled h s"
    unfolding wlan_tasklet_kill_def
    using that assms by (auto intro!: fine_on_handle fine_tasklet_kill simp: enabled_if_scheduled_def)
qed

lemma fine_timer_calls:
  assumes "os_typed ty s" "ty h = Timer"
  shows "kmalloc_ok s (next_obj s) \<Longrightarrow> fine ty (wlan_timer_init h cb s)"
    "handles s h = Some p \<Longrightarrow> armed s p = None \<Longrightarrow> fine ty (wlan_timer_start h t s)"
    "handles s h \<noteq> None \<Longrightarrow> fine ty (wlan_timer_stop h s)"
    "handles s h \<noteq> None \<Longrightarrow> fine ty (wlan_timer_reset h t s)"
    "fine ty (wlan_timer_kill h s)"
  unfolding wlan_timer_init_def wlan_timer_start_def wlan_timer_stop_def wlan_timer_reset_def
    wlan_timer_kill_def
  using assms
  by (auto intro!: fine_deref_handle fine_on_handle fine_timer_ops fine_timer_kill fine_init_handle
      simp: init_unchecked_ok)

lemmas fine_kernel_steps = fine_worklet_start fine_worklet_finish fine_run_tasklet fine_fire_timer

lemma fine_call:
  assumes "os_typed ty s" "call_typed ty c" "call_safe c s"
  shows "fine ty (wlan_exec c s)"
  using assms
  by (cases c) (auto simp: call_typed_def fine_spin_calls fine_event_calls fine_worklet_calls
      fine_tasklet_calls fine_timer_calls fine_kernel_steps split: option.splits)

text \<open>The condition is exact: an unsafe call does not return, whatever the state.\<close>

lemma unsafe_call:
  assumes "\<not> call_safe c s" "\<And>h. c \<noteq> Worklet_Kill h"
  shows "wlan_exec c s = None"
  using assms
  by (cases c)
    (auto simp: wlan_spin_lock_def wlan_spin_lock_bh_def wlan_spin_lock_irqsave_def on_handle_def
      spin_take_def unlocked_def wlan_worklet_init_def wlan_timer_init_def init_unchecked_def kmalloc_def
      deref_handle_def wlan_worklet_schedule_def wlan_worklet_running_def wlan_tasklet_kill_def
      tasklet_kill_def enabled_if_scheduled_def wlan_timer_start_def add_timer_def wlan_timer_stop_def
      wlan_timer_reset_def Let_def split: option.splits Option.bind_splits kobj.splits if_splits)

text \<open>A sequence of calls, each safe in the state it is made in.\<close>

fun wlan_calls :: "wlan_call list \<Rightarrow> os_state \<Rightarrow> os_state option" where
  "wlan_calls [] s = Some s"
| "wlan_calls (c # cs) s = do { s1 \<leftarrow> wlan_exec c s; wlan_calls cs s1 }"

fun calls_safe :: "wlan_call list \<Rightarrow> os_state \<Rightarrow> bool" where
  "calls_safe [] s = True"
| "calls_safe (c # cs) s =
     (call_safe c s \<and> (case wlan_exec c s of None \<Rightarrow> True | Some s1 \<Rightarrow> calls_safe cs s1))"

section \<open>Worklets\<close>

text \<open>The kernel's worker runs one item to its end.\<close>

definition work_cycle :: "os_state \<Rightarrow> os_state option" where
  "work_cycle s = do { s1 \<leftarrow> worklet_start s; worklet_finish s1 }"

fun work_cycles :: "nat \<Rightarrow> os_state \<Rightarrow> os_state option" where
  "work_cycles 0 s = Some s"
| "work_cycles (Suc n) s = do { s1 \<leftarrow> work_cycle s; work_cycles n s1 }"

lemma work_cycles_freed:
  "worker s = None \<Longrightarrow> p \<in> set (work_pending s) \<Longrightarrow> kobjs s p = None \<Longrightarrow>
   length (work_pending s) \<le> n \<Longrightarrow> work_cycles n s = None"
proof (induction n arbitrary: s)
  case (Suc n)
  then obtain q ps where w: "work_pending s = q # ps" by (cases "work_pending s") auto
  show ?case
  proof (cases "\<exists>cb r. kobjs s q = Some (K_Worklet cb r)")
    case False
    then show ?thesis
      using Suc.prems(1) w by (auto simp: work_cycle_def worklet_start_def split: option.splits kobj.splits)
  next
    case True
    then obtain cb r where q: "kobjs s q = Some (K_Worklet cb r)" by blast
    have rest: "work_cycles n s' = None"
      if "worker s' = None" "work_pending s' = ps" "kobjs s' p = None" for s'
      using that Suc.IH [of s'] Suc.prems(2-4) w q by auto
    show ?thesis
      using Suc.prems(1,3) w q
      by (auto simp: work_cycle_def worklet_start_def worklet_finish_def intro!: rest)
  qed
qed simp

end
