(* ===== verification/Os_Props.thy ===== *)
theory Os_Props
  imports Os_Spec
begin

text \<open>
  The properties of the wrappers of both drivers: typed calls do not crash and leave nothing
  dangling, the calls that crash are exactly the unsafe ones, what happens to a worklet that is
  killed or scheduled at the wrong moment, the FIFO behaviour of the socket-buffer queue, and the
  defects of the delayed work and of the time test.
\<close>

section \<open>Typed calls\<close>

text \<open>
  C31: Start the WLAN driver's wrappers in a state in which every handle is NULL or points to a
  live object of its own kind that no other handle shares, and in which everything the kernel will
  run later is live.  Let the driver make any sequence of calls of the wrappers, interleaved with
  the kernel running worklets, tasklets and timers, in which every handle has the kind of its C
  type and every call is made in a state where it is safe (in particular a worklet is killed only
  when its routine is neither pending nor running).  Then no call crashes, and the state at the
  end is of the same kind: no handle dangles, no object is shared, and no routine of a freed
  object is pending.
\<close>

theorem calls_are_typed:
  assumes "os_typed ty s" "\<forall>c\<in>set cs. call_typed ty c" "calls_safe cs s"
  shows "\<exists>s'. wlan_calls cs s = Some s' \<and> os_typed ty s'"
  using assms
proof (induction cs arbitrary: s)
  case (Cons c cs)
  then have "fine ty (wlan_exec c s)" by (intro fine_call) auto
  then obtain s1 where "wlan_exec c s = Some s1" "os_typed ty s1" by (auto simp: fine_def)
  then show ?case using Cons.IH [of s1] Cons.prems(2,3) by simp
qed simp

text \<open>
  C32: In such a state the calls that crash or never return are exactly the unsafe ones, for every
  wrapper but the one that kills a worklet: a spin lock taken twice, a timer or worklet whose
  allocation failed, a timer or worklet wrapper on a NULL handle (the timer wrappers test the
  handle, print a message and then use it), a timer started twice, a disabled tasklet killed while
  it is scheduled.  Every other wrapper accepts a NULL handle.
\<close>

theorem call_crashes_exactly:
  assumes "os_typed ty s" "call_typed ty c" "\<forall>h. c \<noteq> Worklet_Kill h"
  shows "wlan_exec c s = None \<longleftrightarrow> \<not> call_safe c s"
  using fine_call [OF assms(1,2)] unsafe_call [of c s] assms(3) by (auto simp: fine_def)

section \<open>Worklets\<close>

text \<open>
  C33: A worklet that is killed while its routine is pending is freed all the same (the call that
  would cancel the work is commented out), and the kernel crashes in the freed object: at the
  latest when its worker has gone through the items that are pending and the one it is running.
\<close>

theorem worklet_killed_pending:
  assumes "os_typed ty s" "ty h = Worklet" "handles s h = Some p" "p \<in> set (work_pending s)"
  shows "\<exists>s1. wlan_worklet_kill h s = Some s1 \<and> handles s1 h = None \<and>
    work_cycles (Suc (length (work_pending s))) s1 = None"
proof -
  obtain x where x: "kobjs s p = Some x" using live_obj [OF assms(1,3)] .
  let ?s = "set_handle h None (s\<lparr>kobjs := (kobjs s)(p := None)\<rparr>)"
  have kill: "wlan_worklet_kill h s = Some ?s"
    using assms(3) x by (simp add: wlan_worklet_kill_def kfree_def)
  have freed: "work_cycles n s' = None"
    if "worker s' = None" "work_pending s' = work_pending s" "kobjs s' p = None"
      "length (work_pending s) \<le> n" for n s'
    using work_cycles_freed [of s' p n] that assms(4) by simp
  have "work_cycles (Suc (length (work_pending s))) ?s = None"
  proof (cases "worker s")
    case None
    then show ?thesis by (intro freed) auto
  next
    case (Some w)
    have "\<exists>s2. worklet_finish ?s = Some s2 \<and> worker s2 = None \<and> work_pending s2 = work_pending s \<and>
        kobjs s2 p = None" if "worklet_finish ?s \<noteq> None"
      using that Some by (auto simp: worklet_finish_def split: if_splits option.splits kobj.splits)
    then show ?thesis
      using Some freed
      by (cases "worklet_finish ?s") (auto simp: work_cycle_def worklet_start_def)
  qed
  then show ?thesis using kill by simp
qed

fun wlan_worklet_schedules :: "nat \<Rightarrow> nat \<Rightarrow> os_state \<Rightarrow> os_state option" where
  "wlan_worklet_schedules 0 h s = Some s"
| "wlan_worklet_schedules (Suc n) h s =
     do { s1 \<leftarrow> wlan_worklet_schedule h s; wlan_worklet_schedules n h s1 }"

lemma worklet_schedule_eq:
  assumes "handles s h = Some p" "kobjs s p = Some (K_Worklet cb r)"
    "work_pending s = [] \<or> work_pending s = [p]"
  shows "wlan_worklet_schedule h s =
     Some (s\<lparr>kobjs := (kobjs s)(p := Some (K_Worklet cb 1)), work_pending := [p]\<rparr>)"
  using assms by (auto simp: wlan_worklet_schedule_def deref_handle_def queue_work_def set_obj_def)

lemma worklet_schedules_eq:
  assumes "handles s h = Some p" "kobjs s p = Some (K_Worklet cb r)"
    "work_pending s = [] \<or> work_pending s = [p]"
  shows "wlan_worklet_schedules (Suc n) h s =
     Some (s\<lparr>kobjs := (kobjs s)(p := Some (K_Worklet cb 1)), work_pending := [p]\<rparr>)"
  using assms
proof (induction n arbitrary: s r)
  case (Suc n)
  let ?s = "s\<lparr>kobjs := (kobjs s)(p := Some (K_Worklet cb 1)), work_pending := [p]\<rparr>"
  have same: "?s\<lparr>kobjs := (kobjs ?s)(p := Some (K_Worklet cb 1)), work_pending := [p]\<rparr> = ?s"
    by simp
  have "wlan_worklet_schedules (Suc n) h ?s =
      Some (?s\<lparr>kobjs := (kobjs ?s)(p := Some (K_Worklet cb 1)), work_pending := [p]\<rparr>)"
    by (rule Suc.IH [of ?s 1]) (use Suc.prems in simp_all)
  then have "wlan_worklet_schedules (Suc n) h ?s = Some ?s"
    unfolding same .
  then show ?case
    using worklet_schedule_eq [OF Suc.prems] by (simp only: wlan_worklet_schedules.simps(2) bind.bind_lunit)
qed (simp add: worklet_schedule_eq)

text \<open>
  C34: However often a worklet is scheduled while it is at rest, its function is called once and
  then nothing is pending.  But when it is scheduled while its function runs, the work is queued
  and yet lost: the routine clears the \<^verbatim>\<open>running\<close> flag when the function returns, and the
  queued item then finds the flag clear and does not call the function.
\<close>

theorem worklet_wakeup:
  assumes "handles s h = Some p" "kobjs s p = Some (K_Worklet cb r)" "work_pending s = []"
  shows "(worker s = None \<longrightarrow>
      (\<exists>s1 s2. wlan_worklet_schedules (Suc n) h s = Some s1 \<and> work_cycle s1 = Some s2 \<and>
        ran s2 = ran s @ [cb] \<and> work_pending s2 = [] \<and> worker s2 = None)) \<and>
    (worker s = Some p \<longrightarrow>
      (\<exists>s1 s2 s3. wlan_worklet_schedules (Suc n) h s = Some s1 \<and> worklet_finish s1 = Some s2 \<and>
        work_pending s2 = [p] \<and> work_cycle s2 = Some s3 \<and>
        ran s3 = ran s \<and> work_pending s3 = [] \<and> worker s3 = None))"
  unfolding worklet_schedules_eq [OF assms(1,2) disjI1 [OF assms(3)]]
  by (auto simp: work_cycle_def worklet_start_def worklet_finish_def set_obj_def)

section \<open>The Bluetooth driver's buffer queue\<close>

text \<open>
  Operations on one queue: a buffer, given by its handle, put at the tail, or one taken from the
  front.  The abstract queue is a list of addresses; putting a buffer that is in it crashes.
\<close>

datatype skb_op = Put nat | Get

fun skb_ops :: "nat \<Rightarrow> skb_op list \<Rightarrow> os_state \<Rightarrow> (addr option list \<times> os_state) option" where
  "skb_ops h [] s = Some ([], s)"
| "skb_ops h (Put sk # ops) s = do { s1 \<leftarrow> bt_skb_put_queue_tail h sk s; skb_ops h ops s1 }"
| "skb_ops h (Get # ops) s =
     do { (r, s1) \<leftarrow> bt_skb_dequeue_skb h s; (rs, s2) \<leftarrow> skb_ops h ops s1; Some (r # rs, s2) }"

fun fifo_ops :: "(nat \<Rightarrow> addr option) \<Rightarrow> skb_op list \<Rightarrow> addr list \<Rightarrow> (addr option list \<times> addr list) option" where
  "fifo_ops hs [] xs = Some ([], xs)"
| "fifo_ops hs (Put sk # ops) xs =
     (case hs sk of
        None \<Rightarrow> fifo_ops hs ops xs
      | Some p \<Rightarrow> if p \<in> set xs then None else fifo_ops hs ops (xs @ [p]))"
| "fifo_ops hs (Get # ops) [] = do { (rs, ys) \<leftarrow> fifo_ops hs ops []; Some (None # rs, ys) }"
| "fifo_ops hs (Get # ops) (p # xs) = do { (rs, ys) \<leftarrow> fifo_ops hs ops xs; Some (Some p # rs, ys) }"

text \<open>The queue object holds \<open>xs\<close>; the buffers \<open>B\<close> are live and linked as \<open>xs\<close> says.\<close>

definition queue_holds :: "addr set \<Rightarrow> addr \<Rightarrow> addr list \<Rightarrow> os_state \<Rightarrow> bool" where
  "queue_holds B q xs s \<longleftrightarrow>
     kobjs s q = Some (K_Queue xs) \<and> distinct xs \<and> set xs \<subseteq> B \<and>
     (\<forall>p\<in>B. \<exists>k. kobjs s p = Some (K_Skb k) \<and> sk_queue k = (if p \<in> set xs then Some q else None))"

lemma queue_holds_skb:
  assumes "queue_holds B q xs s" "p \<in> B"
  obtains k where "kobjs s p = Some (K_Skb k)" "sk_queue k = (if p \<in> set xs then Some q else None)"
  using assms by (auto simp: queue_holds_def)

lemma queue_holds_live:
  assumes "queue_holds B q xs s" "p \<in> set xs" shows "live_skb s p"
proof -
  have "p \<in> B" using assms by (auto simp: queue_holds_def)
  then obtain k where "kobjs s p = Some (K_Skb k)" using queue_holds_skb [OF assms(1)] by metis
  then show ?thesis by (simp add: live_skb_def)
qed

lemma put_holds:
  assumes "queue_holds B q xs s" "p \<in> B" "p \<notin> set xs"
  obtains s' where "skb_queue_tail q p s = Some s'" "queue_holds B q (xs @ [p]) s'"
    "handles s' = handles s"
proof -
  obtain k where k: "kobjs s p = Some (K_Skb k)" "sk_queue k = None"
    using queue_holds_skb [OF assms(1,2)] assms(3) by metis
  have q: "kobjs s q = Some (K_Queue xs)" "p \<noteq> q" using assms(1) k by (auto simp: queue_holds_def)
  let ?s = "set_obj q (K_Queue (xs @ [p])) (set_obj p (K_Skb (k\<lparr>sk_queue := Some q\<rparr>)) s)"
  have "queue_holds B q (xs @ [p]) ?s"
    using assms k q unfolding queue_holds_def by fastforce
  moreover have "skb_queue_tail q p s = Some ?s"
    using k q queue_holds_live [OF assms(1)] by (cases "xs = []") (auto simp: skb_queue_tail_def)
  ultimately show ?thesis by (intro that [of ?s]) auto
qed

lemma put_twice:
  assumes "queue_holds B q xs s" "p \<in> set xs"
  shows "skb_queue_tail q p s = None"
proof -
  have "p \<in> B" using assms by (auto simp: queue_holds_def)
  then show ?thesis
    using queue_holds_skb [OF assms(1)] assms by (fastforce simp: skb_queue_tail_def queue_holds_def)
qed

lemma get_holds:
  assumes "queue_holds B q xs s"
  obtains s' where "skb_dequeue q s = Some (case xs of [] \<Rightarrow> None | p # _ \<Rightarrow> Some p, s')"
    "queue_holds B q (tl xs) s'" "handles s' = handles s"
proof (cases xs)
  case Nil
  then show ?thesis using assms that [of s] by (simp add: queue_holds_def skb_dequeue_def)
next
  case (Cons p ps)
  then obtain k where k: "kobjs s p = Some (K_Skb k)"
    using queue_holds_skb [OF assms, of p] assms by (auto simp: queue_holds_def)
  have q: "kobjs s q = Some (K_Queue (p # ps))" "p \<noteq> q"
    using assms k Cons by (auto simp: queue_holds_def)
  let ?s = "set_obj q (K_Queue ps) (set_obj p (K_Skb (k\<lparr>sk_queue := None\<rparr>)) s)"
  have "queue_holds B q ps ?s"
    using assms k q Cons unfolding queue_holds_def by fastforce
  moreover have "ps \<noteq> [] \<longrightarrow> live_skb s (hd ps)"
    using queue_holds_live [OF assms] Cons by (cases ps) auto
  ultimately show ?thesis
    using k q Cons by (intro that [of ?s]) (auto simp: skb_dequeue_def)
qed

text \<open>
  C35: The Bluetooth driver's queue of socket buffers refines an abstract FIFO queue.  For any
  sequence of puts and gets on a queue, the wrappers return the buffers, NULL when the queue is
  empty, exactly as a list of addresses does to which puts append and from whose front gets take;
  the list is what the queue object holds afterwards, a NULL buffer is ignored, and the sequence
  crashes exactly when a buffer is put that is already in the queue.
\<close>

theorem skb_queue_fifo:
  assumes "handles s h = Some q" "queue_holds B q xs s"
    and "\<forall>sk p. Put sk \<in> set ops \<longrightarrow> handles s sk = Some p \<longrightarrow> p \<in> B"
  shows "map_option (\<lambda>(rs, s'). (rs, kobjs s' q)) (skb_ops h ops s) =
    map_option (\<lambda>(rs, ys). (rs, Some (K_Queue ys))) (fifo_ops (handles s) ops xs)"
  using assms
proof (induction ops arbitrary: s xs)
  case Nil
  then show ?case by (simp add: queue_holds_def)
next
  case (Cons op ops)
  show ?case
  proof (cases op)
    case (Put sk)
    show ?thesis
    proof (cases "handles s sk")
      case None
      then show ?thesis using Cons Put by (simp add: bt_skb_put_queue_tail_def)
    next
      case (Some p)
      then have p: "p \<in> B" using Cons.prems(3) Put by auto
      show ?thesis
      proof (cases "p \<in> set xs")
        case True
        then show ?thesis
          using Some Put Cons.prems put_twice by (simp add: bt_skb_put_queue_tail_def)
      next
        case False
        obtain s' where s': "skb_queue_tail q p s = Some s'" "queue_holds B q (xs @ [p]) s'"
            "handles s' = handles s"
          using put_holds [OF Cons.prems(2) p False] .
        then show ?thesis
          using Cons.IH [of s' "xs @ [p]"] Cons.prems Some Put False
          by (simp add: bt_skb_put_queue_tail_def)
      qed
    qed
  next
    case Get
    obtain s' where s': "skb_dequeue q s = Some (case xs of [] \<Rightarrow> None | p # _ \<Rightarrow> Some p, s')"
        "queue_holds B q (tl xs) s'" "handles s' = handles s"
      using get_holds [OF Cons.prems(2)] .
    have "map_option (\<lambda>(rs, s'). (rs, kobjs s' q)) (skb_ops h ops s') =
        map_option (\<lambda>(rs, ys). (rs, Some (K_Queue ys))) (fifo_ops (handles s) ops (tl xs))"
      using Cons.IH [of s' "tl xs"] Cons.prems s' by simp
    then show ?thesis
      using Get s'(1) Cons.prems(1)
      by (cases xs; cases "skb_ops h ops s'"; cases "fifo_ops (handles s) ops (tl xs)")
        (auto simp: bt_skb_dequeue_skb_def)
  qed
qed

section \<open>Other facts about the wrappers\<close>

text \<open>Released delayed work leaves its address in the handle: a second release frees it again.\<close>

lemma delaywork_release_twice:
  assumes "handles s h = Some q" "handles s w = Some p" "work_obj p s = Some cb"
  shows "\<exists>s1. bt_delaywork_release h w s = Some s1 \<and> handles s1 w = Some p \<and>
    bt_delaywork_release h w s1 = None"
proof -
  obtain x where x: "kobjs s p = Some x" using assms(3) by (cases "kobjs s p") (auto simp: work_obj_def)
  let ?s = "cancel_delayed_work p s\<lparr>kobjs := (kobjs s)(p := None)\<rparr>"
  have "bt_delaywork_release h w s = Some ?s"
    using assms x by (simp add: bt_delaywork_release_def kfree_def cancel_delayed_work_def)
  moreover have "handles ?s h = Some q" "handles ?s w = Some p" "work_obj p ?s = None"
    using assms(1,2) by (simp_all add: cancel_delayed_work_def work_obj_def)
  ultimately show ?thesis by (intro exI [of _ ?s]) (simp add: bt_delaywork_release_def)
qed

text \<open>
  Within one second the test of \<^verbatim>\<open>time_downout_duration\<close> is about 1000 microseconds, not the
  1000 milliseconds its variable is named for.
\<close>

lemma sint_small:
  assumes "unat (w :: u32) < 2147483648" shows "sint w = int (unat w)"
proof -
  have "sint w = signed_take_bit 31 (int (unat w))" unfolding sint_uint uint_nat by simp
  also have "... = int (unat w)"
  proof (rule signed_take_bit_int_eq_self)
    show "- (2 ^ 31) \<le> int (unat w)" by (rule order_trans [of _ 0]) simp_all
    have "(2 :: int) ^ 31 = 2147483648" by simp
    then show "int (unat w) < 2 ^ 31" using assms by linarith
  qed
  finally show ?thesis .
qed

lemma downout_same_second:
  assumes "fst now = fst st" "st \<noteq> (0, 0)" "snd st \<le> snd now" "snd now < 1000000"
  shows "fst (time_downout_duration now st) = 1 \<longleftrightarrow> 1000 < unat (snd now) - unat (snd st)"
proof -
  have u: "unat (snd now) < 1000000"
    using assms(4) by (simp add: word_less_nat_alt)
  have d: "unat (snd now - snd st) = unat (snd now) - unat (snd st)"
    using assms(3) by (simp add: unat_sub)
  have "sint (snd now - snd st) = int (unat (snd now) - unat (snd st))"
    unfolding d [symmetric] by (rule sint_small) (use u d in linarith)
  moreover have "sint (1000 :: u32) = 1000" by (simp add: sint_small)
  ultimately have "1000 <s snd now - snd st \<longleftrightarrow> 1000 < unat (snd now) - unat (snd st)"
    unfolding word_sless_alt by linarith
  then show ?thesis
    using assms(1,2) by (simp add: time_downout_duration_def Let_def)
qed

end
