(* ===== verification/Os_Witnesses.thy ===== *)
theory Os_Witnesses
  imports Os_Props
begin

text \<open>A concrete state of the wrappers' kernel and their properties applied to it.\<close>

definition demo_kind :: "nat \<Rightarrow> kkind" where
  "demo_kind h = (if h = 2 then Spinlock else if h = 3 then Worklet else if h = 4 \<or> h = 12 then Timer
     else if h = 5 then Queue else if h = 6 \<or> h = 7 then Skb else Event)"

definition demo_skb :: sk_buff where
  "demo_skb = \<lparr>sk_len = 0, sk_room = 64, sk_queue = None, sk_dev = None, sk_pkt_type = 0\<rparr>"

definition demo_os :: os_state where
  "demo_os = \<lparr>
     kobjs = (\<lambda>_. None)(2 := Some (K_Spinlock False), 3 := Some (K_Worklet (7, 0) 0),
       4 := Some (K_Timer (8, 0)), 5 := Some (K_Queue []), 6 := Some (K_Skb demo_skb),
       7 := Some (K_Skb demo_skb)),
     next_obj = 8, kmalloc_ok = (\<lambda>_. True),
     handles = (\<lambda>_. None)(2 := Some 2, 3 := Some 3, 4 := Some 4, 5 := Some 5, 6 := Some 6, 7 := Some 7),
     irqs_on = True, bh_off = 0, jiffies = 0, to_jiffies = (\<lambda>us. us div 4000),
     skb_tailroom = (\<lambda>n. unat n), queue_sets_timer_fn = True, work_pending = [], worker = None,
     tasklets = [], hi_tasklets = [], armed = (\<lambda>_. None), wq_pending = [], delayed = (\<lambda>_. None),
     ran = []\<rparr>"

lemma demo_os_sel [simp]:
  "kobjs demo_os 2 = Some (K_Spinlock False)" "kobjs demo_os 3 = Some (K_Worklet (7, 0) 0)"
  "kobjs demo_os 5 = Some (K_Queue [])" "kobjs demo_os 6 = Some (K_Skb demo_skb)"
  "kobjs demo_os 7 = Some (K_Skb demo_skb)" "handles demo_os 2 = Some 2" "handles demo_os 3 = Some 3"
  "handles demo_os 5 = Some 5" "handles demo_os 6 = Some 6" "handles demo_os 7 = Some 7"
  "handles demo_os 9 = None" "handles demo_os 12 = None" "work_pending demo_os = []"
  "worker demo_os = None" "ran demo_os = []"
  by (simp_all add: demo_os_def)

lemma demo_os_typed: "os_typed demo_kind demo_os"
  by (auto simp: os_typed_def handles_typed_def runs_typed_def live_def demo_kind_def demo_os_def
      split: if_splits)

lemma demo_busy_typed: "os_typed demo_kind (demo_os\<lparr>work_pending := [3]\<rparr>)"
  by (rule typed_pending [OF demo_os_typed]) (simp add: live_def)

lemma calls_are_typed_witness:
  "\<exists>s'. wlan_calls [Spin_Lock 2, Worklet_Schedule 3, Work_Start, Event_Set 9, Work_Finish, Worklet_Kill 3]
     demo_os = Some s' \<and> os_typed demo_kind s'"
proof (rule calls_are_typed [OF demo_os_typed])
  let ?s1 = "set_obj 2 (K_Spinlock True) demo_os"
  let ?s2 = "set_obj 3 (K_Worklet (7, 0) 1) ?s1\<lparr>work_pending := [3]\<rparr>"
  let ?s3 = "?s2\<lparr>work_pending := [], worker := Some 3, ran := ran ?s2 @ [(7, 0)]\<rparr>"
  let ?s4 = "set_obj 3 (K_Worklet (7, 0) 0) (?s3\<lparr>worker := None\<rparr>)"
  have "wlan_exec (Spin_Lock 2) demo_os = Some ?s1"
    by (simp add: wlan_spin_lock_def on_handle_def spin_take_def)
  moreover have "wlan_exec (Worklet_Schedule 3) ?s1 = Some ?s2"
    by (simp add: wlan_worklet_schedule_def deref_handle_def queue_work_def)
  moreover have "wlan_exec Work_Start ?s2 = Some ?s3"
    by (simp add: worklet_start_def)
  moreover have "wlan_exec (Event_Set 9) ?s3 = Some ?s3"
    by (simp add: wlan_event_set_def on_handle_def)
  moreover have "wlan_exec Work_Finish ?s3 = Some ?s4"
    by (simp add: worklet_finish_def)
  moreover have "call_safe (Spin_Lock 2) demo_os" "call_safe (Worklet_Schedule 3) ?s1"
      "call_safe (Worklet_Kill 3) ?s4"
    by (simp_all add: unlocked_def at_rest_def)
  ultimately show "calls_safe [Spin_Lock 2, Worklet_Schedule 3, Work_Start, Event_Set 9, Work_Finish,
      Worklet_Kill 3] demo_os"
    by (simp del: wlan_exec.simps split: option.split)
  show "\<forall>c\<in>set [Spin_Lock 2, Worklet_Schedule 3, Work_Start, Event_Set 9, Work_Finish, Worklet_Kill 3].
      call_typed demo_kind c"
    by (simp add: call_typed_def demo_kind_def)
qed

lemma call_crashes_exactly_witness: "wlan_exec (Timer_Stop 12) demo_os = None"
proof -
  have "call_typed demo_kind (Timer_Stop 12)" by (simp add: call_typed_def demo_kind_def)
  then show ?thesis using call_crashes_exactly [OF demo_os_typed, of "Timer_Stop 12"] by simp
qed

lemma worklet_killed_pending_witness:
  "\<exists>s1. wlan_worklet_kill 3 (demo_os\<lparr>work_pending := [3]\<rparr>) = Some s1 \<and> handles s1 3 = None \<and>
    work_cycles (Suc (Suc 0)) s1 = None"
proof -
  have "demo_kind 3 = Worklet" by (simp add: demo_kind_def)
  then show ?thesis
    using worklet_killed_pending [OF demo_busy_typed, of 3 3] by (simp del: work_cycles.simps)
qed

lemma worklet_wakeup_witness:
  "\<exists>s1 s2 s3. wlan_worklet_schedules (Suc 2) 3 (demo_os\<lparr>worker := Some 3\<rparr>) = Some s1 \<and>
    worklet_finish s1 = Some s2 \<and> work_pending s2 = [3] \<and> work_cycle s2 = Some s3 \<and> ran s3 = []"
proof -
  let ?s = "demo_os\<lparr>worker := Some 3\<rparr>"
  have "handles ?s 3 = Some 3" "kobjs ?s 3 = Some (K_Worklet (7, 0) 0)" "work_pending ?s = []"
    by simp_all
  from worklet_wakeup [OF this, of 2] show ?thesis
    by (simp del: wlan_worklet_schedules.simps) metis
qed

lemma skb_queue_fifo_witness:
  "map_option (\<lambda>(rs, s'). (rs, kobjs s' 5)) (skb_ops 5 [Put 6, Put 7, Get, Get, Get] demo_os) =
     Some ([Some 6, Some 7, None], Some (K_Queue []))"
proof -
  have "queue_holds {6, 7} 5 [] demo_os" by (simp add: queue_holds_def demo_skb_def)
  then have "map_option (\<lambda>(rs, s'). (rs, kobjs s' 5)) (skb_ops 5 [Put 6, Put 7, Get, Get, Get] demo_os) =
      map_option (\<lambda>(rs, ys). (rs, Some (K_Queue ys)))
        (fifo_ops (handles demo_os) [Put 6, Put 7, Get, Get, Get] [])"
    by (intro skb_queue_fifo [where B = "{6, 7}"]) auto
  then show ?thesis by (simp del: skb_ops.simps)
qed

end
