(* ===== verification/Os_Mem.thy ===== *)
theory Os_Mem
  imports Os_Bt
begin

text \<open>
  The wrappers of memory and of files: \<^verbatim>\<open>tdsp_memory.c\<close> and \<^verbatim>\<open>tdsp_memory.h\<close> of
  both drivers and \<^verbatim>\<open>tdsp_file.c\<close>, which is the same file in both.  Memory is made of
  blocks of bytes; a pointer is a block and an offset.  Access outside of a block is the crash
  \<open>None\<close>.
\<close>

section \<open>Blocks of memory\<close>

datatype mem_kind = Kmalloced | Vmalloced

type_synonym kptr = "(addr \<times> nat) option"

text \<open>
  \<open>km_ok\<close> says which allocations of how many bytes succeed, \<open>km_junk\<close> what fresh memory
  holds.
\<close>

record kmem =
  km_blocks :: "addr \<Rightarrow> (mem_kind \<times> u8 list) option"
  km_next :: addr
  km_ok :: "addr \<Rightarrow> nat \<Rightarrow> bool"
  km_junk :: "addr \<Rightarrow> nat \<Rightarrow> u8"

definition km_alloc :: "mem_kind \<Rightarrow> u32 \<Rightarrow> kmem \<Rightarrow> kptr \<times> kmem" where
  "km_alloc k n m =
     (let b = km_next m; m1 = m\<lparr>km_next := Suc b\<rparr>
      in if km_ok m b (unat n)
         then (Some (b, 0), m1\<lparr>km_blocks := (km_blocks m)(b \<mapsto> (k, map (km_junk m b) [0..<unat n]))\<rparr>)
         else (None, m1))"

text \<open>Both kinds are freed by the pointer their allocation returned, NULL is ignored.\<close>

definition km_free :: "mem_kind \<Rightarrow> kptr \<Rightarrow> kmem \<Rightarrow> kmem option" where
  "km_free k p m =
     (case p of
        None \<Rightarrow> Some m
      | Some (b, i) \<Rightarrow>
          do { (k', xs) \<leftarrow> km_blocks m b;
               if i = 0 \<and> k' = k then Some (m\<lparr>km_blocks := (km_blocks m)(b := None)\<rparr>) else None })"

definition km_read :: "kptr \<Rightarrow> nat \<Rightarrow> kmem \<Rightarrow> u8 list option" where
  "km_read p n m =
     do { (b, i) \<leftarrow> p;
          (k, xs) \<leftarrow> km_blocks m b;
          if i + n \<le> length xs then Some (take n (drop i xs)) else None }"

definition km_write :: "kptr \<Rightarrow> u8 list \<Rightarrow> kmem \<Rightarrow> kmem option" where
  "km_write p ys m =
     do { (b, i) \<leftarrow> p;
          (k, xs) \<leftarrow> km_blocks m b;
          if i + length ys \<le> length xs
          then Some (m\<lparr>km_blocks := (km_blocks m)(b \<mapsto> (k, take i xs @ ys @ drop (i + length ys) xs))\<rparr>)
          else None }"

text \<open>\<^verbatim>\<open>memcmp\<close>: the difference of the first two bytes that differ.\<close>

fun bytes_cmp :: "u8 list \<Rightarrow> u8 list \<Rightarrow> int" where
  "bytes_cmp (x # xs) (y # ys) = (if x = y then bytes_cmp xs ys else uint x - uint y)"
| "bytes_cmp xs ys = 0"

text \<open>\<^verbatim>\<open>memcpy\<close> is undefined when source and destination overlap.\<close>

fun overlap :: "kptr \<Rightarrow> kptr \<Rightarrow> nat \<Rightarrow> bool" where
  "overlap (Some (b, i)) (Some (c, j)) n = (b = c \<and> i < j + n \<and> j < i + n)"
| "overlap p q n = False"

definition km_copy :: "kptr \<Rightarrow> kptr \<Rightarrow> nat \<Rightarrow> kmem \<Rightarrow> kmem option" where
  "km_copy dest src n m =
     (if overlap dest src n then None else do { xs \<leftarrow> km_read src n m; km_write dest xs m })"

section \<open>The WLAN driver\<close>

definition wlan_memory_alloc :: "u32 \<Rightarrow> kmem \<Rightarrow> kptr \<times> kmem" where
  "wlan_memory_alloc n m =
     (case km_alloc Kmalloced n m of (None, m1) \<Rightarrow> (None, m1) | (Some p, m1) \<Rightarrow> (Some p, m1))"

definition wlan_memory_free :: "kptr \<Rightarrow> kmem \<Rightarrow> kmem option" where
  "wlan_memory_free p m = km_free Kmalloced p m"

definition wlan_memset :: "kptr \<Rightarrow> u8 \<Rightarrow> u32 \<Rightarrow> kmem \<Rightarrow> kmem option" where
  "wlan_memset p v n m = km_write p (replicate (unat n) v) m"

definition wlan_memcmp :: "kptr \<Rightarrow> kptr \<Rightarrow> u32 \<Rightarrow> kmem \<Rightarrow> int option" where
  "wlan_memcmp p q n m =
     do { xs \<leftarrow> km_read p (unat n) m; ys \<leftarrow> km_read q (unat n) m; Some (bytes_cmp xs ys) }"

definition wlan_memcpy :: "kptr \<Rightarrow> kptr \<Rightarrow> u32 \<Rightarrow> kmem \<Rightarrow> kmem option" where
  "wlan_memcpy dest src n m = km_copy dest src (unat n) m"

definition wlan_zero_mem :: "kptr \<Rightarrow> u32 \<Rightarrow> kmem \<Rightarrow> kmem option" where
  "wlan_zero_mem p n m = km_write p (replicate (unat n) 0) m"

definition wlan_memory_vfree :: "kptr \<Rightarrow> kmem \<Rightarrow> kmem option" where
  "wlan_memory_vfree p m = km_free Vmalloced p m"

definition wlan_memory_vmalloc :: "u32 \<Rightarrow> kmem \<Rightarrow> kptr \<times> kmem" where
  "wlan_memory_vmalloc n m = km_alloc Vmalloced n m"

section \<open>The Bluetooth driver\<close>

definition bt_memory_alloc :: "u32 \<Rightarrow> kmem \<Rightarrow> kptr \<times> kmem" where
  "bt_memory_alloc n m = km_alloc Kmalloced n m"

definition bt_memory_alloc_atomic :: "u32 \<Rightarrow> kmem \<Rightarrow> kptr \<times> kmem" where
  "bt_memory_alloc_atomic n m = km_alloc Kmalloced n m"

definition bt_memory_vmalloc :: "u32 \<Rightarrow> kmem \<Rightarrow> kptr \<times> kmem" where
  "bt_memory_vmalloc n m = km_alloc Vmalloced n m"

definition bt_memory_vfree :: "kptr \<Rightarrow> kmem \<Rightarrow> kmem option" where
  "bt_memory_vfree p m = km_free Vmalloced p m"

definition bt_memory_free :: "kptr \<Rightarrow> kmem \<Rightarrow> kmem option" where
  "bt_memory_free p m = km_free Kmalloced p m"

definition bt_memset :: "kptr \<Rightarrow> u8 \<Rightarrow> u32 \<Rightarrow> kmem \<Rightarrow> kmem option" where
  "bt_memset p v n m = km_write p (replicate (unat n) v) m"

definition bt_memcmp :: "kptr \<Rightarrow> kptr \<Rightarrow> u32 \<Rightarrow> kmem \<Rightarrow> int option" where
  "bt_memcmp p q n m =
     do { xs \<leftarrow> km_read p (unat n) m; ys \<leftarrow> km_read q (unat n) m; Some (bytes_cmp xs ys) }"

text \<open>\<^verbatim>\<open>memcpy\<close> returns its first argument.\<close>

definition bt_memcpy :: "kptr \<Rightarrow> kptr \<Rightarrow> u32 \<Rightarrow> kmem \<Rightarrow> (kptr \<times> kmem) option" where
  "bt_memcpy dest src n m = do { m1 \<leftarrow> km_copy dest src (unat n) m; Some (dest, m1) }"

definition bt_memory_move :: "kptr \<Rightarrow> kptr \<Rightarrow> u32 \<Rightarrow> kmem \<Rightarrow> (kptr \<times> kmem) option" where
  "bt_memory_move dest src n m =
     (if dest = None \<or> src = None then Some (None, m)
      else do { xs \<leftarrow> km_read src (unat n) m; m1 \<leftarrow> km_write dest xs m; Some (dest, m1) })"

definition bt_zero_memory :: "kptr \<Rightarrow> u32 \<Rightarrow> kmem \<Rightarrow> (kptr \<times> kmem) option" where
  "bt_zero_memory dest n m =
     (if dest = None then Some (None, m)
      else do { m1 \<leftarrow> km_write dest (replicate (unat n) 0) m; Some (dest, m1) })"

section \<open>Files\<close>

text \<open>
  The kernel's files: \<open>fs_open\<close> is the pointer \<^verbatim>\<open>filp_open\<close> returns for a name, the
  negative of an error number when it cannot be opened, \<open>fs_data\<close> the contents of the open files,
  by pointer, \<open>fs_error\<close> the error that reading one fails with, and \<open>kernel_ds\<close> whether the
  buffer of a read may be in the kernel.
\<close>

record file_io =
  fs_open :: "string \<Rightarrow> u32"
  fs_files :: "string \<Rightarrow> u8 list"
  fs_data :: "u32 \<Rightarrow> u8 list option"
  fs_error :: "u32 \<Rightarrow> int option"
  kernel_ds :: bool

definition is_err :: "u32 \<Rightarrow> bool" where
  "is_err p \<longleftrightarrow> - 4095 \<le> p"

definition tdsp_openfile :: "string \<Rightarrow> file_io \<Rightarrow> u32 \<times> file_io" where
  "tdsp_openfile name s =
     (let p = fs_open s name
      in (p, if is_err p then s else s\<lparr>fs_data := (fs_data s)(p \<mapsto> fs_files s name)\<rparr>))"

definition tdsp_closefile :: "u32 \<Rightarrow> file_io \<Rightarrow> file_io option" where
  "tdsp_closefile p s = do { xs \<leftarrow> fs_data s p; Some (s\<lparr>fs_data := (fs_data s)(p := None)\<rparr>) }"

text \<open>What the file's \<^verbatim>\<open>read\<close> does: a negative error, or the bytes there are.\<close>

definition f_op_read :: "u32 \<Rightarrow> kptr \<Rightarrow> nat \<Rightarrow> nat \<Rightarrow> file_io \<Rightarrow> kmem \<Rightarrow> (int \<times> kmem) option" where
  "f_op_read p buf n pos s m =
     do { xs \<leftarrow> fs_data s p;
          case fs_error s p of
            Some e \<Rightarrow> Some (- e, m)
          | None \<Rightarrow>
              if \<not> kernel_ds s then Some (- EFAULT, m)
              else let ys = take n (drop pos xs)
                   in if ys = [] then Some (0, m)
                      else do { m1 \<leftarrow> km_write buf ys m; Some (int (length ys), m1) } }"

text \<open>The address limit is saved, set and restored; the result becomes an unsigned long.\<close>

definition tdsp_readfile ::
  "u32 \<Rightarrow> kptr \<Rightarrow> u32 \<Rightarrow> u32 \<Rightarrow> file_io \<Rightarrow> kmem \<Rightarrow> (u32 \<times> file_io \<times> kmem) option" where
  "tdsp_readfile p buf n off s m =
     (let old_fs = kernel_ds s; s1 = s\<lparr>kernel_ds := True\<rparr>
      in do { (r, m1) \<leftarrow> f_op_read p buf (unat n) (unat off) s1 m;
              Some (word_of_int r, s1\<lparr>kernel_ds := old_fs\<rparr>, m1) })"

section \<open>What they do\<close>

lemma km_read_write [simp]: "km_write p ys m = Some m1 \<Longrightarrow> km_read p (length ys) m1 = Some ys"
  by (auto simp: km_write_def km_read_def split: bind_splits if_splits)

lemma bytes_cmp_same [simp]: "bytes_cmp xs xs = 0"
  by (induction xs) auto

lemma bytes_cmp_eq: "length xs = length ys \<Longrightarrow> bytes_cmp xs ys = 0 \<longleftrightarrow> xs = ys"
  by (induction xs ys rule: list_induct2) (auto simp: word_uint_eq_iff)

lemma km_read_length: "km_read p n m = Some xs \<Longrightarrow> length xs = n"
  by (auto simp: km_read_def split: bind_splits if_splits)

text \<open>\<^verbatim>\<open>tdsp_memcmp\<close> is 0 exactly for equal bytes.\<close>

theorem memcmp_equal:
  assumes "km_read p (unat n) m = Some xs" "km_read q (unat n) m = Some ys"
  shows "wlan_memcmp p q n m = Some 0 \<longleftrightarrow> xs = ys" "bt_memcmp p q n m = wlan_memcmp p q n m"
  using assms by (auto simp: wlan_memcmp_def bt_memcmp_def bytes_cmp_eq km_read_length)

text \<open>
  A copy, and a move even when the blocks overlap, leaves the bytes of the source as they were
  before in the destination.
\<close>

theorem move_copies:
  assumes "km_read src (unat n) m = Some xs" "bt_memory_move dest src n m = Some (r, m1)" "dest \<noteq> None"
  shows "r = dest \<and> km_read dest (unat n) m1 = Some xs"
proof -
  have "src \<noteq> None" using assms(1) by (cases src) (simp_all add: km_read_def)
  then have "r = dest" "km_write dest xs m = Some m1"
    using assms by (auto simp: bt_memory_move_def split: bind_splits)
  then show ?thesis using km_read_write [of dest xs m m1] km_read_length [OF assms(1)] by simp
qed

theorem copy_then_equal:
  assumes "wlan_memcpy dest src n m = Some m1" "km_read src (unat n) m = Some xs"
  shows "km_read dest (unat n) m1 = Some xs"
  using assms km_read_write [of dest xs m m1] km_read_length [OF assms(2)]
  by (auto simp: wlan_memcpy_def km_copy_def split: if_splits)

text \<open>
  A file that opens is read from the offset on, up to the length and to its end; the limit of
  addresses is the caller's afterwards, also when reading fails.  The name of
  \<^verbatim>\<open>tdsp_open_success\<close> says the opposite of what it returns.
\<close>

theorem file_opens_and_reads:
  assumes "tdsp_openfile name s = (p, s1)" "tdsp_open_success p = 0" "fs_error s p = None"
    and "km_blocks m b = Some (k, old)" "unat n \<le> length old"
  shows "\<exists>m1 r. tdsp_readfile p (Some (b, 0)) n off s1 m = Some (r, s1, m1) \<and>
    unat r = length (take (unat n) (drop (unat off) (fs_files s name))) \<and>
    km_read (Some (b, 0)) (unat r) m1 = Some (take (unat n) (drop (unat off) (fs_files s name)))"
proof -
  let ?ys = "take (unat n) (drop (unat off) (fs_files s name))"
  have ok: "\<not> is_err p" using assms(2) by (auto simp: tdsp_open_success_def is_err_def split: if_splits)
  then have s1: "s1 = s\<lparr>fs_data := (fs_data s)(p \<mapsto> fs_files s name)\<rparr>"
    using assms(1) by (auto simp: tdsp_openfile_def Let_def)
  have len: "length ?ys \<le> unat n" by simp
  then have fits: "length ?ys \<le> length old" using assms(5) by (rule order_trans)
  have small: "length ?ys < 2 ^ 32" using len unsigned_less [of n, where ?'a = nat] by simp
  then have r: "unat (word_of_int (int (length ?ys)) :: u32) = length ?ys"
    by (simp only: of_int_of_nat_eq unat_of_nat) simp
  obtain m1 where m1: "km_write (Some (b, 0)) ?ys m = Some m1"
    using assms(4) fits by (simp add: km_write_def)
  note rd = km_read_write [OF m1]
  show ?thesis
  proof (cases "?ys = []")
    case True
    then show ?thesis
      using assms(3,4)
      by (auto simp: tdsp_readfile_def f_op_read_def s1 Let_def km_read_def)
  next
    case False
    then have "f_op_read p (Some (b, 0)) (unat n) (unat off) (s1\<lparr>kernel_ds := True\<rparr>) m
        = Some (int (length ?ys), m1)"
      using assms(3) m1 by (simp only: f_op_read_def s1 Let_def) simp
    then have "tdsp_readfile p (Some (b, 0)) n off s1 m
        = Some (word_of_int (int (length ?ys)), s1, m1)"
      by (simp only: tdsp_readfile_def Let_def) simp
    then show ?thesis using r rd by (simp only:) auto
  qed
qed

text \<open>A failed read is a length of nearly four gigabytes.\<close>

lemma failed_read_is_huge:
  assumes "fs_data s p = Some xs" "fs_error s p = Some 5"
  shows "tdsp_readfile p buf n off s m = Some (- 5, s, m)"
  using assms by (simp add: tdsp_readfile_def f_op_read_def Let_def)

end
