(* ===== verification/Os_Rx.thy ===== *)
theory Os_Rx
  imports Os_Types
begin

text \<open>
  The receive path of the WLAN driver, the functions of \<^verbatim>\<open>wlan/lwlan_netdev.h\<close> that the
  library takes a packet from the device to the network stack with: a socket buffer is allocated,
  the library writes the packet to it, and it is submitted or freed.  Buffers are objects of the
  kernel of \<^verbatim>\<open>Os_State\<close>, given by address.
\<close>

section \<open>The network stack\<close>

text \<open>
  \<^verbatim>\<open>netif_rx\<close> takes the buffer over: it is not the driver's any more.  \<open>rx_packets\<close>
  are the buffers the stack got, as they were then.
\<close>

record rx_state =
  rx_os :: os_state
  rx_packets :: "(addr \<times> sk_buff) list"

definition netif_rx :: "addr \<Rightarrow> sk_buff \<Rightarrow> rx_state \<Rightarrow> rx_state" where
  "netif_rx p k s =
     s\<lparr>rx_os := (rx_os s)\<lparr>kobjs := (kobjs (rx_os s))(p := None)\<rparr>,
       rx_packets := rx_packets s @ [(p, k)]\<rparr>"

text \<open>\<^verbatim>\<open>eth_type_trans\<close> takes the Ethernet header of 14 bytes off a packet that has one.\<close>

definition eth_type_trans :: "sk_buff \<Rightarrow> sk_buff" where
  "eth_type_trans k = (if sk_len k < 14 then k else k\<lparr>sk_len := sk_len k - 14\<rparr>)"

section \<open>The functions\<close>

text \<open>
  The result is the pointer to the data, here the buffer and the offset of 2 that aligns the
  header, and the buffer itself through \<open>para\<close>.  The sum is one of \<^verbatim>\<open>unsigned int\<close>.
\<close>

definition wlan_skb_alloc :: "u32 \<Rightarrow> rx_state \<Rightarrow> ((addr \<times> nat) option \<times> addr option) \<times> rx_state" where
  "wlan_skb_alloc buf_len s =
     (case kmalloc (K_Skb \<lparr>sk_len = 0, sk_room = skb_tailroom (rx_os s) (buf_len + 2) - 2,
                           sk_queue = None, sk_dev = None, sk_pkt_type = 0\<rparr>) (rx_os s) of
        (None, os) \<Rightarrow> ((None, None), s\<lparr>rx_os := os\<rparr>)
      | (Some p, os) \<Rightarrow> ((Some (p, 2), Some p), s\<lparr>rx_os := os\<rparr>))"

definition wlan_skb_free :: "addr option \<Rightarrow> rx_state \<Rightarrow> rx_state option" where
  "wlan_skb_free pkt s = map_option (\<lambda>os. s\<lparr>rx_os := os\<rparr>) (kfree pkt (rx_os s))"

text \<open>
  \<^verbatim>\<open>skb_put\<close> stops the kernel when the packet does not fit; the length is then set to the
  packet's, whatever it was.
\<close>

definition wlan_skb_sbmt :: "addr option \<Rightarrow> addr option \<Rightarrow> u32 \<Rightarrow> rx_state \<Rightarrow> rx_state option" where
  "wlan_skb_sbmt net_dev pkt buf_len s =
     do { p \<leftarrow> pkt;
          x \<leftarrow> kobjs (rx_os s) p;
          case x of
            K_Skb k \<Rightarrow>
              if sk_room k < sk_len k + unat buf_len then None
              else let k1 = k\<lparr>sk_len := unat buf_len\<rparr>
                   in case net_dev of
                        None \<Rightarrow> wlan_skb_free (Some p) s
                      | Some dev \<Rightarrow> Some (netif_rx p (eth_type_trans (k1\<lparr>sk_dev := Some dev\<rparr>)) s)
          | _ \<Rightarrow> None }"

section \<open>From the device to the stack\<close>

text \<open>What the library relies on: the kernel's allocator gives at least the room asked for.\<close>

definition enough_room :: "rx_state \<Rightarrow> bool" where
  "enough_room s \<longleftrightarrow> (\<forall>n. unat n \<le> skb_tailroom (rx_os s) n)"

lemma alloc_result:
  assumes "kmalloc_ok (rx_os s) (next_obj (rx_os s))"
  obtains s1 k where "wlan_skb_alloc n s = ((Some (next_obj (rx_os s), 2), Some (next_obj (rx_os s))), s1)"
    "kobjs (rx_os s1) = (kobjs (rx_os s))(next_obj (rx_os s) := Some (K_Skb k))"
    "sk_len k = 0" "sk_room k = skb_tailroom (rx_os s) (n + 2) - 2" "rx_packets s1 = rx_packets s"
  using assms that by (simp add: wlan_skb_alloc_def kmalloc_def Let_def)

text \<open>
  A packet written to a buffer that was allocated for it reaches the stack, without its Ethernet
  header and with its device, and the driver keeps nothing; with no device it is freed.
\<close>

theorem packet_delivered:
  assumes "enough_room s" "kmalloc_ok (rx_os s) (next_obj (rx_os s))"
    "unat n < 2 ^ 32 - 2" "len \<le> n" "14 \<le> unat len" "kobjs (rx_os s) (next_obj (rx_os s)) = None"
  shows "\<exists>data p s1 s2 k. wlan_skb_alloc n s = ((Some data, Some p), s1) \<and>
    wlan_skb_sbmt dev (Some p) len s1 = Some s2 \<and> kobjs (rx_os s2) = kobjs (rx_os s) \<and>
    (case dev of
       None \<Rightarrow> rx_packets s2 = rx_packets s
     | Some d \<Rightarrow> rx_packets s2 = rx_packets s @ [(p, k)] \<and> sk_dev k = Some d \<and> sk_len k = unat len - 14)"
proof -
  let ?p = "next_obj (rx_os s)"
  obtain s1 k where s1: "wlan_skb_alloc n s = ((Some (?p, 2), Some ?p), s1)"
      "kobjs (rx_os s1) = (kobjs (rx_os s))(?p := Some (K_Skb k))" "sk_len k = 0"
      "sk_room k = skb_tailroom (rx_os s) (n + 2) - 2" "rx_packets s1 = rx_packets s"
    using alloc_result [OF assms(2)] .
  have "unat (n + 2) = unat n + 2" using assms(3) by (simp add: unat_add_lem [THEN iffD1])
  then have "unat n \<le> sk_room k" using assms(1) s1(4) by (metis enough_room_def le_diff_conv2 add_leD2)
  moreover have "unat len \<le> unat n" using assms(4) by (simp add: word_le_nat_alt)
  ultimately have fits: "\<not> sk_room k < sk_len k + unat len" using s1(3) by simp
  have gone: "(kobjs (rx_os s))(?p := None) = kobjs (rx_os s)" using assms(6) by auto
  show ?thesis
    using s1 fits assms(5) gone
    by (cases dev) (auto simp: wlan_skb_sbmt_def wlan_skb_free_def kfree_def netif_rx_def
        eth_type_trans_def Let_def)
qed

text \<open>
  Submitting ends the life of a buffer: afterwards the driver can neither submit nor free it.
\<close>

theorem submitted_once:
  assumes "wlan_skb_sbmt dev (Some p) len s = Some s1"
  shows "wlan_skb_sbmt dev' (Some p) len' s1 = None" "wlan_skb_free (Some p) s1 = None"
proof -
  have "kobjs (rx_os s1) p = None"
    using assms
    by (auto simp: wlan_skb_sbmt_def wlan_skb_free_def kfree_def netif_rx_def Let_def
        split: bind_splits kobj.splits if_splits option.splits)
  then show "wlan_skb_sbmt dev' (Some p) len' s1 = None" "wlan_skb_free (Some p) s1 = None"
    by (simp_all add: wlan_skb_sbmt_def wlan_skb_free_def kfree_def)
qed

text \<open>
  The sum of the length and the alignment wraps: for the largest length the allocator is asked
  for one byte.
\<close>

lemma alloc_wraps:
  assumes "kmalloc_ok (rx_os s) (next_obj (rx_os s))"
  shows "\<exists>p s1 k. wlan_skb_alloc (- 1) s = ((Some (p, 2), Some p), s1) \<and>
    kobjs (rx_os s1) p = Some (K_Skb k) \<and> sk_room k = skb_tailroom (rx_os s) 1 - 2"
  by (rule alloc_result [OF assms, of "- 1"]) auto

end
