(* ===== verification/Os_Table.thy ===== *)
theory Os_Table
  imports Tdsp_Prelude
begin

text \<open>
  How the drivers and their libraries are put together: the table \<^verbatim>\<open>SYS_CALL\<close> of
  functions that a library calls the kernel with, the functions
  \<^verbatim>\<open>_wlan_syscall_set\<close> and \<^verbatim>\<open>_bluetooth_syscall_set\<close> that fill it, and the
  functions that load and unload the two modules.  A table maps the names of its fields to the
  names of the functions stored there; a field that is not in its domain is NULL, and calling it
  would crash.
\<close>

section \<open>The fields of the tables\<close>

definition wlan_slots :: "string list" where
  "wlan_slots =
    [''spin_lock_init'', ''spin_lock'', ''spin_lock_bh'', ''spin_lock_irqsave'', ''spin_unlock'',
     ''spin_unlock_bh'', ''spin_unlock_irqrestore'', ''spin_lock_kill'', ''memory_alloc'',
     ''memory_free'', ''memory_set'', ''memory_copy'', ''memory_vmalloc'', ''memory_vfree'',
     ''memory_cmp'', ''event_init'', ''event_set'', ''event_reset'', ''event_wait'',
     ''event_kill'', ''tasklet_init'', ''tasklet_schedule'', ''tasklet_enable'',
     ''tasklet_disable'', ''tasklet_kill'', ''worklet_init'', ''worklet_kill'',
     ''worklet_schedule'', ''worklet_running'', ''timer_init'', ''timer_stop'', ''timer_start'',
     ''timer_reset'', ''timer_kill'', ''sleep'', ''ms_to_ticks'', ''get_random_byte'',
     ''get_random_dword'', ''time_downout_duration'', ''urb_alloc'', ''urb_free'',
     ''urb_unlink'', ''urb_kill'', ''urb_getstatus'', ''urb_getcntxt'', ''usb_issrmv'',
     ''urb_getlen'', ''usb_alloc_ctrlreq'', ''usb_set_ctrlreq'', ''usb_free_ctrlreq'',
     ''usb_ctrlmsg'', ''usb_ctrlreq'', ''usb_rcvint'', ''usb_bulkin'', ''usb_bulkout'',
     ''skb_alloc'', ''skb_sbmt'', ''skb_free'', ''netq_ifstop'', ''netq_start'', ''netq_stop'',
     ''iw_send_bssid_to_up'', ''wlan_netdev_setup'', ''wlan_netdev_destroy'', ''bus_set_fw_ver'',
     ''bus_get_hkey_flag'', ''bus_get_antenna_flag'', ''print'', ''openfile'', ''closefile'',
     ''open_success'', ''readfile'']"

definition bt_slots :: "string list" where
  "bt_slots =
    [''spin_lock_init'', ''spin_lock'', ''spin_lock_bh'', ''spin_lock_irqsave'', ''spin_unlock'',
     ''spin_unlock_bh'', ''spin_unlock_irqrestore'', ''spin_lock_kill'', ''memory_alloc'',
     ''memory_alloc_atomic'', ''memory_free'', ''memory_set'', ''memory_copy'', ''memory_cmp'',
     ''memory_vmalloc'', ''memory_vfree'', ''memory_move'', ''zero_memory'', ''event_init'',
     ''event_set'', ''event_wait'', ''event_kill'', ''event_flag_set'', ''timer_init'',
     ''timer_start'', ''timer_reset'', ''timer_stop'', ''timer_stop_sync'', ''timer_kill'',
     ''ms_to_ticks'', ''get_ticks'', ''usdelay'', ''msdelay'', ''tasklet_init'',
     ''tasklet_schedule'', ''tasklet_enable'', ''tasklet_disable'', ''tasklet_kill'',
     ''usb_urb_alloc'', ''usb_urb_free'', ''usb_urb_unlink'', ''usb_get_status'',
     ''usb_get_context'', ''usb_get_len'', ''usb_urb_kill'', ''usb_alloc_ctrlreq'',
     ''usb_set_ctrlreq'', ''usb_free_ctrlreq'', ''usb_ctrlreq'', ''usb_rcvint'', ''usb_bulkin'',
     ''usb_bulkout'', ''bus_set_fw_ver'', ''bus_get_hkey_flag'', ''print'', ''hci_notify_frame'',
     ''workthread_create'', ''delaywork_init'', ''work_init'', ''queue_delayedwork'',
     ''cancel_delayedwork'', ''queue_work'', ''destory_workqueue'', ''delaywork_release'',
     ''work_release'', ''skb_queue_init'', ''skb_queue_release'', ''skb_get_queue_len'',
     ''skb_put_queue_tail'', ''skb_is_queue_empty'', ''skb_dequeue_skb'', ''skb_alloc_atomic'',
     ''skb_kfree'', ''put_to_skb'', ''skb_get_len'', ''skb_get_dataptr'',
     ''bt_skb_alloc_atomic'', ''skb_set_dev'', ''skb_set_btpkt_type'', ''usb_get_sndbulkpipe'',
     ''usb_submit_bulkouturb'', ''usb_ctrl_msg_b'', ''usb_get_reqtype'', ''usb_status_nodev'',
     ''usb_status_inval'', ''usb_status_shutdown'', ''usb_status_proto'',
     ''usb_status_connreset'', ''usb_status_noent'', ''openfile'', ''closefile'',
     ''open_success'', ''readfile'', ''isin_atomic'', ''get_combodrv'']"

section \<open>The assignments\<close>

definition wlan_calls :: "(string \<times> string) list" where
  "wlan_calls =
    [(''memory_free'', ''tdsp_memory_free''), (''memory_set'', ''tdsp_memset''),
     (''memory_alloc'', ''tdsp_memory_alloc''), (''memory_copy'', ''tdsp_memcpy''),
     (''memory_cmp'', ''tdsp_memcmp''), (''memory_vmalloc'', ''tdsp_memory_vmalloc''),
     (''memory_vfree'', ''tdsp_memory_vfree''), (''event_init'', ''tdsp_event_init''),
     (''event_set'', ''tdsp_event_set''), (''event_reset'', ''tdsp_event_reset''),
     (''event_wait'', ''tdsp_event_wait''), (''event_kill'', ''tdsp_event_kill''),
     (''spin_lock_init'', ''tdsp_spin_lock_init''), (''spin_lock'', ''tdsp_spin_lock''),
     (''spin_lock_bh'', ''tdsp_spin_lock_bh''),
     (''spin_lock_irqsave'', ''tdsp_spin_lock_irqsave''),
     (''spin_unlock'', ''tdsp_spin_unlock''), (''spin_unlock_bh'', ''tdsp_spin_unlock_bh''),
     (''spin_unlock_irqrestore'', ''tdsp_spin_unlock_irqrestroe''),
     (''spin_lock_kill'', ''tdsp_spin_lock_kill''), (''timer_init'', ''tdsp_timer_init''),
     (''timer_start'', ''tdsp_timer_start''), (''timer_stop'', ''tdsp_timer_stop''),
     (''timer_reset'', ''tdsp_timer_reset''), (''timer_kill'', ''tdsp_timer_kill''),
     (''sleep'', ''tdsp_sleep''), (''ms_to_ticks'', ''tdsp_ms_to_ticks''),
     (''get_random_byte'', ''tdsp_get_random_byte''),
     (''get_random_dword'', ''tdsp_get_random_dword''),
     (''time_downout_duration'', ''time_downout_duration''),
     (''tasklet_init'', ''tdsp_tasklet_init''),
     (''tasklet_schedule'', ''tdsp_tasklet_schedule''),
     (''tasklet_kill'', ''tdsp_tasklet_kill''), (''tasklet_enable'', ''tdsp_tasklet_enable''),
     (''tasklet_disable'', ''tdsp_tasklet_disable''), (''worklet_init'', ''tdsp_worklet_init''),
     (''worklet_running'', ''tdsp_worklet_running''),
     (''worklet_schedule'', ''tdsp_worklet_schedule''),
     (''worklet_kill'', ''tdsp_worklet_kill''), (''urb_alloc'', ''tdsp_usb_alloc_urb''),
     (''urb_free'', ''tdsp_usb_free_urb''), (''urb_unlink'', ''tdsp_usb_unlink_urb''),
     (''urb_kill'', ''tdsp_usb_kill_urb''), (''urb_getlen'', ''tdsp_usb_get_len''),
     (''urb_getstatus'', ''tdsp_usb_get_status''), (''urb_getcntxt'', ''tdsp_usb_get_context''),
     (''usb_issrmv'', ''tdsp_usb_is_srmv''), (''usb_alloc_ctrlreq'', ''tdsp_usb_alloc_ctrlreq''),
     (''usb_set_ctrlreq'', ''tdsp_usb_set_ctrlreq''),
     (''usb_free_ctrlreq'', ''tdsp_usb_free_ctrlreq''), (''usb_ctrlmsg'', ''tdsp_usb_ctrl_msg''),
     (''usb_ctrlreq'', ''tdsp_usb_ctrl_req''), (''usb_rcvint'', ''tdsp_usb_rcvint''),
     (''usb_bulkin'', ''tdsp_usb_bulkin''), (''usb_bulkout'', ''tdsp_usb_bulkout''),
     (''skb_alloc'', ''tdsp_netdev_skb_alloc''), (''skb_sbmt'', ''tdsp_netdev_skb_sbmt''),
     (''skb_free'', ''tdsp_netdev_skb_free''), (''netq_start'', ''tdsp_netdev_netq_start''),
     (''netq_ifstop'', ''tdsp_netdev_netq_ifstop''), (''netq_stop'', ''tdsp_netdev_netq_stop''),
     (''iw_send_bssid_to_up'', ''iw_send_bssid_to_up''),
     (''wlan_netdev_setup'', ''wlan_netdev_setup''),
     (''wlan_netdev_destroy'', ''wlan_netdev_destroy''),
     (''bus_set_fw_ver'', ''Bus_set_firmware_version''),
     (''bus_get_hkey_flag'', ''Bus_get_hotkey_flag''),
     (''bus_get_antenna_flag'', ''Bus_get_antenna_flag''), (''print'', ''tdsp_print''),
     (''openfile'', ''tdsp_openfile''), (''closefile'', ''tdsp_closefile''),
     (''open_success'', ''tdsp_open_success''), (''readfile'', ''tdsp_readfile'')]"

definition bt_calls :: "(string \<times> string) list" where
  "bt_calls =
    [(''spin_lock_init'', ''tdsp_spin_lock_init''), (''spin_lock'', ''tdsp_spin_lock''),
     (''spin_lock_bh'', ''tdsp_spin_lock_bh''),
     (''spin_lock_irqsave'', ''tdsp_spin_lock_irqsave''),
     (''spin_unlock'', ''tdsp_spin_unlock''), (''spin_unlock_bh'', ''tdsp_spin_unlock_bh''),
     (''spin_unlock_irqrestore'', ''tdsp_spin_unlock_irqrestroe''),
     (''spin_lock_kill'', ''tdsp_spin_lock_kill''), (''memory_alloc'', ''tdsp_memory_alloc''),
     (''memory_alloc_atomic'', ''tdsp_memory_alloc_atomic''),
     (''memory_free'', ''tdsp_memory_free''), (''memory_set'', ''tdsp_memset''),
     (''memory_copy'', ''tdsp_memcpy''), (''memory_cmp'', ''tdsp_memcmp''),
     (''memory_vmalloc'', ''tdsp_memory_vmalloc''), (''memory_vfree'', ''tdsp_memory_vfree''),
     (''memory_move'', ''tdsp_memory_move''), (''zero_memory'', ''tdsp_zero_memory''),
     (''event_init'', ''tdsp_event_init''), (''event_set'', ''tdsp_event_set''),
     (''event_wait'', ''tdsp_event_wait''), (''event_kill'', ''tdsp_event_kill''),
     (''event_flag_set'', ''tdsp_event_flag_set''), (''timer_init'', ''tdsp_timer_init''),
     (''timer_start'', ''tdsp_timer_start''), (''timer_stop'', ''tdsp_timer_stop''),
     (''timer_stop_sync'', ''tdsp_timer_stop_sync''), (''timer_reset'', ''tdsp_timer_reset''),
     (''timer_kill'', ''tdsp_timer_kill''), (''ms_to_ticks'', ''tdsp_ms_to_ticks''),
     (''get_ticks'', ''tdsp_get_ticks''), (''usdelay'', ''tdsp_usdelay''),
     (''msdelay'', ''tdsp_msdelay''), (''tasklet_init'', ''tdsp_tasklet_init''),
     (''tasklet_schedule'', ''tdsp_tasklet_schedule''),
     (''tasklet_enable'', ''tdsp_tasklet_enable''),
     (''tasklet_disable'', ''tdsp_tasklet_disable''), (''tasklet_kill'', ''tdsp_tasklet_kill''),
     (''usb_urb_alloc'', ''tdsp_usb_urb_alloc''), (''usb_urb_free'', ''tdsp_usb_urb_free''),
     (''usb_urb_unlink'', ''tdsp_usb_urb_unlink''),
     (''usb_get_status'', ''tdsp_usb_get_status''),
     (''usb_get_context'', ''tdsp_usb_get_context''), (''usb_get_len'', ''tdsp_usb_get_len''),
     (''usb_urb_kill'', ''tdsp_usb_urb_kill''),
     (''usb_alloc_ctrlreq'', ''tdsp_usb_alloc_ctrlreq''),
     (''usb_set_ctrlreq'', ''tdsp_usb_set_ctrlreq''),
     (''usb_free_ctrlreq'', ''tdsp_usb_free_ctrlreq''), (''usb_ctrlreq'', ''tdsp_usb_ctrl_req''),
     (''usb_rcvint'', ''tdsp_usb_rcvint''), (''usb_bulkin'', ''tdsp_usb_bulkin''),
     (''usb_bulkout'', ''tdsp_usb_bulkout''), (''bus_set_fw_ver'', ''Bus_set_firmware_version''),
     (''bus_get_hkey_flag'', ''Bus_get_hotkey_flag''), (''print'', ''tdsp_print''),
     (''hci_notify_frame'', ''hci_notify_frame''),
     (''workthread_create'', ''tdsp_workthread_create''),
     (''delaywork_init'', ''tdsp_delaywork_init''), (''work_init'', ''tdsp_work_init''),
     (''queue_delayedwork'', ''tdsp_queue_delayedwork''),
     (''cancel_delayedwork'', ''tdsp_cancel_delayedwork''),
     (''queue_work'', ''tdsp_queue_work''), (''destory_workqueue'', ''tdsp_destory_workqueue''),
     (''delaywork_release'', ''tdsp_delaywork_release''),
     (''work_release'', ''tdsp_work_release''), (''skb_queue_init'', ''tdsp_skb_queue_init''),
     (''skb_queue_release'', ''tdsp_skb_queue_release''),
     (''skb_get_queue_len'', ''tdsp_skb_get_queue_len''),
     (''skb_put_queue_tail'', ''tdsp_skb_put_queue_tail''),
     (''skb_is_queue_empty'', ''tdsp_skb_is_queue_empty''),
     (''skb_dequeue_skb'', ''tdsp_skb_dequeue_skb''),
     (''skb_alloc_atomic'', ''tdsp_skb_alloc_atomic''), (''skb_kfree'', ''tdsp_skb_kfree''),
     (''put_to_skb'', ''tdsp_put_to_skb''), (''skb_get_len'', ''tdsp_skb_get_len''),
     (''skb_get_dataptr'', ''tdsp_skb_get_dataptr''), (''skb_set_dev'', ''tdsp_skb_set_dev''),
     (''skb_set_btpkt_type'', ''tdsp_skb_set_btpkt_type''),
     (''bt_skb_alloc_atomic'', ''tdsp_bt_skb_alloc_atomic''),
     (''usb_get_sndbulkpipe'', ''tdsp_usb_get_sndbulkpipe''),
     (''usb_submit_bulkouturb'', ''tdsp_usb_submit_bulkouturb''),
     (''usb_ctrl_msg_b'', ''tdsp_usb_ctrl_msg_b''),
     (''usb_get_reqtype'', ''tdsp_usb_get_reqtype''),
     (''usb_status_nodev'', ''tdsp_usb_status_nodev''),
     (''usb_status_inval'', ''tdsp_usb_status_inval''),
     (''usb_status_shutdown'', ''tdsp_usb_status_shutdown''),
     (''usb_status_proto'', ''tdsp_usb_status_proto''),
     (''usb_status_connreset'', ''tdsp_usb_status_connreset''),
     (''usb_status_noent'', ''tdsp_usb_status_noent''), (''openfile'', ''tdsp_openfile''),
     (''closefile'', ''tdsp_closefile''), (''open_success'', ''tdsp_open_success''),
     (''readfile'', ''tdsp_readfile''), (''isin_atomic'', ''tdsp_isin_atomic''),
     (''get_combodrv'', ''tdsp_get_combodrv'')]"

text \<open>The table is static: NULL in every field before.\<close>

type_synonym sys_table = "string \<rightharpoonup> string"

definition wlan_syscall_set :: "sys_table \<Rightarrow> sys_table" where
  "wlan_syscall_set t = fold (\<lambda>(slot, f) t. t(slot \<mapsto> f)) wlan_calls t"

definition bluetooth_syscall_set :: "sys_table \<Rightarrow> sys_table" where
  "bluetooth_syscall_set t = fold (\<lambda>(slot, f) t. t(slot \<mapsto> f)) bt_calls t"

section \<open>Loading and unloading\<close>

text \<open>
  A module: its table, and whether the USB core has its driver and may call it.  What
  \<^verbatim>\<open>usb_register\<close> returns is an argument.
\<close>

record usb_module =
  syscall_table :: sys_table
  usb_registered :: bool

definition usb_register :: "int \<Rightarrow> usb_module \<Rightarrow> int \<times> usb_module" where
  "usb_register r m = (r, m\<lparr>usb_registered := (usb_registered m \<or> 0 \<le> r)\<rparr>)"

definition wlan_usb_init :: "int \<Rightarrow> usb_module \<Rightarrow> int \<times> usb_module" where
  "wlan_usb_init r m = usb_register r (m\<lparr>syscall_table := wlan_syscall_set (syscall_table m)\<rparr>)"

definition wlan_usb_exit :: "usb_module \<Rightarrow> usb_module" where
  "wlan_usb_exit m = m\<lparr>usb_registered := False\<rparr>"

definition bluetooth_usb_init :: "int \<Rightarrow> usb_module \<Rightarrow> int \<times> usb_module" where
  "bluetooth_usb_init r m = usb_register r (m\<lparr>syscall_table := bluetooth_syscall_set (syscall_table m)\<rparr>)"

definition bluetooth_usb_exit :: "usb_module \<Rightarrow> usb_module" where
  "bluetooth_usb_exit m = m\<lparr>usb_registered := False\<rparr>"

section \<open>No field is NULL\<close>

lemma fold_updates_dom: "dom (fold (\<lambda>(k, v) t. t(k \<mapsto> v)) xs t) = fst ` set xs \<union> dom t"
  by (induction xs arbitrary: t) (auto simp: case_prod_unfold)

lemma wlan_slots_set: "fst ` set wlan_calls = set wlan_slots"
  by (simp add: wlan_calls_def wlan_slots_def insert_commute)

lemma bt_slots_set: "fst ` set bt_calls = set bt_slots"
  by (simp add: bt_calls_def bt_slots_def insert_commute)

lemma table_dom:
  "dom (wlan_syscall_set t) = set wlan_slots \<union> dom t"
  "dom (bluetooth_syscall_set t) = set bt_slots \<union> dom t"
  by (simp_all add: wlan_syscall_set_def bluetooth_syscall_set_def fold_updates_dom
      wlan_slots_set bt_slots_set)

lemma slot_filled:
  "slot \<in> set wlan_slots \<Longrightarrow> \<exists>f. wlan_syscall_set t slot = Some f"
  "slot \<in> set bt_slots \<Longrightarrow> \<exists>f. bluetooth_syscall_set t slot = Some f"
  using table_dom [of t] by auto

text \<open>
  A module that the USB core may call has a table without NULL: the invariant of loading and
  unloading, which holds before the module is loaded.
\<close>

definition table_full :: "string list \<Rightarrow> usb_module \<Rightarrow> bool" where
  "table_full slots m \<longleftrightarrow> (usb_registered m \<longrightarrow> (\<forall>slot\<in>set slots. syscall_table m slot \<noteq> None))"

theorem loading_fills_tables:
  "table_full wlan_slots (snd (wlan_usb_init r m))"
  "table_full wlan_slots (wlan_usb_exit m)"
  "table_full bt_slots (snd (bluetooth_usb_init r m))"
  "table_full bt_slots (bluetooth_usb_exit m)"
  by (auto simp: table_full_def wlan_usb_init_def wlan_usb_exit_def bluetooth_usb_init_def
      bluetooth_usb_exit_def usb_register_def dest: slot_filled)

end
