(* ===== verification/Os_Usb.thy ===== *)
theory Os_Usb
  imports Tdsp_Prelude
begin

text \<open>
  The wrappers of the USB core: \<^verbatim>\<open>src/driver_src/wlan/tdsp_usb.c\<close> and
  \<^verbatim>\<open>src/driver_src/new_bluetooth/tdsp_usb.c\<close>.  The libraries of both drivers reach the
  device through them only: requests (URBs) are allocated, filled and submitted, and the core
  calls a routine of the library when a request is done.

  The core is modelled by what its documentation promises.  A submitted request is in flight
  until the core gives it back, which calls the routine it was filled with; killing a request
  waits for that, unlinking asks for it.  A request that is freed in flight lives until it is
  given back.  What the host controller and the device do is a parameter of the state.

  An operation returns \<open>None\<close> when it crashes or never returns: NULL or freed memory is
  accessed, or the device never answers a message that has no timeout.
\<close>

section \<open>Pipes and requests\<close>

text \<open>What \<^verbatim>\<open>usb_sndctrlpipe\<close> and its relatives encode in an \<^verbatim>\<open>int\<close>.\<close>

datatype pipe_kind = Ctrl_pipe | Int_pipe | Bulk_pipe

datatype pipe_dir = To_device | From_device

datatype usb_pipe = Pipe pipe_kind pipe_dir (pipe_dev: addr) (pipe_ep: u32)

text \<open>The number of the device is read through the pointer.\<close>

fun create_pipe :: "pipe_kind \<Rightarrow> pipe_dir \<Rightarrow> addr option \<Rightarrow> u32 \<Rightarrow> usb_pipe option" where
  "create_pipe k d None ep = None"
| "create_pipe k d (Some dev) ep = Some (Pipe k d dev ep)"

text \<open>
  The completion routines: the one of the WLAN driver, and those of the Bluetooth driver for data
  and inquiry results read, data written, interrupts and control requests.
\<close>

datatype usb_done = Done_wlan | Done_data | Done_inq | Done_out | Done_int | Done_ctrl

text \<open>
  The part of \<^verbatim>\<open>struct urb\<close> the wrappers fill or read.  \<open>ub_held\<close> is the reference of the
  driver, \<open>ub_cancel\<close> the status an unlinked request will be given back with.
\<close>

record usb_urb =
  ub_dev :: "addr option"
  ub_pipe :: "usb_pipe option"
  ub_setup :: "addr option"
  ub_buf :: "addr option"
  ub_len :: int
  ub_done :: "usb_done option"
  ub_context :: nat
  ub_interval :: int
  ub_flags :: u32
  ub_status :: int
  ub_actual :: int
  ub_held :: bool
  ub_flying :: bool
  ub_cancel :: "int option"

definition new_urb :: usb_urb where
  "new_urb = \<lparr>ub_dev = None, ub_pipe = None, ub_setup = None, ub_buf = None, ub_len = 0,
     ub_done = None, ub_context = 0, ub_interval = 0, ub_flags = 0, ub_status = 0, ub_actual = 0,
     ub_held = True, ub_flying = False, ub_cancel = None\<rparr>"

text \<open>A synchronous control message, the arguments at the width \<^verbatim>\<open>usb_control_msg\<close> takes them.\<close>

record usb_ctrl =
  cm_pipe :: usb_pipe
  cm_request :: u8
  cm_type :: u8
  cm_value :: u16
  cm_index :: u16
  cm_buf :: "addr option"
  cm_size :: u16
  cm_timeout :: int

text \<open>The library's description of a vendor request, \<^verbatim>\<open>TDSP_USB_CTRLREQ\<close>.\<close>

record ctrlreq =
  cr_request :: u8
  cr_value :: u16
  cr_index :: u16
  cr_len :: u32

section \<open>The state of the USB core\<close>

text \<open>
  \<open>usb_setups\<close> are the 8 bytes of the set-up packets allocated.  \<open>given\<close> are the calls of
  completion routines so far: routine, request, context, status and length.
  \<open>usb_alloc_ok\<close> says which allocations succeed, \<open>usb_junk\<close> what fresh memory holds,
  \<open>submit_verdict\<close> what the host controller returns for a filled request,
  \<open>submit_busy\<close> and \<open>unlink_idle\<close> the errors of submitting a request in flight and of
  unlinking one that is not (they depend on the kernel's version), \<open>int_interval\<close> the encoding of
  a polling interval for the device's speed, and \<open>ctrl_answer\<close> when and with what the device
  answers a control message: the milliseconds and the result.
\<close>

record usb_state =
  urbs :: "addr \<Rightarrow> usb_urb option"
  usb_setups :: "addr \<Rightarrow> u8 list option"
  next_usb :: addr
  given :: "(usb_done \<times> addr \<times> nat \<times> int \<times> int) list"
  ctrl_sent :: "usb_ctrl list"
  usb_alloc_ok :: "addr \<Rightarrow> bool"
  usb_junk :: "addr \<Rightarrow> u8 list"
  submit_verdict :: "usb_urb \<Rightarrow> int"
  submit_busy :: int
  unlink_idle :: int
  int_interval :: "addr option \<Rightarrow> int \<Rightarrow> int"
  ctrl_answer :: "usb_ctrl \<Rightarrow> (int \<times> int) option"

abbreviation (input) ENOENT :: int where "ENOENT \<equiv> 2"
abbreviation (input) EPROTO :: int where "EPROTO \<equiv> 71"
abbreviation (input) ECONNRESET :: int where "ECONNRESET \<equiv> 104"
abbreviation (input) ETIMEDOUT :: int where "ETIMEDOUT \<equiv> 110"
abbreviation (input) EINPROGRESS :: int where "EINPROGRESS \<equiv> 115"

definition set_urb :: "addr \<Rightarrow> usb_urb \<Rightarrow> usb_state \<Rightarrow> usb_state" where
  "set_urb p u s = s\<lparr>urbs := (urbs s)(p := Some u)\<rparr>"

section \<open>The operations of the core\<close>

definition usb_alloc_urb :: "usb_state \<Rightarrow> addr option \<times> usb_state" where
  "usb_alloc_urb s =
     (let p = next_usb s; s1 = s\<lparr>next_usb := Suc p\<rparr>
      in if usb_alloc_ok s p then (Some p, set_urb p new_urb s1) else (None, s1))"

text \<open>Freeing drops the driver's reference; dropping it twice is a crash.\<close>

definition usb_free_urb :: "addr option \<Rightarrow> usb_state \<Rightarrow> usb_state option" where
  "usb_free_urb ap s =
     (case ap of
        None \<Rightarrow> Some s
      | Some p \<Rightarrow>
          do { u \<leftarrow> urbs s p;
               if \<not> ub_held u then None
               else if ub_flying u then Some (set_urb p (u\<lparr>ub_held := False\<rparr>) s)
               else Some (s\<lparr>urbs := (urbs s)(p := None)\<rparr>) })"

text \<open>
  The core gives a request back: with the status of the cancellation, if there was one.  A
  request without a driver's reference is gone after its routine has run.
\<close>

definition giveback :: "addr \<Rightarrow> int \<Rightarrow> int \<Rightarrow> usb_state \<Rightarrow> usb_state option" where
  "giveback p status n s =
     do { u \<leftarrow> urbs s p;
          d \<leftarrow> ub_done u;
          if \<not> ub_flying u then None
          else let st = (case ub_cancel u of Some c \<Rightarrow> c | None \<Rightarrow> status);
                   u1 = u\<lparr>ub_status := st, ub_actual := n, ub_flying := False, ub_cancel := None\<rparr>
               in Some (s\<lparr>urbs := (urbs s)(p := if ub_held u then Some u1 else None),
                    given := given s @ [(d, p, ub_context u, st, n)]\<rparr>) }"

definition usb_submit_urb :: "addr \<Rightarrow> usb_state \<Rightarrow> (int \<times> usb_state) option" where
  "usb_submit_urb p s =
     do { u \<leftarrow> urbs s p;
          if ub_flying u then Some (submit_busy s, s)
          else if ub_done u = None then Some (- EINVAL, s)
          else let u1 = u\<lparr>ub_status := - EINPROGRESS, ub_actual := 0\<rparr>; r = submit_verdict s u1
               in Some (r, set_urb p (u1\<lparr>ub_flying := (r = 0)\<rparr>) s) }"

definition usb_unlink_urb :: "addr option \<Rightarrow> usb_state \<Rightarrow> (int \<times> usb_state) option" where
  "usb_unlink_urb ap s =
     (case ap of
        None \<Rightarrow> Some (- EINVAL, s)
      | Some p \<Rightarrow>
          do { u \<leftarrow> urbs s p;
               if ub_flying u \<and> ub_cancel u = None
               then Some (- EINPROGRESS, set_urb p (u\<lparr>ub_cancel := Some (- ECONNRESET)\<rparr>) s)
               else if ub_flying u then Some (- EBUSY, s)
               else Some (unlink_idle s, s) })"

text \<open>From a context that may sleep: a request in flight is given back before the call returns.\<close>

definition usb_kill_urb :: "addr option \<Rightarrow> usb_state \<Rightarrow> usb_state option" where
  "usb_kill_urb ap s =
     (case ap of
        None \<Rightarrow> Some s
      | Some p \<Rightarrow>
          do { u \<leftarrow> urbs s p;
               if ub_flying u then giveback p (- ENOENT) (ub_actual u) s else Some s })"

text \<open>
  A timeout of 0 waits for ever; an answer after a positive timeout is lost.
\<close>

definition usb_control_msg :: "usb_ctrl \<Rightarrow> usb_state \<Rightarrow> (int \<times> usb_state) option" where
  "usb_control_msg c s =
     (let s1 = s\<lparr>ctrl_sent := ctrl_sent s @ [c]\<rparr>
      in case ctrl_answer s c of
           None \<Rightarrow> if 0 < cm_timeout c then Some (- ETIMEDOUT, s1) else None
         | Some (ms, r) \<Rightarrow>
             Some (if 0 < cm_timeout c \<and> cm_timeout c < ms then - ETIMEDOUT else r, s1))"

text \<open>The macros that fill a request; they do not look whether it is in flight.\<close>

definition usb_fill_bulk_urb ::
  "addr option \<Rightarrow> usb_pipe \<Rightarrow> addr option \<Rightarrow> int \<Rightarrow> usb_done \<Rightarrow> nat \<Rightarrow> usb_urb \<Rightarrow> usb_urb" where
  "usb_fill_bulk_urb dev pipe buf len done ctx u =
     u\<lparr>ub_dev := dev, ub_pipe := Some pipe, ub_buf := buf, ub_len := len, ub_done := Some done,
       ub_context := ctx\<rparr>"

definition usb_fill_control_urb ::
  "addr option \<Rightarrow> usb_pipe \<Rightarrow> addr option \<Rightarrow> addr option \<Rightarrow> int \<Rightarrow> usb_done \<Rightarrow> nat \<Rightarrow> usb_urb \<Rightarrow> usb_urb" where
  "usb_fill_control_urb dev pipe setup buf len done ctx u =
     u\<lparr>ub_dev := dev, ub_pipe := Some pipe, ub_setup := setup, ub_buf := buf, ub_len := len,
       ub_done := Some done, ub_context := ctx\<rparr>"

definition usb_fill_int_urb ::
  "addr option \<Rightarrow> usb_pipe \<Rightarrow> addr option \<Rightarrow> int \<Rightarrow> usb_done \<Rightarrow> nat \<Rightarrow> int \<Rightarrow> usb_urb \<Rightarrow> usb_urb" where
  "usb_fill_int_urb dev pipe buf len done ctx iv u =
     u\<lparr>ub_dev := dev, ub_pipe := Some pipe, ub_buf := buf, ub_len := len, ub_done := Some done,
       ub_context := ctx, ub_interval := iv\<rparr>"

text \<open>Every transfer function fills the request it is given and submits it.\<close>

definition fill_submit ::
  "addr option \<Rightarrow> (usb_urb \<Rightarrow> usb_urb) \<Rightarrow> usb_state \<Rightarrow> (int \<times> usb_state) option" where
  "fill_submit ap f s = do { p \<leftarrow> ap; u \<leftarrow> urbs s p; usb_submit_urb p (set_urb p (f u) s) }"

text \<open>A field of a request that the driver has a pointer to.\<close>

definition urb_field :: "(usb_urb \<Rightarrow> 'a) \<Rightarrow> addr option \<Rightarrow> usb_state \<Rightarrow> 'a option" where
  "urb_field f ap s = do { p \<leftarrow> ap; u \<leftarrow> urbs s p; Some (f u) }"

abbreviation (input) USB_DIR_OUT :: u8 where "USB_DIR_OUT \<equiv> 0"
abbreviation (input) USB_DIR_IN :: u8 where "USB_DIR_IN \<equiv> 0x80"
abbreviation (input) USB_TYPE_VENDOR :: u8 where "USB_TYPE_VENDOR \<equiv> 0x40"
abbreviation (input) USB_RECIP_DEVICE :: u8 where "USB_RECIP_DEVICE \<equiv> 0"
abbreviation (input) USB_WRITE_OP :: u8 where "USB_WRITE_OP \<equiv> 0"
abbreviation (input) URB_SHORT_NOT_OK :: u32 where "URB_SHORT_NOT_OK \<equiv> 1"
abbreviation (input) INDEX_EP_CTRL :: u32 where "INDEX_EP_CTRL \<equiv> 0"
abbreviation (input) INDEX_EP_BULK_IN_DATA :: u8 where "INDEX_EP_BULK_IN_DATA \<equiv> 5"
abbreviation (input) VENDOR_CMD_IN :: u32 where "VENDOR_CMD_IN \<equiv> 1"

section \<open>Set-up packets\<close>

text \<open>\<^verbatim>\<open>cpu_to_le16p\<close>, and the packet as it goes to the device.\<close>

definition le16 :: "u16 \<Rightarrow> u8 list" where
  "le16 x = [ucast x, ucast (drop_bit 8 x)]"

definition setup_packet :: "ctrlreq \<Rightarrow> u8 list" where
  "setup_packet r =
     [USB_DIR_OUT OR USB_TYPE_VENDOR OR USB_RECIP_DEVICE, cr_request r] @ le16 (cr_value r)
       @ le16 (cr_index r) @ le16 (ucast (cr_len r))"

definition alloc_setup :: "usb_state \<Rightarrow> addr option \<times> usb_state" where
  "alloc_setup s =
     (let p = next_usb s; s1 = s\<lparr>next_usb := Suc p\<rparr>
      in if usb_alloc_ok s p then (Some p, s1\<lparr>usb_setups := (usb_setups s)(p := Some (usb_junk s p))\<rparr>)
         else (None, s1))"

text \<open>Both drivers free a packet with \<^verbatim>\<open>kfree\<close>, after a test for NULL that prints a message.\<close>

definition free_setup :: "addr option \<Rightarrow> usb_state \<Rightarrow> usb_state option" where
  "free_setup ap s =
     (case ap of
        None \<Rightarrow> Some s
      | Some p \<Rightarrow> do { b \<leftarrow> usb_setups s p; Some (s\<lparr>usb_setups := (usb_setups s)(p := None)\<rparr>) })"

definition write_setup :: "addr option \<Rightarrow> ctrlreq option \<Rightarrow> usb_state \<Rightarrow> usb_state option" where
  "write_setup ap req s =
     do { p \<leftarrow> ap;
          b \<leftarrow> usb_setups s p;
          r \<leftarrow> req;
          Some (s\<lparr>usb_setups := (usb_setups s)(p := Some (setup_packet r))\<rparr>) }"

section \<open>The WLAN driver\<close>

definition wlan_usb_alloc_urb :: "usb_state \<Rightarrow> addr option \<times> usb_state" where
  "wlan_usb_alloc_urb = usb_alloc_urb"

definition wlan_usb_free_urb :: "addr option \<Rightarrow> usb_state \<Rightarrow> usb_state option" where
  "wlan_usb_free_urb = usb_free_urb"

text \<open>The result of the core is dropped.\<close>

definition wlan_usb_unlink_urb :: "addr option \<Rightarrow> usb_state \<Rightarrow> usb_state option" where
  "wlan_usb_unlink_urb p s = map_option snd (usb_unlink_urb p s)"

definition wlan_usb_kill_urb :: "addr option \<Rightarrow> usb_state \<Rightarrow> usb_state option" where
  "wlan_usb_kill_urb = usb_kill_urb"

definition wlan_usb_get_status :: "addr option \<Rightarrow> usb_state \<Rightarrow> int option" where
  "wlan_usb_get_status = urb_field ub_status"

definition wlan_usb_get_context :: "addr option \<Rightarrow> usb_state \<Rightarrow> nat option" where
  "wlan_usb_get_context = urb_field ub_context"

definition wlan_usb_is_srmv :: "int \<Rightarrow> int" where
  "wlan_usb_is_srmv status =
     (if status = - ENODEV \<or> status = - EINVAL \<or> status = - ESHUTDOWN \<or> status = - 71 then 1 else 0)"

definition wlan_usb_get_len :: "addr option \<Rightarrow> usb_state \<Rightarrow> int option" where
  "wlan_usb_get_len = urb_field ub_actual"

text \<open>The length is an \<^verbatim>\<open>int\<close> that \<^verbatim>\<open>usb_control_msg\<close> takes as 16 bits.\<close>

definition wlan_usb_ctrl_msg ::
  "addr option \<Rightarrow> u8 \<Rightarrow> u8 \<Rightarrow> addr option \<Rightarrow> int \<Rightarrow> ctrlreq option \<Rightarrow> usb_state \<Rightarrow> (int \<times> usb_state) option" where
  "wlan_usb_ctrl_msg usbdev ep type buffer len request s =
     do { pipe \<leftarrow> create_pipe Ctrl_pipe (if type = USB_WRITE_OP then To_device else From_device) usbdev (ucast ep);
          req \<leftarrow> request;
          usb_control_msg
            \<lparr>cm_pipe = pipe, cm_request = cr_request req,
             cm_type = (if type = USB_WRITE_OP then USB_DIR_OUT OR USB_TYPE_VENDOR OR USB_RECIP_DEVICE
                        else USB_DIR_IN OR USB_TYPE_VENDOR OR USB_RECIP_DEVICE),
             cm_value = cr_value req, cm_index = cr_index req, cm_buf = buffer,
             cm_size = word_of_int len, cm_timeout = 0\<rparr> s }"

definition wlan_usb_alloc_ctrlreq :: "usb_state \<Rightarrow> addr option \<times> usb_state" where
  "wlan_usb_alloc_ctrlreq = alloc_setup"

definition wlan_usb_free_ctrlreq :: "addr option \<Rightarrow> usb_state \<Rightarrow> usb_state option" where
  "wlan_usb_free_ctrlreq = free_setup"

text \<open>The tests for NULL print and go on.\<close>

definition wlan_usb_set_ctrlreq :: "addr option \<Rightarrow> ctrlreq option \<Rightarrow> usb_state \<Rightarrow> usb_state option" where
  "wlan_usb_set_ctrlreq = write_setup"

definition wlan_usb_ctrl_req ::
  "addr option \<Rightarrow> addr option \<Rightarrow> u8 \<Rightarrow> addr option \<Rightarrow> int \<Rightarrow> nat \<Rightarrow> addr option \<Rightarrow> usb_state \<Rightarrow> (int \<times> usb_state) option" where
  "wlan_usb_ctrl_req urb usbdev ep buffer len context request s =
     do { pipe \<leftarrow> create_pipe Ctrl_pipe To_device usbdev (ucast ep);
          fill_submit urb (usb_fill_control_urb usbdev pipe request buffer len Done_wlan context) s }"

definition wlan_usb_rcvint ::
  "addr option \<Rightarrow> addr option \<Rightarrow> u8 \<Rightarrow> addr option \<Rightarrow> int \<Rightarrow> nat \<Rightarrow> int \<Rightarrow> usb_state \<Rightarrow> (int \<times> usb_state) option" where
  "wlan_usb_rcvint urb usbdev ep buffer len context interval s =
     do { pipe \<leftarrow> create_pipe Int_pipe From_device usbdev (ucast ep);
          fill_submit urb (usb_fill_int_urb usbdev pipe buffer len Done_wlan context
            (int_interval s usbdev interval)) s }"

definition wlan_usb_bulkin ::
  "addr option \<Rightarrow> addr option \<Rightarrow> u8 \<Rightarrow> addr option \<Rightarrow> int \<Rightarrow> nat \<Rightarrow> usb_state \<Rightarrow> (int \<times> usb_state) option" where
  "wlan_usb_bulkin urb usbdev ep buffer len context s =
     do { pipe \<leftarrow> create_pipe Bulk_pipe From_device usbdev (ucast ep);
          fill_submit urb (\<lambda>u. let u1 = usb_fill_bulk_urb usbdev pipe buffer len Done_wlan context u
            in u1\<lparr>ub_flags := ub_flags u1 AND NOT URB_SHORT_NOT_OK\<rparr>) s }"

definition wlan_usb_bulkout ::
  "addr option \<Rightarrow> addr option \<Rightarrow> u8 \<Rightarrow> addr option \<Rightarrow> int \<Rightarrow> nat \<Rightarrow> usb_state \<Rightarrow> (int \<times> usb_state) option" where
  "wlan_usb_bulkout urb usbdev ep buffer len context s =
     do { pipe \<leftarrow> create_pipe Bulk_pipe To_device usbdev (ucast ep);
          fill_submit urb (usb_fill_bulk_urb usbdev pipe buffer len Done_wlan context) s }"

section \<open>The Bluetooth driver\<close>

definition bt_usb_urb_alloc :: "usb_state \<Rightarrow> addr option \<times> usb_state" where
  "bt_usb_urb_alloc = usb_alloc_urb"

definition bt_usb_urb_free :: "addr option \<Rightarrow> usb_state \<Rightarrow> usb_state option" where
  "bt_usb_urb_free = usb_free_urb"

definition bt_usb_urb_unlink :: "addr option \<Rightarrow> usb_state \<Rightarrow> (int \<times> usb_state) option" where
  "bt_usb_urb_unlink = usb_unlink_urb"

definition bt_usb_urb_kill :: "addr option \<Rightarrow> usb_state \<Rightarrow> usb_state option" where
  "bt_usb_urb_kill = usb_kill_urb"

definition bt_usb_get_status :: "addr option \<Rightarrow> usb_state \<Rightarrow> int option" where
  "bt_usb_get_status = urb_field ub_status"

definition bt_usb_get_context :: "addr option \<Rightarrow> usb_state \<Rightarrow> nat option" where
  "bt_usb_get_context = urb_field ub_context"

definition bt_usb_get_len :: "addr option \<Rightarrow> usb_state \<Rightarrow> int option" where
  "bt_usb_get_len = urb_field ub_actual"

definition bt_usb_alloc_ctrlreq :: "usb_state \<Rightarrow> addr option \<times> usb_state" where
  "bt_usb_alloc_ctrlreq = alloc_setup"

definition bt_usb_free_ctrlreq :: "addr option \<Rightarrow> usb_state \<Rightarrow> usb_state option" where
  "bt_usb_free_ctrlreq = free_setup"

definition bt_usb_set_ctrlreq :: "addr option \<Rightarrow> ctrlreq option \<Rightarrow> usb_state \<Rightarrow> usb_state option" where
  "bt_usb_set_ctrlreq = write_setup"

definition bt_usb_ctrl_req ::
  "addr option \<Rightarrow> addr option \<Rightarrow> u8 \<Rightarrow> addr option \<Rightarrow> int \<Rightarrow> nat \<Rightarrow> addr option \<Rightarrow> usb_state \<Rightarrow> (int \<times> usb_state) option" where
  "bt_usb_ctrl_req urb usbdev ep buffer len context request s =
     do { pipe \<leftarrow> create_pipe Ctrl_pipe To_device usbdev (ucast ep);
          fill_submit urb (usb_fill_control_urb usbdev pipe request buffer len Done_ctrl context) s }"

text \<open>The interval of the caller is not used.\<close>

definition bt_usb_rcvint ::
  "addr option \<Rightarrow> addr option \<Rightarrow> u8 \<Rightarrow> addr option \<Rightarrow> int \<Rightarrow> nat \<Rightarrow> int \<Rightarrow> usb_state \<Rightarrow> (int \<times> usb_state) option" where
  "bt_usb_rcvint urb usbdev ep buffer len context interval s =
     do { pipe \<leftarrow> create_pipe Int_pipe From_device usbdev (ucast ep);
          fill_submit urb (usb_fill_int_urb usbdev pipe buffer len Done_int context
            (int_interval s usbdev 7)) s }"

definition bt_usb_bulkin ::
  "addr option \<Rightarrow> addr option \<Rightarrow> u8 \<Rightarrow> addr option \<Rightarrow> int \<Rightarrow> nat \<Rightarrow> usb_state \<Rightarrow> (int \<times> usb_state) option" where
  "bt_usb_bulkin urb usbdev ep buffer len context s =
     do { pipe \<leftarrow> create_pipe Bulk_pipe From_device usbdev (ucast ep);
          fill_submit urb (\<lambda>u.
            let u1 = (if ep = INDEX_EP_BULK_IN_DATA
                      then usb_fill_bulk_urb usbdev pipe buffer len Done_data context u
                      else usb_fill_bulk_urb usbdev pipe buffer len Done_inq context u)
            in u1\<lparr>ub_flags := ub_flags u1 AND NOT URB_SHORT_NOT_OK\<rparr>) s }"

definition bt_usb_bulkout ::
  "addr option \<Rightarrow> addr option \<Rightarrow> u8 \<Rightarrow> addr option \<Rightarrow> int \<Rightarrow> nat \<Rightarrow> usb_state \<Rightarrow> (int \<times> usb_state) option" where
  "bt_usb_bulkout urb usbdev ep buffer len context s =
     do { pipe \<leftarrow> create_pipe Bulk_pipe To_device usbdev (ucast ep);
          fill_submit urb (usb_fill_bulk_urb usbdev pipe buffer len Done_out context) s }"

text \<open>The test for NULL prints and goes on.\<close>

definition bt_usb_get_sndbulkpipe :: "addr option \<Rightarrow> u32 \<Rightarrow> usb_pipe option" where
  "bt_usb_get_sndbulkpipe hdev ep = create_pipe Bulk_pipe To_device hdev ep"

definition bt_usb_ctrl_msg_b ::
  "addr option \<Rightarrow> int \<Rightarrow> int \<Rightarrow> int \<Rightarrow> int \<Rightarrow> addr option \<Rightarrow> int \<Rightarrow> int \<Rightarrow> u32 \<Rightarrow> usb_state \<Rightarrow> (int \<times> usb_state) option" where
  "bt_usb_ctrl_msg_b dev requesttype request value index buff sz timeout direct s =
     do { pipe \<leftarrow> create_pipe Ctrl_pipe (if direct = VENDOR_CMD_IN then From_device else To_device) dev INDEX_EP_CTRL;
          usb_control_msg
            \<lparr>cm_pipe = pipe, cm_request = word_of_int request, cm_type = word_of_int requesttype,
             cm_value = word_of_int value, cm_index = word_of_int index, cm_buf = buff,
             cm_size = word_of_int sz, cm_timeout = timeout\<rparr> s }"

definition bt_usb_submit_bulkouturb ::
  "addr option \<Rightarrow> addr option \<Rightarrow> usb_pipe \<Rightarrow> addr option \<Rightarrow> int \<Rightarrow> nat \<Rightarrow> usb_state \<Rightarrow> (int \<times> usb_state) option" where
  "bt_usb_submit_bulkouturb urb udev pipe buffer buffer_len context s =
     fill_submit urb (usb_fill_bulk_urb udev pipe buffer buffer_len Done_out context) s"

definition bt_usb_status_nodev :: "int \<Rightarrow> int" where
  "bt_usb_status_nodev status = of_bool (status = - ENODEV)"

definition bt_usb_status_inval :: "int \<Rightarrow> int" where
  "bt_usb_status_inval status = of_bool (status = - EINVAL)"

definition bt_usb_status_shutdown :: "int \<Rightarrow> int" where
  "bt_usb_status_shutdown status = of_bool (status = - ESHUTDOWN)"

definition bt_usb_status_proto :: "int \<Rightarrow> int" where
  "bt_usb_status_proto status = of_bool (status = - EPROTO)"

definition bt_usb_status_connreset :: "int \<Rightarrow> int" where
  "bt_usb_status_connreset status = of_bool (status = - ECONNRESET)"

definition bt_usb_status_noent :: "int \<Rightarrow> int" where
  "bt_usb_status_noent status = of_bool (status = - ENOENT)"

definition bt_usb_get_reqtype :: "u32 \<Rightarrow> u8" where
  "bt_usb_get_reqtype direct =
     (if direct = VENDOR_CMD_IN then USB_DIR_IN OR USB_TYPE_VENDOR OR USB_RECIP_DEVICE
      else USB_DIR_OUT OR USB_TYPE_VENDOR OR USB_RECIP_DEVICE)"

end
