(* ===== verification/Os_Usb_Spec.thy ===== *)
theory Os_Usb_Spec
  imports Os_Usb
begin

text \<open>
  The contract of the USB wrappers: what every transfer function of both drivers does with the
  request it is given (locale \<open>usb_transfer\<close>), and the runs of both drivers' calls and of the
  core giving requests back.
\<close>

section \<open>Well-formed states\<close>

text \<open>The transfer a request is in flight with: its routine, itself and the caller's context.\<close>

type_synonym transfer = "usb_done \<times> addr \<times> nat"

definition in_flight :: "usb_state \<Rightarrow> addr \<Rightarrow> transfer list" where
  "in_flight s p =
     (case urbs s p of
        Some u \<Rightarrow> (if ub_flying u then [(the (ub_done u), p, ub_context u)] else [])
      | None \<Rightarrow> [])"

definition usb_ok :: "usb_state \<Rightarrow> bool" where
  "usb_ok s \<longleftrightarrow>
     (\<forall>p u. urbs s p = Some u \<longrightarrow>
        p < next_usb s \<and> (ub_held u \<or> ub_flying u) \<and> (ub_flying u \<longrightarrow> ub_done u \<noteq> None) \<and>
        (ub_cancel u \<noteq> None \<longrightarrow> ub_flying u))"

text \<open>The driver has a reference to a request, which is in flight or not.\<close>

definition has_urb :: "usb_state \<Rightarrow> addr option \<Rightarrow> bool" where
  "has_urb s ap = (case ap of None \<Rightarrow> False | Some p \<Rightarrow> (case urbs s p of Some u \<Rightarrow> ub_held u | None \<Rightarrow> False))"

definition idle_urb :: "usb_state \<Rightarrow> addr option \<Rightarrow> bool" where
  "idle_urb s ap \<longleftrightarrow> has_urb s ap \<and> in_flight s (the ap) = []"

definition of_urb :: "addr \<Rightarrow> transfer list \<Rightarrow> transfer list" where
  "of_urb p = filter (\<lambda>(d, q, c). q = p)"

text \<open>The calls of the library's routines, without status and length.\<close>

definition routine_calls :: "usb_state \<Rightarrow> transfer list" where
  "routine_calls s = map (\<lambda>(d, p, c, st, n). (d, p, c)) (given s)"

lemma of_urb_simps [simp]:
  "of_urb p [] = []" "of_urb p (xs @ ys) = of_urb p xs @ of_urb p ys"
  "of_urb p ((d, q, c) # xs) = (if q = p then (d, q, c) # of_urb p xs else of_urb p xs)"
  by (simp_all add: of_urb_def)

lemma has_urbE:
  assumes "has_urb s ap"
  obtains p u where "ap = Some p" "urbs s p = Some u" "ub_held u"
  using assms by (auto simp: has_urb_def split: option.splits)

lemma idle_urbE:
  assumes "idle_urb s ap"
  obtains p u where "ap = Some p" "urbs s p = Some u" "ub_held u" "\<not> ub_flying u"
  using assms by (auto simp: idle_urb_def in_flight_def split: if_splits elim!: has_urbE)

lemma set_urb_simps [simp]:
  "urbs (set_urb p u s) = (urbs s)(p := Some u)" "next_usb (set_urb p u s) = next_usb s"
  "given (set_urb p u s) = given s" "usb_setups (set_urb p u s) = usb_setups s"
  "submit_verdict (set_urb p u s) = submit_verdict s" "ctrl_sent (set_urb p u s) = ctrl_sent s"
  "set_urb p u (set_urb p v s) = set_urb p u s" "int_interval (set_urb p u s) = int_interval s"
  by (simp_all add: set_urb_def)

lemma in_flight_set_urb:
  "in_flight (set_urb p u s) q =
     (if q = p then (if ub_flying u then [(the (ub_done u), p, ub_context u)] else []) else in_flight s q)"
  by (simp add: in_flight_def)

lemma usb_ok_set_urb:
  assumes "usb_ok s" "p < next_usb s" "ub_held u \<or> ub_flying u" "ub_flying u \<longrightarrow> ub_done u \<noteq> None"
    "ub_cancel u \<noteq> None \<longrightarrow> ub_flying u"
  shows "usb_ok (set_urb p u s)"
  using assms by (auto simp: usb_ok_def)

lemma usb_okD:
  assumes "usb_ok s" "urbs s p = Some u"
  shows "p < next_usb s" "ub_held u \<or> ub_flying u" "ub_flying u \<Longrightarrow> \<exists>d. ub_done u = Some d"
    "\<not> ub_flying u \<Longrightarrow> ub_cancel u = None"
  using assms unfolding usb_ok_def by blast+

section \<open>The contract of a transfer function\<close>

text \<open>
  \<open>go\<close> is the function on its arguments, \<open>valid\<close> says which arguments it can be called with,
  \<open>routine\<close> and \<open>context\<close> what the transfer is to be answered with.
\<close>

locale usb_transfer =
  fixes go :: "addr option \<Rightarrow> 'a \<Rightarrow> usb_state \<Rightarrow> (int \<times> usb_state) option"
    and valid :: "'a \<Rightarrow> bool"
    and routine :: "'a \<Rightarrow> usb_done"
    and cookie :: "'a \<Rightarrow> nat"
  assumes fills: "valid a \<Longrightarrow> \<exists>f. go ap a s = fill_submit ap f s \<and>
      (\<forall>u. ub_done (f u) = Some (routine a) \<and> ub_context (f u) = cookie a \<and>
           ub_held (f u) = ub_held u \<and> ub_flying (f u) = ub_flying u \<and> ub_cancel (f u) = ub_cancel u)"

context usb_transfer begin

lemma accepted_or_refused:
  assumes ok: "usb_ok s" and idle: "idle_urb s (Some p)" and valid: "valid a"
  obtains r s' where "go (Some p) a s = Some (r, s')" "usb_ok s'" "given s' = given s"
    "in_flight s' = (in_flight s)(p := if r = 0 then [(routine a, p, cookie a)] else [])"
proof -
  obtain u where u: "urbs s p = Some u" "ub_held u" "\<not> ub_flying u"
    using idle by (auto elim: idle_urbE)
  obtain f where f: "go (Some p) a s = fill_submit (Some p) f s"
      "ub_done (f u) = Some (routine a)" "ub_context (f u) = cookie a" "ub_held (f u) = ub_held u"
      "ub_flying (f u) = ub_flying u" "ub_cancel (f u) = ub_cancel u"
    using fills [OF valid, of "Some p" s] by auto
  let ?u = "f u\<lparr>ub_status := - EINPROGRESS, ub_actual := 0\<rparr>"
  let ?r = "submit_verdict s ?u"
  let ?s = "set_urb p (?u\<lparr>ub_flying := (?r = 0)\<rparr>) s"
  have "go (Some p) a s = Some (?r, ?s)"
    using u f by (simp add: fill_submit_def usb_submit_urb_def Let_def)
  moreover have "usb_ok ?s"
    using f u usb_okD [OF ok u(1)] by (intro usb_ok_set_urb [OF ok]) auto
  moreover have "in_flight ?s = (in_flight s)(p := if ?r = 0 then [(routine a, p, cookie a)] else [])"
    using f by (auto simp: in_flight_set_urb fun_eq_iff)
  ultimately show ?thesis using that by simp
qed

lemma null_crashes: "valid a \<Longrightarrow> go None a s = None"
  using fills [of a None s] by (auto simp: fill_submit_def)

lemma busy_refused:
  assumes "valid a" "urbs s p = Some u" "ub_flying u"
  shows "\<exists>s'. go (Some p) a s = Some (submit_busy s, s') \<and> in_flight s' p = [(routine a, p, cookie a)]"
proof -
  obtain f where f: "go (Some p) a s = fill_submit (Some p) f s"
      "ub_done (f u) = Some (routine a)" "ub_context (f u) = cookie a" "ub_flying (f u)"
    using fills [OF assms(1), of "Some p" s] assms(3) by auto
  then show ?thesis
    using assms by (simp add: fill_submit_def usb_submit_urb_def in_flight_def set_urb_def)
qed

end

section \<open>The transfer functions of both drivers\<close>

text \<open>
  A request of the library: device, endpoint, buffer, length and context, and the set-up packet
  or the interval.  \<open>Pipe_out\<close> is the Bluetooth driver's transfer on a pipe it has made before.
\<close>

datatype usb_request =
  Ctrl_req "addr option" u8 "addr option" int nat "addr option"
| Rcv_int "addr option" u8 "addr option" int nat int
| Bulk_in "addr option" u8 "addr option" int nat
| Bulk_out "addr option" u8 "addr option" int nat
| Pipe_out "addr option" usb_pipe "addr option" int nat

datatype usb_driver = Wlan_usb | Bt_usb

fun wlan_transfer :: "addr option \<Rightarrow> usb_request \<Rightarrow> usb_state \<Rightarrow> (int \<times> usb_state) option" where
  "wlan_transfer urb (Ctrl_req dev ep buf n ctx setup) = wlan_usb_ctrl_req urb dev ep buf n ctx setup"
| "wlan_transfer urb (Rcv_int dev ep buf n ctx iv) = wlan_usb_rcvint urb dev ep buf n ctx iv"
| "wlan_transfer urb (Bulk_in dev ep buf n ctx) = wlan_usb_bulkin urb dev ep buf n ctx"
| "wlan_transfer urb (Bulk_out dev ep buf n ctx) = wlan_usb_bulkout urb dev ep buf n ctx"
| "wlan_transfer urb (Pipe_out dev pipe buf n ctx) = (\<lambda>s. None)"

fun bt_transfer :: "addr option \<Rightarrow> usb_request \<Rightarrow> usb_state \<Rightarrow> (int \<times> usb_state) option" where
  "bt_transfer urb (Ctrl_req dev ep buf n ctx setup) = bt_usb_ctrl_req urb dev ep buf n ctx setup"
| "bt_transfer urb (Rcv_int dev ep buf n ctx iv) = bt_usb_rcvint urb dev ep buf n ctx iv"
| "bt_transfer urb (Bulk_in dev ep buf n ctx) = bt_usb_bulkin urb dev ep buf n ctx"
| "bt_transfer urb (Bulk_out dev ep buf n ctx) = bt_usb_bulkout urb dev ep buf n ctx"
| "bt_transfer urb (Pipe_out dev pipe buf n ctx) = bt_usb_submit_bulkouturb urb dev pipe buf n ctx"

fun transfer_of :: "usb_driver \<Rightarrow> addr option \<Rightarrow> usb_request \<Rightarrow> usb_state \<Rightarrow> (int \<times> usb_state) option" where
  "transfer_of Wlan_usb = wlan_transfer"
| "transfer_of Bt_usb = bt_transfer"

text \<open>The device is given, and the WLAN driver has no function for pipes.\<close>

fun valid_request :: "usb_driver \<Rightarrow> usb_request \<Rightarrow> bool" where
  "valid_request d (Ctrl_req dev ep buf n ctx setup) = (dev \<noteq> None)"
| "valid_request d (Rcv_int dev ep buf n ctx iv) = (dev \<noteq> None)"
| "valid_request d (Bulk_in dev ep buf n ctx) = (dev \<noteq> None)"
| "valid_request d (Bulk_out dev ep buf n ctx) = (dev \<noteq> None)"
| "valid_request d (Pipe_out dev pipe buf n ctx) = (d = Bt_usb)"

text \<open>The routine of the library that is to hear of a transfer's end.\<close>

fun answered_by :: "usb_driver \<Rightarrow> usb_request \<Rightarrow> usb_done" where
  "answered_by Wlan_usb r = Done_wlan"
| "answered_by Bt_usb (Ctrl_req dev ep buf n ctx setup) = Done_ctrl"
| "answered_by Bt_usb (Rcv_int dev ep buf n ctx iv) = Done_int"
| "answered_by Bt_usb (Bulk_in dev ep buf n ctx) = (if ep = 5 then Done_data else Done_inq)"
| "answered_by Bt_usb (Bulk_out dev ep buf n ctx) = Done_out"
| "answered_by Bt_usb (Pipe_out dev pipe buf n ctx) = Done_out"

fun context_of :: "usb_request \<Rightarrow> nat" where
  "context_of (Ctrl_req dev ep buf n ctx setup) = ctx"
| "context_of (Rcv_int dev ep buf n ctx iv) = ctx"
| "context_of (Bulk_in dev ep buf n ctx) = ctx"
| "context_of (Bulk_out dev ep buf n ctx) = ctx"
| "context_of (Pipe_out dev pipe buf n ctx) = ctx"

lemmas usb_fill_simps = usb_fill_bulk_urb_def usb_fill_control_urb_def usb_fill_int_urb_def

lemmas transfer_simps = wlan_usb_ctrl_req_def wlan_usb_rcvint_def wlan_usb_bulkin_def
  wlan_usb_bulkout_def bt_usb_ctrl_req_def bt_usb_rcvint_def bt_usb_bulkin_def bt_usb_bulkout_def
  bt_usb_submit_bulkouturb_def

text \<open>A fill that keeps what the core owns and sets routine and context.\<close>

lemma fills_witness:
  assumes "g = fill_submit ap f s" "\<And>u. ub_done (f u) = Some d" "\<And>u. ub_context (f u) = c"
    "\<And>u. ub_held (f u) = ub_held u" "\<And>u. ub_flying (f u) = ub_flying u" "\<And>u. ub_cancel (f u) = ub_cancel u"
  shows "\<exists>f. g = fill_submit ap f s \<and> (\<forall>u. ub_done (f u) = Some d \<and> ub_context (f u) = c \<and>
    ub_held (f u) = ub_held u \<and> ub_flying (f u) = ub_flying u \<and> ub_cancel (f u) = ub_cancel u)"
  using assms by blast

interpretation wlan_urb: usb_transfer wlan_transfer "valid_request Wlan_usb" "answered_by Wlan_usb" context_of
proof
  fix a ap s assume "valid_request Wlan_usb a"
  then show "\<exists>f. wlan_transfer ap a s = fill_submit ap f s \<and>
      (\<forall>u. ub_done (f u) = Some (answered_by Wlan_usb a) \<and> ub_context (f u) = context_of a \<and>
           ub_held (f u) = ub_held u \<and> ub_flying (f u) = ub_flying u \<and> ub_cancel (f u) = ub_cancel u)"
    by (cases a) (auto simp: transfer_simps usb_fill_simps Let_def intro!: fills_witness)
qed

interpretation bt_urb: usb_transfer bt_transfer "valid_request Bt_usb" "answered_by Bt_usb" context_of
proof
  fix a ap s assume "valid_request Bt_usb a"
  then show "\<exists>f. bt_transfer ap a s = fill_submit ap f s \<and>
      (\<forall>u. ub_done (f u) = Some (answered_by Bt_usb a) \<and> ub_context (f u) = context_of a \<and>
           ub_held (f u) = ub_held u \<and> ub_flying (f u) = ub_flying u \<and> ub_cancel (f u) = ub_cancel u)"
    by (cases a) (auto simp: transfer_simps usb_fill_simps Let_def intro!: fills_witness)
qed

interpretation any_urb: usb_transfer "transfer_of d" "valid_request d" "answered_by d" context_of for d
  by (cases d) (simp_all, rule wlan_urb.usb_transfer_axioms, rule bt_urb.usb_transfer_axioms)

end
