(* ===== verification/Os_Usb_Props.thy ===== *)
theory Os_Usb_Props
  imports Os_Usb_Spec
begin

text \<open>
  Runs of the USB wrappers of both drivers: every transfer the core accepted is answered once, in
  order, by the routine of the library it belongs to; set-up packets, control messages and the
  status a cancelled request is given back with.
\<close>

section \<open>Runs\<close>

text \<open>
  A call of a driver, or the core giving a request back.  A step returns the transfers accepted:
  those whose function returned 0.
\<close>

datatype usb_call =
  Urb_alloc usb_driver
| Urb_free usb_driver "addr option"
| Urb_unlink usb_driver "addr option"
| Urb_kill usb_driver "addr option"
| Urb_submit usb_driver "addr option" usb_request
| Give_back addr int int

fun usb_step :: "usb_call \<Rightarrow> usb_state \<Rightarrow> (transfer list \<times> usb_state) option" where
  "usb_step (Urb_alloc Wlan_usb) s = Some ([], snd (wlan_usb_alloc_urb s))"
| "usb_step (Urb_alloc Bt_usb) s = Some ([], snd (bt_usb_urb_alloc s))"
| "usb_step (Urb_free Wlan_usb ap) s = map_option (Pair []) (wlan_usb_free_urb ap s)"
| "usb_step (Urb_free Bt_usb ap) s = map_option (Pair []) (bt_usb_urb_free ap s)"
| "usb_step (Urb_unlink Wlan_usb ap) s = map_option (Pair []) (wlan_usb_unlink_urb ap s)"
| "usb_step (Urb_unlink Bt_usb ap) s = map_option (\<lambda>(r, s1). ([], s1)) (bt_usb_urb_unlink ap s)"
| "usb_step (Urb_kill Wlan_usb ap) s = map_option (Pair []) (wlan_usb_kill_urb ap s)"
| "usb_step (Urb_kill Bt_usb ap) s = map_option (Pair []) (bt_usb_urb_kill ap s)"
| "usb_step (Urb_submit d ap r) s =
     map_option (\<lambda>(v, s1). (if v = 0 then [(answered_by d r, the ap, context_of r)] else [], s1))
       (transfer_of d ap r s)"
| "usb_step (Give_back p st n) s = map_option (Pair []) (giveback p st n s)"

text \<open>
  The rules of the core's documentation: a driver passes a request it holds, or NULL where the
  core takes it, and submits only requests that are not in flight.
\<close>

fun legal_call :: "usb_call \<Rightarrow> usb_state \<Rightarrow> bool" where
  "legal_call (Urb_alloc d) s = True"
| "legal_call (Urb_free d ap) s = (ap = None \<or> has_urb s ap)"
| "legal_call (Urb_unlink d ap) s = (ap = None \<or> has_urb s ap)"
| "legal_call (Urb_kill d ap) s = (ap = None \<or> has_urb s ap)"
| "legal_call (Urb_submit d ap r) s = (valid_request d r \<and> idle_urb s ap)"
| "legal_call (Give_back p st n) s = (in_flight s p \<noteq> [])"

fun usb_run :: "usb_call list \<Rightarrow> usb_state \<Rightarrow> (transfer list \<times> usb_state) option" where
  "usb_run [] s = Some ([], s)"
| "usb_run (c # cs) s =
     do { (acc, s1) \<leftarrow> usb_step c s; (accs, s2) \<leftarrow> usb_run cs s1; Some (acc @ accs, s2) }"

text \<open>Every call of the run is legal in the state it is made in.\<close>

fun legal_run :: "usb_call list \<Rightarrow> usb_state \<Rightarrow> bool" where
  "legal_run [] s = True"
| "legal_run (c # cs) s =
     (legal_call c s \<and> (case usb_step c s of Some (acc, s1) \<Rightarrow> legal_run cs s1 | None \<Rightarrow> True))"

section \<open>One step\<close>

text \<open>
  What a step has to keep: the transfers in flight before it and those it accepts are the ones it
  answers and those in flight after it, request by request and in this order.
\<close>

definition conserves :: "usb_state \<Rightarrow> transfer list \<Rightarrow> usb_state \<Rightarrow> bool" where
  "conserves s acc s' \<longleftrightarrow>
     (\<exists>new. routine_calls s' = routine_calls s @ new \<and>
        (\<forall>p. in_flight s p @ of_urb p acc = of_urb p new @ in_flight s' p))"

lemma conserves_refl: "conserves s [] s"
  by (simp add: conserves_def)

lemma conserves_trans:
  assumes "conserves s a s1" "conserves s1 b s2"
  shows "conserves s (a @ b) s2"
proof -
  obtain m where m: "routine_calls s1 = routine_calls s @ m"
      "\<And>p. in_flight s p @ of_urb p a = of_urb p m @ in_flight s1 p"
    using assms(1) by (auto simp: conserves_def)
  obtain n where n: "routine_calls s2 = routine_calls s1 @ n"
      "\<And>p. in_flight s1 p @ of_urb p b = of_urb p n @ in_flight s2 p"
    using assms(2) by (auto simp: conserves_def)
  have "in_flight s p @ of_urb p (a @ b) = of_urb p (m @ n) @ in_flight s2 p" for p
    using m(2) [of p] n(2) [of p] by (simp flip: append_assoc) simp
  then show ?thesis using m(1) n(1) by (auto simp: conserves_def)
qed

text \<open>A step that calls no routine and leaves what is in flight.\<close>

lemma conserves_quiet: "given s' = given s \<Longrightarrow> in_flight s' = in_flight s \<Longrightarrow> conserves s [] s'"
  by (simp add: conserves_def routine_calls_def)

lemma giveback_step:
  assumes "usb_ok s" "in_flight s p \<noteq> []"
  obtains s' where "giveback p st n s = Some s'" "usb_ok s'" "conserves s [] s'" "in_flight s' p = []"
    "\<And>q. q \<noteq> p \<Longrightarrow> urbs s' q = urbs s q" "next_usb s' = next_usb s"
proof -
  obtain u where u: "urbs s p = Some u" "ub_flying u"
    using assms(2) by (auto simp: in_flight_def split: option.splits if_splits)
  obtain d where d: "ub_done u = Some d" using usb_okD(3) [OF assms(1) u(1) u(2)] by blast
  let ?st = "case ub_cancel u of Some c \<Rightarrow> c | None \<Rightarrow> st"
  let ?u = "u\<lparr>ub_status := ?st, ub_actual := n, ub_flying := False, ub_cancel := None\<rparr>"
  let ?s = "s\<lparr>urbs := (urbs s)(p := if ub_held u then Some ?u else None),
              given := given s @ [(d, p, ub_context u, ?st, n)]\<rparr>"
  have "giveback p st n s = Some ?s"
    using u d by (simp add: giveback_def Let_def)
  moreover have "usb_ok ?s"
    using assms(1) u(1) unfolding usb_ok_def by auto
  moreover have "conserves s [] ?s"
    unfolding conserves_def
    using u d by (intro exI [of _ "[(d, p, ub_context u)]"]) (auto simp: routine_calls_def in_flight_def)
  moreover have "in_flight ?s p = []" by (simp add: in_flight_def)
  ultimately show ?thesis by (intro that [of ?s]) simp_all
qed

lemma alloc_step:
  assumes "usb_ok s"
  shows "usb_ok (snd (usb_alloc_urb s)) \<and> conserves s [] (snd (usb_alloc_urb s))"
proof -
  have "urbs s (next_usb s) = None"
    using assms by (cases "urbs s (next_usb s)") (auto simp: usb_ok_def)
  then show ?thesis
    using assms unfolding usb_ok_def
    by (auto simp: usb_alloc_urb_def Let_def new_urb_def in_flight_def fun_eq_iff less_Suc_eq
        intro!: conserves_quiet)
qed

lemma free_step:
  assumes "usb_ok s" "ap = None \<or> has_urb s ap"
  shows "\<exists>s'. usb_free_urb ap s = Some s' \<and> usb_ok s' \<and> conserves s [] s'"
  using assms(2)
proof
  assume "has_urb s ap"
  then obtain p u where u: "ap = Some p" "urbs s p = Some u" "ub_held u" by (rule has_urbE)
  have "conserves s [] (set_urb p (u\<lparr>ub_held := False\<rparr>) s)"
    using u by (intro conserves_quiet) (auto simp: in_flight_set_urb fun_eq_iff in_flight_def)
  moreover have "conserves s [] (s\<lparr>urbs := (urbs s)(p := None)\<rparr>)" if "\<not> ub_flying u"
    using u that by (intro conserves_quiet) (auto simp: fun_eq_iff in_flight_def)
  moreover have "usb_ok (s\<lparr>urbs := (urbs s)(p := None)\<rparr>)"
    using assms(1) unfolding usb_ok_def by auto
  moreover have "ub_flying u \<Longrightarrow> usb_ok (set_urb p (u\<lparr>ub_held := False\<rparr>) s)"
    using usb_okD [OF assms(1) u(2)] by (intro usb_ok_set_urb [OF assms(1)]) auto
  ultimately show ?thesis using u by (simp add: usb_free_urb_def)
qed (use assms in \<open>simp add: usb_free_urb_def conserves_refl\<close>)

lemma unlink_step:
  assumes "usb_ok s" "ap = None \<or> has_urb s ap"
  shows "\<exists>r s'. usb_unlink_urb ap s = Some (r, s') \<and> usb_ok s' \<and> conserves s [] s'"
  using assms(2)
proof
  assume "has_urb s ap"
  then obtain p u where u: "ap = Some p" "urbs s p = Some u" "ub_held u" by (rule has_urbE)
  have "ub_flying u \<Longrightarrow> usb_ok (set_urb p (u\<lparr>ub_cancel := Some (- ECONNRESET)\<rparr>) s)"
    using usb_okD [OF assms(1) u(2)] u(3) by (intro usb_ok_set_urb [OF assms(1)]) auto
  moreover have "conserves s [] (set_urb p (u\<lparr>ub_cancel := Some (- ECONNRESET)\<rparr>) s)"
    using u by (intro conserves_quiet) (auto simp: in_flight_set_urb fun_eq_iff in_flight_def)
  ultimately show ?thesis
    using u assms(1) by (simp add: usb_unlink_urb_def conserves_refl)
qed (use assms in \<open>simp add: usb_unlink_urb_def conserves_refl\<close>)

lemma kill_step:
  assumes "usb_ok s" "ap = None \<or> has_urb s ap"
  obtains s' where "usb_kill_urb ap s = Some s'" "usb_ok s'" "conserves s [] s'"
    "ap \<noteq> None \<Longrightarrow> in_flight s' (the ap) = []"
proof (cases "ap = None")
  case True
  then show ?thesis using that [of s] assms by (simp add: usb_kill_urb_def conserves_refl)
next
  case False
  then obtain p u where u: "ap = Some p" "urbs s p = Some u" using assms(2) by (auto elim: has_urbE)
  show ?thesis
  proof (cases "ub_flying u")
    case True
    then have "in_flight s p \<noteq> []" using u by (simp add: in_flight_def)
    from giveback_step [OF assms(1) this, of "- ENOENT" "ub_actual u"] obtain s' where
      "giveback p (- ENOENT) (ub_actual u) s = Some s'" "usb_ok s'" "conserves s [] s'" "in_flight s' p = []" .
    then show ?thesis using that [of s'] u True by (simp add: usb_kill_urb_def)
  next
    case False
    then show ?thesis
      using that [of s] u assms(1) by (simp add: usb_kill_urb_def conserves_refl in_flight_def)
  qed
qed

lemma submit_step:
  assumes "usb_ok s" "valid_request d r" "idle_urb s ap"
  shows "\<exists>v s'. transfer_of d ap r s = Some (v, s') \<and> usb_ok s' \<and>
    conserves s (if v = 0 then [(answered_by d r, the ap, context_of r)] else []) s'"
proof -
  obtain p where p: "ap = Some p" using assms(3) by (auto elim: idle_urbE)
  have none: "in_flight s p = []" using assms(3) p by (simp add: idle_urb_def)
  obtain v s' where "transfer_of d (Some p) r s = Some (v, s')" "usb_ok s'" "given s' = given s"
      "in_flight s' = (in_flight s)(p := if v = 0 then [(answered_by d r, p, context_of r)] else [])"
    using any_urb.accepted_or_refused [OF assms(1) assms(3)[unfolded p] assms(2)] .
  then show ?thesis
    using none p by (auto simp: conserves_def routine_calls_def)
qed

lemma usb_step_conserves:
  assumes "usb_ok s" "legal_call c s"
  shows "\<exists>acc s'. usb_step c s = Some (acc, s') \<and> usb_ok s' \<and> conserves s acc s'"
proof (cases c)
  case (Urb_alloc d)
  then show ?thesis
    using alloc_step [OF assms(1)] by (cases d) (simp_all add: wlan_usb_alloc_urb_def bt_usb_urb_alloc_def)
next
  case (Urb_free d ap)
  then show ?thesis
    using free_step [OF assms(1), of ap] assms(2)
    by (cases d) (auto simp: wlan_usb_free_urb_def bt_usb_urb_free_def)
next
  case (Urb_unlink d ap)
  then show ?thesis
    using unlink_step [OF assms(1), of ap] assms(2)
    by (cases d) (auto simp: wlan_usb_unlink_urb_def bt_usb_urb_unlink_def)
next
  case (Urb_kill d ap)
  then have "ap = None \<or> has_urb s ap" using assms(2) by simp
  then obtain s' where "usb_kill_urb ap s = Some s'" "usb_ok s'" "conserves s [] s'"
    by (rule kill_step [OF assms(1)])
  then show ?thesis
    using Urb_kill by (cases d) (auto simp: wlan_usb_kill_urb_def bt_usb_urb_kill_def)
next
  case (Urb_submit d ap r)
  then have r: "valid_request d r" "idle_urb s ap" using assms(2) by simp_all
  obtain v s' where "transfer_of d ap r s = Some (v, s')" "usb_ok s'"
      "conserves s (if v = 0 then [(answered_by d r, the ap, context_of r)] else []) s'"
    using submit_step [OF assms(1) r] by blast
  then show ?thesis using Urb_submit by simp
next
  case (Give_back p st n)
  then have "in_flight s p \<noteq> []" using assms(2) by simp
  from giveback_step [OF assms(1) this, of st n] show ?thesis using Give_back by auto
qed

lemma usb_run_conserves:
  "usb_ok s \<Longrightarrow> legal_run cs s \<Longrightarrow> \<exists>acc s'. usb_run cs s = Some (acc, s') \<and> usb_ok s' \<and> conserves s acc s'"
proof (induction cs arbitrary: s)
  case Nil
  then show ?case by (simp add: conserves_refl)
next
  case (Cons c cs)
  obtain a s1 where s1: "usb_step c s = Some (a, s1)" "usb_ok s1" "conserves s a s1"
    using usb_step_conserves [OF Cons.prems(1), of c] Cons.prems(2) by auto
  moreover obtain b s2 where "usb_run cs s1 = Some (b, s2)" "usb_ok s2" "conserves s1 b s2"
    using Cons.IH [OF s1(2)] Cons.prems(2) s1(1) by auto
  ultimately show ?case by (auto intro: conserves_trans)
qed

section \<open>Every transfer is answered\<close>

text \<open>
  C15: Every sequence of calls of the USB wrappers of both drivers that passes valid requests and
  submits none that is in flight, with the core giving requests back in between, returns.  For
  every request (URB) the routines called in the run are, in order, exactly those of the transfers
  that were in flight or were accepted, each with the routine the library has for it (data and
  inquiry results read, data written, interrupt, control; one for the WLAN driver) and with the
  caller's context, except the one that is still in flight at the end.  None is lost, answered
  twice or handed to another routine, whatever is unlinked, killed or freed.
\<close>

theorem usb_transfers_answered:
  assumes "usb_ok s" and "legal_run calls s"
  shows "\<exists>accepted s'. usb_run calls s = Some (accepted, s') \<and> usb_ok s' \<and>
    (\<exists>new. routine_calls s' = routine_calls s @ new \<and>
       (\<forall>p. in_flight s p @ of_urb p accepted = of_urb p new @ in_flight s' p))"
  using usb_run_conserves [OF assms] unfolding conserves_def .

definition demo_usb :: usb_state where
  "demo_usb = \<lparr>urbs = \<lambda>p. None, usb_setups = \<lambda>p. None, next_usb = 0, given = [], ctrl_sent = [],
     usb_alloc_ok = \<lambda>p. True, usb_junk = \<lambda>p. replicate 8 0,
     submit_verdict = \<lambda>u. if ub_len u < 0 then - EINVAL else 0, submit_busy = - EBUSY,
     unlink_idle = - EBUSY, int_interval = \<lambda>dev n. n, ctrl_answer = \<lambda>c. None\<rparr>"

definition demo_calls :: "usb_call list" where
  "demo_calls =
     [Urb_alloc Bt_usb, Urb_submit Bt_usb (Some 0) (Bulk_in (Some 9) 5 (Some 7) 64 42),
      Urb_alloc Wlan_usb, Urb_submit Wlan_usb (Some 1) (Rcv_int (Some 8) 2 (Some 6) 4 43 10),
      Give_back 0 0 64, Urb_submit Bt_usb (Some 0) (Bulk_in (Some 9) 7 (Some 7) 64 44),
      Urb_unlink Wlan_usb (Some 1), Urb_free Wlan_usb (Some 1), Give_back 1 0 0]"

theorem usb_transfers_answered_witness:
  "\<exists>accepted s'. usb_run demo_calls demo_usb = Some (accepted, s') \<and> usb_ok s' \<and>
    (\<exists>new. routine_calls s' = routine_calls demo_usb @ new \<and>
       (\<forall>p. in_flight demo_usb p @ of_urb p accepted = of_urb p new @ in_flight s' p))"
proof (rule usb_transfers_answered)
  show "usb_ok demo_usb" by (simp add: usb_ok_def demo_usb_def)
  show "legal_run demo_calls demo_usb"
    by (simp add: demo_calls_def demo_usb_def wlan_usb_alloc_urb_def bt_usb_urb_alloc_def
        usb_alloc_urb_def idle_urb_def has_urb_def in_flight_def new_urb_def transfer_simps
        usb_fill_simps fill_submit_def usb_submit_urb_def giveback_def set_urb_def Let_def
        wlan_usb_unlink_urb_def usb_unlink_urb_def wlan_usb_free_urb_def usb_free_urb_def)
qed

section \<open>Cancelled requests\<close>

text \<open>The WLAN driver's test is the disjunction of four tests of the Bluetooth driver.\<close>

lemma srmv_tests:
  "wlan_usb_is_srmv st = 1 \<longleftrightarrow> bt_usb_status_nodev st = 1 \<or> bt_usb_status_inval st = 1 \<or>
     bt_usb_status_shutdown st = 1 \<or> bt_usb_status_proto st = 1"
  by (simp add: wlan_usb_is_srmv_def bt_usb_status_nodev_def bt_usb_status_inval_def
      bt_usb_status_shutdown_def bt_usb_status_proto_def)

text \<open>
  A request killed in flight is answered with a status that one of the tests of the Bluetooth
  driver recognises, one that was unlinked before with another; neither counts as a removed
  device for the WLAN driver.
\<close>

theorem killed_status:
  assumes "urbs s p = Some u" "ub_held u" "ub_flying u" "ub_done u = Some d"
  shows "\<exists>s' st. bt_usb_urb_kill (Some p) s = Some s' \<and> wlan_usb_kill_urb (Some p) s = Some s' \<and>
    in_flight s' p = [] \<and> bt_usb_get_status (Some p) s' = Some st \<and>
    wlan_usb_get_status (Some p) s' = Some st \<and> wlan_usb_is_srmv (- ENOENT) = 0 \<and>
    (ub_cancel u = None \<longrightarrow> bt_usb_status_noent st = 1 \<and> wlan_usb_is_srmv st = 0) \<and>
    (ub_cancel u = Some (- ECONNRESET) \<longrightarrow> bt_usb_status_connreset st = 1 \<and> wlan_usb_is_srmv st = 0)"
  using assms
  by (cases "ub_cancel u")
    (auto simp: bt_usb_urb_kill_def wlan_usb_kill_urb_def usb_kill_urb_def giveback_def Let_def
      in_flight_def bt_usb_get_status_def wlan_usb_get_status_def urb_field_def wlan_usb_is_srmv_def
      bt_usb_status_noent_def bt_usb_status_connreset_def)

text \<open>
  A request filled again while it is in flight is refused, but its fields are already those of
  the new transfer: the old one is answered to the routine and the context of the new one.
\<close>

theorem refill_redirects:
  assumes "urbs s p = Some u" "ub_flying u" "ub_held u" "dev \<noteq> None"
  shows "\<exists>s1 s2. bt_usb_bulkin (Some p) dev 7 buf n ctx s = Some (submit_busy s, s1) \<and>
    giveback p st k s1 = Some s2 \<and>
    routine_calls s2 = routine_calls s @ [(Done_inq, p, ctx)]"
  using assms
  by (auto simp: transfer_simps usb_fill_simps fill_submit_def usb_submit_urb_def giveback_def
      set_urb_def routine_calls_def Let_def)

section \<open>Set-up packets and control messages\<close>

fun rd16 :: "u8 list \<Rightarrow> u16" where
  "rd16 (a # b # xs) = ucast a OR push_bit 8 (ucast b)"
| "rd16 xs = 0"

lemma rd16_le16 [simp]: "rd16 (le16 x @ ys) = x"
proof (rule bit_word_eqI)
  fix n assume "n < LENGTH(16)"
  then show "bit (rd16 (le16 x @ ys)) n = bit x n" by (cases "8 \<le> n") (auto simp: le16_def bit_simps)
qed

lemma rd16_le16_only [simp]: "rd16 (le16 x) = x"
  using rd16_le16 [of x "[]"] by simp

lemma drop_le16 [simp]: "drop 2 (le16 x @ ys) = ys"
  by (simp add: le16_def)

text \<open>
  The packet of a request is a vendor request to the device with its request, value and index;
  of its length it carries the low 16 bits.
\<close>

theorem setup_packet_fields:
  assumes "usb_setups s p = Some old"
  shows "\<exists>s' b. wlan_usb_set_ctrlreq (Some p) (Some r) s = Some s' \<and>
    bt_usb_set_ctrlreq (Some p) (Some r) s = Some s' \<and> usb_setups s' p = Some b \<and>
    length b = 8 \<and> b ! 0 = bt_usb_get_reqtype 0 \<and> b ! 1 = cr_request r \<and>
    rd16 (drop 2 b) = cr_value r \<and> rd16 (drop 4 b) = cr_index r \<and>
    unat (rd16 (drop 6 b)) = unat (cr_len r) mod 65536"
proof -
  let ?b = "setup_packet r"
  have split: "?b = [0x40, cr_request r] @ le16 (cr_value r) @ le16 (cr_index r) @ le16 (ucast (cr_len r))"
    by (simp add: setup_packet_def)
  have "drop 2 ?b = le16 (cr_value r) @ le16 (cr_index r) @ le16 (ucast (cr_len r))"
    "drop 4 ?b = le16 (cr_index r) @ le16 (ucast (cr_len r))"
    "drop 6 ?b = le16 (ucast (cr_len r))"
    unfolding split by (simp_all add: le16_def)
  then have "rd16 (drop 2 ?b) = cr_value r \<and> rd16 (drop 4 ?b) = cr_index r \<and>
      rd16 (drop 6 ?b) = ucast (cr_len r)"
    by simp
  moreover have "length ?b = 8 \<and> ?b ! 0 = bt_usb_get_reqtype 0 \<and> ?b ! 1 = cr_request r"
    by (simp add: split le16_def bt_usb_get_reqtype_def)
  moreover have "unat (ucast (cr_len r) :: u16) = unat (cr_len r) mod 65536"
    by (simp add: unsigned_ucast_eq take_bit_eq_mod)
  ultimately show ?thesis
    using assms by (simp add: wlan_usb_set_ctrlreq_def bt_usb_set_ctrlreq_def write_setup_def)
qed

text \<open>
  A NULL packet is reported and then written through, and a NULL device is reported and then
  read: the tests of the wrappers stop nothing.
\<close>

lemma null_tests_stop_nothing:
  "wlan_usb_set_ctrlreq None r s = None" "bt_usb_set_ctrlreq None r s = None"
  "bt_usb_get_sndbulkpipe None ep = None"
  by (simp_all add: wlan_usb_set_ctrlreq_def bt_usb_set_ctrlreq_def write_setup_def
      bt_usb_get_sndbulkpipe_def)

text \<open>
  A control message of the WLAN driver to a device that does not answer never returns, where the
  Bluetooth driver's ends with the timeout of the caller.
\<close>

theorem silent_device:
  assumes "\<And>c. ctrl_answer s c = None" "0 < timeout"
  shows "wlan_usb_ctrl_msg (Some dev) ep type buf n (Some r) s = None \<and>
    (\<exists>s'. bt_usb_ctrl_msg_b (Some dev) rt rq v i buf n timeout dir s = Some (- ETIMEDOUT, s'))"
  using assms by (simp add: wlan_usb_ctrl_msg_def bt_usb_ctrl_msg_b_def usb_control_msg_def)

end
