(* ===== verification/Uwb_State.thy ===== *)
theory Uwb_State
  imports Bus_Ioctl Tdsp_String
begin

text \<open>
  The control utility \<^verbatim>\<open>src/applications/uwbtool\<close>: its global variables and the functions of
  \<^verbatim>\<open>main.c\<close> that talk to the bus's character device.  The device is a parameter, a record of
  what opening it, an ioctl and closing it do to the state \<open>'d\<close> behind it, and of what happens
  there while the utility sleeps or runs a script; \<^verbatim>\<open>Uwb_Sys\<close> puts the model of the bus and
  the drivers in its place.  Every function takes and returns the globals; \<open>None\<close> is a crash of
  the kernel or of the utility, or a loop that never ends.

  Uninitialised locals hold \<open>junk\<close>.  Printing is left out except for the verdict of a command.
\<close>

section \<open>The device\<close>

record 'd bus_dev =
  dev_open :: "'d \<Rightarrow> (bool \<times> 'd) option"
  dev_ioctl :: "u32 \<Rightarrow> umem \<Rightarrow> 'd \<Rightarrow> (int \<times> umem \<times> 'd) option"
  dev_close :: "'d \<Rightarrow> 'd option"
  dev_sleep :: "nat \<Rightarrow> 'd \<Rightarrow> 'd"
  dev_script :: "'d \<Rightarrow> 'd"

text \<open>libc turns a kernel result from -4095 to -1 into -1 and passes every other value on.\<close>

definition libc_result :: "int \<Rightarrow> int" where
  "libc_result r = (if - 4095 \<le> r \<and> r < 0 then - 1 else r)"

section \<open>The globals\<close>

abbreviation (input) TDSP_SERIAL_NO_BT :: u32 where "TDSP_SERIAL_NO_BT \<equiv> 1"
abbreviation (input) TDSP_SERIAL_NO_WLAN :: u32 where "TDSP_SERIAL_NO_WLAN \<equiv> 2"
abbreviation (input) TDSP_SERIAL_NO_COEXIST :: u32 where "TDSP_SERIAL_NO_COEXIST \<equiv> 3"
abbreviation (input) TDSP_SERIAL_NO_NONE :: u32 where "TDSP_SERIAL_NO_NONE \<equiv> 0xffff"
abbreviation (input) TDSP_SERIAL_NO_NOCARD :: u32 where "TDSP_SERIAL_NO_NOCARD \<equiv> 0x10000"

text \<open>The values of \<^verbatim>\<open>g_state\<close>; it starts as 10, which is none of them.\<close>

datatype wb_state = BT_only | WLAN_only | Both | Neither | Undefined

abbreviation (input) PowerOff :: u32 where "PowerOff \<equiv> 0"
abbreviation (input) PowerOn :: u32 where "PowerOn \<equiv> 1"

record 'd wb =
  g_state :: wb_state
  g_buspowerstate :: u32
  g_currentserialno :: u32
  g_busresetflag :: u32
  g_iscardin :: bool
  g_isclickinginprogress :: bool
  g_dsppnpstate :: u32
  g_allowedmodes :: "bool list"
  g_defaultmode :: int
  g_rawenummode :: u32
  g_eeprombuf :: "u8 list"
  g_downfromfile :: bool
  m_nHotKeyFlag :: int
  m_chcompanyid :: "u8 list"
  junk :: "nat \<Rightarrow> u8"
  malloc_ok :: "nat \<Rightarrow> bool"
  dev :: 'd

definition junk_bytes :: "nat \<Rightarrow> ('d, 'z) wb_scheme \<Rightarrow> u8 list" where
  "junk_bytes n s = map (junk s) [0..<n]"

section \<open>System calls\<close>

definition open_device :: "'d bus_dev \<Rightarrow> ('d, 'z) wb_scheme \<Rightarrow> (bool \<times> ('d, 'z) wb_scheme) option" where
  "open_device D s = do {
     (ok, d) \<leftarrow> dev_open D (dev s);
     Some (ok, if ok then s\<lparr>dev := d\<rparr> else s\<lparr>dev := d, g_iscardin := False\<rparr>)
   }"

definition close_device :: "'d bus_dev \<Rightarrow> ('d, 'z) wb_scheme \<Rightarrow> ('d, 'z) wb_scheme option" where
  "close_device D s = do { d \<leftarrow> dev_close D (dev s); Some (s\<lparr>dev := d\<rparr>) }"

definition ioctl_device :: "'d bus_dev \<Rightarrow> u32 \<Rightarrow> umem \<Rightarrow> ('d, 'z) wb_scheme \<Rightarrow> (int \<times> umem \<times> ('d, 'z) wb_scheme) option" where
  "ioctl_device D cmd m s = do {
     (r, m1, d) \<leftarrow> dev_ioctl D cmd m (dev s);
     Some (libc_result r, m1, s\<lparr>dev := d\<rparr>)
   }"

definition usleep :: "'d bus_dev \<Rightarrow> nat \<Rightarrow> ('d, 'z) wb_scheme \<Rightarrow> ('d, 'z) wb_scheme" where
  "usleep D us s = s\<lparr>dev := dev_sleep D us (dev s)\<rparr>"

text \<open>
  The pattern of all the functions below: open, one ioctl, close.  The result is \<open>None\<close> when
  the device cannot be opened.
\<close>

definition bus_request ::
  "'d bus_dev \<Rightarrow> u32 \<Rightarrow> umem \<Rightarrow> ('d, 'z) wb_scheme \<Rightarrow> ((int \<times> umem) option \<times> ('d, 'z) wb_scheme) option" where
  "bus_request D cmd m s = do {
     (ok, s1) \<leftarrow> open_device D s;
     if \<not> ok then Some (None, s1)
     else do {
       (r, m1, s2) \<leftarrow> ioctl_device D cmd m s1;
       s3 \<leftarrow> close_device D s2;
       Some (Some (r, m1), s3)
     }
   }"

section \<open>Queries\<close>

definition tdsp_query_power_state :: "'d bus_dev \<Rightarrow> ('d, 'z) wb_scheme \<Rightarrow> (u32 \<times> ('d, 'z) wb_scheme) option" where
  "tdsp_query_power_state D s = do {
     (q, s1) \<leftarrow> bus_request D IOCTL_BUSENUM_QUERY_BUS_POWER_STATE (junk_bytes 4 s)
                  (s\<lparr>g_buspowerstate := PowerOff\<rparr>);
     case q of
       None \<Rightarrow> Some (TDSP_SERIAL_NO_NOCARD, s1)
     | Some (r, m) \<Rightarrow>
         if r \<noteq> 0 then Some (TDSP_SERIAL_NO_NOCARD, s1)
         else Some (rd32 m, s1\<lparr>g_buspowerstate := rd32 m\<rparr>)
   }"

definition tdsp_query_device :: "'d bus_dev \<Rightarrow> ('d, 'z) wb_scheme \<Rightarrow> (u32 \<times> ('d, 'z) wb_scheme) option" where
  "tdsp_query_device D s = do {
     (q, s1) \<leftarrow> bus_request D IOCTL_BUSENUM_DISPLAY_IN_USE_DEVICE (junk_bytes 4 s)
                  (s\<lparr>g_iscardin := False, g_currentserialno := TDSP_SERIAL_NO_NOCARD\<rparr>);
     case q of
       None \<Rightarrow> Some (TDSP_SERIAL_NO_NOCARD, s1)
     | Some (r, m) \<Rightarrow>
         if r = - 1 then Some (TDSP_SERIAL_NO_NOCARD, s1)
         else Some (rd32 m, s1\<lparr>g_currentserialno := rd32 m, g_iscardin := True\<rparr>)
   }"

definition tdsp_query_reset_flag :: "'d bus_dev \<Rightarrow> ('d, 'z) wb_scheme \<Rightarrow> (u32 \<times> ('d, 'z) wb_scheme) option" where
  "tdsp_query_reset_flag D s = do {
     (q, s1) \<leftarrow> bus_request D IOCTL_BUSENUM_QUERY_RESET_FLAG (junk_bytes 4 s) (s\<lparr>g_busresetflag := 0\<rparr>);
     case q of
       None \<Rightarrow> Some (- 1, s1)
     | Some (r, m) \<Rightarrow>
         if r = - 1 then Some (- 1, s1) else Some (rd32 m, s1\<lparr>g_busresetflag := rd32 m\<rparr>)
   }"

text \<open>The utility's \<^verbatim>\<open>UnKnown\<close> is 7; \<^verbatim>\<open>Started\<close> is 1 on both sides.\<close>

definition tdsp_query_pnp_state :: "'d bus_dev \<Rightarrow> u32 \<Rightarrow> ('d, 'z) wb_scheme \<Rightarrow> (u32 \<times> ('d, 'z) wb_scheme) option" where
  "tdsp_query_pnp_state D mode s = do {
     (q, s1) \<leftarrow> bus_request D IOCTL_BUSENUM_QUERY_DEVICE_STATE (le32 mode) (s\<lparr>g_dsppnpstate := 7\<rparr>);
     case q of
       None \<Rightarrow> Some (4, s1)
     | Some (r, m) \<Rightarrow>
         if r = - 1 then Some (4, s1) else Some (rd32 m, s1\<lparr>g_dsppnpstate := rd32 m\<rparr>)
   }"

section \<open>Requests\<close>

text \<open>Both sleep before closing the device when the request was accepted.\<close>

definition request_and_sleep :: "'d bus_dev \<Rightarrow> u32 \<Rightarrow> umem \<Rightarrow> ('d, 'z) wb_scheme \<Rightarrow> (bool \<times> ('d, 'z) wb_scheme) option" where
  "request_and_sleep D cmd m s = do {
     (r, m1, s1) \<leftarrow> ioctl_device D cmd m s;
     if r = - 1 then do { s2 \<leftarrow> close_device D s1; Some (False, s2) }
     else do { s2 \<leftarrow> close_device D (usleep D 200000 s1); Some (True, s2) }
   }"

definition tdsp_download_dsp_code :: "'d bus_dev \<Rightarrow> u32 \<Rightarrow> ('d, 'z) wb_scheme \<Rightarrow> (bool \<times> ('d, 'z) wb_scheme) option" where
  "tdsp_download_dsp_code D serialno s = do {
     (ok, s1) \<leftarrow> open_device D s;
     if \<not> ok then Some (False, s1)
     else if serialno = TDSP_SERIAL_NO_BT then request_and_sleep D IOCTL_BUSENUM_RELOAD_BT_CODE [] s1
     else if serialno = TDSP_SERIAL_NO_WLAN then request_and_sleep D IOCTL_BUSENUM_RELOAD_WLAN_CODE [] s1
     else if serialno = TDSP_SERIAL_NO_COEXIST
     then request_and_sleep D IOCTL_BUSENUM_RELOAD_COMBO_CODE [] s1
     else do { s2 \<leftarrow> close_device D s1; Some (False, s2) }
   }"

definition tdsp_download_dsp_code_from_file :: "'d bus_dev \<Rightarrow> u32 \<Rightarrow> ('d, 'z) wb_scheme \<Rightarrow> (bool \<times> ('d, 'z) wb_scheme) option" where
  "tdsp_download_dsp_code_from_file D serialno s = do {
     (ok, s1) \<leftarrow> open_device D s;
     if \<not> ok then Some (False, s1)
     else request_and_sleep D IOCTL_BUSENUM_RELOAD_CODE_FROM_FILE (le32 serialno) s1
   }"

definition bus_accepts :: "'d bus_dev \<Rightarrow> u32 \<Rightarrow> umem \<Rightarrow> ('d, 'z) wb_scheme \<Rightarrow> (bool \<times> ('d, 'z) wb_scheme) option" where
  "bus_accepts D cmd m s = do {
     (q, s1) \<leftarrow> bus_request D cmd m s;
     case q of None \<Rightarrow> Some (False, s1) | Some (r, m1) \<Rightarrow> Some (r \<noteq> - 1, s1)
   }"

definition tdsp_set_init_flag :: "'d bus_dev \<Rightarrow> u32 \<Rightarrow> ('d, 'z) wb_scheme \<Rightarrow> (bool \<times> ('d, 'z) wb_scheme) option" where
  "tdsp_set_init_flag D mode = bus_accepts D IOCTL_BUSENUM_SET_INIT_FLAG (le32 mode)"

definition set_hotkey_flag :: "'d bus_dev \<Rightarrow> u32 \<Rightarrow> ('d, 'z) wb_scheme \<Rightarrow> (int \<times> ('d, 'z) wb_scheme) option" where
  "set_hotkey_flag D mode s = do {
     (ok, s1) \<leftarrow> bus_accepts D IOCTL_BUSENUM_SET_HOTKEY_FLAG (le32 mode) s;
     Some (if ok then 0 else - 1, s1)
   }"

definition write_enum_mode :: "'d bus_dev \<Rightarrow> u32 \<Rightarrow> ('d, 'z) wb_scheme \<Rightarrow> (int \<times> ('d, 'z) wb_scheme) option" where
  "write_enum_mode D mode s = do {
     (ok, s1) \<leftarrow> bus_accepts D IOCTL_BUSENUM_WRITE_ENUM_MODE (le32 mode) s;
     Some (if ok then 0 else - 1, s1)
   }"

definition read_enum_mode :: "'d bus_dev \<Rightarrow> ('d, 'z) wb_scheme \<Rightarrow> (u32 \<times> ('d, 'z) wb_scheme) option" where
  "read_enum_mode D s = do {
     (q, s1) \<leftarrow> bus_request D IOCTL_BUSENUM_READ_ENUM_MODE (junk_bytes 4 s) s;
     case q of
       None \<Rightarrow> Some (- 1, s1)
     | Some (r, m) \<Rightarrow> if r \<noteq> 0 then Some (- 1, s1) else Some (rd32 m, s1\<lparr>g_rawenummode := rd32 m\<rparr>)
   }"

text \<open>
  A plug request is the size of its fixed part, the serial number and the name; an unplug request
  ends with two reserved words that are not set.
\<close>

definition TDSPWLANID :: "u8 list" where
  "TDSPWLANID = bytes_of ''Tdspbus'' @ [0x5C] @ bytes_of ''TdspWlan'' @ [0, 0]"

definition TDSPBTID :: "u8 list" where
  "TDSPBTID = bytes_of ''Tdspbus'' @ [0x5C] @ bytes_of ''TdspBluetooth'' @ [0, 0]"

definition tdsp_add_device :: "'d bus_dev \<Rightarrow> u8 list \<Rightarrow> u32 \<Rightarrow> ('d, 'z) wb_scheme \<Rightarrow> (u32 \<times> ('d, 'z) wb_scheme) option" where
  "tdsp_add_device D devicename serialno s = do {
     (ok, s1) \<leftarrow> open_device D s;
     if \<not> ok then Some (TDSP_SERIAL_NO_NOCARD, s1)
     else if \<not> malloc_ok s1 (8 + length devicename)
     then do { s2 \<leftarrow> close_device D s1; Some (TDSP_SERIAL_NO_NOCARD, s2) }
     else do {
       (r, m, s2) \<leftarrow> ioctl_device D IOCTL_BUSENUM_PLUGIN_HARDWARE
                       (le32 8 @ le32 serialno @ devicename) s1;
       s3 \<leftarrow> close_device D s2;
       Some (if r = - 1 then TDSP_SERIAL_NO_NOCARD else serialno, s3)
     }
   }"

definition tdsp_remove_device :: "'d bus_dev \<Rightarrow> u32 \<Rightarrow> ('d, 'z) wb_scheme \<Rightarrow> (u32 \<times> ('d, 'z) wb_scheme) option" where
  "tdsp_remove_device D serialno s = do {
     (ok, s1) \<leftarrow> bus_accepts D IOCTL_BUSENUM_UNPLUG_HARDWARE
                   (le32 16 @ le32 serialno @ junk_bytes 8 s) s;
     Some (if ok then serialno else TDSP_SERIAL_NO_NOCARD, s1)
   }"

definition tdsp_power_on :: "'d bus_dev \<Rightarrow> ('d, 'z) wb_scheme \<Rightarrow> ('d, 'z) wb_scheme option" where
  "tdsp_power_on D s = do { (ok, s1) \<leftarrow> bus_accepts D (BUSENUM_IOCTL 0x2c) [] s; Some s1 }"

definition tdsp_power_off :: "'d bus_dev \<Rightarrow> ('d, 'z) wb_scheme \<Rightarrow> ('d, 'z) wb_scheme option" where
  "tdsp_power_off D s = do { (ok, s1) \<leftarrow> bus_accepts D (BUSENUM_IOCTL 0x2d) [] s; Some s1 }"

section \<open>Registers and EEPROM\<close>

text \<open>The bytes copied from \<open>chbuf\<close> must be there: \<open>memcpy\<close> reads past a shorter object.\<close>

definition tdsp_write_words ::
  "'d bus_dev \<Rightarrow> u32 \<Rightarrow> u32 \<Rightarrow> u32 \<Rightarrow> u8 list \<Rightarrow> ('d, 'z) wb_scheme \<Rightarrow> (bool \<times> ('d, 'z) wb_scheme) option" where
  "tdsp_write_words D cmd uloffset ullength chbuf s = do {
     (ok, s1) \<leftarrow> open_device D s;
     if \<not> ok then Some (False, s1)
     else if \<not> malloc_ok s1 (8 + unat ullength) then do { s2 \<leftarrow> close_device D s1; Some (False, s2) }
     else if length chbuf < unat ullength then None
     else do {
       (r, m, s2) \<leftarrow> ioctl_device D cmd (le32 uloffset @ le32 ullength @ take (unat ullength) chbuf) s1;
       s3 \<leftarrow> close_device D s2;
       Some (r \<noteq> - 1, s3)
     }
   }"

definition tdsp_write_eeprom :: "'d bus_dev \<Rightarrow> u32 \<Rightarrow> u32 \<Rightarrow> u8 list \<Rightarrow> ('d, 'z) wb_scheme \<Rightarrow> (bool \<times> ('d, 'z) wb_scheme) option" where
  "tdsp_write_eeprom D = tdsp_write_words D IOCTL_BUSENUM_WRITE_EEPROM"

definition tdsp_write_register :: "'d bus_dev \<Rightarrow> u32 \<Rightarrow> u32 \<Rightarrow> u8 list \<Rightarrow> ('d, 'z) wb_scheme \<Rightarrow> (bool \<times> ('d, 'z) wb_scheme) option" where
  "tdsp_write_register D = tdsp_write_words D IOCTL_BUSENUM_WRITE_REGISTER"

text \<open>
  The buffer of a read has \<open>ullength + 1\<close> bytes; a terminating zero is stored at index
  \<open>ullength + 1\<close>, behind its end.
\<close>

definition heap_store :: "nat \<Rightarrow> u8 \<Rightarrow> u8 list \<Rightarrow> u8 list option" where
  "heap_store i x m = (if i < length m then Some (m[i := x]) else None)"

definition tdsp_read_register :: "'d bus_dev \<Rightarrow> u32 \<Rightarrow> u32 \<Rightarrow> ('d, 'z) wb_scheme \<Rightarrow> ((bool \<times> u8 list) \<times> ('d, 'z) wb_scheme) option" where
  "tdsp_read_register D uloffset ullength s = do {
     (ok, s1) \<leftarrow> open_device D s;
     if \<not> ok then Some ((False, []), s1)
     else if \<not> malloc_ok s1 (8 + unat ullength + 1)
     then do { s2 \<leftarrow> close_device D s1; Some ((False, []), s2) }
     else do {
       (r, m, s2) \<leftarrow> ioctl_device D IOCTL_BUSENUM_READ_REGISTER
                       (le32 uloffset @ le32 ullength @ junk_bytes (unat ullength + 1) s1) s1;
       s3 \<leftarrow> close_device D s2;
       if r = - 1 then Some ((False, []), s3)
       else do {
         m1 \<leftarrow> heap_store (8 + unat ullength + 1) 0 m;
         Some ((True, take (unat ullength) (drop 8 m1)), s3)
       }
     }
   }"

section \<open>The state of the card\<close>

definition tdsp_is_download_dspcode_ok :: "'d bus_dev \<Rightarrow> ('d, 'z) wb_scheme \<Rightarrow> (bool \<times> ('d, 'z) wb_scheme) option" where
  "tdsp_is_download_dspcode_ok D s = do {
     (r, s1) \<leftarrow> tdsp_query_device D s;
     Some (g_iscardin s1 \<and> g_currentserialno s1 \<noteq> TDSP_SERIAL_NO_NONE, s1)
   }"

text \<open>Any other answer leaves \<^verbatim>\<open>g_state\<close> as it was.\<close>

definition adjust_func_state :: "'d bus_dev \<Rightarrow> ('d, 'z) wb_scheme \<Rightarrow> ('d, 'z) wb_scheme option" where
  "adjust_func_state D s = do {
     (r, s1) \<leftarrow> tdsp_query_device D s;
     let s2 = (if \<not> g_iscardin s1 then s1\<lparr>g_state := Neither\<rparr> else s1);
     Some (if g_currentserialno s2 = 1 then s2\<lparr>g_state := BT_only\<rparr>
           else if g_currentserialno s2 = 2 then s2\<lparr>g_state := WLAN_only\<rparr>
           else if g_currentserialno s2 = 3 then s2\<lparr>g_state := Both\<rparr>
           else if g_currentserialno s2 = TDSP_SERIAL_NO_NONE then s2\<lparr>g_state := Neither\<rparr>
           else s2)
   }"

text \<open>The mode the bus reports is used as an index without a test of its range.\<close>

definition allowed_mode :: "u32 \<Rightarrow> ('d, 'z) wb_scheme \<Rightarrow> bool option" where
  "allowed_mode e s =
     (let i = unat (e - 1) in if i < length (g_allowedmodes s) then Some (g_allowedmodes s ! i) else None)"

definition initial_tdsp_wb :: "'d bus_dev \<Rightarrow> ('d, 'z) wb_scheme \<Rightarrow> (int \<times> ('d, 'z) wb_scheme) option" where
  "initial_tdsp_wb D s = do {
     (e, s1) \<leftarrow> read_enum_mode D s;
     if e = - 1 then Some (- 1, s1)
     else do {
       e1 \<leftarrow> (if e = 0 then Some 0 else do { a \<leftarrow> allowed_mode e s1; Some (if a then e else 0) });
       let e2 = (if e1 = 0 then g_defaultmode s1 else sint e1);
       Some (0, s1\<lparr>g_rawenummode := e1, g_defaultmode := e2\<rparr>)
     }
   }"

end
