(* ===== verification/Uwb_Tool.thy ===== *)
theory Uwb_Tool
  imports Uwb_State
begin

text \<open>
  The commands of the control utility: \<^verbatim>\<open>unplugdevices\<close> and
  \<^verbatim>\<open>wait_device_unplug_stable\<close> of \<^verbatim>\<open>main.c\<close> and the menu callbacks of
  \<^verbatim>\<open>callbacks.c\<close>.  The counted loops recurse on the rounds that are left; the loop without a
  bound in \<^verbatim>\<open>on_coexist_activate\<close> is a partial function, which has no result when the loop
  does not end.
\<close>

section \<open>Unplugging\<close>

fun reset_wait :: "'d bus_dev \<Rightarrow> nat \<Rightarrow> ('d, 'z) wb_scheme \<Rightarrow> ('d, 'z) wb_scheme option" where
  "reset_wait D 0 s = Some s"
| "reset_wait D (Suc n) s = do {
     (r, s1) \<leftarrow> tdsp_query_reset_flag D s;
     if g_busresetflag s1 = 1 then reset_wait D n (usleep D 1000000 s1) else Some s1
   }"

text \<open>Both loops of polls report whether the power stayed on.\<close>

fun bt_off_wait :: "'d bus_dev \<Rightarrow> nat \<Rightarrow> ('d, 'z) wb_scheme \<Rightarrow> (bool \<times> ('d, 'z) wb_scheme) option" where
  "bt_off_wait D 0 s = Some (True, s)"
| "bt_off_wait D (Suc n) s = do {
     (r, s1) \<leftarrow> tdsp_query_power_state D s;
     if g_buspowerstate s1 \<noteq> PowerOn then Some (False, s1)
     else do {
       (r2, s2) \<leftarrow> tdsp_query_device D s1;
       let s3 = usleep D 500000 s2;
       if g_currentserialno s3 \<noteq> TDSP_SERIAL_NO_NONE \<and> g_currentserialno s3 AND 1 = 1
       then bt_off_wait D n s3
       else Some (True, s3)
     }
   }"

fun all_off_wait :: "'d bus_dev \<Rightarrow> nat \<Rightarrow> ('d, 'z) wb_scheme \<Rightarrow> (bool \<times> ('d, 'z) wb_scheme) option" where
  "all_off_wait D 0 s = Some (True, s)"
| "all_off_wait D (Suc n) s = do {
     (r, s1) \<leftarrow> tdsp_query_power_state D s;
     if g_buspowerstate s1 \<noteq> PowerOn then Some (False, s1)
     else do {
       (r2, s2) \<leftarrow> tdsp_query_device D s1;
       let s3 = usleep D 500000 s2;
       if g_currentserialno s3 \<noteq> TDSP_SERIAL_NO_NONE then all_off_wait D n s3
       else Some (True, s3)
     }
   }"

text \<open>Removing one device and then sleeping.\<close>

definition remove_and_sleep :: "'d bus_dev \<Rightarrow> u32 \<Rightarrow> ('d, 'z) wb_scheme \<Rightarrow> ('d, 'z) wb_scheme option" where
  "remove_and_sleep D sn s = do {
     (r, s1) \<leftarrow> tdsp_remove_device D sn s;
     Some (usleep D 500000 s1)
   }"

definition remove_devices :: "'d bus_dev \<Rightarrow> ('d, 'z) wb_scheme \<Rightarrow> (bool \<times> ('d, 'z) wb_scheme) option" where
  "remove_devices D s =
     (case g_state s of
        BT_only \<Rightarrow> do { s1 \<leftarrow> remove_and_sleep D TDSP_SERIAL_NO_BT s; Some (True, s1) }
      | WLAN_only \<Rightarrow> do { s1 \<leftarrow> remove_and_sleep D TDSP_SERIAL_NO_WLAN s; Some (True, s1) }
      | Both \<Rightarrow> do {
          s1 \<leftarrow> remove_and_sleep D TDSP_SERIAL_NO_BT s;
          (ok, s2) \<leftarrow> bt_off_wait D 600 s1;
          if \<not> ok then Some (False, s2)
          else do { s3 \<leftarrow> remove_and_sleep D TDSP_SERIAL_NO_WLAN s2; Some (True, s3) }
        }
      | _ \<Rightarrow> Some (True, s))"

definition unplugdevices :: "'d bus_dev \<Rightarrow> ('d, 'z) wb_scheme \<Rightarrow> (bool \<times> ('d, 'z) wb_scheme) option" where
  "unplugdevices D s =
     (if g_state s = Neither then Some (True, s)
      else do {
        (r, s1) \<leftarrow> tdsp_query_device D s;
        if g_currentserialno s1 = TDSP_SERIAL_NO_NOCARD then Some (False, s1)
        else if g_currentserialno s1 = TDSP_SERIAL_NO_NONE then Some (True, s1)
        else do {
          s2 \<leftarrow> reset_wait D 60 s1;
          (r3, s3) \<leftarrow> write_enum_mode D 0 s2;
          (ok, s4) \<leftarrow> remove_devices D s3;
          if \<not> ok then Some (False, s4)
          else do {
            (ok2, s5) \<leftarrow> all_off_wait D 1200 s4;
            Some (if ok2 then (True, s5\<lparr>g_state := Neither\<rparr>) else (False, s5))
          }
        }
      })"

fun stopped_wait :: "'d bus_dev \<Rightarrow> u32 \<Rightarrow> nat \<Rightarrow> ('d, 'z) wb_scheme \<Rightarrow> ('d, 'z) wb_scheme option" where
  "stopped_wait D sn 0 s = Some s"
| "stopped_wait D sn (Suc n) s =
     (if g_dsppnpstate s = 0xff then Some s
      else do { (r, s1) \<leftarrow> tdsp_query_pnp_state D sn (usleep D 500000 s); stopped_wait D sn n s1 })"

definition wait_device_unplug_stable :: "'d bus_dev \<Rightarrow> ('d, 'z) wb_scheme \<Rightarrow> ('d, 'z) wb_scheme option" where
  "wait_device_unplug_stable D s = do {
     (r1, s1) \<leftarrow> tdsp_query_pnp_state D 1 s;
     s2 \<leftarrow> stopped_wait D 1 5 s1;
     (r3, s3) \<leftarrow> tdsp_query_pnp_state D 2 s2;
     stopped_wait D 2 5 s3
   }"

section \<open>The commands\<close>

text \<open>
  The guard on entry: a click in progress ends the command, a mode that is not allowed ends it
  too, with the flag of a click in progress left set.
\<close>

definition command :: "bool \<Rightarrow> (('d, 'z) wb_scheme \<Rightarrow> ('d, 'z) wb_scheme option) \<Rightarrow> ('d, 'z) wb_scheme \<Rightarrow> ('d, 'z) wb_scheme option" where
  "command allowed body s =
     (if g_isclickinginprogress s then Some s
      else let s1 = s\<lparr>g_isclickinginprogress := True\<rparr>
           in if \<not> allowed then Some s1 else body s1)"

definition finish :: "('d, 'z) wb_scheme \<Rightarrow> ('d, 'z) wb_scheme" where
  "finish s = s\<lparr>g_isclickinginprogress := False\<rparr>"

text \<open>Unplugging what runs in another mode; the continuation runs when it succeeded.\<close>

definition clear_modes :: "'d bus_dev \<Rightarrow> bool \<Rightarrow> (('d, 'z) wb_scheme \<Rightarrow> ('d, 'z) wb_scheme option) \<Rightarrow> ('d, 'z) wb_scheme \<Rightarrow> ('d, 'z) wb_scheme option" where
  "clear_modes D needed k s =
     (if needed
      then do {
        (ok, s1) \<leftarrow> unplugdevices D s;
        if \<not> ok then Some (finish s1)
        else do { s2 \<leftarrow> wait_device_unplug_stable D s1; k s2 }
      }
      else k s)"

definition download :: "'d bus_dev \<Rightarrow> u32 \<Rightarrow> ('d, 'z) wb_scheme \<Rightarrow> ('d, 'z) wb_scheme option" where
  "download D sn s = do {
     (r, s1) \<leftarrow> (if \<not> g_downfromfile s then tdsp_download_dsp_code D sn s
                  else tdsp_download_dsp_code_from_file D sn s);
     Some s1
   }"

text \<open>Downloading the code, plugging the device in and asking whether anything runs.\<close>

definition start_device :: "'d bus_dev \<Rightarrow> u8 list \<Rightarrow> u32 \<Rightarrow> nat \<Rightarrow> nat \<Rightarrow> ('d, 'z) wb_scheme \<Rightarrow> (bool \<times> ('d, 'z) wb_scheme) option" where
  "start_device D name sn us1 us2 s = do {
     s1 \<leftarrow> download D sn s;
     (r, s2) \<leftarrow> tdsp_add_device D name sn (usleep D us1 s1);
     tdsp_is_download_dspcode_ok D (usleep D us2 s2)
   }"

definition give_up :: "'d bus_dev \<Rightarrow> ('d, 'z) wb_scheme \<Rightarrow> ('d, 'z) wb_scheme option" where
  "give_up D s = do {
     s1 \<leftarrow> adjust_func_state D (s\<lparr>g_state := Neither\<rparr>);
     Some (finish s1)
   }"

definition run_script :: "'d bus_dev \<Rightarrow> ('d, 'z) wb_scheme \<Rightarrow> ('d, 'z) wb_scheme" where
  "run_script D s = s\<lparr>dev := dev_script D (dev s)\<rparr>"

definition on_bluetooth_activate :: "'d bus_dev \<Rightarrow> ('d, 'z) wb_scheme \<Rightarrow> ('d, 'z) wb_scheme option" where
  "on_bluetooth_activate D s =
     command (g_allowedmodes s ! 0) (\<lambda>s. do {
       s1 \<leftarrow> adjust_func_state D s;
       if \<not> g_iscardin s1 then Some (finish (s1\<lparr>g_state := Neither\<rparr>))
       else if g_state s1 = BT_only then Some (finish s1)
       else clear_modes D (g_state s1 = WLAN_only \<or> g_state s1 = Both) (\<lambda>s2. do {
         (r, s3) \<leftarrow> write_enum_mode D 1 s2;
         (ok, s4) \<leftarrow> start_device D TDSPBTID TDSP_SERIAL_NO_BT 500000 500000 s3;
         if \<not> ok then give_up D s4
         else Some (run_script D (finish (s4\<lparr>g_state := BT_only\<rparr>)))
       }) s1
     }) s"

definition on_wlan_activate :: "'d bus_dev \<Rightarrow> ('d, 'z) wb_scheme \<Rightarrow> ('d, 'z) wb_scheme option" where
  "on_wlan_activate D s =
     command (g_allowedmodes s ! 1) (\<lambda>s. do {
       s1 \<leftarrow> adjust_func_state D s;
       if \<not> g_iscardin s1 then Some (finish (s1\<lparr>g_state := Neither\<rparr>))
       else if g_state s1 = WLAN_only then Some (finish s1)
       else clear_modes D (g_state s1 = BT_only \<or> g_state s1 = Both) (\<lambda>s2. do {
         (r, s3) \<leftarrow> write_enum_mode D 2 s2;
         (ok, s4) \<leftarrow> start_device D TDSPWLANID TDSP_SERIAL_NO_WLAN 500000 1000000 s3;
         if \<not> ok then give_up D s4 else Some (finish (s4\<lparr>g_state := WLAN_only\<rparr>))
       }) (usleep D 500000 s1)
     }) s"

text \<open>The loop that waits until the WLAN device has started, or the power has gone.\<close>

partial_function (option) started_wait :: "'d bus_dev \<Rightarrow> ('d, 'z) wb_scheme \<Rightarrow> (bool \<times> ('d, 'z) wb_scheme) option" where
  "started_wait D s = do {
     (r, s1) \<leftarrow> tdsp_query_pnp_state D 2 s;
     if g_dsppnpstate s1 \<noteq> 1
     then do {
       (r2, s2) \<leftarrow> tdsp_query_power_state D s1;
       if g_buspowerstate s2 \<noteq> PowerOn then Some (False, finish s2)
       else started_wait D (usleep D 500000 s2)
     }
     else Some (True, s1)
   }"

definition coexist_second :: "'d bus_dev \<Rightarrow> ('d, 'z) wb_scheme \<Rightarrow> ('d, 'z) wb_scheme option" where
  "coexist_second D s = do {
     (r, s1) \<leftarrow> tdsp_set_init_flag D 2 s;
     (ok, s2) \<leftarrow> start_device D TDSPBTID TDSP_SERIAL_NO_BT 200000 1000000 (usleep D 500000 s1);
     if \<not> ok then give_up D s2
     else do {
       (r3, s3) \<leftarrow> tdsp_set_init_flag D 1 s2;
       Some (run_script D (finish (s3\<lparr>g_state := Both\<rparr>)))
     }
   }"

definition on_coexist_activate :: "'d bus_dev \<Rightarrow> ('d, 'z) wb_scheme \<Rightarrow> ('d, 'z) wb_scheme option" where
  "on_coexist_activate D s =
     command (g_allowedmodes s ! 2) (\<lambda>s. do {
       s1 \<leftarrow> adjust_func_state D s;
       if \<not> g_iscardin s1 then Some (finish (s1\<lparr>g_state := Neither\<rparr>))
       else if g_state s1 = Both then Some (finish s1)
       else clear_modes D (g_state s1 = BT_only \<or> g_state s1 = WLAN_only) (\<lambda>s2. do {
         (r, s3) \<leftarrow> write_enum_mode D 3 s2;
         (ok, s4) \<leftarrow> start_device D TDSPWLANID TDSP_SERIAL_NO_WLAN 200000 1000000 s3;
         if \<not> ok then give_up D s4
         else do {
           (on, s5) \<leftarrow> started_wait D s4;
           if \<not> on then Some s5 else coexist_second D s5
         }
       }) (usleep D 500000 s1)
     }) s"

definition on_unplug_activate :: "'d bus_dev \<Rightarrow> ('d, 'z) wb_scheme \<Rightarrow> ('d, 'z) wb_scheme option" where
  "on_unplug_activate D =
     command True (\<lambda>s. do {
       s1 \<leftarrow> adjust_func_state D s;
       if g_state s1 = Neither then Some (finish s1)
       else clear_modes D (g_state s1 = BT_only \<or> g_state s1 = WLAN_only \<or> g_state s1 = Both)
         (\<lambda>s2. Some (finish (s2\<lparr>g_state := Neither\<rparr>))) s1
     })"

end
