(* ===== verification/Libc_Text.thy ===== *)
theory Libc_Text
  imports Tdsp_String
begin

text \<open>
  What the control utilities use of the C library on text: character classes, \<^verbatim>\<open>strtok\<close>,
  \<^verbatim>\<open>strcasecmp\<close>, \<^verbatim>\<open>atoi\<close>, \<^verbatim>\<open>fgets\<close> and the printing of an
  \<^verbatim>\<open>unsigned long\<close> in hexadecimal.  As in \<^verbatim>\<open>Tdsp_String\<close>, an array of characters is
  the list of its bytes up to its end, and \<open>None\<close> is an access behind that end.
\<close>

section \<open>Character classes\<close>

text \<open>The classes of the C locale; \<^verbatim>\<open>char\<close> is signed, so a byte from 0x80 is in none of them.\<close>

definition is_digit :: "u8 \<Rightarrow> bool" where
  "is_digit c \<longleftrightarrow> 0x30 \<le> c \<and> c \<le> 0x39"

definition is_space :: "u8 \<Rightarrow> bool" where
  "is_space c \<longleftrightarrow> c = 0x20 \<or> 9 \<le> c \<and> c \<le> 13"

definition isxdigit :: "u8 \<Rightarrow> bool" where
  "isxdigit c \<longleftrightarrow> is_digit c \<or> 0x41 \<le> c \<and> c \<le> 0x46 \<or> 0x61 \<le> c \<and> c \<le> 0x66"

definition toupper :: "u8 \<Rightarrow> u8" where
  "toupper c = (if 0x61 \<le> c \<and> c \<le> 0x7A then c - 32 else c)"

definition tolower :: "u8 \<Rightarrow> u8" where
  "tolower c = (if 0x41 \<le> c \<and> c \<le> 0x5A then c + 32 else c)"

section \<open>Strings\<close>

text \<open>Whether \<^verbatim>\<open>strcasecmp\<close> answers 0, on the characters before the terminating zeros.\<close>

definition same_word :: "u8 list \<Rightarrow> u8 list \<Rightarrow> bool" where
  "same_word s t \<longleftrightarrow> map tolower s = map tolower t"

text \<open>
  One call of \<^verbatim>\<open>strtok\<close> with a single delimiter on the array \<open>buf\<close> from position \<open>p\<close>:
  the token, the array with the token's end marked, and the position the next call starts from.
\<close>

definition strtok :: "u8 \<Rightarrow> u8 list \<Rightarrow> nat \<Rightarrow> (u8 list option \<times> u8 list \<times> nat) option" where
  "strtok d buf p =
     (let i = p + length (takeWhile (\<lambda>c. c = d) (drop p buf));
          t = takeWhile (\<lambda>c. c \<noteq> d \<and> c \<noteq> 0) (drop i buf);
          j = i + length t
      in if length buf \<le> j then None
         else if t = [] then Some (None, buf, i)
         else if buf ! j = d then Some (Some t, buf[j := 0], Suc j)
         else Some (Some t, buf, j))"

text \<open>\<^verbatim>\<open>long\<close> has 32 bits, and \<^verbatim>\<open>strtol\<close>, which \<^verbatim>\<open>atoi\<close> is, stops at its ends.\<close>

definition clamp32 :: "int \<Rightarrow> int" where
  "clamp32 x = (if x < - (2 ^ 31) then - (2 ^ 31) else if 2 ^ 31 - 1 < x then 2 ^ 31 - 1 else x)"

fun dec_value :: "int \<Rightarrow> u8 list \<Rightarrow> int" where
  "dec_value a [] = a"
| "dec_value a (c # cs) = (if is_digit c then dec_value (10 * a + (uint c - 0x30)) cs else a)"

definition atoi :: "u8 list \<Rightarrow> int" where
  "atoi s = clamp32
     (case dropWhile is_space s of
        [] \<Rightarrow> 0
      | c # cs \<Rightarrow>
          if c = 0x2D then - dec_value 0 cs
          else if c = 0x2B then dec_value 0 cs
          else dec_value 0 (c # cs))"

text \<open>\<^verbatim>\<open>strtol\<close> with base 0: the prefix chooses hexadecimal, octal or decimal.\<close>

definition in_base :: "int \<Rightarrow> u8 \<Rightarrow> int option" where
  "in_base base c =
     (let u = uint (toupper c);
          v = (if is_digit c then u - 0x30 else if 0x41 \<le> u \<and> u \<le> 0x5A then u - 0x41 + 10 else base)
      in if v < base then Some v else None)"

fun base_value :: "int \<Rightarrow> int \<Rightarrow> u8 list \<Rightarrow> int" where
  "base_value base a [] = a"
| "base_value base a (c # cs) =
     (case in_base base c of None \<Rightarrow> a | Some v \<Rightarrow> base_value base (base * a + v) cs)"

definition prefixed_value :: "u8 list \<Rightarrow> int" where
  "prefixed_value s =
     (case s of
        a # b # c # cs \<Rightarrow>
          if a = 0x30 \<and> toupper b = 0x58 \<and> in_base 16 c \<noteq> None then base_value 16 0 (c # cs)
          else if a = 0x30 then base_value 8 0 s else base_value 10 0 s
      | a # cs \<Rightarrow> if a = 0x30 then base_value 8 0 s else base_value 10 0 s
      | [] \<Rightarrow> 0)"

definition strtol0 :: "u8 list \<Rightarrow> int" where
  "strtol0 s = clamp32
     (case dropWhile is_space s of
        [] \<Rightarrow> 0
      | c # cs \<Rightarrow>
          if c = 0x2D then - prefixed_value cs
          else if c = 0x2B then prefixed_value cs
          else prefixed_value (c # cs))"

text \<open>
  Decimal printing of the numbers the utilities print, none of them negative: \<open>%d\<close>, \<open>%0nd\<close> and
  \<open>%nd\<close>, and \<open>%-ns\<close> for a string.
\<close>

fun dec_digits :: "nat \<Rightarrow> u8 list" where
  "dec_digits n = (if n < 10 then [0x30 + of_nat n] else dec_digits (n div 10) @ [0x30 + of_nat (n mod 10)])"

declare dec_digits.simps [simp del]

definition pad_left :: "u8 \<Rightarrow> nat \<Rightarrow> u8 list \<Rightarrow> u8 list" where
  "pad_left c n s = replicate (n - length s) c @ s"

definition fmt_d :: "int \<Rightarrow> u8 list" where
  "fmt_d i = dec_digits (nat i)"

definition fmt_0d :: "nat \<Rightarrow> int \<Rightarrow> u8 list" where
  "fmt_0d n i = pad_left 0x30 n (fmt_d i)"

definition fmt_nd :: "nat \<Rightarrow> int \<Rightarrow> u8 list" where
  "fmt_nd n i = pad_left 0x20 n (fmt_d i)"

definition fmt_s :: "nat \<Rightarrow> u8 list \<Rightarrow> u8 list" where
  "fmt_s n s = s @ replicate (n - length s) 0x20"

text \<open>The digits that \<open>%08lx\<close> prints.\<close>

definition hexdigit :: "nat \<Rightarrow> u8" where
  "hexdigit n = (if n < 10 then 0x30 + of_nat n else 0x57 + of_nat n)"

definition hex_long :: "u32 \<Rightarrow> u8 list" where
  "hex_long w = map (\<lambda>i. hexdigit (unat (drop_bit (4 * i) w AND 15))) [7, 6, 5, 4, 3, 2, 1, 0]"

section \<open>Streams\<close>

text \<open>A file open for reading: the bytes that are left, and the mark that its end was met.\<close>

record cfile =
  unread :: "u8 list"
  at_eof :: bool

fun take_line :: "nat \<Rightarrow> u8 list \<Rightarrow> u8 list" where
  "take_line 0 cs = []"
| "take_line n [] = []"
| "take_line (Suc n) (c # cs) = (if c = 10 then [c] else c # take_line n cs)"

text \<open>
  \<^verbatim>\<open>fgets\<close> leaves the array alone when there is nothing to read.  It looks for the end of
  the file when a line is cut short by neither a newline nor the size.
\<close>

definition fgets :: "nat \<Rightarrow> u8 list \<Rightarrow> cfile \<Rightarrow> u8 list \<times> cfile" where
  "fgets n buf f =
     (let l = take_line (n - 1) (unread f);
          open_line = (length l < n - 1 \<and> (l = [] \<or> last l \<noteq> 10))
      in (if l = [] then buf else l @ 0 # drop (Suc (length l)) buf,
          \<lparr>unread = drop (length l) (unread f), at_eof = at_eof f \<or> open_line\<rparr>))"

lemma take_line_Nil [simp]: "take_line n [] = []"
  by (cases n) simp_all

lemma length_take_line: "length (take_line n cs) \<le> length cs"
  by (induction n cs rule: take_line.induct) auto

lemma take_line_empty: "take_line n cs = [] \<longleftrightarrow> n = 0 \<or> cs = []"
  by (cases n; cases cs) auto

text \<open>Every call reads something or meets the end, so a loop that reads to the end ends.\<close>

lemma fgets_progress:
  assumes "fgets n buf f = (line, f')" "1 < n" "\<not> at_eof f"
  shows "length (unread f') < length (unread f) \<or> at_eof f' \<and> length (unread f') = length (unread f)"
  using assms by (cases "unread f") (auto simp: fgets_def take_line_empty Let_def)

section \<open>Lemmas\<close>

lemma take_line_line:
  "10 \<notin> set l \<Longrightarrow> length l < n \<Longrightarrow> take_line n (l @ 10 # cs) = l @ [10]"
  by (induction l arbitrary: n) (auto simp: less_Suc_eq_0_disj gr0_conv_Suc, (case_tac n; auto)+)

lemma same_word_refl [simp]: "same_word s s"
  by (simp add: same_word_def)

end
