(* ===== verification/Uwb_Parse.thy ===== *)
theory Uwb_Parse
  imports Uwb_State Libc_Text
begin

text \<open>
  How the control utilities read text: the configuration file \<^verbatim>\<open>wbusb.conf\<close> and the
  hexadecimal arguments of \<^verbatim>\<open>uwbtool\<close> (\<^verbatim>\<open>main.c\<close>).  \<open>None\<close> is an access outside an
  array.
\<close>

section \<open>Hexadecimal numbers\<close>

text \<open>
  \<^verbatim>\<open>hexstr2intnum\<close>: the powers of 16 are computed as \<^verbatim>\<open>double\<close>, which is exact here,
  and a value outside \<^verbatim>\<open>int\<close> is undefined.  At a character that is no digit the function
  fails, with the sum so far left in \<^verbatim>\<open>*num\<close>.
\<close>

definition xdigit_value :: "u8 \<Rightarrow> int" where
  "xdigit_value c =
     (let n = sint (toupper c) in if 0x41 \<le> n then n - 0x41 + 10 else n - 0x30)"

fun hex_loop :: "u8 list \<Rightarrow> nat \<Rightarrow> int \<Rightarrow> (bool \<times> int) option" where
  "hex_loop psrc 0 num = Some (True, num)"
| "hex_loop [] (Suc n) num = None"
| "hex_loop (c # psrc) (Suc n) num =
     (if \<not> isxdigit c then Some (False, num)
      else let v = xdigit_value c * 16 ^ n
           in if 2 ^ 31 \<le> v \<or> 2 ^ 31 \<le> num + v then None else hex_loop psrc n (num + v))"

definition hexstr2intnum :: "u8 list \<Rightarrow> nat \<Rightarrow> (bool \<times> int) option" where
  "hexstr2intnum psrc nlen = hex_loop psrc nlen 0"

text \<open>
  \<^verbatim>\<open>get_eeprom_data_2write\<close> decodes the argument \<open>greet\<close>, a string of \<open>length\<close>
  digits, into \<^verbatim>\<open>g_eeprombuf\<close> and ends it with a zero byte.  \<open>NULL\<close> is \<open>None\<close>.
\<close>

fun eeprom_loop :: "nat \<Rightarrow> nat \<Rightarrow> u8 list \<Rightarrow> u8 list \<Rightarrow> (bool \<times> u8 list) option" where
  "eeprom_loop 0 i g buf = (if i < length buf then Some (True, buf[i := 0]) else None)"
| "eeprom_loop (Suc n) i (a # b # g) buf =
     (if \<not> isxdigit a \<or> \<not> isxdigit b then Some (False, buf)
      else do {
        (r, num) \<leftarrow> hexstr2intnum (a # b # g) 2;
        if i < length buf then eeprom_loop n (Suc i) g (buf[i := of_int num]) else None
      })"
| "eeprom_loop (Suc n) i g buf = None"

definition get_eeprom_data_2write ::
  "u8 list option \<Rightarrow> nat \<Rightarrow> ('d, 'z) wb_scheme \<Rightarrow> (bool \<times> ('d, 'z) wb_scheme) option" where
  "get_eeprom_data_2write greet len s =
     (case greet of
        None \<Rightarrow> Some (False, s)
      | Some g \<Rightarrow>
          if length g \<noteq> len then Some (False, s)
          else do {
            (ok, buf) \<leftarrow> eeprom_loop ((len + 1) div 2) 0 (g @ [0]) (g_eeprombuf s);
            Some (ok, s\<lparr>g_eeprombuf := buf\<rparr>)
          })"

section \<open>The configuration file\<close>

text \<open>
  \<^verbatim>\<open>trim_gets_string\<close> cuts the line at the first line end; the position behind the leading
  blanks is only returned, and its caller drops it.
\<close>

definition trim_gets_string :: "u8 list \<Rightarrow> (nat option \<times> u8 list) option" where
  "trim_gets_string v =
     (if 0 \<notin> set v then None
      else let blanks = length (takeWhile (\<lambda>c. c = 32 \<or> c = 9) v);
               i = length (takeWhile (\<lambda>c. c \<noteq> 10 \<and> c \<noteq> 13 \<and> c \<noteq> 0) v)
           in Some (if blanks = 0 then None else Some blanks, v[i := 0]))"

text \<open>
  The loop of \<^verbatim>\<open>get_value_from_conffile\<close>.  A line that starts with a semicolon is
  overwritten with the digit 0, terminator included, and a read at the end of the file leaves the
  line of the round before in place.
\<close>

definition MENU_BT :: "u8 list" where
  "MENU_BT = bytes_of ''MENU_BT''"

lemma conf_step:
  assumes "\<not> at_eof f"
  shows "2 * length (unread (snd (fgets 100 line f))) + (if at_eof (snd (fgets 100 line f)) then 0 else 1)
    < Suc (2 * length (unread f))"
  using fgets_progress [of 100 line f "fst (fgets 100 line f)" "snd (fgets 100 line f)"] assms by auto

function conf_loop :: "u8 list \<Rightarrow> u8 list \<Rightarrow> cfile \<Rightarrow> u8 list option option" where
  "conf_loop key line f =
     (if at_eof f then Some None
      else if hd (fst (fgets 100 line f)) = 0x3B
      then conf_loop key (replicate 100 0x30) (snd (fgets 100 line f))
      else do {
        (p, line1) \<leftarrow> trim_gets_string (fst (fgets 100 line f));
        (name, line2, pos) \<leftarrow> strtok 0x3D line1 0;
        (val, line3, pos') \<leftarrow> strtok 0x3D line2 pos;
        case (name, val) of
          (Some n, Some v) \<Rightarrow>
            if same_word n key then Some (Some v)
            else if same_word n MENU_BT then Some None
            else conf_loop key line3 (snd (fgets 100 line f))
        | _ \<Rightarrow> conf_loop key line3 (snd (fgets 100 line f))
      })"
  by pat_completeness auto

termination
proof (relation "measure (\<lambda>(key, line, f). 2 * length (unread f) + (if at_eof f then 0 else 1))")
qed (simp_all add: conf_step)

declare conf_loop.simps [simp del]

lemma conf_loop_eof [simp]: "at_eof f \<Longrightarrow> conf_loop key line f = Some None"
  by (subst conf_loop.simps) simp

definition get_value_from_conffile :: "u8 list \<Rightarrow> u8 list \<Rightarrow> u8 list \<Rightarrow> u8 list option option" where
  "get_value_from_conffile line txt key = conf_loop key line \<lparr>unread = txt, at_eof = False\<rparr>"

section \<open>The configuration\<close>

text \<open>
  The digits of \<^verbatim>\<open>ALLOWEDMODES\<close>.  \<^verbatim>\<open>nlen\<close> is the length before the string is cut to
  three digits, so the loop meets the terminator of a longer one and fails there.
\<close>

fun allow_loop :: "u8 list \<Rightarrow> bool list \<Rightarrow> bool \<times> bool list" where
  "allow_loop [] modes = (True, modes)"
| "allow_loop (c # cs) modes =
     (let index = sint c - 0x30 - 1
      in if 3 \<le> index \<or> index < 0 then (False, modes)
         else allow_loop cs (modes[nat index := True]))"

definition allowed_digits :: "u8 list \<Rightarrow> u8 list" where
  "allowed_digits v = (if 3 < length v then v[3 := 0] else v)"

text \<open>The part of \<^verbatim>\<open>get_config_from_file\<close> that both utilities have, on the open file.\<close>

definition config_modes :: "u8 list \<Rightarrow> ('d, 'z) wb_scheme \<Rightarrow> (bool \<times> ('d, 'z) wb_scheme) option" where
  "config_modes txt s = do {
     a \<leftarrow> get_value_from_conffile (junk_bytes 100 s) txt (bytes_of ''ALLOWEDMODES'');
     case a of
       None \<Rightarrow> Some (False, s)
     | Some v \<Rightarrow>
         if 10 \<le> length v then None
         else let (ok, modes) = allow_loop (allowed_digits v) (g_allowedmodes s);
                  s1 = s\<lparr>g_allowedmodes := modes\<rparr>
              in Some (ok \<and> modes ! nat (g_defaultmode s - 1), s1)
   }"

definition config_default :: "u8 list \<Rightarrow> ('d, 'z) wb_scheme \<Rightarrow> (bool \<times> ('d, 'z) wb_scheme) option" where
  "config_default txt s = do {
     m \<leftarrow> get_value_from_conffile (junk_bytes 100 s) txt (bytes_of ''DEFAULTMODE'');
     let d = (case m of None \<Rightarrow> g_defaultmode s | Some v \<Rightarrow> atoi v);
     if 3 < d \<or> d \<le> 0 then Some (False, s\<lparr>g_defaultmode := 0\<rparr>)
     else config_modes txt (s\<lparr>g_defaultmode := d\<rparr>)
   }"

definition config_common :: "u8 list \<Rightarrow> ('d, 'z) wb_scheme \<Rightarrow> (bool \<times> ('d, 'z) wb_scheme) option" where
  "config_common txt s = do {
     h \<leftarrow> get_value_from_conffile (junk_bytes 100 s) txt (bytes_of ''HOTKEYFLAG'');
     let hot = (case h of None \<Rightarrow> m_nHotKeyFlag s | Some v \<Rightarrow> atoi v);
     if 1 < hot \<or> hot < 0 then Some (False, s\<lparr>m_nHotKeyFlag := 0\<rparr>)
     else do {
       c \<leftarrow> get_value_from_conffile (junk_bytes 100 s) txt (bytes_of ''COMPANYID'');
       case c of
         None \<Rightarrow> Some (False, s\<lparr>m_nHotKeyFlag := hot\<rparr>)
       | Some v \<Rightarrow> config_default txt (s\<lparr>m_nHotKeyFlag := hot, m_chcompanyid := v\<rparr>)
     }
   }"

text \<open>The file is \<open>None\<close> when it cannot be opened.\<close>

definition get_config_from_file ::
  "u8 list option \<Rightarrow> ('d, 'z) wb_scheme \<Rightarrow> (bool \<times> ('d, 'z) wb_scheme) option" where
  "get_config_from_file conf s =
     (case conf of None \<Rightarrow> Some (False, s) | Some txt \<Rightarrow> config_common txt s)"

end
