(* ===== verification/Uwb_Version.thy ===== *)
theory Uwb_Version
  imports Uwb_Tool Uwb_Parse
begin

text \<open>
  The version report of \<^verbatim>\<open>uwbtool\<close>: \<^verbatim>\<open>get_tdsp_version\<close> and
  \<^verbatim>\<open>update_ver_string\<close> of \<^verbatim>\<open>main.c\<close>.
\<close>

section \<open>Asking for the versions\<close>

text \<open>\<^verbatim>\<open>TDSPVERSION\<close>; \<^verbatim>\<open>pos\<close> says which of the versions are asked for.\<close>

record tdspversion =
  pos :: "bool list"
  btver :: "u8 list"
  wlanver :: "u8 list"
  busver :: "u8 list"
  firmwarever :: u32
  ver8051 :: u32

text \<open>
  One string: the buffer of 64 bytes that goes into the request comes back as a string, which is
  copied.  The result is \<open>None\<close> inside when the request failed.
\<close>

definition ask_string ::
  "'d bus_dev \<Rightarrow> u32 \<Rightarrow> u8 list \<Rightarrow> u8 list \<Rightarrow> ('d, 'z) wb_scheme \<Rightarrow> (u8 list option \<times> ('d, 'z) wb_scheme) option" where
  "ask_string D cmd verinfo dest s = do {
     (r, m, s1) \<leftarrow> ioctl_device D cmd verinfo s;
     if r = - 1 then do { s2 \<leftarrow> close_device D s1; Some (None, s2) }
     else do { v \<leftarrow> tdsp_strcpy dest m; Some (Some v, s1) }
   }"

definition ask_number ::
  "'d bus_dev \<Rightarrow> u32 \<Rightarrow> ('d, 'z) wb_scheme \<Rightarrow> (u32 option \<times> ('d, 'z) wb_scheme) option" where
  "ask_number D cmd s = do {
     (r, m, s1) \<leftarrow> ioctl_device D cmd (junk_bytes 4 s) s;
     if r = - 1 then do { s2 \<leftarrow> close_device D s1; Some (None, s2) } else Some (Some (rd32 m), s1)
   }"

text \<open>
  The steps of \<^verbatim>\<open>get_tdsp_version\<close>: a version that is not asked for is skipped, one that
  fails is no longer asked for and ends the function with -1.
\<close>

definition version_step ::
  "nat \<Rightarrow> (('d, 'z) wb_scheme \<Rightarrow> ('v option \<times> ('d, 'z) wb_scheme) option) \<Rightarrow>
   ('v \<Rightarrow> tdspversion \<Rightarrow> tdspversion) \<Rightarrow>
   (tdspversion \<Rightarrow> ('d, 'z) wb_scheme \<Rightarrow> (int \<times> tdspversion \<times> ('d, 'z) wb_scheme) option) \<Rightarrow>
   tdspversion \<Rightarrow> ('d, 'z) wb_scheme \<Rightarrow> (int \<times> tdspversion \<times> ('d, 'z) wb_scheme) option" where
  "version_step i ask put k ver s =
     (if pos ver ! i
      then do {
        (q, s1) \<leftarrow> ask s;
        case q of
          None \<Rightarrow> Some (- 1, ver\<lparr>pos := (pos ver)[i := False]\<rparr>, s1)
        | Some v \<Rightarrow> k (put v ver) s1
      }
      else k ver s)"

definition version_done ::
  "'d bus_dev \<Rightarrow> tdspversion \<Rightarrow> ('d, 'z) wb_scheme \<Rightarrow> (int \<times> tdspversion \<times> ('d, 'z) wb_scheme) option" where
  "version_done D ver s = do { s1 \<leftarrow> close_device D s; Some (1, ver, s1) }"

definition get_tdsp_version ::
  "'d bus_dev \<Rightarrow> tdspversion \<Rightarrow> ('d, 'z) wb_scheme \<Rightarrow> (int \<times> tdspversion \<times> ('d, 'z) wb_scheme) option" where
  "get_tdsp_version D ver s = do {
     (ok, s1) \<leftarrow> open_device D s;
     if \<not> ok then Some (- 1, ver, s1)
     else
       version_step 0 (ask_string D IOCTL_BUSENUM_QUERY_DEVICE_VERSION (le32 1 @ replicate 60 0) (btver ver))
         (\<lambda>v ver. ver\<lparr>btver := v\<rparr>) (
       version_step 1 (ask_string D IOCTL_BUSENUM_QUERY_DEVICE_VERSION (le32 2 @ replicate 60 0) (wlanver ver))
         (\<lambda>v ver. ver\<lparr>wlanver := v\<rparr>) (
       version_step 2 (ask_string D IOCTL_BUSENUM_QUERY_BUS_VERSION (replicate 64 0) (busver ver))
         (\<lambda>v ver. ver\<lparr>busver := v\<rparr>) (
       version_step 3 (ask_number D IOCTL_BUSENUM_QUERY_FIRMWARE_VERSION)
         (\<lambda>v ver. ver\<lparr>firmwarever := v\<rparr>) (
       version_step 4 (ask_number D IOCTL_BUSENUM_QUERY_8051_VERSION)
         (\<lambda>v ver. ver\<lparr>ver8051 := v\<rparr>) (version_done D))))) ver s1
   }"

section \<open>The report\<close>

text \<open>
  The four numbers of a version: the digits it prints are cut in pairs and each pair is read
  back.
\<close>

definition version_pair :: "u8 list \<Rightarrow> nat \<Rightarrow> int option" where
  "version_pair digits i = do {
     (r, num) \<leftarrow> hexstr2intnum [digits ! i, digits ! Suc i, 0] 2;
     Some num
   }"

definition version_numbers :: "u32 \<Rightarrow> (int \<times> int \<times> int \<times> int) option" where
  "version_numbers w = do {
     let digits = hex_long w;
     board_type \<leftarrow> version_pair digits 0;
     major_version \<leftarrow> version_pair digits 2;
     test_type \<leftarrow> version_pair digits 4;
     minor_version \<leftarrow> version_pair digits 6;
     Some (board_type, major_version, test_type, minor_version)
   }"

definition UWBTOOLVER :: "u8 list" where
  "UWBTOOLVER = bytes_of ''0.3.02''"

definition dot :: "u8 list" where
  "dot = [0x2E]"

text \<open>A line of the report: three blanks, the name, a colon and the value.\<close>

definition report_line :: "u8 list \<Rightarrow> u8 list \<Rightarrow> u8 list" where
  "report_line name v = [32, 32, 32] @ name @ bytes_of '': '' @ v @ [10]"

definition line_8051 :: "u8 list \<Rightarrow> u32 \<Rightarrow> u8 list option" where
  "line_8051 company w = do {
     (board_type, major_version, test_type, minor_version) \<leftarrow> version_numbers w;
     Some (report_line (fmt_s 5 company @ fmt_s 4 (bytes_of ''8051''))
       (fmt_0d 2 board_type @ dot @ fmt_0d 2 major_version @ dot @ fmt_0d 2 test_type @ dot @ fmt_d minor_version))
   }"

definition line_firmware :: "u32 \<Rightarrow> u8 list option" where
  "line_firmware w = do {
     (board_type, major_version, test_type, minor_version) \<leftarrow> version_numbers w;
     Some (report_line (bytes_of ''firmware '')
       (fmt_nd 2 board_type @ dot @ fmt_0d 2 major_version @ dot @ fmt_0d 2 test_type @ dot @ fmt_0d 3 minor_version))
   }"

definition invalid_line :: "u8 list \<Rightarrow> u8 list" where
  "invalid_line name = report_line name (bytes_of ''invalid'')"

definition version_text :: "u8 list \<Rightarrow> tdspversion \<Rightarrow> u8 list option" where
  "version_text company ver = do {
     let head = bytes_of ''  '' @ [9] @ company @ bytes_of '' wbtool '' @ UWBTOOLVER @ [10];
     let bt = (if pos ver ! 0 then report_line (fmt_s 9 (bytes_of ''bluetooth'')) (cstr (btver ver))
               else invalid_line (fmt_s 9 (bytes_of ''bluetooth'')));
     let wlan = (if pos ver ! 1 then report_line (fmt_s 9 (bytes_of ''wlan'')) (cstr (wlanver ver))
                 else invalid_line (fmt_s 9 (bytes_of ''wlan'')));
     let bus = (if pos ver ! 2 then report_line (fmt_s 5 company @ fmt_s 4 (bytes_of ''bus'')) (cstr (busver ver))
                else [32, 32, 32] @ bytes_of ''busdriver:  invalid'' @ [10]);
     l8051 \<leftarrow> (if pos ver ! 4 \<and> (pos ver ! 0 \<or> pos ver ! 1) then line_8051 company (ver8051 ver)
               else Some (invalid_line (bytes_of ''firmware '')));
     fw \<leftarrow> (if pos ver ! 3 \<and> (pos ver ! 0 \<or> pos ver ! 1) then line_firmware (firmwarever ver)
            else Some (invalid_line (bytes_of ''firmware '')));
     let text = head @ bt @ wlan @ bus @ l8051 @ fw;
     if 256 \<le> length text then None else Some text
   }"

text \<open>
  The report is printed.  The test for a failure of \<^verbatim>\<open>get_tdsp_version\<close> compares with
  \<^verbatim>\<open>FALSE\<close>, which that function never returns.
\<close>

definition update_ver_string :: "'d bus_dev \<Rightarrow> ('d, 'z) wb_scheme \<Rightarrow> (u8 list \<times> ('d, 'z) wb_scheme) option" where
  "update_ver_string D s = do {
     s1 \<leftarrow> adjust_func_state D s;
     let ver = \<lparr>pos = [g_state s1 = Both \<or> g_state s1 = BT_only, g_state s1 = Both \<or> g_state s1 = WLAN_only,
                  True, True, True],
                btver = replicate 64 0, wlanver = replicate 64 0, busver = replicate 64 0,
                firmwarever = 0, ver8051 = 0\<rparr>;
     (r, ver1, s2) \<leftarrow> get_tdsp_version D ver s1;
     let ver2 = (if r = 0 then ver1\<lparr>pos := [False, False, False, False, pos ver1 ! 4]\<rparr> else ver1);
     text \<leftarrow> version_text (m_chcompanyid s2) ver2;
     Some (text, s2)
   }"

end
