(* ===== verification/Uwb_Main.thy ===== *)
theory Uwb_Main
  imports Uwb_Version
begin

text \<open>
  \<^verbatim>\<open>main\<close> of \<^verbatim>\<open>uwbtool\<close>: the options, the configuration and the dispatch to the
  commands.  The arguments are strings, the program's name first; what the successive calls of
  \<^verbatim>\<open>getopt_long\<close> report (an option's letter with its argument, until there is none) is an
  argument of the model too.  The result is the exit code and what is printed last.
\<close>

section \<open>Environment and output\<close>

text \<open>
  The configuration file as it can be read, whether it can be opened for writing, and whether the
  lock on it is granted.
\<close>

record uwb_env =
  conf :: "u8 list option"
  conf_rw :: bool
  lock_granted :: bool

datatype wb_msg =
  Usage | Dash_Missing | Not_Accessible | Silent | Not_Inserted | No_Card | Is_Bluetooth | Is_Wlan | Is_Both |
  Is_None | Is_Undefined | No_Argument_Needed | Locked | Remove_Success | Remove_Fail | Add_Success u32 |
  Add_Fail u32 | Only_Bt_Wlan_Combo | Need_Device | Bad_Argument | Write_Success | Write_Fail |
  Register "u8 list" | Version "u8 list" | See_Help

definition maincontrol :: "uwb_env \<Rightarrow> int" where
  "maincontrol e = (if \<not> conf_rw e then 1 else if \<not> lock_granted e then 1 else 0)"

section \<open>Options\<close>

record globalargs =
  iquery :: bool
  iremove :: bool
  chadd :: "u8 list option"
  chwrite :: "u8 list option"
  chget :: "u8 list option"
  chput :: "u8 list option"
  iversion :: bool

definition no_options :: globalargs where
  "no_options = \<lparr>iquery = False, iremove = False, chadd = None, chwrite = None, chget = None, chput = None,
     iversion = False\<rparr>"

type_synonym opt_call = "char \<times> u8 list option"

text \<open>
  The loop over the options ends after its first round.  The result is an early return, or the
  options with the mark for a download from a file.
\<close>

fun first_option :: "opt_call list \<Rightarrow> int \<times> wb_msg + globalargs \<times> bool" where
  "first_option [] = Inr (no_options, False)"
| "first_option ((opt, optarg) # _) =
     (if opt = CHR ''q'' then Inr (no_options\<lparr>iquery := True\<rparr>, False)
      else if opt = CHR ''r'' then Inr (no_options\<lparr>iremove := True\<rparr>, False)
      else if opt = CHR ''d'' then Inr (no_options\<lparr>chadd := optarg\<rparr>, True)
      else if opt = CHR ''a'' then Inr (no_options\<lparr>chadd := optarg\<rparr>, False)
      else if opt = CHR ''w'' \<or> opt = CHR ''g'' \<or> opt = CHR ''p'' then Inl (0, Not_Accessible)
      else if opt = CHR ''v'' then Inr (no_options\<lparr>iversion := True\<rparr>, False)
      else if opt = CHR ''h'' \<or> opt = CHR ''?'' then Inl (0, Usage)
      else Inl (0, Silent))"

text \<open>A character of a string, its terminator included.\<close>

definition char_at :: "u8 list \<Rightarrow> nat \<Rightarrow> u8" where
  "char_at s i = (if i < length s then s ! i else 0)"

abbreviation (input) dash :: u8 where "dash \<equiv> 0x2D"

definition options :: "u8 list list \<Rightarrow> opt_call list \<Rightarrow> int \<times> wb_msg + globalargs \<times> bool" where
  "options argv opts =
     (if length argv = 1 then Inl (1, Usage)
      else if char_at (argv ! 1) 0 \<noteq> dash then Inl (1, Dash_Missing)
      else case first_option opts of
        Inl r \<Rightarrow> Inl r
      | Inr g \<Rightarrow>
          if 1 < length opts then Inl (0, Usage)
          else if char_at (argv ! 1) 1 \<noteq> dash \<and> length (argv ! 1) \<noteq> 2 then Inl (0, Usage)
          else Inr g)"

section \<open>Query, remove, add\<close>

type_synonym ('d, 'z) outcome = "(int \<times> wb_msg \<times> ('d, 'z) wb_scheme) option"

definition in_use_message :: "u32 \<Rightarrow> wb_msg" where
  "in_use_message sn =
     (if sn = TDSP_SERIAL_NO_BT then Is_Bluetooth
      else if sn = TDSP_SERIAL_NO_WLAN then Is_Wlan
      else if sn = TDSP_SERIAL_NO_COEXIST then Is_Both
      else if sn = TDSP_SERIAL_NO_NONE then Is_None
      else Is_Undefined)"

definition cmd_query :: "'d bus_dev \<Rightarrow> ('d, 'z) wb_scheme \<Rightarrow> ('d, 'z) outcome" where
  "cmd_query D s = do {
     (r, s1) \<leftarrow> tdsp_query_device D s;
     Some (0, if \<not> g_iscardin s1 then No_Card else in_use_message (g_currentserialno s1), s1)
   }"

definition cmd_remove :: "'d bus_dev \<Rightarrow> uwb_env \<Rightarrow> ('d, 'z) wb_scheme \<Rightarrow> ('d, 'z) outcome" where
  "cmd_remove D e s =
     (if maincontrol e \<noteq> 0 then Some (0, Locked, s)
      else do {
        s1 \<leftarrow> on_unplug_activate D s;
        (r, s2) \<leftarrow> tdsp_query_device D s1;
        Some (0, if r = TDSP_SERIAL_NO_NONE then Remove_Success else Remove_Fail, s2)
      })"

text \<open>Adding a mode: the command, and then the question whether exactly that mode runs.\<close>

definition add_mode ::
  "'d bus_dev \<Rightarrow> uwb_env \<Rightarrow> (('d, 'z) wb_scheme \<Rightarrow> ('d, 'z) wb_scheme option) \<Rightarrow> u32 \<Rightarrow> ('d, 'z) wb_scheme \<Rightarrow>
   ('d, 'z) outcome" where
  "add_mode D e activate sn s =
     (if maincontrol e \<noteq> 0 then Some (0, Locked, s)
      else do {
        s1 \<leftarrow> activate s;
        (r, s2) \<leftarrow> tdsp_query_device D s1;
        Some (0, if r = sn then Add_Success sn else Add_Fail sn, s2)
      })"

definition cmd_add ::
  "'d bus_dev \<Rightarrow> uwb_env \<Rightarrow> u8 list list \<Rightarrow> u8 list \<Rightarrow> ('d, 'z) wb_scheme \<Rightarrow> ('d, 'z) outcome" where
  "cmd_add D e argv device s =
     (if length argv \<noteq> (if char_at (argv ! 1) 1 = dash then 2 else 3) then Some (0, Usage, s)
      else if same_word device (bytes_of ''bt'') then add_mode D e (on_bluetooth_activate D) TDSP_SERIAL_NO_BT s
      else if same_word device (bytes_of ''wlan'') then add_mode D e (on_wlan_activate D) TDSP_SERIAL_NO_WLAN s
      else if same_word device (bytes_of ''combo'') then add_mode D e (on_coexist_activate D) TDSP_SERIAL_NO_COEXIST s
      else Some (0, Only_Bt_Wlan_Combo, s))"

section \<open>EEPROM and registers\<close>

text \<open>
  These branches are there, but the options that lead to them end the program before.
  \<open>greet\<close> is the data argument behind the option.
\<close>

definition data_argument :: "u8 list list \<Rightarrow> u8 list option" where
  "data_argument argv =
     (if char_at (argv ! 1) 1 = dash then if length argv \<noteq> 3 then None else Some (argv ! 2)
      else if length argv \<noteq> 4 then None else Some (argv ! 3))"

definition write_eeprom_part ::
  "'d bus_dev \<Rightarrow> u8 list \<Rightarrow> int \<Rightarrow> nat \<Rightarrow> ('d, 'z) wb_scheme \<Rightarrow> ('d, 'z) outcome" where
  "write_eeprom_part D greet off n s = do {
     (ok, s1) \<leftarrow> get_eeprom_data_2write (Some greet) (2 * n) s;
     if \<not> ok then Some (0, Bad_Argument, s1)
     else do {
       (r, s2) \<leftarrow> tdsp_write_eeprom D (of_int off) (of_nat n) (g_eeprombuf s1) s1;
       Some (0, if r then Write_Success else Write_Fail, s2)
     }
   }"

definition cmd_write ::
  "'d bus_dev \<Rightarrow> u8 list list \<Rightarrow> u8 list \<Rightarrow> ('d, 'z) wb_scheme \<Rightarrow> ('d, 'z) outcome" where
  "cmd_write D argv what s =
     (case data_argument argv of
        None \<Rightarrow> Some (0, Usage, s)
      | Some greet \<Rightarrow> do {
          (r, s1) \<leftarrow> tdsp_query_device D s;
          if \<not> g_iscardin s1 then Some (0, No_Card, s1)
          else if g_currentserialno s1 = TDSP_SERIAL_NO_NONE then Some (0, Need_Device, s1)
          else if same_word what (bytes_of ''bd'') then write_eeprom_part D greet 671 6 s1
          else if same_word what (bytes_of ''key'') then write_eeprom_part D greet 677 16 s1
          else if strtol0 what \<ge> 1024 \<or> strtol0 what < 0 then Some (0, Bad_Argument, s1)
          else write_eeprom_part D greet (strtol0 what) 1 s1
        })"

text \<open>The offset of a register is four hexadecimal digits, from 1 to 0x6000.\<close>

definition register_offset :: "u8 list \<Rightarrow> int option option" where
  "register_offset what =
     (if length what \<noteq> 4 then Some None
      else do {
        (ok, ioffset) \<leftarrow> hexstr2intnum (what @ [0]) 4;
        Some (if \<not> ok \<or> 0x6000 < ioffset \<or> ioffset \<le> 0 then None else Some ioffset)
      })"

definition cmd_get ::
  "'d bus_dev \<Rightarrow> u8 list list \<Rightarrow> u8 list \<Rightarrow> ('d, 'z) wb_scheme \<Rightarrow> ('d, 'z) outcome" where
  "cmd_get D argv what s =
     (case data_argument argv of
        None \<Rightarrow> Some (0, Usage, s)
      | Some greet \<Rightarrow> do {
          (r, s1) \<leftarrow> tdsp_query_device D s;
          if \<not> g_iscardin s1 then Some (1, No_Card, s1)
          else do {
            off \<leftarrow> register_offset what;
            case off of
              None \<Rightarrow> Some (1, Bad_Argument, s1)
            | Some ioffset \<Rightarrow>
                if strtol0 greet > 1024 \<or> strtol0 greet \<le> 0 then Some (1, Bad_Argument, s1)
                else do {
                  ((ok, bytes), s2) \<leftarrow> tdsp_read_register D (of_int ioffset) (of_int (strtol0 greet)) s1;
                  Some (0, Register bytes, s2)
                }
          }
        })"

text \<open>
  Eight digits are decoded to four bytes, and eight bytes of the buffer are written.
\<close>

definition cmd_put ::
  "'d bus_dev \<Rightarrow> u8 list list \<Rightarrow> u8 list \<Rightarrow> ('d, 'z) wb_scheme \<Rightarrow> ('d, 'z) outcome" where
  "cmd_put D argv what s =
     (case data_argument argv of
        None \<Rightarrow> Some (1, Usage, s)
      | Some greet \<Rightarrow> do {
          (r, s1) \<leftarrow> tdsp_query_device D s;
          if \<not> g_iscardin s1 then Some (1, No_Card, s1)
          else do {
            off \<leftarrow> register_offset what;
            case off of
              None \<Rightarrow> Some (1, Bad_Argument, s1)
            | Some ioffset \<Rightarrow>
                if length greet \<noteq> 8 then Some (1, Bad_Argument, s1)
                else do {
                  (ok, s2) \<leftarrow> get_eeprom_data_2write (Some greet) 8 s1;
                  if \<not> ok then Some (1, Bad_Argument, s2)
                  else do {
                    (w, s3) \<leftarrow> tdsp_write_register D (of_int ioffset) 8 (g_eeprombuf s2) s2;
                    Some (0, if w then Write_Success else Write_Fail, s3)
                  }
                }
          }
        })"

section \<open>The program\<close>

definition cmd_version :: "'d bus_dev \<Rightarrow> ('d, 'z) wb_scheme \<Rightarrow> ('d, 'z) outcome" where
  "cmd_version D s = do { (text, s1) \<leftarrow> update_ver_string D s; Some (0, Version text, s1) }"

definition dispatch ::
  "'d bus_dev \<Rightarrow> uwb_env \<Rightarrow> u8 list list \<Rightarrow> globalargs \<Rightarrow> ('d, 'z) wb_scheme \<Rightarrow> ('d, 'z) outcome" where
  "dispatch D e argv g s =
     (if iquery g then if length argv = 2 then cmd_query D s else Some (0, No_Argument_Needed, s)
      else if iremove g then if length argv = 2 then cmd_remove D e s else Some (0, No_Argument_Needed, s)
      else case chadd g of Some d \<Rightarrow> cmd_add D e argv d s
      | None \<Rightarrow> case chwrite g of Some w \<Rightarrow> cmd_write D argv w s
      | None \<Rightarrow> case chget g of Some w \<Rightarrow> cmd_get D argv w s
      | None \<Rightarrow> case chput g of Some w \<Rightarrow> cmd_put D argv w s
      | None \<Rightarrow>
          if iversion g then if length argv = 2 then cmd_version D s else Some (0, No_Argument_Needed, s)
          else Some (0, See_Help, s))"

text \<open>The configuration is read and the card asked for before any command.\<close>

definition prepare :: "'d bus_dev \<Rightarrow> uwb_env \<Rightarrow> bool \<Rightarrow> ('d, 'z) wb_scheme \<Rightarrow> (bool \<times> ('d, 'z) wb_scheme) option" where
  "prepare D e from_file s = do {
     (r, s1) \<leftarrow> get_config_from_file (conf e)
                  (s\<lparr>g_allowedmodes := [False, False, False], g_defaultmode := 3,
                     g_downfromfile := (from_file \<or> g_downfromfile s)\<rparr>);
     (p, s2) \<leftarrow> tdsp_query_power_state D s1;
     if g_buspowerstate s2 \<noteq> PowerOn then Some (False, s2)
     else do {
       (h, s3) \<leftarrow> set_hotkey_flag D (of_int (m_nHotKeyFlag s2)) s2;
       Some (True, s3)
     }
   }"

definition uwbtool_main ::
  "'d bus_dev \<Rightarrow> uwb_env \<Rightarrow> u8 list list \<Rightarrow> opt_call list \<Rightarrow> ('d, 'z) wb_scheme \<Rightarrow> ('d, 'z) outcome" where
  "uwbtool_main D e argv opts s =
     (case options argv opts of
        Inl (r, msg) \<Rightarrow> Some (r, msg, s)
      | Inr (g, from_file) \<Rightarrow> do {
          (on, s1) \<leftarrow> prepare D e from_file s;
          if \<not> on then Some (0, Not_Inserted, s1) else dispatch D e argv g s1
        })"

end
