(* ===== verification/Uwb_Parse_Spec.thy ===== *)
theory Uwb_Parse_Spec
  imports Uwb_Parse
begin

text \<open>
  What the readers of \<^verbatim>\<open>Uwb_Parse\<close> compute.  A configuration file is any text; it is
  read in lines of at most 99 characters, of which the first two words that equality signs separate
  count.  The search is the lookup of a name in these lines; and the decoder of hexadecimal
  arguments is the inverse of printing bytes.
\<close>

section \<open>The lines of a file and their words\<close>

text \<open>What \<^verbatim>\<open>fgets\<close> reads call by call: a line with its newline, or 99 characters of it.\<close>

function file_lines :: "u8 list \<Rightarrow> u8 list list" where
  "file_lines [] = []"
| "file_lines (c # cs) =
     take_line 99 (c # cs) # file_lines (drop (length (take_line 99 (c # cs))) (c # cs))"
  by pat_completeness auto

termination
  by (relation "measure length") (simp_all add: less_Suc_eq_le numeral_eq_Suc)

text \<open>The text of a line, its first word and what follows the word's end, and its two words.\<close>

definition line_text :: "u8 list \<Rightarrow> u8 list" where
  "line_text l = takeWhile (\<lambda>c. c \<noteq> 0 \<and> c \<noteq> 10 \<and> c \<noteq> 13) l"

definition first_word :: "u8 list \<Rightarrow> u8 list \<times> u8 list" where
  "first_word t =
     (let u = dropWhile (\<lambda>c. c = 0x3D) t
      in (takeWhile (\<lambda>c. c \<noteq> 0x3D) u, drop 1 (dropWhile (\<lambda>c. c \<noteq> 0x3D) u)))"

definition line_words :: "u8 list \<Rightarrow> u8 list \<times> u8 list" where
  "line_words l = (fst (first_word (line_text l)), fst (first_word (snd (first_word (line_text l)))))"

text \<open>
  The search: remarks and lines of fewer than two words are passed over, and a line that names
  \<^verbatim>\<open>MENU_BT\<close> ends it.
\<close>

datatype found = Found "u8 list" | Ended | Missing

fun search :: "u8 list \<Rightarrow> u8 list list \<Rightarrow> found" where
  "search key [] = Missing"
| "search key (l # ls) =
     (if hd l = 0x3B \<or> snd (line_words l) = [] then search key ls
      else if same_word (fst (line_words l)) key then Found (snd (line_words l))
      else if same_word (fst (line_words l)) MENU_BT then Ended
      else search key ls)"

definition setting :: "u8 list \<Rightarrow> u8 list \<Rightarrow> u8 list option" where
  "setting key txt = (case search key (file_lines txt) of Found v \<Rightarrow> Some v | _ \<Rightarrow> None)"

text \<open>A line at whose end the end of the file is met, and a file that ends behind a remark.\<close>

definition open_line :: "u8 list \<Rightarrow> bool" where
  "open_line l \<longleftrightarrow> length l < 99 \<and> last l \<noteq> 10"

definition ends_in_remark :: "u8 list \<Rightarrow> bool" where
  "ends_in_remark txt \<longleftrightarrow>
     txt \<noteq> [] \<and> hd (last (file_lines txt)) = 0x3B \<and> \<not> open_line (last (file_lines txt))"

definition conf_ok :: "u8 list \<Rightarrow> bool" where
  "conf_ok txt \<longleftrightarrow> txt \<noteq> [] \<and> \<not> ends_in_remark txt"

lemma file_lines_empty [simp]: "file_lines txt = [] \<longleftrightarrow> txt = []"
  by (cases "txt") simp_all

lemma file_lines_line:
  "10 \<notin> set l \<Longrightarrow> length l < 99 \<Longrightarrow> file_lines (l @ 10 # cs) = (l @ [10]) # file_lines cs"
  using take_line_line [of l 99 cs] by (cases l) simp_all

section \<open>Tokens\<close>

lemma takeWhile_lead: "set e \<subseteq> {d} \<Longrightarrow> takeWhile (\<lambda>c. c = d) (e @ y) = e @ takeWhile (\<lambda>c. c = d) y"
  by (rule takeWhile_append2) auto

lemma strtok_token:
  assumes "set e \<subseteq> {d}" "t \<noteq> []" "d \<notin> set t" "0 \<notin> set t" "d \<noteq> 0"
  shows "strtok d (pre @ e @ t @ d # r) (length pre) =
      Some (Some t, (pre @ e @ t @ [0]) @ r, length (pre @ e @ t @ [0]))"
    and "strtok d (pre @ e @ t @ 0 # r) (length pre) = Some (Some t, pre @ e @ t @ 0 # r, length (pre @ e @ t))"
proof -
  have skip: "takeWhile (\<lambda>c. c = d) (e @ t @ x) = e" for x
    using assms(1-3) by (cases t) (simp_all add: takeWhile_lead, auto)
  have tok: "takeWhile (\<lambda>c. c \<noteq> d \<and> c \<noteq> 0) (t @ x # r) = t" if "x = d \<or> x = 0" for x
    using assms(3,4) that by (subst takeWhile_append2) auto
  have drp: "drop (length pre + length e) (pre @ e @ x) = x" for x by simp
  show "strtok d (pre @ e @ t @ d # r) (length pre) =
      Some (Some t, (pre @ e @ t @ [0]) @ r, length (pre @ e @ t @ [0]))"
    using assms(2) by (simp add: strtok_def Let_def skip tok drp nth_append list_update_append)
  show "strtok d (pre @ e @ t @ 0 # r) (length pre) = Some (Some t, pre @ e @ t @ 0 # r, length (pre @ e @ t))"
    using assms(2,5) by (simp add: strtok_def Let_def skip tok drp nth_append)
qed

lemma strtok_none:
  assumes "set e \<subseteq> {d}" "d \<noteq> 0"
  shows "strtok d (pre @ e @ 0 # r) (length pre) = Some (None, pre @ e @ 0 # r, length (pre @ e))"
proof -
  have "takeWhile (\<lambda>c. c = d) (e @ 0 # r) = e" using assms by (simp add: takeWhile_lead)
  moreover have "drop (length pre + length e) (pre @ e @ x) = x" for x by simp
  ultimately show ?thesis using assms(2) by (simp add: strtok_def Let_def)
qed

text \<open>A text as its leading equality signs, its first word, and what comes behind.\<close>

lemma word_cases:
  obtains (none) e where "t = e" "set e \<subseteq> {0x3D}" "first_word t = ([], [])"
  | (one) e k where "t = e @ k" "set e \<subseteq> {0x3D}" "k \<noteq> []" "0x3D \<notin> set k" "first_word t = (k, [])"
  | (more) e k u where "t = e @ k @ 0x3D # u" "set e \<subseteq> {0x3D}" "k \<noteq> []" "0x3D \<notin> set k" "first_word t = (k, u)"
proof -
  define e u k y where "e = takeWhile (\<lambda>c. c = 0x3D) t" and "u = dropWhile (\<lambda>c. c = 0x3D) t"
    and "k = takeWhile (\<lambda>c. c \<noteq> 0x3D) u" and "y = dropWhile (\<lambda>c. c \<noteq> 0x3D) u"
  have t: "t = e @ k @ y" by (simp add: e_def u_def k_def y_def)
  have e: "set e \<subseteq> {0x3D}" by (auto simp: e_def dest: set_takeWhileD)
  have k: "0x3D \<notin> set k" by (auto simp: k_def dest: set_takeWhileD)
  have w: "first_word t = (k, drop 1 y)" by (simp add: first_word_def Let_def k_def y_def u_def)
  have u: "u = [] \<or> hd u \<noteq> 0x3D" using hd_dropWhile [of "\<lambda>c. c = 0x3D" t] by (auto simp: u_def)
  have y: "y = [] \<or> hd y = 0x3D" using hd_dropWhile [of "\<lambda>c. c \<noteq> 0x3D" u] by (auto simp: y_def)
  have ky: "y = []" if "k = []" using that u by (cases u) (auto simp: k_def y_def)
  show thesis
  proof (cases y)
    case Nil
    then show thesis using none [of e] one [of e k] t e k w by (cases "k = []") simp_all
  next
    case (Cons c v)
    then show thesis using more [of e k v] t e k w y ky by auto
  qed
qed

text \<open>The two calls on a line: its words, and the array they leave.\<close>

definition token :: "u8 list \<Rightarrow> u8 list option" where
  "token w = (if w = [] then None else Some w)"

lemma strtok_word:
  assumes "0 \<notin> set t"
  shows "\<exists>b n. strtok 0x3D (pre @ t @ 0 # r) (length pre) = Some (token (fst (first_word t)), pre @ b, n) \<and>
    length b = length (t @ 0 # r)"
proof (cases rule: word_cases [of t])
  case (none e)
  then show ?thesis using strtok_none [of e "0x3D" pre r] by (intro exI [of _ "e @ 0 # r"]) (simp add: token_def)
next
  case (one e k)
  then show ?thesis using strtok_token(2) [of e "0x3D" k pre r] assms
    by (intro exI [of _ "e @ k @ 0 # r"]) (simp add: token_def)
next
  case (more e k u)
  then show ?thesis using strtok_token(1) [of e "0x3D" k pre "u @ 0 # r"] assms
    by (intro exI [of _ "e @ k @ 0 # u @ 0 # r"]) (simp add: token_def)
qed

text \<open>The array that is left behind by a line: a terminator with at most one word before it.\<close>

definition spent_line :: "u8 list \<Rightarrow> bool" where
  "spent_line buf \<longleftrightarrow> (\<exists>t r. buf = t @ 0 # r \<and> set t \<inter> {0, 10, 13} = {} \<and>
     (t \<noteq> [] \<longrightarrow> hd t \<noteq> 0x3B) \<and> snd (first_word t) = [])"

lemma word_words:
  assumes "set e \<subseteq> {0x3D}" "k \<noteq> []" "0x3D \<notin> set k"
  shows "first_word (e @ k) = (k, [])"
proof -
  have "dropWhile (\<lambda>c. c = 0x3D) (e @ k) = k"
    using assms by (subst dropWhile_append2) (auto simp: neq_Nil_conv)
  moreover have "takeWhile (\<lambda>c. c \<noteq> 0x3D) k = k" using assms(3) by (auto simp: takeWhile_eq_all_conv)
  moreover have "dropWhile (\<lambda>c. c \<noteq> 0x3D) k = []" using assms(3) by (auto simp: dropWhile_eq_Nil_conv)
  ultimately show ?thesis by (simp only: first_word_def Let_def drop_Nil)
qed

lemma two_words:
  assumes "set t \<inter> {0, 10, 13} = {}" "t \<noteq> [] \<longrightarrow> hd t \<noteq> 0x3B"
  shows "\<exists>b1 n1 b2 n2. strtok 0x3D (t @ 0 # r) 0 = Some (token (fst (first_word t)), b1, n1) \<and>
    strtok 0x3D b1 n1 = Some (token (fst (first_word (snd (first_word t)))), b2, n2) \<and>
    length b2 = length (t @ 0 # r) \<and> spent_line b2"
proof (cases rule: word_cases [of t])
  case (none e)
  have "first_word [] = ([], [])" by (simp add: first_word_def)
  moreover have "spent_line (t @ 0 # r)" unfolding spent_line_def using none assms by (metis snd_conv)
  ultimately show ?thesis
    using none assms strtok_none [of e "0x3D" "[]" r] strtok_none [of "[]" "0x3D" e r]
    by (simp add: token_def)
next
  case (one e k)
  have "first_word [] = ([], [])" by (simp add: first_word_def)
  moreover have "spent_line (t @ 0 # r)" unfolding spent_line_def using one assms by (metis snd_conv)
  ultimately show ?thesis
    using one assms strtok_token(2) [of e "0x3D" k "[]" r] strtok_none [of "[]" "0x3D" "e @ k" r]
    by (simp add: token_def)
next
  case (more e k u)
  have s1: "strtok 0x3D (t @ 0 # r) 0 = Some (token k, (e @ k @ [0]) @ u @ 0 # r, length (e @ k @ [0]))"
    using more assms strtok_token(1) [of e "0x3D" k "[]" "u @ 0 # r"] by (auto simp: token_def)
  have "0 \<notin> set u" using more assms by auto
  then obtain b2 n2 where s2: "strtok 0x3D ((e @ k @ [0]) @ u @ 0 # r) (length (e @ k @ [0])) =
      Some (token (fst (first_word u)), (e @ k @ [0]) @ b2, n2)" "length b2 = length (u @ 0 # r)"
    using strtok_word [of u "e @ k @ [0]" r] by blast
  have "spent_line ((e @ k @ [0]) @ b2)"
    unfolding spent_line_def
  proof (intro exI conjI)
    show "(e @ k @ [0]) @ b2 = (e @ k) @ 0 # b2" by simp
    show "set (e @ k) \<inter> {0, 10, 13} = {}" using more(1) assms(1) by auto
    have "hd (e @ k) = hd t" using more(1,3) by (cases e) simp_all
    then show "e @ k \<noteq> [] \<longrightarrow> hd (e @ k) \<noteq> 0x3B" using more(1) assms(2) by auto
    show "snd (first_word (e @ k)) = []" using word_words [OF more(2-4)] by simp
  qed
  then show ?thesis using s1 s2 more by auto
qed

section \<open>The search\<close>

lemma trimmed:
  assumes "0 \<in> set b"
  shows "\<exists>p r. trim_gets_string b = Some (p, line_text b @ 0 # r) \<and> length (line_text b @ 0 # r) = length b"
proof -
  let ?n = "length (line_text b)"
  have "takeWhile (\<lambda>c. c \<noteq> 10 \<and> c \<noteq> 13 \<and> c \<noteq> 0) b = line_text b"
    unfolding line_text_def by (metis (no_types, lifting))
  moreover have d: "line_text b @ dropWhile (\<lambda>c. c \<noteq> 0 \<and> c \<noteq> 10 \<and> c \<noteq> 13) b = b"
    by (simp add: line_text_def)
  obtain c y where b: "b = line_text b @ c # y"
  proof (cases "dropWhile (\<lambda>c. c \<noteq> 0 \<and> c \<noteq> 10 \<and> c \<noteq> 13) b")
    case Nil
    then have "\<forall>c\<in>set b. c \<noteq> 0 \<and> c \<noteq> 10 \<and> c \<noteq> 13" by (simp only: dropWhile_eq_Nil_conv)
    with assms show thesis by blast
  next
    case (Cons c y)
    show thesis by (rule that [of c y]) (rule d [unfolded Cons, symmetric])
  qed
  moreover have "b[?n := 0] = line_text b @ 0 # y"
    by (subst (1) b) (simp add: list_update_append)
  moreover have "length (line_text b @ 0 # y) = length b" by (subst (2) b) simp
  ultimately show ?thesis using assms by (auto simp: trim_gets_string_def Let_def)
qed

text \<open>One round on the line \<open>b\<close>, with a terminator, that is in the array after the read.\<close>

lemma search_round:
  assumes "fgets 100 buf f = (b, f')" "\<not> at_eof f" "0 \<in> set b" "hd b \<noteq> 0x3B"
  shows "\<exists>b'. spent_line b' \<and> length b' = length b \<and> conf_loop key buf f =
    (if snd (line_words b) = [] then conf_loop key b' f'
     else if same_word (fst (line_words b)) key then Some (Some (snd (line_words b)))
     else if same_word (fst (line_words b)) MENU_BT then Some None
     else conf_loop key b' f')"
proof -
  let ?t = "line_text b"
  obtain p r where p: "trim_gets_string b = Some (p, ?t @ 0 # r)" "length (?t @ 0 # r) = length b"
    using trimmed [OF assms(3)] by blast
  have t: "set ?t \<inter> {0, 10, 13} = {}" by (auto simp: line_text_def dest: set_takeWhileD)
  have "hd ?t = hd b" if "?t \<noteq> []" using that by (cases b) (auto simp: line_text_def split: if_splits)
  then have h: "?t \<noteq> [] \<longrightarrow> hd ?t \<noteq> 0x3B" using assms(4) by simp
  obtain b1 n1 b2 n2 where s: "strtok 0x3D (?t @ 0 # r) 0 = Some (token (fst (first_word ?t)), b1, n1)"
    "strtok 0x3D b1 n1 = Some (token (fst (first_word (snd (first_word ?t)))), b2, n2)"
    "length b2 = length (?t @ 0 # r)" "spent_line b2"
    using two_words [OF t h] by blast
  have one: "fst (first_word (snd (first_word ?t))) = []" if "fst (first_word ?t) = []"
    using that by (cases rule: word_cases [of ?t]) (simp_all add: first_word_def)
  have "conf_loop key buf f =
    (if snd (line_words b) = [] then conf_loop key b2 f'
     else if same_word (fst (line_words b)) key then Some (Some (snd (line_words b)))
     else if same_word (fst (line_words b)) MENU_BT then Some None
     else conf_loop key b2 f')"
    by (subst conf_loop.simps)
      (use assms p(1) s(1,2) one in \<open>simp add: line_words_def token_def split: option.splits\<close>)
  with s(3,4) p(2) show ?thesis by auto
qed

lemma spent_round:
  assumes "spent_line buf"
  shows "conf_loop key buf \<lparr>unread = [], at_eof = False\<rparr> = Some None"
proof -
  obtain t r where t: "buf = t @ 0 # r" "set t \<inter> {0, 10, 13} = {}" "t \<noteq> [] \<longrightarrow> hd t \<noteq> 0x3B" "snd (first_word t) = []"
    using assms by (auto simp: spent_line_def)
  have f: "fgets 100 buf \<lparr>unread = [], at_eof = False\<rparr> = (buf, \<lparr>unread = [], at_eof = True\<rparr>)"
    by (simp add: fgets_def)
  have "line_text buf = t"
    unfolding line_text_def t(1) using t(2) by (subst takeWhile_append2) auto
  then have "snd (line_words buf) = []" using t(4) by (simp add: line_words_def first_word_def)
  moreover have "hd buf \<noteq> 0x3B" using t(1,3) by (cases t) simp_all
  ultimately show ?thesis using search_round [OF f, of key] t(1) by auto
qed

text \<open>
  Behind a remark that ends the file, the failed read leaves a line without a terminator: a search
  that gets there runs past the array.
\<close>

lemma unterminated_round: "conf_loop key (replicate 100 0x30) \<lparr>unread = [], at_eof = False\<rparr> = None"
proof -
  have f: "fgets 100 (replicate 100 0x30) \<lparr>unread = [], at_eof = False\<rparr> =
      (replicate 100 0x30, \<lparr>unread = [], at_eof = True\<rparr>)"
    by (simp add: fgets_def)
  show ?thesis by (subst conf_loop.simps) (simp add: f trim_gets_string_def)
qed

lemma take_line_rest: "length (take_line n cs) < n \<Longrightarrow> cs = [] \<or> last (take_line n cs) = 10 \<or> take_line n cs = cs"
  by (induction n cs rule: take_line.induct) (auto simp: take_line_empty)

lemma length_take_line_le: "length (take_line n cs) \<le> n"
  by (induction n cs rule: take_line.induct) auto

lemma search_lines:
  assumes "length buf = 100" "txt = [] \<longrightarrow> spent_line buf"
  shows "conf_loop key buf \<lparr>unread = txt, at_eof = False\<rparr> =
    (case search key (file_lines txt) of Found v \<Rightarrow> Some (Some v) | Ended \<Rightarrow> Some None
     | Missing \<Rightarrow> if ends_in_remark txt then None else Some None)"
  using assms
proof (induction "txt" arbitrary: buf rule: file_lines.induct)
  case 1
  then show ?case by (simp add: spent_round ends_in_remark_def)
next
  case (2 c cs)
  let ?txt = "c # cs" let ?l = "take_line 99 ?txt" let ?rest = "drop (length ?l) ?txt"
  let ?b = "?l @ 0 # drop (Suc (length ?l)) buf"
  have l: "?l \<noteq> []" "length ?l \<le> 99" using length_take_line_le [of 99 ?txt] by (simp_all add: take_line_empty)
  have f: "fgets 100 buf \<lparr>unread = ?txt, at_eof = False\<rparr> = (?b, \<lparr>unread = ?rest, at_eof = open_line ?l\<rparr>)"
    using l by (simp add: fgets_def Let_def open_line_def)
  have b: "hd ?b = hd ?l" "0 \<in> set ?b" "length ?b = 100" "line_text ?b = line_text ?l"
    using l 2(2) by (simp_all add: line_text_def takeWhile_tail)
  have rest: "?rest = []" if "open_line ?l"
    using take_line_rest [of 99 ?txt] that by (auto simp: open_line_def)
  have lines: "file_lines ?txt = ?l # file_lines ?rest" by (rule file_lines.simps)
  have ends: "ends_in_remark ?txt \<longleftrightarrow> (if ?rest = [] then hd ?l = 0x3B \<and> \<not> open_line ?l else ends_in_remark ?rest)"
    unfolding ends_in_remark_def lines by simp
  have IH: "conf_loop key b' \<lparr>unread = ?rest, at_eof = open_line ?l\<rparr> =
    (case search key (file_lines ?rest) of Found v \<Rightarrow> Some (Some v) | Ended \<Rightarrow> Some None
     | Missing \<Rightarrow> if ends_in_remark ?rest then None else Some None)"
    if "length b' = 100" "?rest = [] \<and> \<not> open_line ?l \<longrightarrow> spent_line b'" for b'
  proof (cases "open_line ?l")
    case True
    then show ?thesis using rest by (simp add: ends_in_remark_def)
  next
    case False
    then show ?thesis using 2(1) [of b'] that by simp
  qed
  show ?case
  proof (cases "hd ?l = 0x3B")
    case True
    have run: "conf_loop key buf \<lparr>unread = ?txt, at_eof = False\<rparr> =
        conf_loop key (replicate 100 0x30) \<lparr>unread = ?rest, at_eof = open_line ?l\<rparr>"
      by (subst conf_loop.simps) (simp only: f fst_conv snd_conv b(1) True cfile.simps if_True if_False simp_thms)
    show ?thesis
    proof (cases "?rest = [] \<and> \<not> open_line ?l")
      case True
      then show ?thesis using \<open>hd ?l = 0x3B\<close> unfolding run lines ends by (simp add: unterminated_round)
    next
      case False
      have "\<not> (?rest = [] \<and> hd ?l = 0x3B \<and> \<not> open_line ?l)" "ends_in_remark [] = False"
        using False by (simp_all add: ends_in_remark_def)
      then show ?thesis using IH [of "replicate 100 0x30"] False \<open>hd ?l = 0x3B\<close> unfolding run lines ends
        by (cases "?rest = []") simp_all
    qed
  next
    case False
    obtain b' where b': "spent_line b'" "length b' = 100" "conf_loop key buf \<lparr>unread = ?txt, at_eof = False\<rparr> =
      (if snd (line_words ?b) = [] then conf_loop key b' \<lparr>unread = ?rest, at_eof = open_line ?l\<rparr>
       else if same_word (fst (line_words ?b)) key then Some (Some (snd (line_words ?b)))
       else if same_word (fst (line_words ?b)) MENU_BT then Some None
       else conf_loop key b' \<lparr>unread = ?rest, at_eof = open_line ?l\<rparr>)"
      using search_round [OF f, of key] b False by (metis cfile.select_convs(2))
    have w: "line_words ?b = line_words ?l" by (simp only: line_words_def b(4))
    have e: "ends_in_remark ?txt = ends_in_remark ?rest" using ends False by (auto simp: ends_in_remark_def)
    show ?thesis using IH [of b'] b'(1,2) False unfolding b'(3) w e lines by simp
  qed
qed

section \<open>The configuration\<close>

lemma sint_digit: "(sint (c :: u8) - 0x30 - 1 = int k \<and> k < 3) \<longleftrightarrow> (c = 0x31 + of_nat k \<and> k < 3)"
proof
  assume a: "sint c - 0x30 - 1 = int k \<and> k < 3"
  have "c = of_int (sint c)" by simp
  also have "sint c = 0x31 + int k" using a by simp
  finally show "c = 0x31 + of_nat k \<and> k < 3" using a by simp
next
  assume a: "c = 0x31 + of_nat k \<and> k < 3"
  then have "k = 0 \<or> k = 1 \<or> k = 2" by auto
  with a show "sint c - 0x30 - 1 = int k \<and> k < 3" by auto
qed

text \<open>The characters of the modes, and the modes a string of them allows.\<close>

definition mode_digit :: "nat \<Rightarrow> u8" where
  "mode_digit k = 0x31 + of_nat k"

definition with_modes :: "u8 list \<Rightarrow> bool list \<Rightarrow> bool list" where
  "with_modes v modes = map (\<lambda>k. modes ! k \<or> mode_digit k \<in> set v) [0..<3]"

lemma with_modes_Nil: "length modes = 3 \<Longrightarrow> with_modes [] modes = modes"
  by (rule nth_equalityI) (simp_all add: with_modes_def)

lemma with_modes_Cons:
  assumes "length modes = 3" "k < 3"
  shows "with_modes cs (modes[k := True]) = with_modes (mode_digit k # cs) modes"
proof -
  have "mode_digit i = mode_digit k \<longleftrightarrow> i = k" if "i < 3" for i
    using that assms(2) by (auto simp: mode_digit_def less_Suc_eq numeral_3_eq_3)
  then show ?thesis
    by (intro nth_equalityI) (use assms in \<open>auto simp: with_modes_def nth_list_update\<close>)
qed

lemma allow_loop_spec:
  assumes "length modes = 3"
  shows "(\<forall>c\<in>set cs. \<exists>k<3. c = mode_digit k) \<Longrightarrow> allow_loop cs modes = (True, with_modes cs modes)"
    and "\<not> (\<forall>c\<in>set cs. \<exists>k<3. c = mode_digit k) \<Longrightarrow> \<exists>m. allow_loop cs modes = (False, m) \<and> length m = 3"
  using assms
proof (induction cs arbitrary: modes)
  case (Cons c cs)
  { case 1
    then obtain k where k: "k < 3" "c = mode_digit k" by auto
    then have "sint c - 0x30 - 1 = int k" using sint_digit [of c k] by (simp add: mode_digit_def)
    then show ?case using 1 k Cons.IH(1) [of "modes[k := True]"] by (simp add: with_modes_Cons)
  next
    case 2
    show ?case
    proof (cases "\<exists>k<3. c = mode_digit k")
      case True
      then obtain k where k: "k < 3" "c = mode_digit k" by auto
      then have "sint c - 0x30 - 1 = int k" using sint_digit [of c k] by (simp add: mode_digit_def)
      then show ?thesis using 2 k Cons.IH(2) [of "modes[k := True]"] by auto
    next
      case False
      then have "\<not> (0 \<le> sint c - 0x30 - 1 \<and> sint c - 0x30 - 1 < 3)"
        using sint_digit [of c "nat (sint c - 0x30 - 1)"] by (auto simp: mode_digit_def)
      then show ?thesis using 2 by (auto simp: Let_def)
    qed }
qed (auto simp: with_modes_Nil)

text \<open>A string of modes that is too long is refused, whatever its digits are.\<close>

definition modes_word :: "u8 list \<Rightarrow> bool" where
  "modes_word v \<longleftrightarrow> length v \<le> 3 \<and> (\<forall>c\<in>set v. \<exists>k<3. c = mode_digit k)"

lemma allowed_digits_spec:
  assumes "length modes = 3"
  shows "modes_word v \<Longrightarrow> allow_loop (allowed_digits v) modes = (True, with_modes v modes)"
    and "\<not> modes_word v \<Longrightarrow> \<exists>m. allow_loop (allowed_digits v) modes = (False, m) \<and> length m = 3"
proof -
  have "(\<forall>c\<in>set (allowed_digits v). \<exists>k<3. c = mode_digit k) \<longleftrightarrow> modes_word v"
  proof (cases "3 < length v")
    case True
    have "0 \<noteq> mode_digit k" if "k < 3" for k
      using that by (auto simp: mode_digit_def less_Suc_eq numeral_3_eq_3)
    moreover have "0 \<in> set (v[3 := 0])" using True by (simp add: set_update_memI)
    ultimately have "\<not> (\<forall>c\<in>set (v[3 := 0]). \<exists>k<3. c = mode_digit k)" by blast
    then show ?thesis using True by (simp add: allowed_digits_def modes_word_def)
  qed (auto simp: allowed_digits_def modes_word_def)
  then show "modes_word v \<Longrightarrow> allow_loop (allowed_digits v) modes = (True, with_modes v modes)"
    and "\<not> modes_word v \<Longrightarrow> \<exists>m. allow_loop (allowed_digits v) modes = (False, m) \<and> length m = 3"
    using allow_loop_spec [OF assms, of "allowed_digits v"]
    by (auto simp: allowed_digits_def modes_word_def split: if_splits)
qed

text \<open>What the file sets, and when it is accepted.\<close>

definition number :: "string \<Rightarrow> int \<Rightarrow> u8 list \<Rightarrow> int" where
  "number key d txt = (case setting (bytes_of key) txt of None \<Rightarrow> d | Some v \<Rightarrow> atoi v)"

definition config_valid :: "u8 list \<Rightarrow> ('d, 'z) wb_scheme \<Rightarrow> bool" where
  "config_valid txt s \<longleftrightarrow>
     number ''HOTKEYFLAG'' (m_nHotKeyFlag s) txt \<in> {0, 1} \<and>
     setting (bytes_of ''COMPANYID'') txt \<noteq> None \<and>
     number ''DEFAULTMODE'' (g_defaultmode s) txt \<in> {1, 2, 3} \<and>
     (\<exists>v. setting (bytes_of ''ALLOWEDMODES'') txt = Some v \<and> modes_word v \<and>
        with_modes v (g_allowedmodes s) ! nat (number ''DEFAULTMODE'' (g_defaultmode s) txt - 1))"

definition configured :: "u8 list \<Rightarrow> ('d, 'z) wb_scheme \<Rightarrow> ('d, 'z) wb_scheme" where
  "configured txt s =
     s\<lparr>m_nHotKeyFlag := number ''HOTKEYFLAG'' (m_nHotKeyFlag s) txt,
       m_chcompanyid := the (setting (bytes_of ''COMPANYID'') txt),
       g_defaultmode := number ''DEFAULTMODE'' (g_defaultmode s) txt,
       g_allowedmodes := with_modes (the (setting (bytes_of ''ALLOWEDMODES'') txt)) (g_allowedmodes s)\<rparr>"

lemma value_found:
  assumes "txt \<noteq> []"
  shows "get_value_from_conffile (junk_bytes 100 s) txt key =
    (case search key (file_lines txt) of Found v \<Rightarrow> Some (Some v) | Ended \<Rightarrow> Some None
     | Missing \<Rightarrow> if ends_in_remark txt then None else Some None)"
  unfolding get_value_from_conffile_def
  by (rule search_lines) (use assms in \<open>simp_all add: junk_bytes_def\<close>)

lemma value_lookup: "conf_ok txt \<Longrightarrow> get_value_from_conffile (junk_bytes 100 s) txt key = Some (setting key txt)"
  by (simp add: value_found conf_ok_def setting_def split: found.split)

definition modes_valid :: "u8 list \<Rightarrow> ('d, 'z) wb_scheme \<Rightarrow> bool" where
  "modes_valid txt s \<longleftrightarrow>
     (\<exists>v. setting (bytes_of ''ALLOWEDMODES'') txt = Some v \<and> modes_word v \<and>
        with_modes v (g_allowedmodes s) ! nat (g_defaultmode s - 1))"

lemma modes_read:
  assumes "conf_ok txt" "length (g_allowedmodes s) = 3"
    and "\<forall>v. setting (bytes_of ''ALLOWEDMODES'') txt = Some v \<longrightarrow> length v < 10"
  shows "\<exists>s'. config_modes txt s = Some (modes_valid txt s, s') \<and>
    length (g_allowedmodes s') = 3 \<and> (modes_valid txt s \<longrightarrow>
      s' = s\<lparr>g_allowedmodes := with_modes (the (setting (bytes_of ''ALLOWEDMODES'') txt)) (g_allowedmodes s)\<rparr>)"
proof (cases "setting (bytes_of ''ALLOWEDMODES'') txt")
  case None
  then show ?thesis
    using assms(2) by (simp add: config_modes_def value_lookup [OF assms(1)] modes_valid_def)
next
  case (Some v)
  have len: "length v < 10" using assms(3) Some by blast
  show ?thesis
  proof (cases "modes_word v")
    case True
    then show ?thesis
      using Some len allowed_digits_spec(1) [OF assms(2) True]
      by (simp add: config_modes_def value_lookup [OF assms(1)] modes_valid_def with_modes_def)
  next
    case False
    then obtain m where "allow_loop (allowed_digits v) (g_allowedmodes s) = (False, m)" "length m = 3"
      using allowed_digits_spec(2) [OF assms(2) False] by auto
    then show ?thesis
      using Some len False
      by (simp add: config_modes_def value_lookup [OF assms(1)] modes_valid_def)
  qed
qed

lemma default_read:
  assumes "conf_ok txt" "length (g_allowedmodes s) = 3"
    and "\<forall>v. setting (bytes_of ''ALLOWEDMODES'') txt = Some v \<longrightarrow> length v < 10"
    and "d = number ''DEFAULTMODE'' (g_defaultmode s) txt" "V \<longleftrightarrow> d \<in> {1, 2, 3} \<and> modes_valid txt (s\<lparr>g_defaultmode := d\<rparr>)"
  shows "\<exists>s'. config_default txt s = Some (V, s') \<and> length (g_allowedmodes s') = 3 \<and>
    (V \<longrightarrow> s' = s\<lparr>g_defaultmode := d,
      g_allowedmodes := with_modes (the (setting (bytes_of ''ALLOWEDMODES'') txt)) (g_allowedmodes s)\<rparr>)"
proof -
  have number: "(case setting (bytes_of ''DEFAULTMODE'') txt of None \<Rightarrow> g_defaultmode s | Some v \<Rightarrow> atoi v) = d"
    unfolding assms(4) number_def ..
  have run: "config_default txt s =
      (if 3 < d \<or> d \<le> 0 then Some (False, s\<lparr>g_defaultmode := 0\<rparr>)
       else config_modes txt (s\<lparr>g_defaultmode := d\<rparr>))"
    by (simp only: config_default_def value_lookup [OF assms(1)] bind.bind_lunit number Let_def)
  show ?thesis
  proof (cases "3 < d \<or> d \<le> 0")
    case True
    then have "\<not> V" unfolding assms(5) by auto
    then show ?thesis using run True assms(2) by simp
  next
    case False
    then have V: "V \<longleftrightarrow> modes_valid txt (s\<lparr>g_defaultmode := d\<rparr>)" unfolding assms(5) by auto
    obtain s' where "config_modes txt (s\<lparr>g_defaultmode := d\<rparr>) = Some (V, s')"
      "length (g_allowedmodes s') = 3" "V \<longrightarrow> s' = s\<lparr>g_defaultmode := d,
        g_allowedmodes := with_modes (the (setting (bytes_of ''ALLOWEDMODES'') txt)) (g_allowedmodes s)\<rparr>"
      using modes_read [OF assms(1) _ assms(3), of "s\<lparr>g_defaultmode := d\<rparr>"] assms(2) unfolding V by auto
    then show ?thesis unfolding run using False by auto
  qed
qed

lemma config_read:
  assumes "conf_ok txt" "length (g_allowedmodes s) = 3"
    and "\<forall>v. setting (bytes_of ''ALLOWEDMODES'') txt = Some v \<longrightarrow> length v < 10"
  shows "\<exists>s'. get_config_from_file (Some txt) s = Some (config_valid txt s, s') \<and>
    length (g_allowedmodes s') = 3 \<and> (config_valid txt s \<longrightarrow> s' = configured txt s)"
proof -
  define hot where "hot = number ''HOTKEYFLAG'' (m_nHotKeyFlag s) txt"
  define d where "d = number ''DEFAULTMODE'' (g_defaultmode s) txt"
  have run: "get_config_from_file (Some txt) s =
      (if 1 < hot \<or> hot < 0 then Some (False, s\<lparr>m_nHotKeyFlag := 0\<rparr>)
       else case setting (bytes_of ''COMPANYID'') txt of
         None \<Rightarrow> Some (False, s\<lparr>m_nHotKeyFlag := hot\<rparr>)
       | Some v \<Rightarrow> config_default txt (s\<lparr>m_nHotKeyFlag := hot, m_chcompanyid := v\<rparr>))"
    by (simp add: get_config_from_file_def config_common_def value_lookup [OF assms(1)] hot_def number_def
        Let_def split: option.split)
  show ?thesis
  proof (cases "1 < hot \<or> hot < 0 \<or> setting (bytes_of ''COMPANYID'') txt = None")
    case True
    then have "\<not> config_valid txt s" by (auto simp: config_valid_def hot_def)
    then show ?thesis using run True assms(2) by (auto split: option.split)
  next
    case False
    then obtain c where c: "setting (bytes_of ''COMPANYID'') txt = Some c" by auto
    let ?s = "s\<lparr>m_nHotKeyFlag := hot, m_chcompanyid := c\<rparr>"
    have valid: "config_valid txt s \<longleftrightarrow> d \<in> {1, 2, 3} \<and> modes_valid txt (?s\<lparr>g_defaultmode := d\<rparr>)"
      using False c by (auto simp: config_valid_def modes_valid_def hot_def d_def)
    have d: "d = number ''DEFAULTMODE'' (g_defaultmode ?s) txt" by (simp add: d_def)
    obtain s' where "config_default txt ?s = Some (config_valid txt s, s')"
      "length (g_allowedmodes s') = 3" "config_valid txt s \<longrightarrow> s' = ?s\<lparr>g_defaultmode := d,
        g_allowedmodes := with_modes (the (setting (bytes_of ''ALLOWEDMODES'') txt)) (g_allowedmodes ?s)\<rparr>"
      using default_read [OF assms(1) _ assms(3) d valid] assms(2) by auto
    then show ?thesis using run False c by (auto simp: configured_def hot_def d_def)
  qed
qed

text \<open>Reading the configuration changes nothing else.\<close>

lemma config_keeps:
  assumes "get_config_from_file conf s = Some (r, s')"
  shows "dev s' = dev s" "g_isclickinginprogress s' = g_isclickinginprogress s"
    "malloc_ok s' = malloc_ok s" "g_downfromfile s' = g_downfromfile s"
  using assms
  by (auto simp: get_config_from_file_def config_common_def config_default_def config_modes_def Let_def
      split: option.splits bind_splits if_splits prod.splits)

section \<open>Hexadecimal arguments\<close>

text \<open>The digits of a byte, and what the decoder makes of them.\<close>

definition hex2 :: "u8 \<Rightarrow> u8 list" where
  "hex2 b = [hexdigit (unat b div 16), hexdigit (unat b mod 16)]"

lemma hexdigit_props:
  assumes "n < 16"
  shows "isxdigit (hexdigit n)" "xdigit_value (hexdigit n) = int n"
proof -
  have "n \<in> set [0..<16]" using assms by simp
  also have "[0..<16] = [0, 1, 2, 3, 4, 5, 6, 7, 8, 9, 10, 11, 12, 13, 14, 15]" by (simp add: upt_rec)
  finally show "isxdigit (hexdigit n)" "xdigit_value (hexdigit n) = int n"
    by (simp_all only: set_simps insert_iff empty_iff; elim disjE FalseE; simp add: hexdigit_def isxdigit_def is_digit_def xdigit_value_def toupper_def)+
qed

lemma unat_u8: "unat (b :: u8) < 256"
  using unsigned_less [of b, where 'a = nat] by simp

lemma hex2_decoded: "hexstr2intnum (hex2 b @ r) 2 = Some (True, uint b)"
proof -
  have n: "unat b div 16 < 16" "unat b mod 16 < 16" using unat_u8 [of b] by auto
  have u: "uint b = int (unat b)" by simp
  have sum: "int (unat b div 16) * 16 + int (unat b mod 16) = uint b"
    unfolding u by (simp only: zdiv_int zmod_int of_nat_numeral div_mult_mod_eq)
  have "int (unat b) < int 256" "int (unat b div 16) < int 16"
    using unat_u8 [of b] n(1) by (simp_all only: of_nat_less_iff)
  then have bounds: "\<not> 2 ^ 31 \<le> uint b" "\<not> 2 ^ 31 \<le> int (unat b div 16) * 16" by simp_all
  have small: "\<not> 2 ^ 31 \<le> int (unat b mod 16)" using n(2) by simp
  show ?thesis
    unfolding hexstr2intnum_def hex2_def
    by (simp only: numeral_2_eq_2 append_Cons append_Nil hex_loop.simps hexdigit_props [OF n(1)]
        hexdigit_props [OF n(2)] Let_def power_0 power_Suc mult_1_right bounds small sum if_False
        not_True_eq_False add_0 simp_thms)
qed

text \<open>The decoded argument is in the buffer, with a zero byte behind it.\<close>

lemma eeprom_loop_decodes:
  assumes "i + length bs < length buf"
  shows "eeprom_loop (length bs) i (concat (map hex2 bs) @ [0]) buf =
    Some (True, take i buf @ bs @ 0 # drop (Suc (i + length bs)) buf)"
  using assms
proof (induction bs arbitrary: i buf)
  case Nil
  then show ?case by (simp add: upd_conv_take_nth_drop)
next
  case (Cons b bs)
  have d: "isxdigit (hexdigit (unat b div 16))" "isxdigit (hexdigit (unat b mod 16))"
    using hexdigit_props unat_u8 [of b] by auto
  have "eeprom_loop (Suc (length bs)) i (hex2 b @ concat (map hex2 bs) @ [0]) buf =
      eeprom_loop (length bs) (Suc i) (concat (map hex2 bs) @ [0]) (buf[i := b])"
    using Cons.prems d hex2_decoded [of b "concat (map hex2 bs) @ [0]"] by (simp add: hex2_def)
  also have "\<dots> = Some (True, take (Suc i) (buf[i := b]) @ bs @ 0 # drop (Suc (Suc i + length bs)) (buf[i := b]))"
    by (rule Cons.IH) (use Cons.prems in simp)
  finally show ?case using Cons.prems by (simp add: take_Suc_conv_app_nth)
qed

lemma length_hex2s: "length (concat (map hex2 bs)) = 2 * length bs"
  by (induction bs) (simp_all add: hex2_def)

lemma eeprom_decodes:
  assumes "length bs < length (g_eeprombuf s)"
  shows "get_eeprom_data_2write (Some (concat (map hex2 bs))) (2 * length bs) s =
    Some (True, s\<lparr>g_eeprombuf := bs @ 0 # drop (Suc (length bs)) (g_eeprombuf s)\<rparr>)"
  using eeprom_loop_decodes [of 0 bs "g_eeprombuf s"] assms
  by (simp add: get_eeprom_data_2write_def length_hex2s)

text \<open>The eight digits of a version number are those of its four bytes.\<close>

lemma unat_drop32: "unat (drop_bit n (w :: u32)) = unat w div 2 ^ n"
proof -
  have "take_bit 32 (unat w) = unat w"
    using unsigned_less [of w, where 'a = nat] by (simp add: take_bit_nat_eq_self)
  then have "unat (drop_bit n w) = drop_bit n (unat w)" by (simp add: unsigned_drop_bit_eq)
  then show ?thesis by (simp only: drop_bit_eq_div)
qed

lemma unat_nibble: "unat ((drop_bit n w :: u32) AND 15) = unat w div 2 ^ n mod 16"
proof -
  have "unat (drop_bit n w AND 15) = unat (take_bit 4 (drop_bit n w))"
    by (simp add: take_bit_eq_mask mask_eq_exp_minus_1)
  also have "\<dots> = take_bit 4 (unat (drop_bit n w))" by (simp add: unsigned_take_bit_eq)
  finally show ?thesis by (simp add: take_bit_eq_mod unat_drop32)
qed

lemma hex_long_bytes:
  "hex_long w = concat (map (\<lambda>k. hex2 (ucast (drop_bit (8 * k) w))) [3, 2, 1, 0])"
proof -
  have "hex2 (ucast (drop_bit n w)) =
      [hexdigit (unat (drop_bit (n + 4) w AND 15)), hexdigit (unat (drop_bit n w AND 15))]" for n
  proof -
    have "unat (ucast (drop_bit n w) :: u8) = unat w div 2 ^ n mod 256"
      by (simp add: unsigned_ucast_eq take_bit_eq_mod unat_drop32)
    moreover have "m mod 256 div 16 = m div 16 mod 16" "m mod 256 mod 16 = m mod 16" for m :: nat
      using mod_mult2_eq [of m 16 16] by (simp_all add: mod_mod_cancel)
    ultimately show ?thesis
      by (simp add: hex2_def unat_nibble power_add div_mult2_eq)
  qed
  then show ?thesis by (simp add: hex_long_def)
qed

end
