(* ===== verification/Uwb_Spec.thy ===== *)
theory Uwb_Spec
  imports Uwb_Tool
begin

text \<open>
  The contract between the control utility and the bus's character device: the locale
  \<open>wb_bus\<close> says what the requests the utility makes answer and do to the set of started devices.
  Inside it, the commands of the utility are shown to end and to leave the devices of the chosen
  mode started and no other.
\<close>

section \<open>The abstract view\<close>

text \<open>The answer about a set of started devices, and the mode it is.\<close>

definition in_use_answer :: "u32 set \<Rightarrow> u32" where
  "in_use_answer S =
     (if S = {} then TDSP_SERIAL_NO_NONE
      else (if 1 \<in> S then 1 else 0) OR (if 2 \<in> S then 2 else 0))"

definition mode_of :: "u32 set \<Rightarrow> wb_state" where
  "mode_of S =
     (if 1 \<in> S then if 2 \<in> S then Both else BT_only else if 2 \<in> S then WLAN_only else Neither)"

lemma subsets_12:
  assumes "S \<subseteq> {1, 2 :: u32}"
  obtains "S = {}" | "S = {1}" | "S = {2}" | "S = {1, 2}"
  using assms by blast

lemma in_use_answer_simps [simp]:
  "in_use_answer {} = 0xffff" "in_use_answer {1} = 1" "in_use_answer {2} = 2" "in_use_answer {1, 2} = 3"
  by (simp_all add: in_use_answer_def)

lemma mode_of_simps [simp]:
  "mode_of {} = Neither" "mode_of {1} = BT_only" "mode_of {2} = WLAN_only" "mode_of {1, 2} = Both"
  by (simp_all add: mode_of_def)

lemma length_junk_bytes [simp]: "length (junk_bytes n s) = n"
  by (simp add: junk_bytes_def)

text \<open>What no request of the utility changes.\<close>

definition same_config :: "('d, 'z) wb_scheme \<Rightarrow> ('d, 'z) wb_scheme \<Rightarrow> bool" where
  "same_config s s' \<longleftrightarrow>
     g_isclickinginprogress s' = g_isclickinginprogress s \<and> g_allowedmodes s' = g_allowedmodes s \<and>
     g_downfromfile s' = g_downfromfile s \<and> malloc_ok s' = malloc_ok s \<and> g_defaultmode s' = g_defaultmode s \<and> wb.more s' = wb.more s"

lemma same_config_refl [simp]: "same_config s s"
  by (simp add: same_config_def)

lemma same_config_trans: "same_config a b \<Longrightarrow> same_config b c \<Longrightarrow> same_config a c"
  by (simp add: same_config_def)

text \<open>The requests that leave every device as it is and whose answer the utility ignores.\<close>

definition quiet_ioctls :: "u32 set" where
  "quiet_ioctls =
     {IOCTL_BUSENUM_RELOAD_BT_CODE, IOCTL_BUSENUM_RELOAD_WLAN_CODE, IOCTL_BUSENUM_RELOAD_COMBO_CODE,
      IOCTL_BUSENUM_RELOAD_CODE_FROM_FILE, IOCTL_BUSENUM_SET_INIT_FLAG, IOCTL_BUSENUM_WRITE_ENUM_MODE,
      IOCTL_BUSENUM_SET_HOTKEY_FLAG}"

lemma quiet_members [simp]:
  "IOCTL_BUSENUM_RELOAD_BT_CODE \<in> quiet_ioctls" "IOCTL_BUSENUM_RELOAD_WLAN_CODE \<in> quiet_ioctls"
  "IOCTL_BUSENUM_RELOAD_COMBO_CODE \<in> quiet_ioctls" "IOCTL_BUSENUM_RELOAD_CODE_FROM_FILE \<in> quiet_ioctls"
  "IOCTL_BUSENUM_SET_INIT_FLAG \<in> quiet_ioctls" "IOCTL_BUSENUM_WRITE_ENUM_MODE \<in> quiet_ioctls"
  "IOCTL_BUSENUM_SET_HOTKEY_FLAG \<in> quiet_ioctls"
  by (simp_all add: quiet_ioctls_def)

section \<open>The contract\<close>

text \<open>
  \<open>ok\<close> holds of the device between requests, \<open>ready\<close> while it is open, \<open>on\<close> is the set of
  started devices, and \<open>willing\<close> the set of the devices whose drivers are known to start when
  asked; any other may start or not.
\<close>

locale wb_bus =
  fixes D :: "'d bus_dev"
    and ok ready :: "'d \<Rightarrow> bool"
    and on :: "'d \<Rightarrow> u32 set"
    and willing :: "u32 set"
  assumes on_12: "ok d \<Longrightarrow> on d \<subseteq> {1, 2}"
    and open_law: "ok d \<Longrightarrow> \<exists>d'. dev_open D d = Some (True, d') \<and> ready d' \<and> on d' = on d"
    and close_law: "ready d \<Longrightarrow> \<exists>d'. dev_close D d = Some d' \<and> ok d' \<and> on d' = on d"
    and sleep_law: "ready d \<Longrightarrow> ready (dev_sleep D us d) \<and> on (dev_sleep D us d) = on d"
    and sleep_ok: "ok d \<Longrightarrow> ok (dev_sleep D us d) \<and> on (dev_sleep D us d) = on d"
    and script_law: "ok d \<Longrightarrow> ok (dev_script D d) \<and> on (dev_script D d) = on d"
    and display_law: "ready d \<Longrightarrow> length m = 4 \<Longrightarrow>
      \<exists>d'. dev_ioctl D IOCTL_BUSENUM_DISPLAY_IN_USE_DEVICE m d = Some (0, le32 (in_use_answer (on d)), d') \<and>
        ready d' \<and> on d' = on d"
    and power_law: "ready d \<Longrightarrow> length m = 4 \<Longrightarrow>
      \<exists>d'. dev_ioctl D IOCTL_BUSENUM_QUERY_BUS_POWER_STATE m d = Some (0, le32 PowerOn, d') \<and>
        ready d' \<and> on d' = on d"
    and reset_law: "ready d \<Longrightarrow> length m = 4 \<Longrightarrow>
      \<exists>d'. dev_ioctl D IOCTL_BUSENUM_QUERY_RESET_FLAG m d = Some (0, le32 0, d') \<and>
        ready d' \<and> on d' = on d"
    and state_law: "ready d \<Longrightarrow> sn = 1 \<or> sn = 2 \<Longrightarrow>
      \<exists>d'. dev_ioctl D IOCTL_BUSENUM_QUERY_DEVICE_STATE (le32 sn) d =
          Some (0, le32 (if sn \<in> on d then 1 else 255), d') \<and> ready d' \<and> on d' = on d"
    and quiet_law: "ready d \<Longrightarrow> cmd \<in> quiet_ioctls \<Longrightarrow>
      \<exists>r m' d'. dev_ioctl D cmd m d = Some (r, m', d') \<and> ready d' \<and> on d' = on d"
    and unplug_law: "ready d \<Longrightarrow> sn = 1 \<or> sn = 2 \<Longrightarrow> length js = 8 \<Longrightarrow>
      \<exists>r m' d'. dev_ioctl D IOCTL_BUSENUM_UNPLUG_HARDWARE (le32 16 @ le32 sn @ js) d = Some (r, m', d') \<and>
        ready d' \<and> on d' = on d - {sn}"
    and plug_law: "ready d \<Longrightarrow> sn = 1 \<or> sn = 2 \<Longrightarrow> sn \<notin> on d \<Longrightarrow>
      \<exists>r m' d'. dev_ioctl D IOCTL_BUSENUM_PLUGIN_HARDWARE (le32 8 @ le32 sn @ name) d = Some (r, m', d') \<and>
        ready d' \<and> (on d' = insert sn (on d) \<or> on d' = on d \<and> sn \<notin> willing)"

context wb_bus begin

section \<open>Requests\<close>

lemma bus_request_done:
  assumes "ok (dev s)"
    and "\<And>d. ready d \<Longrightarrow> on d = on (dev s) \<Longrightarrow>
      \<exists>r m' d'. dev_ioctl D cmd m d = Some (r, m', d') \<and> ready d' \<and> on d' = S \<and> Q r m'"
  shows "\<exists>r m' d'. bus_request D cmd m s = Some (Some (libc_result r, m'), s\<lparr>dev := d'\<rparr>) \<and>
    Q r m' \<and> ok d' \<and> on d' = S"
proof -
  obtain d where d: "dev_open D (dev s) = Some (True, d)" "ready d" "on d = on (dev s)"
    using open_law [OF assms(1)] by blast
  obtain r m' d1 where r: "dev_ioctl D cmd m d = Some (r, m', d1)" "ready d1" "on d1 = S" "Q r m'"
    using assms(2) [OF d(2,3)] by blast
  obtain d2 where "dev_close D d1 = Some d2" "ok d2" "on d2 = S"
    using close_law [OF r(2)] r(3) by blast
  with d r show ?thesis
    by (auto simp: bus_request_def open_device_def ioctl_device_def close_device_def)
qed

lemma query_answers:
  assumes "ok e" "dev s = e"
    and "\<And>d. ready d \<Longrightarrow> on d = on e \<Longrightarrow>
      \<exists>d'. dev_ioctl D cmd m d = Some (0, le32 x, d') \<and> ready d' \<and> on d' = on d"
  shows "\<exists>d'. bus_request D cmd m s = Some (Some (0, le32 x), s\<lparr>dev := d'\<rparr>) \<and> ok d' \<and>
    on d' = on e"
proof -
  have "\<exists>r m' d'. bus_request D cmd m s = Some (Some (libc_result r, m'), s\<lparr>dev := d'\<rparr>) \<and>
      (r = 0 \<and> m' = le32 x) \<and> ok d' \<and> on d' = on e"
    by (rule bus_request_done) (use assms in fastforce)+
  then show ?thesis by (auto simp: libc_result_def)
qed

lemma query_device:
  assumes "ok (dev s)"
  obtains d' where "tdsp_query_device D s = Some (in_use_answer (on (dev s)),
      s\<lparr>dev := d', g_currentserialno := in_use_answer (on (dev s)), g_iscardin := True\<rparr>)"
    "ok d'" "on d' = on (dev s)"
proof -
  let ?s = "s\<lparr>g_iscardin := False, g_currentserialno := TDSP_SERIAL_NO_NOCARD\<rparr>"
  have "\<exists>d'. bus_request D IOCTL_BUSENUM_DISPLAY_IN_USE_DEVICE (junk_bytes 4 s) ?s =
      Some (Some (0, le32 (in_use_answer (on (dev s)))), ?s\<lparr>dev := d'\<rparr>) \<and> ok d' \<and> on d' = on (dev s)"
    by (rule query_answers [OF assms(1)]) (simp, metis display_law length_junk_bytes)
  then show ?thesis using that by (auto simp: tdsp_query_device_def)
qed

lemma query_power:
  assumes "ok (dev s)"
  obtains d' where "tdsp_query_power_state D s = Some (PowerOn, s\<lparr>dev := d', g_buspowerstate := PowerOn\<rparr>)"
    "ok d'" "on d' = on (dev s)"
proof -
  let ?s = "s\<lparr>g_buspowerstate := PowerOff\<rparr>"
  have "\<exists>d'. bus_request D IOCTL_BUSENUM_QUERY_BUS_POWER_STATE (junk_bytes 4 s) ?s =
      Some (Some (0, le32 PowerOn), ?s\<lparr>dev := d'\<rparr>) \<and> ok d' \<and> on d' = on (dev s)"
    by (rule query_answers [OF assms(1)]) (simp, metis power_law length_junk_bytes)
  then show ?thesis using that by (auto simp: tdsp_query_power_state_def)
qed

lemma query_reset:
  assumes "ok (dev s)"
  obtains d' where "tdsp_query_reset_flag D s = Some (0, s\<lparr>dev := d', g_busresetflag := 0\<rparr>)"
    "ok d'" "on d' = on (dev s)"
proof -
  let ?s = "s\<lparr>g_busresetflag := 0\<rparr>"
  have "\<exists>d'. bus_request D IOCTL_BUSENUM_QUERY_RESET_FLAG (junk_bytes 4 s) ?s =
      Some (Some (0, le32 0), ?s\<lparr>dev := d'\<rparr>) \<and> ok d' \<and> on d' = on (dev s)"
    by (rule query_answers [OF assms(1)]) (simp, metis reset_law length_junk_bytes)
  then show ?thesis using that by (auto simp: tdsp_query_reset_flag_def)
qed

lemma query_pnp:
  assumes "ok (dev s)" "sn = 1 \<or> sn = 2"
  obtains d' where "tdsp_query_pnp_state D sn s = Some (if sn \<in> on (dev s) then 1 else 255,
      s\<lparr>dev := d', g_dsppnpstate := if sn \<in> on (dev s) then 1 else 255\<rparr>)"
    "ok d'" "on d' = on (dev s)"
proof -
  let ?s = "s\<lparr>g_dsppnpstate := 7\<rparr>"
  have "\<exists>d'. bus_request D IOCTL_BUSENUM_QUERY_DEVICE_STATE (le32 sn) ?s =
      Some (Some (0, le32 (if sn \<in> on (dev s) then 1 else 255)), ?s\<lparr>dev := d'\<rparr>) \<and> ok d' \<and> on d' = on (dev s)"
    by (rule query_answers [OF assms(1)]) (simp, metis state_law assms(2))
  then show ?thesis using that by (auto simp: tdsp_query_pnp_state_def)
qed

lemma adjust_state:
  assumes "ok (dev s)"
  obtains d' where "adjust_func_state D s =
      Some (s\<lparr>dev := d', g_currentserialno := in_use_answer (on (dev s)), g_iscardin := True,
        g_state := mode_of (on (dev s))\<rparr>)"
    "ok d'" "on d' = on (dev s)"
proof -
  obtain d' where q: "tdsp_query_device D s = Some (in_use_answer (on (dev s)),
      s\<lparr>dev := d', g_currentserialno := in_use_answer (on (dev s)), g_iscardin := True\<rparr>)"
    "ok d'" "on d' = on (dev s)"
    using query_device [OF assms] .
  show ?thesis
    using q on_12 [OF assms] that
    by (elim subsets_12) (simp_all add: adjust_func_state_def)
qed

lemma quiet_accepts:
  assumes "ok (dev s)"
    and "cmd \<in> quiet_ioctls"
  shows "\<exists>b d'. bus_accepts D cmd m s = Some (b, s\<lparr>dev := d'\<rparr>) \<and> ok d' \<and> on d' = on (dev s)"
proof -
  have "\<exists>r m' d'. bus_request D cmd m s = Some (Some (libc_result r, m'), s\<lparr>dev := d'\<rparr>) \<and>
      True \<and> ok d' \<and> on d' = on (dev s)"
    by (rule bus_request_done [OF assms(1)]) (use quiet_law [OF _ assms(2)] in metis)
  then show ?thesis by (auto simp: bus_accepts_def)
qed

lemma enum_mode_written:
  assumes "ok (dev s)"
  obtains r d' where "write_enum_mode D e s = Some (r, s\<lparr>dev := d'\<rparr>)" "ok d'" "on d' = on (dev s)"
  using quiet_accepts [OF assms, of IOCTL_BUSENUM_WRITE_ENUM_MODE "le32 e"]
  by (auto simp: write_enum_mode_def)

lemma init_flag_set:
  assumes "ok (dev s)"
  obtains r d' where "tdsp_set_init_flag D e s = Some (r, s\<lparr>dev := d'\<rparr>)" "ok d'" "on d' = on (dev s)"
  using quiet_accepts [OF assms, of IOCTL_BUSENUM_SET_INIT_FLAG "le32 e"]
  by (auto simp: tdsp_set_init_flag_def)

lemma slept_request:
  assumes "ready (dev s)"
    and "cmd \<in> quiet_ioctls"
  shows "\<exists>b d'. request_and_sleep D cmd m s = Some (b, s\<lparr>dev := d'\<rparr>) \<and> ok d' \<and> on d' = on (dev s)"
proof -
  obtain r m' d1 where r: "dev_ioctl D cmd m (dev s) = Some (r, m', d1)" "ready d1" "on d1 = on (dev s)"
    using quiet_law [OF assms] by blast
  obtain d2 where d2: "dev_close D d1 = Some d2" "ok d2" "on d2 = on d1"
    using close_law [OF r(2)] by blast
  obtain d3 where "dev_close D (dev_sleep D 200000 d1) = Some d3" "ok d3" "on d3 = on d1"
    using close_law sleep_law [OF r(2)] by metis
  with r d2 show ?thesis
    by (cases "libc_result r = - 1")
      (auto simp: request_and_sleep_def ioctl_device_def close_device_def usleep_def)
qed

lemma code_downloaded:
  assumes "ok (dev s)"
  shows "\<exists>b d'. tdsp_download_dsp_code D sn s = Some (b, s\<lparr>dev := d'\<rparr>) \<and> ok d' \<and> on d' = on (dev s)"
    and "\<exists>b d'. tdsp_download_dsp_code_from_file D sn s = Some (b, s\<lparr>dev := d'\<rparr>) \<and> ok d' \<and> on d' = on (dev s)"
proof -
  obtain d where d: "dev_open D (dev s) = Some (True, d)" "ready d" "on d = on (dev s)"
    using open_law [OF assms] by blast
  obtain d2 where d2: "dev_close D d = Some d2" "ok d2" "on d2 = on (dev s)"
    using close_law [OF d(2)] d(3) by metis
  have r: "\<exists>b d'. request_and_sleep D cmd m (s\<lparr>dev := d\<rparr>) = Some (b, s\<lparr>dev := d'\<rparr>) \<and> ok d' \<and> on d' = on (dev s)"
    if "cmd \<in> quiet_ioctls" for cmd m
    using slept_request [OF _ that, of "s\<lparr>dev := d\<rparr>" m] d by simp
  show "\<exists>b d'. tdsp_download_dsp_code_from_file D sn s = Some (b, s\<lparr>dev := d'\<rparr>) \<and> ok d' \<and> on d' = on (dev s)"
    using d r by (simp add: tdsp_download_dsp_code_from_file_def open_device_def)
  show "\<exists>b d'. tdsp_download_dsp_code D sn s = Some (b, s\<lparr>dev := d'\<rparr>) \<and> ok d' \<and> on d' = on (dev s)"
    using d r d2 by (auto simp: tdsp_download_dsp_code_def open_device_def close_device_def)
qed

lemma downloaded:
  assumes "ok (dev s)"
  obtains d' where "download D sn s = Some (s\<lparr>dev := d'\<rparr>)" "ok d'" "on d' = on (dev s)"
  using that code_downloaded [OF assms, of sn] by (cases "g_downfromfile s") (auto simp: download_def)

lemma device_removed:
  assumes "ok (dev s)" "sn = 1 \<or> sn = 2"
  obtains d' where "remove_and_sleep D sn s = Some (s\<lparr>dev := d'\<rparr>)" "ok d'" "on d' = on (dev s) - {sn}"
proof -
  let ?m = "le32 16 @ le32 sn @ junk_bytes 8 s"
  have "\<exists>r m' d'. bus_request D IOCTL_BUSENUM_UNPLUG_HARDWARE ?m s =
      Some (Some (libc_result r, m'), s\<lparr>dev := d'\<rparr>) \<and> True \<and> ok d' \<and> on d' = on (dev s) - {sn}"
    by (rule bus_request_done [OF assms(1)]) (use unplug_law [OF _ assms(2)] in \<open>metis length_junk_bytes\<close>)
  then obtain b d' where "bus_accepts D IOCTL_BUSENUM_UNPLUG_HARDWARE ?m s = Some (b, s\<lparr>dev := d'\<rparr>)"
      "ok d'" "on d' = on (dev s) - {sn}"
    by (auto simp: bus_accepts_def)
  then show ?thesis
    using that sleep_ok [of d' 500000]
    by (simp add: remove_and_sleep_def tdsp_remove_device_def usleep_def)
qed

end

end
