(* ===== verification/Uwb_Modes.thy ===== *)
theory Uwb_Modes
  imports Uwb_Spec
begin

text \<open>
  The commands of the control utility over any device that keeps the contract \<open>wb_bus\<close>: every
  loop ends, and a command leaves the devices of its mode started and no other.
\<close>

text \<open>A step of a command: where it leaves the device and what of the globals it keeps.\<close>

definition moved :: "('d \<Rightarrow> bool) \<Rightarrow> ('d \<Rightarrow> u32 set) \<Rightarrow> ('d, 'z) wb_scheme \<Rightarrow> u32 set \<Rightarrow> ('d, 'z) wb_scheme \<Rightarrow> bool" where
  "moved ok on s S s' \<longleftrightarrow> ok (dev s') \<and> on (dev s') = S \<and> same_config s s'"

lemma moved_trans: "moved ok on a S b \<Longrightarrow> moved ok on b T c \<Longrightarrow> moved ok on a T c"
  using same_config_trans by (auto simp: moved_def)

lemma same_config_updates [simp]:
  "same_config s (s\<lparr>dev := d\<rparr>)" "same_config s (s\<lparr>dev := d, g_currentserialno := a\<rparr>)"
  "same_config s (s\<lparr>dev := d, g_currentserialno := a, g_iscardin := b\<rparr>)"
  "same_config s (s\<lparr>dev := d, g_buspowerstate := a\<rparr>)" "same_config s (s\<lparr>dev := d, g_busresetflag := a\<rparr>)"
  "same_config s (s\<lparr>dev := d, g_dsppnpstate := a\<rparr>)" "same_config s (s\<lparr>g_state := g\<rparr>)"
  "same_config s (usleep D n s)" "same_config s (run_script D s)"
  "same_config s (s\<lparr>dev := d, g_currentserialno := a, g_iscardin := b, g_state := g\<rparr>)"
  by (simp_all add: same_config_def usleep_def run_script_def)

lemma usleep_sel [simp]:
  "g_state (usleep D n s) = g_state s" "g_currentserialno (usleep D n s) = g_currentserialno s"
  "g_dsppnpstate (usleep D n s) = g_dsppnpstate s" "g_iscardin (usleep D n s) = g_iscardin s"
  "g_isclickinginprogress (usleep D n s) = g_isclickinginprogress s"
  "g_allowedmodes (usleep D n s) = g_allowedmodes s" "g_downfromfile (usleep D n s) = g_downfromfile s"
  "malloc_ok (usleep D n s) = malloc_ok s" "g_defaultmode (usleep D n s) = g_defaultmode s" "wb.more (usleep D n s) = wb.more s" "dev (usleep D n s) = dev_sleep D n (dev s)"
  by (simp_all add: usleep_def)

lemma other_mode:
  assumes "S \<subseteq> {1, 2}"
  shows "S \<noteq> {1} \<Longrightarrow> (mode_of S = WLAN_only \<or> mode_of S = Both) \<or> S = {}"
    "S \<noteq> {2} \<Longrightarrow> (mode_of S = BT_only \<or> mode_of S = Both) \<or> S = {}"
    "S \<noteq> {1, 2} \<Longrightarrow> (mode_of S = BT_only \<or> mode_of S = WLAN_only) \<or> S = {}"
    "mode_of S = BT_only \<longleftrightarrow> S = {1}" "mode_of S = WLAN_only \<longleftrightarrow> S = {2}" "mode_of S = Both \<longleftrightarrow> S = {1, 2}"
    "mode_of S = Neither \<longleftrightarrow> S = {}"
  by (rule subsets_12 [OF assms]; simp add: doubleton_eq_iff)+

context wb_bus begin

section \<open>The loops end\<close>

lemma slept:
  "ok (dev s) \<Longrightarrow> ok (dev (usleep D n s)) \<and> on (dev (usleep D n s)) = on (dev s)"
  using sleep_ok by simp

lemma reset_wait_ends:
  assumes "ok (dev s)" "0 < n"
  obtains s' where "reset_wait D n s = Some s'" "moved ok on s (on (dev s)) s'" "g_state s' = g_state s"
proof -
  obtain k where n: "n = Suc k" using assms(2) by (cases n) auto
  obtain d' where "tdsp_query_reset_flag D s = Some (0, s\<lparr>dev := d', g_busresetflag := 0\<rparr>)"
    "ok d'" "on d' = on (dev s)"
    using query_reset [OF assms(1)] .
  then show ?thesis using that n by (simp add: moved_def)
qed

text \<open>One round of the polls: the power is on and the device query answers.\<close>

lemma polled:
  assumes "ok (dev s)"
  obtains d1 d2 where
    "tdsp_query_power_state D s = Some (PowerOn, s\<lparr>dev := d1, g_buspowerstate := PowerOn\<rparr>)"
    "tdsp_query_device D (s\<lparr>dev := d1, g_buspowerstate := PowerOn\<rparr>) = Some (in_use_answer (on (dev s)),
      s\<lparr>dev := d2, g_buspowerstate := PowerOn, g_currentserialno := in_use_answer (on (dev s)),
        g_iscardin := True\<rparr>)"
    "ok d2" "on d2 = on (dev s)"
proof -
  obtain d1 where d1: "tdsp_query_power_state D s =
      Some (PowerOn, s\<lparr>dev := d1, g_buspowerstate := PowerOn\<rparr>)" "ok d1" "on d1 = on (dev s)"
    using query_power [OF assms] .
  let ?s = "s\<lparr>dev := d1, g_buspowerstate := PowerOn\<rparr>"
  obtain d2 where "tdsp_query_device D ?s = Some (in_use_answer (on (dev ?s)),
      ?s\<lparr>dev := d2, g_currentserialno := in_use_answer (on (dev ?s)), g_iscardin := True\<rparr>)"
    "ok d2" "on d2 = on (dev ?s)"
    using query_device [of ?s] d1(2) by auto
  with d1 show ?thesis by (intro that [of d1 d2]) simp_all
qed

lemma bt_off_wait_ends:
  assumes "ok (dev s)" "0 < n" "1 \<notin> on (dev s)"
  obtains s' where "bt_off_wait D n s = Some (True, s')" "moved ok on s (on (dev s)) s'"
    "g_state s' = g_state s"
proof -
  obtain k where n: "n = Suc k" using assms(2) by (cases n) auto
  obtain d1 d2 where q: "tdsp_query_power_state D s = Some (PowerOn, s\<lparr>dev := d1, g_buspowerstate := PowerOn\<rparr>)"
    "tdsp_query_device D (s\<lparr>dev := d1, g_buspowerstate := PowerOn\<rparr>) = Some (in_use_answer (on (dev s)),
      s\<lparr>dev := d2, g_buspowerstate := PowerOn, g_currentserialno := in_use_answer (on (dev s)),
        g_iscardin := True\<rparr>)"
    "ok d2" "on d2 = on (dev s)"
    using polled [OF assms(1)] .
  have "in_use_answer (on (dev s)) \<in> {0xffff, 2}"
    using on_12 [OF assms(1)] assms(3) by (elim subsets_12) simp_all
  then show ?thesis
    using q n sleep_ok [OF q(3), of 500000]
    by (intro that [of "usleep D 500000 (s\<lparr>dev := d2, g_buspowerstate := PowerOn,
        g_currentserialno := in_use_answer (on (dev s)), g_iscardin := True\<rparr>)"])
      (auto simp: moved_def same_config_def)
qed

lemma all_off_wait_ends:
  assumes "ok (dev s)" "0 < n" "on (dev s) = {}"
  obtains s' where "all_off_wait D n s = Some (True, s')" "moved ok on s {} s'"
proof -
  obtain k where n: "n = Suc k" using assms(2) by (cases n) auto
  obtain d1 d2 where q: "tdsp_query_power_state D s = Some (PowerOn, s\<lparr>dev := d1, g_buspowerstate := PowerOn\<rparr>)"
    "tdsp_query_device D (s\<lparr>dev := d1, g_buspowerstate := PowerOn\<rparr>) = Some (in_use_answer (on (dev s)),
      s\<lparr>dev := d2, g_buspowerstate := PowerOn, g_currentserialno := in_use_answer (on (dev s)),
        g_iscardin := True\<rparr>)"
    "ok d2" "on d2 = on (dev s)"
    using polled [OF assms(1)] .
  then show ?thesis
    using n assms(3) sleep_ok [OF q(3), of 500000]
    by (intro that [of "usleep D 500000 (s\<lparr>dev := d2, g_buspowerstate := PowerOn,
        g_currentserialno := in_use_answer (on (dev s)), g_iscardin := True\<rparr>)"])
      (auto simp: moved_def same_config_def)
qed

lemma stopped_wait_ends:
  assumes "ok (dev s)" "sn = 1 \<or> sn = 2"
  shows "\<exists>s'. stopped_wait D sn n s = Some s' \<and> moved ok on s (on (dev s)) s' \<and> g_state s' = g_state s"
  using assms(1)
proof (induction n arbitrary: s)
  case (Suc n)
  let ?s = "usleep D 500000 s"
  obtain d' where d': "tdsp_query_pnp_state D sn ?s = Some (if sn \<in> on (dev ?s) then 1 else 255,
      ?s\<lparr>dev := d', g_dsppnpstate := if sn \<in> on (dev ?s) then 1 else 255\<rparr>)" "ok d'" "on d' = on (dev ?s)"
    using query_pnp [OF _ assms(2)] slept [OF Suc.prems] by metis
  let ?t = "?s\<lparr>dev := d', g_dsppnpstate := if sn \<in> on (dev ?s) then 1 else 255\<rparr>"
  have t: "ok (dev ?t)" "on (dev ?t) = on (dev s)" "same_config s ?t" "g_state ?t = g_state s"
    using d' slept [OF Suc.prems] by (simp_all add: same_config_def usleep_def)
  obtain s' where "stopped_wait D sn n ?t = Some s'" "moved ok on ?t (on (dev ?t)) s'" "g_state s' = g_state ?t"
    using Suc.IH [OF t(1)] by blast
  then show ?case
    using d'(1) t Suc.prems same_config_trans [OF t(3), of s'] by (simp add: moved_def)
qed (simp add: moved_def)

lemma unplug_stable:
  assumes "ok (dev s)"
  obtains s' where "wait_device_unplug_stable D s = Some s'" "moved ok on s (on (dev s)) s'"
    "g_state s' = g_state s"
proof -
  let ?pnp = "\<lambda>sn s d. s\<lparr>dev := d, g_dsppnpstate := if sn \<in> on (dev s) then 1 else 255\<rparr>"
  obtain d1 where 1: "tdsp_query_pnp_state D 1 s = Some (if 1 \<in> on (dev s) then 1 else 255, ?pnp 1 s d1)"
    "ok d1" "on d1 = on (dev s)"
    using query_pnp [OF assms, of 1] by auto
  obtain s2 where 2: "stopped_wait D 1 5 (?pnp 1 s d1) = Some s2" "moved ok on (?pnp 1 s d1) (on (dev s)) s2"
    "g_state s2 = g_state s"
    using stopped_wait_ends [of "?pnp 1 s d1" 1 5] 1 by auto
  have ok2: "ok (dev s2)" "on (dev s2) = on (dev s)" "same_config s s2"
    using 2(2) by (auto simp: moved_def same_config_def)
  obtain d3 where 3: "tdsp_query_pnp_state D 2 s2 = Some (if 2 \<in> on (dev s2) then 1 else 255, ?pnp 2 s2 d3)"
    "ok d3" "on d3 = on (dev s2)"
    using query_pnp [OF ok2(1), of 2] by auto
  obtain s4 where 4: "stopped_wait D 2 5 (?pnp 2 s2 d3) = Some s4" "moved ok on (?pnp 2 s2 d3) (on (dev s2)) s4"
    "g_state s4 = g_state s2"
    using stopped_wait_ends [of "?pnp 2 s2 d3" 2 5] 3 by auto
  have "moved ok on s (on (dev s)) s4"
    using 4(2) ok2 by (auto simp: moved_def same_config_def)
  then show ?thesis using that 1 2 3 4 by (simp add: wait_device_unplug_stable_def del: stopped_wait.simps)
qed

section \<open>Unplugging and starting\<close>

lemma devices_removed:
  assumes "ok (dev s)" "g_state s = mode_of (on (dev s))"
  obtains s' where "remove_devices D s = Some (True, s')" "moved ok on s {} s'"
  using on_12 [OF assms(1)]
proof (cases rule: subsets_12)
  case 1
  then show ?thesis using assms that [of s] by (simp add: remove_devices_def moved_def)
next
  case 2
  obtain d where "remove_and_sleep D 1 s = Some (s\<lparr>dev := d\<rparr>)" "ok d" "on d = {}"
    using device_removed [OF assms(1), of 1] 2 by auto
  then show ?thesis using assms(2) 2 that [of "s\<lparr>dev := d\<rparr>"] by (simp add: remove_devices_def moved_def)
next
  case 3
  obtain d where "remove_and_sleep D 2 s = Some (s\<lparr>dev := d\<rparr>)" "ok d" "on d = {}"
    using device_removed [OF assms(1), of 2] 3 by auto
  then show ?thesis using assms(2) 3 that [of "s\<lparr>dev := d\<rparr>"] by (simp add: remove_devices_def moved_def)
next
  case 4
  obtain d where d: "remove_and_sleep D 1 s = Some (s\<lparr>dev := d\<rparr>)" "ok d" "on d = {2}"
    using device_removed [OF assms(1), of 1] 4 by auto
  obtain s2 where s2: "bt_off_wait D 600 (s\<lparr>dev := d\<rparr>) = Some (True, s2)" "moved ok on (s\<lparr>dev := d\<rparr>) {2} s2"
    using bt_off_wait_ends [of "s\<lparr>dev := d\<rparr>" 600] d by auto
  obtain d3 where d3: "remove_and_sleep D 2 s2 = Some (s2\<lparr>dev := d3\<rparr>)" "ok d3" "on d3 = {}"
    using device_removed [of s2 2] s2(2) by (auto simp: moved_def)
  have "moved ok on s {} (s2\<lparr>dev := d3\<rparr>)"
    using s2(2) d3 by (simp add: moved_def same_config_def)
  then show ?thesis
    using that d(1) s2(1) d3(1) assms(2) 4 by (simp add: remove_devices_def)
qed

lemma unplugged:
  assumes "ok (dev s)" "g_state s = mode_of (on (dev s))"
  obtains s' where "unplugdevices D s = Some (True, s')" "moved ok on s {} s'"
proof (cases "on (dev s) = {}")
  case True
  then show ?thesis using assms that [of s] by (simp add: unplugdevices_def moved_def)
next
  case False
  have ans: "in_use_answer (on (dev s)) \<notin> {0xffff, 0x10000}" "g_state s \<noteq> Neither"
    using on_12 [OF assms(1)] False assms(2) by (auto elim: subsets_12)
  obtain d1 where q: "tdsp_query_device D s = Some (in_use_answer (on (dev s)),
      s\<lparr>dev := d1, g_currentserialno := in_use_answer (on (dev s)), g_iscardin := True\<rparr>)"
    "ok d1" "on d1 = on (dev s)"
    using query_device [OF assms(1)] .
  let ?s1 = "s\<lparr>dev := d1, g_currentserialno := in_use_answer (on (dev s)), g_iscardin := True\<rparr>"
  obtain s2 where s2: "reset_wait D 60 ?s1 = Some s2" "moved ok on ?s1 (on (dev s)) s2" "g_state s2 = g_state s"
    using reset_wait_ends [of ?s1 60] q by auto
  obtain r d3 where e: "write_enum_mode D 0 s2 = Some (r, s2\<lparr>dev := d3\<rparr>)" "ok d3" "on d3 = on (dev s)"
    using enum_mode_written [of s2] s2(2) by (auto simp: moved_def)
  obtain s4 where s4: "remove_devices D (s2\<lparr>dev := d3\<rparr>) = Some (True, s4)" "moved ok on (s2\<lparr>dev := d3\<rparr>) {} s4"
    using devices_removed [of "s2\<lparr>dev := d3\<rparr>"] e s2(3) assms(2) by auto
  obtain s5 where s5: "all_off_wait D 1200 s4 = Some (True, s5)" "moved ok on s4 {} s5"
    using all_off_wait_ends [of s4 1200] s4(2) by (auto simp: moved_def)
  have "moved ok on s {} (s5\<lparr>g_state := Neither\<rparr>)"
    using s2(2) s4(2) s5(2) by (simp add: moved_def same_config_def)
  then show ?thesis
    using that ans q(1) s2(1) e(1) s4(1) s5(1) by (simp add: unplugdevices_def)
qed

lemma modes_cleared:
  assumes "ok (dev s)" "g_state s = mode_of (on (dev s))" "needed \<or> on (dev s) = {}"
  obtains s' where "\<forall>k. clear_modes D needed k s = k s'" "moved ok on s {} s'"
proof (cases needed)
  case True
  obtain s1 where s1: "unplugdevices D s = Some (True, s1)" "moved ok on s {} s1"
    using unplugged [OF assms(1,2)] .
  have 1: "ok (dev s1)" "on (dev s1) = {}" using s1(2) by (simp_all add: moved_def)
  obtain s2 where "wait_device_unplug_stable D s1 = Some s2" "moved ok on s1 {} s2"
    using unplug_stable [OF 1(1)] 1(2) by metis
  then show ?thesis using that s1 True moved_trans by (simp add: clear_modes_def) blast
next
  case False
  then show ?thesis using assms that [of s] by (simp add: clear_modes_def moved_def)
qed

text \<open>What a request to start a device makes of the started ones.\<close>

definition maybe_on :: "u32 \<Rightarrow> u32 set \<Rightarrow> u32 set \<Rightarrow> bool" where
  "maybe_on sn S S' \<longleftrightarrow> S' = insert sn S \<or> S' = S \<and> sn \<notin> willing"

lemma device_added:
  assumes "ok (dev s)" "sn = 1 \<or> sn = 2" "sn \<notin> on (dev s)" "\<forall>n. malloc_ok s n"
  obtains r d' where "tdsp_add_device D name sn s = Some (r, s\<lparr>dev := d'\<rparr>)" "ok d'"
    "maybe_on sn (on (dev s)) (on d')"
proof -
  obtain d where d: "dev_open D (dev s) = Some (True, d)" "ready d" "on d = on (dev s)"
    using open_law [OF assms(1)] by blast
  obtain r m' d1 where r: "dev_ioctl D IOCTL_BUSENUM_PLUGIN_HARDWARE (le32 8 @ le32 sn @ name) d =
      Some (r, m', d1)" "ready d1" "maybe_on sn (on d) (on d1)"
    using plug_law [OF d(2) assms(2)] d(3) assms(3) by (metis maybe_on_def)
  obtain d2 where "dev_close D d1 = Some d2" "ok d2" "on d2 = on d1"
    using close_law [OF r(2)] by blast
  with d r assms(4) show ?thesis
    by (intro that [where d' = d2])
      (auto simp: tdsp_add_device_def open_device_def ioctl_device_def close_device_def)
qed

text \<open>Plugging a device in and asking whether anything runs.\<close>

lemma device_plugged:
  assumes "ok (dev s)" "sn = 1 \<or> sn = 2" "sn \<notin> on (dev s)" "\<forall>n. malloc_ok s n"
  obtains r s1 s' where "tdsp_add_device D name sn (usleep D us1 s) = Some (r, s1)"
    "tdsp_is_download_dspcode_ok D (usleep D us2 s1) = Some (on (dev s') \<noteq> {}, s')"
    "moved ok on s (on (dev s')) s'" "maybe_on sn (on (dev s)) (on (dev s'))" "g_state s' = g_state s"
proof -
  let ?s1 = "usleep D us1 s"
  have ok1: "ok (dev ?s1)" "on (dev ?s1) = on (dev s)" "\<forall>n. malloc_ok ?s1 n"
    using slept [OF assms(1)] assms(4) by simp_all
  obtain r d2 where d2: "tdsp_add_device D name sn ?s1 = Some (r, ?s1\<lparr>dev := d2\<rparr>)" "ok d2"
      "maybe_on sn (on (dev s)) (on d2)"
    using device_added [OF ok1(1) assms(2) _ ok1(3)] ok1(2) assms(3) by metis
  let ?s2 = "usleep D us2 (?s1\<lparr>dev := d2\<rparr>)"
  have ok2: "ok (dev ?s2)" "on (dev ?s2) = on d2" using slept [of "?s1\<lparr>dev := d2\<rparr>" us2] d2(2) by simp_all
  obtain d3 where d3: "tdsp_query_device D ?s2 = Some (in_use_answer (on (dev ?s2)),
      ?s2\<lparr>dev := d3, g_currentserialno := in_use_answer (on (dev ?s2)), g_iscardin := True\<rparr>)"
      "ok d3" "on d3 = on (dev ?s2)"
    using query_device [OF ok2(1)] .
  let ?s3 = "?s2\<lparr>dev := d3, g_currentserialno := in_use_answer (on (dev ?s2)), g_iscardin := True\<rparr>"
  have "in_use_answer (on d2) \<noteq> 0xffff \<longleftrightarrow> on d2 \<noteq> {}"
    using on_12 [OF d2(2)] by (auto elim: subsets_12)
  then have "tdsp_is_download_dspcode_ok D ?s2 = Some (on (dev ?s3) \<noteq> {}, ?s3)"
    using d3 ok2 by (simp add: tdsp_is_download_dspcode_ok_def)
  moreover have "moved ok on s (on d2) ?s3"
    using d3 ok2 by (simp add: moved_def same_config_def usleep_def)
  ultimately show ?thesis using d2 d3 ok2 by (intro that [of r "?s1\<lparr>dev := d2\<rparr>" ?s3]) simp_all
qed

lemma device_started:
  assumes "ok (dev s)" "sn = 1 \<or> sn = 2" "sn \<notin> on (dev s)" "\<forall>n. malloc_ok s n"
  obtains s' where "start_device D name sn us1 us2 s = Some (on (dev s') \<noteq> {}, s')"
    "moved ok on s (on (dev s')) s'" "maybe_on sn (on (dev s)) (on (dev s'))" "g_state s' = g_state s"
proof -
  obtain d1 where d1: "download D sn s = Some (s\<lparr>dev := d1\<rparr>)" "ok d1" "on d1 = on (dev s)"
    using downloaded [OF assms(1)] .
  obtain r s1 s' where s': "tdsp_add_device D name sn (usleep D us1 (s\<lparr>dev := d1\<rparr>)) = Some (r, s1)"
    "tdsp_is_download_dspcode_ok D (usleep D us2 s1) = Some (on (dev s') \<noteq> {}, s')"
    "moved ok on (s\<lparr>dev := d1\<rparr>) (on (dev s')) s'" "maybe_on sn (on (dev s)) (on (dev s'))" "g_state s' = g_state s"
    using device_plugged [of "s\<lparr>dev := d1\<rparr>" sn name us1 us2] d1 assms by auto
  then show ?thesis
    using d1(1) by (intro that [of s']) (auto simp: start_device_def moved_def same_config_def)
qed

section \<open>The commands\<close>

lemma given_up:
  assumes "ok (dev s)"
  obtains s' where "give_up D s = Some s'" "ok (dev s')" "on (dev s') = on (dev s)"
    "\<not> g_isclickinginprogress s'" "g_state s' = mode_of (on (dev s))"
proof -
  obtain d' where "adjust_func_state D (s\<lparr>g_state := Neither\<rparr>) =
      Some (s\<lparr>g_state := Neither\<rparr>\<lparr>dev := d', g_currentserialno := in_use_answer (on (dev s)),
        g_iscardin := True, g_state := mode_of (on (dev s))\<rparr>)" "ok d'" "on d' = on (dev s)"
    using adjust_state [of "s\<lparr>g_state := Neither\<rparr>"] assms by auto
  then show ?thesis using that by (simp add: give_up_def finish_def)
qed

lemma finished:
  "dev (finish s) = dev s" "\<not> g_isclickinginprogress (finish s)" "g_state (finish s) = g_state s"
  by (simp_all add: finish_def)

lemma script_run:
  assumes "ok (dev s)"
  shows "ok (dev (run_script D s))" "on (dev (run_script D s)) = on (dev s)"
    "g_state (run_script D s) = g_state s"
    "g_isclickinginprogress (run_script D s) = g_isclickinginprogress s"
  using script_law [OF assms] by (simp_all add: run_script_def)

lemma first_started:
  assumes "ok (dev s)" "on (dev s) = {}" "sn = 1 \<or> sn = 2" "\<forall>n. malloc_ok s n"
  obtains r s3 s4 where "write_enum_mode D e s = Some (r, s3)"
    "start_device D name sn us1 us2 s3 = Some (on (dev s4) \<noteq> {}, s4)"
    "moved ok on s (on (dev s4)) s4" "maybe_on sn {} (on (dev s4))"
proof -
  obtain r d3 where e: "write_enum_mode D e s = Some (r, s\<lparr>dev := d3\<rparr>)" "ok d3" "on d3 = {}"
    using enum_mode_written [OF assms(1)] assms(2) by metis
  let ?s = "s\<lparr>dev := d3\<rparr>"
  have s3: "ok (dev ?s)" "sn \<notin> on (dev ?s)" "\<forall>n. malloc_ok ?s n" "on (dev ?s) = {}"
    using e assms(4) by simp_all
  obtain s4 where "start_device D name sn us1 us2 ?s = Some (on (dev s4) \<noteq> {}, s4)"
      "moved ok on ?s (on (dev s4)) s4" "maybe_on sn {} (on (dev s4))"
    using device_started [OF s3(1) assms(3) s3(2,3)] s3(4) by metis
  then show ?thesis using e(1) by (intro that [of r ?s s4]) (auto simp: moved_def same_config_def)
qed

text \<open>The entry of a command that is not refused: the state is adjusted to the started devices.\<close>

lemma entered:
  assumes "ok (dev s)" "\<not> g_isclickinginprogress s"
  obtains s1 where "adjust_func_state D (s\<lparr>g_isclickinginprogress := True\<rparr>) = Some s1"
    "g_iscardin s1" "g_state s1 = mode_of (on (dev s1))" "ok (dev s1)" "on (dev s1) = on (dev s)"
    "malloc_ok s1 = malloc_ok s"
proof -
  obtain d' where "adjust_func_state D (s\<lparr>g_isclickinginprogress := True\<rparr>) =
      Some (s\<lparr>g_isclickinginprogress := True\<rparr>\<lparr>dev := d', g_currentserialno := in_use_answer (on (dev s)),
        g_iscardin := True, g_state := mode_of (on (dev s))\<rparr>)" "ok d'" "on d' = on (dev s)"
    using adjust_state [of "s\<lparr>g_isclickinginprogress := True\<rparr>"] assms by auto
  then show ?thesis using that by simp
qed

text \<open>How a command ends: \<open>S\<close> is started, the utility's state is \<open>g\<close> and the next click is let in.\<close>

definition settled :: "u32 set \<Rightarrow> wb_state \<Rightarrow> ('d, 'z) wb_scheme \<Rightarrow> bool" where
  "settled S g s \<longleftrightarrow> ok (dev s) \<and> on (dev s) = S \<and> g_state s = g \<and> \<not> g_isclickinginprogress s"

text \<open>The part of a command after the other modes are cleared: start one device or give up.\<close>

lemma one_device_run:
  assumes "ok (dev s)" "on (dev s) = {}" "sn = 1 \<or> sn = 2" "\<forall>n. malloc_ok s n"
    and fin: "\<And>s4. ok (dev s4) \<Longrightarrow> on (dev s4) = {sn} \<Longrightarrow> settled {sn} (mode_of {sn}) (fin s4)"
  shows "\<exists>s' S. do {
      (r, s3) \<leftarrow> write_enum_mode D e s;
      (started, s4) \<leftarrow> start_device D name sn us1 us2 s3;
      if \<not> started then give_up D s4 else Some (fin s4)
    } = Some s' \<and> settled S (mode_of S) s' \<and> maybe_on sn {} S"
proof -
  obtain r s3 s4 where s4: "write_enum_mode D e s = Some (r, s3)"
    "start_device D name sn us1 us2 s3 = Some (on (dev s4) \<noteq> {}, s4)"
    "moved ok on s (on (dev s4)) s4" "maybe_on sn {} (on (dev s4))"
    using first_started [OF assms(1-4)] by metis
  show ?thesis
  proof (cases "on (dev s4) = {}")
    case True
    have ok4: "ok (dev s4)" using s4(3) by (simp add: moved_def)
    obtain s5 where "give_up D s4 = Some s5" "settled {} (mode_of {}) s5"
      using given_up [OF ok4] True by (metis settled_def)
    with s4 True show ?thesis by (intro exI [of _ s5] exI [of _ "{}"]) simp
  next
    case False
    then have "on (dev s4) = {sn}" using s4(4) by (auto simp: maybe_on_def)
    with s4 fin [of s4] show ?thesis by (auto simp: moved_def)
  qed
qed

lemma bluetooth_activated:
  fixes s :: "('d, 'z) wb_scheme"
  assumes "ok (dev s)" "\<not> g_isclickinginprogress s" "g_allowedmodes s ! 0" "\<forall>n. malloc_ok s n"
  shows "\<exists>s' S. on_bluetooth_activate D s = Some s' \<and> settled S (mode_of S) s' \<and>
    (if on (dev s) = {1} then S = {1} else maybe_on 1 {} S)"
proof -
  obtain s1 where s1: "adjust_func_state D (s\<lparr>g_isclickinginprogress := True\<rparr>) = Some s1"
    "g_iscardin s1" "g_state s1 = mode_of (on (dev s1))" "ok (dev s1)" "on (dev s1) = on (dev s)"
    "malloc_ok s1 = malloc_ok s"
    using entered [OF assms(1,2)] .
  show ?thesis
  proof (cases "on (dev s) = {1}")
    case True
    with s1 assms show ?thesis
      by (auto simp: on_bluetooth_activate_def command_def settled_def finished)
  next
    case False
    let ?other = "g_state s1 = WLAN_only \<or> g_state s1 = Both"
    let ?fin = "\<lambda>s4 :: ('d, 'z) wb_scheme. run_script D (finish (s4\<lparr>g_state := BT_only\<rparr>))"
    have other: "?other \<or> on (dev s1) = {}" and new: "g_state s1 \<noteq> BT_only"
      using other_mode [OF on_12 [OF s1(4)]] False by (simp_all only: s1(3,5) simp_thms)
    obtain s2 where clear: "\<forall>k. clear_modes D ?other k s1 = k s2" and s2: "moved ok on s1 {} s2"
      using modes_cleared [OF s1(4,3) other] .
    have run: "on_bluetooth_activate D s = do {
        (r, s3) \<leftarrow> write_enum_mode D 1 s2;
        (started, s4) \<leftarrow> start_device D TDSPBTID 1 500000 500000 s3;
        if \<not> started then give_up D s4 else Some (?fin s4)
      }"
      using s1(1,2) assms(2,3) new by (simp add: on_bluetooth_activate_def command_def clear)
    have "ok (dev s2)" "on (dev s2) = {}" "\<forall>n. malloc_ok s2 n"
      using s2 s1(6) assms(4) by (simp_all add: moved_def same_config_def)
    moreover have "settled {1} (mode_of {1}) (?fin s4)" if "ok (dev s4)" "on (dev s4) = {1}" for s4
      using that script_run [of "finish (s4\<lparr>g_state := BT_only\<rparr>)"] by (simp add: settled_def finished)
    ultimately show ?thesis
      unfolding run using False one_device_run [of s2 1 ?fin] by simp
  qed
qed

lemma wlan_activated:
  fixes s :: "('d, 'z) wb_scheme"
  assumes "ok (dev s)" "\<not> g_isclickinginprogress s" "g_allowedmodes s ! 1" "\<forall>n. malloc_ok s n"
  shows "\<exists>s' S. on_wlan_activate D s = Some s' \<and> settled S (mode_of S) s' \<and>
    (if on (dev s) = {2} then S = {2} else maybe_on 2 {} S)"
proof -
  obtain s1 where s1: "adjust_func_state D (s\<lparr>g_isclickinginprogress := True\<rparr>) = Some s1"
    "g_iscardin s1" "g_state s1 = mode_of (on (dev s1))" "ok (dev s1)" "on (dev s1) = on (dev s)"
    "malloc_ok s1 = malloc_ok s"
    using entered [OF assms(1,2)] .
  show ?thesis
  proof (cases "on (dev s) = {2}")
    case True
    with s1 assms show ?thesis
      by (auto simp: on_wlan_activate_def command_def settled_def finished)
  next
    case False
    let ?other = "g_state s1 = BT_only \<or> g_state s1 = Both"
    let ?fin = "\<lambda>s4 :: ('d, 'z) wb_scheme. finish (s4\<lparr>g_state := WLAN_only\<rparr>)"
    have other: "?other \<or> on (dev s1) = {}" and new: "g_state s1 \<noteq> WLAN_only"
      using other_mode [OF on_12 [OF s1(4)]] False by (simp_all only: s1(3,5) simp_thms)
    obtain s2 where clear: "\<forall>k. clear_modes D ?other k (usleep D 500000 s1) = k s2"
      and s2: "moved ok on (usleep D 500000 s1) {} s2"
      using modes_cleared [of "usleep D 500000 s1" ?other] slept [OF s1(4)] s1(3) other by auto
    have run: "on_wlan_activate D s = do {
        (r, s3) \<leftarrow> write_enum_mode D 2 s2;
        (started, s4) \<leftarrow> start_device D TDSPWLANID 2 500000 1000000 s3;
        if \<not> started then give_up D s4 else Some (?fin s4)
      }"
      using s1(1,2) assms(2,3) new by (simp add: on_wlan_activate_def command_def clear)
    have "ok (dev s2)" "on (dev s2) = {}" "\<forall>n. malloc_ok s2 n"
      using s2 s1(6) assms(4) by (simp_all add: moved_def same_config_def)
    moreover have "settled {2} (mode_of {2}) (?fin s4)" if "ok (dev s4)" "on (dev s4) = {2}" for s4
      using that by (simp add: settled_def finished)
    ultimately show ?thesis
      unfolding run using False one_device_run [of s2 2 ?fin] by simp
  qed
qed

lemma unplug_activated:
  assumes "ok (dev s)" "\<not> g_isclickinginprogress s"
  shows "\<exists>s'. on_unplug_activate D s = Some s' \<and> settled {} Neither s'"
proof -
  obtain s1 where s1: "adjust_func_state D (s\<lparr>g_isclickinginprogress := True\<rparr>) = Some s1"
    "g_iscardin s1" "g_state s1 = mode_of (on (dev s1))" "ok (dev s1)" "on (dev s1) = on (dev s)"
    "malloc_ok s1 = malloc_ok s"
    using entered [OF assms] .
  let ?other = "g_state s1 = BT_only \<or> g_state s1 = WLAN_only \<or> g_state s1 = Both"
  have none: "g_state s1 = Neither \<longleftrightarrow> on (dev s1) = {}" and other: "?other \<or> on (dev s1) = {}"
    using other_mode [OF on_12 [OF s1(4)]] by (simp_all only: s1(3)) blast+
  obtain s2 where clear: "\<forall>k. clear_modes D ?other k s1 = k s2" and s2: "moved ok on s1 {} s2"
    using modes_cleared [OF s1(4,3) other] .
  have "on_unplug_activate D s =
      Some (finish (if g_state s1 = Neither then s1 else s2\<lparr>g_state := Neither\<rparr>))"
    using s1(1) assms(2) by (simp add: on_unplug_activate_def command_def clear)
  then show ?thesis
    using none s1(4) s2 by (auto simp: settled_def finished moved_def)
qed

text \<open>The wait for the WLAN device ends at once when the device has started.\<close>

lemma started_wait_ends:
  assumes "ok (dev s)" "2 \<in> on (dev s)"
  obtains s' where "started_wait D s = Some (True, s')" "moved ok on s (on (dev s)) s'"
proof -
  obtain d' where "tdsp_query_pnp_state D 2 s = Some (1, s\<lparr>dev := d', g_dsppnpstate := 1\<rparr>)"
    "ok d'" "on d' = on (dev s)"
    using query_pnp [OF assms(1), of 2] assms(2) by auto
  then show ?thesis using that by (simp add: started_wait.simps [of D s] moved_def)
qed

text \<open>
  The second half of the coexistence mode asks whether any device runs, and the WLAN device does:
  a Bluetooth device that did not start goes unnoticed.
\<close>

lemma second_started:
  assumes "ok (dev s)" "on (dev s) = {2}" "\<forall>n. malloc_ok s n"
  shows "\<exists>s' S. coexist_second D s = Some s' \<and> settled S Both s' \<and> maybe_on 1 {2} S"
proof -
  obtain r d1 where i1: "tdsp_set_init_flag D 2 s = Some (r, s\<lparr>dev := d1\<rparr>)" "ok d1" "on d1 = {2}"
    using init_flag_set [OF assms(1)] assms(2) by metis
  let ?s1 = "usleep D 500000 (s\<lparr>dev := d1\<rparr>)"
  have s1: "ok (dev ?s1)" "on (dev ?s1) = {2}" "\<forall>n. malloc_ok ?s1 n"
    using slept [of "s\<lparr>dev := d1\<rparr>" 500000] i1 assms(3) by simp_all
  obtain s2 where s2: "start_device D TDSPBTID 1 200000 1000000 ?s1 = Some (on (dev s2) \<noteq> {}, s2)"
    "moved ok on ?s1 (on (dev s2)) s2" "maybe_on 1 {2} (on (dev s2))"
    using device_started [OF s1(1) _ _ s1(3), of 1 TDSPBTID 200000 1000000] s1(2) by auto
  have on: "on (dev s2) \<noteq> {}" using s2(3) by (auto simp: maybe_on_def)
  have "ok (dev s2)" using s2(2) by (simp add: moved_def)
  then obtain r' d3 where i3: "tdsp_set_init_flag D 1 s2 = Some (r', s2\<lparr>dev := d3\<rparr>)" "ok d3"
      "on d3 = on (dev s2)"
    by (rule init_flag_set)
  let ?s' = "run_script D (finish (s2\<lparr>dev := d3, g_state := Both\<rparr>))"
  have "coexist_second D s = Some ?s'"
    using i1(1) s2(1) on i3(1) by (simp add: coexist_second_def)
  moreover have "settled (on (dev s2)) Both ?s'"
    using i3(2,3) script_run [of "finish (s2\<lparr>dev := d3, g_state := Both\<rparr>)"]
    by (simp add: settled_def finished)
  ultimately show ?thesis using s2(3) by blast
qed

lemma coexist_activated:
  assumes "ok (dev s)" "\<not> g_isclickinginprogress s" "g_allowedmodes s ! 2" "\<forall>n. malloc_ok s n"
  shows "\<exists>s' S. on_coexist_activate D s = Some s' \<and>
    settled S (if S = {} then Neither else Both) s' \<and>
    (if on (dev s) = {1, 2} then S = {1, 2} else maybe_on 1 {2} S \<or> S = {} \<and> 2 \<notin> willing)"
proof -
  obtain s1 where s1: "adjust_func_state D (s\<lparr>g_isclickinginprogress := True\<rparr>) = Some s1"
    "g_iscardin s1" "g_state s1 = mode_of (on (dev s1))" "ok (dev s1)" "on (dev s1) = on (dev s)"
    "malloc_ok s1 = malloc_ok s"
    using entered [OF assms(1,2)] .
  show ?thesis
  proof (cases "on (dev s) = {1, 2}")
    case True
    with s1 assms show ?thesis
      by (auto simp: on_coexist_activate_def command_def settled_def finished)
  next
    case False
    let ?other = "g_state s1 = BT_only \<or> g_state s1 = WLAN_only"
    have other: "?other \<or> on (dev s1) = {}" and new: "g_state s1 \<noteq> Both"
      using other_mode [OF on_12 [OF s1(4)]] False by (simp_all only: s1(3,5) simp_thms)
    obtain s2 where clear: "\<forall>k. clear_modes D ?other k (usleep D 500000 s1) = k s2"
      and s2: "moved ok on (usleep D 500000 s1) {} s2"
      using modes_cleared [of "usleep D 500000 s1" ?other] slept [OF s1(4)] s1(3) other by auto
    have s2': "ok (dev s2)" "on (dev s2) = {}" "\<forall>n. malloc_ok s2 n"
      using s2 s1(6) assms(4) by (simp_all add: moved_def same_config_def)
    obtain r s3 s4 where s4: "write_enum_mode D 3 s2 = Some (r, s3)"
      "start_device D TDSPWLANID 2 200000 1000000 s3 = Some (on (dev s4) \<noteq> {}, s4)"
      "moved ok on s2 (on (dev s4)) s4" "maybe_on 2 {} (on (dev s4))"
      using first_started [OF s2'(1,2) _ s2'(3), of 2 3 TDSPWLANID 200000 1000000] by auto
    have run: "on_coexist_activate D s =
        (if on (dev s4) = {} then give_up D s4
         else do { (on, s5) \<leftarrow> started_wait D s4; if \<not> on then Some s5 else coexist_second D s5 })"
      using s1(1,2) assms(2,3) new s4(1,2) by (simp add: on_coexist_activate_def command_def clear)
    have ok4: "ok (dev s4)" using s4(3) by (simp add: moved_def)
    show ?thesis
    proof (cases "on (dev s4) = {}")
      case True
      obtain s5 where "give_up D s4 = Some s5" "settled {} Neither s5"
        using given_up [OF ok4] True by (metis settled_def mode_of_simps(1))
      moreover have "2 \<notin> willing" using s4(4) True by (simp add: maybe_on_def)
      ultimately show ?thesis using run True False by (intro exI [of _ s5] exI [of _ "{}"]) simp
    next
      case on: False
      then have two: "on (dev s4) = {2}" using s4(4) by (auto simp: maybe_on_def)
      obtain s5 where s5: "started_wait D s4 = Some (True, s5)" "moved ok on s4 {2} s5"
        using started_wait_ends [OF ok4] two by auto
      have "ok (dev s5)" "on (dev s5) = {2}" "\<forall>n. malloc_ok s5 n"
        using s5(2) s4(3) s2'(3) by (simp_all add: moved_def same_config_def)
      then obtain s' S where "coexist_second D s5 = Some s'" "settled S Both s'" "maybe_on 1 {2} S"
        using second_started by blast
      moreover have "S \<noteq> {}" using calculation(3) by (auto simp: maybe_on_def)
      ultimately show ?thesis using run on s5(1) False by (intro exI [of _ s'] exI [of _ S]) simp
    qed
  qed
qed

end

end
