(* ===== verification/Uwb_Sys.thy ===== *)
theory Uwb_Sys
  imports Uwb_Modes Bus_Switches Sys_Run
begin

text \<open>
  The control utility on the modelled system: its device is the bus module's character device
  with both drivers behind it, the contract \<open>wb_bus\<close> is interpreted on it, and the commands'
  properties follow for the program as a whole.
\<close>

section \<open>The device of the utility\<close>

text \<open>
  The state is the open file and the system.  The device node is there while the module is
  loaded; nothing else acts on the devices while the utility sleeps or its script runs.
\<close>

type_synonym ('a, 'b) sys_node = "bus_file \<times> ('a, 'b) system"

definition sys_dev :: "u8 list \<Rightarrow> ('a, 'b) sys_node bus_dev" where
  "sys_dev stk = \<lparr>
     dev_open = \<lambda>(f, w).
       if \<not> fdo_live w then Some (False, f, w)
       else do { (r, f1) \<leftarrow> tdspbus_open \<lparr>private_data = None\<rparr> w; Some (r = 0, f1, w) },
     dev_ioctl = \<lambda>cmd m (f, w). do {
       (r, m1, w1) \<leftarrow> tdspbus_unlocked_ioctl sys_call stk f cmd m w;
       Some (r, m1, f, w1)
     },
     dev_close = \<lambda>(f, w). do { (r, f1) \<leftarrow> tdspbus_release f w; Some (f1, w) },
     dev_sleep = \<lambda>us d. d,
     dev_script = \<lambda>d. d\<rparr>"

definition started_set :: "'c bus \<Rightarrow> u32 set" where
  "started_set w = (if dev_started w 1 then {1} else {}) \<union> (if dev_started w 2 then {2} else {})"

section \<open>Drivers that start when asked\<close>

text \<open>
  The Bluetooth library opens the device and the kernel's HCI calls succeed; the WLAN library
  initializes the card and the kernel allocates the network device.
\<close>

definition bt_obliges :: "('a, 'b) clients \<Rightarrow> bool" where
  "bt_obliges c \<longleftrightarrow>
     (\<forall>B. fst (Bluetooth_Adap_Open_Dev (blib c) B) = 0) \<and>
     (\<forall>t. outcome c t HciAllocDev \<and> outcome c t HciRegisterDev)"

definition wlan_obliges :: "('a, 'b) clients \<Rightarrow> bool" where
  "wlan_obliges c \<longleftrightarrow>
     (\<forall>A. fst (Adap_Initialize (wlib c) A) = 0) \<and> (\<forall>t. outcome c t AllocEtherdev)"

definition same_env :: "('a, 'b) clients \<Rightarrow> ('a, 'b) clients \<Rightarrow> bool" where
  "same_env c c' \<longleftrightarrow> wlib c' = wlib c \<and> blib c' = blib c \<and> outcome c' = outcome c"

lemma same_env_obliges:
  assumes "same_env c c'"
  shows "bt_obliges c' = bt_obliges c" "wlan_obliges c' = wlan_obliges c" "env_ok c' = env_ok c"
  using assms by (simp_all add: same_env_def bt_obliges_def wlan_obliges_def env_ok_def)

lemma ask_env: "ask k c = (b, c') \<Longrightarrow> same_env c c'"
  by (auto simp: ask_def same_env_def)

lemma same_env_eqs:
  "same_env c c' \<Longrightarrow> wlib c' = wlib c" "same_env c c' \<Longrightarrow> blib c' = blib c"
  "same_env c c' \<Longrightarrow> outcome c' = outcome c"
  by (simp_all add: same_env_def)

lemma down_openLock_env: "down_openLock c = Some (r, c') \<Longrightarrow> same_env c c'"
  by (auto simp: down_openLock_def dest: ask_env split: if_splits prod.splits)
    (simp add: same_env_def)?

lemma hci_create_env: "hci_create d c = Some (h, c') \<Longrightarrow> same_env c c'"
  by (auto simp: hci_create_def bt_adap_upd_def Let_def same_env_def dest!: ask_env
      split: bind_splits prod.splits if_splits)

lemma hci_destroy_env: "hci_destroy d c = Some c' \<Longrightarrow> same_env c c'"
  by (auto simp: hci_destroy_def bt_adap_upd_def hdev_upd_def same_env_def
      split: bind_splits option.splits)

lemma wlan_initialize_env: "wlan_initialize d w = Some (r, w') \<Longrightarrow> same_env (client w) (client w')"
  by (auto simp: wlan_initialize_def wlan_Bus_set_firmware_version_def set_iface_def Let_def same_env_def
      split: bind_splits prod.splits option.splits)

lemma netdev_setup_env: "wlan_netdev_setup a w = Some (r, w') \<Longrightarrow> same_env (client w) (client w')"
  by (auto simp: wlan_netdev_setup_def Let_def same_env_def dest!: ask_env
      split: bind_splits prod.splits if_splits)

lemma netdev_destroy_env: "wlan_netdev_destroy a c = Some c' \<Longrightarrow> same_env c c'"
  by (auto simp: wlan_netdev_destroy_def Let_def same_env_def split: bind_splits option.splits)

lemma sys_call_env: "sys_call cb a w = Some (r, w') \<Longrightarrow> same_env (client w) (client w')"
  by (cases cb)
    (auto simp: wlan_Bus_Open_def wlan_Bus_Close_def bt_Bus_Open_def bt_Bus_Close_def same_env_def
      register_HCI_device_def unregister_HCI_device_def up_openLock_def wlan_adap_upd_def
      dest!: down_openLock_env hci_create_env hci_destroy_env wlan_initialize_env
        netdev_setup_env netdev_destroy_env
      split: bind_splits prod.splits if_splits option.splits)

text \<open>
  The promise that the devices of the set \<open>W\<close> start, and the drivers' contract with it.
\<close>

definition promise :: "u32 set \<Rightarrow> ('a, 'b) clients \<Rightarrow> iface \<Rightarrow> bool" where
  "promise W c x \<longleftrightarrow>
     (1 \<in> W \<longrightarrow> bt_obliges c \<and> (iSerialNo x = 1 \<longrightarrow> open_cb x = Some Bt_Bus_Open)) \<and>
     (2 \<in> W \<longrightarrow> wlan_obliges c \<and> (iSerialNo x = 2 \<longrightarrow> open_cb x = Some Wlan_Bus_Open))"

definition sys_ok_on :: "u32 set \<Rightarrow> ('a, 'b) clients \<Rightarrow> addr \<Rightarrow> iface \<Rightarrow> bool" where
  "sys_ok_on W c a x \<longleftrightarrow> sys_ok c a x \<and> promise W c x"

interpretation sysbt: bus_client sys_call "sys_ok_on W" for W
proof
  fix w :: "('a, 'b) system" and a x cb
  assume x: "ifaces w a = Some x" "sys_ok_on W (client w) a x" "open_cb x = Some cb \<or> close_cb x = Some cb"
  then have "sys_ok (client w) a x" by (simp add: sys_ok_on_def)
  then obtain r w' where c: "sys_call cb a w = Some (r, w')" "cb_frame a w w'"
    "\<forall>b y. sys_ok (client w) b y \<longrightarrow> sys_ok (client w') b y"
    using sys.call_law [OF x(1) _ x(3)] by blast
  with same_env_obliges [OF sys_call_env [OF c(1)]]
  show "\<exists>r w'. sys_call cb a w = Some (r, w') \<and> cb_frame a w w' \<and>
      (\<forall>a y. sys_ok_on W (client w) a y \<longrightarrow> sys_ok_on W (client w') a y)"
    by (auto simp: sys_ok_on_def promise_def)
next
  show "iface_agrees x y \<Longrightarrow> sys_ok_on W c a x \<Longrightarrow> sys_ok_on W c a y" for x y W a and c :: "('a, 'b) clients"
    using sys_ok_agrees by (auto simp: sys_ok_on_def promise_def iface_agrees_def)
qed

lemma bus_ok_on: "bus_ok (sys_ok_on W) w \<Longrightarrow> bus_ok sys_ok w"
  by (auto simp: bus_ok_def clients_ok_def sys_ok_on_def)

lemma bt_opens:
  assumes "ifaces w a = Some x" "sys_ok_on W (client w) a x" "iSerialNo x = 1" "1 \<in> W"
  shows "\<exists>w'. sys_call Bt_Bus_Open a w = Some (0, w')"
proof -
  let ?c = "client w"
  have ob: "bt_obliges ?c" and inv: "clients_inv ?c" and i: "bt_intf ?c a x"
    using assms(2-) by (auto simp: sys_ok_on_def promise_def sys_ok_def wlan_intf_def)
  from i obtain d B where d: "pBtDev x = Some d" "badap ?c d = Some B" and lock: "0 < openLock ?c"
    by (auto simp: bt_intf_def bbus_adap)
  obtain c1 where c1: "down_openLock ?c = Some (0, c1)" "badap c1 = badap ?c"
    using lock inv by (rule down_openLock_taken)
  have "bt_obliges c1" using ob same_env_obliges [OF down_openLock_env [OF c1(1)]] by simp
  then have "\<exists>h c2. hci_create d c1 = Some (Some h, c2)"
    using d(2) c1(2)
    by (auto simp: hci_create_def bt_obliges_def ask_def bt_adap_upd_def Let_def split: prod.splits)
      (metis fst_conv)?
  then show ?thesis using assms(1) d c1(1)
    by (auto simp: bt_Bus_Open_def register_HCI_device_def EINTR_def)
qed

lemma wlan_opens:
  fixes w :: "('a, 'b) system"
  assumes "ifaces w a = Some x" "sys_ok_on W (client w) a x" "iSerialNo x = 2" "2 \<in> W" "dev_closed (client w) x"
  shows "\<exists>w'. sys_call Wlan_Bus_Open a w = Some (0, w')"
proof -
  let ?c = "client w" let ?L = "wlib ?c"
  have ob: "wlan_obliges ?c" and inv: "clients_inv ?c" and cb: "open_cb x = Some Wlan_Bus_Open" and i: "wlan_intf ?c a x"
    using assms(2-4) by (auto simp: sys_ok_on_def promise_def sys_ok_def bt_intf_def)
  have laws: "wlan_lib_laws ?L" and env: "env_ok ?c" using inv by (simp_all add: clients_inv_def)
  obtain d A where d: "pBtDev x = Some d" "wadap ?c d = Some A" "Adap_Get_BusInf ?L A = Some a"
    using i by (auto simp: wlan_intf_def wbus_def wview_def wptrs_def split: option.splits)
  have n: "Adap_Get_Netdev ?L A = None"
    using assms(5) d cb by (auto simp: dev_closed_def wview_def wptrs_def)
  obtain fw A1 where init: "Adap_Initialize ?L A = (0, fw, A1)"
    using ob by (metis wlan_obliges_def prod.collapse)
  have "wptrs ?L A1 = wptrs ?L A" using wlan_laws(4) [OF laws, of A] init by simp
  then have A1: "Adap_Get_BusInf ?L A1 = Some a" "Adap_Get_Netdev ?L A1 = None"
    using d(3) n by (auto simp: wptrs_def)
  obtain w1 y where w1: "wlan_initialize d w = Some (0, w1)" "client w1 = ?c\<lparr>wadap := (wadap ?c)(d := Some A1)\<rparr>"
    "ifaces w1 a = Some y" "pBtDev y = Some d"
    using d init A1 assms(1)
    by (cases fw) (auto simp: wlan_initialize_def Let_def wlan_Bus_set_firmware_version_def set_iface_def)
  have "\<exists>w'. wlan_netdev_setup (Some d) w1 = Some (0, w')"
  proof -
    have p2: "Adap_Get_BusInf ?L (Adap_Set_Netdev ?L v (Adap_Set_Netstat ?L u A1)) = Some a" for u v
      using wlan_laws(1,2) [OF laws] A1 by (metis wptrs_get)
    show ?thesis
      using w1 A1 p2 ob env by (simp add: wlan_netdev_setup_def Let_def ask_def wlan_obliges_def env_ok_def)
  qed
  with w1 assms(1) d(1) show ?thesis by (auto simp: wlan_Bus_Open_def)
qed

section \<open>The node between requests\<close>

text \<open>
  A card is registered; the devices of \<open>W\<close> are, and then no network device is left of a WLAN
  interface that is not started.
\<close>

definition node_ok :: "u32 set \<Rightarrow> ('a, 'b) sys_node \<Rightarrow> bool" where
  "node_ok W d \<longleftrightarrow> (case d of (f, w) \<Rightarrow>
     bus_ok (sys_ok_on W) w \<and> any_registered (FdoData w) \<and>
     (1 \<in> W \<longrightarrow> dev_registered w 1) \<and> (2 \<in> W \<longrightarrow> dev_registered w 2 \<and> served w))"

text \<open>The same without what the kernel and the card must do for it, which the properties name.\<close>

definition sys_link_on :: "u32 set \<Rightarrow> ('a, 'b) clients \<Rightarrow> addr \<Rightarrow> iface \<Rightarrow> bool" where
  "sys_link_on W c a x \<longleftrightarrow> sys_link c a x \<and> promise W c x"

definition system_up :: "u32 set \<Rightarrow> ('a, 'b) system \<Rightarrow> bool" where
  "system_up W w \<longleftrightarrow> bus_ok (sys_link_on W) w \<and>
     (1 \<in> W \<longrightarrow> dev_registered w 1) \<and> (2 \<in> W \<longrightarrow> dev_registered w 2 \<and> served w)"

lemma node_okI: "system_up W w \<Longrightarrow> env_ok (client w) \<Longrightarrow> any_registered (FdoData w) \<Longrightarrow> node_ok W (f, w)"
  by (auto simp: system_up_def node_ok_def bus_ok_def clients_ok_def sys_link_on_def sys_ok_on_def sys_ok_alt)

lemma node_okD:
  "node_ok W (f, w) \<Longrightarrow> system_up W w" "node_ok W (f, w) \<Longrightarrow> any_registered (FdoData w)"
  by (auto simp: system_up_def node_ok_def bus_ok_def clients_ok_def sys_link_on_def sys_ok_on_def sys_ok_alt)

definition node_ready :: "u32 set \<Rightarrow> ('a, 'b) sys_node \<Rightarrow> bool" where
  "node_ready W d \<longleftrightarrow> node_ok W d \<and> private_data (fst d) = ptdspbus_myself (snd d)"

definition node_on :: "('a, 'b) sys_node \<Rightarrow> u32 set" where
  "node_on d = started_set (snd d)"

text \<open>The device table read through the slots' states.\<close>

lemma slots_read:
  assumes "bus_inv w"
  shows "dev_started w 1 \<longleftrightarrow> slot_state w 0 = Some Started" "dev_started w 2 \<longleftrightarrow> slot_state w (Suc 0) = Some Started"
    "dev_registered w 1 \<longleftrightarrow> slot_state w 0 \<noteq> None" "dev_registered w 2 \<longleftrightarrow> slot_state w (Suc 0) \<noteq> None"
    "any_registered (FdoData w) \<longleftrightarrow> (\<exists>i<3. slot_state w i \<noteq> None)"
proof -
  obtain s0 s1 s2 where t: "DeviceData (FdoData w) = [s0, s1, s2]"
    "sSerialNo s0 = 1" "sSerialNo s1 = 2" "sSerialNo s2 = 4" "pDeviceInterface s2 = None"
    "pDeviceInterface s0 = None \<and> dev_iface w 1 = None \<or>
      (\<exists>p x. pDeviceInterface s0 = Some p \<and> ifaces w p = Some x \<and> dev_iface w 1 = Some x \<and> iface_ok s0 x)"
    "pDeviceInterface s1 = None \<and> dev_iface w 2 = None \<or>
      (\<exists>p x. pDeviceInterface s1 = Some p \<and> ifaces w p = Some x \<and> dev_iface w 2 = Some x \<and> iface_ok s1 x)"
    using assms by (rule two_devices)
  show "dev_started w 1 \<longleftrightarrow> slot_state w 0 = Some Started" "dev_registered w 1 \<longleftrightarrow> slot_state w 0 \<noteq> None"
    using t by (auto simp: dev_started_def dev_registered_def slot_state_def)
  show "dev_started w 2 \<longleftrightarrow> slot_state w (Suc 0) = Some Started" "dev_registered w 2 \<longleftrightarrow> slot_state w (Suc 0) \<noteq> None"
    using t by (auto simp: dev_started_def dev_registered_def slot_state_def)
  show "any_registered (FdoData w) \<longleftrightarrow> (\<exists>i<3. slot_state w i \<noteq> None)"
    using t by (auto simp: any_registered_def slot_state_def numeral_3_eq_3 less_Suc_eq
        intro: exI [of _ 0] exI [of _ "Suc 0"])
qed

lemma started_set_slots:
  assumes "bus_inv w"
  shows "started_set w = (if slot_state w 0 = Some Started then {1} else {}) \<union>
    (if slot_state w (Suc 0) = Some Started then {2} else {})"
  by (simp add: started_set_def slots_read [OF assms])

lemma node_ok_inv: "node_ok W (f, w) \<Longrightarrow> bus_inv w" "node_ready W d \<Longrightarrow> node_ok W d"
  by (simp_all add: node_ok_def node_ready_def bus_ok_def)

text \<open>What keeps the invariant, the node's address and the set of registered devices keeps the node.\<close>

lemma node_ready_step:
  assumes "node_ready W (f, w)" "bus_ok (sys_ok_on W) w'" "ptdspbus_myself w' = ptdspbus_myself w"
    and "served w \<Longrightarrow> served w'"
    and "\<And>i. i < 3 \<Longrightarrow> slot_state w' i = None \<longleftrightarrow> slot_state w i = None"
  shows "node_ready W (f, w')"
proof -
  have "bus_inv w" "bus_inv w'" using assms(1,2) by (auto simp: node_ready_def node_ok_def bus_ok_def)
  moreover have "(\<exists>i<3. slot_state w' i \<noteq> None) \<longleftrightarrow> (\<exists>i<3. slot_state w i \<noteq> None)" using assms(5) by metis
  ultimately show ?thesis
    using assms by (simp add: node_ready_def node_ok_def slots_read del: not_None_eq)
qed

lemma same_switches_step:
  assumes "node_ready W (f, w)" "bus_ok (sys_ok_on W) w'" "ptdspbus_myself w' = ptdspbus_myself w"
    and "served w \<Longrightarrow> served w'" and "switches w' = switches w"
  shows "node_ready W (f, w') \<and> node_on (f, w') = node_on (f, w)"
proof -
  have inv: "bus_inv w" "bus_inv w'" using assms(1,2) by (auto simp: node_ready_def node_ok_def bus_ok_def)
  have "slot_state w' i = slot_state w i" if "i < 3" for i
    using switches_nth [OF that, of w'] switches_nth [OF that, of w] assms(5) by simp
  moreover from this have "started_set w' = started_set w" using inv by (simp add: started_set_slots)
  ultimately show ?thesis
    using node_ready_step [OF assms(1-4)] by (simp add: node_on_def)
qed

section \<open>The address of the bus stays\<close>

lemma sys_call_myself: "sys_call cb a w = Some (r, w') \<Longrightarrow> ptdspbus_myself w' = ptdspbus_myself w"
  by (cases cb)
    (auto simp: wlan_Bus_Open_def wlan_Bus_Close_def bt_Bus_Open_def bt_Bus_Close_def with_client_def
      wlan_initialize_def wlan_Bus_set_firmware_version_def wlan_netdev_setup_def set_iface_def Let_def
      split: bind_splits prod.splits if_splits option.splits)

lemma plug_myself:
  "Bus_PlugInDevice sys_call sn w = Some (r, w') \<Longrightarrow> ptdspbus_myself w' = ptdspbus_myself w"
  by (auto simp: Bus_PlugInDevice_def plug_started_def set_devstate_def set_slot_def set_iface_def Let_def
      dest!: sys_call_myself split: bind_splits option.splits if_splits prod.splits)

lemma unplug_one_myself:
  "unplug_one sys_call sn w = Some (r, w') \<Longrightarrow> ptdspbus_myself w' = ptdspbus_myself w"
  by (auto simp: unplug_one_def unplug_closed_def set_devstate_def set_slot_def set_iface_def Let_def
      dest!: sys_call_myself split: bind_splits option.splits if_splits prod.splits)

section \<open>The requests\<close>

lemma ready_ioctl:
  assumes "node_ready W (f, w)"
  shows "tdspbus_unlocked_ioctl sys_call stk f cmd m w = ioctl_switch sys_call stk cmd m w"
proof -
  have "bus_inv w" "any_registered (FdoData w)" "private_data f = ptdspbus_myself w"
    using assms by (auto simp: node_ready_def node_ok_def bus_ok_def)
  then show ?thesis by (simp add: tdspbus_unlocked_ioctl_def bus_inv_def)
qed

lemma switch_served:
  assumes "node_ready W (f, w)" "ioctl_switch sys_call stk cmd m w = Some (r, m', w')" "served w"
  shows "served w'"
proof (rule ioctl_served)
  show "bus_ok sys_ok w" using assms(1) by (auto simp: node_ready_def node_ok_def intro: bus_ok_on)
  show "tdspbus_unlocked_ioctl sys_call stk f cmd m w = Some (r, m', w')"
    using assms(2) by (simp add: ready_ioctl [OF assms(1)])
qed fact

lemma sys_dev_ioctl:
  assumes "node_ready W (f, w)"
  shows "dev_ioctl (sys_dev stk) cmd m (f, w) =
    do { (r, m1, w1) \<leftarrow> ioctl_switch sys_call stk cmd m w; Some (r, m1, f, w1) }"
  by (simp add: sys_dev_def ready_ioctl [OF assms])

lemma sys_dev_idle [simp]: "dev_sleep (sys_dev stk) us d = d" "dev_script (sys_dev stk) d = d"
  by (simp_all add: sys_dev_def)

lemma answered:
  assumes "node_ready W (f, w)" "ioctl_switch sys_call stk cmd m w = Some (0, m', w)"
  shows "\<exists>d'. dev_ioctl (sys_dev stk) cmd m (f, w) = Some (0, m', d') \<and> node_ready W d' \<and>
    node_on d' = node_on (f, w)"
  using assms by (simp add: sys_dev_ioctl)

lemma node_display:
  assumes "node_ready W d" "length m = 4"
  shows "\<exists>d'. dev_ioctl (sys_dev stk) IOCTL_BUSENUM_DISPLAY_IN_USE_DEVICE m d =
    Some (0, le32 (in_use_answer (node_on d)), d') \<and> node_ready W d' \<and> node_on d' = node_on d"
proof -
  obtain f w where d: "d = (f, w)" by (cases d)
  have inv: "bus_inv w" "any_registered (FdoData w)"
    using assms(1) by (auto simp: d node_ready_def node_ok_def bus_ok_def)
  obtain v where v: "in_use_bits (ifaces w) (DeviceData (FdoData w)) 0 = Some v"
    "in_use_value v = (if started_mask w = 0 then 0xffff else started_mask w)"
    using in_use_bits_two [OF inv] by blast
  have "(if started_mask w = 0 then 0xffff else started_mask w) = in_use_answer (started_set w)"
    by (simp add: started_mask_def in_use_answer_def started_set_def)
  with v inv assms(2) have "ioctl_switch sys_call stk IOCTL_BUSENUM_DISPLAY_IN_USE_DEVICE m w =
      Some (0, le32 (in_use_answer (node_on (f, w))), w)"
    by (simp add: ioctl_switch_def ioctl_display_in_use_def umem_simps STATUS_SUCCESS_def node_on_def)
  with assms(1) show ?thesis unfolding d by (rule answered)
qed

lemma node_power:
  assumes "node_ready W d" "length m = 4"
  shows "\<exists>d'. dev_ioctl (sys_dev stk) IOCTL_BUSENUM_QUERY_BUS_POWER_STATE m d =
    Some (0, le32 1, d') \<and> node_ready W d' \<and> node_on d' = node_on d"
proof -
  obtain f w where d: "d = (f, w)" by (cases d)
  have "bus_inv w" "BusPowerState (FdoData w) = PowerWirlessOn"
    using assms(1) by (auto simp: d node_ready_def node_ok_def bus_ok_def bus_inv_def)
  with assms(2) have "ioctl_switch sys_call stk IOCTL_BUSENUM_QUERY_BUS_POWER_STATE m w = Some (0, le32 1, w)"
    by (simp add: ioctl_switch_def ioctl_query_bus_power_state_def umem_simps STATUS_SUCCESS_def)
  with assms(1) show ?thesis unfolding d by (rule answered)
qed

lemma node_reset:
  assumes "node_ready W d" "length m = 4"
  shows "\<exists>d'. dev_ioctl (sys_dev stk) IOCTL_BUSENUM_QUERY_RESET_FLAG m d =
    Some (0, le32 0, d') \<and> node_ready W d' \<and> node_on d' = node_on d"
proof -
  obtain f w where d: "d = (f, w)" by (cases d)
  have "ioctl_switch sys_call stk IOCTL_BUSENUM_QUERY_RESET_FLAG m w = Some (0, le32 0, w)"
    using assms(2) by (simp add: ioctl_switch_def umem_simps STATUS_SUCCESS_def)
  with assms(1) show ?thesis unfolding d by (rule answered)
qed

lemma node_state:
  assumes "node_ready W d" "sn = 1 \<or> sn = 2"
  shows "\<exists>d'. dev_ioctl (sys_dev stk) IOCTL_BUSENUM_QUERY_DEVICE_STATE (le32 sn) d =
    Some (0, le32 (if sn \<in> node_on d then 1 else 255), d') \<and> node_ready W d' \<and> node_on d' = node_on d"
proof -
  obtain f w where d: "d = (f, w)" by (cases d)
  have inv: "bus_inv w" using assms(1) by (auto simp: d node_ready_def node_ok_def bus_ok_def)
  have "ioctl_query_device_state (le32 sn) w = Some (0, le32 (if sn \<in> started_set w then 1 else 255), w)"
    using assms(2) device_state_answer [OF inv, of "le32 1" 1] device_state_answer [OF inv, of "le32 2" 2]
    by (auto simp: started_set_def STATUS_SUCCESS_def)
  then have "ioctl_switch sys_call stk IOCTL_BUSENUM_QUERY_DEVICE_STATE (le32 sn) w =
      Some (0, le32 (if sn \<in> node_on (f, w) then 1 else 255), w)"
    by (simp add: ioctl_switch_def node_on_def)
  with assms(1) show ?thesis unfolding d by (rule answered)
qed

lemma slot_state_alt:
  "slot_state w i =
    Option.bind (pDeviceInterface (DeviceData (FdoData w) ! i)) (\<lambda>p. map_option devstate (ifaces w p))"
  by (auto simp: slot_state_def map_conv_bind_option comp_def)

lemma hotkey_switches:
  assumes "bus_inv w" "flag_frame w w'" "bus_inv w'"
  shows "switches w' = switches w"
proof (rule switches_eqI)
  fix i :: nat assume i: "i < 3"
  have "map pDeviceInterface (DeviceData (FdoData w')) ! i = map pDeviceInterface (DeviceData (FdoData w)) ! i"
    using assms(2) by (simp add: flag_frame_def)
  then have p: "pDeviceInterface (DeviceData (FdoData w') ! i) = pDeviceInterface (DeviceData (FdoData w) ! i)"
    using assms i by simp
  have rel: "rel_option (\<lambda>x y. iface_agrees x y \<and> devstate y = devstate x) (ifaces w q) (ifaces w' q)" for q
    using assms(2) by (simp add: flag_frame_def)
  have "map_option devstate (ifaces w' q) = map_option devstate (ifaces w q)" for q
    using rel [of q] by (auto elim!: option.rel_cases)
  with p i show "slot_state w' i = switches w ! i" by (simp add: slot_state_alt)
qed simp

lemma node_quiet:
  assumes "node_ready W d" "cmd \<in> quiet_ioctls"
  shows "\<exists>r m' d'. dev_ioctl (sys_dev stk) cmd m d = Some (r, m', d') \<and> node_ready W d' \<and> node_on d' = node_on d"
proof -
  obtain f w where d: "d = (f, w)" by (cases d)
  have ok: "bus_ok (sys_ok_on W) w" using assms(1) by (simp add: d node_ready_def node_ok_def)
  then have inv: "bus_inv w" by (simp add: bus_ok_def)
  have "\<exists>r m' w'. ioctl_switch sys_call stk cmd m w = Some (r, m', w') \<and> bus_ok (sys_ok_on W) w' \<and>
      ptdspbus_myself w' = ptdspbus_myself w \<and> switches w' = switches w"
  proof (cases "4 \<le> length m \<and> (cmd = IOCTL_BUSENUM_SET_HOTKEY_FLAG \<or> cmd = IOCTL_BUSENUM_WRITE_ENUM_MODE)")
    case True
    then consider "cmd = IOCTL_BUSENUM_SET_HOTKEY_FLAG" | "cmd = IOCTL_BUSENUM_WRITE_ENUM_MODE" by blast
    then show ?thesis
    proof cases
      case 1
      obtain w' where w': "ioctl_set_hotkey_flag m w = Some (STATUS_SUCCESS, m, w')" "bus_inv w'" "flag_frame w w'"
        using hotkey_loop_ioctl [OF inv] True by blast
      then have "bus_ok (sys_ok_on W) w'" "switches w' = switches w" "ptdspbus_myself w' = ptdspbus_myself w"
        using sysbt.loop_ok [OF ok] hotkey_switches [OF inv] by (simp_all add: flag_frame_def)
      with w' 1 show ?thesis by (simp add: ioctl_switch_def)
    next
      case 2
      have "bus_ok (sys_ok_on W) (set_enum_mode e w)" for e using set_enum_mode_ok [OF ok] .
      moreover have "switches (set_enum_mode e w) = switches w" for e
        by (simp add: switches_def slot_state_def set_enum_mode_def)
      ultimately show ?thesis using 2 True inv
        by (simp add: ioctl_switch_def ioctl_write_enum_mode_def umem_simps ioctl_status_def set_enum_mode_def)
    qed
  next
    case False
    have "\<exists>r. ioctl_switch sys_call stk cmd m w = Some (r, m, w)"
      using False assms(2)
      by (auto simp: quiet_ioctls_def ioctl_switch_def ioctl_status_def ioctl_set_hotkey_flag_def
          ioctl_write_enum_mode_def umem_simps)
    with ok show ?thesis by auto
  qed
  then obtain r m' w' where "ioctl_switch sys_call stk cmd m w = Some (r, m', w')" "bus_ok (sys_ok_on W) w'"
    "ptdspbus_myself w' = ptdspbus_myself w" "switches w' = switches w" by blast
  then show ?thesis
    using same_switches_step [of W f w w'] switch_served [of W f w] assms(1) by (auto simp: d sys_dev_ioctl)
qed

text \<open>A request whose fixed part is all it copies: the stack's contents do not matter.\<close>

lemma request_whole:
  assumes "length m = n" "8 \<le> n" "rd32 m = of_nat n" "n < 2 ^ 32"
  shows "ioctl_request n stk k (m @ rest) w = k (rd32 (drop 4 m)) (m @ rest) w"
proof -
  have "rd32 (m @ rest) = rd32 m"
    using rd32_take4 [of "m @ rest"] rd32_take4 [of m] assms(1,2) by simp
  moreover have "unat (of_nat n :: u32) = n" using assms(4) by (simp add: unat_of_nat)
  moreover have "rd32 (drop 4 m @ ys) = rd32 (drop 4 m)" for ys
    using rd32_take4 [of "drop 4 m @ ys"] rd32_take4 [of "drop 4 m"] assms(1,2) by simp
  ultimately show ?thesis
    using assms by (simp add: ioctl_request_def umem_simps)
qed

lemma rd32_le32_drop: "rd32 (drop 4 (le32 x @ m)) = rd32 m"
  by simp

lemma unplug_request:
  assumes "length js = 8"
  shows "ioctl_unplug call stk (le32 16 @ le32 sn @ js) w =
    do { (r, w1) \<leftarrow> Bus_UnPlugDevice 2 call sn w; Some (r, le32 16 @ le32 sn @ js, w1) }"
proof -
  have "ioctl_request 16 stk k ((le32 16 @ le32 sn @ js) @ []) w
      = k (rd32 (drop 4 (le32 16 @ le32 sn @ js))) ((le32 16 @ le32 sn @ js) @ []) w" for k :: "u32 \<Rightarrow> 'a ioctl_case"
    by (rule request_whole) (use assms in simp_all)
  then show ?thesis by (simp add: ioctl_unplug_def UNPLUG_SIZE_def)
qed

lemma plug_request:
  "ioctl_plugin call stk (le32 8 @ le32 sn @ name) w =
    do { (r, w1) \<leftarrow> Bus_PlugInDevice call sn w; Some (r, le32 8 @ le32 sn @ name, w1) }"
proof -
  have "ioctl_request 8 stk k ((le32 8 @ le32 sn) @ name) w
      = k (rd32 (drop 4 (le32 8 @ le32 sn))) ((le32 8 @ le32 sn) @ name) w" for k :: "u32 \<Rightarrow> 'a ioctl_case"
    by (rule request_whole) simp_all
  then show ?thesis by (simp add: ioctl_plugin_def PLUGIN_SIZE_def)
qed

lemma switch_index_12: "switch_index 1 = Some 0" "switch_index 2 = Some (Suc 0)"
  by (simp_all add: switch_index_def HOTKEY_FLAG_AND_def)

text \<open>A change of one switch, seen in the set of started devices.\<close>

lemma one_switch_step:
  assumes "node_ready W (f, w)" "bus_ok (sys_ok_on W) w'" "ptdspbus_myself w' = ptdspbus_myself w"
    and "served w \<Longrightarrow> served w'"
    and "switches w' = (switches w)[i := map_option g (switches w ! i)]" "i = 0 \<and> sn = 1 \<or> i = Suc 0 \<and> sn = 2"
  shows "node_ready W (f, w')"
    "(\<And>x. g x = Started) \<Longrightarrow> slot_state w i \<noteq> None \<Longrightarrow> node_on (f, w') = insert sn (node_on (f, w))"
    "(\<And>x. g x \<noteq> Started) \<Longrightarrow> node_on (f, w') = node_on (f, w) - {sn}"
proof -
  have inv: "bus_inv w" "bus_inv w'" using assms(1,2) by (auto simp: node_ready_def node_ok_def bus_ok_def)
  have st: "slot_state w' j = (if j = i then map_option g (slot_state w i) else slot_state w j)" if "j < 3" for j
    using switches_nth [OF that, of w'] switches_nth [OF that, of w] that assms(5)
    by (auto simp: nth_list_update)
  show "node_ready W (f, w')"
    by (rule node_ready_step [OF assms(1-4)]) (simp_all add: st)
  show "node_on (f, w') = insert sn (node_on (f, w))" if "\<And>x. g x = Started" "slot_state w i \<noteq> None"
    using that assms(6) st by (auto simp: node_on_def started_set_slots inv split: if_splits)
  show "node_on (f, w') = node_on (f, w) - {sn}" if "\<And>x. g x \<noteq> Started"
    using that assms(6) st by (auto simp: node_on_def started_set_slots inv split: if_splits)
qed

lemma node_unplug:
  assumes "node_ready W d" "sn = 1 \<or> sn = 2" "length js = 8"
  shows "\<exists>r m' d'. dev_ioctl (sys_dev stk) IOCTL_BUSENUM_UNPLUG_HARDWARE (le32 16 @ le32 sn @ js) d =
    Some (r, m', d') \<and> node_ready W d' \<and> node_on d' = node_on d - {sn}"
proof -
  obtain f w where d: "d = (f, w)" by (cases d)
  have ok: "bus_ok (sys_ok_on W) w" using assms(1) by (simp add: d node_ready_def node_ok_def)
  obtain r w' where u: "Bus_UnPlugDevice 2 sys_call sn w = Some (r, w')" "switches w' = abs_unplug sn (switches w)"
    using unplug_refines [OF bus_ok_on [OF ok]] by blast
  have ok': "bus_ok (sys_ok_on W) w'"
    using sysbt.Bus_UnPlugDevice_ok [OF ok, of 0 sn] u(1) by (simp add: numeral_2_eq_2)
  have run: "ioctl_switch sys_call stk IOCTL_BUSENUM_UNPLUG_HARDWARE (le32 16 @ le32 sn @ js) w =
      Some (r, le32 16 @ le32 sn @ js, w')"
    using u(1) by (simp add: ioctl_switch_def unplug_request [OF assms(3)])
  note sv = switch_served [OF assms(1) [unfolded d] run]
  have "unplug_one sys_call sn w = Some (r, w')" using u(1) assms(2) by (auto simp: numeral_2_eq_2)
  then have my: "ptdspbus_myself w' = ptdspbus_myself w" by (rule unplug_one_myself)
  obtain i where i: "switches w' = (switches w)[i := map_option switched_off (switches w ! i)]"
    "i = 0 \<and> sn = 1 \<or> i = Suc 0 \<and> sn = 2"
    using u(2) assms(2) by (auto simp: abs_unplug_def switch_index_12)
  have "node_ready W (f, w')" "node_on (f, w') = node_on (f, w) - {sn}"
    using one_switch_step [OF assms(1) [unfolded d] ok' my sv i] by simp_all
  with run show ?thesis using assms(1) by (simp add: d sys_dev_ioctl)
qed

text \<open>A device that the set \<open>W\<close> promises has a driver that opens it.\<close>

lemma promised_opens:
  assumes "node_ready W (f, w)" "sn = 1 \<or> sn = 2" "sn \<in> W" "sn \<notin> node_on (f, w)"
  shows "driver_opens w sn"
proof -
  have ok: "bus_ok (sys_ok_on W) w" using assms(1) by (simp add: node_ready_def node_ok_def)
  then have inv: "bus_inv w" by (simp add: bus_ok_def)
  obtain i where i: "switch_index sn = Some i" "i = 0 \<and> sn = 1 \<or> i = Suc 0 \<and> sn = 2" "i < 3"
    using assms(2) by (auto simp: switch_index_12)
  have "slot_state w i \<noteq> None" "slot_state w i \<noteq> Some Started"
    using assms i(2) by (auto simp: node_ready_def node_ok_def slots_read [OF inv] node_on_def
        started_set_slots [OF inv] split: if_splits)
  then obtain p x where p: "pDeviceInterface (DeviceData (FdoData w) ! i) = Some p" "ifaces w p = Some x"
    and off: "devstate x \<noteq> Started"
    by (auto simp: slot_state_def split: bind_splits)
  let ?x = "x\<lparr>pPciDev := None\<rparr>" let ?w = "set_iface p ?x w"
  have s: "DeviceData (FdoData w) ! i \<in> set (DeviceData (FdoData w))" using inv i(3) by simp
  have sn: "iSerialNo ?x = ucast sn"
  proof -
    have "iface_ok (DeviceData (FdoData w) ! i) x"
      using s p inv by (auto simp: bus_inv_def slot_ok_def)
    moreover have "sSerialNo (DeviceData (FdoData w) ! i) = ucast sn"
      using bus_inv_serial [OF inv i(3)] i(2) by auto
    ultimately show ?thesis by (simp add: iface_ok_def)
  qed
  have "sys_ok_on W (client w) p x"
    using ok i(3) p by (auto simp: bus_ok_def intro: clients_okD)
  then have okx: "sys_ok_on W (client ?w) p ?x"
    using sysbt.ok_agrees [of x ?x W] by (simp add: iface_agrees_def set_iface_def)
  have x: "ifaces ?w p = Some ?x" by (simp add: set_iface_def)
  have closed: "dev_closed (client ?w) ?x" if "2 \<in> W"
  proof (rule dev_closed_agrees [of x])
    have "shut dev_closed {} w"
      using assms(1) that by (simp add: node_ready_def node_ok_def served_def)
    then show "dev_closed (client ?w) x"
      using s p off by (auto simp: shut_def set_iface_def intro!: rev_image_eqI)
  qed (simp add: iface_agrees_def)
  from i(2) show ?thesis
  proof
    assume 1: "i = 0 \<and> sn = 1"
    then have "open_cb ?x = Some Bt_Bus_Open"
      using okx sn assms(3) by (simp add: sys_ok_on_def promise_def)
    moreover obtain w' where "sys_call Bt_Bus_Open p ?w = Some (0, w')"
      using bt_opens [OF x okx] sn 1 assms(3) by auto
    ultimately show ?thesis using i(1) p by (simp add: driver_opens_def)
  next
    assume 2: "i = Suc 0 \<and> sn = 2"
    then have "open_cb ?x = Some Wlan_Bus_Open"
      using okx sn assms(3) by (simp add: sys_ok_on_def promise_def)
    moreover obtain w' where "sys_call Wlan_Bus_Open p ?w = Some (0, w')"
      using wlan_opens [OF x okx] sn 2 assms(3) closed by auto
    ultimately show ?thesis using i(1) p by (simp add: driver_opens_def)
  qed
qed

lemma node_plug:
  assumes "node_ready W d" "sn = 1 \<or> sn = 2" "sn \<notin> node_on d"
  shows "\<exists>r m' d'. dev_ioctl (sys_dev stk) IOCTL_BUSENUM_PLUGIN_HARDWARE (le32 8 @ le32 sn @ name) d =
    Some (r, m', d') \<and> node_ready W d' \<and>
    (node_on d' = insert sn (node_on d) \<or> node_on d' = node_on d \<and> sn \<notin> W)"
proof -
  obtain f w where d: "d = (f, w)" by (cases d)
  have ok: "bus_ok (sys_ok_on W) w" using assms(1) by (simp add: d node_ready_def node_ok_def)
  then have inv: "bus_inv w" by (simp add: bus_ok_def)
  obtain r w' where u: "Bus_PlugInDevice sys_call sn w = Some (r, w')"
    "switches w' = abs_plug (driver_opens w sn) sn (switches w)"
    using plug_refines [OF bus_ok_on [OF ok]] by blast
  have run: "ioctl_switch sys_call stk IOCTL_BUSENUM_PLUGIN_HARDWARE (le32 8 @ le32 sn @ name) w =
      Some (r, le32 8 @ le32 sn @ name, w')"
    using u(1) by (simp add: ioctl_switch_def plug_request)
  note sv = switch_served [OF assms(1) [unfolded d] run]
  have ok': "bus_ok (sys_ok_on W) w'" using sysbt.Bus_PlugInDevice_ok [OF ok, of sn] u(1) by auto
  have my: "ptdspbus_myself w' = ptdspbus_myself w" using u(1) by (rule plug_myself)
  obtain i where i: "switch_index sn = Some i" "i = 0 \<and> sn = 1 \<or> i = Suc 0 \<and> sn = 2"
    using assms(2) by (auto simp: switch_index_12)
  have "node_ready W (f, w') \<and> (node_on (f, w') = insert sn (node_on d) \<or> node_on (f, w') = node_on d \<and> sn \<notin> W)"
  proof (cases "driver_opens w sn \<and> slot_state w i \<noteq> None")
    case True
    then have "switches w' = (switches w)[i := map_option (\<lambda>_. Started) (switches w ! i)]"
      using u(2) i(1) by (simp add: abs_plug_def)
    with one_switch_step [OF assms(1) [unfolded d] ok' my sv this i(2)] True show ?thesis by (simp add: d)
  next
    case False
    have "i < 3" using i(2) by auto
    then have "(switches w)[i := None] = switches w" if "slot_state w i = None"
      using that by (simp add: list_update_same_conv)
    then have "switches w' = switches w"
      using u(2) i(1) False \<open>i < 3\<close> by (auto simp: abs_plug_def)
    moreover have "slot_state w i \<noteq> None" if "sn \<in> W"
      using that i(2) assms(1) by (auto simp: d node_ready_def node_ok_def slots_read [OF inv])
    then have "sn \<notin> W" using False promised_opens [OF assms(1) [unfolded d] assms(2)] assms(3) by (auto simp: d)
    ultimately show ?thesis using same_switches_step [OF assms(1) [unfolded d] ok' my sv] by (simp add: d)
  qed
  with run show ?thesis using assms(1) by (simp add: d sys_dev_ioctl)
qed

section \<open>The contract holds\<close>

interpretation wbs: wb_bus "sys_dev stk" "node_ok W" "node_ready W" node_on W for stk W
proof
  show "node_ok W d \<Longrightarrow> node_on d \<subseteq> {1, 2}" for d :: "('a, 'b) sys_node"
    by (auto simp: node_on_def started_set_def)
  show "node_ok W d \<Longrightarrow>
      \<exists>d'. dev_open (sys_dev stk) d = Some (True, d') \<and> node_ready W d' \<and> node_on d' = node_on d" for d
    by (cases d) (auto simp: sys_dev_def tdspbus_open_def node_ready_def node_ok_def node_on_def bus_ok_def
        bus_inv_def STATUS_SUCCESS_def)
  show "node_ready W d \<Longrightarrow>
      \<exists>d'. dev_close (sys_dev stk) d = Some d' \<and> node_ok W d' \<and> node_on d' = node_on d" for d
    by (cases d) (auto simp: sys_dev_def tdspbus_release_def node_ready_def node_ok_def node_on_def)
  show "node_ready W d \<Longrightarrow> cmd \<in> quiet_ioctls \<Longrightarrow>
      \<exists>r m' d'. dev_ioctl (sys_dev stk) cmd m d = Some (r, m', d') \<and> node_ready W d' \<and> node_on d' = node_on d"
    for d cmd m by (rule node_quiet)
qed (rule node_display node_power node_reset node_state node_unplug node_plug, assumption+ | simp)+

end
