(* ===== verification/Uwb_Main_Spec.thy ===== *)
theory Uwb_Main_Spec
  imports Uwb_Main Uwb_Parse_Spec Uwb_Sys
begin

text \<open>
  \<^verbatim>\<open>main\<close> of \<^verbatim>\<open>uwbtool\<close> over any device that keeps the contract \<open>wb_bus\<close>: the
  preparation succeeds on every configuration file that is read within its arrays, and what the
  program prints about the devices is what runs when it ends.
\<close>

section \<open>Version numbers\<close>

lemma version_pair_decoded:
  "version_pair (xs @ hex2 b @ ys) (length xs) = Some (uint b)"
  using hex2_decoded [of b "[0]"] by (simp add: version_pair_def hex2_def nth_append)

lemma version_numbers_bytes:
  "version_numbers w = Some (uint (ucast (drop_bit 24 w) :: u8), uint (ucast (drop_bit 16 w) :: u8),
     uint (ucast (drop_bit 8 w) :: u8), uint (ucast w :: u8))"
proof -
  let ?b = "\<lambda>n. hex2 (ucast (drop_bit n w))"
  have h: "hex_long w = ?b 24 @ ?b 16 @ ?b 8 @ ?b 0" by (simp add: hex_long_bytes)
  have len: "length (hex2 b) = 2" for b by (simp add: hex2_def)
  have "version_pair (hex_long w) 0 = Some (uint (ucast (drop_bit 24 w) :: u8))"
    using version_pair_decoded [of "[]"] by (simp add: h)
  moreover have "version_pair (hex_long w) 2 = Some (uint (ucast (drop_bit 16 w) :: u8))"
    using version_pair_decoded [of "?b 24"] by (simp add: h len)
  moreover have "version_pair (hex_long w) 4 = Some (uint (ucast (drop_bit 8 w) :: u8))"
    using version_pair_decoded [of "?b 24 @ ?b 16"] by (simp add: h len)
  moreover have "version_pair (hex_long w) 6 = Some (uint (ucast w :: u8))"
    using version_pair_decoded [of "?b 24 @ ?b 16 @ ?b 8" "ucast w" "[]"] by (simp add: h len)
  ultimately show ?thesis by (simp add: version_numbers_def Let_def)
qed

section \<open>Options of a command line\<close>

lemma options_short:
  assumes "opt \<in> {CHR ''a'', CHR ''q'', CHR ''r'', CHR ''v''}"
  shows "options (name # [dash, of_char opt] # xs) [(opt, arg)] =
    Inr (if opt = CHR ''a'' then no_options\<lparr>chadd := arg\<rparr> else if opt = CHR ''q'' then no_options\<lparr>iquery := True\<rparr>
      else if opt = CHR ''r'' then no_options\<lparr>iremove := True\<rparr> else no_options\<lparr>iversion := True\<rparr>, False)"
  using assms by (auto simp: options_def char_at_def)

text \<open>The options that write the EEPROM or touch a register end the program before anything else.\<close>

lemma options_refused:
  assumes "opt \<in> {CHR ''w'', CHR ''g'', CHR ''p''}" "length argv \<noteq> 1" "char_at (argv ! 1) 0 = dash"
  shows "uwbtool_main D e argv ((opt, arg) # opts) s = Some (0, Not_Accessible, s)"
  using assms by (auto simp: uwbtool_main_def options_def)

definition fresh :: "('d, 'z) wb_scheme \<Rightarrow> ('d, 'z) wb_scheme" where
  "fresh s = s\<lparr>g_allowedmodes := [False, False, False], g_defaultmode := 3, g_downfromfile := g_downfromfile s\<rparr>"

lemma fresh_sel [simp]:
  "dev (fresh s) = dev s" "g_isclickinginprogress (fresh s) = g_isclickinginprogress s"
  "malloc_ok (fresh s) = malloc_ok s" "g_allowedmodes (fresh s) = [False, False, False]"
  by (simp_all add: fresh_def)

text \<open>The words for the modes, the answer of the bus and the devices they mean.\<close>

definition mode_words :: "(u8 list \<times> u32 \<times> u32 set) set" where
  "mode_words = {(bytes_of ''bt'', 1, {1}), (bytes_of ''wlan'', 2, {2}), (bytes_of ''combo'', 3, {1, 2})}"

lemma words_differ [simp]:
  "\<not> same_word (bytes_of ''wlan'') (bytes_of ''bt'')" "\<not> same_word (bytes_of ''combo'') (bytes_of ''bt'')"
  "\<not> same_word (bytes_of ''combo'') (bytes_of ''wlan'')"
  by (simp_all add: same_word_def bytes_of_def)

context wb_bus begin

lemma hotkey_set:
  assumes "ok (dev s)"
  obtains r d' where "set_hotkey_flag D e s = Some (r, s\<lparr>dev := d'\<rparr>)" "ok d'" "on d' = on (dev s)"
  using quiet_accepts [OF assms, of IOCTL_BUSENUM_SET_HOTKEY_FLAG "le32 e"]
  by (auto simp: set_hotkey_flag_def)

lemma prepared:
  assumes "ok (dev s)" "get_config_from_file (conf e) (fresh s) = Some (c, s1)"
  obtains s' where "prepare D e False s = Some (True, s')" "ok (dev s')" "on (dev s') = on (dev s)"
    "g_isclickinginprogress s' = g_isclickinginprogress s" "malloc_ok s' = malloc_ok s"
    "g_allowedmodes s' = g_allowedmodes s1"
proof -
  note keep = config_keeps [OF assms(2)]
  obtain d' where q: "tdsp_query_power_state D s1 = Some (PowerOn, s1\<lparr>dev := d', g_buspowerstate := PowerOn\<rparr>)"
    "ok d'" "on d' = on (dev s)"
    using query_power [of s1] keep(1) assms(1) by auto
  let ?s2 = "s1\<lparr>dev := d', g_buspowerstate := PowerOn\<rparr>"
  obtain r d2 where "set_hotkey_flag D (of_int (m_nHotKeyFlag s1)) ?s2 = Some (r, ?s2\<lparr>dev := d2\<rparr>)" "ok d2" "on d2 = on d'"
    using hotkey_set [of ?s2] q(2) by auto
  then show ?thesis
    using that [of "?s2\<lparr>dev := d2\<rparr>"] q assms(2) keep by (simp add: prepare_def fresh_def)
qed

text \<open>A command returns whether its mode is allowed or not.\<close>

lemma refused_command:
  "\<not> allowed \<Longrightarrow> \<exists>s'. command allowed body s = Some s' \<and> dev s' = dev s"
  by (simp add: command_def Let_def)

lemma commands_return:
  assumes "ok (dev s)" "\<not> g_isclickinginprogress s" "\<forall>n. malloc_ok s n"
  shows "\<exists>s'. on_bluetooth_activate D s = Some s' \<and> ok (dev s') \<and>
      (g_allowedmodes s ! 0 \<and> 1 \<in> willing \<longrightarrow> on (dev s') = {1})"
    and "\<exists>s'. on_wlan_activate D s = Some s' \<and> ok (dev s') \<and>
      (g_allowedmodes s ! 1 \<and> 2 \<in> willing \<longrightarrow> on (dev s') = {2})"
    and "\<exists>s'. on_coexist_activate D s = Some s' \<and> ok (dev s') \<and>
      (g_allowedmodes s ! 2 \<and> {1, 2} \<subseteq> willing \<longrightarrow> on (dev s') = {1, 2})"
proof -
  note refused = assms(1) refused_command [of False]
  show "\<exists>s'. on_bluetooth_activate D s = Some s' \<and> ok (dev s') \<and>
      (g_allowedmodes s ! 0 \<and> 1 \<in> willing \<longrightarrow> on (dev s') = {1})"
  proof (cases "g_allowedmodes s ! 0")
    case True
    then obtain s' S where "on_bluetooth_activate D s = Some s'" "settled S (mode_of S) s'"
      "if on (dev s) = {1} then S = {1} else maybe_on 1 {} S"
      using bluetooth_activated [OF assms(1,2) _ assms(3)] by blast
    then show ?thesis by (auto simp: settled_def maybe_on_def split: if_splits)
  qed (use assms(1,2) in \<open>simp add: on_bluetooth_activate_def command_def Let_def\<close>)
  show "\<exists>s'. on_wlan_activate D s = Some s' \<and> ok (dev s') \<and>
      (g_allowedmodes s ! 1 \<and> 2 \<in> willing \<longrightarrow> on (dev s') = {2})"
  proof (cases "g_allowedmodes s ! 1")
    case True
    then obtain s' S where "on_wlan_activate D s = Some s'" "settled S (mode_of S) s'"
      "if on (dev s) = {2} then S = {2} else maybe_on 2 {} S"
      using wlan_activated [OF assms(1,2) _ assms(3)] by blast
    then show ?thesis by (auto simp: settled_def maybe_on_def split: if_splits)
  qed (use assms(1,2) in \<open>simp add: on_wlan_activate_def command_def Let_def\<close>)
  show "\<exists>s'. on_coexist_activate D s = Some s' \<and> ok (dev s') \<and>
      (g_allowedmodes s ! 2 \<and> {1, 2} \<subseteq> willing \<longrightarrow> on (dev s') = {1, 2})"
  proof (cases "g_allowedmodes s ! 2")
    case True
    then obtain s' S where "on_coexist_activate D s = Some s'" "ok (dev s')" "on (dev s') = S"
      "if on (dev s) = {1, 2} then S = {1, 2} else maybe_on 1 {2} S \<or> S = {} \<and> 2 \<notin> willing"
      using coexist_activated [OF assms(1,2) _ assms(3)] by (auto simp: settled_def)
    moreover from this(4) have "{1, 2} \<subseteq> willing \<longrightarrow> S = {1, 2}"
      by (auto simp: maybe_on_def split: if_splits)
    ultimately show ?thesis by blast
  qed (use assms(1,2) in \<open>simp add: on_coexist_activate_def command_def Let_def\<close>)
qed

section \<open>The verdicts\<close>

lemma answer_is_mode:
  assumes "S \<subseteq> {1, 2}"
  shows "in_use_answer S = 1 \<longleftrightarrow> S = {1}" "in_use_answer S = 2 \<longleftrightarrow> S = {2}"
    "in_use_answer S = 3 \<longleftrightarrow> S = {1, 2}" "in_use_answer S = 0xffff \<longleftrightarrow> S = {}"
  by (rule subsets_12 [OF assms]; simp add: doubleton_eq_iff)+

lemma asked_after:
  assumes "ok (dev s)"
  obtains s' where "tdsp_query_device D s = Some (in_use_answer (on (dev s')), s')" "ok (dev s')"
    "on (dev s') = on (dev s)" "on (dev s') \<subseteq> {1, 2}" "g_iscardin s'"
    "g_currentserialno s' = in_use_answer (on (dev s'))"
proof -
  obtain d' where "tdsp_query_device D s = Some (in_use_answer (on (dev s)),
      s\<lparr>dev := d', g_currentserialno := in_use_answer (on (dev s)), g_iscardin := True\<rparr>)" "ok d'" "on d' = on (dev s)"
    using query_device [OF assms] .
  then show ?thesis using that [of "s\<lparr>dev := d', g_currentserialno := in_use_answer (on (dev s)), g_iscardin := True\<rparr>"]
    on_12 [OF assms] by simp
qed

lemma added:
  assumes "activate s = Some s1" "ok (dev s1)" "maincontrol e = 0"
    and "\<And>T. T \<subseteq> {1, 2} \<Longrightarrow> in_use_answer T = sn \<longleftrightarrow> T = S"
  obtains s' where "add_mode D e activate sn s =
      Some (0, if on (dev s') = S then Add_Success sn else Add_Fail sn, s')" "ok (dev s')" "on (dev s') = on (dev s1)"
proof -
  obtain s' where "tdsp_query_device D s1 = Some (in_use_answer (on (dev s')), s')" "ok (dev s')"
    "on (dev s') = on (dev s1)" "on (dev s') \<subseteq> {1, 2}"
    using asked_after [OF assms(2)] by metis
  then show ?thesis using that assms by (simp add: add_mode_def)
qed

lemma main_adds:
  assumes "ok (dev s)" "\<not> g_isclickinginprogress s" "\<forall>n. malloc_ok s n" "maincontrol e = 0"
    and "get_config_from_file (conf e) (fresh s) = Some (c, s1)" "(word, sn, S) \<in> mode_words"
  shows "\<exists>s'. uwbtool_main D e [name, [dash, of_char CHR ''a''], word] [(CHR ''a'', Some word)] s =
      Some (0, if on (dev s') = S then Add_Success sn else Add_Fail sn, s') \<and> ok (dev s') \<and>
    (S \<subseteq> willing \<and> g_allowedmodes s1 ! (unat sn - 1) \<longrightarrow> on (dev s') = S)"
proof -
  obtain s2 where p: "prepare D e False s = Some (True, s2)" "ok (dev s2)" "on (dev s2) = on (dev s)"
    "g_isclickinginprogress s2 = g_isclickinginprogress s" "malloc_ok s2 = malloc_ok s"
    "g_allowedmodes s2 = g_allowedmodes s1"
    using prepared [OF assms(1,5)] .
  have opts: "options [name, [dash, of_char CHR ''a''], word] [(CHR ''a'', Some word)] =
      Inr (no_options\<lparr>chadd := Some word\<rparr>, False)"
    by (subst options_short) simp_all
  have run: "uwbtool_main D e [name, [dash, of_char CHR ''a''], word] [(CHR ''a'', Some word)] s =
      cmd_add D e [name, [dash, of_char CHR ''a''], word] word s2"
    unfolding uwbtool_main_def opts by (simp add: p(1) dispatch_def no_options_def)
  note returns = commands_return [of s2, unfolded p(4,5), OF p(2) assms(2,3)]
  consider "word = bytes_of ''bt''" "sn = 1" "S = {1}" | "word = bytes_of ''wlan''" "sn = 2" "S = {2}"
    | "word = bytes_of ''combo''" "sn = 3" "S = {1, 2}"
    using assms(6) by (auto simp: mode_words_def)
  then show ?thesis
  proof cases
    case 1
    obtain s3 where s3: "on_bluetooth_activate D s2 = Some s3" "ok (dev s3)"
      "g_allowedmodes s1 ! 0 \<and> 1 \<in> willing \<longrightarrow> on (dev s3) = {1}"
      using returns(1) p(6) by auto
    obtain s' where "add_mode D e (on_bluetooth_activate D) 1 s2 =
        Some (0, if on (dev s') = {1} then Add_Success 1 else Add_Fail 1, s')" "ok (dev s')" "on (dev s') = on (dev s3)"
      using added [where activate = "on_bluetooth_activate D", OF s3(1,2) assms(4) answer_is_mode(1)] .
    then show ?thesis using run 1 s3(3) by (intro exI [of _ s']) (simp add: cmd_add_def char_at_def)
  next
    case 2
    obtain s3 where s3: "on_wlan_activate D s2 = Some s3" "ok (dev s3)"
      "g_allowedmodes s1 ! 1 \<and> 2 \<in> willing \<longrightarrow> on (dev s3) = {2}"
      using returns(2) p(6) by auto
    obtain s' where "add_mode D e (on_wlan_activate D) 2 s2 =
        Some (0, if on (dev s') = {2} then Add_Success 2 else Add_Fail 2, s')" "ok (dev s')" "on (dev s') = on (dev s3)"
      using added [where activate = "on_wlan_activate D", OF s3(1,2) assms(4) answer_is_mode(2)] .
    then show ?thesis using run 2 s3(3) by (intro exI [of _ s']) (simp add: cmd_add_def char_at_def)
  next
    case 3
    obtain s3 where s3: "on_coexist_activate D s2 = Some s3" "ok (dev s3)"
      "g_allowedmodes s1 ! 2 \<and> {1, 2} \<subseteq> willing \<longrightarrow> on (dev s3) = {1, 2}"
      using returns(3) p(6) by auto
    obtain s' where "add_mode D e (on_coexist_activate D) 3 s2 =
        Some (0, if on (dev s') = {1, 2} then Add_Success 3 else Add_Fail 3, s')" "ok (dev s')" "on (dev s') = on (dev s3)"
      using added [where activate = "on_coexist_activate D", OF s3(1,2) assms(4) answer_is_mode(3)] .
    then show ?thesis using run 3 s3(3) by (intro exI [of _ s']) (simp add: cmd_add_def char_at_def)
  qed
qed

text \<open>The query names what runs, and removing leaves nothing running.\<close>

lemma main_queries:
  assumes "ok (dev s)" "get_config_from_file (conf e) (fresh s) = Some (c, s1)"
  shows "\<exists>s'. uwbtool_main D e [name, [dash, of_char CHR ''q'']] [(CHR ''q'', None)] s =
    Some (0, in_use_message (in_use_answer (on (dev s))), s') \<and> ok (dev s') \<and> on (dev s') = on (dev s)"
proof -
  obtain s2 where p: "prepare D e False s = Some (True, s2)" "ok (dev s2)" "on (dev s2) = on (dev s)"
    using prepared [OF assms] .
  obtain s3 where q: "tdsp_query_device D s2 = Some (in_use_answer (on (dev s3)), s3)" "ok (dev s3)"
    "on (dev s3) = on (dev s2)" "g_iscardin s3" "g_currentserialno s3 = in_use_answer (on (dev s3))"
    using asked_after [OF p(2)] .
  have opts: "options [name, [dash, of_char CHR ''q'']] [(CHR ''q'', None)] = Inr (no_options\<lparr>iquery := True\<rparr>, False)"
    by (subst options_short) simp_all
  show ?thesis
    unfolding uwbtool_main_def opts using p q by (simp add: dispatch_def cmd_query_def no_options_def)
qed

lemma main_removes:
  assumes "ok (dev s)" "\<not> g_isclickinginprogress s" "maincontrol e = 0"
    and "get_config_from_file (conf e) (fresh s) = Some (c, s1)"
  shows "\<exists>s'. uwbtool_main D e [name, [dash, of_char CHR ''r'']] [(CHR ''r'', None)] s =
    Some (0, Remove_Success, s') \<and> ok (dev s') \<and> on (dev s') = {}"
proof -
  obtain s2 where p: "prepare D e False s = Some (True, s2)" "ok (dev s2)"
    "g_isclickinginprogress s2 = g_isclickinginprogress s"
    using prepared [OF assms(1,4)] .
  then obtain s3 where u: "on_unplug_activate D s2 = Some s3" "ok (dev s3)" "on (dev s3) = {}"
    using unplug_activated [of s2] assms(2) by (auto simp: settled_def)
  obtain s4 where q: "tdsp_query_device D s3 = Some (in_use_answer (on (dev s4)), s4)" "ok (dev s4)"
    "on (dev s4) = on (dev s3)"
    using asked_after [OF u(2)] .
  have opts: "options [name, [dash, of_char CHR ''r'']] [(CHR ''r'', None)] = Inr (no_options\<lparr>iremove := True\<rparr>, False)"
    by (subst options_short) simp_all
  show ?thesis
    unfolding uwbtool_main_def opts using p u q assms(3)
    by (simp add: dispatch_def cmd_remove_def no_options_def)
qed

end

end
