(* ===== verification/Uwb_Props.thy ===== *)
theory Uwb_Props
  imports Uwb_Sys Demo_State
begin

text \<open>
  Properties of the control utility's commands on the modelled system, obtained from the contract
  \<open>wb_bus\<close> through its interpretation, with witnesses on the demonstration system.
\<close>

section \<open>How a command ends\<close>

text \<open>The next click is let in, \<open>S\<close> are the started devices and \<open>g\<close> is the state the utility keeps.\<close>

definition at_rest :: "u32 set \<Rightarrow> u32 set \<Rightarrow> wb_state \<Rightarrow> ('a, 'b) sys_node wb \<Rightarrow> bool" where
  "at_rest W S g s \<longleftrightarrow> node_ok W (dev s) \<and> node_on (dev s) = S \<and> g_state s = g \<and> \<not> g_isclickinginprogress s"

text \<open>
  C36: On a device node of the bus with a card registered, when no click is in progress, memory
  allocation does not fail and the kernel's allocations of the WLAN counters and registrations of
  network devices succeed, the commands for an allowed single mode return from every state of
  the drivers, and leave exactly the device of that mode started, or none; the utility's state
  names what is started.  The device is started whenever it was the only one started before, and
  whenever it is in the set \<open>W\<close> of the registered devices whose driver starts when asked:
  Bluetooth when its library opens the device and the kernel's HCI calls succeed, WLAN when its
  library initializes the card and the kernel allocates the network device.
\<close>

theorem single_mode_commands:
  fixes s :: "('a, 'b) sys_node wb"
  assumes "dev s = (f, w)" "system_up W w" "any_registered (FdoData w)" "env_ok (client w)"
    and "\<forall>n. malloc_ok s n" "\<not> g_isclickinginprogress s"
  shows "(g_allowedmodes s ! 0 \<longrightarrow> (\<exists>s' S. on_bluetooth_activate (sys_dev stk) s = Some s' \<and>
      at_rest W S (mode_of S) s' \<and> (S = {1} \<or> S = {} \<and> node_on (dev s) \<noteq> {1} \<and> 1 \<notin> W))) \<and>
    (g_allowedmodes s ! 1 \<longrightarrow> (\<exists>s' S. on_wlan_activate (sys_dev stk) s = Some s' \<and>
      at_rest W S (mode_of S) s' \<and> (S = {2} \<or> S = {} \<and> node_on (dev s) \<noteq> {2} \<and> 2 \<notin> W)))"
proof (intro conjI impI)
  have ok: "node_ok W (dev s)" using node_okI assms(1-4) by simp
  { assume "g_allowedmodes s ! 0"
    then obtain s' S where "on_bluetooth_activate (sys_dev stk) s = Some s'" "wbs.settled W S (mode_of S) s'"
      "if node_on (dev s) = {1} then S = {1} else wbs.maybe_on W 1 {} S"
      using wbs.bluetooth_activated [OF ok assms(6) _ assms(5), of stk] by auto
    then show "\<exists>s' S. on_bluetooth_activate (sys_dev stk) s = Some s' \<and>
        at_rest W S (mode_of S) s' \<and> (S = {1} \<or> S = {} \<and> node_on (dev s) \<noteq> {1} \<and> 1 \<notin> W)"
      by (auto simp: at_rest_def wbs.settled_def wbs.maybe_on_def split: if_splits) }
  assume "g_allowedmodes s ! 1"
  then obtain s' S where "on_wlan_activate (sys_dev stk) s = Some s'" "wbs.settled W S (mode_of S) s'"
    "if node_on (dev s) = {2} then S = {2} else wbs.maybe_on W 2 {} S"
    using wbs.wlan_activated [OF ok assms(6) _ assms(5), of stk] by auto
  then show "\<exists>s' S. on_wlan_activate (sys_dev stk) s = Some s' \<and>
      at_rest W S (mode_of S) s' \<and> (S = {2} \<or> S = {} \<and> node_on (dev s) \<noteq> {2} \<and> 2 \<notin> W)"
    by (auto simp: at_rest_def wbs.settled_def wbs.maybe_on_def split: if_splits)
qed

text \<open>
  C37: Under the same conditions on the card, the kernel and memory, the command for both devices
  ends, its loop without a bound included, from every state of the drivers.  Both devices are
  started then, unless a driver that is not in \<open>W\<close> failed: only the WLAN device is started when
  Bluetooth failed, and none when WLAN did.  The utility reports the state with both devices
  whenever the WLAN device started, although the Bluetooth device may not have.
\<close>

theorem coexist_command_ends:
  fixes s :: "('a, 'b) sys_node wb"
  assumes "dev s = (f, w)" "system_up W w" "any_registered (FdoData w)" "env_ok (client w)"
    and "\<forall>n. malloc_ok s n" "\<not> g_isclickinginprogress s" "g_allowedmodes s ! 2"
  shows "\<exists>s' S. on_coexist_activate (sys_dev stk) s = Some s' \<and>
    at_rest W S (if S = {} then Neither else Both) s' \<and>
    (S = {1, 2} \<or> node_on (dev s) \<noteq> {1, 2} \<and> (S = {} \<and> 2 \<notin> W \<or> S = {2} \<and> 1 \<notin> W))"
proof -
  have ok: "node_ok W (dev s)" using node_okI assms(1-4) by simp
  obtain s' S where "on_coexist_activate (sys_dev stk) s = Some s'"
    "wbs.settled W S (if S = {} then Neither else Both) s'"
    "if node_on (dev s) = {1, 2} then S = {1, 2} else wbs.maybe_on W 1 {2} S \<or> S = {} \<and> 2 \<notin> W"
    using wbs.coexist_activated [OF ok assms(6,7,5), of stk] by auto
  then show ?thesis
    by (intro exI [of _ s'] exI [of _ S])
      (auto simp: at_rest_def wbs.settled_def wbs.maybe_on_def split: if_splits)
qed

text \<open>
  C38: The unplug command stops every started device and returns with the utility ready for the
  next command, whatever mode the system was in.
\<close>

theorem unplug_command_stops:
  fixes s :: "('a, 'b) sys_node wb"
  assumes "node_ok W (dev s)" "\<not> g_isclickinginprogress s"
  shows "\<exists>s'. on_unplug_activate (sys_dev stk) s = Some s' \<and> at_rest W {} Neither s'"
  using wbs.unplug_activated [OF assms, of stk] by (simp add: at_rest_def wbs.settled_def)

text \<open>
  C39: A command for a mode that is not allowed changes no device, but it leaves the mark of a
  click in progress set: from then on no command of the utility does anything, unplugging
  included.
\<close>

theorem refused_mode_locks:
  assumes "\<not> g_isclickinginprogress s" "\<not> g_allowedmodes s ! i" "i < 3"
  shows "\<exists>s'. ([on_bluetooth_activate, on_wlan_activate, on_coexist_activate] ! i) D s = Some s' \<and>
    dev s' = dev s \<and>
    (\<forall>f \<in> {on_bluetooth_activate, on_wlan_activate, on_coexist_activate, on_unplug_activate}.
       f D s' = Some s')"
proof -
  let ?s = "s\<lparr>g_isclickinginprogress := True\<rparr>"
  have "([on_bluetooth_activate, on_wlan_activate, on_coexist_activate] ! i) D s = Some ?s"
    using assms by (auto simp: numeral_3_eq_3 numeral_2_eq_2 less_Suc_eq on_bluetooth_activate_def on_wlan_activate_def
        on_coexist_activate_def command_def)
  moreover have "\<forall>f \<in> {on_bluetooth_activate, on_wlan_activate, on_coexist_activate, on_unplug_activate}.
      f D ?s = Some ?s"
    by (simp add: on_bluetooth_activate_def on_wlan_activate_def on_coexist_activate_def
        on_unplug_activate_def command_def)
  ultimately show ?thesis by auto
qed

section \<open>Witnesses\<close>

definition demo_wb :: "(demo_wadap, demo_badap) sys_node wb" where
  "demo_wb = \<lparr>g_state = Undefined, g_buspowerstate = 0, g_currentserialno = 0x10000, g_busresetflag = 0,
     g_iscardin = False, g_isclickinginprogress = False, g_dsppnpstate = 0,
     g_allowedmodes = [True, False, True], g_defaultmode = 1, g_rawenummode = 0, g_eeprombuf = [],
     g_downfromfile = False, m_nHotKeyFlag = 0, m_chcompanyid = [], junk = (\<lambda>_. 0),
     malloc_ok = (\<lambda>_. True), dev = (\<lparr>private_data = None\<rparr>, sys_up)\<rparr>"

lemma demo_wb_sel:
  "dev demo_wb = (\<lparr>private_data = None\<rparr>, sys_up)" "\<not> g_isclickinginprogress demo_wb"
  "g_allowedmodes demo_wb = [True, False, True]" "malloc_ok demo_wb n"
  by (simp_all add: demo_wb_def)

lemma demo_served: "served sys_up"
proof -
  have n: "netdev_owner (demo_clients adapter_up all_succeed) = [30 \<mapsto> nd_priv demo_netdev]"
    "hdev_owner (demo_clients adapter_up all_succeed) = Map.empty"
    by (auto simp: netdev_owner_def hdev_owner_def fun_eq_iff)
  have v: "wview (demo_clients adapter_up all_succeed) = [20 \<mapsto> (Some 30, Some 31, Some 10)]"
    "bview (demo_clients adapter_up all_succeed) = [21 \<mapsto> (None, Some 11)]"
    by (auto simp: wview_def wptrs_def demo_wlan_lib_def bview_def bptrs_def demo_bt_lib_def fun_eq_iff)
  show ?thesis
    by (auto simp: served_def shut_def owned_def n v dev_closed_def demo_fdo_slots demo_netdev_def
        demo_wlan_iface_def demo_bt_iface_def zero_slot_def split: if_splits)
qed

lemma demo_system_up: "system_up {1, 2} sys_up"
proof -
  have ok: "bus_ok sys_link sys_up" by (rule demo_link) simp_all
  have "bt_obliges (demo_clients adapter_up all_succeed)" "wlan_obliges (demo_clients adapter_up all_succeed)"
    by (auto simp: bt_obliges_def demo_bt_lib_def wlan_obliges_def demo_wlan_lib_def split: prod.split)
  with ok have "bus_ok (sys_link_on {1, 2}) sys_up"
    by (auto simp: bus_ok_def clients_ok_def sys_link_on_def promise_def demo_fdo_slots demo_wlan_iface_def
        demo_bt_iface_def zero_slot_def split: if_splits)
  then show ?thesis
    by (simp add: system_up_def dev_registered_def demo_started demo_served)
qed

lemma demo_card: "any_registered (FdoData sys_up)" "env_ok (client sys_up)" "\<forall>n. malloc_ok demo_wb n"
  by (simp_all add: demo_registered demo_env demo_wb_sel)

lemma demo_node_ok: "node_ok {1, 2} (dev demo_wb)"
  using node_okI [OF demo_system_up demo_card(2,1)] by (simp add: demo_wb_sel)

lemma demo_on: "node_on (dev demo_wb) = {2}"
  by (simp add: demo_wb_sel node_on_def started_set_def demo_started)

theorem single_mode_commands_witness:
  "system_up {1, 2} sys_up \<and> any_registered (FdoData sys_up) \<and> env_ok (client sys_up) \<and>
   (\<exists>s'. on_bluetooth_activate (sys_dev []) demo_wb = Some s' \<and> at_rest {1, 2} {1} BT_only s') \<and>
   (\<exists>s'. on_wlan_activate (sys_dev []) (demo_wb\<lparr>g_allowedmodes := [True, True, True]\<rparr>) = Some s' \<and>
      at_rest {1, 2} {2} WLAN_only s')"
proof -
  let ?s = "demo_wb\<lparr>g_allowedmodes := [True, True, True]\<rparr>"
  have m: "\<forall>n. malloc_ok ?s n" using demo_card(3) by simp
  show ?thesis
    using single_mode_commands [OF demo_wb_sel(1) demo_system_up demo_card demo_wb_sel(2), of "[]"]
      single_mode_commands [OF _ demo_system_up demo_card(1,2) m, of _ "[]"] demo_system_up demo_card
    by (auto simp: demo_wb_sel)
qed

theorem coexist_command_ends_witness:
  "\<exists>s'. on_coexist_activate (sys_dev []) demo_wb = Some s' \<and> at_rest {1, 2} {1, 2} Both s'"
  using coexist_command_ends [OF demo_wb_sel(1) demo_system_up demo_card demo_wb_sel(2), of "[]"]
  by (auto simp: demo_wb_sel)

theorem unplug_command_stops_witness:
  "node_on (dev demo_wb) = {2} \<and>
   (\<exists>s'. on_unplug_activate (sys_dev []) demo_wb = Some s' \<and> at_rest {1, 2} {} Neither s')"
  using unplug_command_stops [OF demo_node_ok, of "[]"] demo_on demo_wb_sel(2) by simp

theorem refused_mode_locks_witness:
  "\<not> g_isclickinginprogress demo_wb \<and> \<not> g_allowedmodes demo_wb ! 1 \<and>
   (\<exists>s'. on_wlan_activate (sys_dev []) demo_wb = Some s' \<and> on_unplug_activate (sys_dev []) s' = Some s')"
  using refused_mode_locks [of demo_wb 1 "sys_dev []"] by (auto simp: demo_wb_sel)

end
