(* ===== verification/Gui_State.thy ===== *)
theory Gui_State
  imports Uwb_Tool Uwb_Parse
begin

text \<open>
  The graphical utility \<^verbatim>\<open>src/applications/uwb\<close>: its globals, which are those of
  \<^verbatim>\<open>uwbtool\<close> and the state of its menu and its tray icon, and the functions of
  \<^verbatim>\<open>main.c\<close> that talk to the bus.  Most of them have the text of \<^verbatim>\<open>uwbtool\<close>; their
  models are those functions on the larger record.
\<close>

section \<open>The globals\<close>

datatype menu_item = Item_Bluetooth | Item_Wlan | Item_Coexist | Item_Unplug

datatype tip = Tip_Bluetooth | Tip_Wlan | Tip_Both | Tip_Error

text \<open>
  What the user, the timer and the tray send to the program; \<open>Activated\<close> is the call of an item's
  callback that comes from the program itself.
\<close>

datatype gui_event =
  Icon_Clicked | Popup | Menu_Click menu_item | Activated menu_item | Timer | About | Exit

text \<open>
  \<open>batches\<close> are the events that will have come by the next times the program looks for them.
\<close>

record 'd gui = "'d wb" +
  g_ismenuclicked :: bool
  g_iconindex :: int
  g_subsystemid :: u32
  g_bDirectlyFlag :: bool
  m_nAntennaFlag :: int
  m_chversion :: "u8 list"
  m_chreleasedate :: "u8 list"
  m_chproductid :: "u8 list"
  icon_shown :: int
  blinking :: bool
  tooltip :: tip
  menu_visible :: "menu_item \<Rightarrow> bool"
  menu_sensitive :: "menu_item \<Rightarrow> bool"
  menu_checked :: "menu_item \<Rightarrow> bool"
  batches :: "gui_event list list"
  quitting :: bool

abbreviation (input) ICON_GREEN :: int where "ICON_GREEN \<equiv> 0"
abbreviation (input) ICON_RED :: int where "ICON_RED \<equiv> 1"
abbreviation (input) ICON_GRAY :: int where "ICON_GRAY \<equiv> 2"

section \<open>Requests to the bus\<close>

definition gui_open_device :: "'d bus_dev \<Rightarrow> 'd gui \<Rightarrow> (bool \<times> 'd gui) option" where
  "gui_open_device = open_device"

definition gui_close_device :: "'d bus_dev \<Rightarrow> 'd gui \<Rightarrow> 'd gui option" where
  "gui_close_device = close_device"

definition gui_ioctl_device :: "'d bus_dev \<Rightarrow> u32 \<Rightarrow> umem \<Rightarrow> 'd gui \<Rightarrow> (int \<times> umem \<times> 'd gui) option" where
  "gui_ioctl_device = ioctl_device"

definition gui_query_power_state :: "'d bus_dev \<Rightarrow> 'd gui \<Rightarrow> (u32 \<times> 'd gui) option" where
  "gui_query_power_state = tdsp_query_power_state"

definition gui_query_device :: "'d bus_dev \<Rightarrow> 'd gui \<Rightarrow> (u32 \<times> 'd gui) option" where
  "gui_query_device = tdsp_query_device"

definition gui_query_reset_flag :: "'d bus_dev \<Rightarrow> 'd gui \<Rightarrow> (u32 \<times> 'd gui) option" where
  "gui_query_reset_flag = tdsp_query_reset_flag"

definition gui_query_pnp_state :: "'d bus_dev \<Rightarrow> u32 \<Rightarrow> 'd gui \<Rightarrow> (u32 \<times> 'd gui) option" where
  "gui_query_pnp_state = tdsp_query_pnp_state"

definition gui_download_dsp_code :: "'d bus_dev \<Rightarrow> u32 \<Rightarrow> 'd gui \<Rightarrow> (bool \<times> 'd gui) option" where
  "gui_download_dsp_code = tdsp_download_dsp_code"

definition gui_set_init_flag :: "'d bus_dev \<Rightarrow> u32 \<Rightarrow> 'd gui \<Rightarrow> (bool \<times> 'd gui) option" where
  "gui_set_init_flag = tdsp_set_init_flag"

definition gui_set_hotkey_flag :: "'d bus_dev \<Rightarrow> u32 \<Rightarrow> 'd gui \<Rightarrow> (int \<times> 'd gui) option" where
  "gui_set_hotkey_flag = set_hotkey_flag"

definition gui_read_enum_mode :: "'d bus_dev \<Rightarrow> 'd gui \<Rightarrow> (u32 \<times> 'd gui) option" where
  "gui_read_enum_mode = read_enum_mode"

definition gui_write_enum_mode :: "'d bus_dev \<Rightarrow> u32 \<Rightarrow> 'd gui \<Rightarrow> (int \<times> 'd gui) option" where
  "gui_write_enum_mode = write_enum_mode"

definition gui_add_device :: "'d bus_dev \<Rightarrow> u8 list \<Rightarrow> u32 \<Rightarrow> 'd gui \<Rightarrow> (u32 \<times> 'd gui) option" where
  "gui_add_device = tdsp_add_device"

definition gui_remove_device :: "'d bus_dev \<Rightarrow> u32 \<Rightarrow> 'd gui \<Rightarrow> (u32 \<times> 'd gui) option" where
  "gui_remove_device = tdsp_remove_device"

definition gui_is_download_dspcode_ok :: "'d bus_dev \<Rightarrow> 'd gui \<Rightarrow> (bool \<times> 'd gui) option" where
  "gui_is_download_dspcode_ok = tdsp_is_download_dspcode_ok"

definition gui_unplugdevices :: "'d bus_dev \<Rightarrow> 'd gui \<Rightarrow> (bool \<times> 'd gui) option" where
  "gui_unplugdevices = unplugdevices"

definition gui_wait_device_unplug_stable :: "'d bus_dev \<Rightarrow> 'd gui \<Rightarrow> 'd gui option" where
  "gui_wait_device_unplug_stable = wait_device_unplug_stable"

definition gui_adjust_func_state :: "'d bus_dev \<Rightarrow> 'd gui \<Rightarrow> 'd gui option" where
  "gui_adjust_func_state = adjust_func_state"

lemmas gui_bus_defs =
  gui_open_device_def gui_close_device_def gui_ioctl_device_def gui_query_power_state_def
  gui_query_device_def gui_query_reset_flag_def gui_query_pnp_state_def gui_download_dsp_code_def
  gui_set_init_flag_def gui_set_hotkey_flag_def gui_read_enum_mode_def gui_write_enum_mode_def
  gui_add_device_def gui_remove_device_def gui_is_download_dspcode_ok_def gui_unplugdevices_def
  gui_wait_device_unplug_stable_def gui_adjust_func_state_def

text \<open>The requests \<^verbatim>\<open>uwbtool\<close> does not have.\<close>

definition tdsp_query_subsystem_id :: "'d bus_dev \<Rightarrow> 'd gui \<Rightarrow> (u32 \<times> 'd gui) option" where
  "tdsp_query_subsystem_id D s = do {
     (q, s1) \<leftarrow> bus_request D IOCTL_BUSENUM_GET_SUB_SYSTEM_ID_INFO (le32 0) s;
     case q of
       None \<Rightarrow> Some (TDSP_SERIAL_NO_NOCARD, s1)
     | Some (r, m) \<Rightarrow>
         if r \<noteq> 0 then Some (TDSP_SERIAL_NO_NOCARD, s1) else Some (rd32 m, s1\<lparr>g_subsystemid := rd32 m\<rparr>)
   }"

definition set_antenna_flag :: "'d bus_dev \<Rightarrow> u32 \<Rightarrow> 'd gui \<Rightarrow> (int \<times> 'd gui) option" where
  "set_antenna_flag D mode s = do {
     (ok, s1) \<leftarrow> bus_accepts D IOCTL_BUSENUM_SET_ANTENNA (le32 mode) s;
     Some (if ok then 0 else - 1, s1)
   }"

text \<open>
  Unlike in \<^verbatim>\<open>uwbtool\<close> the mode of the configuration file is given up: the mode the bus
  reports becomes the default, 0 included.
\<close>

definition initial_wb_defaultmode :: "'d bus_dev \<Rightarrow> 'd gui \<Rightarrow> (int \<times> 'd gui) option" where
  "initial_wb_defaultmode D s = do {
     (e, s1) \<leftarrow> gui_read_enum_mode D s;
     if e = - 1 then Some (- 1, s1)
     else do {
       e1 \<leftarrow> (if e = 0 then Some 0 else do { a \<leftarrow> allowed_mode e s1; Some (if a then e else 0) });
       Some (0, s1\<lparr>g_rawenummode := e1, g_defaultmode := sint e1\<rparr>)
     }
   }"

section \<open>The configuration\<close>

definition gui_trim_gets_string :: "u8 list \<Rightarrow> (nat option \<times> u8 list) option" where
  "gui_trim_gets_string = trim_gets_string"

definition gui_get_value_from_conffile :: "u8 list \<Rightarrow> u8 list \<Rightarrow> u8 list \<Rightarrow> u8 list option option" where
  "gui_get_value_from_conffile = get_value_from_conffile"

text \<open>One name that has to be set, and what to do with its value.\<close>

definition required ::
  "u8 list \<Rightarrow> string \<Rightarrow> (u8 list \<Rightarrow> 'd gui \<Rightarrow> 'd gui) \<Rightarrow> ('d gui \<Rightarrow> (bool \<times> 'd gui) option) \<Rightarrow> 'd gui \<Rightarrow>
   (bool \<times> 'd gui) option" where
  "required txt key put k s = do {
     v \<leftarrow> gui_get_value_from_conffile (junk_bytes 100 s) txt (bytes_of key);
     case v of None \<Rightarrow> Some (False, s) | Some x \<Rightarrow> k (put x s)
   }"

definition config_antenna :: "u8 list \<Rightarrow> 'd gui \<Rightarrow> (bool \<times> 'd gui) option" where
  "config_antenna txt s = do {
     v \<leftarrow> gui_get_value_from_conffile (junk_bytes 100 s) txt (bytes_of ''ANTENNAFLAG'');
     let a = (case v of None \<Rightarrow> m_nAntennaFlag s | Some x \<Rightarrow> atoi x);
     Some (True, s\<lparr>m_nAntennaFlag := (if 2 < a \<or> a < 1 then 0 else a)\<rparr>)
   }"

text \<open>
  Up to the allowed modes the text is that of \<^verbatim>\<open>uwbtool\<close>; then the version, the release
  date and the product have to be there, and the antenna flag may be.
\<close>

definition gui_get_config_from_file :: "u8 list option \<Rightarrow> 'd gui \<Rightarrow> (bool \<times> 'd gui) option" where
  "gui_get_config_from_file conf s =
     (case conf of
        None \<Rightarrow> Some (False, s)
      | Some txt \<Rightarrow> do {
          (ok, s1) \<leftarrow> config_common txt s;
          if \<not> ok then Some (False, s1)
          else
            required txt ''VERSION'' (\<lambda>x s. s\<lparr>m_chversion := x\<rparr>) (
            required txt ''RELEASEDATE'' (\<lambda>x s. s\<lparr>m_chreleasedate := x\<rparr>) (
            required txt ''PRODUCTID'' (\<lambda>x s. s\<lparr>m_chproductid := x\<rparr>) (
            config_antenna txt))) s1
        })"

section \<open>Icon, tooltip and menu\<close>

definition adjust_icon :: "int \<Rightarrow> 'd gui \<Rightarrow> 'd gui" where
  "adjust_icon trayicocolor s =
     (if trayicocolor \<in> {0, 1, 2} then s\<lparr>icon_shown := trayicocolor\<rparr> else s)"

definition enable_blinking :: "'d gui \<Rightarrow> 'd gui" where
  "enable_blinking s = s\<lparr>blinking := True\<rparr>"

definition disable_blinking :: "'d gui \<Rightarrow> 'd gui" where
  "disable_blinking s = s\<lparr>blinking := False\<rparr>"

definition query_blinking :: "'d gui \<Rightarrow> bool" where
  "query_blinking s = blinking s"

fun adjust_tooltip_text :: "wb_state \<Rightarrow> 'd gui \<Rightarrow> 'd gui" where
  "adjust_tooltip_text BT_only s = s\<lparr>tooltip := Tip_Bluetooth\<rparr>"
| "adjust_tooltip_text WLAN_only s = s\<lparr>tooltip := Tip_Wlan\<rparr>"
| "adjust_tooltip_text Both s = s\<lparr>tooltip := Tip_Both\<rparr>"
| "adjust_tooltip_text Neither s = s\<lparr>tooltip := Tip_Both\<rparr>"
| "adjust_tooltip_text Undefined s = s"

text \<open>The menu shows the items of the allowed modes; a new item is sensitive and not checked.\<close>

definition allowed_item :: "'d gui \<Rightarrow> menu_item \<Rightarrow> bool" where
  "allowed_item s i =
     (case i of
        Item_Bluetooth \<Rightarrow> g_allowedmodes s ! 0
      | Item_Wlan \<Rightarrow> g_allowedmodes s ! 1
      | Item_Coexist \<Rightarrow> g_allowedmodes s ! 2
      | Item_Unplug \<Rightarrow> True)"

definition create_menu1 :: "'d gui \<Rightarrow> 'd gui" where
  "create_menu1 s =
     s\<lparr>menu_visible := allowed_item s, menu_sensitive := (\<lambda>i. True), menu_checked := (\<lambda>i. False)\<rparr>"

definition gray_wb_menu :: "'d gui \<Rightarrow> 'd gui" where
  "gray_wb_menu s = s\<lparr>menu_sensitive := (\<lambda>i. False)\<rparr>"

definition enable_wb_menu :: "'d gui \<Rightarrow> 'd gui" where
  "enable_wb_menu s = s\<lparr>menu_sensitive := allowed_item s\<rparr>"

end
