(* ===== verification/Gui_Version.thy ===== *)
theory Gui_Version
  imports Gui_State Uwb_Version Uwb_Parse_Spec
begin

text \<open>
  The version report of the graphical utility (\<^verbatim>\<open>get_tdsp_version\<close> and
  \<^verbatim>\<open>update_ver_string\<close> of \<^verbatim>\<open>uwb/src/main.c\<close>).  The requests are those of
  \<^verbatim>\<open>uwbtool\<close> but for the last one; the numbers are read back without a test that a character
  is a digit, and the lines are set out differently.
\<close>

section \<open>Hexadecimal numbers\<close>

definition fits_int :: "int \<Rightarrow> bool" where
  "fits_int v \<longleftrightarrow> - (2 ^ 31) \<le> v \<and> v < 2 ^ 31"

fun gui_hex_loop :: "u8 list \<Rightarrow> nat \<Rightarrow> int \<Rightarrow> int option" where
  "gui_hex_loop psrc 0 num = Some num"
| "gui_hex_loop [] (Suc n) num = None"
| "gui_hex_loop (c # psrc) (Suc n) num =
     (let v = xdigit_value c * 16 ^ n
      in if fits_int v \<and> fits_int (num + v) then gui_hex_loop psrc n (num + v) else None)"

definition gui_hexstr2intnum :: "u8 list \<Rightarrow> nat \<Rightarrow> int option" where
  "gui_hexstr2intnum psrc nlen = gui_hex_loop psrc nlen 0"

section \<open>Asking for the versions\<close>

definition gui_get_tdsp_version ::
  "'d bus_dev \<Rightarrow> tdspversion \<Rightarrow> 'd gui \<Rightarrow> (int \<times> tdspversion \<times> 'd gui) option" where
  "gui_get_tdsp_version D ver s = do {
     (ok, s1) \<leftarrow> gui_open_device D s;
     if \<not> ok then Some (- 1, ver, s1)
     else
       version_step 0 (ask_string D IOCTL_BUSENUM_QUERY_DEVICE_VERSION (le32 1 @ replicate 60 0) (btver ver))
         (\<lambda>v ver. ver\<lparr>btver := v\<rparr>) (
       version_step 1 (ask_string D IOCTL_BUSENUM_QUERY_DEVICE_VERSION (le32 2 @ replicate 60 0) (wlanver ver))
         (\<lambda>v ver. ver\<lparr>wlanver := v\<rparr>) (
       version_step 2 (ask_string D IOCTL_BUSENUM_QUERY_BUS_VERSION (replicate 64 0) (busver ver))
         (\<lambda>v ver. ver\<lparr>busver := v\<rparr>) (
       version_step 3 (ask_number D IOCTL_BUSENUM_QUERY_FIRMWARE_VERSION)
         (\<lambda>v ver. ver\<lparr>firmwarever := v\<rparr>) (version_done D)))) ver s1
   }"

section \<open>The report\<close>

definition gui_version_pair :: "u8 list \<Rightarrow> nat \<Rightarrow> int option" where
  "gui_version_pair digits i = gui_hexstr2intnum [digits ! i, digits ! Suc i, 0] 2"

definition gui_version_numbers :: "u32 \<Rightarrow> (int \<times> int \<times> int \<times> int) option" where
  "gui_version_numbers w = do {
     let digits = hex_long w;
     board_type \<leftarrow> gui_version_pair digits 0;
     major_version \<leftarrow> gui_version_pair digits 2;
     test_type \<leftarrow> gui_version_pair digits 4;
     minor_version \<leftarrow> gui_version_pair digits 6;
     Some (board_type, major_version, test_type, minor_version)
   }"

definition gui_firmware_line :: "u32 \<Rightarrow> u8 list option" where
  "gui_firmware_line w = do {
     (board_type, major_version, test_type, minor_version) \<leftarrow> gui_version_numbers w;
     Some (fmt_nd 2 board_type @ dot @ fmt_0d 2 major_version @ dot @ fmt_nd 2 test_type @ dot @
       fmt_0d 3 minor_version @ [10])
   }"

text \<open>A device's line has its value on a line of its own, or the word for none behind the name.\<close>

definition gui_device_line :: "string \<Rightarrow> bool \<Rightarrow> u8 list \<Rightarrow> u8 list" where
  "gui_device_line name there v =
     (if there then bytes_of name @ bytes_of '': '' @ [10] @ bytes_of ''-'' @ cstr v @ [10]
      else bytes_of name @ bytes_of '': invalid'' @ [10])"

definition gui_version_text :: "u8 list \<Rightarrow> tdspversion \<Rightarrow> u8 list option" where
  "gui_version_text company ver = do {
     let head = [9] @ company @ bytes_of '' wb 2.0.7'' @ [10, 10];
     let bt = gui_device_line ''bluetooth'' (pos ver ! 0) (btver ver);
     let wlan = gui_device_line ''wlan'' (pos ver ! 1) (wlanver ver);
     let bus = (if pos ver ! 2 then company @ bytes_of ''bus: '' @ cstr (busver ver) @ [10]
                else bytes_of ''bus driver: invalid'' @ [10]);
     fw \<leftarrow> (if pos ver ! 3 \<and> (pos ver ! 0 \<or> pos ver ! 1)
            then do { line \<leftarrow> gui_firmware_line (firmwarever ver); Some (bytes_of ''firmware:'' @ line) }
            else Some (bytes_of ''firmware: invalid'' @ [10]));
     let text = head @ bt @ wlan @ bus @ fw;
     if 256 \<le> length text then None else Some text
   }"

text \<open>
  The result is what \<^verbatim>\<open>g_chversionstring\<close> is set to.  As in \<^verbatim>\<open>uwbtool\<close> a failure is
  looked for as \<^verbatim>\<open>FALSE\<close>, which \<^verbatim>\<open>get_tdsp_version\<close> never returns.
\<close>

definition gui_update_ver_string :: "'d bus_dev \<Rightarrow> 'd gui \<Rightarrow> (u8 list \<times> 'd gui) option" where
  "gui_update_ver_string D s = do {
     let ver = \<lparr>pos = [g_state s = Both \<or> g_state s = BT_only, g_state s = Both \<or> g_state s = WLAN_only, True, True],
                btver = replicate 64 0, wlanver = replicate 64 0, busver = replicate 64 0,
                firmwarever = 0, ver8051 = 0\<rparr>;
     (r, ver1, s1) \<leftarrow> gui_get_tdsp_version D ver s;
     let ver2 = (if r = 0 then ver1\<lparr>pos := [False, False, False, False]\<rparr> else ver1);
     text \<leftarrow> gui_version_text (m_chcompanyid s1) ver2;
     Some (text, s1)
   }"

text \<open>The two texts of the about dialog; the arrays hold 64 bytes and 62 characters are kept.\<close>

definition about_callback :: "'d gui \<Rightarrow> u8 list \<times> u8 list" where
  "about_callback s =
     (take 62 (bytes_of ''3DSP '' @ m_chproductid s @ bytes_of ''U''),
      take 62 (bytes_of ''Release '' @ m_chversion s @ dot @ m_chreleasedate s))"

section \<open>What is read back\<close>

lemma xdigit_positive:
  assumes "isxdigit c"
  shows "0 \<le> xdigit_value c"
proof -
  have "unat c \<in> set ([48..<58] @ [65..<71] @ [97..<103])"
    using assms by (auto simp: isxdigit_def is_digit_def word_le_nat_alt simp del: upt_rec_numeral)
  moreover have "c = of_nat (unat c)" by simp
  ultimately have "c \<in> of_nat ` set ([48..<58] @ [65..<71] @ [97..<103])" by blast
  then show ?thesis by (auto simp: xdigit_value_def toupper_def upt_rec_numeral)
qed

text \<open>Where the decoder of \<^verbatim>\<open>uwbtool\<close> succeeds, that of the graphical utility agrees.\<close>

lemma hex_loop_agrees:
  "hex_loop psrc n num = Some (True, m) \<Longrightarrow> 0 \<le> num \<Longrightarrow> gui_hex_loop psrc n num = Some m"
proof (induction psrc n num rule: hex_loop.induct)
  case (3 c psrc n num)
  have d: "isxdigit c" and v: "xdigit_value c * 16 ^ n < 2 ^ 31" "num + xdigit_value c * 16 ^ n < 2 ^ 31"
    using "3.prems"(1) by (auto simp: Let_def split: if_splits)
  have "0 \<le> xdigit_value c" using xdigit_positive [OF d] .
  then have "0 \<le> xdigit_value c * 16 ^ n" by simp
  then show ?case using 3 d v by (simp add: Let_def fits_int_def)
qed auto

lemma gui_version_bytes:
  "gui_version_numbers w = Some (uint (ucast (drop_bit 24 w) :: u8), uint (ucast (drop_bit 16 w) :: u8),
     uint (ucast (drop_bit 8 w) :: u8), uint (ucast w :: u8))"
proof -
  let ?b = "\<lambda>n. hex2 (ucast (drop_bit n w))"
  have pair: "gui_version_pair (xs @ hex2 b @ ys) (length xs) = Some (uint b)" for xs ys and b :: u8
    using hex2_decoded [of b "[0]"] hex_loop_agrees
    by (simp add: gui_version_pair_def gui_hexstr2intnum_def hexstr2intnum_def hex2_def nth_append)
  have h: "hex_long w = ?b 24 @ ?b 16 @ ?b 8 @ ?b 0" by (simp add: hex_long_bytes)
  have len: "length (hex2 b) = 2" for b by (simp add: hex2_def)
  show ?thesis
    using pair [of "[]" "ucast (drop_bit 24 w)"] pair [of "?b 24" "ucast (drop_bit 16 w)"]
      pair [of "?b 24 @ ?b 16" "ucast (drop_bit 8 w)"] pair [of "?b 24 @ ?b 16 @ ?b 8" "ucast w" "[]"]
    by (simp add: gui_version_numbers_def Let_def h len)
qed

end
