(* ===== verification/Uwb_Main_Props.thy ===== *)
theory Uwb_Main_Props
  imports Uwb_Main_Spec Uwb_Props Gui_Version
begin

text \<open>
  Properties of the program \<^verbatim>\<open>uwbtool\<close> as a whole on the modelled system, from its
  configuration file and its command line to the devices that run in the end, and of the readers
  of its text, with witnesses.
\<close>

text \<open>
  C4: The program's verdict can be trusted.  Conditions: the instance lock is granted, the
  configuration file is not empty, does not end behind a remark and has no \<^verbatim>\<open>ALLOWEDMODES\<close> of ten or more
  characters, a card is registered, memory allocation does not fail and the kernel's allocations
  of the WLAN counters and registrations of network devices succeed.  Then, from every state of
  the drivers, \<^verbatim>\<open>uwbtool -a\<close> with bt, wlan or combo returns and prints success exactly when
  the devices of that mode, and no other, are started at the end; this is so when the file is
  valid and allows the mode and the devices of the mode are in the set \<open>W\<close> of those whose
  drivers start when asked.  \<^verbatim>\<open>uwbtool -q\<close> names what runs and starts or stops nothing, and
  \<^verbatim>\<open>uwbtool -r\<close> prints success and leaves nothing running.
\<close>

theorem main_verdicts:
  fixes s :: "('a, 'b) sys_node wb"
  assumes "dev s = (f, w)" "system_up W w" "any_registered (FdoData w)" "env_ok (client w)"
    and "\<forall>n. malloc_ok s n" "\<not> g_isclickinginprogress s" "maincontrol e = 0"
    and "conf e = Some txt" "txt \<noteq> []" "\<not> ends_in_remark txt"
    and "\<forall>v. setting (bytes_of ''ALLOWEDMODES'') txt = Some v \<longrightarrow> length v < 10"
  shows "(\<forall>(word, sn, S) \<in> mode_words.
      \<exists>s'. uwbtool_main (sys_dev stk) e [name, [dash, of_char CHR ''a''], word] [(CHR ''a'', Some word)] s =
          Some (0, if node_on (dev s') = S then Add_Success sn else Add_Fail sn, s') \<and> node_ok W (dev s') \<and>
        (S \<subseteq> W \<and> config_valid txt (fresh s) \<and>
          mode_digit (unat sn - 1) \<in> set (the (setting (bytes_of ''ALLOWEDMODES'') txt)) \<longrightarrow> node_on (dev s') = S)) \<and>
    (\<exists>s'. uwbtool_main (sys_dev stk) e [name, [dash, of_char CHR ''q'']] [(CHR ''q'', None)] s =
      Some (0, in_use_message (in_use_answer (node_on (dev s))), s') \<and> node_on (dev s') = node_on (dev s)) \<and>
    (\<exists>s'. uwbtool_main (sys_dev stk) e [name, [dash, of_char CHR ''r'']] [(CHR ''r'', None)] s =
      Some (0, Remove_Success, s') \<and> node_on (dev s') = {})"
proof -
  have ok: "node_ok W (dev s)" using node_okI assms(1-4) by simp
  obtain s1 where c: "get_config_from_file (conf e) (fresh s) = Some (config_valid txt (fresh s), s1)"
    "config_valid txt (fresh s) \<longrightarrow> s1 = configured txt (fresh s)"
    using config_read [of "txt" "fresh s"] assms(8-11) by (auto simp: conf_ok_def)
  show ?thesis
  proof (intro conjI)
    show "\<forall>(word, sn, S) \<in> mode_words.
      \<exists>s'. uwbtool_main (sys_dev stk) e [name, [dash, of_char CHR ''a''], word] [(CHR ''a'', Some word)] s =
          Some (0, if node_on (dev s') = S then Add_Success sn else Add_Fail sn, s') \<and> node_ok W (dev s') \<and>
        (S \<subseteq> W \<and> config_valid txt (fresh s) \<and>
          mode_digit (unat sn - 1) \<in> set (the (setting (bytes_of ''ALLOWEDMODES'') txt)) \<longrightarrow> node_on (dev s') = S)"
    proof clarify
      fix word sn S
      assume m: "(word, sn, S) \<in> mode_words"
      then have "unat sn - 1 < 3" by (auto simp: mode_words_def)
      then have "g_allowedmodes (configured txt (fresh s)) ! (unat sn - 1)"
        if "mode_digit (unat sn - 1) \<in> set (the (setting (bytes_of ''ALLOWEDMODES'') txt))"
        using that by (simp add: configured_def with_modes_def)
      then show "\<exists>s'. uwbtool_main (sys_dev stk) e [name, [dash, of_char CHR ''a''], word] [(CHR ''a'', Some word)] s =
          Some (0, if node_on (dev s') = S then Add_Success sn else Add_Fail sn, s') \<and> node_ok W (dev s') \<and>
        (S \<subseteq> W \<and> config_valid txt (fresh s) \<and>
          mode_digit (unat sn - 1) \<in> set (the (setting (bytes_of ''ALLOWEDMODES'') txt)) \<longrightarrow> node_on (dev s') = S)"
        using wbs.main_adds [OF ok assms(6,5,7) c(1) m, of stk name] c(2) by fastforce
    qed
  qed (use wbs.main_queries [OF ok c(1), of stk name] wbs.main_removes [OF ok assms(6,7) c(1), of stk name]
    in blast)+
qed

text \<open>
  C19: The search for a name in the configuration file, which may be any text that is not empty, is
  the lookup of the first line of two words that has this name as its first, upper and lower case
  taken as equal; a line that starts with a semicolon is passed over, and a line with the name
  \<^verbatim>\<open>MENU_BT\<close> ends the search without a result.  Only in a file that ends behind a remark, a
  search that meets no such line reads past the array of the line.  In every other file the
  configuration is accepted exactly when the settings found are complete and consistent, and then
  it is what the file says, provided \<^verbatim>\<open>ALLOWEDMODES\<close> has fewer than ten characters, as the
  array for it has ten.
\<close>

theorem config_file_read:
  assumes "txt \<noteq> []"
  shows "get_value_from_conffile (junk_bytes 100 s) txt key =
      (case search key (file_lines txt) of Found v \<Rightarrow> Some (Some v) | Ended \<Rightarrow> Some None
       | Missing \<Rightarrow> if ends_in_remark txt then None else Some None) \<and>
    (\<not> ends_in_remark txt \<and> length (g_allowedmodes s) = 3 \<and>
       (\<forall>v. setting (bytes_of ''ALLOWEDMODES'') txt = Some v \<longrightarrow> length v < 10) \<longrightarrow>
     (\<exists>s'. get_config_from_file (Some txt) s = Some (config_valid txt s, s') \<and>
       (config_valid txt s \<longrightarrow> s' = configured txt s)))"
proof
  show "get_value_from_conffile (junk_bytes 100 s) txt key =
      (case search key (file_lines txt) of Found v \<Rightarrow> Some (Some v) | Ended \<Rightarrow> Some None
       | Missing \<Rightarrow> if ends_in_remark txt then None else Some None)"
    using assms by (rule value_found)
qed (use config_read [of "txt" s] assms in \<open>auto simp: conf_ok_def\<close>)

text \<open>
  C25: What is printed in hexadecimal is read back: a string of the digits of some bytes fills the
  EEPROM buffer with exactly these bytes and a zero behind them, and the four numbers of a version
  are the four bytes of the word the bus reports, in the report of either utility.
\<close>

theorem hex_read_back:
  "(length bs < length (g_eeprombuf s) \<longrightarrow>
     get_eeprom_data_2write (Some (concat (map hex2 bs))) (2 * length bs) s =
       Some (True, s\<lparr>g_eeprombuf := bs @ 0 # drop (Suc (length bs)) (g_eeprombuf s)\<rparr>)) \<and>
   version_numbers w = Some (uint (ucast (drop_bit 24 w) :: u8), uint (ucast (drop_bit 16 w) :: u8),
     uint (ucast (drop_bit 8 w) :: u8), uint (ucast w :: u8)) \<and>
   gui_version_numbers w = version_numbers w"
  using eeprom_decodes version_numbers_bytes gui_version_bytes by (metis (no_types))

section \<open>Witnesses\<close>

definition demo_conf :: "u8 list" where
  "demo_conf = bytes_of ''; modes'' @ 10 # bytes_of ''[WB]'' @ 10 # bytes_of ''COMPANYID=3DSP'' @ 10 #
     bytes_of ''defaultmode=1'' @ 10 # bytes_of ''ALLOWEDMODES=13'' @ [10]"

definition demo_env :: uwb_env where
  "demo_env = \<lparr>conf = Some demo_conf, conf_rw = True, lock_granted = True\<rparr>"

lemma length_bytes_of: "length (bytes_of x) = length x"
  by (simp add: bytes_of_def)

lemma demo_lines:
  "file_lines demo_conf = map (\<lambda>l. bytes_of l @ [10])
     [''; modes'', ''[WB]'', ''COMPANYID=3DSP'', ''defaultmode=1'', ''ALLOWEDMODES=13'']"
proof -
  have "10 \<notin> set (bytes_of ''; modes'')" "10 \<notin> set (bytes_of ''[WB]'')" "10 \<notin> set (bytes_of ''COMPANYID=3DSP'')"
    "10 \<notin> set (bytes_of ''defaultmode=1'')" "10 \<notin> set (bytes_of ''ALLOWEDMODES=13'')"
    by (simp_all add: bytes_of_def)
  then show ?thesis unfolding demo_conf_def by (simp add: file_lines_line length_bytes_of)
qed

lemma demo_conf_ok: "demo_conf \<noteq> []" "\<not> ends_in_remark demo_conf"
proof -
  show "demo_conf \<noteq> []" by (simp add: demo_conf_def)
  show "\<not> ends_in_remark demo_conf" by (simp add: ends_in_remark_def demo_lines bytes_of_def)
qed

lemma demo_settings:
  "setting (bytes_of ''ALLOWEDMODES'') demo_conf = Some (bytes_of ''13'')"
  "setting (bytes_of ''COMPANYID'') demo_conf = Some (bytes_of ''3DSP'')"
  "setting (bytes_of ''DEFAULTMODE'') demo_conf = Some (bytes_of ''1'')"
  "setting (bytes_of ''HOTKEYFLAG'') demo_conf = None"
  by (simp_all add: setting_def demo_lines line_words_def line_text_def first_word_def Let_def bytes_of_def same_word_def
      tolower_def MENU_BT_def)

lemma demo_modes:
  "modes_word (bytes_of ''13'')" "mode_digit 0 \<in> set (bytes_of ''13'')" "mode_digit 2 \<in> set (bytes_of ''13'')"
proof -
  have "(0x33 :: u8) = mode_digit 2" "(0x31 :: u8) = mode_digit 0" by (simp_all add: mode_digit_def)
  then show "modes_word (bytes_of ''13'')" "mode_digit 0 \<in> set (bytes_of ''13'')" "mode_digit 2 \<in> set (bytes_of ''13'')"
    by (auto simp: modes_word_def bytes_of_def intro: exI [of _ 2] exI [of _ 0])
qed

lemma demo_valid: "config_valid demo_conf (fresh demo_wb)"
proof -
  have "atoi (bytes_of ''1'') = 1"
    by (simp add: atoi_def bytes_of_def is_space_def is_digit_def clamp32_def)
  moreover have "m_nHotKeyFlag (fresh demo_wb) = 0" by (simp add: fresh_def demo_wb_def)
  ultimately show ?thesis
    using demo_modes by (simp add: config_valid_def number_def demo_settings with_modes_def)
qed

theorem main_verdicts_witness:
  "system_up {1, 2} sys_up \<and>
   (\<exists>s'. uwbtool_main (sys_dev []) demo_env
        [bytes_of ''uwbtool'', [dash, of_char CHR ''a''], bytes_of ''bt''] [(CHR ''a'', Some (bytes_of ''bt''))] demo_wb =
      Some (0, Add_Success 1, s') \<and> node_on (dev s') = {1}) \<and>
   (\<exists>s'. uwbtool_main (sys_dev []) demo_env
        [bytes_of ''uwbtool'', [dash, of_char CHR ''a''], bytes_of ''combo''] [(CHR ''a'', Some (bytes_of ''combo''))] demo_wb =
      Some (0, Add_Success 3, s') \<and> node_on (dev s') = {1, 2}) \<and>
   (\<exists>s'. uwbtool_main (sys_dev []) demo_env
        [bytes_of ''uwbtool'', [dash, of_char CHR ''q'']] [(CHR ''q'', None)] demo_wb = Some (0, Is_Wlan, s'))"
proof -
  have e: "maincontrol demo_env = 0" "conf demo_env = Some demo_conf"
    by (simp_all add: demo_env_def maincontrol_def)
  have short: "\<forall>v. setting (bytes_of ''ALLOWEDMODES'') demo_conf = Some v \<longrightarrow> length v < 10"
    by (simp add: demo_settings length_bytes_of)
  have w: "(bytes_of ''bt'', 1, {1}) \<in> mode_words" "(bytes_of ''combo'', 3, {1, 2}) \<in> mode_words"
    by (simp_all add: mode_words_def)
  note v = main_verdicts [OF demo_wb_sel(1) demo_system_up demo_card demo_wb_sel(2) e demo_conf_ok short,
      where stk = "[]" and name = "bytes_of ''uwbtool''"]
  have "\<exists>s'. uwbtool_main (sys_dev []) demo_env
        [bytes_of ''uwbtool'', [dash, of_char CHR ''a''], bytes_of ''bt''] [(CHR ''a'', Some (bytes_of ''bt''))] demo_wb =
      Some (0, if node_on (dev s') = {1} then Add_Success 1 else Add_Fail 1, s') \<and> node_on (dev s') = {1}"
    using bspec [OF conjunct1 [OF v] w(1)] demo_valid demo_modes(2) by (auto simp: demo_settings)
  moreover have "\<exists>s'. uwbtool_main (sys_dev []) demo_env
        [bytes_of ''uwbtool'', [dash, of_char CHR ''a''], bytes_of ''combo''] [(CHR ''a'', Some (bytes_of ''combo''))] demo_wb =
      Some (0, if node_on (dev s') = {1, 2} then Add_Success 3 else Add_Fail 3, s') \<and> node_on (dev s') = {1, 2}"
    using bspec [OF conjunct1 [OF v] w(2)] demo_valid demo_modes(3) by (auto simp: demo_settings)
  moreover have "in_use_message (in_use_answer {2}) = Is_Wlan" by (simp add: in_use_message_def)
  ultimately show ?thesis using conjunct2 [OF v] demo_system_up demo_on by auto
qed

text \<open>A name is found, one behind \<^verbatim>\<open>MENU_BT\<close> is not, and the search of a lone remark overruns.\<close>

theorem config_file_read_witness:
  "get_value_from_conffile (junk_bytes 100 demo_wb) demo_conf (bytes_of ''DEFAULTMODE'') = Some (Some (bytes_of ''1'')) \<and>
   get_value_from_conffile (junk_bytes 100 demo_wb) (bytes_of ''menu_bt=1'' @ 10 # bytes_of ''COMPANYID=x'')
     (bytes_of ''COMPANYID'') = Some None \<and>
   get_value_from_conffile (junk_bytes 100 demo_wb) (bytes_of '';'' @ [10]) (bytes_of ''COMPANYID'') = None"
proof -
  have m: "search (bytes_of ''COMPANYID'') (file_lines (bytes_of ''menu_bt=1'' @ 10 # bytes_of ''COMPANYID=x'')) = Ended"
    by (subst file_lines_line)
      (simp_all add: line_words_def line_text_def first_word_def Let_def bytes_of_def same_word_def tolower_def MENU_BT_def)
  have r: "file_lines (bytes_of '';'' @ [10]) = [bytes_of '';'' @ [10]]"
    by (subst file_lines_line) (simp_all add: bytes_of_def)
  have d: "search (bytes_of ''DEFAULTMODE'') (file_lines demo_conf) = Found (bytes_of ''1'')"
    using demo_settings(3) by (simp add: setting_def split: found.splits)
  show ?thesis
    using config_file_read [OF demo_conf_ok(1), of demo_wb "bytes_of ''DEFAULTMODE''"]
      config_file_read [of "bytes_of ''menu_bt=1'' @ 10 # bytes_of ''COMPANYID=x''" demo_wb "bytes_of ''COMPANYID''"]
      config_file_read [of "bytes_of '';'' @ [10]" demo_wb "bytes_of ''COMPANYID''"] m r d
    by (simp add: ends_in_remark_def open_line_def bytes_of_def)
qed

theorem hex_read_back_witness:
  "get_eeprom_data_2write (Some (hex2 0xAB @ hex2 0x10)) 4 (demo_wb\<lparr>g_eeprombuf := [7, 7, 7, 7]\<rparr>) =
     Some (True, demo_wb\<lparr>g_eeprombuf := [0xAB, 0x10, 0, 7]\<rparr>) \<and>
   version_numbers 0x01020304 = Some (1, 2, 3, 4)"
proof
  show "get_eeprom_data_2write (Some (hex2 0xAB @ hex2 0x10)) 4 (demo_wb\<lparr>g_eeprombuf := [7, 7, 7, 7]\<rparr>) =
     Some (True, demo_wb\<lparr>g_eeprombuf := [0xAB, 0x10, 0, 7]\<rparr>)"
    using conjunct1 [OF hex_read_back [of "[0xAB, 0x10]" "demo_wb\<lparr>g_eeprombuf := [7, 7, 7, 7]\<rparr>"]] by simp
  show "version_numbers 0x01020304 = Some (1, 2, 3, 4)"
    using conjunct2 [OF hex_read_back, of "0x01020304"] by simp
qed

end
