(* ===== verification/Gui_Menu.thy ===== *)
theory Gui_Menu
  imports Gui_State
begin

text \<open>
  The menu of the graphical utility: the callbacks of \<^verbatim>\<open>callbacks.c\<close> and the functions of
  \<^verbatim>\<open>main.c\<close> that check the items and run the events.  Changing the check of an item may call
  the item's callback again, from inside the callback that is running: \<open>cb\<close> is what delivers an
  event, and \<open>E\<close> says whether the toolkit calls the callback for a change from one check state to
  another.
\<close>

type_synonym 'd callback = "gui_event \<Rightarrow> 'd gui \<Rightarrow> 'd gui option"

section \<open>Checking the items\<close>

definition set_active ::
  "(bool \<Rightarrow> bool \<Rightarrow> bool) \<Rightarrow> 'd callback \<Rightarrow> menu_item \<Rightarrow> bool \<Rightarrow> 'd gui \<Rightarrow> 'd gui option" where
  "set_active E cb i b s =
     (let s1 = s\<lparr>menu_checked := (menu_checked s)(i := b)\<rparr>
      in if E (menu_checked s i) b then cb (Activated i) s1 else Some s1)"

definition uncheck_all :: "(bool \<Rightarrow> bool \<Rightarrow> bool) \<Rightarrow> 'd callback \<Rightarrow> 'd gui \<Rightarrow> 'd gui option" where
  "uncheck_all E cb s = do {
     s1 \<leftarrow> set_active E cb Item_Bluetooth False s;
     s2 \<leftarrow> set_active E cb Item_Wlan False s1;
     s3 \<leftarrow> set_active E cb Item_Coexist False s2;
     set_active E cb Item_Unplug False s3
   }"

text \<open>\<^verbatim>\<open>MODE_NULL\<close> is \<open>None\<close>.\<close>

definition adjust_menu_item ::
  "(bool \<Rightarrow> bool \<Rightarrow> bool) \<Rightarrow> 'd callback \<Rightarrow> menu_item option \<Rightarrow> 'd gui \<Rightarrow> 'd gui option" where
  "adjust_menu_item E cb mode s = do {
     s1 \<leftarrow> uncheck_all E cb s;
     case mode of None \<Rightarrow> Some s1 | Some i \<Rightarrow> set_active E cb i True s1
   }"

fun item_of :: "wb_state \<Rightarrow> menu_item" where
  "item_of BT_only = Item_Bluetooth"
| "item_of WLAN_only = Item_Wlan"
| "item_of Both = Item_Coexist"
| "item_of Neither = Item_Unplug"
| "item_of Undefined = Item_Unplug"

definition adjust_menu_item_auto ::
  "(bool \<Rightarrow> bool \<Rightarrow> bool) \<Rightarrow> 'd callback \<Rightarrow> 'd bus_dev \<Rightarrow> 'd gui \<Rightarrow> 'd gui option" where
  "adjust_menu_item_auto E cb D s = do {
     s1 \<leftarrow> uncheck_all E cb (s\<lparr>g_ismenuclicked := False\<rparr>);
     s2 \<leftarrow> gui_adjust_func_state D s1;
     set_active E cb (item_of (g_state s2)) True s2
   }"

section \<open>Pending events\<close>

fun run_events :: "'d callback \<Rightarrow> gui_event list \<Rightarrow> 'd gui \<Rightarrow> 'd gui option" where
  "run_events cb [] s = Some s"
| "run_events cb (e # es) s = do { s1 \<leftarrow> cb e s; run_events cb es s1 }"

definition refresh_gui_and_timeout :: "'d callback \<Rightarrow> 'd gui \<Rightarrow> 'd gui option" where
  "refresh_gui_and_timeout cb s =
     (case batches s of [] \<Rightarrow> Some s | b # bs \<Rightarrow> run_events cb b (s\<lparr>batches := bs\<rparr>))"

section \<open>Parts of the callbacks\<close>

text \<open>
  The guard on entry: a callback that no click of the user led to returns at once, and so does one
  during another.
\<close>

definition menu_command :: "('d gui \<Rightarrow> 'd gui option) \<Rightarrow> 'd gui \<Rightarrow> 'd gui option" where
  "menu_command body s =
     (if \<not> g_ismenuclicked s then Some s
      else let s1 = s\<lparr>g_ismenuclicked := False\<rparr>
           in if g_isclickinginprogress s1 then Some s1
              else body (s1\<lparr>g_isclickinginprogress := True\<rparr>))"

text \<open>The start of every command: the menu is greyed, and the state asked for.\<close>

definition command_state :: "(bool \<Rightarrow> bool \<Rightarrow> bool) \<Rightarrow> 'd callback \<Rightarrow> 'd bus_dev \<Rightarrow> 'd gui \<Rightarrow> 'd gui option" where
  "command_state E cb D s = do {
     s1 \<leftarrow> adjust_menu_item E cb None (gray_wb_menu s);
     gui_adjust_func_state D s1
   }"

text \<open>\<^verbatim>\<open>call_shell_for_btEnv\<close> waits for the script and then sleeps.\<close>

definition call_shell_for_btEnv :: "'d bus_dev \<Rightarrow> 'd gui \<Rightarrow> 'd gui" where
  "call_shell_for_btEnv D s = usleep D 1000000 (run_script D s)"

definition gui_start ::
  "'d bus_dev \<Rightarrow> u8 list \<Rightarrow> u32 \<Rightarrow> nat \<Rightarrow> nat \<Rightarrow> 'd gui \<Rightarrow> (bool \<times> 'd gui) option" where
  "gui_start D name sn us1 us2 s = do {
     (r, s1) \<leftarrow> gui_download_dsp_code D sn s;
     (a, s2) \<leftarrow> gui_add_device D name sn (usleep D us1 s1);
     gui_is_download_dspcode_ok D (usleep D us2 s2)
   }"

text \<open>A start in between which the flag of the other device's initialisation is set.\<close>

definition gui_start_beside ::
  "'d bus_dev \<Rightarrow> u8 list \<Rightarrow> u32 \<Rightarrow> u32 \<Rightarrow> 'd gui \<Rightarrow> (bool \<times> 'd gui) option" where
  "gui_start_beside D name sn flag s = do {
     (r, s1) \<leftarrow> gui_download_dsp_code D sn s;
     (f, s2) \<leftarrow> gui_set_init_flag D flag (usleep D 500000 s1);
     (a, s3) \<leftarrow> gui_add_device D name sn (usleep D 500000 s2);
     gui_is_download_dspcode_ok D (usleep D 1000000 s3)
   }"

text \<open>What a command does when its device did not start; the result tells the caller to stop.\<close>

definition not_started ::
  "(bool \<Rightarrow> bool \<Rightarrow> bool) \<Rightarrow> 'd callback \<Rightarrow> 'd bus_dev \<Rightarrow> wb_state \<Rightarrow> 'd gui \<Rightarrow> (bool \<times> 'd gui) option" where
  "not_started E cb D t s = do {
     s1 \<leftarrow> gui_adjust_func_state D s;
     s2 \<leftarrow> adjust_menu_item E cb (Some Item_Unplug) s1;
     Some (False, finish (adjust_tooltip_text t (enable_wb_menu s2)))
   }"

text \<open>Unplugging what runs in another mode; a failure stops the command.\<close>

definition gui_clear :: "'d bus_dev \<Rightarrow> bool \<Rightarrow> ('d gui \<Rightarrow> 'd gui) \<Rightarrow> 'd gui \<Rightarrow> (bool \<times> 'd gui) option" where
  "gui_clear D needed fail s =
     (if needed
      then do {
        (ok, s1) \<leftarrow> gui_unplugdevices D s;
        if \<not> ok then Some (False, finish (fail (enable_wb_menu s1)))
        else do { s2 \<leftarrow> gui_wait_device_unplug_stable D s1; Some (True, s2) }
      }
      else Some (True, s))"

text \<open>The sequence of two parts of which the first may have stopped the command.\<close>

definition goes_on ::
  "(bool \<times> 'd gui) option \<Rightarrow> ('d gui \<Rightarrow> (bool \<times> 'd gui) option) \<Rightarrow> (bool \<times> 'd gui) option" where
  "goes_on r k = do { (go, s) \<leftarrow> r; if go then k s else Some (False, s) }"

text \<open>
  Removing one of two devices and polling until only the other is left, at most 600 times.
\<close>

fun left_alone_wait :: "'d bus_dev \<Rightarrow> u32 \<Rightarrow> nat \<Rightarrow> 'd gui \<Rightarrow> (bool \<times> 'd gui) option" where
  "left_alone_wait D sn 0 s = Some (True, s)"
| "left_alone_wait D sn (Suc n) s = do {
     (r, s1) \<leftarrow> gui_query_power_state D s;
     if g_buspowerstate s1 \<noteq> PowerOn
     then Some (False, finish (adjust_tooltip_text Neither (s1\<lparr>g_state := Neither\<rparr>)))
     else do {
       (r2, s2) \<leftarrow> gui_query_device D s1;
       let s3 = usleep D 500000 s2;
       if g_currentserialno s3 = sn then Some (True, s3) else left_alone_wait D sn n s3
     }
   }"

definition remove_one :: "'d bus_dev \<Rightarrow> u32 \<Rightarrow> u32 \<Rightarrow> 'd gui \<Rightarrow> (bool \<times> 'd gui) option" where
  "remove_one D sn left s = do {
     s1 \<leftarrow> reset_wait D 60 s;
     (r, s2) \<leftarrow> gui_remove_device D sn s1;
     left_alone_wait D left 600 (usleep D 500000 s2)
   }"

section \<open>Bluetooth\<close>

definition bt_directly ::
  "(bool \<Rightarrow> bool \<Rightarrow> bool) \<Rightarrow> 'd callback \<Rightarrow> 'd bus_dev \<Rightarrow> 'd gui \<Rightarrow> (bool \<times> 'd gui) option" where
  "bt_directly E cb D s =
     goes_on (gui_clear D (g_state s = WLAN_only) (adjust_tooltip_text BT_only) s) (\<lambda>s1.
     goes_on (if g_state s1 = WLAN_only \<or> g_state s1 = Neither
              then do {
                (ok, s2) \<leftarrow> gui_start D TDSPBTID TDSP_SERIAL_NO_BT 500000 500000 s1;
                if \<not> ok then not_started E cb D BT_only s2
                else Some (True, s2\<lparr>g_state := BT_only\<rparr>)
              }
              else Some (True, s1)) (\<lambda>s3.
     if g_state s3 = Both then remove_one D TDSP_SERIAL_NO_WLAN 1 s3 else Some (True, s3)))"

definition bt_normally ::
  "(bool \<Rightarrow> bool \<Rightarrow> bool) \<Rightarrow> 'd callback \<Rightarrow> 'd bus_dev \<Rightarrow> 'd gui \<Rightarrow> (bool \<times> 'd gui) option" where
  "bt_normally E cb D s =
     goes_on (gui_clear D (g_state s = WLAN_only \<or> g_state s = Both) (adjust_tooltip_text BT_only) s) (\<lambda>s1. do {
       (r, s2) \<leftarrow> gui_write_enum_mode D 1 s1;
       (ok, s3) \<leftarrow> gui_start D TDSPBTID TDSP_SERIAL_NO_BT 500000 500000 s2;
       if \<not> ok then not_started E cb D BT_only (s3\<lparr>g_state := Neither\<rparr>) else Some (True, s3)
     })"

definition gui_on_bluetooth ::
  "(bool \<Rightarrow> bool \<Rightarrow> bool) \<Rightarrow> 'd callback \<Rightarrow> 'd bus_dev \<Rightarrow> 'd gui \<Rightarrow> 'd gui option" where
  "gui_on_bluetooth E cb D = menu_command (\<lambda>s. do {
     s1 \<leftarrow> command_state E cb D s;
     if \<not> g_iscardin s1 then Some (finish (adjust_tooltip_text BT_only (s1\<lparr>g_state := Neither\<rparr>)))
     else if g_state s1 = BT_only
     then do {
       s2 \<leftarrow> adjust_menu_item E cb (Some Item_Bluetooth) s1;
       Some (finish (adjust_tooltip_text BT_only (enable_wb_menu s2)))
     }
     else do {
       (go, s3) \<leftarrow> (if g_bDirectlyFlag s1 then bt_directly E cb D s1 else bt_normally E cb D s1);
       if \<not> go then Some s3
       else do {
         s4 \<leftarrow> adjust_menu_item E cb (Some Item_Bluetooth) (adjust_tooltip_text BT_only (s3\<lparr>g_state := BT_only\<rparr>));
         s5 \<leftarrow> refresh_gui_and_timeout cb (enable_wb_menu s4);
         Some (finish (call_shell_for_btEnv D s5))
       }
     }
   })"

section \<open>WLAN\<close>

definition wlan_directly ::
  "(bool \<Rightarrow> bool \<Rightarrow> bool) \<Rightarrow> 'd callback \<Rightarrow> 'd bus_dev \<Rightarrow> 'd gui \<Rightarrow> (bool \<times> 'd gui) option" where
  "wlan_directly E cb D s =
     goes_on (gui_clear D (g_state s = BT_only) (adjust_tooltip_text WLAN_only) s) (\<lambda>s1.
     goes_on (if g_state s1 = BT_only \<or> g_state s1 = Neither
              then do {
                (r, s2) \<leftarrow> gui_write_enum_mode D 2 s1;
                (ok, s3) \<leftarrow> gui_start D TDSPWLANID TDSP_SERIAL_NO_WLAN 500000 500000 s2;
                if \<not> ok then not_started E cb D WLAN_only (s3\<lparr>g_state := Neither\<rparr>)
                else Some (True, s3\<lparr>g_state := WLAN_only\<rparr>)
              }
              else Some (True, s1)) (\<lambda>s4.
     if g_state s4 = Both
     then goes_on (remove_one D TDSP_SERIAL_NO_BT 2 s4) (\<lambda>s5. do {
       (r, s6) \<leftarrow> gui_write_enum_mode D 2 s5;
       Some (True, s6)
     })
     else Some (True, s4)))"

definition wlan_normally ::
  "(bool \<Rightarrow> bool \<Rightarrow> bool) \<Rightarrow> 'd callback \<Rightarrow> 'd bus_dev \<Rightarrow> 'd gui \<Rightarrow> (bool \<times> 'd gui) option" where
  "wlan_normally E cb D s =
     goes_on (gui_clear D (g_state s = BT_only \<or> g_state s = Both) (adjust_tooltip_text WLAN_only) s) (\<lambda>s1. do {
       (r, s2) \<leftarrow> gui_write_enum_mode D 2 s1;
       (ok, s3) \<leftarrow> gui_start D TDSPWLANID TDSP_SERIAL_NO_WLAN 500000 1000000 s2;
       if \<not> ok then not_started E cb D WLAN_only (s3\<lparr>g_state := Neither\<rparr>) else Some (True, s3)
     })"

definition gui_on_wlan ::
  "(bool \<Rightarrow> bool \<Rightarrow> bool) \<Rightarrow> 'd callback \<Rightarrow> 'd bus_dev \<Rightarrow> 'd gui \<Rightarrow> 'd gui option" where
  "gui_on_wlan E cb D = menu_command (\<lambda>s. do {
     s1 \<leftarrow> command_state E cb D s;
     if \<not> g_iscardin s1
     then adjust_menu_item E cb (Some Item_Unplug)
            (adjust_tooltip_text WLAN_only (enable_wb_menu (finish (s1\<lparr>g_state := Neither\<rparr>))))
     else if g_state s1 = WLAN_only
     then do {
       s2 \<leftarrow> adjust_menu_item E cb (Some Item_Wlan) s1;
       Some (finish (adjust_tooltip_text WLAN_only (enable_wb_menu s2)))
     }
     else do {
       let s2 = usleep D 200000 s1;
       (go, s3) \<leftarrow> (if g_bDirectlyFlag s2 then wlan_directly E cb D s2 else wlan_normally E cb D s2);
       if \<not> go then Some s3
       else do {
         s4 \<leftarrow> adjust_menu_item E cb (Some Item_Wlan) (s3\<lparr>g_state := WLAN_only\<rparr>);
         s5 \<leftarrow> refresh_gui_and_timeout cb (enable_wb_menu (adjust_tooltip_text WLAN_only s4));
         Some (finish s5)
       }
     }
   })"

section \<open>Both devices\<close>

text \<open>The WLAN device has to have started before the Bluetooth device is plugged in.\<close>

definition start_second :: "'d bus_dev \<Rightarrow> nat \<Rightarrow> 'd gui \<Rightarrow> (bool \<times> 'd gui) option" where
  "start_second D us s = do {
     (on, s1) \<leftarrow> started_wait D s;
     if \<not> on then Some (False, enable_wb_menu s1)
     else do {
       (f, s2) \<leftarrow> gui_set_init_flag D 2 s1;
       (ok, s3) \<leftarrow> gui_start D TDSPBTID TDSP_SERIAL_NO_BT us 1000000 (usleep D 500000 s2);
       if \<not> ok then Some (False, enable_wb_menu (finish s3)) else Some (True, s3)
     }
   }"

definition beside ::
  "(bool \<Rightarrow> bool \<Rightarrow> bool) \<Rightarrow> 'd callback \<Rightarrow> 'd bus_dev \<Rightarrow> u8 list \<Rightarrow> u32 \<Rightarrow> u32 \<Rightarrow> 'd gui \<Rightarrow> (bool \<times> 'd gui) option" where
  "beside E cb D name sn flag s = do {
     (r, s1) \<leftarrow> gui_write_enum_mode D 3 s;
     (ok, s2) \<leftarrow> gui_start_beside D name sn flag s1;
     if \<not> ok then not_started E cb D Neither s2 else Some (True, s2)
   }"

definition coexist_directly ::
  "(bool \<Rightarrow> bool \<Rightarrow> bool) \<Rightarrow> 'd callback \<Rightarrow> 'd bus_dev \<Rightarrow> 'd gui \<Rightarrow> (bool \<times> 'd gui) option" where
  "coexist_directly E cb D s =
     goes_on (if g_state s = BT_only then beside E cb D TDSPWLANID TDSP_SERIAL_NO_WLAN 1 s else Some (True, s)) (\<lambda>s1.
     goes_on (if g_state s1 = WLAN_only then beside E cb D TDSPBTID TDSP_SERIAL_NO_BT 2 s1 else Some (True, s1)) (\<lambda>s2.
     if g_state s2 = Neither
     then do {
       (r, s3) \<leftarrow> gui_write_enum_mode D 3 s2;
       (ok, s4) \<leftarrow> gui_start D TDSPWLANID TDSP_SERIAL_NO_WLAN 200000 1000000 s3;
       if \<not> ok then not_started E cb D Neither s4 else start_second D 200000 s4
     }
     else Some (True, s2)))"

definition coexist_normally ::
  "(bool \<Rightarrow> bool \<Rightarrow> bool) \<Rightarrow> 'd callback \<Rightarrow> 'd bus_dev \<Rightarrow> 'd gui \<Rightarrow> (bool \<times> 'd gui) option" where
  "coexist_normally E cb D s =
     goes_on (gui_clear D (g_state s = BT_only \<or> g_state s = WLAN_only) id s) (\<lambda>s1. do {
       (r, s2) \<leftarrow> gui_write_enum_mode D 3 s1;
       (ok, s3) \<leftarrow> gui_start D TDSPWLANID TDSP_SERIAL_NO_WLAN 200000 1000000 s2;
       if \<not> ok then not_started E cb D Neither (s3\<lparr>g_state := Neither\<rparr>) else start_second D 500000 s3
     })"

definition gui_on_coexist ::
  "(bool \<Rightarrow> bool \<Rightarrow> bool) \<Rightarrow> 'd callback \<Rightarrow> 'd bus_dev \<Rightarrow> 'd gui \<Rightarrow> 'd gui option" where
  "gui_on_coexist E cb D = menu_command (\<lambda>s. do {
     s1 \<leftarrow> command_state E cb D s;
     if \<not> g_iscardin s1 then Some (enable_wb_menu (finish (s1\<lparr>g_state := Neither\<rparr>)))
     else if g_state s1 = Both
     then do {
       s2 \<leftarrow> adjust_menu_item E cb (Some Item_Coexist) s1;
       Some (enable_wb_menu (finish s2))
     }
     else do {
       let s2 = usleep D 200000 s1;
       (go, s3) \<leftarrow> (if g_bDirectlyFlag s2 then coexist_directly E cb D s2 else coexist_normally E cb D s2);
       if \<not> go then Some s3
       else do {
         s4 \<leftarrow> refresh_gui_and_timeout cb s3;
         s5 \<leftarrow> adjust_menu_item E cb (Some Item_Coexist) (adjust_tooltip_text Both (s4\<lparr>g_state := Both\<rparr>));
         s6 \<leftarrow> refresh_gui_and_timeout cb (enable_wb_menu s5);
         Some (call_shell_for_btEnv D (finish s6))
       }
     }
   })"

section \<open>Unplugging\<close>

definition gui_on_unplug ::
  "(bool \<Rightarrow> bool \<Rightarrow> bool) \<Rightarrow> 'd callback \<Rightarrow> 'd bus_dev \<Rightarrow> 'd gui \<Rightarrow> 'd gui option" where
  "gui_on_unplug E cb D = menu_command (\<lambda>s. do {
     s1 \<leftarrow> command_state E cb D s;
     if g_state s1 = Neither
     then do {
       s2 \<leftarrow> adjust_menu_item E cb (Some Item_Unplug) s1;
       Some (finish (enable_wb_menu s2))
     }
     else do {
       (go, s3) \<leftarrow> gui_clear D (g_state s1 = BT_only \<or> g_state s1 = WLAN_only \<or> g_state s1 = Both) id s1;
       if \<not> go then Some s3
       else do {
         s4 \<leftarrow> adjust_menu_item E cb (Some Item_Unplug) (adjust_tooltip_text Neither s3);
         s5 \<leftarrow> refresh_gui_and_timeout cb (enable_wb_menu (s4\<lparr>g_state := Neither\<rparr>));
         Some (finish s5)
       }
     }
   })"

definition on_exit1_activate :: "'d bus_dev \<Rightarrow> 'd gui \<Rightarrow> 'd gui option" where
  "on_exit1_activate D s = Some ((usleep D 2000000 s)\<lparr>quitting := True\<rparr>)"

end
