(* ===== verification/Gui_Main.thy ===== *)
theory Gui_Main
  imports Gui_Menu Uwb_Version
begin

text \<open>
  The events of the graphical utility and its \<^verbatim>\<open>main\<close> (\<^verbatim>\<open>main.c\<close>).  Delivering an
  event may deliver others from inside; the number of levels is an argument of \<open>deliver\<close>, and
  \<^verbatim>\<open>Gui_Spec\<close> shows how many are enough.
\<close>

section \<open>The tray icon and the timer\<close>

definition popup_menu ::
  "(bool \<Rightarrow> bool \<Rightarrow> bool) \<Rightarrow> 'd callback \<Rightarrow> 'd bus_dev \<Rightarrow> 'd gui \<Rightarrow> 'd gui option" where
  "popup_menu E cb D s = do {
     s1 \<leftarrow> adjust_menu_item_auto E cb D s;
     Some (s1\<lparr>g_ismenuclicked := True\<rparr>)
   }"

definition popup_callback ::
  "(bool \<Rightarrow> bool \<Rightarrow> bool) \<Rightarrow> 'd callback \<Rightarrow> 'd bus_dev \<Rightarrow> 'd gui \<Rightarrow> 'd gui option" where
  "popup_callback E cb D s = (if g_isclickinginprogress s then Some s else popup_menu E cb D s)"

definition activate_callback ::
  "(bool \<Rightarrow> bool \<Rightarrow> bool) \<Rightarrow> 'd callback \<Rightarrow> 'd bus_dev \<Rightarrow> 'd gui \<Rightarrow> 'd gui option" where
  "activate_callback E cb D s =
     (if g_isclickinginprogress s then Some s
      else if query_blinking s then Some (disable_blinking s)
      else popup_menu E cb D s)"

text \<open>The timer sets the menu and the icon by the power of the card.\<close>

definition power_icon :: "u32 \<Rightarrow> int" where
  "power_icon p =
     (if p = PowerOn then ICON_GREEN else if p = 0 then ICON_GRAY
      else if p = 2 \<or> p = 3 then ICON_RED else ICON_GRAY)"

definition watch_time_out_function :: "'d bus_dev \<Rightarrow> 'd gui \<Rightarrow> 'd gui option" where
  "watch_time_out_function D s =
     (if g_isclickinginprogress s then Some s
      else do {
        (r, s1) \<leftarrow> gui_query_device D s;
        (menustate, iconindex, s2) \<leftarrow>
          (if r = TDSP_SERIAL_NO_NOCARD then Some (False, ICON_GRAY, s1)
           else do {
             (p, s2) \<leftarrow> gui_query_power_state D s1;
             Some (g_buspowerstate s2 = PowerOn, power_icon (g_buspowerstate s2), s2)
           });
        let s3 = (if menustate then enable_wb_menu s2 else gray_wb_menu s2);
        Some (if g_iconindex s3 \<noteq> iconindex then adjust_icon iconindex (s3\<lparr>g_iconindex := iconindex\<rparr>) else s3)
      })"

section \<open>Events\<close>

definition menu_callback ::
  "(bool \<Rightarrow> bool \<Rightarrow> bool) \<Rightarrow> 'd callback \<Rightarrow> 'd bus_dev \<Rightarrow> menu_item \<Rightarrow> 'd gui \<Rightarrow> 'd gui option" where
  "menu_callback E cb D i s =
     (case i of
        Item_Bluetooth \<Rightarrow> gui_on_bluetooth E cb D s
      | Item_Wlan \<Rightarrow> gui_on_wlan E cb D s
      | Item_Coexist \<Rightarrow> gui_on_coexist E cb D s
      | Item_Unplug \<Rightarrow> gui_on_unplug E cb D s)"

text \<open>
  A click of the user reaches an item that is shown and sensitive, and changes its check before
  the callback is called.
\<close>

definition user_click ::
  "(bool \<Rightarrow> bool \<Rightarrow> bool) \<Rightarrow> 'd callback \<Rightarrow> 'd bus_dev \<Rightarrow> menu_item \<Rightarrow> 'd gui \<Rightarrow> 'd gui option" where
  "user_click E cb D i s =
     (if menu_visible s i \<and> menu_sensitive s i
      then menu_callback E cb D i (s\<lparr>menu_checked := (menu_checked s)(i := \<not> menu_checked s i)\<rparr>)
      else Some s)"

definition handle_event ::
  "(bool \<Rightarrow> bool \<Rightarrow> bool) \<Rightarrow> 'd callback \<Rightarrow> 'd bus_dev \<Rightarrow> gui_event \<Rightarrow> 'd gui \<Rightarrow> 'd gui option" where
  "handle_event E cb D ev s =
     (case ev of
        Icon_Clicked \<Rightarrow> activate_callback E cb D s
      | Popup \<Rightarrow> popup_callback E cb D s
      | Menu_Click i \<Rightarrow> user_click E cb D i s
      | Activated i \<Rightarrow> menu_callback E cb D i s
      | Timer \<Rightarrow> watch_time_out_function D s
      | About \<Rightarrow> Some s
      | Exit \<Rightarrow> on_exit1_activate D s)"

text \<open>What the handler of an event delivers from inside is one level below it.\<close>

fun deliver :: "(bool \<Rightarrow> bool \<Rightarrow> bool) \<Rightarrow> 'd bus_dev \<Rightarrow> nat \<Rightarrow> gui_event \<Rightarrow> 'd gui \<Rightarrow> 'd gui option" where
  "deliver E D 0 ev s = None"
| "deliver E D (Suc n) ev s = handle_event E (deliver E D n) D ev s"

text \<open>\<^verbatim>\<open>gtk_main\<close> runs the events until one of them is the exit.\<close>

fun gtk_main :: "'d callback \<Rightarrow> gui_event list \<Rightarrow> 'd gui \<Rightarrow> 'd gui option" where
  "gtk_main cb [] s = Some s"
| "gtk_main cb (e # es) s = (if quitting s then Some s else do { s1 \<leftarrow> cb e s; gtk_main cb es s1 })"

section \<open>Start\<close>

definition tdsp_init_menu ::
  "(bool \<Rightarrow> bool \<Rightarrow> bool) \<Rightarrow> 'd callback \<Rightarrow> 'd bus_dev \<Rightarrow> 'd gui \<Rightarrow> 'd gui option" where
  "tdsp_init_menu E cb D s = do {
     (r, s1) \<leftarrow> gui_query_power_state D s;
     if g_buspowerstate s1 = PowerOn
     then let s2 = s1\<lparr>g_iconindex := ICON_GREEN\<rparr>
          in if g_defaultmode s2 = 1 then gui_on_bluetooth E cb D (s2\<lparr>g_ismenuclicked := True\<rparr>)
             else if g_defaultmode s2 = 2 then gui_on_wlan E cb D (s2\<lparr>g_ismenuclicked := True\<rparr>)
             else if g_defaultmode s2 = 3 then gui_on_coexist E cb D (s2\<lparr>g_ismenuclicked := True\<rparr>)
             else if g_defaultmode s2 = 0 then gui_on_unplug E cb D (s2\<lparr>g_ismenuclicked := True\<rparr>)
             else Some s2
     else let s2 = adjust_icon ICON_GRAY ((gray_wb_menu (s1\<lparr>g_ismenuclicked := False\<rparr>))\<lparr>g_iconindex := ICON_GRAY\<rparr>)
          in adjust_menu_item E cb
               (if g_rawenummode s2 = 1 then Some Item_Bluetooth else if g_rawenummode s2 = 2 then Some Item_Wlan
                else if g_rawenummode s2 = 3 then Some Item_Coexist else if g_rawenummode s2 = 0 then Some Item_Unplug
                else None) s2
   }"

text \<open>
  What \<^verbatim>\<open>main\<close> meets: the configuration file and its lock, and the number of lines the
  process list has for a name (\<open>None\<close> when it cannot be asked for).
\<close>

record gui_env =
  gui_conf :: "u8 list option"
  gui_conf_rw :: bool
  gui_lock_granted :: bool
  processes :: "u8 list \<Rightarrow> nat option"

definition gui_maincontrol :: "gui_env \<Rightarrow> int" where
  "gui_maincontrol e = (if \<not> gui_conf_rw e then 1 else if \<not> gui_lock_granted e then 1 else 0)"

definition callpipe :: "gui_env \<Rightarrow> u8 list \<Rightarrow> nat" where
  "callpipe e name = (case processes e name of None \<Rightarrow> 1 | Some n \<Rightarrow> n)"

text \<open>The name behind the last slash, cut to 62 characters; a name without one has to fit.\<close>

definition query_self_process_num :: "gui_env \<Rightarrow> u8 list \<Rightarrow> nat option" where
  "query_self_process_num e argv0 =
     (if 0x2F \<notin> set argv0 then if 64 \<le> length argv0 then None else Some (callpipe e argv0)
      else Some (callpipe e (take 62 (rev (takeWhile (\<lambda>c. c \<noteq> 0x2F) (rev argv0))))))"

text \<open>The globals when the program starts: zero, but for \<^verbatim>\<open>g_state\<close>.\<close>

definition gui_prepare :: "'d bus_dev \<Rightarrow> gui_env \<Rightarrow> 'd gui \<Rightarrow> 'd gui option" where
  "gui_prepare D e s = do {
     (r, s1) \<leftarrow> gui_get_config_from_file (gui_conf e)
                  (s\<lparr>g_allowedmodes := [False, False, False], g_defaultmode := 3\<rparr>);
     (i, s2) \<leftarrow> initial_wb_defaultmode D (create_menu1 s1);
     (h, s3) \<leftarrow> gui_set_hotkey_flag D (of_int (m_nHotKeyFlag s2)) s2;
     (a, s4) \<leftarrow> set_antenna_flag D (of_int (m_nAntennaFlag s3)) s3;
     Some s4
   }"

text \<open>The levels of events inside events.\<close>

definition levels :: nat where
  "levels = 3"

definition gui_main ::
  "(bool \<Rightarrow> bool \<Rightarrow> bool) \<Rightarrow> 'd bus_dev \<Rightarrow> gui_env \<Rightarrow> u8 list \<Rightarrow> gui_event list \<Rightarrow> 'd gui \<Rightarrow> 'd gui option" where
  "gui_main E D e argv0 evs s =
     (if gui_maincontrol e \<noteq> 0 then Some s
      else do {
        n \<leftarrow> query_self_process_num e argv0;
        if n \<noteq> 1 then Some s
        else do {
          s1 \<leftarrow> gui_prepare D e s;
          s2 \<leftarrow> refresh_gui_and_timeout (deliver E D levels) s1;
          s3 \<leftarrow> tdsp_init_menu E (deliver E D levels) D s2;
          s4 \<leftarrow> adjust_menu_item_auto E (deliver E D levels) D s3;
          gtk_main (deliver E D levels) evs s4
        }
      })"

end
