(* ===== verification/Gui_Spec.thy ===== *)
theory Gui_Spec
  imports Gui_Main Uwb_Sys
begin

text \<open>
  The graphical utility over any device that keeps the contract \<open>wb_bus\<close>.  The locale \<open>gui_bus\<close>
  adds the contract of the callback that delivers events: it does nothing for an item the program
  itself checks, and during a command no event changes more than the check marks.  Inside it the
  commands of the menu are shown to return and to leave the devices of their mode started; at the
  end the model of the program's own callback is shown to keep that contract.
\<close>

section \<open>What the parts keep\<close>

text \<open>A callback is running: no further click is let in.\<close>

definition busy :: "'d gui \<Rightarrow> bool" where
  "busy s \<longleftrightarrow> \<not> g_ismenuclicked s \<and> g_isclickinginprogress s"

text \<open>The globals no command writes.\<close>

definition kept :: "'d gui \<Rightarrow> 'd gui \<Rightarrow> bool" where
  "kept s s' \<longleftrightarrow> malloc_ok s' = malloc_ok s \<and> g_allowedmodes s' = g_allowedmodes s \<and>
     g_bDirectlyFlag s' = g_bDirectlyFlag s \<and> menu_visible s' = menu_visible s \<and> g_defaultmode s' = g_defaultmode s"

lemma kept_refl [simp]: "kept s s"
  by (simp add: kept_def)

lemma kept_trans: "kept a b \<Longrightarrow> kept b c \<Longrightarrow> kept a c"
  by (simp add: kept_def)

text \<open>The items that are let in depend on the allowed modes alone.\<close>

lemma items_kept: "g_allowedmodes s' = g_allowedmodes s \<Longrightarrow> allowed_item s' = allowed_item s"
  by (simp add: allowed_item_def fun_eq_iff split: menu_item.split)

text \<open>What an event may do during a command.\<close>

definition still :: "('d \<Rightarrow> bool) \<Rightarrow> ('d \<Rightarrow> u32 set) \<Rightarrow> 'd gui \<Rightarrow> 'd gui \<Rightarrow> bool" where
  "still ok on s s' \<longleftrightarrow> ok (dev s') \<and> on (dev s') = on (dev s) \<and> busy s' \<and> g_state s' = g_state s \<and>
     menu_sensitive s' = menu_sensitive s \<and> batches s' = batches s \<and> kept s s'"

lemma still_trans: "still ok on a b \<Longrightarrow> still ok on b c \<Longrightarrow> still ok on a c"
  using kept_trans by (auto simp: still_def)

text \<open>The part of the globals behind those of \<^verbatim>\<open>uwbtool\<close>.\<close>

lemma gui_part:
  assumes "wb.more s' = wb.more s"
  shows "g_ismenuclicked s' = g_ismenuclicked s" "g_bDirectlyFlag s' = g_bDirectlyFlag s"
    "menu_visible s' = menu_visible s" "menu_sensitive s' = menu_sensitive s" "menu_checked s' = menu_checked s"
    "batches s' = batches s" "quitting s' = quitting s"
  using assms by (cases s; cases s'; simp)+

lemma moved_gui:
  assumes "moved ok on s S s'"
  shows "ok (dev s')" "on (dev s') = S" "kept s s'" "busy s' = busy s" "g_ismenuclicked s' = g_ismenuclicked s"
    "g_isclickinginprogress s' = g_isclickinginprogress s" "menu_sensitive s' = menu_sensitive s"
    "menu_checked s' = menu_checked s" "batches s' = batches s"
proof -
  have "wb.more s' = wb.more s" "malloc_ok s' = malloc_ok s" "g_allowedmodes s' = g_allowedmodes s"
    "g_isclickinginprogress s' = g_isclickinginprogress s" "g_defaultmode s' = g_defaultmode s" "ok (dev s')"
    "on (dev s') = S"
    using assms by (simp_all add: moved_def same_config_def)
  then show "ok (dev s')" "on (dev s') = S" "kept s s'" "busy s' = busy s" "g_ismenuclicked s' = g_ismenuclicked s"
    "g_isclickinginprogress s' = g_isclickinginprogress s" "menu_sensitive s' = menu_sensitive s"
    "menu_checked s' = menu_checked s" "batches s' = batches s"
    using gui_part by (auto simp: kept_def busy_def)
qed

lemma all_items: "(\<forall>i. P i) \<longleftrightarrow> P Item_Bluetooth \<and> P Item_Wlan \<and> P Item_Coexist \<and> P Item_Unplug"
  by (metis menu_item.exhaust)

section \<open>What the commands make\<close>

text \<open>
  What the command of an item makes of the devices \<open>S0\<close> that are started: \<open>S\<close>, of which the
  globals say \<open>g\<close>.  The devices of \<open>W\<close> start whenever they are asked to.
\<close>

definition reached :: "u32 set \<Rightarrow> menu_item \<Rightarrow> u32 set \<Rightarrow> u32 set \<Rightarrow> wb_state \<Rightarrow> bool" where
  "reached W i S0 S g \<longleftrightarrow>
     (case i of
        Item_Bluetooth \<Rightarrow> g = mode_of S \<and> (S = {1} \<or> S = {} \<and> 1 \<notin> W \<and> S0 \<noteq> {1})
      | Item_Wlan \<Rightarrow> g = mode_of S \<and> (S = {2} \<or> S = {} \<and> 2 \<notin> W \<and> S0 \<noteq> {2})
      | Item_Coexist \<Rightarrow> g = (if S = {} then Neither else Both) \<and>
          (S = {1, 2} \<or> S0 \<noteq> {1, 2} \<and> (S = {2} \<and> 1 \<notin> W \<or> S = {} \<and> 2 \<notin> W))
      | Item_Unplug \<Rightarrow> S = {} \<and> g = Neither)"

text \<open>The item of the mode the program starts with.\<close>

definition start_item :: "int \<Rightarrow> menu_item option" where
  "start_item d =
     (if d = 1 then Some Item_Bluetooth else if d = 2 then Some Item_Wlan else if d = 3 then Some Item_Coexist
      else if d = 0 then Some Item_Unplug else None)"

text \<open>The events by which an item's callback is called.\<close>

definition is_click :: "gui_event \<Rightarrow> bool" where
  "is_click ev \<longleftrightarrow> (\<exists>i. ev = Menu_Click i \<or> ev = Activated i)"

section \<open>Events during a command\<close>

text \<open>The program's own callback, at every level, does nothing during a command.\<close>

lemma unclicked_callback: "\<not> g_ismenuclicked s \<Longrightarrow> menu_callback E cb D i s = Some s"
  by (cases i) (simp_all add: menu_callback_def gui_on_bluetooth_def gui_on_wlan_def gui_on_coexist_def
      gui_on_unplug_def menu_command_def)

lemma deliver_activated: "\<not> g_ismenuclicked s \<Longrightarrow> deliver E D (Suc n) (Activated i) s = Some s"
  by (simp add: handle_event_def unclicked_callback)

context wb_bus begin

lemma deliver_busy:
  assumes "ok (dev s)" "busy s"
  shows "\<exists>s'. deliver E D (Suc n) ev s = Some s' \<and> still ok on s s'"
proof -
  have "\<not> g_ismenuclicked s" "g_isclickinginprogress s" using assms(2) by (simp_all add: busy_def)
  then show ?thesis
    using assms sleep_ok
    by (cases ev)
      (auto simp: handle_event_def activate_callback_def popup_callback_def user_click_def unclicked_callback
        watch_time_out_function_def on_exit1_activate_def still_def busy_def kept_def usleep_def)
qed

end

section \<open>The contract of the callback\<close>

locale gui_bus = wb_bus D ok ready on willing
  for D :: "'d bus_dev" and ok ready :: "'d \<Rightarrow> bool" and on :: "'d \<Rightarrow> u32 set" and willing :: "u32 set" +
  fixes E :: "bool \<Rightarrow> bool \<Rightarrow> bool"
    and cb :: "'d callback"
  assumes activated_law: "\<not> g_ismenuclicked s \<Longrightarrow> cb (Activated i) s = Some s"
    and busy_law: "ok (dev s) \<Longrightarrow> busy s \<Longrightarrow> \<exists>s'. cb ev s = Some s' \<and> still ok on s s'"

context gui_bus begin

section \<open>Menu and events\<close>

lemma active_set:
  "\<not> g_ismenuclicked s \<Longrightarrow> set_active E cb i b s = Some (s\<lparr>menu_checked := (menu_checked s)(i := b)\<rparr>)"
  by (simp add: set_active_def Let_def activated_law)

lemma all_unchecked:
  assumes "\<not> g_ismenuclicked s"
  shows "uncheck_all E cb s = Some (s\<lparr>menu_checked := (\<lambda>i. False)\<rparr>)"
proof -
  have "(menu_checked s)(Item_Bluetooth := False, Item_Wlan := False, Item_Coexist := False, Item_Unplug := False) =
      (\<lambda>i. False)"
    by (simp add: fun_eq_iff all_items)
  then show ?thesis using assms by (simp add: uncheck_all_def active_set)
qed

lemma menu_adjusted:
  assumes "\<not> g_ismenuclicked s"
  shows "adjust_menu_item E cb m s = Some (s\<lparr>menu_checked := (\<lambda>i. m = Some i)\<rparr>)"
proof (cases m)
  case (Some j)
  have "(\<lambda>i. False)(j := True) = (\<lambda>i. Some j = Some i)" by (auto simp: fun_eq_iff)
  then show ?thesis using assms Some by (simp add: adjust_menu_item_def all_unchecked active_set)
qed (use assms in \<open>simp add: adjust_menu_item_def all_unchecked\<close>)

lemma events_run:
  assumes "ok (dev s)" "busy s"
  shows "\<exists>s'. run_events cb es s = Some s' \<and> still ok on s s'"
  using assms
proof (induction es arbitrary: s)
  case Nil
  then show ?case by (simp add: still_def)
next
  case (Cons e es)
  obtain s1 where 1: "cb e s = Some s1" "still ok on s s1" using busy_law [OF Cons.prems] by blast
  then obtain s' where "run_events cb es s1 = Some s'" "still ok on s1 s'"
    using Cons.IH [of s1] by (auto simp: still_def)
  then show ?case using 1 still_trans by auto
qed

lemma refreshed:
  assumes "ok (dev s)" "busy s"
  obtains s' where "refresh_gui_and_timeout cb s = Some s'" "ok (dev s')" "on (dev s') = on (dev s)" "busy s'"
    "g_state s' = g_state s" "kept s s'" "menu_sensitive s' = menu_sensitive s"
proof (cases "batches s")
  case Nil
  then show ?thesis using that [of s] assms by (simp add: refresh_gui_and_timeout_def)
next
  case (Cons b bs)
  obtain s' where "run_events cb b (s\<lparr>batches := bs\<rparr>) = Some s'" "still ok on (s\<lparr>batches := bs\<rparr>) s'"
    using events_run [of "s\<lparr>batches := bs\<rparr>" b] assms by (auto simp: busy_def)
  then show ?thesis using that [of s'] Cons by (simp add: refresh_gui_and_timeout_def still_def kept_def)
qed

section \<open>Parts of the commands\<close>

text \<open>How a command begins.\<close>

definition begun :: "'d gui \<Rightarrow> 'd gui \<Rightarrow> bool" where
  "begun s s1 \<longleftrightarrow> g_iscardin s1 \<and> g_state s1 = mode_of (on (dev s)) \<and> ok (dev s1) \<and> on (dev s1) = on (dev s) \<and>
     busy s1 \<and> kept s s1"

text \<open>How it ends: \<open>S\<close> is started, the globals say so, and clicks are let in again.\<close>

definition rested :: "u32 set \<Rightarrow> wb_state \<Rightarrow> 'd gui \<Rightarrow> 'd gui \<Rightarrow> bool" where
  "rested S g s s' \<longleftrightarrow> ok (dev s') \<and> on (dev s') = S \<and> g_state s' = g \<and> \<not> g_isclickinginprogress s' \<and>
     \<not> g_ismenuclicked s' \<and> kept s s'"

lemma command_begins:
  assumes "ok (dev s)" "g_ismenuclicked s" "\<not> g_isclickinginprogress s"
  obtains s1 where "begun s s1"
    "\<And>k. menu_command (\<lambda>t. do { s1 \<leftarrow> command_state E cb D t; k s1 }) s = k s1"
proof -
  let ?t = "s\<lparr>g_ismenuclicked := False, g_isclickinginprogress := True\<rparr>"
  let ?u = "(gray_wb_menu ?t)\<lparr>menu_checked := (\<lambda>i. None = Some i)\<rparr>"
  have m: "adjust_menu_item E cb None (gray_wb_menu ?t) = Some ?u"
    by (rule menu_adjusted) (simp add: gray_wb_menu_def)
  obtain d' where d: "adjust_func_state D ?u = Some (?u\<lparr>dev := d', g_currentserialno := in_use_answer (on (dev s)),
      g_iscardin := True, g_state := mode_of (on (dev s))\<rparr>)" "ok d'" "on d' = on (dev s)"
    using adjust_state [of ?u] assms(1) by (auto simp: gray_wb_menu_def)
  let ?s1 = "?u\<lparr>dev := d', g_currentserialno := in_use_answer (on (dev s)), g_iscardin := True,
    g_state := mode_of (on (dev s))\<rparr>"
  show ?thesis
  proof (rule that)
    show "begun s ?s1" using d by (simp add: begun_def busy_def kept_def gray_wb_menu_def)
    have run: "command_state E cb D ?t = Some ?s1"
      unfolding command_state_def m gui_bus_defs using d(1) by simp
    show "menu_command (\<lambda>t. do { s1 \<leftarrow> command_state E cb D t; k s1 }) s = k ?s1" for k
      unfolding menu_command_def using assms(2,3) run by simp
  qed
qed

lemma cleared:
  assumes "ok (dev s)" "g_state s = mode_of (on (dev s))" "needed \<or> on (dev s) = {}"
  obtains s' where "gui_clear D needed f s = Some (True, s')" "moved ok on s {} s'"
proof (cases needed)
  case True
  obtain s1 where s1: "unplugdevices D s = Some (True, s1)" "moved ok on s {} s1"
    using unplugged [OF assms(1,2)] .
  have 1: "ok (dev s1)" "on (dev s1) = {}" using s1(2) by (simp_all add: moved_def)
  obtain s2 where s2: "wait_device_unplug_stable D s1 = Some s2" "moved ok on s1 {} s2"
    using unplug_stable [OF 1(1)] 1(2) by metis
  then show ?thesis
    using that [of s2] s1 True moved_trans [OF s1(2) s2(2)] by (simp add: gui_clear_def gui_bus_defs)
next
  case False
  then show ?thesis using assms that [of s] by (simp add: gui_clear_def moved_def)
qed

lemma select_wb: "dev (s\<lparr>dev := d\<rparr>) = d" "malloc_ok (s\<lparr>dev := d\<rparr>) = malloc_ok s"
  by simp_all

lemma started:
  assumes "ok (dev s)" "sn = 1 \<or> sn = 2" "sn \<notin> on (dev s)" "\<forall>n. malloc_ok s n"
  obtains s' where "gui_start D name sn us1 us2 s = Some (on (dev s') \<noteq> {}, s')"
    "moved ok on s (on (dev s')) s'" "maybe_on sn (on (dev s)) (on (dev s'))"
proof -
  obtain b d1 where d1: "tdsp_download_dsp_code D sn s = Some (b, s\<lparr>dev := d1\<rparr>)" "ok d1" "on d1 = on (dev s)"
    using code_downloaded(1) [OF assms(1), of sn] by blast
  obtain r s1 s' where s': "tdsp_add_device D name sn (usleep D us1 (s\<lparr>dev := d1\<rparr>)) = Some (r, s1)"
    "tdsp_is_download_dspcode_ok D (usleep D us2 s1) = Some (on (dev s') \<noteq> {}, s')"
    "moved ok on (s\<lparr>dev := d1\<rparr>) (on (dev s')) s'" "maybe_on sn (on (dev s)) (on (dev s'))"
    using device_plugged [of "s\<lparr>dev := d1\<rparr>" sn name us1 us2] d1(2,3) assms by (metis select_wb)
  then show ?thesis
    using d1(1) by (intro that [of s']) (auto simp: gui_start_def gui_bus_defs moved_def same_config_def)
qed

lemma given_up_gui:
  assumes "ok (dev s)" "busy s"
  obtains s' where "not_started E cb D t s = Some (False, s')" "rested (on (dev s)) (mode_of (on (dev s))) s s'"
proof -
  obtain d' where d: "adjust_func_state D s = Some (s\<lparr>dev := d', g_currentserialno := in_use_answer (on (dev s)),
      g_iscardin := True, g_state := mode_of (on (dev s))\<rparr>)" "ok d'" "on d' = on (dev s)"
    using adjust_state [OF assms(1)] .
  let ?s = "s\<lparr>dev := d', g_currentserialno := in_use_answer (on (dev s)), g_iscardin := True,
    g_state := mode_of (on (dev s))\<rparr>"
  have m: "adjust_menu_item E cb (Some Item_Unplug) ?s = Some (?s\<lparr>menu_checked := (\<lambda>i. Some Item_Unplug = Some i)\<rparr>)"
    by (rule menu_adjusted) (use assms(2) in \<open>simp add: busy_def\<close>)
  show ?thesis
    by (rule that, unfold not_started_def gui_bus_defs, simp only: d(1) m bind.bind_lunit, simp)
      (use d assms(2) in \<open>cases t; simp add: rested_def kept_def busy_def finish_def enable_wb_menu_def\<close>)
qed

section \<open>During a command\<close>

text \<open>\<open>S\<close> is started, the globals say \<open>g\<close>, and no click is let in.\<close>

definition running :: "u32 set \<Rightarrow> wb_state \<Rightarrow> 'd gui \<Rightarrow> 'd gui \<Rightarrow> bool" where
  "running S g s s' \<longleftrightarrow> ok (dev s') \<and> on (dev s') = S \<and> g_state s' = g \<and> busy s' \<and> kept s s'"

lemma running_set:
  assumes "running S g s s'"
  shows "running S g s (adjust_tooltip_text t s')" "running S g s (enable_wb_menu s')"
    "running S h s (s'\<lparr>g_state := h\<rparr>)" "running S g s (usleep D n s')"
    "running S g s (call_shell_for_btEnv D s')"
  using assms sleep_ok script_law
  by (cases t; auto simp: running_def busy_def kept_def enable_wb_menu_def call_shell_for_btEnv_def run_script_def
      usleep_def)+

lemma running_rest: "running S g s s' \<Longrightarrow> rested S g s (finish s')"
  by (simp add: running_def rested_def busy_def finish_def kept_def)

lemma rested_set:
  assumes "rested S g s s'"
  shows "rested S g s (enable_wb_menu s')" "rested S g s (call_shell_for_btEnv D s')"
  using assms sleep_ok script_law
  by (simp_all add: rested_def kept_def enable_wb_menu_def call_shell_for_btEnv_def run_script_def usleep_def)

lemma begun_running: "begun s s1 \<longleftrightarrow> g_iscardin s1 \<and> running (on (dev s)) (mode_of (on (dev s))) s s1"
  by (auto simp: begun_def running_def)

lemma running_moved:
  assumes "running S g s s1" "moved ok on s1 S' s2"
  shows "running S' (g_state s2) s s2" "malloc_ok s2 = malloc_ok s1"
  using assms moved_gui [OF assms(2)] kept_trans [of s s1 s2] by (auto simp: running_def kept_def)

lemma running_adjusted:
  assumes "running S g s s1"
  obtains s2 where "adjust_menu_item E cb m s1 = Some s2" "running S g s s2"
  using that menu_adjusted [of s1 m] assms by (simp add: running_def busy_def kept_def)

lemma running_refreshed:
  assumes "running S g s s1"
  obtains s2 where "refresh_gui_and_timeout cb s1 = Some s2" "running S g s s2"
  using assms by (auto simp: running_def elim!: refreshed [of s1] dest: kept_trans [of s s1] intro: that)

text \<open>The end of a command: the item is checked, the menu is let in again and the events run.\<close>

lemma running_shown:
  assumes "running S g s s1"
    and "\<And>s2. running S g s s2 \<Longrightarrow> running S h s (f s2)"
  obtains s2 s3 where "adjust_menu_item E cb m s1 = Some s2" "refresh_gui_and_timeout cb (f s2) = Some s3"
    "running S h s s3"
  using running_adjusted [OF assms(1), of m] running_refreshed [OF assms(2)] that by metis

section \<open>Starting the devices of a mode\<close>

lemma mode_started:
  assumes "ok (dev s)" "on (dev s) = {}" "sn = 1 \<or> sn = 2" "\<forall>n. malloc_ok s n"
  obtains r s3 s4 where "gui_write_enum_mode D e s = Some (r, s3)"
    "gui_start D name sn us1 us2 s3 = Some (on (dev s4) \<noteq> {}, s4)"
    "moved ok on s (on (dev s4)) s4" "maybe_on sn {} (on (dev s4))"
proof -
  obtain r d3 where e: "gui_write_enum_mode D e s = Some (r, s\<lparr>dev := d3\<rparr>)" "ok d3" "on d3 = {}"
    using enum_mode_written [OF assms(1)] assms(2) unfolding gui_bus_defs by metis
  let ?s = "s\<lparr>dev := d3\<rparr>"
  have s3: "ok (dev ?s)" "sn \<notin> on (dev ?s)" "\<forall>n. malloc_ok ?s n" "on (dev ?s) = {}"
    using e assms(4) by simp_all
  obtain s4 where "gui_start D name sn us1 us2 ?s = Some (on (dev s4) \<noteq> {}, s4)"
      "moved ok on ?s (on (dev s4)) s4" "maybe_on sn {} (on (dev s4))"
    using started [OF s3(1) assms(3) s3(2,3)] s3(4) by metis
  then show ?thesis using e(1) by (intro that [of r ?s s4]) (auto simp: moved_def same_config_def)
qed

lemma running_given_up:
  assumes "running S g s s1"
  obtains s2 where "not_started E cb D t s1 = Some (False, s2)" "rested S (mode_of S) s s2"
proof -
  obtain s2 where "not_started E cb D t s1 = Some (False, s2)" "rested (on (dev s1)) (mode_of (on (dev s1))) s1 s2"
    using given_up_gui [of s1 t] assms by (auto simp: running_def)
  then show ?thesis using assms kept_trans [of s s1 s2] by (intro that [of s2]) (auto simp: running_def rested_def)
qed

text \<open>The part of a command that may stop it: the rest runs with \<open>S\<close> started, or the command is over.\<close>

definition goes :: "'d gui \<Rightarrow> (bool \<times> 'd gui) option \<Rightarrow> (u32 set \<Rightarrow> bool) \<Rightarrow> (u32 set \<Rightarrow> wb_state \<Rightarrow> bool) \<Rightarrow> bool" where
  "goes s r P Q \<longleftrightarrow>
     (\<exists>s' S g. r = Some (True, s') \<and> running S g s s' \<and> P S \<or>
        r = Some (False, s') \<and> rested S g s s' \<and> Q S g)"

lemma one_device_goes:
  assumes "running S0 (mode_of S0) s s1" "\<forall>n. malloc_ok s n" "sn = 1 \<or> sn = 2" "needed \<or> S0 = {}"
  shows "goes s (goes_on (gui_clear D needed f s1) (\<lambda>s1. do {
      (r, s2) \<leftarrow> gui_write_enum_mode D e s1;
      (ok, s3) \<leftarrow> gui_start D name sn us1 us2 s2;
      if \<not> ok then not_started E cb D t (s3\<lparr>g_state := Neither\<rparr>) else Some (True, s3) }))
    (\<lambda>S. S = {sn}) (\<lambda>S g. S = {} \<and> g = Neither \<and> sn \<notin> willing)"
proof -
  obtain s2 where s2: "gui_clear D needed f s1 = Some (True, s2)" "moved ok on s1 {} s2"
    using cleared [of s1 needed f] assms(1,4) by (auto simp: running_def)
  have r2: "running {} (g_state s2) s s2" "\<forall>n. malloc_ok s2 n"
    using running_moved [OF assms(1) s2(2)] assms(1,2) by (auto simp: running_def kept_def)
  obtain r s3 s4 where s4: "gui_write_enum_mode D e s2 = Some (r, s3)"
    "gui_start D name sn us1 us2 s3 = Some (on (dev s4) \<noteq> {}, s4)"
    "moved ok on s2 (on (dev s4)) s4" "maybe_on sn {} (on (dev s4))"
    using mode_started [of s2 sn e name us1 us2] r2 assms(3) by (auto simp: running_def)
  have r4: "running (on (dev s4)) (g_state s4) s s4" using running_moved(1) [OF r2(1) s4(3)] .
  obtain s5 where s5: "not_started E cb D t (s4\<lparr>g_state := Neither\<rparr>) = Some (False, s5)"
    "rested (on (dev s4)) (mode_of (on (dev s4))) s s5"
    using running_given_up [OF running_set(3) [OF r4]] .
  show ?thesis
  proof (cases "on (dev s4) = {}")
    case True
    with s2(1) s4 s5 show ?thesis by (auto simp: goes_def goes_on_def maybe_on_def)
  next
    case False
    with s2(1) s4 r4 show ?thesis by (auto simp: goes_def goes_on_def maybe_on_def)
  qed
qed

section \<open>The commands\<close>

definition clickable :: "'d gui \<Rightarrow> bool" where
  "clickable s \<longleftrightarrow> ok (dev s) \<and> \<not> g_isclickinginprogress s \<and> \<not> g_bDirectlyFlag s \<and> (\<forall>n. malloc_ok s n)"

definition commanded :: "menu_item \<Rightarrow> 'd gui \<Rightarrow> 'd gui \<Rightarrow> bool" where
  "commanded i s s' \<longleftrightarrow> (\<exists>S g. rested S g s s' \<and> reached willing i (on (dev s)) S g)"

lemma commandedI: "rested S g s s' \<Longrightarrow> reached willing i (on (dev s)) S g \<Longrightarrow> commanded i s s'"
  by (auto simp: commanded_def)

lemma direct_kept: "running S g s s1 \<Longrightarrow> g_bDirectlyFlag s1 = g_bDirectlyFlag s"
  by (simp add: running_def kept_def)

lemma bluetooth_commanded:
  assumes "clickable s" "g_ismenuclicked s"
  shows "\<exists>s'. gui_on_bluetooth E cb D s = Some s' \<and> commanded Item_Bluetooth s s'"
proof -
  let ?S = "on (dev s)"
  obtain s1 where s1: "begun s s1"
    and run: "\<And>k. menu_command (\<lambda>t. do { s1 \<leftarrow> command_state E cb D t; k s1 }) s = k s1"
    using command_begins [of s] assms by (auto simp: clickable_def)
  have r1: "running ?S (mode_of ?S) s s1" "g_iscardin s1" "g_state s1 = mode_of ?S" "\<not> g_bDirectlyFlag s1"
    using s1 assms(1) direct_kept [of _ _ s s1] by (auto simp: begun_running clickable_def running_def)
  have 12: "?S \<subseteq> {1, 2}" using assms(1) on_12 by (simp add: clickable_def)
  show ?thesis
  proof (cases "?S = {1}")
    case True
    obtain s2 where s2: "adjust_menu_item E cb (Some Item_Bluetooth) s1 = Some s2" "running ?S (mode_of ?S) s s2"
      using running_adjusted [OF r1(1)] .
    let ?s' = "finish (adjust_tooltip_text BT_only (enable_wb_menu s2))"
    have "rested ?S (mode_of ?S) s ?s'" using running_rest running_set(1,2) s2(2) by blast
    then show ?thesis using True r1 s2(1) by (simp add: gui_on_bluetooth_def run commandedI reached_def)
  next
    case False
    let ?needed = "g_state s1 = WLAN_only \<or> g_state s1 = Both"
    have other: "?needed \<or> ?S = {}" and new: "g_state s1 \<noteq> BT_only"
      using other_mode [OF 12] False by (simp_all only: r1(3) simp_thms)
    have "goes s (bt_normally E cb D s1) (\<lambda>S. S = {1}) (\<lambda>S g. S = {} \<and> g = Neither \<and> 1 \<notin> willing)"
      unfolding bt_normally_def
      by (rule one_device_goes [OF r1(1)]) (use assms(1) other in \<open>simp_all add: clickable_def\<close>)
    then consider s2 g where "bt_normally E cb D s1 = Some (True, s2)" "running {1} g s s2"
      | s2 where "bt_normally E cb D s1 = Some (False, s2)" "rested {} Neither s s2" "1 \<notin> willing"
      by (auto simp: goes_def)
    then show ?thesis
    proof cases
      case 1
      have r2: "running {1} BT_only s (adjust_tooltip_text BT_only (s2\<lparr>g_state := BT_only\<rparr>))"
        using running_set(1,3) 1(2) by blast
      obtain s4 s5 where s5:
        "adjust_menu_item E cb (Some Item_Bluetooth) (adjust_tooltip_text BT_only (s2\<lparr>g_state := BT_only\<rparr>)) = Some s4"
        "refresh_gui_and_timeout cb (enable_wb_menu s4) = Some s5" "running {1} BT_only s s5"
        using running_shown [OF r2, of BT_only enable_wb_menu] running_set(2) by blast
      have "rested {1} BT_only s (finish (call_shell_for_btEnv D s5))"
        using running_rest [OF running_set(5) [OF s5(3)]] .
      then show ?thesis
        using False r1 new 1(1) s5
        by (simp add: gui_on_bluetooth_def run commandedI reached_def maybe_on_def)
    next
      case 2
      then show ?thesis
        using False r1 new by (simp add: gui_on_bluetooth_def run commandedI reached_def maybe_on_def)
    qed
  qed
qed

lemma wlan_commanded:
  assumes "clickable s" "g_ismenuclicked s"
  shows "\<exists>s'. gui_on_wlan E cb D s = Some s' \<and> commanded Item_Wlan s s'"
proof -
  let ?S = "on (dev s)"
  obtain s1 where s1: "begun s s1"
    and run: "\<And>k. menu_command (\<lambda>t. do { s1 \<leftarrow> command_state E cb D t; k s1 }) s = k s1"
    using command_begins [of s] assms by (auto simp: clickable_def)
  have r1: "running ?S (mode_of ?S) s s1" "g_iscardin s1" "g_state s1 = mode_of ?S" "\<not> g_bDirectlyFlag s1"
    using s1 assms(1) direct_kept [of _ _ s s1] by (auto simp: begun_running clickable_def running_def)
  have 12: "?S \<subseteq> {1, 2}" using assms(1) on_12 by (simp add: clickable_def)
  show ?thesis
  proof (cases "?S = {2}")
    case True
    obtain s2 where s2: "adjust_menu_item E cb (Some Item_Wlan) s1 = Some s2" "running ?S (mode_of ?S) s s2"
      using running_adjusted [OF r1(1)] .
    let ?s' = "finish (adjust_tooltip_text WLAN_only (enable_wb_menu s2))"
    have "rested ?S (mode_of ?S) s ?s'" using running_rest running_set(1,2) s2(2) by blast
    then show ?thesis using True r1 s2(1) by (simp add: gui_on_wlan_def run commandedI reached_def)
  next
    case False
    let ?s1 = "usleep D 200000 s1"
    let ?needed = "g_state ?s1 = BT_only \<or> g_state ?s1 = Both"
    have other: "?needed \<or> ?S = {}" and new: "g_state s1 \<noteq> WLAN_only"
      using other_mode [OF 12] False by (simp_all only: r1(3) usleep_sel simp_thms)
    have "\<not> g_bDirectlyFlag ?s1" using r1(4) gui_part [of ?s1 s1] by simp
    have "goes s (wlan_normally E cb D ?s1) (\<lambda>S. S = {2}) (\<lambda>S g. S = {} \<and> g = Neither \<and> 2 \<notin> willing)"
      unfolding wlan_normally_def
      by (rule one_device_goes [OF running_set(4) [OF r1(1)]]) (use assms(1) other in \<open>simp_all add: clickable_def\<close>)
    then consider s2 g where "wlan_normally E cb D ?s1 = Some (True, s2)" "running {2} g s s2"
      | s2 where "wlan_normally E cb D ?s1 = Some (False, s2)" "rested {} Neither s s2" "2 \<notin> willing"
      by (auto simp: goes_def)
    then show ?thesis
    proof cases
      case 1
      let ?f = "\<lambda>s. enable_wb_menu (adjust_tooltip_text WLAN_only s)"
      obtain s4 s5 where s5:
        "adjust_menu_item E cb (Some Item_Wlan) (s2\<lparr>g_state := WLAN_only\<rparr>) = Some s4"
        "refresh_gui_and_timeout cb (?f s4) = Some s5" "running {2} WLAN_only s s5"
        using running_shown [OF running_set(3) [OF 1(2)], where f = ?f] running_set(1,2) by blast
      have "rested {2} WLAN_only s (finish s5)" using running_rest [OF s5(3)] .
      then show ?thesis
        using False r1 new 1(1) s5 \<open>\<not> g_bDirectlyFlag ?s1\<close>
        by (simp add: gui_on_wlan_def run commandedI reached_def maybe_on_def)
    next
      case 2
      then show ?thesis
        using False r1 new \<open>\<not> g_bDirectlyFlag ?s1\<close>
        by (simp add: gui_on_wlan_def run commandedI reached_def maybe_on_def)
    qed
  qed
qed

lemma unplug_commanded:
  assumes "clickable s" "g_ismenuclicked s"
  shows "\<exists>s'. gui_on_unplug E cb D s = Some s' \<and> commanded Item_Unplug s s'"
proof -
  let ?S = "on (dev s)"
  obtain s1 where s1: "begun s s1"
    and run: "\<And>k. menu_command (\<lambda>t. do { s1 \<leftarrow> command_state E cb D t; k s1 }) s = k s1"
    using command_begins [of s] assms by (auto simp: clickable_def)
  have r1: "running ?S (mode_of ?S) s s1" "ok (dev s1)" "on (dev s1) = ?S" "g_state s1 = mode_of ?S"
    using s1 by (auto simp: begun_running running_def)
  let ?needed = "g_state s1 = BT_only \<or> g_state s1 = WLAN_only \<or> g_state s1 = Both"
  have none: "g_state s1 = Neither \<longleftrightarrow> ?S = {}" and other: "?needed \<or> ?S = {}"
    using other_mode [OF on_12 [OF r1(2)]] by (simp_all only: r1(3,4)) blast+
  show ?thesis
  proof (cases "?S = {}")
    case True
    obtain s2 where s2: "adjust_menu_item E cb (Some Item_Unplug) s1 = Some s2" "running ?S (mode_of ?S) s s2"
      using running_adjusted [OF r1(1)] .
    have "rested ?S (mode_of ?S) s (finish (enable_wb_menu s2))" using running_rest running_set(2) s2(2) by blast
    then show ?thesis using True none s2(1) by (simp add: gui_on_unplug_def run commandedI reached_def)
  next
    case False
    obtain s2 where s2: "gui_clear D ?needed id s1 = Some (True, s2)" "moved ok on s1 {} s2"
      using cleared [of s1 ?needed id] r1 other by auto
    let ?f = "\<lambda>s. enable_wb_menu (s\<lparr>g_state := Neither\<rparr>)"
    have r2: "running {} (g_state s2) s (adjust_tooltip_text Neither s2)"
      using running_moved(1) [OF r1(1) s2(2)] running_set(1) by blast
    obtain s4 s5 where s5: "adjust_menu_item E cb (Some Item_Unplug) (adjust_tooltip_text Neither s2) = Some s4"
      "refresh_gui_and_timeout cb (?f s4) = Some s5" "running {} Neither s s5"
      using running_shown [OF r2, of Neither ?f] running_set(2,3) by blast
    have "rested {} Neither s (finish s5)" using running_rest [OF s5(3)] .
    then show ?thesis using False none s2(1) s5 by (simp add: gui_on_unplug_def run commandedI reached_def)
  qed
qed

text \<open>
  With the WLAN device started the wait for it ends at once.  The command then asks whether any
  device runs, and the WLAN device does: a Bluetooth device that did not start goes unnoticed.
\<close>

lemma second_goes:
  assumes "running {2} g s s1" "\<forall>n. malloc_ok s n"
  obtains S h s2 where "start_second D us s1 = Some (True, s2)" "running S h s s2" "maybe_on 1 {2} S"
proof -
  obtain s3 where s3: "started_wait D s1 = Some (True, s3)" "moved ok on s1 {2} s3"
    using started_wait_ends [of s1] assms(1) by (auto simp: running_def)
  have r3: "running {2} (g_state s3) s s3" "malloc_ok s3 = malloc_ok s"
    using running_moved [OF assms(1) s3(2)] assms(1) by (auto simp: running_def kept_def)
  obtain r d4 where i: "gui_set_init_flag D 2 s3 = Some (r, s3\<lparr>dev := d4\<rparr>)" "ok d4" "on d4 = {2}"
    using init_flag_set [of s3 2] r3(1) unfolding gui_bus_defs by (metis running_def)
  have r4: "running {2} (g_state s3) s (usleep D 500000 (s3\<lparr>dev := d4\<rparr>))"
    by (rule running_set(4)) (use r3 i in \<open>auto simp: running_def busy_def kept_def\<close>)
  have "ok (dev (usleep D 500000 (s3\<lparr>dev := d4\<rparr>)))" "on (dev (usleep D 500000 (s3\<lparr>dev := d4\<rparr>))) = {2}"
    "\<forall>n. malloc_ok (usleep D 500000 (s3\<lparr>dev := d4\<rparr>)) n"
    using r4 r3(2) assms(2) by (simp_all add: running_def)
  then obtain s5 where s5: "gui_start D TDSPBTID 1 us 1000000 (usleep D 500000 (s3\<lparr>dev := d4\<rparr>)) =
      Some (on (dev s5) \<noteq> {}, s5)" "moved ok on (usleep D 500000 (s3\<lparr>dev := d4\<rparr>)) (on (dev s5)) s5"
      "maybe_on 1 {2} (on (dev s5))"
    using started [of "usleep D 500000 (s3\<lparr>dev := d4\<rparr>)" 1 TDSPBTID us 1000000] by auto
  have "on (dev s5) \<noteq> {}" using s5(3) by (auto simp: maybe_on_def)
  moreover have "running (on (dev s5)) (g_state s5) s s5" using running_moved(1) [OF r4 s5(2)] .
  ultimately show ?thesis using that s3(1) i(1) s5 by (simp add: start_second_def)
qed

lemma both_goes:
  assumes "running S0 (mode_of S0) s s1" "\<forall>n. malloc_ok s n" "S0 \<noteq> {1, 2}" "S0 \<subseteq> {1, 2}"
  shows "goes s (coexist_normally E cb D s1) (maybe_on 1 {2}) (\<lambda>S g. S = {} \<and> g = Neither \<and> 2 \<notin> willing)"
proof -
  let ?needed = "g_state s1 = BT_only \<or> g_state s1 = WLAN_only"
  have "?needed \<or> S0 = {}"
    using other_mode(3) [OF assms(4,3)] assms(1) by (simp add: running_def)
  then obtain s2 where s2: "gui_clear D ?needed id s1 = Some (True, s2)" "moved ok on s1 {} s2"
    using cleared [of s1 ?needed id] assms(1) by (auto simp: running_def)
  have r2: "running {} (g_state s2) s s2" "\<forall>n. malloc_ok s2 n"
    using running_moved [OF assms(1) s2(2)] assms(1,2) by (auto simp: running_def kept_def)
  obtain r s3 s4 where s4: "gui_write_enum_mode D 3 s2 = Some (r, s3)"
    "gui_start D TDSPWLANID 2 200000 1000000 s3 = Some (on (dev s4) \<noteq> {}, s4)"
    "moved ok on s2 (on (dev s4)) s4" "maybe_on 2 {} (on (dev s4))"
    using mode_started [of s2 2 3 TDSPWLANID 200000 1000000] r2 by (auto simp: running_def)
  have r4: "running (on (dev s4)) (g_state s4) s s4" using running_moved(1) [OF r2(1) s4(3)] .
  show ?thesis
  proof (cases "on (dev s4) = {}")
    case True
    obtain s5 where "not_started E cb D Neither (s4\<lparr>g_state := Neither\<rparr>) = Some (False, s5)"
      "rested (on (dev s4)) (mode_of (on (dev s4))) s s5"
      using running_given_up [OF running_set(3) [OF r4]] .
    with True s2(1) s4 show ?thesis by (auto simp: goes_def goes_on_def coexist_normally_def maybe_on_def)
  next
    case False
    then have "running {2} (g_state s4) s s4" using r4 s4(4) by (auto simp: maybe_on_def)
    then obtain S h s5 where "start_second D 500000 s4 = Some (True, s5)" "running S h s s5" "maybe_on 1 {2} S"
      using second_goes [OF _ assms(2)] by metis
    with False s2(1) s4 show ?thesis by (auto simp: goes_def goes_on_def coexist_normally_def)
  qed
qed

lemma coexist_commanded:
  assumes "clickable s" "g_ismenuclicked s"
  shows "\<exists>s'. gui_on_coexist E cb D s = Some s' \<and> commanded Item_Coexist s s'"
proof -
  let ?S = "on (dev s)"
  obtain s1 where s1: "begun s s1"
    and run: "\<And>k. menu_command (\<lambda>t. do { s1 \<leftarrow> command_state E cb D t; k s1 }) s = k s1"
    using command_begins [of s] assms by (auto simp: clickable_def)
  have r1: "running ?S (mode_of ?S) s s1" "g_iscardin s1" "g_state s1 = mode_of ?S" "\<not> g_bDirectlyFlag s1"
    using s1 assms(1) direct_kept [of _ _ s s1] by (auto simp: begun_running clickable_def running_def)
  have 12: "?S \<subseteq> {1, 2}" using assms(1) on_12 by (simp add: clickable_def)
  show ?thesis
  proof (cases "?S = {1, 2}")
    case True
    obtain s2 where s2: "adjust_menu_item E cb (Some Item_Coexist) s1 = Some s2" "running ?S (mode_of ?S) s s2"
      using running_adjusted [OF r1(1)] .
    have "rested ?S (mode_of ?S) s (enable_wb_menu (finish s2))" using rested_set(1) running_rest s2(2) by blast
    then show ?thesis using True r1 s2(1) by (simp add: gui_on_coexist_def run commandedI reached_def)
  next
    case False
    let ?s1 = "usleep D 200000 s1"
    have new: "g_state s1 \<noteq> Both" using other_mode(6) [OF 12] False by (simp only: r1(3) simp_thms)
    have direct: "\<not> g_bDirectlyFlag ?s1" using r1(4) gui_part [of ?s1 s1] by simp
    have "goes s (coexist_normally E cb D ?s1) (maybe_on 1 {2}) (\<lambda>S g. S = {} \<and> g = Neither \<and> 2 \<notin> willing)"
      by (rule both_goes [OF running_set(4) [OF r1(1)]]) (use assms(1) False 12 in \<open>simp_all add: clickable_def\<close>)
    then consider S g s2 where "coexist_normally E cb D ?s1 = Some (True, s2)" "running S g s s2" "maybe_on 1 {2} S"
      | s2 where "coexist_normally E cb D ?s1 = Some (False, s2)" "rested {} Neither s s2" "2 \<notin> willing"
      by (auto simp: goes_def)
    then show ?thesis
    proof cases
      case 1
      let ?f = "\<lambda>s. adjust_tooltip_text Both (s\<lparr>g_state := Both\<rparr>)"
      obtain s4 where s4: "refresh_gui_and_timeout cb s2 = Some s4" "running S g s s4"
        using running_refreshed [OF 1(2)] .
      have r4: "running S Both s (?f s4)" using running_set(1,3) s4(2) by blast
      obtain s5 s6 where s6: "adjust_menu_item E cb (Some Item_Coexist) (?f s4) = Some s5"
        "refresh_gui_and_timeout cb (enable_wb_menu s5) = Some s6" "running S Both s s6"
        using running_shown [OF r4, of Both enable_wb_menu] running_set(2) by blast
      have "rested S Both s (call_shell_for_btEnv D (finish s6))"
        using rested_set(2) [OF running_rest [OF s6(3)]] .
      moreover have "reached willing Item_Coexist ?S S Both" using 1(3) False by (auto simp: reached_def maybe_on_def)
      ultimately show ?thesis
        using r1 new 1(1) s4(1) s6 direct by (simp add: gui_on_coexist_def run commandedI)
    next
      case 2
      then have "reached willing Item_Coexist ?S {} Neither" using False by (auto simp: reached_def)
      with 2 show ?thesis using r1 new direct by (simp add: gui_on_coexist_def run commandedI)
    qed
  qed
qed

section \<open>Every event\<close>

lemma menu_called:
  assumes "clickable s" "g_ismenuclicked s"
  shows "\<exists>s'. menu_callback E cb D i s = Some s' \<and> commanded i s s'"
  using bluetooth_commanded [OF assms] wlan_commanded [OF assms] coexist_commanded [OF assms]
    unplug_commanded [OF assms]
  by (cases i) (simp_all add: menu_callback_def)

text \<open>What an event leaves: a click runs a command, and no other event touches the devices.\<close>

definition event_result :: "gui_event \<Rightarrow> 'd gui \<Rightarrow> 'd gui \<Rightarrow> bool" where
  "event_result ev s s' \<longleftrightarrow> clickable s' \<and> kept s s' \<and>
     (case ev of
        Menu_Click i \<Rightarrow>
          if menu_visible s i \<and> menu_sensitive s i \<and> g_ismenuclicked s then commanded i s s'
          else on (dev s') = on (dev s)
      | Activated i \<Rightarrow> if g_ismenuclicked s then commanded i s s' else on (dev s') = on (dev s)
      | Popup \<Rightarrow> on (dev s') = on (dev s) \<and> g_ismenuclicked s' \<and> g_state s' = mode_of (on (dev s)) \<and>
          menu_checked s' = (\<lambda>i. i = item_of (mode_of (on (dev s)))) \<and> menu_sensitive s' = menu_sensitive s
      | Timer \<Rightarrow> on (dev s') = on (dev s) \<and> menu_sensitive s' = allowed_item s \<and> g_iconindex s' = ICON_GREEN
      | Exit \<Rightarrow> on (dev s') = on (dev s) \<and> quitting s'
      | _ \<Rightarrow> on (dev s') = on (dev s))"

lemma commanded_clickable: "clickable s \<Longrightarrow> commanded i s s' \<Longrightarrow> clickable s' \<and> kept s s'"
  by (auto simp: commanded_def rested_def clickable_def kept_def)

lemma menu_popped:
  assumes "clickable s"
  obtains s' where "popup_menu E cb D s = Some s'" "event_result Popup s s'"
proof -
  let ?u = "s\<lparr>g_ismenuclicked := False, menu_checked := (\<lambda>i. False)\<rparr>"
  have u: "uncheck_all E cb (s\<lparr>g_ismenuclicked := False\<rparr>) = Some ?u"
    by (simp add: all_unchecked)
  obtain d' where d: "adjust_func_state D ?u = Some (?u\<lparr>dev := d', g_currentserialno := in_use_answer (on (dev s)),
      g_iscardin := True, g_state := mode_of (on (dev s))\<rparr>)" "ok d'" "on d' = on (dev s)"
    using adjust_state [of ?u] assms by (auto simp: clickable_def)
  let ?m = "\<lambda>i. i = item_of (mode_of (on (dev s)))"
  have m: "(\<lambda>i. False)(item_of (mode_of (on (dev s))) := True) = ?m" by (auto simp: fun_eq_iff)
  let ?s' = "s\<lparr>g_ismenuclicked := True, menu_checked := ?m, dev := d', g_currentserialno := in_use_answer (on (dev s)),
      g_iscardin := True, g_state := mode_of (on (dev s))\<rparr>"
  have "popup_menu E cb D s = Some ?s'"
    using u d(1) by (simp add: popup_menu_def adjust_menu_item_auto_def gui_bus_defs active_set m)
  moreover have "event_result Popup s ?s'"
    using assms d(2,3) by (simp add: event_result_def clickable_def kept_def)
  ultimately show ?thesis by (rule that)
qed

lemma time_out_watched:
  assumes "clickable s"
  obtains s' where "watch_time_out_function D s = Some s'" "event_result Timer s s'"
proof -
  have ok: "ok (dev s)" "\<not> g_isclickinginprogress s" using assms by (simp_all add: clickable_def)
  obtain d1 where q: "tdsp_query_device D s = Some (in_use_answer (on (dev s)),
      s\<lparr>dev := d1, g_currentserialno := in_use_answer (on (dev s)), g_iscardin := True\<rparr>)" "ok d1" "on d1 = on (dev s)"
    using query_device [OF ok(1)] .
  let ?s1 = "s\<lparr>dev := d1, g_currentserialno := in_use_answer (on (dev s)), g_iscardin := True\<rparr>"
  obtain d2 where p: "tdsp_query_power_state D ?s1 = Some (PowerOn, ?s1\<lparr>dev := d2, g_buspowerstate := PowerOn\<rparr>)"
    "ok d2" "on d2 = on (dev s)"
    using query_power [of ?s1] q by auto
  have card: "in_use_answer (on (dev s)) \<noteq> TDSP_SERIAL_NO_NOCARD"
    using on_12 [OF ok(1)] by (elim subsets_12) simp_all
  let ?s2 = "enable_wb_menu (?s1\<lparr>dev := d2, g_buspowerstate := PowerOn\<rparr>)"
  let ?s3 = "if g_iconindex s \<noteq> ICON_GREEN then adjust_icon ICON_GREEN (?s2\<lparr>g_iconindex := ICON_GREEN\<rparr>) else ?s2"
  have run: "watch_time_out_function D s = Some ?s3"
    using q p card ok by (simp add: watch_time_out_function_def gui_bus_defs power_icon_def Let_def enable_wb_menu_def)
  have "allowed_item (?s1\<lparr>dev := d2, g_buspowerstate := PowerOn\<rparr>) = allowed_item s"
    by (rule items_kept) simp
  then have "menu_sensitive ?s3 = allowed_item s" by (simp add: enable_wb_menu_def adjust_icon_def)
  then have "event_result Timer s ?s3"
    using assms p(2,3)
    by (auto simp: event_result_def clickable_def kept_def enable_wb_menu_def adjust_icon_def)
  with run show ?thesis by (rule that)
qed

text \<open>Every event is handled, and leaves a state in which the next click is let in.\<close>

lemma event_handled:
  assumes "clickable s"
  shows "\<exists>s'. handle_event E cb D ev s = Some s' \<and> event_result ev s s'"
proof -
  have ok: "ok (dev s)" "\<not> g_isclickinginprogress s" using assms by (simp_all add: clickable_def)
  obtain sp where sp: "popup_menu E cb D s = Some sp" "event_result Popup s sp" using menu_popped [OF assms] .
  obtain st where st: "watch_time_out_function D s = Some st" "event_result Timer s st"
    using time_out_watched [OF assms] .
  have called: "\<exists>s'. menu_callback E cb D i t = Some s' \<and> clickable s' \<and> kept t s' \<and>
      (if g_ismenuclicked t then commanded i t s' else on (dev s') = on (dev t))" if "clickable t" for t i
  proof (cases "g_ismenuclicked t")
    case True
    then show ?thesis using menu_called [OF that True, of i] commanded_clickable [OF that] by auto
  next
    case False
    then have "menu_callback E cb D i t = Some t" by (rule unclicked_callback)
    then show ?thesis using that False by simp
  qed
  show ?thesis
  proof (cases ev)
    case (Menu_Click i)
    let ?t = "s\<lparr>menu_checked := (menu_checked s)(i := \<not> menu_checked s i)\<rparr>"
    have t: "clickable ?t" using assms by (simp add: clickable_def)
    obtain s' where "menu_callback E cb D i ?t = Some s'" "clickable s'" "kept ?t s'"
      "if g_ismenuclicked ?t then commanded i ?t s' else on (dev s') = on (dev ?t)"
      using called [OF t] by blast
    then show ?thesis using Menu_Click assms
      by (auto simp: handle_event_def user_click_def event_result_def commanded_def rested_def kept_def)
  qed (use sp st called [OF assms] assms ok sleep_ok in
      \<open>auto simp: handle_event_def activate_callback_def popup_callback_def disable_blinking_def on_exit1_activate_def
        event_result_def clickable_def kept_def usleep_def\<close>)
qed

section \<open>The loop and the start\<close>

lemma event_result_clickable: "event_result ev s s' \<Longrightarrow> clickable s' \<and> kept s s'"
  by (simp add: event_result_def)

lemma no_click_result:
  "event_result ev s s' \<Longrightarrow> \<not> is_click ev \<Longrightarrow> on (dev s') = on (dev s)"
  by (cases ev) (simp_all add: event_result_def is_click_def)

lemma loop_runs:
  assumes "clickable s"
  shows "\<exists>s'. gtk_main (handle_event E cb D) evs s = Some s' \<and> clickable s' \<and> kept s s' \<and>
    (\<not> list_ex is_click evs \<longrightarrow> on (dev s') = on (dev s))"
  using assms
proof (induction evs arbitrary: s)
  case (Cons e es)
  show ?case
  proof (cases "quitting s")
    case False
    obtain s1 where s1: "handle_event E cb D e s = Some s1" "event_result e s s1"
      using event_handled [OF Cons.prems] by blast
    have c1: "clickable s1" "kept s s1" using event_result_clickable [OF s1(2)] by simp_all
    obtain s' where "gtk_main (handle_event E cb D) es s1 = Some s'" "clickable s'" "kept s1 s'"
      "\<not> list_ex is_click es \<longrightarrow> on (dev s') = on (dev s1)"
      using Cons.IH [OF c1(1)] by blast
    then show ?thesis
      using False s1(1) c1(2) kept_trans no_click_result [OF s1(2)] by auto
  qed (use Cons.prems in auto)
qed simp

text \<open>The same for the events that have come by now.\<close>

lemma pending_run:
  assumes "clickable s"
  shows "\<exists>s'. run_events (handle_event E cb D) es s = Some s' \<and> clickable s' \<and> kept s s' \<and>
    (\<not> list_ex is_click es \<longrightarrow> on (dev s') = on (dev s))"
  using assms
proof (induction es arbitrary: s)
  case (Cons e es)
  obtain s1 where s1: "handle_event E cb D e s = Some s1" "event_result e s s1"
    using event_handled [OF Cons.prems] by blast
  have c1: "clickable s1" "kept s s1" using event_result_clickable [OF s1(2)] by simp_all
  obtain s' where "run_events (handle_event E cb D) es s1 = Some s'" "clickable s'" "kept s1 s'"
    "\<not> list_ex is_click es \<longrightarrow> on (dev s') = on (dev s1)"
    using Cons.IH [OF c1(1)] by blast
  then show ?case using s1(1) c1(2) kept_trans no_click_result [OF s1(2)] by auto
qed simp

lemma menu_initialised:
  assumes "clickable s"
  shows "\<exists>s'. tdsp_init_menu E cb D s = Some s' \<and> clickable s' \<and> kept s s' \<and>
    (case start_item (g_defaultmode s) of
       Some i \<Rightarrow> \<exists>S g. reached willing i (on (dev s)) S g \<and> on (dev s') = S \<and> g_state s' = g
     | None \<Rightarrow> on (dev s') = on (dev s))"
proof -
  obtain d1 where p: "tdsp_query_power_state D s = Some (PowerOn, s\<lparr>dev := d1, g_buspowerstate := PowerOn\<rparr>)"
    "ok d1" "on d1 = on (dev s)"
    using query_power [of s] assms by (auto simp: clickable_def)
  let ?s1 = "s\<lparr>dev := d1, g_buspowerstate := PowerOn, g_iconindex := ICON_GREEN\<rparr>"
  let ?s2 = "?s1\<lparr>g_ismenuclicked := True\<rparr>"
  have run: "tdsp_init_menu E cb D s =
      (case start_item (g_defaultmode s) of Some i \<Rightarrow> menu_callback E cb D i ?s2 | None \<Rightarrow> Some ?s1)"
    using p(1) by (simp add: tdsp_init_menu_def gui_bus_defs start_item_def menu_callback_def Let_def)
  have c: "clickable ?s2" "clickable ?s1" "on (dev ?s2) = on (dev s)"
    using assms p(2,3) by (simp_all add: clickable_def)
  have k: "kept s t \<longleftrightarrow> kept ?s2 t" for t by (simp add: kept_def)
  show ?thesis
  proof (cases "start_item (g_defaultmode s)")
    case None
    then show ?thesis using run c p(3) by (auto simp: kept_def)
  next
    case (Some i)
    obtain s' where s': "menu_callback E cb D i ?s2 = Some s'" "commanded i ?s2 s'"
      using menu_called [OF c(1)] by auto
    have "clickable s'" "kept s s'" using commanded_clickable [OF c(1) s'(2)] k by simp_all
    moreover have "\<exists>S g. reached willing i (on (dev s)) S g \<and> on (dev s') = S \<and> g_state s' = g"
      using s'(2) c(3) by (auto simp: commanded_def rested_def)
    ultimately show ?thesis using run Some s'(1) by simp
  qed
qed

lemma menu_item_shown:
  assumes "clickable s"
  obtains s' where "adjust_menu_item_auto E cb D s = Some s'" "clickable s'" "kept s s'"
    "on (dev s') = on (dev s)" "menu_checked s' = (\<lambda>i. i = item_of (mode_of (on (dev s))))"
proof -
  obtain sp where "popup_menu E cb D s = Some sp" "event_result Popup s sp" using menu_popped [OF assms] .
  then show ?thesis
    using that by (auto simp: popup_menu_def event_result_def clickable_def kept_def split: bind_splits)
qed

end

end
