(* ===== verification/Gui_Start.thy ===== *)
theory Gui_Start
  imports Gui_Spec Uwb_Parse_Spec
begin

text \<open>
  The start of the graphical utility: its configuration, the mode it starts with, and that
  \<^verbatim>\<open>main\<close> returns.  The contract of the device gets the two requests \<^verbatim>\<open>main\<close> makes
  that \<^verbatim>\<open>uwbtool\<close> does not.
\<close>

section \<open>The configuration\<close>

text \<open>What reading the configuration leaves alone.\<close>

definition conf_frame :: "'d gui \<Rightarrow> 'd gui \<Rightarrow> bool" where
  "conf_frame s s' \<longleftrightarrow> dev s' = dev s \<and> g_isclickinginprogress s' = g_isclickinginprogress s \<and>
     malloc_ok s' = malloc_ok s \<and> g_ismenuclicked s' = g_ismenuclicked s \<and>
     g_bDirectlyFlag s' = g_bDirectlyFlag s \<and> batches s' = batches s \<and> quitting s' = quitting s"

lemma conf_frame_trans: "conf_frame a b \<Longrightarrow> conf_frame b c \<Longrightarrow> conf_frame a c"
  by (simp add: conf_frame_def)

lemma common_keeps:
  assumes "config_common txt s = Some (r, s')"
  shows "conf_frame s s'"
proof -
  have "wb.more s' = wb.more s" "dev s' = dev s" "g_isclickinginprogress s' = g_isclickinginprogress s"
    "malloc_ok s' = malloc_ok s"
    using assms
    by (auto simp: config_common_def config_default_def config_modes_def Let_def
        split: option.splits bind_splits if_splits prod.splits)
  then show ?thesis using gui_part [of s' s] by (simp add: conf_frame_def)
qed

lemma required_read:
  assumes "conf_ok txt" "\<And>x t. conf_frame t (upd x t) \<and> g_allowedmodes (upd x t) = g_allowedmodes t \<and>
      g_defaultmode (upd x t) = g_defaultmode t"
    and "\<And>t. \<exists>r t'. k t = Some (r, t') \<and> conf_frame t t' \<and> g_allowedmodes t' = g_allowedmodes t \<and>
      g_defaultmode t' = g_defaultmode t"
  shows "\<exists>r t'. required txt key upd k t = Some (r, t') \<and> conf_frame t t' \<and>
    g_allowedmodes t' = g_allowedmodes t \<and> g_defaultmode t' = g_defaultmode t"
proof (cases "setting (bytes_of key) txt")
  case None
  then show ?thesis
    by (simp add: required_def gui_get_value_from_conffile_def value_lookup [OF assms(1)] conf_frame_def) blast
next
  case (Some x)
  then show ?thesis
    using assms(2) [of t x] assms(3) [of "upd x t"]
    by (auto simp: required_def gui_get_value_from_conffile_def value_lookup [OF assms(1)] intro: conf_frame_trans)
qed

lemma antenna_read:
  assumes "conf_ok txt"
  shows "\<exists>r t'. config_antenna txt t = Some (r, t') \<and> conf_frame t t' \<and>
    g_allowedmodes t' = g_allowedmodes t \<and> g_defaultmode t' = g_defaultmode t"
  by (simp add: config_antenna_def gui_get_value_from_conffile_def value_lookup [OF assms] conf_frame_def Let_def) blast

lemma gui_config_read:
  assumes "conf_ok txt" "length (g_allowedmodes s) = 3"
    and "\<forall>v. setting (bytes_of ''ALLOWEDMODES'') txt = Some v \<longrightarrow> length v < 10"
  obtains r s' where "gui_get_config_from_file (Some txt) s = Some (r, s')" "conf_frame s s'"
    "length (g_allowedmodes s') = 3"
    "config_valid txt s \<longrightarrow> g_allowedmodes s' = g_allowedmodes (configured txt s) \<and>
      g_defaultmode s' = g_defaultmode (configured txt s)"
proof -
  obtain s1 where s1: "config_common txt s = Some (config_valid txt s, s1)"
    "length (g_allowedmodes s1) = 3" "config_valid txt s \<longrightarrow> s1 = configured txt s"
    using config_read [OF assms] by (auto simp: get_config_from_file_def)
  let ?rest = "required txt ''VERSION'' (\<lambda>x s. s\<lparr>m_chversion := x\<rparr>) (
    required txt ''RELEASEDATE'' (\<lambda>x s. s\<lparr>m_chreleasedate := x\<rparr>) (
    required txt ''PRODUCTID'' (\<lambda>x s. s\<lparr>m_chproductid := x\<rparr>) (
    config_antenna txt)))"
  have "\<exists>r t'. ?rest t = Some (r, t') \<and> conf_frame t t' \<and> g_allowedmodes t' = g_allowedmodes t \<and>
      g_defaultmode t' = g_defaultmode t" for t :: "'a gui"
    by (intro required_read antenna_read assms(1)) (simp_all add: conf_frame_def)
  then obtain r s2 where s2: "?rest s1 = Some (r, s2)" "conf_frame s1 s2" "g_allowedmodes s2 = g_allowedmodes s1"
    "g_defaultmode s2 = g_defaultmode s1" by blast
  show ?thesis
  proof (cases "config_valid txt s")
    case True
    then show ?thesis
      using that [of r s2] s1 s2 conf_frame_trans [OF common_keeps [OF s1(1)] s2(2)]
      by (simp add: gui_get_config_from_file_def)
  next
    case False
    then show ?thesis
      using that [of False s1] s1 common_keeps [OF s1(1)] by (simp add: gui_get_config_from_file_def)
  qed
qed

section \<open>The contract of the start\<close>

text \<open>\<open>enum\<close> is the mode the device reports: the started devices, none, or that none ever ran.\<close>

locale wb_start = wb_bus D ok ready on willing
  for D :: "'d bus_dev" and ok ready :: "'d \<Rightarrow> bool" and on :: "'d \<Rightarrow> u32 set" and willing :: "u32 set" +
  fixes enum :: "'d \<Rightarrow> u32"
  assumes enum_law: "ready d \<Longrightarrow> length m = 4 \<Longrightarrow>
      \<exists>d'. dev_ioctl D IOCTL_BUSENUM_READ_ENUM_MODE m d = Some (0, le32 (enum d), d') \<and> ready d' \<and> on d' = on d"
    and enum_open: "ok d \<Longrightarrow> dev_open D d = Some (True, d') \<Longrightarrow> enum d' = enum d"
    and enum_range: "ok d \<Longrightarrow> enum d = - 1 \<or> enum d \<le> 3"
    and antenna_law: "ready d \<Longrightarrow>
      \<exists>r m' d'. dev_ioctl D IOCTL_BUSENUM_SET_ANTENNA m d = Some (r, m', d') \<and> ready d' \<and> on d' = on d"

text \<open>The program's own callback keeps the contract of the callback at every level but the last.\<close>

sublocale wb_start \<subseteq> gui: gui_bus D ok ready on willing E "deliver E D (Suc n)" for E n
proof
  show "\<not> g_ismenuclicked s \<Longrightarrow> deliver E D (Suc n) (Activated i) s = Some s" for s i
    by (rule deliver_activated)
  show "ok (dev s) \<Longrightarrow> busy s \<Longrightarrow> \<exists>s'. deliver E D (Suc n) ev s = Some s' \<and> still ok on s s'" for s ev
    by (rule deliver_busy)
qed

text \<open>The mode the program starts with, from the allowed modes, the default and the bus's answer.\<close>

definition start_mode :: "bool list \<Rightarrow> int \<Rightarrow> u32 \<Rightarrow> int" where
  "start_mode modes d e =
     (if e = - 1 then d else if e = 0 then 0 else if modes ! (unat e - 1) then int (unat e) else 0)"

lemma small_modes:
  assumes "(e :: u32) \<le> 3" "e \<noteq> 0"
  shows "unat (e - 1) = unat e - 1" "unat e - 1 < 3" "sint e = int (unat e)"
proof -
  have "e = 1 \<or> e = 2 \<or> e = 3"
    using assms by (simp add: word_le_nat_alt word_unat_eq_iff) linarith
  then show "unat (e - 1) = unat e - 1" "unat e - 1 < 3" "sint e = int (unat e)" by auto
qed

definition gui_fresh :: "'d gui \<Rightarrow> 'd gui" where
  "gui_fresh s = s\<lparr>g_allowedmodes := [False, False, False], g_defaultmode := 3\<rparr>"

lemma levels_Suc: "deliver E D levels = deliver E D (Suc 2)"
  by (simp only: levels_def numeral_3_eq_3 numeral_2_eq_2)

lemma levels_handle: "deliver E D levels = handle_event E (deliver E D (Suc 1)) D"
  by (simp add: fun_eq_iff levels_def numeral_3_eq_3)

context wb_start begin

lemma enum_read:
  assumes "ok (dev s)"
  obtains d' where "read_enum_mode D s = Some (enum (dev s), s\<lparr>dev := d', g_rawenummode := enum (dev s)\<rparr>)"
    "ok d'" "on d' = on (dev s)"
proof -
  obtain d where d: "dev_open D (dev s) = Some (True, d)" "ready d" "on d = on (dev s)"
    using open_law [OF assms] by blast
  have e: "enum d = enum (dev s)" using enum_open [OF assms d(1)] .
  obtain d1 where d1: "dev_ioctl D IOCTL_BUSENUM_READ_ENUM_MODE (junk_bytes 4 s) d = Some (0, le32 (enum (dev s)), d1)"
    "ready d1" "on d1 = on d"
    using enum_law [OF d(2), of "junk_bytes 4 s"] e by auto
  obtain d2 where d2: "dev_close D d1 = Some d2" "ok d2" "on d2 = on d1" using close_law [OF d1(2)] by blast
  show ?thesis
    using that [of d2] d d1 d2
    by (simp add: read_enum_mode_def bus_request_def open_device_def ioctl_device_def close_device_def libc_result_def)
qed

lemma antenna_set:
  assumes "ok (dev s)"
  obtains r d' where "set_antenna_flag D e s = Some (r, s\<lparr>dev := d'\<rparr>)" "ok d'" "on d' = on (dev s)"
proof -
  have "\<exists>r m' d'. bus_request D IOCTL_BUSENUM_SET_ANTENNA (le32 e) s =
      Some (Some (libc_result r, m'), s\<lparr>dev := d'\<rparr>) \<and> True \<and> ok d' \<and> on d' = on (dev s)"
    by (rule bus_request_done [OF assms]) (use antenna_law in metis)
  then show ?thesis using that by (auto simp: set_antenna_flag_def bus_accepts_def)
qed

lemma default_initialised:
  assumes "ok (dev s)" "length (g_allowedmodes s) = 3"
  obtains r d' x where "initial_wb_defaultmode D s = Some (r, s\<lparr>dev := d', g_rawenummode := x,
      g_defaultmode := start_mode (g_allowedmodes s) (g_defaultmode s) (enum (dev s))\<rparr>)"
    "ok d'" "on d' = on (dev s)"
proof -
  let ?e = "enum (dev s)"
  obtain d' where d': "read_enum_mode D s = Some (?e, s\<lparr>dev := d', g_rawenummode := ?e\<rparr>)" "ok d'" "on d' = on (dev s)"
    using enum_read [OF assms(1)] .
  show ?thesis
  proof (cases "?e = - 1")
    case True
    then show ?thesis
      using that [of "- 1" ?e d'] d' by (simp add: initial_wb_defaultmode_def gui_bus_defs start_mode_def)
  next
    case False
    then have 3: "?e \<le> 3" using enum_range [OF assms(1)] by auto
    show ?thesis
    proof (cases "?e = 0")
      case True
      then show ?thesis
        using that [of 0 0 d'] d' by (simp add: initial_wb_defaultmode_def gui_bus_defs start_mode_def)
    next
      case nz: False
      let ?a = "g_allowedmodes s ! (unat ?e - 1)"
      show ?thesis
        using that [of 0 "if ?a then ?e else 0" d'] d' False nz small_modes [OF 3 nz] assms(2)
        by (cases ?a) (simp_all add: initial_wb_defaultmode_def gui_bus_defs start_mode_def allowed_mode_def Let_def)
    qed
  qed
qed

text \<open>The start of the program up to its menu.\<close>

lemma gui_prepared:
  assumes "gui.clickable s" "\<not> g_ismenuclicked s" "gui_conf e = Some txt" "conf_ok txt"
    and "\<forall>v. setting (bytes_of ''ALLOWEDMODES'') txt = Some v \<longrightarrow> length v < 10"
  obtains s' where "gui_prepare D e s = Some s'" "gui.clickable s'" "\<not> g_ismenuclicked s'" "on (dev s') = on (dev s)"
    "menu_visible s' = allowed_item s'" "batches s' = batches s"
    "config_valid txt (gui_fresh s) \<longrightarrow>
      g_defaultmode s' = start_mode (g_allowedmodes (configured txt (gui_fresh s)))
        (g_defaultmode (configured txt (gui_fresh s))) (enum (dev s))"
proof -
  obtain r s1 where s1: "gui_get_config_from_file (Some txt) (gui_fresh s) = Some (r, s1)"
    "conf_frame (gui_fresh s) s1" "length (g_allowedmodes s1) = 3"
    "config_valid txt (gui_fresh s) \<longrightarrow> g_allowedmodes s1 = g_allowedmodes (configured txt (gui_fresh s)) \<and>
      g_defaultmode s1 = g_defaultmode (configured txt (gui_fresh s))"
    using gui_config_read [OF assms(4) _ assms(5), of "gui_fresh s"] by (auto simp: gui_fresh_def)
  have f1: "dev s1 = dev s" "\<not> g_isclickinginprogress s1" "malloc_ok s1 = malloc_ok s" "\<not> g_ismenuclicked s1"
    "\<not> g_bDirectlyFlag s1" "batches s1 = batches s" "ok (dev s)" "\<forall>n. malloc_ok s n"
    using s1(2) assms(1,2) by (simp_all add: conf_frame_def gui_fresh_def gui.clickable_def)
  let ?s2 = "create_menu1 s1"
  have 2: "ok (dev ?s2)" "length (g_allowedmodes ?s2) = 3" using s1(3) f1 by (simp_all add: create_menu1_def)
  obtain r2 d2 x where s2: "initial_wb_defaultmode D ?s2 = Some (r2, ?s2\<lparr>dev := d2, g_rawenummode := x,
      g_defaultmode := start_mode (g_allowedmodes ?s2) (g_defaultmode ?s2) (enum (dev ?s2))\<rparr>)"
    "ok d2" "on d2 = on (dev ?s2)"
    using default_initialised [OF 2] .
  let ?s3 = "?s2\<lparr>dev := d2, g_rawenummode := x,
      g_defaultmode := start_mode (g_allowedmodes ?s2) (g_defaultmode ?s2) (enum (dev ?s2))\<rparr>"
  obtain r3 d3 where s3: "set_hotkey_flag D (of_int (m_nHotKeyFlag ?s3)) ?s3 = Some (r3, ?s3\<lparr>dev := d3\<rparr>)"
    "ok d3" "on d3 = on d2"
    using quiet_accepts [of ?s3 IOCTL_BUSENUM_SET_HOTKEY_FLAG "le32 (of_int (m_nHotKeyFlag ?s3))"] s2(2)
    by (auto simp: set_hotkey_flag_def)
  let ?s4 = "?s3\<lparr>dev := d3\<rparr>"
  obtain r4 d4 where s4: "set_antenna_flag D (of_int (m_nAntennaFlag ?s4)) ?s4 = Some (r4, ?s4\<lparr>dev := d4\<rparr>)"
    "ok d4" "on d4 = on d3"
    using antenna_set [of ?s4 "of_int (m_nAntennaFlag ?s4)"] s3(2) by auto
  have "gui_prepare D e s = Some (?s4\<lparr>dev := d4\<rparr>)"
    using s1(1) s2(1) s3(1) s4(1) assms(3)
    by (simp add: gui_prepare_def gui_fresh_def gui_set_hotkey_flag_def)
  moreover have "menu_visible (?s4\<lparr>dev := d4\<rparr>) = allowed_item (?s4\<lparr>dev := d4\<rparr>)"
  proof -
    have "allowed_item (?s4\<lparr>dev := d4\<rparr>) = allowed_item s1" by (rule items_kept) (simp add: create_menu1_def)
    then show ?thesis by (simp add: create_menu1_def)
  qed
  ultimately show ?thesis
    using f1 s1(4) s2 s3(3) s4(2,3)
    by (intro that [of "?s4\<lparr>dev := d4\<rparr>"]) (simp_all add: gui.clickable_def create_menu1_def)
qed

text \<open>The events that come before the menu is set up.\<close>

lemma first_events:
  assumes "gui.clickable s"
  obtains s' where "refresh_gui_and_timeout (deliver E D levels) s = Some s'" "gui.clickable s'" "kept s s'"
    "\<not> list_ex is_click (concat (take 1 (batches s))) \<longrightarrow> on (dev s') = on (dev s)"
proof (cases "batches s")
  case Nil
  then show ?thesis using that [of s] assms by (simp add: refresh_gui_and_timeout_def)
next
  case (Cons b bs)
  have "gui.clickable (s\<lparr>batches := bs\<rparr>)" using assms by (simp add: gui.clickable_def)
  then obtain s' where "run_events (deliver E D levels) b (s\<lparr>batches := bs\<rparr>) = Some s'" "gui.clickable s'"
    "kept (s\<lparr>batches := bs\<rparr>) s'" "\<not> list_ex is_click b \<longrightarrow> on (dev s') = on (dev s)"
    using gui.pending_run [of "s\<lparr>batches := bs\<rparr>" E 1 b] by (auto simp: levels_handle)
  then show ?thesis using that [of s'] Cons by (simp add: refresh_gui_and_timeout_def kept_def)
qed

text \<open>
  \<^verbatim>\<open>main\<close> reaches its loop, with what runs given by the configuration file and by what ran
  before.
\<close>

lemma main_started:
  assumes "gui.clickable s" "\<not> g_ismenuclicked s" "gui_conf e = Some txt" "conf_ok txt"
    and "\<forall>v. setting (bytes_of ''ALLOWEDMODES'') txt = Some v \<longrightarrow> length v < 10"
    and "gui_maincontrol e = 0" "query_self_process_num e argv0 = Some 1"
  obtains s0 where "\<forall>evs. gui_main E D e argv0 evs s = gtk_main (deliver E D levels) evs s0"
    "gui.clickable s0" "menu_visible s0 = allowed_item s0"
    "menu_checked s0 = (\<lambda>i. i = item_of (mode_of (on (dev s0))))"
    "config_valid txt (gui_fresh s) \<and> \<not> list_ex is_click (concat (take 1 (batches s))) \<longrightarrow>
      (case start_item (start_mode (g_allowedmodes (configured txt (gui_fresh s)))
          (g_defaultmode (configured txt (gui_fresh s))) (enum (dev s))) of
        Some i \<Rightarrow> \<exists>g. reached willing i (on (dev s)) (on (dev s0)) g
      | None \<Rightarrow> on (dev s0) = on (dev s))"
proof -
  obtain s1 where s1: "gui_prepare D e s = Some s1" "gui.clickable s1" "on (dev s1) = on (dev s)"
    "menu_visible s1 = allowed_item s1" "batches s1 = batches s"
    "config_valid txt (gui_fresh s) \<longrightarrow>
      g_defaultmode s1 = start_mode (g_allowedmodes (configured txt (gui_fresh s)))
        (g_defaultmode (configured txt (gui_fresh s))) (enum (dev s))"
    using gui_prepared [OF assms(1-5)] .
  obtain s2 where s2: "refresh_gui_and_timeout (deliver E D levels) s1 = Some s2" "gui.clickable s2" "kept s1 s2"
    "\<not> list_ex is_click (concat (take 1 (batches s1))) \<longrightarrow> on (dev s2) = on (dev s1)"
    using first_events [OF s1(2)] .
  obtain s3 where s3: "tdsp_init_menu E (deliver E D levels) D s2 = Some s3" "gui.clickable s3" "kept s2 s3"
    "case start_item (g_defaultmode s2) of
       Some i \<Rightarrow> \<exists>S g. reached willing i (on (dev s2)) S g \<and> on (dev s3) = S \<and> g_state s3 = g
     | None \<Rightarrow> on (dev s3) = on (dev s2)"
    using gui.menu_initialised [OF s2(2), of E 2] unfolding levels_Suc by blast
  obtain s4 where s4: "adjust_menu_item_auto E (deliver E D levels) D s3 = Some s4" "gui.clickable s4" "kept s3 s4"
    "on (dev s4) = on (dev s3)" "menu_checked s4 = (\<lambda>i. i = item_of (mode_of (on (dev s3))))"
    using gui.menu_item_shown [OF s3(2), of E 2] unfolding levels_Suc by blast
  have k: "kept s1 s4" using kept_trans s2(3) s3(3) s4(3) by blast
  show ?thesis
  proof (rule that)
    show "\<forall>evs. gui_main E D e argv0 evs s = gtk_main (deliver E D levels) evs s4"
      using assms(6,7) s1(1) s2(1) s3(1) s4(1) by (simp add: gui_main_def)
    show "menu_visible s4 = allowed_item s4" using k s1(4) items_kept [of s4 s1] by (simp add: kept_def)
    show "menu_checked s4 = (\<lambda>i. i = item_of (mode_of (on (dev s4))))" using s4(4,5) by simp
    have "g_defaultmode s2 = g_defaultmode s1" using s2(3) by (simp add: kept_def)
    then show "config_valid txt (gui_fresh s) \<and> \<not> list_ex is_click (concat (take 1 (batches s))) \<longrightarrow>
      (case start_item (start_mode (g_allowedmodes (configured txt (gui_fresh s)))
          (g_defaultmode (configured txt (gui_fresh s))) (enum (dev s))) of
        Some i \<Rightarrow> \<exists>g. reached willing i (on (dev s)) (on (dev s4)) g
      | None \<Rightarrow> on (dev s4) = on (dev s))"
      using s1(3,5,6) s2(4) s3(4) s4(4) by (auto split: option.splits)
  qed (rule s4(2))
qed

end

end
