(* ===== verification/Gui_Props.thy ===== *)
theory Gui_Props
  imports Gui_Start Uwb_Main_Props
begin

text \<open>
  The graphical utility on the modelled system: the contract of its start is interpreted on the
  bus module's device with both drivers behind it, and the properties follow for the program as a
  whole, with witnesses.
\<close>

section \<open>The device of the utility\<close>

definition node_enum :: "('a, 'b) sys_node \<Rightarrow> u32" where
  "node_enum d = enum_mode_spec (snd d)"

lemma node_read_enum:
  assumes "node_ready W d" "length m = 4"
  shows "\<exists>d'. dev_ioctl (sys_dev stk) IOCTL_BUSENUM_READ_ENUM_MODE m d = Some (0, le32 (node_enum d), d') \<and>
    node_ready W d' \<and> node_on d' = node_on d"
proof -
  obtain f w where d: "d = (f, w)" by (cases d)
  have ok: "bus_ok (sys_ok_on W) w" using assms(1) by (simp add: d node_ready_def node_ok_def)
  then have inv: "bus_inv w" by (simp add: bus_ok_def)
  let ?w = "set_enum_mode (enum_mode_spec w) w"
  have "ioctl_switch sys_call stk IOCTL_BUSENUM_READ_ENUM_MODE m w = Some (0, le32 (enum_mode_spec w), ?w)"
    using assms(2) by (simp add: ioctl_switch_def read_enum_mode_run [OF inv] umem_simps STATUS_SUCCESS_def)
  moreover have "bus_ok (sys_ok_on W) ?w" using set_enum_mode_ok [OF ok] .
  moreover have "switches ?w = switches w" "ptdspbus_myself ?w = ptdspbus_myself w"
    by (simp_all add: switches_def slot_state_def set_enum_mode_def)
  ultimately show ?thesis
    using same_switches_step [of W f w ?w] switch_served [of W f w] assms(1)
    by (simp add: d sys_dev_ioctl node_enum_def)
qed

lemma node_antenna:
  assumes "node_ready W d"
  shows "\<exists>r m' d'. dev_ioctl (sys_dev stk) IOCTL_BUSENUM_SET_ANTENNA m d = Some (r, m', d') \<and>
    node_ready W d' \<and> node_on d' = node_on d"
proof -
  obtain f w where d: "d = (f, w)" by (cases d)
  have ok: "bus_ok (sys_ok_on W) w" using assms by (simp add: d node_ready_def node_ok_def)
  then have inv: "bus_inv w" by (simp add: bus_ok_def)
  have "\<exists>r m' w'. ioctl_switch sys_call stk IOCTL_BUSENUM_SET_ANTENNA m w = Some (r, m', w') \<and>
      bus_ok (sys_ok_on W) w' \<and> ptdspbus_myself w' = ptdspbus_myself w \<and> switches w' = switches w"
  proof (cases "4 \<le> length m")
    case True
    obtain w' where w': "ioctl_set_antenna m w = Some (STATUS_SUCCESS, m, w')" "bus_inv w'" "flag_frame w w'"
      using antenna_loop_ioctl [OF inv True] by blast
    then have "bus_ok (sys_ok_on W) w'" "switches w' = switches w" "ptdspbus_myself w' = ptdspbus_myself w"
      using sysbt.loop_ok [OF ok] hotkey_switches [OF inv] by (simp_all add: flag_frame_def)
    with w' show ?thesis by (simp add: ioctl_switch_def)
  next
    case False
    then have "\<exists>r. ioctl_switch sys_call stk IOCTL_BUSENUM_SET_ANTENNA m w = Some (r, m, w)"
      by (auto simp: ioctl_switch_def ioctl_set_antenna_def umem_simps ioctl_status_def)
    with ok show ?thesis by auto
  qed
  then obtain r m' w' where "ioctl_switch sys_call stk IOCTL_BUSENUM_SET_ANTENNA m w = Some (r, m', w')"
    "bus_ok (sys_ok_on W) w'" "ptdspbus_myself w' = ptdspbus_myself w" "switches w' = switches w" by blast
  then show ?thesis
    using same_switches_step [of W f w w'] switch_served [of W f w] assms by (auto simp: d sys_dev_ioctl)
qed

interpretation gus: wb_start "sys_dev stk" "node_ok W" "node_ready W" node_on W node_enum for stk W
proof
  show "node_ready W d \<Longrightarrow> length m = 4 \<Longrightarrow>
      \<exists>d'. dev_ioctl (sys_dev stk) IOCTL_BUSENUM_READ_ENUM_MODE m d = Some (0, le32 (node_enum d), d') \<and>
        node_ready W d' \<and> node_on d' = node_on d" for d m by (rule node_read_enum)
  show "node_ok W d \<Longrightarrow> dev_open (sys_dev stk) d = Some (True, d') \<Longrightarrow> node_enum d' = node_enum d" for d d'
    by (auto simp: sys_dev_def node_enum_def tdspbus_open_def split: prod.splits if_splits bind_splits)
  show "node_ok W d \<Longrightarrow> node_enum d = - 1 \<or> node_enum d \<le> 3" for d :: "('a, 'b) sys_node"
    by (auto simp: node_enum_def enum_mode_spec_def started_mask_def)
  show "node_ready W d \<Longrightarrow>
      \<exists>r m' d'. dev_ioctl (sys_dev stk) IOCTL_BUSENUM_SET_ANTENNA m d = Some (r, m', d') \<and>
        node_ready W d' \<and> node_on d' = node_on d" for d m by (rule node_antenna)
qed

interpretation gubus: gui_bus "sys_dev stk" "node_ok W" "node_ready W" node_on W E
    "deliver E (sys_dev stk) (Suc n)" for stk W E n
  by (rule gus.gui.gui_bus_axioms)

text \<open>The program waits for an event: no click is in progress.\<close>

definition gui_idle :: "u32 set \<Rightarrow> ('a, 'b) sys_node gui \<Rightarrow> bool" where
  "gui_idle W s \<longleftrightarrow> node_ok W (dev s) \<and> \<not> g_isclickinginprogress s \<and> \<not> g_bDirectlyFlag s \<and> (\<forall>n. malloc_ok s n)"

lemma idle_clickable: "gui_idle W s \<longleftrightarrow> gui_bus.clickable (node_ok W) s"
  by (simp add: gui_idle_def gus.gui.clickable_def)

lemma at_levels: "deliver E D levels ev s = handle_event E (deliver E D (Suc 1)) D ev s"
  by (simp add: levels_handle)

section \<open>Properties\<close>

text \<open>
  C3: The menu of the graphical utility shows exactly what runs, and a click on an item runs its
  mode.  Conditions: a card is registered, memory allocation does not fail, the kernel's
  allocations of the WLAN counters and registrations of network devices succeed, and no click is
  in progress.  Then opening the menu checks the item of the devices that are started and no
  other; a click on an item that is shown and sensitive ends, whatever events come meanwhile; and
  the menu opened next shows what is started then.  The click leaves exactly the devices of the item started
  whenever they started before or are in the set \<open>W\<close> of those whose drivers start when asked;
  a device outside \<open>W\<close> may fail, and then nothing is started, or, when the item is for both
  devices and only Bluetooth failed, WLAN alone, which the globals still call both.  In every
  other outcome the globals name what is started.
\<close>

theorem gui_click_runs_mode:
  fixes s :: "('a, 'b) sys_node gui"
  assumes "dev s = (f, w)" "system_up W w" "any_registered (FdoData w)" "env_ok (client w)"
    and "\<forall>n. malloc_ok s n" "\<not> g_isclickinginprogress s" "\<not> g_bDirectlyFlag s"
    and "menu_visible s i" "menu_sensitive s i"
  shows "\<exists>s1 s2 s3. deliver E (sys_dev stk) levels Popup s = Some s1 \<and>
    deliver E (sys_dev stk) levels (Menu_Click i) s1 = Some s2 \<and>
    deliver E (sys_dev stk) levels Popup s2 = Some s3 \<and>
    menu_checked s1 = (\<lambda>j. j = item_of (mode_of (node_on (dev s)))) \<and>
    reached W i (node_on (dev s)) (node_on (dev s2)) (g_state s2) \<and>
    menu_checked s3 = (\<lambda>j. j = item_of (mode_of (node_on (dev s2)))) \<and> gui_idle W s3"
proof -
  have c: "gui_bus.clickable (node_ok W) s"
    using assms(1-7) by (simp add: node_okI gui_idle_def flip: idle_clickable)
  obtain s1 where s1: "deliver E (sys_dev stk) levels Popup s = Some s1"
    "gui_bus.event_result (node_ok W) node_on W Popup s s1"
    using gus.gui.event_handled [OF c] unfolding at_levels by blast
  have c1: "gui_bus.clickable (node_ok W) s1" "menu_visible s1 i" "menu_sensitive s1 i" "g_ismenuclicked s1"
    "menu_checked s1 = (\<lambda>j. j = item_of (mode_of (node_on (dev s))))" "node_on (dev s1) = node_on (dev s)"
    using s1(2) assms(8,9) by (simp_all add: gus.gui.event_result_def kept_def)
  obtain s2 where s2: "deliver E (sys_dev stk) levels (Menu_Click i) s1 = Some s2"
    "gui_bus.event_result (node_ok W) node_on W (Menu_Click i) s1 s2"
    using gus.gui.event_handled [OF c1(1)] unfolding at_levels by blast
  have c2: "gui_bus.clickable (node_ok W) s2"
    "reached W i (node_on (dev s)) (node_on (dev s2)) (g_state s2)"
    using s2(2) c1 by (auto simp: gus.gui.event_result_def gus.gui.commanded_def gus.gui.rested_def)
  obtain s3 where s3: "deliver E (sys_dev stk) levels Popup s2 = Some s3"
    "gui_bus.event_result (node_ok W) node_on W Popup s2 s3"
    using gus.gui.event_handled [OF c2(1)] unfolding at_levels by blast
  show ?thesis
    using s1(1) s2(1) s3 c1(5) c2(2)
    by (intro exI [of _ s1] exI [of _ s2] exI [of _ s3]) (simp add: gus.gui.event_result_def idle_clickable)
qed

text \<open>
  C40: The graphical utility always comes to rest.  Conditions: the instance lock is granted and no
  other process of the program runs, the configuration file is not empty, does not end behind a
  remark and has no \<^verbatim>\<open>ALLOWEDMODES\<close> of ten or more characters, a card is registered, memory
  allocation does not fail, and the kernel's allocations of the WLAN counters and registrations
  of network devices succeed.  Then, from every state of the drivers, with any events of the user, the timer and
  the tray, inside its callbacks as well, \<^verbatim>\<open>main\<close> returns with no click in progress and a
  menu of exactly the allowed modes.  If the file is valid and no click is among the events that
  come while the window is built, then before the first event of the main loop the mode is
  running that the devices were in, if the file allows it, and nothing if it does not; when no
  device was started, the default mode of the file is running if a registered device still carries
  the mark that it was never started (the bus reports all ones), and nothing otherwise.  That a mode is running means that exactly its devices are started
  when they are in the set \<open>W\<close> of those whose drivers start when asked, and otherwise what
  is left when a driver outside \<open>W\<close> fails, as for a click.  Without a click in the main loop
  the same devices are started at the end.
\<close>

theorem gui_main_runs:
  fixes s :: "('a, 'b) sys_node gui"
  assumes "dev s = (f, w)" "system_up W w" "any_registered (FdoData w)" "env_ok (client w)"
    and "\<forall>n. malloc_ok s n" "\<not> g_isclickinginprogress s" "\<not> g_bDirectlyFlag s" "\<not> g_ismenuclicked s"
    and "gui_maincontrol e = 0" "query_self_process_num e argv0 = Some 1"
    and "gui_conf e = Some txt" "txt \<noteq> []" "\<not> ends_in_remark txt"
    and "\<forall>v. setting (bytes_of ''ALLOWEDMODES'') txt = Some v \<longrightarrow> length v < 10"
  shows "\<exists>s0 s'. gui_main E (sys_dev stk) e argv0 [] s = Some s0 \<and> gui_main E (sys_dev stk) e argv0 evs s = Some s' \<and>
    gui_idle W s' \<and> menu_visible s' = allowed_item s' \<and>
    menu_checked s0 = (\<lambda>i. i = item_of (mode_of (node_on (dev s0)))) \<and>
    (\<not> list_ex is_click evs \<longrightarrow> node_on (dev s') = node_on (dev s0)) \<and>
    (config_valid txt (gui_fresh s) \<and> \<not> list_ex is_click (concat (take 1 (batches s))) \<longrightarrow>
      (case start_item (start_mode (g_allowedmodes (configured txt (gui_fresh s)))
          (g_defaultmode (configured txt (gui_fresh s))) (enum_mode_spec w)) of
        Some i \<Rightarrow> \<exists>g. reached W i (node_on (dev s)) (node_on (dev s0)) g
      | None \<Rightarrow> node_on (dev s0) = node_on (dev s)))"
proof -
  have c: "gui_bus.clickable (node_ok W) s" 
    using assms(1-7) by (simp add: node_okI gui_idle_def flip: idle_clickable)
  have w: "snd (dev s) = w" using assms(1) by simp
  have ok: "conf_ok txt" using assms(12,13) by (simp add: conf_ok_def)
  obtain s0 where s0: "\<forall>evs. gui_main E (sys_dev stk) e argv0 evs s = gtk_main (deliver E (sys_dev stk) levels) evs s0"
    "gui_bus.clickable (node_ok W) s0" "menu_visible s0 = allowed_item s0"
    "menu_checked s0 = (\<lambda>i. i = item_of (mode_of (node_on (dev s0))))"
    "config_valid txt (gui_fresh s) \<and> \<not> list_ex is_click (concat (take 1 (batches s))) \<longrightarrow>
      (case start_item (start_mode (g_allowedmodes (configured txt (gui_fresh s)))
          (g_defaultmode (configured txt (gui_fresh s))) (node_enum (dev s))) of
        Some i \<Rightarrow> \<exists>g. reached W i (node_on (dev s)) (node_on (dev s0)) g
      | None \<Rightarrow> node_on (dev s0) = node_on (dev s))"
    using gus.main_started [OF c assms(8,11) ok assms(14,9,10), where E = E and stk = stk] .
  obtain s' where s': "gtk_main (deliver E (sys_dev stk) levels) evs s0 = Some s'" "gui_bus.clickable (node_ok W) s'"
    "kept s0 s'" "\<not> list_ex is_click evs \<longrightarrow> node_on (dev s') = node_on (dev s0)"
    using gus.gui.loop_runs [OF s0(2)] unfolding levels_handle by blast
  have "menu_visible s' = allowed_item s'" using s'(3) s0(3) items_kept [of s' s0] by (simp add: kept_def)
  moreover have "gui_main E (sys_dev stk) e argv0 [] s = Some s0" "gui_main E (sys_dev stk) e argv0 evs s = Some s'"
    using s0(1) s'(1) by simp_all
  moreover have "gui_idle W s'" using s'(2) by (simp only: idle_clickable)
  moreover note s0(4) s'(4) s0(5) [unfolded node_enum_def w]
  ultimately show ?thesis by blast
qed

section \<open>Witnesses\<close>

definition demo_gui :: "(demo_wadap, demo_badap) sys_node gui" where
  "demo_gui = wb.extend demo_wb
     \<lparr>g_ismenuclicked = False, g_iconindex = 0, g_subsystemid = 0, g_bDirectlyFlag = False,
      m_nAntennaFlag = 0, m_chversion = [], m_chreleasedate = [], m_chproductid = [], icon_shown = 0,
      blinking = False, tooltip = Tip_Both,
      menu_visible = (\<lambda>i. i \<noteq> Item_Wlan), menu_sensitive = (\<lambda>i. True), menu_checked = (\<lambda>i. False),
      batches = [[Popup, Timer]], quitting = False\<rparr>"

definition demo_gui_env :: gui_env where
  "demo_gui_env = \<lparr>gui_conf = Some (demo_conf), gui_conf_rw = True, gui_lock_granted = True,
     processes = (\<lambda>name. Some 1)\<rparr>"

lemma demo_gui_sel:
  "dev demo_gui = dev demo_wb" "g_isclickinginprogress demo_gui = g_isclickinginprogress demo_wb"
  "malloc_ok demo_gui = malloc_ok demo_wb" "\<not> g_ismenuclicked demo_gui" "\<not> g_bDirectlyFlag demo_gui"
  "menu_visible demo_gui = (\<lambda>i. i \<noteq> Item_Wlan)" "menu_sensitive demo_gui = (\<lambda>i. True)"
  "batches demo_gui = [[Popup, Timer]]" "m_nHotKeyFlag demo_gui = m_nHotKeyFlag demo_wb"
  by (simp_all add: demo_gui_def wb.extend_def)

lemma demo_gui_dev:
  "dev demo_gui = (\<lparr>private_data = None\<rparr>, sys_up)" "\<forall>n. malloc_ok demo_gui n" "\<not> g_isclickinginprogress demo_gui"
  by (simp_all add: demo_gui_sel demo_wb_sel)

text \<open>WLAN runs; the menu shows it, a click on a mode is let in, and then exactly this mode runs.\<close>

theorem gui_click_runs_mode_witness:
  "(\<exists>s1 s2. deliver (\<noteq>) (sys_dev []) levels Popup demo_gui = Some s1 \<and>
     menu_checked s1 = (\<lambda>j. j = Item_Wlan) \<and>
     deliver (\<noteq>) (sys_dev []) levels (Menu_Click Item_Bluetooth) s1 = Some s2 \<and>
     node_on (dev s2) = {1} \<and> g_state s2 = BT_only) \<and>
   (\<exists>s1 s2. deliver (\<noteq>) (sys_dev []) levels Popup demo_gui = Some s1 \<and>
     deliver (\<noteq>) (sys_dev []) levels (Menu_Click Item_Coexist) s1 = Some s2 \<and>
     node_on (dev s2) = {1, 2} \<and> g_state s2 = Both)"
proof -
  have v: "menu_visible demo_gui Item_Bluetooth" "menu_sensitive demo_gui Item_Bluetooth"
    "menu_visible demo_gui Item_Coexist" "menu_sensitive demo_gui Item_Coexist"
    by (simp_all add: demo_gui_sel)
  note c = gui_click_runs_mode [OF demo_gui_dev(1) demo_system_up demo_card(1,2) demo_gui_dev(2,3) demo_gui_sel(5),
      of _ "(\<noteq>)" "[]"]
  show ?thesis using c [OF v(1,2)] c [OF v(3,4)] by (auto simp: reached_def demo_gui_sel demo_on)
qed

text \<open>WLAN runs and the configuration file does not allow it: the program stops it at its start.\<close>

theorem gui_main_runs_witness:
  "node_on (dev demo_gui) = {2} \<and>
   (\<exists>s'. gui_main (\<noteq>) (sys_dev []) demo_gui_env (bytes_of ''/usr/bin/uwb'') [Timer, Popup, Exit] demo_gui = Some s' \<and>
     node_on (dev s') = {})"
proof -
  have e: "gui_maincontrol demo_gui_env = 0" "gui_conf demo_gui_env = Some (demo_conf)"
    by (simp_all add: demo_gui_env_def gui_maincontrol_def)
  have q: "query_self_process_num demo_gui_env (bytes_of ''/usr/bin/uwb'') = Some 1"
    by (simp add: query_self_process_num_def callpipe_def demo_gui_env_def bytes_of_def)
  have short: "\<forall>v. setting (bytes_of ''ALLOWEDMODES'') demo_conf = Some v \<longrightarrow> length v < 10"
    by (simp add: demo_settings length_bytes_of)
  have valid: "config_valid demo_conf (gui_fresh demo_gui)"
    using demo_valid
    by (simp add: config_valid_def gui_fresh_def fresh_def demo_gui_sel)
  have enum: "enum_mode_spec sys_up = 2"
    by (simp add: enum_mode_spec_def demo_gui_sel demo_wb_sel demo_started_mask)
  have modes: "g_allowedmodes (configured demo_conf (gui_fresh demo_gui)) = [True, False, True]"
    by (simp add: configured_def demo_settings with_modes_def gui_fresh_def)
      (simp add: mode_digit_def bytes_of_def numeral_3_eq_3)
  have "start_mode (g_allowedmodes (configured demo_conf (gui_fresh demo_gui)))
      (g_defaultmode (configured demo_conf (gui_fresh demo_gui))) (enum_mode_spec sys_up) = 0"
    by (simp add: start_mode_def enum modes)
  then show ?thesis
    using gui_main_runs [OF demo_gui_dev(1) demo_system_up demo_card(1,2) demo_gui_dev(2,3) demo_gui_sel(5,4) e(1) q e(2)
        demo_conf_ok short, of "(\<noteq>)" "[]" "[Timer, Popup, Exit]"]
      valid
    by (auto simp: start_item_def reached_def is_click_def demo_gui_sel demo_on)
qed

end
