(* ===== verification/Bt_Debug.thy ===== *)
theory Bt_Debug
  imports Sys_Run
begin

text \<open>
  The debug requests of the Bluetooth driver, \<^verbatim>\<open>hci_usb_ioctl\<close> of
  \<^verbatim>\<open>src/driver_src/new_bluetooth/lbluetooth_entry.c\<close>: registers of the DSP and of the USB
  controller, the dump of a link manager packet, and a deliberate crash.  The line that puts the
  routine into the HCI device is commented out there, so no request of the running system
  reaches it; it is modelled as the function it is.
\<close>

section \<open>Commands and structures\<close>

text \<open>\<^verbatim>\<open>_IOW('H', nr, type)\<close> with a type of four bytes.\<close>

definition HCI_IOW :: "u32 \<Rightarrow> u32" where "HCI_IOW nr = 0x40044800 + nr"

abbreviation "HCISETDBGZONE \<equiv> HCI_IOW 101"
abbreviation "IOCTL_READ_DSP_REG \<equiv> HCI_IOW 104"
abbreviation "IOCTL_READ_USB_REG \<equiv> HCI_IOW 105"
abbreviation "IOCTL_WRITE_USB_REG \<equiv> HCI_IOW 106"
abbreviation "IOCTL_DUMP_LMP_PKT \<equiv> HCI_IOW 107"
abbreviation "IOCTL_SYS_DIAG \<equiv> HCI_IOW 108"
abbreviation "IOCTL_DBG_CRASH \<equiv> HCI_IOW 109"
abbreviation "IOCTL_WRITE_DSP_REG \<equiv> HCI_IOW 110"

lemma HCI_IOW_inject [simp]: "(HCI_IOW m = HCI_IOW n) = (m = n)"
  by (simp add: HCI_IOW_def)

text \<open>\<^verbatim>\<open>struct dbg_dsp_reg\<close> and \<^verbatim>\<open>struct dbg_usb_reg\<close>, which have the same layout.\<close>

record dbg_reg =
  dr_addr :: u32
  dr_len :: u32
  dr_out :: "u8 list"

definition DBG_OUT_LEN :: nat where "DBG_OUT_LEN = 256 * 4"
definition DBG_REG_SIZE :: nat where "DBG_REG_SIZE = 8 + DBG_OUT_LEN"

definition dbg_reg_of :: "u8 list \<Rightarrow> dbg_reg" where
  "dbg_reg_of bs = \<lparr>dr_addr = rd32 bs, dr_len = rd32 (drop 4 bs), dr_out = drop 8 bs\<rparr>"

definition dbg_reg_bytes :: "dbg_reg \<Rightarrow> u8 list" where
  "dbg_reg_bytes R = le32 (dr_addr R) @ le32 (dr_len R) @ dr_out R"

text \<open>
  The size of \<^verbatim>\<open>struct lmp_dump\<close>: 2 + 1 bytes, one of padding, two words of 4 bytes and a
  packet of 17, rounded up to a multiple of 4.
\<close>

definition LMP_DUMP_SIZE :: nat where "LMP_DUMP_SIZE = 32"

text \<open>
  The calls of the library, whose code is not in the repository: a read gives its result, the
  bytes it stores at \<^verbatim>\<open>out\<close> and the adapter, a write is given the bytes it may read.
\<close>

record 'b bt_debug_lib =
  Bluetooth_Adap_ReadDspReg :: "u32 \<Rightarrow> u32 \<Rightarrow> 'b \<Rightarrow> int \<times> u8 list \<times> 'b"
  Bluetooth_Adap_WriteDspReg :: "u32 \<Rightarrow> u8 list \<Rightarrow> 'b \<Rightarrow> int \<times> 'b"
  Bluetooth_Adap_ReadUsbReg :: "u32 \<Rightarrow> u32 \<Rightarrow> 'b \<Rightarrow> int \<times> u8 list \<times> 'b"
  Bluetooth_Adap_WriteUsbReg :: "u32 \<Rightarrow> u8 list \<Rightarrow> 'b \<Rightarrow> int \<times> 'b"
  Bluetooth_Adap_Get_Dumpdata :: "'b \<Rightarrow> u8 list option \<times> 'b"
  Bluetooth_Adap_DiagSys :: "'b \<Rightarrow> 'b"

text \<open>The variables of the module the requests use, and the structures \<^verbatim>\<open>kzalloc\<close> has given out.\<close>

record bt_debug =
  dbg_zone :: u32
  dbg_level :: u32
  dbg_blocks :: nat

section \<open>The requests\<close>

text \<open>
  A request on registers: the structure is allocated and read from user memory, then \<open>f\<close> is
  done with it.  The flag of the result says that the pointer to the structure is not NULL when
  the routine frees it at its end.
\<close>

definition debug_reg ::
  "bool \<Rightarrow> (dbg_reg \<Rightarrow> umem \<Rightarrow> ('a, 'b) clients \<Rightarrow> (int \<times> umem \<times> ('a, 'b) clients) option) \<Rightarrow>
   umem \<Rightarrow> bt_debug \<Rightarrow> ('a, 'b) clients \<Rightarrow> (int \<times> umem \<times> bool \<times> bt_debug \<times> ('a, 'b) clients) option"
where
  "debug_reg alloc f m g c =
     (if \<not> alloc then Some (- EFAULT, m, False, g, c)
      else (let g1 = g\<lparr>dbg_blocks := Suc (dbg_blocks g)\<rparr>
            in case copy_from_user DBG_REG_SIZE m of (left, bs) \<Rightarrow>
                 if left \<noteq> 0 then Some (- EFAULT, m, True, g1, c)
                 else do {
                   (e, m1, c1) \<leftarrow> f (dbg_reg_of bs) m c;
                   Some (e, m1, True, g1, c1)
                 }))"

definition debug_read ::
  "(u32 \<Rightarrow> u32 \<Rightarrow> 'b \<Rightarrow> int \<times> u8 list \<times> 'b) \<Rightarrow> addr option \<Rightarrow> dbg_reg \<Rightarrow> umem \<Rightarrow>
   ('a, 'b) clients \<Rightarrow> (int \<times> umem \<times> ('a, 'b) clients) option" where
  "debug_read rd devExt R m c = do {
     d \<leftarrow> devExt;
     B \<leftarrow> badap c d;
     (case rd (dr_addr R) (dr_len R) B of (r, bs, B1) \<Rightarrow> do {
        out \<leftarrow> mem_write 0 bs (dr_out R);
        let c1 = c\<lparr>badap := (badap c)(d := Some B1)\<rparr>;
        if r \<noteq> 0 then Some (- ENODEV, m, c1)
        else case copy_to_user (dbg_reg_bytes (R\<lparr>dr_out := out\<rparr>)) m of
               (left, m1) \<Rightarrow> Some (if left \<noteq> 0 then - EFAULT else 0, m1, c1)
      })
   }"

definition debug_write ::
  "(u32 \<Rightarrow> u8 list \<Rightarrow> 'b \<Rightarrow> int \<times> 'b) \<Rightarrow> nat \<Rightarrow> (dbg_reg \<Rightarrow> u8 list) \<Rightarrow> addr option \<Rightarrow>
   dbg_reg \<Rightarrow> umem \<Rightarrow> ('a, 'b) clients \<Rightarrow> (int \<times> umem \<times> ('a, 'b) clients) option" where
  "debug_write wr n src devExt R m c = do {
     d \<leftarrow> devExt;
     B \<leftarrow> badap c d;
     bs \<leftarrow> mem_read 0 n (src R);
     (case wr (dr_addr R) bs B of (r, B1) \<Rightarrow>
        Some (if r \<noteq> 0 then - ENODEV else 0, m, c\<lparr>badap := (badap c)(d := Some B1)\<rparr>))
   }"

text \<open>The dump is read from the socket buffer without a look at its length, and freed.\<close>

definition debug_dump ::
  "'b bt_debug_lib \<Rightarrow> addr option \<Rightarrow> umem \<Rightarrow> ('a, 'b) clients \<Rightarrow>
   (int \<times> umem \<times> ('a, 'b) clients) option" where
  "debug_dump D devExt m c = do {
     d \<leftarrow> devExt;
     B \<leftarrow> badap c d;
     (case Bluetooth_Adap_Get_Dumpdata D B of (skb, B1) \<Rightarrow>
        (let c1 = c\<lparr>badap := (badap c)(d := Some B1)\<rparr>
         in case skb of
              None \<Rightarrow> Some (0, m, c1)
            | Some bs \<Rightarrow> do {
                p \<leftarrow> mem_read 0 LMP_DUMP_SIZE bs;
                case copy_to_user p m of
                  (left, m1) \<Rightarrow> Some (if left \<noteq> 0 then - EFAULT else 0, m1, c1)
              }))
   }"

definition debug_diag ::
  "'b bt_debug_lib \<Rightarrow> addr option \<Rightarrow> umem \<Rightarrow> ('a, 'b) clients \<Rightarrow>
   (int \<times> umem \<times> ('a, 'b) clients) option" where
  "debug_diag D devExt m c = do {
     d \<leftarrow> devExt;
     c1 \<leftarrow> bt_adap_upd d (Bluetooth_Adap_DiagSys D) c;
     Some (0, m, c1)
   }"

text \<open>
  The switch.  Writing a register of the USB controller hands over the address of the member
  \<^verbatim>\<open>len\<close> and the size 1, so that the register is given the lowest byte of \<^verbatim>\<open>len\<close>.
\<close>

definition debug_switch ::
  "'b bt_debug_lib \<Rightarrow> bool \<Rightarrow> addr option \<Rightarrow> u32 \<Rightarrow> u32 \<Rightarrow> umem \<Rightarrow> bt_debug \<Rightarrow> ('a, 'b) clients \<Rightarrow>
   (int \<times> umem \<times> bool \<times> bt_debug \<times> ('a, 'b) clients) option" where
  "debug_switch D alloc devExt cmd arg m g c =
     (let plain = (\<lambda>res. do { (e, m1, c1) \<leftarrow> res; Some (e, m1, False, g, c1) })
      in if cmd = HCISETDBGZONE
         then Some (0, m, False, g\<lparr>dbg_zone := arg AND 0xffff0000, dbg_level := arg AND 0xffff\<rparr>, c)
         else if cmd = IOCTL_READ_DSP_REG
         then debug_reg alloc (debug_read (Bluetooth_Adap_ReadDspReg D) devExt) m g c
         else if cmd = IOCTL_WRITE_DSP_REG
         then debug_reg alloc (\<lambda>R. debug_write (Bluetooth_Adap_WriteDspReg D) (unat (dr_len R))
                                     dr_out devExt R) m g c
         else if cmd = IOCTL_READ_USB_REG
         then debug_reg alloc (debug_read (Bluetooth_Adap_ReadUsbReg D) devExt) m g c
         else if cmd = IOCTL_WRITE_USB_REG
         then debug_reg alloc (debug_write (Bluetooth_Adap_WriteUsbReg D) 1
                                 (\<lambda>R. le32 (dr_len R)) devExt) m g c
         else if cmd = IOCTL_DUMP_LMP_PKT then plain (debug_dump D devExt m c)
         else if cmd = IOCTL_SYS_DIAG then plain (debug_diag D devExt m c)
         else if cmd = IOCTL_DBG_CRASH then None
         else Some (0, m, False, g, c))"

text \<open>
  The routine.  \<open>alloc\<close> says whether the allocation of a structure succeeds, \<open>m\<close> is the
  user memory at the address \<open>arg\<close>.
\<close>

definition hci_usb_ioctl ::
  "'b bt_debug_lib \<Rightarrow> bool \<Rightarrow> addr \<Rightarrow> u32 \<Rightarrow> u32 \<Rightarrow> umem \<Rightarrow> bt_debug \<Rightarrow> ('a, 'b) clients \<Rightarrow>
   (int \<times> umem \<times> bt_debug \<times> ('a, 'b) clients) option" where
  "hci_usb_ioctl D alloc h cmd arg m g c = do {
     hd \<leftarrow> hdevs c h;
     if \<not> hd_running hd then Some (- 1, m, g, c)
     else do {
       (e, m1, reg, g1, c1) \<leftarrow> debug_switch D alloc (hd_drvdata hd) cmd arg m g c;
       Some (e, m1, if reg then g1\<lparr>dbg_blocks := dbg_blocks g1 - 1\<rparr> else g1, c1)
     }
   }"

section \<open>The structures\<close>

lemma dbg_reg_of_bytes: "dbg_reg_of (dbg_reg_bytes R) = R"
  by (simp add: dbg_reg_of_def dbg_reg_bytes_def)

lemma dbg_reg_bytes_length:
  "length (dr_out R) = DBG_OUT_LEN \<Longrightarrow> length (dbg_reg_bytes R) = DBG_REG_SIZE"
  by (simp add: dbg_reg_bytes_def DBG_REG_SIZE_def)

lemma copy_from_user_split: "copy_from_user n m = (left, bs) \<Longrightarrow> (left = 0) = (n \<le> length m) \<and> bs = take n m"
  by (auto simp: copy_from_user_def)

section \<open>Which requests are safe\<close>

text \<open>
  What the routine relies on: the library stores no more bytes than it was asked for, a dumped
  packet is a whole \<^verbatim>\<open>struct lmp_dump\<close>, and no call changes the pointers of the adapter.
\<close>

definition debug_lib_laws :: "'b bt_lib \<Rightarrow> 'b bt_debug_lib \<Rightarrow> bool" where
  "debug_lib_laws L D \<longleftrightarrow>
     (\<forall>rd \<in> {Bluetooth_Adap_ReadDspReg D, Bluetooth_Adap_ReadUsbReg D}. \<forall>a n B.
        length (fst (snd (rd a n B))) \<le> unat n \<and> bptrs L (snd (snd (rd a n B))) = bptrs L B) \<and>
     (\<forall>wr \<in> {Bluetooth_Adap_WriteDspReg D, Bluetooth_Adap_WriteUsbReg D}. \<forall>a bs B.
        bptrs L (snd (wr a bs B)) = bptrs L B) \<and>
     (\<forall>B. bptrs L (snd (Bluetooth_Adap_Get_Dumpdata D B)) = bptrs L B \<and>
        (\<forall>bs. fst (Bluetooth_Adap_Get_Dumpdata D B) = Some bs \<longrightarrow> LMP_DUMP_SIZE \<le> length bs)) \<and>
     (\<forall>B. bptrs L (Bluetooth_Adap_DiagSys D B) = bptrs L B)"

text \<open>The length in a register request, when it reaches the library, is at most the size of \<^verbatim>\<open>out\<close>.\<close>

definition debug_safe :: "bool \<Rightarrow> u32 \<Rightarrow> umem \<Rightarrow> bool" where
  "debug_safe alloc cmd m \<longleftrightarrow> cmd \<noteq> IOCTL_DBG_CRASH \<and>
     (alloc \<and> DBG_REG_SIZE \<le> length m \<and>
      cmd \<in> {IOCTL_READ_DSP_REG, IOCTL_WRITE_DSP_REG, IOCTL_READ_USB_REG} \<longrightarrow>
        unat (dr_len (dbg_reg_of m)) \<le> DBG_OUT_LEN)"

lemma dbg_reg_of_take:
  assumes "DBG_REG_SIZE \<le> length m"
  shows "dr_len (dbg_reg_of (take DBG_REG_SIZE m)) = dr_len (dbg_reg_of m)"
    "length (dr_out (dbg_reg_of (take DBG_REG_SIZE m))) = DBG_OUT_LEN"
proof -
  have "rd32 (take (DBG_REG_SIZE - 4) (drop 4 m)) = rd32 (take 4 (drop 4 m))"
    using rd32_take4 [of "take (DBG_REG_SIZE - 4) (drop 4 m)"] assms
    by (simp add: DBG_REG_SIZE_def DBG_OUT_LEN_def)
  then show "dr_len (dbg_reg_of (take DBG_REG_SIZE m)) = dr_len (dbg_reg_of m)"
    using assms by (simp add: dbg_reg_of_def drop_take DBG_REG_SIZE_def)
  show "length (dr_out (dbg_reg_of (take DBG_REG_SIZE m))) = DBG_OUT_LEN"
    using assms by (simp add: dbg_reg_of_def DBG_REG_SIZE_def)
qed

text \<open>A result that keeps the links of the drivers, the size of the user memory and the count.\<close>

definition debug_keeps ::
  "nat \<Rightarrow> ('a, 'b) clients \<Rightarrow> (int \<times> umem \<times> ('a, 'b) clients) option \<Rightarrow> bool" where
  "debug_keeps n c res \<longleftrightarrow> (\<exists>e m1 c1. res = Some (e, m1, c1) \<and> length m1 = n \<and> same_links c c1)"

lemma copy_to_user_len: "copy_to_user bs m = (left, m1) \<Longrightarrow> length m1 = length m"
  by (metis copy_to_user_length snd_conv)

lemma debug_read_keeps:
  assumes "badap c d = Some B" "bptrs (blib c) (snd (snd (rd (dr_addr R) (dr_len R) B))) = bptrs (blib c) B"
    and "length (fst (snd (rd (dr_addr R) (dr_len R) B))) \<le> length (dr_out R)"
  shows "debug_keeps (length m) c (debug_read rd (Some d) R m c)"
proof -
  obtain r bs B1 where "rd (dr_addr R) (dr_len R) B = (r, bs, B1)" by (metis prod_cases3)
  with assms show ?thesis
    using badap_upd_links [OF assms(1), of B1]
    by (auto simp: debug_read_def debug_keeps_def mem_write_def Let_def copy_to_user_len split: prod.split)
qed

lemma debug_write_keeps:
  assumes "badap c d = Some B" "\<And>bs. bptrs (blib c) (snd (wr (dr_addr R) bs B)) = bptrs (blib c) B"
    and "n \<le> length (src R)"
  shows "debug_keeps (length m) c (debug_write wr n src (Some d) R m c)"
proof -
  obtain r B1 where "wr (dr_addr R) (take n (src R)) B = (r, B1)" by (metis prod.exhaust)
  with assms(1,3) assms(2) [of "take n (src R)"] show ?thesis
    using badap_upd_links [OF assms(1), of B1]
    by (auto simp: debug_write_def debug_keeps_def mem_read_def)
qed

lemma debug_dump_keeps:
  assumes "badap c d = Some B" "debug_lib_laws (blib c) D"
  shows "debug_keeps (length m) c (debug_dump D (Some d) m c)"
proof -
  obtain skb B1 where g: "Bluetooth_Adap_Get_Dumpdata D B = (skb, B1)" by (metis prod.exhaust)
  have "bptrs (blib c) B1 = bptrs (blib c) B" "\<And>bs. skb = Some bs \<Longrightarrow> LMP_DUMP_SIZE \<le> length bs"
    using assms(2) g by (auto simp: debug_lib_laws_def dest: spec [of _ B])
  then show ?thesis
    using assms(1) g badap_upd_links [OF assms(1), of B1]
    by (cases skb)
      (auto simp: debug_dump_def debug_keeps_def mem_read_def Let_def copy_to_user_len split: prod.split)
qed

lemma debug_diag_keeps:
  assumes "badap c d = Some B" "debug_lib_laws (blib c) D"
  shows "debug_keeps (length m) c (debug_diag D (Some d) m c)"
  using assms badap_upd_links [OF assms(1), of "Bluetooth_Adap_DiagSys D B"]
  by (simp add: debug_diag_def debug_keeps_def bt_adap_upd_def debug_lib_laws_def)

section \<open>The routine\<close>

lemma debug_reg_keeps:
  assumes "\<And>R. alloc \<Longrightarrow> DBG_REG_SIZE \<le> length m \<Longrightarrow> R = dbg_reg_of (take DBG_REG_SIZE m) \<Longrightarrow>
    debug_keeps (length m) c (f R m c)"
  shows "\<exists>e m1 reg g1 c1. debug_reg alloc f m g c = Some (e, m1, reg, g1, c1) \<and> length m1 = length m \<and>
    same_links c c1 \<and> dbg_blocks g1 = dbg_blocks g + of_bool reg"
proof (cases "alloc \<and> DBG_REG_SIZE \<le> length m")
  case True
  with assms have "debug_keeps (length m) c (f (dbg_reg_of (take DBG_REG_SIZE m)) m c)" by blast
  then obtain e m1 c1 where f: "f (dbg_reg_of (take DBG_REG_SIZE m)) m c = Some (e, m1, c1)"
    "length m1 = length m" "same_links c c1"
    by (auto simp: debug_keeps_def)
  with True have "debug_reg alloc f m g c = Some (e, m1, True, g\<lparr>dbg_blocks := Suc (dbg_blocks g)\<rparr>, c1)"
    by (simp add: debug_reg_def umem_simps)
  with f show ?thesis by auto
next
  case False
  have "same_links c c" by simp
  with False show ?thesis by (auto simp: debug_reg_def copy_from_user_def Let_def)
qed

lemma debug_switch_keeps:
  assumes B: "badap c d = Some B" and L: "debug_lib_laws (blib c) D" and safe: "debug_safe alloc cmd m"
  shows "\<exists>e m1 reg g1 c1. debug_switch D alloc (Some d) cmd arg m g c = Some (e, m1, reg, g1, c1) \<and>
    length m1 = length m \<and> same_links c c1 \<and> dbg_blocks g1 = dbg_blocks g + of_bool reg"
proof -
  let ?R = "dbg_reg_of (take DBG_REG_SIZE m)"
  have len: "unat (dr_len ?R) \<le> length (dr_out ?R)"
    if "alloc" "DBG_REG_SIZE \<le> length m"
      "cmd \<in> {IOCTL_READ_DSP_REG, IOCTL_WRITE_DSP_REG, IOCTL_READ_USB_REG}"
    using safe that dbg_reg_of_take [OF that(2)] by (auto simp: debug_safe_def)
  have rd: "debug_keeps (length m) c (debug_read rd (Some d) ?R m c)"
    if "alloc" "DBG_REG_SIZE \<le> length m" "cmd \<in> {IOCTL_READ_DSP_REG, IOCTL_READ_USB_REG}"
      "rd \<in> {Bluetooth_Adap_ReadDspReg D, Bluetooth_Adap_ReadUsbReg D}" for rd
  proof (rule debug_read_keeps [OF B])
    have law: "length (fst (snd (rd a n B))) \<le> unat n \<and> bptrs (blib c) (snd (snd (rd a n B))) = bptrs (blib c) B"
      for a n using L that(4) by (auto simp: debug_lib_laws_def)
    then show "bptrs (blib c) (snd (snd (rd (dr_addr ?R) (dr_len ?R) B))) = bptrs (blib c) B" by blast
    show "length (fst (snd (rd (dr_addr ?R) (dr_len ?R) B))) \<le> length (dr_out ?R)"
      using law [of "dr_addr ?R" "dr_len ?R"] len that by fastforce
  qed
  have wr: "bptrs (blib c) (snd (wr a bs B)) = bptrs (blib c) B"
    if "wr \<in> {Bluetooth_Adap_WriteDspReg D, Bluetooth_Adap_WriteUsbReg D}" for wr a bs
    using L that by (auto simp: debug_lib_laws_def)
  have plain: ?thesis
    if "debug_switch D alloc (Some d) cmd arg m g c = do { (e, m1, c1) \<leftarrow> res; Some (e, m1, False, g, c1) }"
      "debug_keeps (length m) c res" for res
  proof -
    note r = that
    obtain e m1 c1 where "res = Some (e, m1, c1)" "length m1 = length m" "same_links c c1"
      using r(2) by (auto simp: debug_keeps_def)
    with r(1) show ?thesis by auto
  qed
  have regs: ?thesis
    if "debug_switch D alloc (Some d) cmd arg m g c = debug_reg alloc f m g c"
      "alloc \<Longrightarrow> DBG_REG_SIZE \<le> length m \<Longrightarrow> debug_keeps (length m) c (f ?R m c)" for f
    unfolding that(1) by (rule debug_reg_keeps) (use that(2) in blast)
  consider "cmd = HCISETDBGZONE" | "cmd = IOCTL_READ_DSP_REG" | "cmd = IOCTL_WRITE_DSP_REG"
    | "cmd = IOCTL_READ_USB_REG" | "cmd = IOCTL_WRITE_USB_REG" | "cmd = IOCTL_DUMP_LMP_PKT"
    | "cmd = IOCTL_SYS_DIAG"
    | "cmd \<notin> {HCISETDBGZONE, IOCTL_READ_DSP_REG, IOCTL_WRITE_DSP_REG, IOCTL_READ_USB_REG,
        IOCTL_WRITE_USB_REG, IOCTL_DUMP_LMP_PKT, IOCTL_SYS_DIAG}" by blast
  then show ?thesis
  proof cases
    case 2
    show ?thesis
      by (rule regs [of "debug_read (Bluetooth_Adap_ReadDspReg D) (Some d)"])
        (use 2 rd in \<open>simp_all add: debug_switch_def\<close>)
  next
    case 3
    show ?thesis
      by (rule regs [of "\<lambda>R. debug_write (Bluetooth_Adap_WriteDspReg D) (unat (dr_len R)) dr_out (Some d) R"])
        (use 3 len wr in \<open>simp_all add: debug_switch_def debug_write_keeps [OF B]\<close>)
  next
    case 4
    show ?thesis
      by (rule regs [of "debug_read (Bluetooth_Adap_ReadUsbReg D) (Some d)"])
        (use 4 rd in \<open>simp_all add: debug_switch_def\<close>)
  next
    case 5
    show ?thesis
      by (rule regs [of "debug_write (Bluetooth_Adap_WriteUsbReg D) 1 (\<lambda>R. le32 (dr_len R)) (Some d)"])
        (use 5 wr in \<open>simp_all add: debug_switch_def debug_write_keeps [OF B]\<close>)
  next
    case 6
    show ?thesis by (rule plain [OF _ debug_dump_keeps [OF B L]]) (use 6 in \<open>simp add: debug_switch_def\<close>)
  next
    case 7
    show ?thesis by (rule plain [OF _ debug_diag_keeps [OF B L]]) (use 7 in \<open>simp add: debug_switch_def\<close>)
  qed (use safe in \<open>auto simp: debug_switch_def debug_safe_def\<close>)
qed

text \<open>
  A safe request returns from every state of the system, frees what it allocated and keeps the
  invariant of the bus and of both drivers.
\<close>

lemma debug_request_runs:
  assumes ok: "run_ok W w" and h: "hcidev_of w h"
    and L: "debug_lib_laws (blib (client w)) D" and safe: "debug_safe alloc cmd m"
  shows "\<exists>e m1 g1 c1. hci_usb_ioctl D alloc h cmd arg m g (client w) = Some (e, m1, g1, c1) \<and>
    length m1 = length m \<and> dbg_blocks g1 = dbg_blocks g \<and> run_ok W (with_client c1 w)"
proof -
  from ok h obtain a d B hx x where B: "badap (client w) d = Some B"
    and hx: "hdevs (client w) h = Some hx" "hd_drvdata hx = Some d"
    by (rule hcidev_ofE)
  obtain e m1 reg g1 c1 where r: "debug_switch D alloc (Some d) cmd arg m g (client w) = Some (e, m1, reg, g1, c1)"
    "length m1 = length m" "same_links (client w) c1" "dbg_blocks g1 = dbg_blocks g + of_bool reg"
    using debug_switch_keeps [OF B L safe] by blast
  have "run_ok W (with_client c1 w)" "run_ok W (with_client (client w) w)"
    by (rule run_ok_links [OF ok], use r(3) in simp)+
  with r hx show ?thesis by (cases "hd_running hx") (auto simp: hci_usb_ioctl_def)
qed

text \<open>
  The length is not compared with the size of \<^verbatim>\<open>out\<close>: a write of more bytes makes the
  library read past the structure.
\<close>

lemma debug_long_write_crashes:
  assumes "hdevs c h = Some hx" "hd_running hx" "DBG_REG_SIZE \<le> length m"
    and "DBG_OUT_LEN < unat (dr_len (dbg_reg_of m))"
  shows "hci_usb_ioctl D True h IOCTL_WRITE_DSP_REG arg m g c = None"
proof -
  have "debug_write wr (unat (dr_len R)) dr_out devExt R m c = None"
    if "R = dbg_reg_of (take DBG_REG_SIZE m)" for wr devExt R
    using assms(4) dbg_reg_of_take [OF assms(3)] that
    by (auto simp: debug_write_def mem_read_def split: bind_splits)
  with assms(1-3) show ?thesis
    by (simp add: hci_usb_ioctl_def debug_switch_def debug_reg_def umem_simps)
qed

text \<open>A request the switch does not know, like the two commands without a case, reports success.\<close>

lemma debug_unknown_succeeds:
  assumes "hdevs c h = Some hx" "hd_running hx"
    and "cmd \<notin> HCI_IOW ` {101, 104, 105, 106, 107, 108, 109, 110}"
  shows "hci_usb_ioctl D alloc h cmd arg m g c = Some (0, m, g, c)"
  using assms by (simp add: hci_usb_ioctl_def debug_switch_def)

end
