(* ===== verification/Spec2Isabelle.thy ===== *)
theory Spec2Isabelle
  imports Witnesses Wext_Witnesses Os_Witnesses Os_Mem Os_Rx Os_Table Os_Usb_Props Uwb_Main_Props
    Gui_Props Bt_Debug Wext_Args
begin

text \<open>
  A model of the Linux drivers for the 3DSP WLAN and Bluetooth combo card
  (\<^verbatim>\<open>src/driver_src\<close>) and of the two utilities that control it
  (\<^verbatim>\<open>src/applications/uwbtool\<close> and \<^verbatim>\<open>src/applications/uwb\<close>), with the theorems that
  make them correct.

  \<^bold>\<open>The program.\<close> Three kernel modules work together. The bus module
  (\<^verbatim>\<open>bus/businit.c\<close>, \<^verbatim>\<open>bus/busioctl.c\<close>) keeps a table of three device slots; a client
  driver registers an interface with an open and a close callback in it, and the control utility
  starts and stops devices, sets the hot key and the antenna and reads state through ioctls on
  the bus's character device. The WLAN driver (\<^verbatim>\<open>wlan/\<close>) and the Bluetooth driver
  (\<^verbatim>\<open>new_bluetooth/\<close>) are the clients: their USB probe creates an adapter and registers an
  interface, their callbacks create and destroy the network device and the HCI device. The
  hardware itself is driven by two libraries that exist only as binaries; they are parameters
  of the model (records of functions, with the laws the drivers rely on as named hypotheses).

  \<^bold>\<open>The build.\<close> The configuration modelled is the one of the build logs in the tree: i386,
  so an \<^verbatim>\<open>unsigned long\<close> is 32 bits, Linux 3.8, the macros \<^verbatim>\<open>TDSP_RF_WLAN_SUPPORT\<close>
  and \<^verbatim>\<open>WB_PROXY_FLAG\<close> defined and \<^verbatim>\<open>DBG\<close>, \<^verbatim>\<open>TDSP_RF_GPS_SUPPORT\<close>,
  \<^verbatim>\<open>TDSP_LOAD_EEPROM_SUPPORT\<close> and \<^verbatim>\<open>TDSP_BUS_DRIVER_CONTROL_HARDWARE\<close> undefined.

  \<^bold>\<open>Conventions.\<close> A definition carries the name of the C function it translates (with the
  prefix \<open>wlan_\<close> or \<open>bt_\<close> where both drivers have one of that name). State is passed
  explicitly; a function that can crash the kernel returns an \<open>option\<close>, \<open>None\<close> being the
  crash (a dereference of NULL or of freed memory, an overrun of a stack object, a wait that
  nothing can end). Debug output has no effect on the state and is left out.

  \<^bold>\<open>Theories.\<close>
    \<^item> \<^verbatim>\<open>Tdsp_Prelude\<close>: machine words, error numbers, user memory, shared lemmas.
    \<^item> \<^verbatim>\<open>Bus_Core\<close>: the bus module's state and the operations of \<^verbatim>\<open>businit.c\<close>.
    \<^item> \<^verbatim>\<open>Bus_Inv\<close>, \<^verbatim>\<open>Bus_Ops\<close>: the invariant \<open>bus_inv\<close> of the device table, the
      locale \<open>bus_client\<close> that is the contract between the bus and the drivers, and inside
      it the proof that every operation returns and keeps the invariant.
    \<^item> \<^verbatim>\<open>Bus_Ioctl\<close>, \<^verbatim>\<open>Bus_Ioctl_Ok\<close>, \<^verbatim>\<open>Bus_Spec\<close>: the ioctl interface of
      \<^verbatim>\<open>busioctl.c\<close>, its safety, and what the queries answer in terms of the devices.
    \<^item> \<^verbatim>\<open>Client_State\<close>, \<^verbatim>\<open>Wlan_Netdev\<close>, \<^verbatim>\<open>Wlan_Driver\<close>, \<^verbatim>\<open>Bt_Driver\<close>: the two
      drivers, from \<^verbatim>\<open>lwlan_netdev.c\<close>, \<^verbatim>\<open>lwlan_entry.c\<close>,
      \<^verbatim>\<open>lbluetooth_entry.c\<close> and both files \<^verbatim>\<open>tdsp_bus.c\<close>.
    \<^item> \<^verbatim>\<open>Tdsp_System\<close>: the callbacks of both drivers as the bus's clients, the drivers'
      invariant \<open>drivers_inv\<close>, their contract \<open>sys_link\<close> with the bus, the hypothesis
      \<open>env_ok\<close> on the kernel, and the interpretation of \<open>bus_client\<close> on the contract with it.
    \<^item> \<^verbatim>\<open>Sys_Spec\<close>, \<^verbatim>\<open>Client_Spec\<close>: the properties of the whole system and of the
      two drivers.
    \<^item> \<^verbatim>\<open>Bus_Switches\<close>: three abstract switches, one per device, which the bus's plug-in and
      unplug refine; a switch goes on when \<open>driver_opens\<close>, the open callback of its driver, says so.
    \<^item> \<^verbatim>\<open>Tdsp_String\<close>, \<^verbatim>\<open>Wext_Data\<close>, \<^verbatim>\<open>Wext_Radio\<close>, \<^verbatim>\<open>Wext_Handlers\<close>,
      \<^verbatim>\<open>Wext_Keys\<close>, \<^verbatim>\<open>Wext_Scan\<close>, \<^verbatim>\<open>Wext_Table\<close>: the wireless extensions of the WLAN
      driver, from \<^verbatim>\<open>tdsp_string.h\<close> and \<^verbatim>\<open>lwlan_ioctl.c\<close>: frequencies and keys, the
      handlers, the scan results, the private commands and the table that selects a handler.  The
      kernel's functions that append an event to a scan answer are parameters, with the laws
      \<open>iwe_laws\<close> as their documented behaviour.
    \<^item> \<^verbatim>\<open>Wext_Scan_Spec\<close>, \<^verbatim>\<open>Wext_Spec\<close>: the answer of a scan as the concatenation of the
      events of the access points, and the properties of the handlers.
    \<^item> \<^verbatim>\<open>Wext_Args\<close>: the private commands as the driver advertises them, which of
      them the table of handlers and the handlers serve, and \<open>core_extra\<close>, the size of the buffer
      the wireless core gives each handler.
    \<^item> \<^verbatim>\<open>Bus_Frame\<close>, \<^verbatim>\<open>Bus_Shut\<close>: what no ioctl of the bus changes; the locale
      \<open>bus_closer\<close>, the contract under which a device the bus does not hold as started is closed.
    \<^item> \<^verbatim>\<open>Sys_Devices\<close>: the interpretation of \<open>bus_closer\<close> on both drivers: every network
      and HCI device of the kernel belongs to an adapter that points back to it.
    \<^item> \<^verbatim>\<open>Sys_Run\<close>: the requests of user space and of the kernel as events of one
      system, and the proof that no request crashes.
    \<^item> \<^verbatim>\<open>Sys_Links\<close>, \<^verbatim>\<open>Sys_Hotplug\<close>: runs that start at module load and mix
      these requests with probes and disconnections of both cards; every adapter that was told of a
      bus interface stays linked with it, every device that exists is one whose requests are safe,
      every bound USB interface leads to an adapter of its own, and nothing crashes.
    \<^item> \<^verbatim>\<open>Bt_Debug\<close>: the debug requests of \<^verbatim>\<open>hci_usb_ioctl\<close>, which the driver no
      longer registers: the safe ones keep the invariant of the system and free what they allocate.
    \<^item> \<^verbatim>\<open>Os_State\<close>, \<^verbatim>\<open>Os_Types\<close>: the kernel's objects (locks, events, tasklets, work items,
      timers, socket buffers), what of them is pending, the invariant \<open>os_typed\<close>, and the locale
      \<open>os_object\<close> that is the contract of a pair of functions creating and destroying the object
      of a handle.
    \<^item> \<^verbatim>\<open>Os_Wlan\<close>, \<^verbatim>\<open>Os_Bt\<close>: the wrappers of both drivers (\<^verbatim>\<open>tdsp_mutex.c\<close>,
      \<^verbatim>\<open>tdsp_event.c\<close>, \<^verbatim>\<open>tdsp_tasklet.c\<close>, \<^verbatim>\<open>tdsp_timer.c\<close>, \<^verbatim>\<open>tdsp_skb.c\<close>,
      \<^verbatim>\<open>tdsp_work.c\<close>) and the interpretations of \<open>os_object\<close> on them.
    \<^item> \<^verbatim>\<open>Os_Spec\<close>, \<^verbatim>\<open>Os_Props\<close>: typing of every wrapper, and the properties of sequences of
      calls, of worklets and of the buffer queue.
    \<^item> \<^verbatim>\<open>Os_Usb\<close>, \<^verbatim>\<open>Os_Usb_Spec\<close>, \<^verbatim>\<open>Os_Usb_Props\<close>: the USB
      wrappers of both drivers (\<^verbatim>\<open>tdsp_usb.c\<close>) over a model of the kernel's USB core; the
      locale \<open>usb_transfer\<close>, the contract of a function that fills and submits a request, with
      its interpretations on both drivers; runs in which every accepted transfer is answered by the
      right routine, set-up packets and control messages.
    \<^item> \<^verbatim>\<open>Os_Mem\<close>, \<^verbatim>\<open>Os_Rx\<close>: the wrappers of memory and files
      (\<^verbatim>\<open>tdsp_memory.c\<close>, \<^verbatim>\<open>tdsp_file.c\<close>) over blocks of bytes, and the receive path of
      \<^verbatim>\<open>lwlan_netdev.h\<close> from a fresh socket buffer to the network stack.
    \<^item> \<^verbatim>\<open>Os_Table\<close>: the tables of functions the libraries call the kernel with
      (\<^verbatim>\<open>usbwlan_lib.h\<close>, \<^verbatim>\<open>usbbt_lib.h\<close>), loading and unloading of the two drivers, and
      that the tables have no NULL field when the USB core may call a driver.
    \<^item> \<^verbatim>\<open>Uwb_State\<close>, \<^verbatim>\<open>Uwb_Tool\<close>: the control utility of
      \<^verbatim>\<open>applications/uwbtool\<close>: its globals, the requests of \<^verbatim>\<open>main.c\<close> to the bus's
      character device, and the mode commands of \<^verbatim>\<open>callbacks.c\<close>.  The device is a parameter, a
      record of what opening it, an ioctl and closing it do.
    \<^item> \<^verbatim>\<open>Uwb_Spec\<close>, \<^verbatim>\<open>Uwb_Modes\<close>: the locale \<open>wb_bus\<close>, the contract between the
      utility and the device, and what the commands do over any device that keeps it.
    \<^item> \<^verbatim>\<open>Uwb_Sys\<close>, \<^verbatim>\<open>Uwb_Props\<close>: the interpretation of \<open>wb_bus\<close> on the modelled bus
      with both drivers behind it, and the properties of the commands on the whole system.  They
      speak of a set \<open>W\<close> of devices whose drivers start when asked (\<open>promise\<close>), which may be empty.
    \<^item> \<^verbatim>\<open>Libc_Text\<close>, \<^verbatim>\<open>Uwb_Parse\<close>, \<^verbatim>\<open>Uwb_Parse_Spec\<close>: what the utilities use
      of the C library on text, the readers of the configuration file and of hexadecimal arguments,
      and what they compute: on any text, the search for a name is the lookup \<open>search\<close> in its lines.
    \<^item> \<^verbatim>\<open>Uwb_Version\<close>, \<^verbatim>\<open>Uwb_Main\<close>, \<^verbatim>\<open>Uwb_Main_Spec\<close>,
      \<^verbatim>\<open>Uwb_Main_Props\<close>: the version report, the options and \<^verbatim>\<open>main\<close> of
      \<^verbatim>\<open>uwbtool\<close>, \<^verbatim>\<open>main\<close> over any device that keeps \<open>wb_bus\<close>, and on the
      modelled system.
    \<^item> \<^verbatim>\<open>Gui_State\<close>, \<^verbatim>\<open>Gui_Menu\<close>, \<^verbatim>\<open>Gui_Main\<close>,
      \<^verbatim>\<open>Gui_Version\<close>: the graphical utility of \<^verbatim>\<open>applications/uwb\<close>.  Its globals extend
      those of \<^verbatim>\<open>uwbtool\<close> by the menu, the icon and the events that will have come by the
      next times the program looks for them; its requests are \<^verbatim>\<open>uwbtool\<close>'s on the larger
      record.  The commands of \<^verbatim>\<open>callbacks.c\<close>, the tray, the timer, the version report and
      \<^verbatim>\<open>main\<close> of \<^verbatim>\<open>main.c\<close>, the menu of \<^verbatim>\<open>interface.c\<close>.  An item the program
      checks may call the item's callback from inside the callback that is running, and so may an
      event that is run during a command.
    \<^item> \<^verbatim>\<open>Gui_Spec\<close>, \<^verbatim>\<open>Gui_Start\<close>: the locale \<open>gui_bus\<close>, the contract of the
      callback that delivers events, and inside it what the commands and the events do; the locale
      \<open>wb_start\<close>, the contract of the device with the requests \<^verbatim>\<open>main\<close> makes, of which
      \<open>gui_bus\<close> is a sublocale for the program's own callback.
    \<^item> \<^verbatim>\<open>Gui_Props\<close>: the interpretation of \<open>wb_start\<close> on the modelled bus with both drivers
      behind it, and the properties of the graphical utility on the whole system.
    \<^item> \<^verbatim>\<open>Demo_State\<close>, \<^verbatim>\<open>Witnesses\<close>, \<^verbatim>\<open>Wext_Witnesses\<close>, \<^verbatim>\<open>Os_Witnesses\<close>: concrete
      states and the properties applied to them.

  \<^bold>\<open>Hypotheses.\<close> Every property names what it takes from outside the repository.
  \<open>env_ok\<close>: the kernel's allocations of the WLAN counters and registrations of network devices
  succeed; the driver writes through the NULL of a failed allocation and keeps a pointer to the
  device of a failed registration (\<^verbatim>\<open>Client_Spec\<close>), so no property of plugging in holds
  without it.  \<open>wlan_lib_laws\<close> and \<open>bt_lib_laws\<close>, part of \<open>drivers_inv\<close>: the closed libraries keep the pointers stored with
  them.  \<open>wext_sizes\<close>: their objects have the sizes of their headers.  \<open>keys_fit\<close>: the keys they
  report have at most 16 bytes, which no header says; only the two requests that copy a key out
  need it, and \<open>long_key_overruns\<close> shows that they do.  For the utilities: a card is registered
  and memory allocation does not fail.

  \<^bold>\<open>Bounds.\<close> \<open>Bus_UnPlugDevice\<close> calls itself; its first argument bounds the depth of
  the calls and \<open>unplug_depth\<close> (in \<^verbatim>\<open>Bus_Ops\<close>) shows that two levels are enough, so the
  ioctl uses that depth.  The loops of the string and scan functions recurse on the length of the
  object they may read; running past it is the crash \<open>None\<close>, so no fuel can run out unnoticed.
  The loop over the configuration file ends because every read takes bytes of the file or meets
  its end.  \<open>deliver\<close> takes the number of levels of events inside events; the contract
  \<open>gui_bus\<close> holds from one level on, because a callback that runs during another returns at
  once, so the two levels below the outermost of the three in \<open>levels\<close> are enough.

  \<^bold>\<open>Not modelled.\<close> Concurrency: an entry point runs to its end before the next one starts,
  except that a worklet's function is left unfinished while other calls run.  The code the
  configuration leaves out, the structures of entry points that are handed to the kernel, and
  debug output.  The dialogs, notifications and
  pictures of the graphical utility, which are calls of the toolkit only, the module glue of the binary
  libraries under \<^verbatim>\<open>private\<close>, and the Python program \<^verbatim>\<open>3dsp-wifi-radar\<close>.
\<close>

end
